(* ===== verification/Sizes.thy ===== *)
theory Sizes
  imports Prelude
begin

text \<open>
  Byte sizes as text (\<open>core/andler-core/src/sizes.rs\<close>): \<open>parse_size\<close> with every error, and
  \<open>format_size\<close> with the binary64 arithmetic of its \<open>{:.1}\<close> branches written out: the
  conversion of a 64-bit count to a 53-bit mantissa (to nearest, ties to even), the exact
  division by a power of two, and the one-decimal rendering (to nearest, ties to even).
\<close>

datatype size_error =
    EmptySize
  | MissingNumber string
  | DecimalSize
  | InvalidNumber string
  | SizeTooLarge string
  | UnknownUnit string

definition checked_mul :: "u64 \<Rightarrow> u64 \<Rightarrow> u64 option" where
  "checked_mul a b = (if unat a * unat b < 2 ^ 64 then Some (a * b) else None)"

definition size_unit :: "string \<Rightarrow> u64 option" where
  "size_unit u =
     (if u = '''' \<or> u = ''B'' then Some 1
      else if u = ''KB'' \<or> u = ''KIB'' \<or> u = ''K'' then Some 1024
      else if u = ''MB'' \<or> u = ''MIB'' \<or> u = ''M'' then Some (1024 * 1024)
      else if u = ''GB'' \<or> u = ''GIB'' \<or> u = ''G'' then Some (1024 * 1024 * 1024)
      else if u = ''TB'' \<or> u = ''TIB'' \<or> u = ''T'' then Some (1024 * 1024 * 1024 * 1024)
      else None)"

definition parse_size :: "string \<Rightarrow> size_error + u64" where
  "parse_size raw =
     (let input = replace_chars [CHR '' ''] (to_upper (trim raw)) in
      if input = [] then Inl EmptySize
      else
        (let number_part = takeWhile is_digit input;
             unit_part = dropWhile is_digit input in
         if number_part = [] then Inl (MissingNumber unit_part)
         else if starts_with ''.'' unit_part then Inl DecimalSize
         else rbind (ok_or (InvalidNumber number_part) (parse_u64 number_part)) (\<lambda>number.
           case size_unit unit_part of
             None \<Rightarrow> Inl (UnknownUnit unit_part)
           | Some m \<Rightarrow> ok_or (SizeTooLarge input) (checked_mul number m))))"

text \<open>Round \<open>a / b\<close> to the nearest integer, ties to even.\<close>

definition div_half_even :: "nat \<Rightarrow> nat \<Rightarrow> nat" where
  "div_half_even a b =
     (let q = a div b; r = a mod b in
      if 2 * r < b then q else if b < 2 * r then Suc q
      else if even q then q else Suc q)"

fun bit_length :: "nat \<Rightarrow> nat" where
  "bit_length n = (if n = 0 then 0 else Suc (bit_length (n div 2)))"

declare bit_length.simps [simp del]

text \<open>\<open>bytes as f64\<close>: always an integer, here its value.\<close>

definition as_f64 :: "u64 \<Rightarrow> nat" where
  "as_f64 w =
     (let n = unat w; e = bit_length n - 53 in
      if bit_length n \<le> 53 then n else div_half_even n (2 ^ e) * 2 ^ e)"

text \<open>\<open>{:.1}\<close> of the quotient of an integer-valued double by a power of two.\<close>

definition show_tenths :: "nat \<Rightarrow> nat \<Rightarrow> string" where
  "show_tenths num den =
     (let t = div_half_even (10 * num) den in show_nat (t div 10) @ ''.'' @ show_nat (t mod 10))"

definition format_size :: "u64 \<Rightarrow> string" where
  "format_size bytes =
     (let TIB = 1024 * 1024 * 1024 * 1024; GIB = 1024 * 1024 * 1024; MIB = 1024 * 1024; KIB = 1024 in
      if bytes > 0 \<and> bytes mod TIB = 0 then show_word (bytes div TIB) @ '' TiB''
      else if bytes > 0 \<and> bytes mod GIB = 0 then show_word (bytes div GIB) @ '' GiB''
      else if bytes > 0 \<and> bytes mod MIB = 0 then show_word (bytes div MIB) @ '' MiB''
      else if bytes \<ge> GIB then show_tenths (as_f64 bytes) (unat GIB) @ '' GiB''
      else if bytes \<ge> MIB then show_tenths (as_f64 bytes) (unat MIB) @ '' MiB''
      else if bytes \<ge> KIB then show_tenths (as_f64 bytes) (unat KIB) @ '' KiB''
      else show_word bytes @ '' B'')"

section \<open>Lemmas\<close>

lemma upper_digits: "list_all is_digit s \<Longrightarrow> to_upper s = s"
  by (induction s) (auto simp: to_upper_def)

lemma digits_no_space: "list_all is_digit s \<Longrightarrow> replace_chars [CHR '' ''] s = s"
  by (induction s) (auto simp: replace_chars_def is_digit_def byte_def)

lemma takeWhile_digits:
  "list_all is_digit s \<Longrightarrow> \<not> is_digit c \<Longrightarrow> takeWhile is_digit (s @ c # r) = s"
  by (induction s) auto

lemma dropWhile_digits:
  "list_all is_digit s \<Longrightarrow> \<not> is_digit c \<Longrightarrow> dropWhile is_digit (s @ c # r) = c # r"
  by (induction s) auto

text \<open>What \<open>parse_size\<close> sees of a printed size: the digits, then the unit without its space.\<close>

lemma parse_size_digits:
  assumes ds: "list_all is_digit ds" "ds \<noteq> []"
    and t: "t \<noteq> []" "\<not> is_space (last t)"
    and u: "u = replace_chars [CHR '' ''] (to_upper t)" "u \<noteq> []" "\<not> is_digit (hd u)"
  shows "parse_size (ds @ t) =
    (if starts_with ''.'' u then Inl DecimalSize
     else rbind (ok_or (InvalidNumber ds) (parse_u64 ds)) (\<lambda>number.
           case size_unit u of
             None \<Rightarrow> Inl (UnknownUnit u)
           | Some m \<Rightarrow> ok_or (SizeTooLarge (ds @ u)) (checked_mul number m)))"
proof -
  have "trim (ds @ t) = ds @ t"
    by (rule trim_id) (use ds t in \<open>cases ds; auto\<close>)
  then have input: "replace_chars [CHR '' ''] (to_upper (trim (ds @ t))) = ds @ u"
    using digits_no_space[OF ds(1)] upper_digits[OF ds(1)] u(1)
    by (simp add: to_upper_def replace_chars_def)
  obtain c cs where cs: "u = c # cs" "\<not> is_digit c" using u(2,3) by (cases u) auto
  then have "takeWhile is_digit (ds @ u) = ds" "dropWhile is_digit (ds @ u) = u"
    using takeWhile_digits[OF ds(1) cs(2), of cs] dropWhile_digits[OF ds(1) cs(2), of cs] by simp_all
  then show ?thesis using ds(2) unfolding parse_size_def input Let_def by (simp cong: option.case_cong)
qed

lemma parse_size_decimal:
  assumes "list_all is_digit ds" "ds \<noteq> []" "\<not> is_space (last (CHR ''.'' # t))"
  shows "parse_size (ds @ ''.'' @ t) = Inl DecimalSize"
proof -
  have "replace_chars [CHR '' ''] (to_upper (''.'' @ t)) = CHR ''.'' # replace_chars [CHR '' ''] (to_upper t)"
    by (simp add: replace_chars_def to_upper_def upper_char_def byte_def)
  then show ?thesis
    using parse_size_digits[OF assms(1,2), of "''.'' @ t"] assms(3)
    by (simp add: starts_with_def is_digit_def byte_def)
qed

lemma parse_size_unit:
  assumes "t \<noteq> []" "\<not> is_space (last t)" "replace_chars [CHR '' ''] (to_upper t) = u"
    and "u \<noteq> []" "\<not> is_digit (hd u)" "\<not> starts_with ''.'' u" "size_unit u = Some m"
  shows "parse_size (show_word w @ t) = ok_or (SizeTooLarge (show_word w @ u)) (checked_mul w m)"
proof -
  have "list_all is_digit (show_word w)" by (simp add: show_word_def show_nat_digits)
  from parse_size_digits[OF this show_word_nonempty assms(1,2) assms(3)[symmetric] assms(4,5)]
  show ?thesis using assms(6,7) by simp
qed

lemma parse_size_units:
  "parse_size (show_word w @ '' TiB'') = ok_or (SizeTooLarge (show_word w @ ''TIB'')) (checked_mul w (1024 * 1024 * 1024 * 1024))"
  "parse_size (show_word w @ '' GiB'') = ok_or (SizeTooLarge (show_word w @ ''GIB'')) (checked_mul w (1024 * 1024 * 1024))"
  "parse_size (show_word w @ '' MiB'') = ok_or (SizeTooLarge (show_word w @ ''MIB'')) (checked_mul w (1024 * 1024))"
  "parse_size (show_word w @ '' B'') = ok_or (SizeTooLarge (show_word w @ ''B'')) (checked_mul w 1)"
  by (rule parse_size_unit; code_simp)+

lemma checked_mul_div:
  assumes "w mod m = 0" shows "checked_mul (w div m) m = Some (w :: u64)"
proof -
  have w: "w div m * m = w" using assms by (metis add.right_neutral div_mult_mod_eq)
  have "unat (w div m) * unat m = unat w div unat m * unat m" by (simp add: unat_div)
  also have "\<dots> \<le> unat w" by simp
  also have "\<dots> < 2 ^ 64" using unsigned_less[of w, where 'a = nat] by simp
  finally show ?thesis using w by (simp add: checked_mul_def)
qed

lemma parse_size_tenths:
  "u = '' GiB'' \<or> u = '' MiB'' \<or> u = '' KiB'' \<Longrightarrow> parse_size (show_tenths n d @ u) = Inl DecimalSize"
proof -
  assume u: "u = '' GiB'' \<or> u = '' MiB'' \<or> u = '' KiB''"
  define t where "t = div_half_even (10 * n) d"
  have "parse_size (show_nat (t div 10) @ ''.'' @ (show_nat (t mod 10) @ u)) = Inl DecimalSize"
    by (rule parse_size_decimal) (use u in \<open>auto simp: show_nat_digits is_space_def byte_def\<close>)
  then show ?thesis by (simp add: show_tenths_def Let_def flip: t_def)
qed

lemma mod_factor_zero:
  assumes "b mod w = 0" "unat w = unat m * k" shows "b mod m = (0 :: u64)"
proof -
  have "unat b mod (unat m * k) = 0" using assms by (metis unat_mod unsigned_0)
  then have "unat m dvd unat b" by (meson dvd_eq_mod_eq_0 dvd_mult_left)
  then have "unat (b mod m) = 0" by (simp add: unat_mod)
  then show ?thesis by (simp add: unat_eq_zero)
qed

lemma format_size_forms:
  "(\<exists>m s. format_size b = show_word (b div m) @ s \<and> b mod m = 0 \<and> b mod (1024 * 1024) = 0 \<and>
      (m, s) \<in> {(1024 * 1024 * 1024 * 1024, '' TiB''), (1024 * 1024 * 1024, '' GiB''), (1024 * 1024, '' MiB'')})
   \<or> (\<exists>n d u. format_size b = show_tenths n d @ u \<and> u \<in> {'' GiB'', '' MiB'', '' KiB''}
        \<and> \<not> b < 1024 \<and> b mod (1024 * 1024) \<noteq> 0)
   \<or> (format_size b = show_word b @ '' B'' \<and> b < 1024)"
proof -
  define tib gib mib :: u64 where c: "tib = 1024 * 1024 * 1024 * 1024" "gib = 1024 * 1024 * 1024" "mib = 1024 * 1024"
  have f: "format_size b =
      (if b > 0 \<and> b mod tib = 0 then show_word (b div tib) @ '' TiB''
      else if b > 0 \<and> b mod gib = 0 then show_word (b div gib) @ '' GiB''
      else if b > 0 \<and> b mod mib = 0 then show_word (b div mib) @ '' MiB''
      else if b \<ge> gib then show_tenths (as_f64 b) (unat gib) @ '' GiB''
      else if b \<ge> mib then show_tenths (as_f64 b) (unat mib) @ '' MiB''
      else if b \<ge> 1024 then show_tenths (as_f64 b) (unat (1024 :: u64)) @ '' KiB''
      else show_word b @ '' B'')"
    unfolding format_size_def Let_def c ..
  have tg: "b mod tib = 0 \<Longrightarrow> b mod mib = 0" "b mod gib = 0 \<Longrightarrow> b mod mib = 0"
    by (rule mod_factor_zero[where k = "1024 * 1024"], assumption, simp add: c)
       (rule mod_factor_zero[where k = 1024], assumption, simp add: c)
  have le: "1024 \<le> mib" "1024 \<le> gib" by (simp_all add: c word_le_nat_alt)
  show ?thesis
  proof (cases "b > 0 \<and> b mod mib = 0")
    case True
    then have b: "b > 0" "b mod mib = 0" by simp_all
    let ?P = "\<exists>m s. format_size b = show_word (b div m) @ s \<and> b mod m = 0 \<and> b mod mib = 0 \<and>
      (m, s) \<in> {(tib, '' TiB''), (gib, '' GiB''), (mib, '' MiB'')}"
    consider "b mod tib = 0" | "b mod tib \<noteq> 0" "b mod gib = 0" | "b mod tib \<noteq> 0" "b mod gib \<noteq> 0"
      by blast
    then have ?P
    proof cases
      case 1
      then have "format_size b = show_word (b div tib) @ '' TiB''" using 1 b by (simp add: f)
      then show ?thesis using 1 b by (intro exI[of _ tib] exI[of _ "'' TiB''"]) simp
    next
      case 2
      then have "format_size b = show_word (b div gib) @ '' GiB''" using 2 b by (simp add: f)
      then show ?thesis using 2 b by (intro exI[of _ gib] exI[of _ "'' GiB''"]) simp
    next
      case 3
      then have "format_size b = show_word (b div mib) @ '' MiB''" using 3 b by (simp add: f)
      then show ?thesis using b by (intro exI[of _ mib] exI[of _ "'' MiB''"]) simp
    qed
    then show ?thesis unfolding c by (rule disjI1)
  next
    case False
    have n: "\<not> (b > 0 \<and> b mod tib = 0)" using False tg(1) by metis
    have n': "\<not> (b > 0 \<and> b mod gib = 0)" using False tg(2) by metis
    show ?thesis
    proof (cases "b < 1024")
      case True
      then have "\<not> gib \<le> b" "\<not> mib \<le> b" using le by (meson leD order_trans)+
      then have "format_size b = show_word b @ '' B''" using True n n' False by (simp add: f not_le[symmetric])
      then show ?thesis using True by (intro disjI2 conjI)
    next
      case ge: False
      then have "b > 0" by (auto simp: word_less_nat_alt)
      then have m: "b mod mib \<noteq> 0" using False by simp
      have "format_size b =
          (if gib \<le> b then show_tenths (as_f64 b) (unat gib) @ '' GiB''
           else if mib \<le> b then show_tenths (as_f64 b) (unat mib) @ '' MiB''
           else show_tenths (as_f64 b) (unat (1024 :: u64)) @ '' KiB'')"
        unfolding f if_not_P[OF n] if_not_P[OF n'] if_not_P[OF False]
        using ge by (simp add: not_less)
      then have "\<exists>n d u. format_size b = show_tenths n d @ u \<and> u \<in> {'' GiB'', '' MiB'', '' KiB''}"
        by (metis insert_iff)
      then show ?thesis using ge m unfolding c by blast
    qed
  qed
qed

lemma parse_format:
  "parse_size (format_size b) =
     (if b < 1024 \<or> b mod (1024 * 1024) = 0 then Inr b else Inl DecimalSize)"
  using format_size_forms[of b]
proof (elim disjE exE conjE)
  fix m s assume f: "format_size b = show_word (b div m) @ s" "b mod m = 0" "b mod (1024 * 1024) = 0"
    "(m, s) \<in> {(1024 * 1024 * 1024 * 1024, '' TiB''), (1024 * 1024 * 1024, '' GiB''), (1024 * 1024, '' MiB'')}"
  have "parse_size (show_word (b div m) @ s) = Inr b"
    using f(4) checked_mul_div[OF f(2)] by (auto simp: parse_size_units simp del: mult_numeral_left)
  then show ?thesis using f by simp
next
  fix n d u assume "format_size b = show_tenths n d @ u" "u \<in> {'' GiB'', '' MiB'', '' KiB''}"
     "\<not> b < 1024" "b mod (1024 * 1024) \<noteq> 0"
  then show ?thesis using parse_size_tenths[of u n d] by auto
next
  assume "format_size b = show_word b @ '' B''" "b < 1024"
  moreover have "unat b < 2 ^ 64" using unsigned_less[of b, where 'a = nat] by simp
  ultimately show ?thesis by (simp add: parse_size_units checked_mul_def)
qed

text \<open>C33. What \<open>parse_size\<close> makes of what \<open>format_size\<close> prints, for every 64-bit count: counts
  below 1 KiB and non-zero multiples of 1 MiB come back exactly; every other count is printed
  with a decimal point and refused as a decimal size.\<close>

theorem parse_format_size:
  "parse_size (format_size b) =
     (if b < 1024 \<or> b mod (1024 * 1024) = 0 then Inr b else Inl DecimalSize)"
  by (rule parse_format)

end
