(* ===== verification/Config.thy ===== *)
theory Config
  imports Prelude
begin

text \<open>
  The configuration data model (\<open>core/andler-core/src/config/\<close> and \<open>android_profile.rs\<close>):
  one datatype per Rust enum, one record per struct, with the reference defaults, the
  instance id codec, \<open>InstanceConfig::validate\<close> and the schema migration loop. Paths and
  strings are byte strings, counts and sizes keep their machine width. Error values are
  datatypes with one constructor per message; the constructor carries the interpolated
  values.
\<close>

section \<open>Sections of a configuration\<close>

datatype audio_backend = Pipewire | Pulseaudio | NoAudio

datatype audio_device = VirtioSound | Ich9Hda

record audio_config =
  au_backend :: audio_backend
  au_device :: audio_device

definition audio_reference_default :: audio_config where
  "audio_reference_default = \<lparr>au_backend = Pipewire, au_device = VirtioSound\<rparr>"

datatype cdrom_bus = VirtioScsi | Ide

definition known_virtio_friendly_distros :: "string list" where
  "known_virtio_friendly_distros =
     [''cachyos'', ''ubuntu'', ''kubuntu'', ''xubuntu'', ''lubuntu'', ''fedora'', ''debian'',
      ''arch'', ''manjaro'', ''mint'', ''pop-os'', ''pop_os'', ''opensuse'', ''endeavouros'',
      ''garuda'', ''kali'', ''nixos'']"

text \<open>\<open>Path::file_name\<close>, on paths without a trailing \<open>..\<close> component: the text after the last
  separator once trailing separators are dropped.\<close>

definition file_name :: "string \<Rightarrow> string option" where
  "file_name p =
     (let r = dropWhile (\<lambda>c. c = CHR ''/'') (rev p);
          n = rev (takeWhile (\<lambda>c. c \<noteq> CHR ''/'') r)
      in if n = [] \<or> n = ''..'' then None else Some n)"

fun contains :: "string \<Rightarrow> string \<Rightarrow> bool" where
  "contains p [] = (p = [])"
| "contains p (c # s) = (starts_with p (c # s) \<or> contains p s)"

definition recommended_for_iso_filename :: "string \<Rightarrow> cdrom_bus" where
  "recommended_for_iso_filename iso_path =
     (case file_name iso_path of
        None \<Rightarrow> Ide
      | Some n \<Rightarrow>
          (let lower = to_lower n
           in if list_ex (\<lambda>distro. contains distro lower) known_virtio_friendly_distros
              then VirtioScsi else Ide))"

datatype cpu_priority = PrioLow | PrioNormal | PrioHigh

record cpu_config =
  cpu_cores :: u32
  cpu_sockets :: u32
  cpu_threads :: u32
  cpu_affinity :: "u64 list option"
  cpu_prio :: cpu_priority

definition cpu_reference_default :: cpu_config where
  "cpu_reference_default =
     \<lparr>cpu_cores = 4, cpu_sockets = 1, cpu_threads = 1, cpu_affinity = None,
      cpu_prio = PrioNormal\<rparr>"

datatype disk_format = Qcow2 | RawDisk | Vdi

record disk_config =
  disk_path :: string
  disk_size :: u64
  disk_format :: disk_format
  disk_base_image :: "string option"
  disk_thin :: bool
  disk_trim_on_shutdown :: bool
  disk_compact_on_shutdown :: bool
  disk_snapshot_timeout :: "u64 option"

definition GIB :: u64 where "GIB = 1024 * 1024 * 1024"

definition MIB :: u64 where "MIB = 1024 * 1024"

definition disk_reference_default :: "string \<Rightarrow> disk_config" where
  "disk_reference_default p =
     \<lparr>disk_path = p, disk_size = 256 * GIB, disk_format = Qcow2, disk_base_image = None,
      disk_thin = True, disk_trim_on_shutdown = True, disk_compact_on_shutdown = False,
      disk_snapshot_timeout = None\<rparr>"

definition disk_overlay :: "string \<Rightarrow> string \<Rightarrow> u64 \<Rightarrow> disk_config" where
  "disk_overlay p base sz =
     \<lparr>disk_path = p, disk_size = sz, disk_format = Qcow2, disk_base_image = Some base,
      disk_thin = True, disk_trim_on_shutdown = True, disk_compact_on_shutdown = False,
      disk_snapshot_timeout = None\<rparr>"

definition disk_standalone :: "string \<Rightarrow> u64 \<Rightarrow> disk_config" where
  "disk_standalone p sz =
     \<lparr>disk_path = p, disk_size = sz, disk_format = Qcow2, disk_base_image = None,
      disk_thin = True, disk_trim_on_shutdown = True, disk_compact_on_shutdown = False,
      disk_snapshot_timeout = None\<rparr>"

record resolution =
  res_width :: u32
  res_height :: u32

datatype display_engine = Sdl | Gtk | Spice | Dbus | NoDisplay

record display_config =
  disp_resolution :: resolution
  disp_dpi :: u32
  disp_fps_limit :: u32
  disp_engine :: display_engine
  disp_fullscreen :: bool

definition FPS_UNLIMITED :: u32 where "FPS_UNLIMITED = 0"

definition display_reference_default :: display_config where
  "display_reference_default =
     \<lparr>disp_resolution = \<lparr>res_width = 1920, res_height = 1080\<rparr>, disp_dpi = 96,
      disp_fps_limit = FPS_UNLIMITED, disp_engine = Sdl, disp_fullscreen = False\<rparr>"

record firmware_config =
  fw_enable_uefi :: bool
  fw_ovmf_code :: string
  fw_ovmf_vars :: string

definition firmware_reference_default :: "string \<Rightarrow> firmware_config" where
  "firmware_reference_default vars =
     \<lparr>fw_enable_uefi = True, fw_ovmf_code = ''/usr/share/edk2/x64/OVMF_CODE.4m.fd'',
      fw_ovmf_vars = vars\<rparr>"

definition firmware_with_code :: "string \<Rightarrow> string \<Rightarrow> firmware_config" where
  "firmware_with_code code vars =
     \<lparr>fw_enable_uefi = True, fw_ovmf_code = code, fw_ovmf_vars = vars\<rparr>"

datatype render_backend = Venus | VirtioGpu | VirGl | CpuRender | Passthrough string

fun is_implemented :: "render_backend \<Rightarrow> bool" where
  "is_implemented (Passthrough _) = False"
| "is_implemented _ = True"

record gpu_config =
  gpu_render :: render_backend
  gpu_hostmem :: u64
  gpu_blob :: bool
  gpu_gl :: bool

definition gpu_reference_default :: gpu_config where
  "gpu_reference_default =
     \<lparr>gpu_render = Venus, gpu_hostmem = 4096 * MIB, gpu_blob = True, gpu_gl = True\<rparr>"

datatype pointer_mode = Tablet | Mouse

record input_config =
  in_pointer_mode :: pointer_mode
  in_hide_host_cursor :: bool
  in_clipboard :: bool

definition input_reference_default :: input_config where
  "input_reference_default =
     \<lparr>in_pointer_mode = Tablet, in_hide_host_cursor = True, in_clipboard = True\<rparr>"

record memory_config =
  mem_size :: u64
  mem_ballooning :: bool
  mem_zram :: bool
  mem_ksm :: bool
  mem_lock :: bool
  mem_hugepages :: bool

definition memory_reference_default :: memory_config where
  "memory_reference_default =
     \<lparr>mem_size = 8 * GIB, mem_ballooning = False, mem_zram = False, mem_ksm = True,
      mem_lock = False, mem_hugepages = False\<rparr>"

section \<open>Networking\<close>

datatype nat_backend = Slirp | Passt

datatype network_mode = Nat | Bridge string | Isolated

datatype port_protocol = Tcp | Udp

record port_forward =
  pf_protocol :: port_protocol
  pf_host_port :: u16
  pf_guest_port :: u16
  pf_host_address :: "string option"

record network_config =
  net_mode :: network_mode
  net_device_model :: string
  net_nat_backend :: nat_backend
  net_port_forwards :: "port_forward list"

definition network_reference_default :: network_config where
  "network_reference_default =
     \<lparr>net_mode = Nat, net_device_model = ''virtio-net-pci'', net_nat_backend = Slirp,
      net_port_forwards = []\<rparr>"

datatype network_error =
    HostPortZero u16
  | GuestPortZero u16
  | ForwardsNeedNat

fun check_forwards :: "port_forward list \<Rightarrow> network_error + unit" where
  "check_forwards [] = Inr ()"
| "check_forwards (f # fs) =
     (if pf_host_port f = 0 then Inl (HostPortZero (pf_guest_port f))
      else if pf_guest_port f = 0 then Inl (GuestPortZero (pf_host_port f))
      else check_forwards fs)"

definition network_validate :: "network_config \<Rightarrow> network_error + unit" where
  "network_validate n =
     rbind (check_forwards (net_port_forwards n)) (\<lambda>_.
       if net_port_forwards n \<noteq> [] then
         (case net_mode n of
            Nat \<Rightarrow> Inr ()
          | Bridge _ \<Rightarrow> Inl ForwardsNeedNat
          | Isolated \<Rightarrow> Inl ForwardsNeedNat)
       else Inr ())"

section \<open>Android profiles\<close>

datatype android_version = Android11 | Android13

datatype arm_translator = NoTranslator | Libndk | Libhoudini

datatype android_boot_mode = BootAndroid | BootLinux

record base_image_pin =
  pin_id :: string
  pin_sha256 :: string

record android_profile =
  ap_version :: android_version
  ap_gapps :: bool
  ap_microg :: bool
  ap_arm_translator :: arm_translator
  ap_boot_mode :: android_boot_mode
  ap_base_image_pin :: "base_image_pin option"

fun show_android_version :: "android_version \<Rightarrow> string" where
  "show_android_version Android11 = ''11''"
| "show_android_version Android13 = ''13''"

fun show_boot_mode :: "android_boot_mode \<Rightarrow> string" where
  "show_boot_mode BootAndroid = ''android''"
| "show_boot_mode BootLinux = ''linux''"

fun show_arm_translator :: "arm_translator \<Rightarrow> string" where
  "show_arm_translator NoTranslator = ''none''"
| "show_arm_translator Libndk = ''libndk''"
| "show_arm_translator Libhoudini = ''libhoudini''"

datatype arm_translator_error = UnknownArmTranslator string

definition parse_arm_translator :: "string \<Rightarrow> arm_translator_error + arm_translator" where
  "parse_arm_translator s =
     (let t = to_lower s in
      if t = ''none'' \<or> t = ''no'' \<or> t = '''' then Inr NoTranslator
      else if t = ''libndk'' \<or> t = ''ndk'' then Inr Libndk
      else if t = ''libhoudini'' \<or> t = ''houdini'' then Inr Libhoudini
      else Inl (UnknownArmTranslator s))"

section \<open>Instances\<close>

text \<open>An id is the 32 bytes of \<open>InstanceId([u8; 32])\<close>; \<open>id_ok\<close> is the array length.\<close>

type_synonym instance_id = "u8 list"

definition id_ok :: "instance_id \<Rightarrow> bool" where
  "id_ok i \<longleftrightarrow> length i = 32"

definition hex_digit :: "nat \<Rightarrow> char" where
  "hex_digit d = (if d < 10 then char_of (48 + d) else char_of (87 + d))"

text \<open>\<open>char::to_digit(16)\<close>.\<close>

definition to_digit16 :: "char \<Rightarrow> u8 option" where
  "to_digit16 c =
     (let b = byte c in
      if 48 \<le> b \<and> b \<le> 57 then Some (of_nat (b - 48))
      else if 97 \<le> b \<and> b \<le> 102 then Some (of_nat (b - 87))
      else if 65 \<le> b \<and> b \<le> 70 then Some (of_nat (b - 55))
      else None)"

definition show_byte_hex :: "u8 \<Rightarrow> string" where
  "show_byte_hex b = [hex_digit (unat b div 16), hex_digit (unat b mod 16)]"

definition show_instance_id :: "instance_id \<Rightarrow> string" where
  "show_instance_id i = concat (map show_byte_hex i)"

fun hex_pairs :: "string \<Rightarrow> instance_id option" where
  "hex_pairs (a # b # cs) =
     (case to_digit16 a of None \<Rightarrow> None
      | Some hi \<Rightarrow> (case to_digit16 b of None \<Rightarrow> None
        | Some lo \<Rightarrow> map_option (\<lambda>r. or (push_bit 4 hi) lo # r) (hex_pairs cs)))"
| "hex_pairs _ = Some []"

datatype invalid_instance_id = InvalidInstanceId

definition INSTANCE_ID_HEX_LEN :: nat where "INSTANCE_ID_HEX_LEN = 64"

definition parse_instance_id :: "string \<Rightarrow> invalid_instance_id + instance_id" where
  "parse_instance_id s =
     (if length s \<noteq> INSTANCE_ID_HEX_LEN then Inl InvalidInstanceId
      else ok_or InvalidInstanceId (hex_pairs s))"

datatype backend_kind = Qemu

datatype instance_kind =
    LinuxVm string cdrom_bus
  | AndroidVm android_profile

record instance_config =
  ic_id :: instance_id
  ic_name :: string
  ic_kind :: instance_kind
  ic_backend :: backend_kind
  ic_schema_version :: u32
  ic_cpu :: cpu_config
  ic_memory :: memory_config
  ic_disk :: disk_config
  ic_display :: display_config
  ic_gpu :: gpu_config
  ic_network :: network_config
  ic_extra_disks :: "disk_config list"
  ic_extra_networks :: "network_config list"
  ic_firmware :: firmware_config
  ic_audio :: audio_config
  ic_input :: input_config
  ic_autostart :: bool

definition CURRENT_SCHEMA_VERSION :: u32 where "CURRENT_SCHEMA_VERSION = 1"

text \<open>\<open>AndroidProfile::resolve\<close>; the freshly drawn id is an argument.\<close>

definition android_resolve ::
    "android_profile \<Rightarrow> instance_id \<Rightarrow> string \<Rightarrow> disk_config \<Rightarrow> string \<Rightarrow> instance_config" where
  "android_resolve prof new_id nm disk vars =
     \<lparr>ic_id = new_id, ic_name = nm, ic_kind = AndroidVm prof, ic_backend = Qemu,
      ic_schema_version = CURRENT_SCHEMA_VERSION, ic_cpu = cpu_reference_default,
      ic_memory = memory_reference_default, ic_disk = disk,
      ic_display = display_reference_default, ic_gpu = gpu_reference_default,
      ic_network = network_reference_default, ic_extra_disks = [], ic_extra_networks = [],
      ic_firmware = firmware_reference_default vars, ic_audio = audio_reference_default,
      ic_input = input_reference_default, ic_autostart = False\<rparr>"

datatype config_error =
    ZeroCores
  | ZeroMemory
  | ZeroDisk
  | GpuHostmemOutOfRange u64
  | ZeroResolution u32 u32
  | ExtraDiskZero string
  | NetworkInvalid network_error

fun check_extra_disks :: "disk_config list \<Rightarrow> config_error + unit" where
  "check_extra_disks [] = Inr ()"
| "check_extra_disks (d # ds) =
     (if disk_size d = 0 then Inl (ExtraDiskZero (disk_path d)) else check_extra_disks ds)"

text \<open>\<open>InstanceConfig::validate\<close>: the checks in the order of the code.\<close>

definition check_gpu :: "gpu_config \<Rightarrow> config_error + unit" where
  "check_gpu g =
     (if gpu_render g \<noteq> CpuRender then
        (let gpu_mib = gpu_hostmem g div MIB in
         if 256 \<le> gpu_mib \<and> gpu_mib \<le> 16384 then Inr () else Inl (GpuHostmemOutOfRange gpu_mib))
      else Inr ())"

definition validate :: "instance_config \<Rightarrow> config_error + unit" where
  "validate c =
     (if cpu_cores (ic_cpu c) = 0 then Inl ZeroCores
      else if mem_size (ic_memory c) = 0 then Inl ZeroMemory
      else if disk_size (ic_disk c) = 0 then Inl ZeroDisk
      else rbind (check_gpu (ic_gpu c)) (\<lambda>_.
        if res_width (disp_resolution (ic_display c)) = 0
            \<or> res_height (disp_resolution (ic_display c)) = 0
        then Inl (ZeroResolution (res_width (disp_resolution (ic_display c)))
                                 (res_height (disp_resolution (ic_display c))))
        else rbind (check_extra_disks (ic_extra_disks c)) (\<lambda>_.
          map_err NetworkInvalid (network_validate (ic_network c)))))"

section \<open>Schema migration\<close>

datatype schema_error =
    SchemaTooNew u32
  | SchemaUnsupported u32

definition migrate_one_step :: "instance_config \<Rightarrow> schema_error + instance_config" where
  "migrate_one_step c =
     (if ic_schema_version c = 1
      then Inr (c\<lparr>ic_schema_version := ic_schema_version c + 1\<rparr>)
      else Inl (SchemaUnsupported (ic_schema_version c)))"

text \<open>The \<open>while\<close> loop of \<open>migrate_schema\<close>; each pass either fails or moves the version one
  step closer to the current one.\<close>

function migrate_loop :: "instance_config \<Rightarrow> schema_error + instance_config" where
  "migrate_loop c =
     (if ic_schema_version c < CURRENT_SCHEMA_VERSION
      then (case migrate_one_step c of Inl e \<Rightarrow> Inl e | Inr c' \<Rightarrow> migrate_loop c')
      else Inr c)"
  by pat_completeness auto
termination
proof (relation "measure (\<lambda>c. 2 ^ 32 - unat (ic_schema_version c))", goal_cases)
  case (2 c c')
  from 2(2) have c: "c' = c\<lparr>ic_schema_version := ic_schema_version c + 1\<rparr>"
      and v: "ic_schema_version c = 1"
    by (auto simp: migrate_one_step_def split: if_splits)
  show ?case by (simp add: c v)
qed simp

definition migrate_schema :: "instance_config \<Rightarrow> schema_error + instance_config" where
  "migrate_schema c =
     (if ic_schema_version c > CURRENT_SCHEMA_VERSION
      then Inl (SchemaTooNew (ic_schema_version c))
      else migrate_loop c)"

text \<open>\<open>parse_instance_config_toml\<close>: the TOML reader is code outside the repository, so it is
  the parameter \<open>toml_from_str\<close>; what the repository adds is the migration of its result.\<close>

datatype load_error = TomlError string | SchemaError schema_error

definition parse_instance_config_toml ::
    "(string \<Rightarrow> string + instance_config) \<Rightarrow> string \<Rightarrow> load_error + instance_config" where
  "parse_instance_config_toml toml_from_str input =
     rbind (map_err TomlError (toml_from_str input)) (\<lambda>cfg.
       map_err SchemaError (migrate_schema cfg))"

section \<open>Lemmas\<close>

lemmas config_defaults =
  audio_reference_default_def cpu_reference_default_def disk_reference_default_def
  display_reference_default_def firmware_reference_default_def gpu_reference_default_def
  input_reference_default_def memory_reference_default_def network_reference_default_def

lemma traverse_unit_check_forwards:
  "check_forwards fs = Inr () \<longleftrightarrow> list_all (\<lambda>f. pf_host_port f \<noteq> 0 \<and> pf_guest_port f \<noteq> 0) fs"
  by (induction fs) auto

lemma network_validate_ok_iff:
  "network_validate n = Inr () \<longleftrightarrow>
     list_all (\<lambda>f. pf_host_port f \<noteq> 0 \<and> pf_guest_port f \<noteq> 0) (net_port_forwards n)
     \<and> (net_port_forwards n = [] \<or> net_mode n = Nat)"
  by (auto simp: network_validate_def rbind_eq_Inr traverse_unit_check_forwards
      split: network_mode.splits)

lemma check_extra_disks_ok_iff:
  "check_extra_disks ds = Inr () \<longleftrightarrow> list_all (\<lambda>d. disk_size d \<noteq> 0) ds"
  by (induction ds) auto

lemma check_gpu_ok_iff:
  "check_gpu g = Inr () \<longleftrightarrow>
     gpu_render g = CpuRender \<or> (256 \<le> gpu_hostmem g div MIB \<and> gpu_hostmem g div MIB \<le> 16384)"
  by (auto simp: check_gpu_def Let_def)

definition well_formed_config :: "instance_config \<Rightarrow> bool" where
  "well_formed_config c \<longleftrightarrow>
     cpu_cores (ic_cpu c) \<noteq> 0 \<and> mem_size (ic_memory c) \<noteq> 0 \<and> disk_size (ic_disk c) \<noteq> 0
     \<and> (gpu_render (ic_gpu c) = CpuRender
        \<or> (256 \<le> gpu_hostmem (ic_gpu c) div MIB \<and> gpu_hostmem (ic_gpu c) div MIB \<le> 16384))
     \<and> res_width (disp_resolution (ic_display c)) \<noteq> 0
     \<and> res_height (disp_resolution (ic_display c)) \<noteq> 0
     \<and> list_all (\<lambda>d. disk_size d \<noteq> 0) (ic_extra_disks c)
     \<and> list_all (\<lambda>f. pf_host_port f \<noteq> 0 \<and> pf_guest_port f \<noteq> 0) (net_port_forwards (ic_network c))
     \<and> (net_port_forwards (ic_network c) = [] \<or> net_mode (ic_network c) = Nat)"

lemma validate_unit: "validate c = Inr u \<longleftrightarrow> validate c = Inr ()"
  by (cases u) simp

lemma validate_accepts: "validate c = Inr () \<longleftrightarrow> well_formed_config c"
  by (auto simp: validate_def well_formed_config_def rbind_eq_Inr map_err_eq_Inr
      network_validate_ok_iff check_extra_disks_ok_iff check_gpu_ok_iff split: if_splits)

text \<open>\<open>InstanceConfig::validate\<close> accepts exactly the well-formed configurations: the
  early returns together check every clause of \<open>well_formed_config\<close> and nothing else.\<close>

theorem validate_ok_iff: "validate c = Inr () \<longleftrightarrow> well_formed_config c"
  by (rule validate_accepts)

lemma hex_digit_roundtrip: "d < 16 \<Longrightarrow> to_digit16 (hex_digit d) = Some (of_nat d)"
  by (auto simp: to_digit16_def hex_digit_def byte_def Let_def)

lemma nibbles_of_byte: "or (push_bit 4 (of_nat (unat (b :: u8) div 16))) (of_nat (unat b mod 16)) = b"
proof -
  have hi: "of_nat (unat b div 16) = drop_bit 4 b"
  proof -
    have "unat b div 16 = unat (drop_bit 4 b)" by (simp add: unat_drop_bit_eq drop_bit_eq_div unat_div)
    then show ?thesis by simp
  qed
  have lo: "of_nat (unat b mod 16) = take_bit 4 b"
  proof -
    have "unat b mod 16 = unat (take_bit 4 b)" by (simp only: unsigned_take_bit_eq) (simp add: take_bit_eq_mod)
    then show ?thesis by simp
  qed
  show ?thesis unfolding hi lo
    by (rule bit_eqI) (auto simp: bit_or_iff bit_push_bit_iff bit_drop_bit_eq bit_take_bit_iff)
qed

lemma hex_pairs_show: "hex_pairs (show_instance_id i) = Some i"
proof (induction i)
  case (Cons b i)
  have "unat b div 16 < 16" using unsigned_less[of b, where 'a = nat] by simp
  then show ?case
    using Cons by (simp add: show_instance_id_def show_byte_hex_def hex_digit_roundtrip nibbles_of_byte)
qed (simp add: show_instance_id_def)

lemma length_show_instance_id: "length (show_instance_id i) = 2 * length i"
  by (induction i) (simp_all add: show_instance_id_def show_byte_hex_def)

lemma parse_show_instance_id: "id_ok i \<Longrightarrow> parse_instance_id (show_instance_id i) = Inr i"
  by (simp add: parse_instance_id_def id_ok_def length_show_instance_id INSTANCE_ID_HEX_LEN_def
      hex_pairs_show)

lemma unat_of_nat_u8: "n < 256 \<Longrightarrow> unat (of_nat n :: u8) = n"
  by (simp add: unsigned_of_nat take_bit_eq_mod)

lemma to_digit16_hex:
  assumes "to_digit16 c = Some d"
  shows "unat d < 16 \<and> hex_digit (unat d) = lower_char c"
proof -
  consider "48 \<le> byte c" "byte c \<le> 57" "d = of_nat (byte c - 48)"
    | "97 \<le> byte c" "byte c \<le> 102" "d = of_nat (byte c - 87)"
    | "65 \<le> byte c" "byte c \<le> 70" "d = of_nat (byte c - 55)"
    using assms by (auto simp: to_digit16_def Let_def split: if_splits)
  then show ?thesis
  proof cases
    case 1
    then have "unat d = byte c - 48" by (simp only: unat_of_nat_u8)
    moreover have "byte c - 48 < 10" using 1 by linarith
    ultimately show ?thesis using 1 by (simp add: hex_digit_def lower_char_def byte_def)
  next
    case 2
    then have "unat d = byte c - 87" by (simp only: unat_of_nat_u8)
    moreover have "\<not> byte c - 87 < 10" "byte c - 87 < 16" using 2 by linarith+
    ultimately show ?thesis using 2 by (simp add: hex_digit_def lower_char_def byte_def)
  next
    case 3
    then have "unat d = byte c - 55" by (simp only: unat_of_nat_u8)
    moreover obtain k where "byte c = k + 55" "10 \<le> k" "k \<le> 15"
    proof (rule that[of "byte c - 55"])
    qed (use 3 in linarith)+
    ultimately show ?thesis by (simp add: hex_digit_def lower_char_def)
  qed
qed

lemma byte_of_nibbles:
  assumes "unat (hi :: u8) < 16" "unat lo < 16"
  shows "unat (or (push_bit 4 hi) lo) = 16 * unat hi + unat lo"
proof -
  have "and (push_bit 4 hi) lo = 0"
  proof (rule bit_word_eqI)
    fix n assume "n < LENGTH(8)"
    have "unat (take_bit 4 lo) = unat lo"
      using assms(2) by (simp only: unsigned_take_bit_eq) (simp add: take_bit_eq_mod)
    then have "lo = take_bit 4 lo" by (simp only: word_unat_eq_iff)
    then have "bit lo n \<Longrightarrow> n < 4" by (metis bit_take_bit_iff)
    then show "bit (and (push_bit 4 hi) lo) n = bit 0 n"
      by (auto simp: bit_and_iff bit_push_bit_iff)
  qed
  then have "or (push_bit 4 hi) lo = push_bit 4 hi + lo" by (simp add: disjunctive_add_eq_or)
  also have "\<dots> = of_nat (16 * unat hi + unat lo)" by (simp add: push_bit_eq_mult)
  finally have "or (push_bit 4 hi) lo = of_nat (16 * unat hi + unat lo)" .
  moreover have "unat (of_nat (16 * unat hi + unat lo) :: u8) = 16 * unat hi + unat lo"
    by (rule unat_of_nat_u8) (use assms in linarith)
  ultimately show ?thesis by (simp only:)
qed

lemma show_hex_pairs:
  "hex_pairs s = Some i \<Longrightarrow> even (length s) \<Longrightarrow>
     show_instance_id i = to_lower s \<and> 2 * length i = length s"
proof (induction s arbitrary: i rule: hex_pairs.induct)
  case (1 a b cs)
  then obtain hi lo r where d: "to_digit16 a = Some hi" "to_digit16 b = Some lo"
      and r: "hex_pairs cs = Some r" and i: "i = or (push_bit 4 hi) lo # r"
    by (auto split: option.splits)
  note h = to_digit16_hex[OF d(1)] to_digit16_hex[OF d(2)]
  have "show_byte_hex (or (push_bit 4 hi) lo) = [lower_char a, lower_char b]"
    using h byte_of_nibbles[of hi lo] by (simp add: show_byte_hex_def)
  moreover have "show_instance_id r = to_lower cs \<and> 2 * length r = length cs"
    using 1 d r by simp
  ultimately show ?case by (simp add: i show_instance_id_def to_lower_def)
qed (auto simp: show_instance_id_def to_lower_def)

text \<open>Instance ids print and parse consistently: an id of 32 bytes is read back from its
  64 lower-case hex digits, and whatever text is accepted is the id's printed form up to
  letter case (so two texts naming one id differ in case only).\<close>

theorem instance_id_text_roundtrip:
  "(id_ok i \<longrightarrow> parse_instance_id (show_instance_id i) = Inr i)
   \<and> (parse_instance_id s = Inr j \<longrightarrow> id_ok j \<and> show_instance_id j = to_lower s)"
proof (intro conjI impI)
  assume "parse_instance_id s = Inr j"
  then have "length s = 64" "hex_pairs s = Some j"
    by (auto simp: parse_instance_id_def INSTANCE_ID_HEX_LEN_def ok_or_eq_Inr split: if_splits)
  then show "id_ok j" "show_instance_id j = to_lower s"
    using show_hex_pairs[of s j] by (auto simp: id_ok_def)
qed (rule parse_show_instance_id)

theorem instance_id_text_roundtrip_witness:
  "parse_instance_id (show_instance_id (replicate 32 171)) = Inr (replicate 32 171)
   \<and> show_instance_id (replicate 32 171) = to_lower (concat (replicate 32 ''aB''))"
proof -
  have p: "parse_instance_id (concat (replicate 32 ''aB'')) = Inr (replicate 32 171)" by code_simp
  have i: "id_ok (replicate 32 171)" by (simp add: id_ok_def)
  show ?thesis
    using instance_id_text_roundtrip[of "replicate 32 171" "concat (replicate 32 ''aB'')"
        "replicate 32 171"] p i
    by blast
qed

text \<open>Schema migration accepts version 1 only and changes nothing: version 0 has no migration
  step, later versions are refused up front.\<close>

lemma migrate_schema_iff: "migrate_schema c = Inr c' \<longleftrightarrow> ic_schema_version c = 1 \<and> c' = c"
proof -
  have "v < 1 \<longleftrightarrow> v = 0" "v \<le> 1 \<longleftrightarrow> v = 0 \<or> v = 1" for v :: u32
    by (auto simp: word_less_nat_alt word_le_nat_alt le_Suc_eq word_unat_eq_iff)
  then show ?thesis
    by (subst migrate_schema_def, subst migrate_loop.simps)
       (auto simp: CURRENT_SCHEMA_VERSION_def migrate_one_step_def not_less)
qed

lemma parse_arm_translator_show: "parse_arm_translator (show_arm_translator t) = Inr t"
  by (cases t)
     (simp_all add: parse_arm_translator_def to_lower_def lower_char_def byte_def)

interpretation arm: codec show_arm_translator parse_arm_translator
  by unfold_locales (rule parse_arm_translator_show)

lemma android_resolve_valid:
  "disk_size d \<noteq> 0 \<Longrightarrow> validate (android_resolve p i nm d vars) = Inr ()"
  by (simp add: validate_accepts well_formed_config_def android_resolve_def config_defaults
      GIB_def MIB_def)

text \<open>The configuration the witnesses of the other theories evaluate on.\<close>

definition example_config :: "u8 \<Rightarrow> instance_config" where
  "example_config b =
     \<lparr>ic_id = replicate 32 b, ic_name = ''vm'', ic_kind = LinuxVm ''/iso/arch.iso'' VirtioScsi,
      ic_backend = Qemu, ic_schema_version = CURRENT_SCHEMA_VERSION,
      ic_cpu = cpu_reference_default, ic_memory = memory_reference_default,
      ic_disk = disk_reference_default ''/vm/disk.qcow2'', ic_display = display_reference_default,
      ic_gpu = gpu_reference_default, ic_network = network_reference_default,
      ic_extra_disks = [], ic_extra_networks = [],
      ic_firmware = firmware_reference_default ''/vm/VARS.fd'', ic_audio = audio_reference_default,
      ic_input = input_reference_default, ic_autostart = False\<rparr>"

end
