(* ===== verification/Fsm.thy ===== *)
theory Fsm
  imports Prelude
begin

text \<open>
  The lifecycle state machine (\<open>core/andler-core/src/fsm.rs\<close>): \<open>InstanceState::apply\<close> as a
  total function into the results of the code, and the step relation it induces, on which
  the run-level accounting of starts and ends is proved by rule induction.
\<close>

datatype instance_state =
    Created
  | Starting
  | Running
  | Paused
  | Stopping
  | Stopped
  | Error string

datatype instance_event =
    Start
  | StartCompleted
  | Pause
  | Resume
  | Stop
  | StopCompleted
  | Fail string

datatype fsm_error = InvalidTransition instance_state instance_event

fun apply_event :: "instance_state \<Rightarrow> instance_event \<Rightarrow> fsm_error + instance_state" where
  "apply_event Created Start = Inr Starting"
| "apply_event Starting StartCompleted = Inr Running"
| "apply_event Running Pause = Inr Paused"
| "apply_event Paused Resume = Inr Running"
| "apply_event Running Stop = Inr Stopping"
| "apply_event Paused Stop = Inr Stopping"
| "apply_event Starting Stop = Inr Stopping"
| "apply_event Stopping StopCompleted = Inr Stopped"
| "apply_event Stopped Start = Inr Starting"
| "apply_event (Error _) Start = Inr Starting"
| "apply_event Created (Fail m) = Inr (Error m)"
| "apply_event Starting (Fail m) = Inr (Error m)"
| "apply_event Running (Fail m) = Inr (Error m)"
| "apply_event Paused (Fail m) = Inr (Error m)"
| "apply_event Stopping (Fail m) = Inr (Error m)"
| "apply_event s e = Inl (InvalidTransition s e)"

fun is_terminal :: "instance_state \<Rightarrow> bool" where
  "is_terminal Stopped = True"
| "is_terminal (Error _) = True"
| "is_terminal _ = False"

fun is_disk_idle :: "instance_state \<Rightarrow> bool" where
  "is_disk_idle Created = True"
| "is_disk_idle Stopped = True"
| "is_disk_idle (Error _) = True"
| "is_disk_idle _ = False"

fun_cases apply_event_cases: "apply_event s e = Inr s'"

section \<open>Runs\<close>

inductive fsm_run :: "instance_state \<Rightarrow> instance_event list \<Rightarrow> instance_state \<Rightarrow> bool" where
  run_nil: "fsm_run s [] s"
| run_snoc: "fsm_run s es t \<Longrightarrow> apply_event t e = Inr u \<Longrightarrow> fsm_run s (es @ [e]) u"

inductive_cases fsm_run_nilE: "fsm_run s [] t"
inductive_simps fsm_run_nil_iff: "fsm_run s [] t"

fun is_start :: "instance_event \<Rightarrow> bool" where
  "is_start Start = True"
| "is_start _ = False"

fun is_end :: "instance_event \<Rightarrow> bool" where
  "is_end StopCompleted = True"
| "is_end (Fail _) = True"
| "is_end _ = False"

definition count_events :: "(instance_event \<Rightarrow> bool) \<Rightarrow> instance_event list \<Rightarrow> nat" where
  "count_events p es = length (filter p es)"

fun fails_first :: "instance_event list \<Rightarrow> bool" where
  "fails_first (Fail _ # _) = True"
| "fails_first _ = False"

lemma count_events_snoc [simp]:
  "count_events p (es @ [e]) = count_events p es + (if p e then 1 else 0)"
  by (simp add: count_events_def)

lemma count_events_nil [simp]: "count_events p [] = 0"
  by (simp add: count_events_def)

lemma start_accepted_iff: "(\<exists>s'. apply_event s Start = Inr s') \<longleftrightarrow> is_disk_idle s"
  by (cases s) auto

lemma fails_first_snoc: "es \<noteq> [] \<Longrightarrow> fails_first (es @ [e]) = fails_first es"
  by (cases "es" rule: fails_first.cases) simp_all

text \<open>One step moves the number of outstanding boots: \<open>Start\<close> is taken in a disk-idle state
  only and leaves it busy; \<open>StopCompleted\<close> and \<open>Fail\<close> end the boot, except that \<open>Fail\<close> is
  also taken in \<open>Created\<close>, where there is none.\<close>

lemma apply_event_accounting:
  "apply_event s e = Inr s' \<Longrightarrow>
     (if is_start e then is_disk_idle s \<and> \<not> is_disk_idle s'
      else if is_end e then (\<not> is_disk_idle s \<or> s = Created) \<and> is_disk_idle s' \<and> s' \<noteq> Created
      else is_disk_idle s' = is_disk_idle s) \<and> s' \<noteq> Created"
  by (erule apply_event_cases) simp_all

lemma run_created: "fsm_run Created es s \<Longrightarrow> (s = Created) = (es = [])"
  by (induction Created es s rule: fsm_run.induct) (auto dest: apply_event_accounting)

lemma run_accounting:
  "fsm_run Created es s \<Longrightarrow>
     count_events is_start es + (if fails_first es then 1 else 0)
       = count_events is_end es + (if is_disk_idle s then 0 else 1)"
proof (induction Created es s rule: fsm_run.induct)
  case (run_snoc es t e u)
  note acc = apply_event_accounting[OF run_snoc(3)]
  show ?case
  proof (cases "es = []")
    case True
    then have "t = Created" using run_snoc(1) run_created by blast
    then show ?thesis using True run_snoc acc by (cases e) (auto simp: count_events_def)
  next
    case False
    then have "t \<noteq> Created" using run_snoc(1) run_created by blast
    then show ?thesis
      using False run_snoc(2) acc by (cases e) (auto simp: fails_first_snoc split: if_splits)
  qed
qed simp

text \<open>In every run of the lifecycle machine from \<open>Created\<close>, boots and ends balance: the
  accepted \<open>Start\<close> events exceed the accepted \<open>StopCompleted\<close> and \<open>Fail\<close> events (a failure of
  a never-started instance aside) by one exactly when the state is not disk-idle. So an
  instance never has two boots outstanding, and a disk-idle state has none.\<close>

theorem fsm_boots_balance:
  assumes "fsm_run Created es s"
  shows "count_events is_start es + (if fails_first es then 1 else 0)
         = count_events is_end es + (if is_disk_idle s then 0 else 1)"
  using assms by (rule run_accounting)

lemma fsm_run_exec:
  "foldl (\<lambda>m e. rbind m (\<lambda>s. apply_event s e)) (Inr s) es = Inr t \<Longrightarrow> fsm_run s es t"
proof (induction es arbitrary: t rule: rev_induct)
  case (snoc e es)
  then obtain u where "foldl (\<lambda>m e. rbind m (\<lambda>s. apply_event s e)) (Inr s) es = Inr u"
      "apply_event u e = Inr t"
    by (auto simp: rbind_eq_Inr)
  then show ?case using snoc.IH run_snoc by blast
qed (simp add: run_nil)

theorem fsm_boots_balance_witness:
  "count_events is_start [Start, StartCompleted, Stop, StopCompleted, Start] + 0
     = count_events is_end [Start, StartCompleted, Stop, StopCompleted, Start] + 1"
proof -
  have "fsm_run Created [Start, StartCompleted, Stop, StopCompleted, Start] Starting"
    by (rule fsm_run_exec) simp
  from fsm_boots_balance[OF this] show ?thesis by simp
qed

end
