(* ===== verification/Readiness.thy ===== *)
theory Readiness
  imports Config "HOL-Library.Option_ord"
begin

text \<open>
  The guest readiness ladder (\<open>core/andler-core/src/events.rs\<close>): the levels with the derived
  order of the enum, the profiles, the ladder a run climbs and the snapshot consumers read.
\<close>

datatype readiness_level = SerialUp | QgaUp | DisplayApplied | GuestOsUp | WaydroidReady

fun level_rank :: "readiness_level \<Rightarrow> nat" where
  "level_rank SerialUp = 0"
| "level_rank QgaUp = 1"
| "level_rank DisplayApplied = 2"
| "level_rank GuestOsUp = 3"
| "level_rank WaydroidReady = 4"

lemma level_rank_inject [simp]: "level_rank a = level_rank b \<longleftrightarrow> a = b"
  by (cases a; cases b) simp_all

text \<open>\<open>derive(PartialOrd, Ord)\<close>: the order of the variants.\<close>

instantiation readiness_level :: linorder
begin

definition less_eq_readiness_level :: "readiness_level \<Rightarrow> readiness_level \<Rightarrow> bool" where
  "a \<le> b \<longleftrightarrow> level_rank a \<le> level_rank b"

definition less_readiness_level :: "readiness_level \<Rightarrow> readiness_level \<Rightarrow> bool" where
  "a < b \<longleftrightarrow> level_rank a < level_rank b"

instance
  by standard (auto simp: less_eq_readiness_level_def less_readiness_level_def)

end

datatype readiness_profile = LinuxGuest | AndroidLinuxMode | AndroidWaydroid

fun profile_of :: "instance_kind \<Rightarrow> readiness_profile" where
  "profile_of (LinuxVm _ _) = LinuxGuest"
| "profile_of (AndroidVm prof) =
     (case ap_boot_mode prof of BootLinux \<Rightarrow> AndroidLinuxMode | BootAndroid \<Rightarrow> AndroidWaydroid)"

fun levels :: "readiness_profile \<Rightarrow> readiness_level list" where
  "levels LinuxGuest = [SerialUp, QgaUp, DisplayApplied, GuestOsUp]"
| "levels AndroidLinuxMode = [SerialUp, QgaUp, DisplayApplied, GuestOsUp]"
| "levels AndroidWaydroid = [SerialUp, QgaUp, DisplayApplied, GuestOsUp, WaydroidReady]"

definition accepts :: "readiness_profile \<Rightarrow> readiness_level \<Rightarrow> bool" where
  "accepts p l \<longleftrightarrow> l \<in> set (levels p)"

fun terminal_level :: "readiness_profile \<Rightarrow> readiness_level" where
  "terminal_level AndroidWaydroid = WaydroidReady"
| "terminal_level _ = GuestOsUp"

datatype probe_outcome = Ready | NotReady | Unobservable

record ladder =
  ld_profile :: readiness_profile
  ld_current :: "readiness_level option"

definition ladder_new :: "readiness_profile \<Rightarrow> ladder" where
  "ladder_new p = \<lparr>ld_profile = p, ld_current = None\<rparr>"

record readiness_snapshot =
  rs_profile :: readiness_profile
  rs_current :: "readiness_level option"

definition ladder_snapshot :: "ladder \<Rightarrow> readiness_snapshot" where
  "ladder_snapshot l = \<lparr>rs_profile = ld_profile l, rs_current = ld_current l\<rparr>"

definition slot :: "readiness_profile \<Rightarrow> readiness_level \<Rightarrow> nat option" where
  "slot p l = position (\<lambda>candidate. candidate = l) (levels p)"

definition reached_slot :: "readiness_snapshot \<Rightarrow> nat option" where
  "reached_slot s = (case rs_current s of None \<Rightarrow> None | Some c \<Rightarrow> slot (rs_profile s) c)"

text \<open>The comparison \<open>observed > reached\<close> is the one of \<open>Option<usize>\<close>, \<open>None\<close> lowest.\<close>

definition observe :: "readiness_level \<Rightarrow> probe_outcome \<Rightarrow> ladder \<Rightarrow> ladder \<times> readiness_level option" where
  "observe level outcome l =
     (if outcome \<noteq> Ready \<or> \<not> accepts (ld_profile l) level then (l, None)
      else
        (let reached = reached_slot (ladder_snapshot l);
             observed = slot (ld_profile l) level
         in if observed > reached then (l\<lparr>ld_current := Some level\<rparr>, Some level) else (l, None)))"

definition snap_terminal :: "readiness_snapshot \<Rightarrow> readiness_level" where
  "snap_terminal s = terminal_level (rs_profile s)"

definition at_terminal :: "readiness_snapshot \<Rightarrow> bool" where
  "at_terminal s \<longleftrightarrow> rs_current s = Some (snap_terminal s)"

definition pending :: "readiness_snapshot \<Rightarrow> readiness_level list" where
  "pending s =
     drop (case reached_slot s of None \<Rightarrow> 0 | Some k \<Rightarrow> k + 1) (levels (rs_profile s))"

section \<open>Lemmas\<close>

lemma slot_rank: "slot p l = (if accepts p l then Some (level_rank l) else None)"
  by (cases p; cases l) (simp_all add: slot_def accepts_def)

lemma accepts_terminal: "accepts p l \<longleftrightarrow> l \<le> terminal_level p"
  by (cases p; cases l) (simp_all add: accepts_def less_eq_readiness_level_def)

definition ladder_ok :: "ladder \<Rightarrow> bool" where
  "ladder_ok l \<longleftrightarrow> (case ld_current l of None \<Rightarrow> True | Some c \<Rightarrow> accepts (ld_profile l) c)"

lemma ladder_ok_new [simp]: "ladder_ok (ladder_new p)"
  by (simp add: ladder_ok_def ladder_new_def)

lemma observe_profile [simp]: "ld_profile (fst (observe lv oc l)) = ld_profile l"
  by (simp add: observe_def Let_def)

lemma observe_current:
  "ladder_ok l \<Longrightarrow>
     ld_current (fst (observe lv oc l)) =
       (if oc = Ready \<and> accepts (ld_profile l) lv then max (ld_current l) (Some lv) else ld_current l)"
  by (cases "ld_current l")
     (auto simp: observe_def Let_def reached_slot_def ladder_snapshot_def slot_rank ladder_ok_def max_def
       less_readiness_level_def less_eq_readiness_level_def)

lemma ladder_ok_observe: "ladder_ok l \<Longrightarrow> ladder_ok (fst (observe lv oc l))"
  by (cases "ld_current l") (auto simp: ladder_ok_def observe_def Let_def)

definition observe_all :: "readiness_profile \<Rightarrow> (readiness_level \<times> probe_outcome) list \<Rightarrow> ladder" where
  "observe_all p obs = foldl (\<lambda>l (lv, oc). fst (observe lv oc l)) (ladder_new p) obs"

lemma observe_all_inv: "ladder_ok (observe_all p obs) \<and> ld_profile (observe_all p obs) = p"
  by (induction obs rule: rev_induct)
     (auto simp: observe_all_def ladder_ok_observe, simp add: ladder_new_def)

definition ready_levels :: "readiness_profile \<Rightarrow> (readiness_level \<times> probe_outcome) list \<Rightarrow> readiness_level list" where
  "ready_levels p obs = map fst (filter (\<lambda>(lv, oc). oc = Ready \<and> accepts p lv) obs)"

text \<open>The ladder is a monotone maximum: after any sequence of probe answers, in any
  order and with any repetitions, the reached level is the strongest level among the \<open>Ready\<close>
  answers the profile can reach, and none when there was no such answer.\<close>

theorem observe_all_max:
  "ld_current (observe_all p obs) = Max (insert None (Some ` set (ready_levels p obs)))"
proof (induction obs rule: rev_induct)
  case Nil
  show ?case by (simp add: observe_all_def ladder_new_def ready_levels_def)
next
  case (snoc x obs)
  obtain lv oc where x: "x = (lv, oc)" by (cases x)
  have step: "observe_all p (obs @ [x]) = fst (observe lv oc (observe_all p obs))"
    by (simp add: observe_all_def x)
  have cur: "ld_current (observe_all p (obs @ [x])) =
      (if oc = Ready \<and> accepts p lv then max (ld_current (observe_all p obs)) (Some lv)
       else ld_current (observe_all p obs))"
    using observe_all_inv[of p obs] by (simp add: step observe_current)
  show ?case
  proof (cases "oc = Ready \<and> accepts p lv")
    case True
    then have "set (ready_levels p (obs @ [x])) = insert lv (set (ready_levels p obs))"
      by (simp add: ready_levels_def x)
    then have "insert None (Some ` set (ready_levels p (obs @ [x]))) =
        insert (Some lv) (insert None (Some ` set (ready_levels p obs)))"
      by (simp add: insert_commute)
    moreover have "Max (insert (Some lv) (insert None (Some ` set (ready_levels p obs)))) =
        max (Some lv) (Max (insert None (Some ` set (ready_levels p obs))))"
      by (rule Max_insert) simp_all
    ultimately show ?thesis using True snoc by (simp add: cur max.commute)
  next
    case False
    then have "ready_levels p (obs @ [x]) = ready_levels p obs" by (auto simp: ready_levels_def x)
    then show ?thesis unfolding cur if_not_P[OF False] using snoc by simp
  qed
qed


lemma pending_above:
  "ladder_ok l \<Longrightarrow>
     pending (ladder_snapshot l) = filter (\<lambda>lv. ld_current l < Some lv) (levels (ld_profile l))"
  by (cases "ld_profile l"; cases "ld_current l" rule: option.exhaust; simp)
     (auto simp: pending_def reached_slot_def ladder_snapshot_def slot_rank ladder_ok_def accepts_def
       less_readiness_level_def)

lemma at_terminal_iff:
  "at_terminal (ladder_snapshot l) \<longleftrightarrow> ld_current l = Some (terminal_level (ld_profile l))"
  by (simp add: at_terminal_def snap_terminal_def ladder_snapshot_def)

text \<open>What a probe pass still has to observe: after any observations the pending levels are
  exactly the profile's levels above the reached one, in order, and there are none exactly
  when the ladder is at the profile's terminal level.\<close>

theorem pending_exact:
  "pending (ladder_snapshot (observe_all p obs)) =
     filter (\<lambda>lv. ld_current (observe_all p obs) < Some lv) (levels p)
   \<and> (pending (ladder_snapshot (observe_all p obs)) = [] \<longleftrightarrow>
        at_terminal (ladder_snapshot (observe_all p obs)))"
proof -
  let ?l = "observe_all p obs"
  have ok: "ladder_ok ?l" "ld_profile ?l = p" using observe_all_inv by auto
  have above: "pending (ladder_snapshot ?l) = filter (\<lambda>lv. ld_current ?l < Some lv) (levels p)"
    using pending_above[OF ok(1)] ok(2) by simp
  moreover have "pending (ladder_snapshot ?l) = [] \<longleftrightarrow> at_terminal (ladder_snapshot ?l)"
  proof (cases "ld_current ?l")
    case None
    then show ?thesis using ok(2) unfolding above by (cases p) (simp_all add: at_terminal_iff)
  next
    case (Some c)
    then show ?thesis using ok unfolding above
      by (cases p; cases c)
         (simp_all add: at_terminal_iff ladder_ok_def accepts_def less_readiness_level_def)
  qed
  ultimately show ?thesis by blast
qed

end
