(* ===== verification/Keypath.thy ===== *)
theory Keypath
  imports Config Sizes
begin

text \<open>
  The key-path table of \<open>config set\<close> / \<open>config status\<close>
  (\<open>core/andler-core/src/config/keypath.rs\<close>): one row per key with its getter, its optional
  setter, the reason an immutable key gives and the live marker, then the four operations
  over the table. Error messages are constructors carrying the interpolated values.
\<close>

datatype setter_error =
    ExpectsInteger string string
  | ExpectedBool string
  | ExpectedOneOf "string list" string
  | BadSize size_error
  | MustBePositive string
  | ExpectedResolution
  | ExpectedRenderBackend
  | ExpectedNetworkMode
  | MustNotBeEmpty string

datatype config_key_error =
    UnknownKey string
  | ImmutableKey string string
  | InvalidValue string string setter_error

type_synonym setter = "instance_config \<Rightarrow> string \<Rightarrow> setter_error + instance_config"

datatype config_key =
  ConfigKey (ck_key: string) (ck_get: "instance_config \<Rightarrow> string") (ck_set: "setter option")
    (ck_immutable_reason: "string option") (ck_live: bool)

section \<open>Value parsers\<close>

definition parse_u32_key :: "string \<Rightarrow> string \<Rightarrow> setter_error + u32" where
  "parse_u32_key key v = ok_or (ExpectsInteger key v) (parse_u32 v)"

definition parse_bool :: "string \<Rightarrow> setter_error + bool" where
  "parse_bool v =
     (let t = to_lower (trim v) in
      if t = ''true'' \<or> t = ''yes'' \<or> t = ''on'' \<or> t = ''1'' then Inr True
      else if t = ''false'' \<or> t = ''no'' \<or> t = ''off'' \<or> t = ''0'' then Inr False
      else Inl (ExpectedBool v))"

definition parse_enum :: "string \<Rightarrow> (string \<times> 'a) list \<Rightarrow> setter_error + 'a" where
  "parse_enum v table =
     (let needle = replace_chars ''-_'' (to_lower (trim v)) in
      case List.find (\<lambda>(n, _). n = needle) table of
        Some (_, variant) \<Rightarrow> Inr variant
      | None \<Rightarrow> Inl (ExpectedOneOf (map fst table) v))"

fun bool_str :: "bool \<Rightarrow> string" where
  "bool_str True = ''true''"
| "bool_str False = ''false''"

text \<open>\<open>enum_lower\<close>: the lower-cased derived \<open>Debug\<close> name of each enum it is used on.\<close>

fun lower_cpu_priority :: "cpu_priority \<Rightarrow> string" where
  "lower_cpu_priority PrioLow = ''low''"
| "lower_cpu_priority PrioNormal = ''normal''"
| "lower_cpu_priority PrioHigh = ''high''"

fun lower_backend_kind :: "backend_kind \<Rightarrow> string" where
  "lower_backend_kind Qemu = ''qemu''"

fun lower_disk_format :: "disk_format \<Rightarrow> string" where
  "lower_disk_format Qcow2 = ''qcow2''"
| "lower_disk_format RawDisk = ''raw''"
| "lower_disk_format Vdi = ''vdi''"

fun lower_display_engine :: "display_engine \<Rightarrow> string" where
  "lower_display_engine Sdl = ''sdl''"
| "lower_display_engine Gtk = ''gtk''"
| "lower_display_engine Spice = ''spice''"
| "lower_display_engine Dbus = ''dbus''"
| "lower_display_engine NoDisplay = ''none''"

fun lower_nat_backend :: "nat_backend \<Rightarrow> string" where
  "lower_nat_backend Slirp = ''slirp''"
| "lower_nat_backend Passt = ''passt''"

fun lower_audio_backend :: "audio_backend \<Rightarrow> string" where
  "lower_audio_backend Pipewire = ''pipewire''"
| "lower_audio_backend Pulseaudio = ''pulseaudio''"
| "lower_audio_backend NoAudio = ''none''"

fun lower_audio_device :: "audio_device \<Rightarrow> string" where
  "lower_audio_device VirtioSound = ''virtiosound''"
| "lower_audio_device Ich9Hda = ''ich9hda''"

fun lower_pointer_mode :: "pointer_mode \<Rightarrow> string" where
  "lower_pointer_mode Tablet = ''tablet''"
| "lower_pointer_mode Mouse = ''mouse''"

fun lower_arm_translator :: "arm_translator \<Rightarrow> string" where
  "lower_arm_translator NoTranslator = ''none''"
| "lower_arm_translator Libndk = ''libndk''"
| "lower_arm_translator Libhoudini = ''libhoudini''"

fun lower_android_version :: "android_version \<Rightarrow> string" where
  "lower_android_version Android11 = ''android11''"
| "lower_android_version Android13 = ''android13''"

section \<open>Getters and setters\<close>

definition cpu_priority_set :: setter where
  "cpu_priority_set c v =
     rbind (parse_enum v [(''low'', PrioLow), (''normal'', PrioNormal), (''high'', PrioHigh)])
       (\<lambda>p. Inr (ic_cpu_update (cpu_prio_update (\<lambda>_. p)) c))"

definition memory_size_set :: setter where
  "memory_size_set c v =
     rbind (map_err BadSize (parse_size v)) (\<lambda>bytes.
       if bytes = 0 then Inl (MustBePositive ''memory size'')
       else Inr (ic_memory_update (mem_size_update (\<lambda>_. bytes)) c))"

definition hostmem_set :: setter where
  "hostmem_set c v =
     rbind (map_err BadSize (parse_size v)) (\<lambda>bytes.
       if bytes = 0 then Inl (MustBePositive ''hostmem size'')
       else Inr (ic_gpu_update (gpu_hostmem_update (\<lambda>_. bytes)) c))"

text \<open>The \<open>bool_keys!\<close> macro: a getter/setter pair from a field's selector and updater.\<close>

definition bool_get :: "(instance_config \<Rightarrow> bool) \<Rightarrow> instance_config \<Rightarrow> string" where
  "bool_get sel c = bool_str (sel c)"

definition bool_set :: "(bool \<Rightarrow> instance_config \<Rightarrow> instance_config) \<Rightarrow> setter" where
  "bool_set upd c v = rbind (parse_bool v) (\<lambda>b. Inr (upd b c))"

definition u32_set :: "string \<Rightarrow> (u32 \<Rightarrow> instance_config \<Rightarrow> instance_config) \<Rightarrow> setter" where
  "u32_set key upd c v = rbind (parse_u32_key key v) (\<lambda>n. Inr (upd n c))"

definition text_set :: "string \<Rightarrow> (string \<Rightarrow> instance_config \<Rightarrow> instance_config) \<Rightarrow> setter" where
  "text_set what upd c v =
     (if trim v = [] then Inl (MustNotBeEmpty what) else Inr (upd (trim v) c))"

definition disk_snapshot_timeout_get :: "instance_config \<Rightarrow> string" where
  "disk_snapshot_timeout_get c =
     (case disk_snapshot_timeout (ic_disk c) of Some secs \<Rightarrow> show_word secs | None \<Rightarrow> ''none'')"

definition disk_snapshot_timeout_set :: setter where
  "disk_snapshot_timeout_set c v =
     (let t = to_lower (trim v) in
      if t = ''none'' \<or> t = ''off''
      then Inr (ic_disk_update (disk_snapshot_timeout_update (\<lambda>_. None)) c)
      else rbind (parse_u32_key ''disk.snapshot_timeout_secs'' v) (\<lambda>n.
        Inr (ic_disk_update (disk_snapshot_timeout_update (\<lambda>_. Some (ucast n))) c)))"

definition resolution_get :: "instance_config \<Rightarrow> string" where
  "resolution_get c =
     show_word (res_width (disp_resolution (ic_display c))) @ ''x''
       @ show_word (res_height (disp_resolution (ic_display c)))"

definition resolution_set :: setter where
  "resolution_set c v =
     (case split_once (CHR ''x'') v of
        None \<Rightarrow> Inl ExpectedResolution
      | Some (w, h) \<Rightarrow>
          (case (parse_u32 w, parse_u32 h) of
             (Some w', Some h') \<Rightarrow>
               if w' > 0 \<and> h' > 0
               then Inr (ic_display_update (disp_resolution_update
                      (\<lambda>_. \<lparr>res_width = w', res_height = h'\<rparr>)) c)
               else Inl ExpectedResolution
           | _ \<Rightarrow> Inl ExpectedResolution))"

fun show_render_backend :: "render_backend \<Rightarrow> string" where
  "show_render_backend (Passthrough pci) = ''passthrough:'' @ pci"
| "show_render_backend Venus = ''venus''"
| "show_render_backend VirtioGpu = ''virtiogpu''"
| "show_render_backend VirGl = ''virgl''"
| "show_render_backend CpuRender = ''cpu''"

definition parse_render_backend :: "string \<Rightarrow> setter_error + render_backend" where
  "parse_render_backend v =
     (let t = to_lower (trim v) in
      if t = ''venus'' then Inr Venus
      else if t = ''virtiogpu'' \<or> t = ''virtio-gpu'' then Inr VirtioGpu
      else if t = ''virgl'' then Inr VirGl
      else if t = ''cpu'' \<or> t = ''software'' then Inr CpuRender
      else (case strip_prefix ''passthrough:'' (trim v) of
              Some pci \<Rightarrow> if pci \<noteq> [] then Inr (Passthrough pci) else Inl ExpectedRenderBackend
            | None \<Rightarrow> Inl ExpectedRenderBackend))"

definition render_backend_set :: setter where
  "render_backend_set c v =
     rbind (parse_render_backend v) (\<lambda>r. Inr (ic_gpu_update (gpu_render_update (\<lambda>_. r)) c))"

fun show_network_mode :: "network_mode \<Rightarrow> string" where
  "show_network_mode (Bridge iface) = ''bridge:'' @ iface"
| "show_network_mode Nat = ''nat''"
| "show_network_mode Isolated = ''isolated''"

definition parse_network_mode :: "string \<Rightarrow> setter_error + network_mode" where
  "parse_network_mode v =
     (let t = to_lower (trim v) in
      if t = ''nat'' then Inr Nat
      else if t = ''isolated'' then Inr Isolated
      else (case strip_prefix ''bridge:'' (trim v) of
              Some iface \<Rightarrow> if iface \<noteq> [] then Inr (Bridge iface) else Inl ExpectedNetworkMode
            | None \<Rightarrow> Inl ExpectedNetworkMode))"

definition network_mode_set :: setter where
  "network_mode_set c v =
     rbind (parse_network_mode v) (\<lambda>m. Inr (ic_network_update (net_mode_update (\<lambda>_. m)) c))"

definition enum_set :: "(string \<times> 'a) list \<Rightarrow> ('a \<Rightarrow> instance_config \<Rightarrow> instance_config) \<Rightarrow> setter" where
  "enum_set table upd c v = rbind (parse_enum v table) (\<lambda>x. Inr (upd x c))"

definition android_get :: "(android_profile \<Rightarrow> string) \<Rightarrow> instance_config \<Rightarrow> string" where
  "android_get f c = (case ic_kind c of AndroidVm prof \<Rightarrow> f prof | LinuxVm _ _ \<Rightarrow> [])"

definition show_port_forward :: "port_forward \<Rightarrow> string" where
  "show_port_forward f =
     (case pf_protocol f of Tcp \<Rightarrow> ''tcp'' | Udp \<Rightarrow> ''udp'') @ '':'' @ show_word (pf_host_port f)
       @ ''->'' @ show_word (pf_guest_port f)"

section \<open>The table\<close>

definition identity_keys :: "config_key list" where
  "identity_keys =
   [ConfigKey ''id'' (\<lambda>c. show_instance_id (ic_id c)) None (Some ''the instance id identifies the directory; it cannot be changed'') False,
    ConfigKey ''name'' (ic_name) (Some (text_set ''name'' (\<lambda>s. ic_name_update (\<lambda>_. s)))) None False,
    ConfigKey ''kind'' (\<lambda>c. case ic_kind c of LinuxVm _ _ \<Rightarrow> ''linux'' | AndroidVm _ \<Rightarrow> ''android'') None (Some ''the VM kind is fixed at creation; create a new instance instead'') False,
    ConfigKey ''backend'' (\<lambda>c. lower_backend_kind (ic_backend c)) None (Some ''the only supported backend is QEMU'') False,
    ConfigKey ''schema_version'' (\<lambda>c. show_word (ic_schema_version c)) None (Some ''managed by andlerd schema migrations'') False,
    ConfigKey ''autostart'' (\<lambda>c. bool_str (ic_autostart c)) (Some (bool_set (\<lambda>b. ic_autostart_update (\<lambda>_. b)))) None False]"

definition cpu_keys :: "config_key list" where
  "cpu_keys =
   [ConfigKey ''cpu.cores'' (\<lambda>c. show_word (cpu_cores (ic_cpu c))) (Some (u32_set ''cpu.cores'' (\<lambda>n. ic_cpu_update (cpu_cores_update (\<lambda>_. n))))) None False,
    ConfigKey ''cpu.sockets'' (\<lambda>c. show_word (cpu_sockets (ic_cpu c))) (Some (u32_set ''cpu.sockets'' (\<lambda>n. ic_cpu_update (cpu_sockets_update (\<lambda>_. n))))) None False,
    ConfigKey ''cpu.threads'' (\<lambda>c. show_word (cpu_threads (ic_cpu c))) (Some (u32_set ''cpu.threads'' (\<lambda>n. ic_cpu_update (cpu_threads_update (\<lambda>_. n))))) None False,
    ConfigKey ''cpu.priority'' (\<lambda>c. lower_cpu_priority (cpu_prio (ic_cpu c))) (Some (cpu_priority_set)) None False,
    ConfigKey ''cpu.affinity'' (\<lambda>c. case cpu_affinity (ic_cpu c) of Some cs \<Rightarrow> join '','' (map show_word cs) | None \<Rightarrow> ''none'') None (Some ''edit cpu.affinity in instance.toml directly'') False]"

definition memory_keys :: "config_key list" where
  "memory_keys =
   [ConfigKey ''memory.size_bytes'' (\<lambda>c. format_size (mem_size (ic_memory c))) (Some (memory_size_set)) None False,
    ConfigKey ''memory.ballooning'' (bool_get (\<lambda>c. mem_ballooning (ic_memory c))) (Some (bool_set (\<lambda>b. ic_memory_update (mem_ballooning_update (\<lambda>_. b))))) None False,
    ConfigKey ''memory.zram'' (bool_get (\<lambda>c. mem_zram (ic_memory c))) (Some (bool_set (\<lambda>b. ic_memory_update (mem_zram_update (\<lambda>_. b))))) None False,
    ConfigKey ''memory.ksm'' (bool_get (\<lambda>c. mem_ksm (ic_memory c))) (Some (bool_set (\<lambda>b. ic_memory_update (mem_ksm_update (\<lambda>_. b))))) None False,
    ConfigKey ''memory.mem_lock'' (bool_get (\<lambda>c. mem_lock (ic_memory c))) (Some (bool_set (\<lambda>b. ic_memory_update (mem_lock_update (\<lambda>_. b))))) None False,
    ConfigKey ''memory.hugepages'' (bool_get (\<lambda>c. mem_hugepages (ic_memory c))) (Some (bool_set (\<lambda>b. ic_memory_update (mem_hugepages_update (\<lambda>_. b))))) None False]"

definition disk_keys :: "config_key list" where
  "disk_keys =
   [ConfigKey ''disk.path'' (\<lambda>c. disk_path (ic_disk c)) None (Some ''the disk lives at its path; create a new instance to move it'') False,
    ConfigKey ''disk.size_bytes'' (\<lambda>c. format_size (disk_size (ic_disk c))) None (Some ''use `andler disk resize` to grow the disk'') False,
    ConfigKey ''disk.format'' (\<lambda>c. lower_disk_format (disk_config.disk_format (ic_disk c))) None (Some ''the disk format is fixed at creation'') False,
    ConfigKey ''disk.base_image'' (\<lambda>c. case disk_base_image (ic_disk c) of Some p \<Rightarrow> p | None \<Rightarrow> ''none'') None (Some ''the base image is pinned at creation'') False,
    ConfigKey ''disk.thin_provisioning'' (bool_get (\<lambda>c. disk_thin (ic_disk c))) (Some (bool_set (\<lambda>b. ic_disk_update (disk_thin_update (\<lambda>_. b))))) None False,
    ConfigKey ''disk.trim_on_shutdown'' (bool_get (\<lambda>c. disk_trim_on_shutdown (ic_disk c))) (Some (bool_set (\<lambda>b. ic_disk_update (disk_trim_on_shutdown_update (\<lambda>_. b))))) None False,
    ConfigKey ''disk.compact_on_shutdown'' (bool_get (\<lambda>c. disk_compact_on_shutdown (ic_disk c))) (Some (bool_set (\<lambda>b. ic_disk_update (disk_compact_on_shutdown_update (\<lambda>_. b))))) None False,
    ConfigKey ''disk.snapshot_timeout_secs'' (disk_snapshot_timeout_get) (Some (disk_snapshot_timeout_set)) None False]"

definition display_keys :: "config_key list" where
  "display_keys =
   [ConfigKey ''display.resolution'' (resolution_get) (Some (resolution_set)) None True,
    ConfigKey ''display.dpi'' (\<lambda>c. show_word (disp_dpi (ic_display c))) (Some (u32_set ''display.dpi'' (\<lambda>n. ic_display_update (disp_dpi_update (\<lambda>_. n))))) None False,
    ConfigKey ''display.fps_limit'' (\<lambda>c. show_word (disp_fps_limit (ic_display c))) (Some (u32_set ''display.fps_limit'' (\<lambda>n. ic_display_update (disp_fps_limit_update (\<lambda>_. n))))) None False,
    ConfigKey ''display.engine'' (\<lambda>c. lower_display_engine (disp_engine (ic_display c))) (Some (enum_set [(''sdl'', Sdl), (''gtk'', Gtk), (''spice'', Spice), (''dbus'', Dbus), (''none'', NoDisplay)] (\<lambda>x. ic_display_update (disp_engine_update (\<lambda>_. x))))) None False,
    ConfigKey ''display.fullscreen'' (bool_get (\<lambda>c. disp_fullscreen (ic_display c))) (Some (bool_set (\<lambda>b. ic_display_update (disp_fullscreen_update (\<lambda>_. b))))) None False]"

definition gpu_keys :: "config_key list" where
  "gpu_keys =
   [ConfigKey ''gpu.render_backend'' (\<lambda>c. show_render_backend (gpu_render (ic_gpu c))) (Some (render_backend_set)) None False,
    ConfigKey ''gpu.hostmem_bytes'' (\<lambda>c. format_size (gpu_hostmem (ic_gpu c))) (Some (hostmem_set)) None False,
    ConfigKey ''gpu.blob'' (bool_get (\<lambda>c. gpu_blob (ic_gpu c))) (Some (bool_set (\<lambda>b. ic_gpu_update (gpu_blob_update (\<lambda>_. b))))) None False,
    ConfigKey ''gpu.gl'' (bool_get (\<lambda>c. gpu_gl (ic_gpu c))) (Some (bool_set (\<lambda>b. ic_gpu_update (gpu_gl_update (\<lambda>_. b))))) None False]"

definition network_keys :: "config_key list" where
  "network_keys =
   [ConfigKey ''network.mode'' (\<lambda>c. show_network_mode (net_mode (ic_network c))) (Some (network_mode_set)) None False,
    ConfigKey ''network.device_model'' (\<lambda>c. net_device_model (ic_network c)) (Some (text_set ''device model'' (\<lambda>s. ic_network_update (net_device_model_update (\<lambda>_. s))))) None False,
    ConfigKey ''network.nat_backend'' (\<lambda>c. lower_nat_backend (net_nat_backend (ic_network c))) (Some (enum_set [(''slirp'', Slirp), (''passt'', Passt)] (\<lambda>x. ic_network_update (net_nat_backend_update (\<lambda>_. x))))) None False,
    ConfigKey ''network.port_forwards'' (\<lambda>c. join '','' (map show_port_forward (net_port_forwards (ic_network c)))) None (Some ''port forwards are fixed at create time (QEMU netdev hostfwd)'') False]"

definition device_keys :: "config_key list" where
  "device_keys =
   [ConfigKey ''audio.backend'' (\<lambda>c. lower_audio_backend (au_backend (ic_audio c))) (Some (enum_set [(''pipewire'', Pipewire), (''pulseaudio'', Pulseaudio), (''none'', NoAudio)] (\<lambda>x. ic_audio_update (au_backend_update (\<lambda>_. x))))) None False,
    ConfigKey ''audio.device'' (\<lambda>c. lower_audio_device (au_device (ic_audio c))) (Some (enum_set [(''virtiosound'', VirtioSound), (''ich9hda'', Ich9Hda)] (\<lambda>x. ic_audio_update (au_device_update (\<lambda>_. x))))) None False,
    ConfigKey ''input.pointer_mode'' (\<lambda>c. lower_pointer_mode (in_pointer_mode (ic_input c))) (Some (enum_set [(''tablet'', Tablet), (''mouse'', Mouse)] (\<lambda>x. ic_input_update (in_pointer_mode_update (\<lambda>_. x))))) None False,
    ConfigKey ''input.hide_host_cursor'' (bool_get (\<lambda>c. in_hide_host_cursor (ic_input c))) (Some (bool_set (\<lambda>b. ic_input_update (in_hide_host_cursor_update (\<lambda>_. b))))) None False,
    ConfigKey ''input.clipboard_enabled'' (bool_get (\<lambda>c. in_clipboard (ic_input c))) (Some (bool_set (\<lambda>b. ic_input_update (in_clipboard_update (\<lambda>_. b))))) None False]"

definition fixed_keys :: "config_key list" where
  "fixed_keys =
   [ConfigKey ''firmware.enable_uefi'' (bool_get (\<lambda>c. fw_enable_uefi (ic_firmware c))) (Some (bool_set (\<lambda>b. ic_firmware_update (fw_enable_uefi_update (\<lambda>_. b))))) None False,
    ConfigKey ''firmware.ovmf_code_path'' (\<lambda>c. fw_ovmf_code (ic_firmware c)) None (Some ''set via ANDLERD_OVMF_CODE or firmware discovery'') False,
    ConfigKey ''firmware.ovmf_vars_path'' (\<lambda>c. fw_ovmf_vars (ic_firmware c)) None (Some ''VARS.fd belongs to the instance directory'') False,
    ConfigKey ''kind.android_profile.arm_translator'' (\<lambda>c. android_get (\<lambda>a. lower_arm_translator (ap_arm_translator a)) c) None (Some ''use the dedicated arm-translator command; switching rebuilds the image'') False,
    ConfigKey ''kind.android_profile.boot_mode'' (\<lambda>c. android_get (\<lambda>a. show_boot_mode (ap_boot_mode a)) c) None (Some ''use the dedicated boot-mode command; switching rewrites the guest image'') False,
    ConfigKey ''kind.android_profile.android_version'' (\<lambda>c. android_get (\<lambda>a. lower_android_version (ap_version a)) c) None (Some ''the Android version is fixed at creation'') False,
    ConfigKey ''extra_disks'' (\<lambda>c. show_nat (length (ic_extra_disks c)) @ '' disk(s)'') None (Some ''use `andler attach disk` / `andler detach disk`'') False,
    ConfigKey ''extra_networks'' (\<lambda>c. show_nat (length (ic_extra_networks c)) @ '' nic(s)'') None (Some ''use `andler attach net` / `andler detach net`'') False]"

definition config_keys :: "config_key list" where
  "config_keys =
     identity_keys @ cpu_keys @ memory_keys @ disk_keys @ display_keys @ gpu_keys @ network_keys @ device_keys @ fixed_keys"

definition find_key :: "string \<Rightarrow> config_key option" where
  "find_key key = List.find (\<lambda>row. ck_key row = key) config_keys"

definition get_key :: "instance_config \<Rightarrow> string \<Rightarrow> string option" where
  "get_key c key = map_option (\<lambda>row. ck_get row c) (find_key key)"

definition set_key :: "instance_config \<Rightarrow> string \<Rightarrow> string \<Rightarrow> config_key_error + instance_config" where
  "set_key c key v =
     rbind (ok_or (UnknownKey key) (find_key key)) (\<lambda>row.
       case ck_set row of
         None \<Rightarrow> Inl (ImmutableKey key
                  (case ck_immutable_reason row of Some r \<Rightarrow> r | None \<Rightarrow> ''read-only key''))
       | Some setter \<Rightarrow> map_err (InvalidValue key v) (setter c v))"

definition diff_configs :: "instance_config \<Rightarrow> instance_config \<Rightarrow> (string \<times> string \<times> string) list" where
  "diff_configs a b =
     map (\<lambda>row. (ck_key row, ck_get row a, ck_get row b))
       (filter (\<lambda>row. ck_get row a \<noteq> ck_get row b) config_keys)"

definition is_live_key :: "string \<Rightarrow> bool" where
  "is_live_key key = (case find_key key of Some row \<Rightarrow> ck_live row | None \<Rightarrow> False)"

section \<open>Lemmas\<close>


lemmas key_row_defs = identity_keys_def cpu_keys_def memory_keys_def disk_keys_def display_keys_def
  gpu_keys_def network_keys_def device_keys_def fixed_keys_def

text \<open>A configuration whose printed values name it exactly.\<close>

definition size_printable :: "u64 \<Rightarrow> bool" where
  "size_printable b \<longleftrightarrow> b \<noteq> 0 \<and> (b < 1024 \<or> b mod (1024 * 1024) = 0)"

definition text_ok :: "string \<Rightarrow> bool" where
  "text_ok s \<longleftrightarrow> s \<noteq> [] \<and> trim s = s"

definition suffix_ok :: "string \<Rightarrow> bool" where
  "suffix_ok s \<longleftrightarrow> s \<noteq> [] \<and> \<not> is_space (last s)"

definition canonical_config :: "instance_config \<Rightarrow> bool" where
  "canonical_config c \<longleftrightarrow>
     text_ok (ic_name c) \<and> text_ok (net_device_model (ic_network c))
     \<and> size_printable (mem_size (ic_memory c)) \<and> size_printable (gpu_hostmem (ic_gpu c))
     \<and> (case disk_snapshot_timeout (ic_disk c) of None \<Rightarrow> True | Some s \<Rightarrow> s < 2 ^ 32)
     \<and> res_width (disp_resolution (ic_display c)) > 0
     \<and> res_height (disp_resolution (ic_display c)) > 0
     \<and> (case net_mode (ic_network c) of Bridge i \<Rightarrow> suffix_ok i | _ \<Rightarrow> True)
     \<and> (case gpu_render (ic_gpu c) of Passthrough i \<Rightarrow> suffix_ok i | _ \<Rightarrow> True)"

lemmas text_simps = to_lower_def lower_char_def byte_def trim_def is_space_def replace_chars_def

lemma parse_bool_str [simp]: "parse_bool (bool_str b) = Inr b"
  by (cases b; simp; code_simp)

lemma bool_set_get [simp]: "bool_set upd c (bool_str b) = Inr (upd b c)"
  by (simp add: bool_set_def)

lemma u32_set_get [simp]: "u32_set k upd c (show_word n) = Inr (upd n c)"
  by (simp add: u32_set_def parse_u32_key_def)

lemma text_set_get: "text_ok s \<Longrightarrow> text_set w upd c s = Inr (upd s c)"
  by (simp add: text_set_def text_ok_def)

lemma enum_cpu_priority [simp]:
  "parse_enum (lower_cpu_priority p) [(''low'', PrioLow), (''normal'', PrioNormal), (''high'', PrioHigh)] = Inr p"
  by (cases p; hypsubst; code_simp)

lemma enum_display_engine [simp]:
  "parse_enum (lower_display_engine e) [(''sdl'', Sdl), (''gtk'', Gtk), (''spice'', Spice), (''dbus'', Dbus), (''none'', NoDisplay)] = Inr e"
  by (cases e; hypsubst; code_simp)

lemma enum_nat_backend [simp]:
  "parse_enum (lower_nat_backend n) [(''slirp'', Slirp), (''passt'', Passt)] = Inr n"
  by (cases n; hypsubst; code_simp)

lemma enum_audio_backend [simp]:
  "parse_enum (lower_audio_backend a) [(''pipewire'', Pipewire), (''pulseaudio'', Pulseaudio), (''none'', NoAudio)] = Inr a"
  by (cases a; hypsubst; code_simp)

lemma enum_audio_device [simp]:
  "parse_enum (lower_audio_device d) [(''virtiosound'', VirtioSound), (''ich9hda'', Ich9Hda)] = Inr d"
  by (cases d; hypsubst; code_simp)

lemma enum_pointer_mode [simp]:
  "parse_enum (lower_pointer_mode m) [(''tablet'', Tablet), (''mouse'', Mouse)] = Inr m"
  by (cases m; hypsubst; code_simp)


lemma memory_size_set_get:
  "size_printable (mem_size (ic_memory c)) \<Longrightarrow>
     memory_size_set c (format_size (mem_size (ic_memory c))) =
       Inr (ic_memory_update (mem_size_update (\<lambda>_. mem_size (ic_memory c))) c)"
  by (auto simp: memory_size_set_def parse_format size_printable_def)

lemma hostmem_set_get:
  "size_printable (gpu_hostmem (ic_gpu c)) \<Longrightarrow>
     hostmem_set c (format_size (gpu_hostmem (ic_gpu c))) =
       Inr (ic_gpu_update (gpu_hostmem_update (\<lambda>_. gpu_hostmem (ic_gpu c))) c)"
  by (auto simp: hostmem_set_def parse_format size_printable_def)

lemma lower_digits: "list_all is_digit s \<Longrightarrow> to_lower s = s"
  by (induction s) (auto simp: to_lower_def)

lemma show_word_not_none: "to_lower (show_word w) \<noteq> ''none'' \<and> to_lower (show_word w) \<noteq> ''off''"
proof -
  have d: "list_all is_digit (show_word w)" by (simp add: show_word_def show_nat_digits)
  moreover have "\<not> list_all is_digit ''none''" "\<not> list_all is_digit ''off''"
    by (simp_all add: is_digit_def byte_def)
  ultimately show ?thesis using lower_digits by metis
qed

lemma ucast_u32: "s < 2 ^ 32 \<Longrightarrow> \<exists>n :: u32. ucast n = (s :: u64) \<and> show_word s = show_word n"
proof -
  assume "s < 2 ^ 32"
  then have "unat s < 2 ^ 32" by (simp add: word_less_nat_alt)
  then have t: "take_bit 32 (unat s) = unat s" by (rule take_bit_nat_eq_self)
  then have "unat (ucast s :: u32) = unat s" by (simp add: unsigned_ucast_eq unsigned_take_bit_eq)
  moreover have "unat (ucast (ucast s :: u32) :: u64) = unat s"
    using t by (simp add: unsigned_ucast_eq unsigned_take_bit_eq)
  ultimately have "unat (ucast (ucast s :: u32) :: u64) = unat s \<and> show_word s = show_word (ucast s :: u32)"
    by (simp add: show_word_def)
  then show ?thesis by (intro exI[of _ "ucast s"]) (simp add: word_unat_eq_iff)
qed

lemma timeout_set_get:
  assumes "case disk_snapshot_timeout (ic_disk c) of None \<Rightarrow> True | Some s \<Rightarrow> s < 2 ^ 32"
  shows "disk_snapshot_timeout_set c (disk_snapshot_timeout_get c) =
    Inr (ic_disk_update (disk_snapshot_timeout_update (\<lambda>_. disk_snapshot_timeout (ic_disk c))) c)"
proof (cases "disk_snapshot_timeout (ic_disk c)")
  case None
  have "to_lower (trim ''none'') = ''none''" by code_simp
  then show ?thesis using None by (simp add: disk_snapshot_timeout_set_def disk_snapshot_timeout_get_def)
next
  case (Some s)
  then obtain n :: u32 where "ucast n = s" "show_word s = show_word n"
    using assms ucast_u32[of s] by auto
  then show ?thesis
    using Some show_word_not_none[of n]
    by (simp add: disk_snapshot_timeout_set_def disk_snapshot_timeout_get_def parse_u32_key_def Let_def)
qed

lemma resolution_set_get:
  assumes "res_width (disp_resolution (ic_display c)) > 0" "res_height (disp_resolution (ic_display c)) > 0"
  shows "resolution_set c (resolution_get c) =
    Inr (ic_display_update (disp_resolution_update (\<lambda>_. disp_resolution (ic_display c))) c)"
proof -
  have "CHR ''x'' \<notin> set (show_word w)" for w :: u32
    using show_word_digits[of "CHR ''x''" w] by (auto simp: is_digit_def byte_def)
  then show ?thesis
    using assms by (simp add: resolution_set_def resolution_get_def split_once_append)
qed

lemma trim_prefixed: "p \<noteq> [] \<Longrightarrow> \<not> is_space (hd p) \<Longrightarrow> suffix_ok s \<Longrightarrow> trim (p @ s) = p @ s"
  by (rule trim_id) (simp add: suffix_ok_def)

lemma lower_prefix_neq: "to_lower (p @ s) = t \<Longrightarrow> to_lower p = take (length p) t"
  by (auto simp: to_lower_def)

lemma parse_render_show:
  "(case r of Passthrough i \<Rightarrow> suffix_ok i | _ \<Rightarrow> True) \<Longrightarrow> parse_render_backend (show_render_backend r) = Inr r"
proof (cases r)
  case (Passthrough i)
  assume "case r of Passthrough i \<Rightarrow> suffix_ok i | _ \<Rightarrow> True"
  then have i: "suffix_ok i" using Passthrough by simp
  have t: "trim (''passthrough:'' @ i) = ''passthrough:'' @ i"
    by (rule trim_prefixed) (use i in \<open>simp_all add: is_space_def byte_def\<close>)
  have l: "to_lower ''passthrough:'' = ''passthrough:''" by code_simp
  have "to_lower (''passthrough:'' @ i) = t' \<Longrightarrow> take (length ''passthrough:'') t' = ''passthrough:''" for t'
    using l lower_prefix_neq[of "''passthrough:''" i t'] by (simp only:)
  from this[of "''venus''"] this[of "''virtiogpu''"] this[of "''virtio-gpu''"] this[of "''virgl''"]
    this[of "''cpu''"] this[of "''software''"]
  show ?thesis using i t strip_prefix_append[of "''passthrough:''" i]
    by (auto simp: parse_render_backend_def Let_def Passthrough suffix_ok_def simp del: append.simps)
qed (simp, code_simp)+

lemma parse_network_mode_show:
  "(case m of Bridge i \<Rightarrow> suffix_ok i | _ \<Rightarrow> True) \<Longrightarrow> parse_network_mode (show_network_mode m) = Inr m"
proof (cases m)
  case (Bridge i)
  assume "case m of Bridge i \<Rightarrow> suffix_ok i | _ \<Rightarrow> True"
  then have i: "suffix_ok i" using Bridge by simp
  have t: "trim (''bridge:'' @ i) = ''bridge:'' @ i"
    by (rule trim_prefixed) (use i in \<open>simp_all add: is_space_def byte_def\<close>)
  have l: "to_lower ''bridge:'' = ''bridge:''" by code_simp
  have "to_lower (''bridge:'' @ i) = t' \<Longrightarrow> take (length ''bridge:'') t' = ''bridge:''" for t'
    using l lower_prefix_neq[of "''bridge:''" i t'] by (simp only:)
  from this[of "''nat''"] this[of "''isolated''"]
  show ?thesis using i t strip_prefix_append[of "''bridge:''" i]
    by (auto simp: parse_network_mode_def Let_def Bridge suffix_ok_def simp del: append.simps)
qed (simp, code_simp)+


section \<open>The table's laws\<close>

lemmas setter_defs = cpu_priority_set_def memory_size_set_def hostmem_set_def bool_set_def u32_set_def
  text_set_def disk_snapshot_timeout_set_def resolution_set_def render_backend_set_def
  network_mode_set_def enum_set_def

lemmas getter_defs = bool_get_def disk_snapshot_timeout_get_def resolution_get_def android_get_def

definition row_round :: "instance_config \<Rightarrow> config_key \<Rightarrow> bool" where
  "row_round c row \<longleftrightarrow> (case ck_set row of None \<Rightarrow> True | Some f \<Rightarrow> f c (ck_get row c) = Inr c)"

lemma row_round_simps [simp]:
  "row_round c (ConfigKey k g None r l)"
  "row_round c (ConfigKey k g (Some f) r l) \<longleftrightarrow> f c (g c) = Inr c"
  by (simp_all add: row_round_def)

lemma noop_updates:
  "f (ic_cpu c) = ic_cpu c \<Longrightarrow> ic_cpu_update f c = c"
  "g (ic_memory c) = ic_memory c \<Longrightarrow> ic_memory_update g c = c"
  "h (ic_disk c) = ic_disk c \<Longrightarrow> ic_disk_update h c = c"
  "i (ic_display c) = ic_display c \<Longrightarrow> ic_display_update i c = c"
  "j (ic_gpu c) = ic_gpu c \<Longrightarrow> ic_gpu_update j c = c"
  "k (ic_network c) = ic_network c \<Longrightarrow> ic_network_update k c = c"
  "l (ic_audio c) = ic_audio c \<Longrightarrow> ic_audio_update l c = c"
  "m (ic_input c) = ic_input c \<Longrightarrow> ic_input_update m c = c"
  "n (ic_firmware c) = ic_firmware c \<Longrightarrow> ic_firmware_update n c = c"
  by (cases c; simp)+

lemma canonical_rows:
  assumes "canonical_config c"
  shows "list_all (row_round c) identity_keys" "list_all (row_round c) cpu_keys"
    "list_all (row_round c) memory_keys" "list_all (row_round c) disk_keys"
    "list_all (row_round c) display_keys" "list_all (row_round c) gpu_keys"
    "list_all (row_round c) network_keys" "list_all (row_round c) device_keys"
    "list_all (row_round c) fixed_keys"
proof -
  note c = assms[unfolded canonical_config_def]
  show "list_all (row_round c) identity_keys"
    using c by (simp add: identity_keys_def text_set_get)
  show "list_all (row_round c) cpu_keys"
    by (simp add: cpu_keys_def cpu_priority_set_def noop_updates)
  show "list_all (row_round c) memory_keys"
    using c by (simp add: memory_keys_def memory_size_set_get bool_get_def noop_updates)
  show "list_all (row_round c) disk_keys"
    using c by (simp add: disk_keys_def bool_get_def timeout_set_get noop_updates)
  show "list_all (row_round c) display_keys"
    using c by (simp add: display_keys_def bool_get_def resolution_set_get enum_set_def noop_updates)
  show "list_all (row_round c) gpu_keys"
    using c by (simp add: gpu_keys_def bool_get_def hostmem_set_get render_backend_set_def
        parse_render_show noop_updates)
  show "list_all (row_round c) network_keys"
    using c by (simp add: network_keys_def text_set_get enum_set_def network_mode_set_def
        parse_network_mode_show noop_updates)
  show "list_all (row_round c) device_keys"
    by (simp add: device_keys_def bool_get_def enum_set_def noop_updates)
  show "list_all (row_round c) fixed_keys"
    by (simp add: fixed_keys_def bool_get_def noop_updates)
qed

lemma config_keys_round: "canonical_config c \<Longrightarrow> row \<in> set config_keys \<Longrightarrow> row_round c row"
  using canonical_rows[of c] by (auto simp: config_keys_def list_all_iff)


text \<open>The frame of a row: its setter leaves what every other row shows unchanged.\<close>

definition frame_ok :: "string \<Rightarrow> instance_config \<Rightarrow> instance_config \<Rightarrow> bool" where
  "frame_ok k c c' \<longleftrightarrow> list_all (\<lambda>r. ck_key r \<noteq> k \<longrightarrow> ck_get r c' = ck_get r c) config_keys"

definition row_frame :: "config_key \<Rightarrow> bool" where
  "row_frame row \<longleftrightarrow> (case ck_set row of None \<Rightarrow> True
     | Some f \<Rightarrow> \<forall>c v c'. f c v = Inr c' \<longrightarrow> frame_ok (ck_key row) c c')"

lemma row_frame_None [simp]: "row_frame (ConfigKey k g None r l)"
  by (simp add: row_frame_def)

lemma row_frame_upd:
  assumes "\<And>c v c'. f c v = Inr c' \<Longrightarrow> \<exists>x. c' = upd x c" and "\<And>x c. frame_ok k c (upd x c)"
  shows "row_frame (ConfigKey k g (Some f) r l)"
  using assms by (force simp: row_frame_def)

lemma frame_bool: "(\<And>b c. frame_ok k c (upd b c)) \<Longrightarrow> row_frame (ConfigKey k g (Some (bool_set upd)) r l)"
  by (rule row_frame_upd[where upd = upd]) (auto simp: bool_set_def rbind_eq_Inr)

lemma frame_u32: "(\<And>n c. frame_ok k c (upd n c)) \<Longrightarrow> row_frame (ConfigKey k g (Some (u32_set q upd)) r l)"
  by (rule row_frame_upd[where upd = upd]) (auto simp: u32_set_def rbind_eq_Inr)

lemma frame_text: "(\<And>s c. frame_ok k c (upd s c)) \<Longrightarrow> row_frame (ConfigKey k g (Some (text_set q upd)) r l)"
  by (rule row_frame_upd[where upd = upd]) (auto simp: text_set_def split: if_splits)

lemma frame_enum: "(\<And>x c. frame_ok k c (upd x c)) \<Longrightarrow> row_frame (ConfigKey k g (Some (enum_set t upd)) r l)"
  by (rule row_frame_upd[where upd = upd]) (auto simp: enum_set_def rbind_eq_Inr)

lemmas frame_simps = frame_ok_def config_keys_def key_row_defs getter_defs

lemmas frame_intros = frame_bool frame_u32 frame_text frame_enum

lemma frame_cpu_priority: "row_frame (ConfigKey ''cpu.priority'' g (Some cpu_priority_set) r l)"
  by (rule row_frame_upd[where upd = "\<lambda>p. ic_cpu_update (cpu_prio_update (\<lambda>_. p))"])
     (auto simp: cpu_priority_set_def rbind_eq_Inr, simp add: frame_simps)

lemma frame_memory_size: "row_frame (ConfigKey ''memory.size_bytes'' g (Some memory_size_set) r l)"
  by (rule row_frame_upd[where upd = "\<lambda>p. ic_memory_update (mem_size_update (\<lambda>_. p))"])
     (auto simp: memory_size_set_def rbind_eq_Inr split: if_splits, simp add: frame_simps)

lemma frame_hostmem: "row_frame (ConfigKey ''gpu.hostmem_bytes'' g (Some hostmem_set) r l)"
  by (rule row_frame_upd[where upd = "\<lambda>p. ic_gpu_update (gpu_hostmem_update (\<lambda>_. p))"])
     (auto simp: hostmem_set_def rbind_eq_Inr split: if_splits, simp add: frame_simps)

lemma frame_timeout: "row_frame (ConfigKey ''disk.snapshot_timeout_secs'' g (Some disk_snapshot_timeout_set) r l)"
  by (rule row_frame_upd[where upd = "\<lambda>p. ic_disk_update (disk_snapshot_timeout_update (\<lambda>_. p))"])
     (auto simp: disk_snapshot_timeout_set_def rbind_eq_Inr Let_def split: if_splits, simp add: frame_simps)

lemma frame_resolution: "row_frame (ConfigKey ''display.resolution'' g (Some resolution_set) r l)"
  by (rule row_frame_upd[where upd = "\<lambda>p. ic_display_update (disp_resolution_update (\<lambda>_. p))"])
     (auto simp: resolution_set_def split: if_splits option.splits, simp add: frame_simps)

lemma frame_render: "row_frame (ConfigKey ''gpu.render_backend'' g (Some render_backend_set) r l)"
  by (rule row_frame_upd[where upd = "\<lambda>p. ic_gpu_update (gpu_render_update (\<lambda>_. p))"])
     (auto simp: render_backend_set_def rbind_eq_Inr, simp add: frame_simps)

lemma frame_network_mode: "row_frame (ConfigKey ''network.mode'' g (Some network_mode_set) r l)"
  by (rule row_frame_upd[where upd = "\<lambda>p. ic_network_update (net_mode_update (\<lambda>_. p))"])
     (auto simp: network_mode_set_def rbind_eq_Inr, simp add: frame_simps)

lemmas frame_special = frame_cpu_priority frame_memory_size frame_hostmem frame_timeout
  frame_resolution frame_render frame_network_mode

lemma all_frames:
  "list_all row_frame identity_keys" "list_all row_frame cpu_keys" "list_all row_frame memory_keys"
  "list_all row_frame disk_keys" "list_all row_frame display_keys" "list_all row_frame gpu_keys"
  "list_all row_frame network_keys" "list_all row_frame device_keys" "list_all row_frame fixed_keys"
  unfolding key_row_defs list.pred_inject(1) list.pred_inject(2)
  by (intro conjI row_frame_None frame_special frame_intros; simp add: frame_simps)+

lemma config_keys_frame: "row \<in> set config_keys \<Longrightarrow> row_frame row"
  using all_frames by (auto simp: config_keys_def list_all_iff)


lemma find_key_Some: "find_key k = Some row \<Longrightarrow> row \<in> set config_keys \<and> ck_key row = k"
  unfolding find_key_def by (drule find_Some) simp

lemma set_key_ok_iff:
  "set_key c k v = Inr c' \<longleftrightarrow> (\<exists>row f. find_key k = Some row \<and> ck_set row = Some f \<and> f c v = Inr c')"
  by (auto simp: set_key_def rbind_eq_Inr ok_or_eq_Inr map_err_eq_Inr split: option.splits)

text \<open>C34. What the user sees is what the user may type: on a configuration whose values print
  exactly, setting any mutable key to the value the table shows for it succeeds and changes
  nothing.\<close>

theorem set_key_get_key:
  assumes "canonical_config c" and "find_key k = Some row" and "ck_set row \<noteq> None"
  shows "\<exists>v. get_key c k = Some v \<and> set_key c k v = Inr c"
proof -
  obtain f where f: "ck_set row = Some f" using assms(3) by blast
  have "row_round c row" using assms(1) find_key_Some[OF assms(2)] config_keys_round by blast
  then have "f c (ck_get row c) = Inr c" using f by (simp add: row_round_def)
  then show ?thesis using assms(2) f by (auto simp: get_key_def set_key_ok_iff)
qed

lemma canonical_example: "canonical_config (example_config 7)"
proof -
  have "trim ''vm'' = ''vm''" "trim ''virtio-net-pci'' = ''virtio-net-pci''" by code_simp+
  then show ?thesis
    by (simp add: canonical_config_def example_config_def config_defaults text_ok_def
        size_printable_def GIB_def MIB_def)
qed

theorem set_key_get_key_witness:
  "\<exists>v. get_key (example_config 7) ''display.resolution'' = Some v
     \<and> set_key (example_config 7) ''display.resolution'' v = Inr (example_config 7)"
proof -
  have "find_key ''display.resolution'' =
      Some (ConfigKey ''display.resolution'' resolution_get (Some resolution_set) None True)"
    by (simp add: find_key_def config_keys_def key_row_defs)
  from set_key_get_key[OF canonical_example this] show ?thesis by simp
qed

text \<open>The canonical form is needed: a memory size that is not a whole number of MiB (from
  1 KiB up) is shown with a decimal point, and the setter refuses the shown value.\<close>

theorem memory_size_shown_but_refused:
  assumes "mem_size (ic_memory c) \<ge> 1024" and "mem_size (ic_memory c) mod (1024 * 1024) \<noteq> 0"
  shows "\<exists>v. get_key c ''memory.size_bytes'' = Some v \<and>
      set_key c ''memory.size_bytes'' v =
        Inl (InvalidValue ''memory.size_bytes'' v (BadSize DecimalSize))"
proof -
  have row: "find_key ''memory.size_bytes'' =
      Some (ConfigKey ''memory.size_bytes'' (\<lambda>c. format_size (mem_size (ic_memory c))) (Some memory_size_set) None False)"
    by (simp add: find_key_def config_keys_def key_row_defs)
  have "parse_size (format_size (mem_size (ic_memory c))) = Inl DecimalSize"
    using assms by (simp add: parse_format not_less)
  then show ?thesis by (simp add: get_key_def set_key_def row memory_size_set_def)
qed

theorem memory_size_shown_but_refused_witness:
  "\<exists>v. get_key (ic_memory_update (mem_size_update (\<lambda>_. 2040109466)) (example_config 7)) ''memory.size_bytes'' = Some v \<and>
      set_key (ic_memory_update (mem_size_update (\<lambda>_. 2040109466)) (example_config 7)) ''memory.size_bytes'' v =
        Inl (InvalidValue ''memory.size_bytes'' v (BadSize DecimalSize))"
  by (rule memory_size_shown_but_refused) (simp_all add: example_config_def)

text \<open>Setting one key changes no other: after a successful \<open>set_key\<close> every other key shows
  the value it showed before, so the reported drift names at most the key that was set.\<close>

theorem set_key_frame:
  assumes "set_key c k v = Inr c'"
  shows "(\<forall>k'. k' \<noteq> k \<longrightarrow> get_key c' k' = get_key c k')
         \<and> set (map fst (diff_configs c c')) \<subseteq> {k}"
proof -
  obtain row f where row: "find_key k = Some row" "ck_set row = Some f" "f c v = Inr c'"
    using assms by (auto simp: set_key_ok_iff)
  have "row_frame row" "ck_key row = k"
    using find_key_Some[OF row(1)] config_keys_frame by blast+
  then have fr: "frame_ok k c c'" using row(2,3) by (auto simp: row_frame_def)
  have "get_key c' k' = get_key c k'" if "k' \<noteq> k" for k'
    using fr that find_key_Some[of k'] by (cases "find_key k'") (auto simp: get_key_def frame_ok_def list_all_iff)
  moreover have "set (map fst (diff_configs c c')) \<subseteq> {k}"
    using fr by (auto simp: diff_configs_def frame_ok_def list_all_iff)
  ultimately show ?thesis by blast
qed

theorem set_key_frame_witness:
  "\<exists>c'. get_key c' ''cpu.cores'' = get_key (example_config 7) ''cpu.cores''
     \<and> set (map fst (diff_configs (example_config 7) c')) \<subseteq> {''display.dpi''}"
proof -
  have row: "find_key ''display.dpi'' =
      Some (ConfigKey ''display.dpi'' (\<lambda>c. show_word (disp_dpi (ic_display c)))
        (Some (u32_set ''display.dpi'' (\<lambda>n. ic_display_update (disp_dpi_update (\<lambda>_. n))))) None False)"
    by (simp add: find_key_def config_keys_def key_row_defs)
  have "set_key (example_config 7) ''display.dpi'' (show_word (160 :: u32)) =
      Inr (ic_display_update (disp_dpi_update (\<lambda>_. 160)) (example_config 7))"
    by (simp add: set_key_ok_iff row)
  from set_key_frame[OF this] show ?thesis by (intro exI conjI) (erule conjE, erule allE, erule mp, simp, erule conjunct2)
qed

lemma distinct_keys: "distinct (map ck_key config_keys)"
  by (simp add: config_keys_def key_row_defs)

text \<open>The error \<open>set_key\<close> gives is the one the table prescribes: \<open>UnknownKey\<close> exactly for
  keys without a row, \<open>ImmutableKey\<close> exactly for rows without a setter (and never with the
  fallback reason), a value error only from the row's own setter; exactly one key is live.\<close>

theorem set_key_errors:
  "(set_key c k v = Inl (UnknownKey k) \<longleftrightarrow> k \<notin> set (map ck_key config_keys))
   \<and> ((\<exists>r. set_key c k v = Inl (ImmutableKey k r)) \<longleftrightarrow>
        (\<exists>row \<in> set config_keys. ck_key row = k \<and> ck_set row = None))
   \<and> set_key c k v \<noteq> Inl (ImmutableKey k ''read-only key'')
   \<and> (is_live_key k \<longleftrightarrow> k = ''display.resolution'')"
proof -
  have none: "find_key k = None \<longleftrightarrow> k \<notin> set (map ck_key config_keys)"
    by (auto simp: find_key_def find_None)
  have uniq: "find_key k = Some row" if "row \<in> set config_keys" "ck_key row = k" for row
  proof -
    have "k \<in> set (map ck_key config_keys)" using that by force
    then obtain row' where r: "find_key k = Some row'" using none by (cases "find_key k") blast+
    then have "row' = row" using find_key_Some[OF r] that distinct_keys
      by (metis (no_types, lifting) distinct_map inj_on_def)
    then show ?thesis using r by simp
  qed
  have reasons: "list_all (\<lambda>row. ck_set row = None \<longrightarrow>
      (\<exists>r. ck_immutable_reason row = Some r \<and> r \<noteq> ''read-only key'')) config_keys"
    by (simp add: config_keys_def key_row_defs)
  have live: "list_all (\<lambda>row. ck_live row = (ck_key row = ''display.resolution'')) config_keys"
    by (simp add: config_keys_def key_row_defs)
  have lv: "\<exists>row. find_key ''display.resolution'' = Some row"
    by (simp add: find_key_def config_keys_def key_row_defs)
  have is_live: "is_live_key k \<longleftrightarrow> k = ''display.resolution''"
  proof (cases "find_key k")
    case None
    then show ?thesis using lv by (auto simp: is_live_key_def)
  next
    case (Some row)
    then show ?thesis using live find_key_Some[OF Some] by (simp add: is_live_key_def list_all_iff)
  qed
  show ?thesis
  proof (cases "find_key k")
    case None
    then have "set_key c k v = Inl (UnknownKey k)" by (simp add: set_key_def)
    moreover have "k \<notin> set (map ck_key config_keys)" using None none by simp
    ultimately show ?thesis using is_live by auto
  next
    case (Some row)
    then have k: "k \<in> set (map ck_key config_keys)" using none by simp
    have row: "row \<in> set config_keys" "ck_key row = k" using find_key_Some[OF Some] by simp_all
    have only: "(\<exists>row \<in> set config_keys. ck_key row = k \<and> ck_set row = None) \<longleftrightarrow> ck_set row = None"
      using uniq row Some by (metis option.inject)
    show ?thesis
    proof (cases "ck_set row")
      case None
      then obtain r where "ck_immutable_reason row = Some r" "r \<noteq> ''read-only key''"
        using reasons row(1) by (auto simp: list_all_iff)
      then have "set_key c k v = Inl (ImmutableKey k r) \<and> r \<noteq> ''read-only key''"
        by (simp add: set_key_def Some None)
      then show ?thesis using is_live k only None by simp
    next
      case f: (Some f)
      have "set_key c k v = map_err (InvalidValue k v) (f c v)" by (simp add: set_key_def Some f)
      then have "set_key c k v \<noteq> Inl (UnknownKey k)" "set_key c k v \<noteq> Inl (ImmutableKey k r)" for r
        by (cases "f c v"; simp)+
      then show ?thesis using is_live k only f by simp
    qed
  qed
qed

end
