(* ===== verification/Draft.thy ===== *)
theory Draft
  imports Config Sizes
begin

text \<open>
  Creation drafts (\<open>core/andler-core/src/config/draft.rs\<close>): what a creation path may choose,
  and \<open>ConfigDraft::resolve\<close>, which fills every unset section with its reference default.
  The freshly drawn instance id is an argument.
\<close>

definition DEFAULT_DISK_GIB :: u64 where "DEFAULT_DISK_GIB = 256"

definition DEFAULT_OVERLAY_GIB :: u64 where "DEFAULT_OVERLAY_GIB = 128"

record host_firmware =
  hf_ovmf_code_path :: "string option"
  hf_ovmf_vars_template :: "string option"

datatype draft_kind = DraftLinux string cdrom_bus | DraftAndroid android_profile

datatype disk_source = Fresh | BaseImage string bool

record disk_draft =
  dd_path :: string
  dd_source :: disk_source
  dd_size_gib :: "u64 option"
  dd_compact_on_shutdown :: bool
  dd_snapshot_timeout :: "u64 option"

record firmware_draft =
  fd_enable_uefi :: "bool option"
  fd_ovmf_vars_template :: "string option"

record config_draft =
  cd_name :: string
  cd_kind :: draft_kind
  cd_disk :: disk_draft
  cd_firmware :: firmware_draft
  cd_autostart :: bool
  cd_cpu :: "cpu_config option"
  cd_memory :: "memory_config option"
  cd_display :: "display_config option"
  cd_gpu :: "gpu_config option"
  cd_network :: "network_config option"
  cd_audio :: "audio_config option"
  cd_input :: "input_config option"

datatype draft_error =
    SectionUnsupported string
  | AutostartUnsupported
  | DiskTooLarge u64 u64

definition unwrap_or :: "'a \<Rightarrow> 'a option \<Rightarrow> 'a" where
  "unwrap_or d x = (case x of Some y \<Rightarrow> y | None \<Rightarrow> d)"

definition disk_draft_resolve :: "disk_draft \<Rightarrow> draft_error + disk_config" where
  "disk_draft_resolve d =
     (let gib = unwrap_or (case dd_source d of Fresh \<Rightarrow> DEFAULT_DISK_GIB | BaseImage _ _ \<Rightarrow> DEFAULT_OVERLAY_GIB)
                  (dd_size_gib d) in
      rbind (ok_or (DiskTooLarge gib (- 1 div GIB)) (checked_mul gib GIB)) (\<lambda>size_bytes.
        let disk = (case dd_source d of
              Fresh \<Rightarrow> disk_standalone (dd_path d) size_bytes
            | BaseImage p linked \<Rightarrow>
                if linked then disk_overlay (dd_path d) p size_bytes
                else disk_standalone (dd_path d) size_bytes)
        in Inr (disk\<lparr>disk_compact_on_shutdown := dd_compact_on_shutdown d,
                     disk_snapshot_timeout := dd_snapshot_timeout d\<rparr>)))"

definition firmware_draft_resolve :: "firmware_draft \<Rightarrow> host_firmware \<Rightarrow> firmware_config" where
  "firmware_draft_resolve f host =
     (let explicit = (case fd_ovmf_vars_template f of Some p \<Rightarrow> if p \<noteq> [] then Some p else None | None \<Rightarrow> None);
          available = (explicit \<noteq> None \<or> hf_ovmf_vars_template host \<noteq> None);
          enable_uefi = unwrap_or available (fd_enable_uefi f)
      in if \<not> enable_uefi
         then \<lparr>fw_enable_uefi = False, fw_ovmf_code = [], fw_ovmf_vars = []\<rparr>
         else \<lparr>fw_enable_uefi = True, fw_ovmf_code = [], fw_ovmf_vars = unwrap_or [] explicit\<rparr>)"

definition reject_unsupported_android_inputs :: "config_draft \<Rightarrow> draft_error + unit" where
  "reject_unsupported_android_inputs d =
     (let sec = (if cd_cpu d \<noteq> None then Some ''cpu''
                 else if cd_memory d \<noteq> None then Some ''memory''
                 else if cd_display d \<noteq> None then Some ''display''
                 else if cd_gpu d \<noteq> None then Some ''gpu''
                 else if cd_network d \<noteq> None then Some ''network''
                 else if cd_audio d \<noteq> None then Some ''audio''
                 else if cd_input d \<noteq> None then Some ''input''
                 else None)
      in case sec of
           Some s \<Rightarrow> Inl (SectionUnsupported s)
         | None \<Rightarrow> if cd_autostart d then Inl AutostartUnsupported else Inr ())"

definition draft_base :: "config_draft \<Rightarrow> instance_id \<Rightarrow> disk_config \<Rightarrow> firmware_config \<Rightarrow> instance_config" where
  "draft_base d new_id disk fw =
     \<lparr>ic_id = new_id, ic_name = cd_name d,
      ic_kind = (case cd_kind d of DraftLinux iso_path bus \<Rightarrow> LinuxVm iso_path bus | DraftAndroid prof \<Rightarrow> AndroidVm prof),
      ic_backend = Qemu, ic_schema_version = CURRENT_SCHEMA_VERSION,
      ic_cpu = unwrap_or cpu_reference_default (cd_cpu d),
      ic_memory = unwrap_or memory_reference_default (cd_memory d),
      ic_disk = disk,
      ic_display = unwrap_or display_reference_default (cd_display d),
      ic_gpu = unwrap_or gpu_reference_default (cd_gpu d),
      ic_network = unwrap_or network_reference_default (cd_network d),
      ic_extra_disks = [], ic_extra_networks = [],
      ic_firmware = fw,
      ic_audio = unwrap_or audio_reference_default (cd_audio d),
      ic_input = unwrap_or input_reference_default (cd_input d),
      ic_autostart = cd_autostart d\<rparr>"

definition draft_resolve :: "config_draft \<Rightarrow> instance_id \<Rightarrow> host_firmware \<Rightarrow> draft_error + instance_config" where
  "draft_resolve d new_id host =
     rbind (disk_draft_resolve (cd_disk d)) (\<lambda>disk.
       let base = draft_base d new_id disk (firmware_draft_resolve (cd_firmware d) host) in
       case ic_kind base of
         AndroidVm _ \<Rightarrow>
           rbind (reject_unsupported_android_inputs d) (\<lambda>_. Inr (base\<lparr>ic_autostart := False\<rparr>))
       | LinuxVm _ _ \<Rightarrow> Inr base)"

section \<open>Lemmas\<close>

lemma unwrap_or_simps [simp]: "unwrap_or d None = d" "unwrap_or d (Some x) = x"
  by (simp_all add: unwrap_or_def)

lemma reject_ok_iff:
  "reject_unsupported_android_inputs d = Inr () \<longleftrightarrow>
     cd_cpu d = None \<and> cd_memory d = None \<and> cd_display d = None \<and> cd_gpu d = None
     \<and> cd_network d = None \<and> cd_audio d = None \<and> cd_input d = None \<and> \<not> cd_autostart d"
  by (auto simp: reject_unsupported_android_inputs_def Let_def)

lemma checked_mul_Some: "checked_mul a b = Some c \<longleftrightarrow> unat a * unat b < 2 ^ 64 \<and> c = a * b"
  by (auto simp: checked_mul_def)

lemma disk_draft_resolve_ok:
  "disk_draft_resolve d = Inr disk \<Longrightarrow>
     disk_path disk = dd_path d
     \<and> unat (disk_size disk) = unat (unwrap_or (if dd_source d = Fresh then 256 else 128) (dd_size_gib d)) * 2 ^ 30
     \<and> disk_base_image disk = (case dd_source d of BaseImage p True \<Rightarrow> Some p | _ \<Rightarrow> None)
     \<and> disk_compact_on_shutdown disk = dd_compact_on_shutdown d
     \<and> disk_snapshot_timeout disk = dd_snapshot_timeout d"
proof -
  assume ok: "disk_draft_resolve d = Inr disk"
  define gib where "gib = unwrap_or (if dd_source d = Fresh then 256 else 128) (dd_size_gib d)"
  have g: "unwrap_or (case dd_source d of Fresh \<Rightarrow> DEFAULT_DISK_GIB | BaseImage _ _ \<Rightarrow> DEFAULT_OVERLAY_GIB)
                  (dd_size_gib d) = gib"
    by (cases "dd_source d") (simp_all add: gib_def DEFAULT_DISK_GIB_def DEFAULT_OVERLAY_GIB_def)
  have G: "unat GIB = 2 ^ 30" by (simp add: GIB_def)
  from ok obtain sz where sz: "checked_mul gib GIB = Some sz"
    and disk: "disk = (case dd_source d of
              Fresh \<Rightarrow> disk_standalone (dd_path d) sz
            | BaseImage p linked \<Rightarrow>
                if linked then disk_overlay (dd_path d) p sz
                else disk_standalone (dd_path d) sz)\<lparr>disk_compact_on_shutdown := dd_compact_on_shutdown d,
                     disk_snapshot_timeout := dd_snapshot_timeout d\<rparr>"
    unfolding disk_draft_resolve_def g Let_def by (auto simp: rbind_eq_Inr ok_or_eq_Inr)
  from sz have "unat gib * unat GIB < 2 ^ 64" "sz = gib * GIB" by (simp_all add: checked_mul_Some)
  then have "unat sz = unat gib * 2 ^ 30" unfolding G by (simp add: unat_word_ariths G)
  then show ?thesis
    unfolding gib_def[symmetric]
    by (cases "dd_source d") (auto simp: disk disk_standalone_def disk_overlay_def)
qed

text \<open>A draft resolves to the configuration it names: identity, disk path and size (the
  GiB count without wrap-around), backing file exactly for a linked base image, every unset
  section the reference default, every set section kept; an Android draft resolves only when
  it sets no section and no autostart.\<close>

theorem draft_resolve_ok:
  assumes "draft_resolve d i host = Inr c"
  shows "ic_id c = i \<and> ic_name c = cd_name d \<and> disk_path (ic_disk c) = dd_path (cd_disk d)
     \<and> unat (disk_size (ic_disk c)) =
         unat (unwrap_or (if dd_source (cd_disk d) = Fresh then 256 else 128) (dd_size_gib (cd_disk d))) * 2 ^ 30
     \<and> disk_base_image (ic_disk c) =
         (case dd_source (cd_disk d) of BaseImage p True \<Rightarrow> Some p | _ \<Rightarrow> None)
     \<and> ic_cpu c = unwrap_or cpu_reference_default (cd_cpu d)
     \<and> ic_memory c = unwrap_or memory_reference_default (cd_memory d)
     \<and> ic_network c = unwrap_or network_reference_default (cd_network d)
     \<and> ic_extra_disks c = [] \<and> ic_autostart c = cd_autostart d
     \<and> (case cd_kind d of
          DraftLinux iso_path bus \<Rightarrow> ic_kind c = LinuxVm iso_path bus
        | DraftAndroid prof \<Rightarrow> ic_kind c = AndroidVm prof \<and> \<not> cd_autostart d
            \<and> cd_cpu d = None \<and> cd_memory d = None \<and> cd_network d = None)"
proof -
  obtain disk where disk: "disk_draft_resolve (cd_disk d) = Inr disk"
    and c: "(case ic_kind (draft_base d i disk (firmware_draft_resolve (cd_firmware d) host)) of
         AndroidVm _ \<Rightarrow>
           rbind (reject_unsupported_android_inputs d)
             (\<lambda>_. Inr ((draft_base d i disk (firmware_draft_resolve (cd_firmware d) host))\<lparr>ic_autostart := False\<rparr>))
       | LinuxVm _ _ \<Rightarrow> Inr (draft_base d i disk (firmware_draft_resolve (cd_firmware d) host))) = Inr c"
    using assms by (auto simp: draft_resolve_def rbind_eq_Inr Let_def)
  show ?thesis
    using disk_draft_resolve_ok[OF disk] c
    by (cases "cd_kind d") (auto simp: draft_base_def rbind_eq_Inr reject_ok_iff)
qed

definition example_draft :: config_draft where
  "example_draft =
     \<lparr>cd_name = ''a'', cd_kind = DraftLinux ''/x.iso'' Ide,
      cd_disk = \<lparr>dd_path = ''/d'', dd_source = BaseImage ''/base'' True, dd_size_gib = None,
        dd_compact_on_shutdown = True, dd_snapshot_timeout = None\<rparr>,
      cd_firmware = \<lparr>fd_enable_uefi = None, fd_ovmf_vars_template = None\<rparr>, cd_autostart = True,
      cd_cpu = None, cd_memory = None, cd_display = None, cd_gpu = None, cd_network = None,
      cd_audio = None, cd_input = None\<rparr>"

theorem draft_resolve_ok_witness:
  "\<exists>c. draft_resolve example_draft [] \<lparr>hf_ovmf_code_path = None, hf_ovmf_vars_template = None\<rparr> = Inr c
     \<and> unat (disk_size (ic_disk c)) = 128 * 2 ^ 30 \<and> disk_base_image (ic_disk c) = Some ''/base''"
proof -
  have "\<exists>c. draft_resolve example_draft [] \<lparr>hf_ovmf_code_path = None, hf_ovmf_vars_template = None\<rparr> = Inr c"
    by (simp add: draft_resolve_def example_draft_def disk_draft_resolve_def DEFAULT_OVERLAY_GIB_def GIB_def
        checked_mul_def Let_def draft_base_def)
  then obtain c where c: "draft_resolve example_draft [] \<lparr>hf_ovmf_code_path = None, hf_ovmf_vars_template = None\<rparr> = Inr c" ..
  from draft_resolve_ok[OF this] show ?thesis using c by (auto simp: example_draft_def)
qed

end
