(* ===== verification/Errors.thy ===== *)
theory Errors
  imports Config Keypath Fsm
begin

text \<open>
  The daemon's error type and its machine-readable category
  (\<open>apps/daemon/src/daemon/error.rs\<close>), with the backend and disk errors it wraps
  (\<open>andler-core/src/error.rs\<close>, \<open>andler-disk/src/error.rs\<close>). Errors of other crates that are
  only carried (mutator, base image, store, OCI export, \<open>std::io\<close>) are their display text.
\<close>

datatype backend_error =
    NotImplemented string string
  | HandleNotFound string
  | BackendIo string
  | BackendInvalidConfig string string
  | ProcessNotRunning

datatype disk_error =
    SpawnFailed string
  | CommandFailed int string
  | BackingFileNotFound string
  | ParseError string
  | DiskIo string string
  | FileSystem string
  | OfflineGuestFailed string
  | ShrinkRequiresConfirmation string u64 u64
  | CompactNotApplicable string string
  | PackageManagerNotFound string
  | AgentAlreadyInstalled string
  | AgentNotInstalled string
  | InvalidPackageName string string
  | DiskGuestAgentUnavailable string
  | InsufficientDiskSpace string u64 u64
  | NoGuestOs string
  | ImageIndex string string
  | ImageDownload string string
  | ImageVerify string

datatype operation_kind =
    OpCreate | OpClone | OpExport | OpStart | OpStop | OpSnapshotCreate | OpSnapshotRestore
  | OpSnapshotDelete | OpCompact | OpGuestInstall | OpGuestRemove | OpDiskCreate | OpDiskResize

datatype config_key_message =
    UnknownKeyMessage string
  | ImmutableKeyMessage string string
  | InvalidValueMessage string string setter_error
  | OtherKeyMessage string

text \<open>The variants of \<open>DaemonError\<close>, grouped by the part of the daemon that raises them.\<close>

datatype snapshot_error =
    SnapshotNotFound instance_id string
  | SnapshotAlreadyExists instance_id string
  | SnapshotOperationRequiresRunningInstance instance_id instance_state
  | SnapshotLimitExceeded instance_id nat nat
  | SnapshotRequiresQcow2 instance_id string
  | SnapshotStoreUnavailable instance_id
  | SnapshotLayerMissing instance_id string
  | SnapshotInternalNotRestorable instance_id string
  | RestoreTargetOnArchivedBranch instance_id string string
  | RestoreWouldBreakClones instance_id string "instance_id list"
  | DeleteWouldBreakClones instance_id string "instance_id list"
  | CannotDeleteBaseLayer instance_id string

datatype gate_error =
    PortForwardConflict u16 instance_id instance_id
  | DiskInUse string instance_id instance_id
  | CpuAffinityConflict u64 instance_id instance_id
  | MemoryOvercommit u64 u64 nat u64

datatype operation_error =
    OperationAlreadyRunning instance_id string operation_kind
  | OperationCancelled string
  | OperationFailed string string
  | OperationNotFound string

datatype lifecycle_error =
    InstanceNotRemovable instance_id instance_state
  | InstanceNotClonable instance_id instance_state
  | InstanceAlreadyStopped instance_id string
  | SharedBaseNotSupportedForLinuxVm instance_id
  | InstanceHasLiveClones instance_id "instance_id list"
  | InstanceMustBeStopped instance_id instance_state
  | NotAndroid instance_id
  | MissingOvmfVarsTemplate
  | ExportRequiresQcow2 instance_id string
  | OciExport string string
  | GuestAgentUnavailable instance_id string

datatype request_error =
    EmptyInstanceRef
  | ConfigIdMismatch instance_id instance_id
  | ConfigKindChanged instance_id
  | ConfigDiskPathChanged instance_id
  | MalformedInstanceRef string
  | InstanceRefNotFound string
  | AmbiguousInstanceId string "instance_id list"
  | InvalidConfigKey config_key_message
  | ConfigMigrationConflict instance_id string
  | ConfigFileInvalid string string

datatype hotplug_error =
    HotplugRequiresRunningInstance instance_id instance_state
  | DiskAlreadyAttached instance_id string
  | DiskNotAttached instance_id string
  | NetworkNotAttached instance_id nat nat

datatype daemon_error =
    InvalidConfig string
  | InstanceNotFound instance_id
  | NoBackendRegistered backend_kind
  | TransitionError fsm_error
  | BackendErr backend_error
  | DiskErr disk_error
  | MutatorErr string
  | BaseImageErr string
  | BaseImagePinMismatch string
  | BaseImageUnavailable string
  | FirmwareErr string
  | IoErr string string
  | InstanceSupervisorGone instance_id
  | StoreErr string
  | SnapErr snapshot_error
  | GateErr gate_error
  | OpErr operation_error
  | LifeErr lifecycle_error
  | ReqErr request_error
  | HotErr hotplug_error

datatype error_kind =
    KInvalidArgument | KNotFound | KAlreadyExists | KFailedPrecondition | KUnimplemented
  | KResourceExhausted | KInternal

fun from_config_key_error :: "config_key_error \<Rightarrow> daemon_error" where
  "from_config_key_error (UnknownKey k) = ReqErr (InvalidConfigKey (UnknownKeyMessage k))"
| "from_config_key_error (ImmutableKey k r) = ReqErr (InvalidConfigKey (ImmutableKeyMessage k r))"
| "from_config_key_error (InvalidValue k v r) = ReqErr (InvalidConfigKey (InvalidValueMessage k v r))"

fun backend_error_kind :: "backend_error \<Rightarrow> error_kind" where
  "backend_error_kind (NotImplemented _ _) = KUnimplemented"
| "backend_error_kind (HandleNotFound _) = KFailedPrecondition"
| "backend_error_kind ProcessNotRunning = KFailedPrecondition"
| "backend_error_kind _ = KInternal"

fun disk_error_kind :: "disk_error \<Rightarrow> error_kind" where
  "disk_error_kind (InsufficientDiskSpace _ _ _) = KResourceExhausted"
| "disk_error_kind _ = KInternal"

fun snapshot_error_kind :: "snapshot_error \<Rightarrow> error_kind" where
  "snapshot_error_kind (SnapshotNotFound _ _) = KNotFound"
| "snapshot_error_kind (SnapshotAlreadyExists _ _) = KAlreadyExists"
| "snapshot_error_kind (SnapshotOperationRequiresRunningInstance _ _) = KFailedPrecondition"
| "snapshot_error_kind (SnapshotLimitExceeded _ _ _) = KFailedPrecondition"
| "snapshot_error_kind (SnapshotRequiresQcow2 _ _) = KFailedPrecondition"
| "snapshot_error_kind (SnapshotStoreUnavailable _) = KFailedPrecondition"
| "snapshot_error_kind (SnapshotLayerMissing _ _) = KNotFound"
| "snapshot_error_kind (SnapshotInternalNotRestorable _ _) = KFailedPrecondition"
| "snapshot_error_kind (RestoreTargetOnArchivedBranch _ _ _) = KFailedPrecondition"
| "snapshot_error_kind (RestoreWouldBreakClones _ _ _) = KFailedPrecondition"
| "snapshot_error_kind (DeleteWouldBreakClones _ _ _) = KFailedPrecondition"
| "snapshot_error_kind (CannotDeleteBaseLayer _ _) = KFailedPrecondition"

fun gate_error_kind :: "gate_error \<Rightarrow> error_kind" where
  "gate_error_kind (PortForwardConflict _ _ _) = KFailedPrecondition"
| "gate_error_kind (DiskInUse _ _ _) = KFailedPrecondition"
| "gate_error_kind (CpuAffinityConflict _ _ _) = KFailedPrecondition"
| "gate_error_kind (MemoryOvercommit _ _ _ _) = KFailedPrecondition"

fun operation_error_kind :: "operation_error \<Rightarrow> error_kind" where
  "operation_error_kind (OperationAlreadyRunning _ _ _) = KFailedPrecondition"
| "operation_error_kind (OperationCancelled _) = KFailedPrecondition"
| "operation_error_kind (OperationFailed _ _) = KFailedPrecondition"
| "operation_error_kind (OperationNotFound _) = KNotFound"

fun lifecycle_error_kind :: "lifecycle_error \<Rightarrow> error_kind" where
  "lifecycle_error_kind (InstanceNotRemovable _ _) = KFailedPrecondition"
| "lifecycle_error_kind (InstanceNotClonable _ _) = KFailedPrecondition"
| "lifecycle_error_kind (InstanceAlreadyStopped _ _) = KFailedPrecondition"
| "lifecycle_error_kind (SharedBaseNotSupportedForLinuxVm _) = KFailedPrecondition"
| "lifecycle_error_kind (InstanceHasLiveClones _ _) = KFailedPrecondition"
| "lifecycle_error_kind (InstanceMustBeStopped _ _) = KFailedPrecondition"
| "lifecycle_error_kind (NotAndroid _) = KFailedPrecondition"
| "lifecycle_error_kind MissingOvmfVarsTemplate = KInvalidArgument"
| "lifecycle_error_kind (ExportRequiresQcow2 _ _) = KFailedPrecondition"
| "lifecycle_error_kind (OciExport _ _) = KFailedPrecondition"
| "lifecycle_error_kind (GuestAgentUnavailable _ _) = KFailedPrecondition"

fun request_error_kind :: "request_error \<Rightarrow> error_kind" where
  "request_error_kind EmptyInstanceRef = KInvalidArgument"
| "request_error_kind (ConfigIdMismatch _ _) = KInvalidArgument"
| "request_error_kind (ConfigKindChanged _) = KInvalidArgument"
| "request_error_kind (ConfigDiskPathChanged _) = KInvalidArgument"
| "request_error_kind (MalformedInstanceRef _) = KInvalidArgument"
| "request_error_kind (InstanceRefNotFound _) = KNotFound"
| "request_error_kind (AmbiguousInstanceId _ _) = KInvalidArgument"
| "request_error_kind (InvalidConfigKey _) = KInvalidArgument"
| "request_error_kind (ConfigMigrationConflict _ _) = KFailedPrecondition"
| "request_error_kind (ConfigFileInvalid _ _) = KInvalidArgument"

fun hotplug_error_kind :: "hotplug_error \<Rightarrow> error_kind" where
  "hotplug_error_kind (HotplugRequiresRunningInstance _ _) = KFailedPrecondition"
| "hotplug_error_kind (DiskAlreadyAttached _ _) = KAlreadyExists"
| "hotplug_error_kind (DiskNotAttached _ _) = KNotFound"
| "hotplug_error_kind (NetworkNotAttached _ _ _) = KNotFound"

fun kind :: "daemon_error \<Rightarrow> error_kind" where
  "kind (BackendErr e) = backend_error_kind e"
| "kind (DiskErr e) = disk_error_kind e"
| "kind (InvalidConfig _) = KInvalidArgument"
| "kind (InstanceNotFound _) = KNotFound"
| "kind (NoBackendRegistered _) = KUnimplemented"
| "kind (TransitionError _) = KFailedPrecondition"
| "kind (MutatorErr _) = KInternal"
| "kind (BaseImageErr _) = KInternal"
| "kind (BaseImagePinMismatch _) = KFailedPrecondition"
| "kind (BaseImageUnavailable _) = KNotFound"
| "kind (FirmwareErr _) = KInternal"
| "kind (IoErr _ _) = KInternal"
| "kind (InstanceSupervisorGone _) = KInternal"
| "kind (StoreErr _) = KInternal"
| "kind (SnapErr e) = snapshot_error_kind e"
| "kind (GateErr e) = gate_error_kind e"
| "kind (OpErr e) = operation_error_kind e"
| "kind (LifeErr e) = lifecycle_error_kind e"
| "kind (ReqErr e) = request_error_kind e"
| "kind (HotErr e) = hotplug_error_kind e"

text \<open>Only failures of the infrastructure are reported as internal: an error's category is
  \<open>Internal\<close> exactly for backend and disk failures without a category of their own, wrapped
  library and file-system errors, and a supervisor that is gone. Every guard of the daemon
  has a client-visible category.\<close>

theorem internal_errors:
  "kind e = KInternal \<longleftrightarrow>
     (case e of
        BackendErr b \<Rightarrow> (\<exists>m. b = BackendIo m) \<or> (\<exists>x y. b = BackendInvalidConfig x y)
      | DiskErr d \<Rightarrow> (\<forall>p r a. d \<noteq> InsufficientDiskSpace p r a)
      | MutatorErr _ \<Rightarrow> True | BaseImageErr _ \<Rightarrow> True | FirmwareErr _ \<Rightarrow> True | IoErr _ _ \<Rightarrow> True
      | InstanceSupervisorGone _ \<Rightarrow> True | StoreErr _ \<Rightarrow> True | _ \<Rightarrow> False)"
proof (cases e)
  case (BackendErr b) then show ?thesis by (cases b) simp_all
next
  case (DiskErr d) then show ?thesis by (cases d) simp_all
next
  case (SnapErr s) then show ?thesis by (cases s) simp_all
next
  case (GateErr s) then show ?thesis by (cases s) simp_all
next
  case (OpErr s) then show ?thesis by (cases s) simp_all
next
  case (LifeErr s) then show ?thesis by (cases s) simp_all
next
  case (ReqErr s) then show ?thesis by (cases s) simp_all
next
  case (HotErr s) then show ?thesis by (cases s) simp_all
qed simp_all

end
