(* ===== verification/Store.thy ===== *)
theory Store
  imports Errors "HOL-Library.List_Lexorder" "HOL-Library.Char_ord"
begin

text \<open>
  The snapshot metadata store (\<open>services/andler-store/src/store.rs\<close>): the \<open>snapshots\<close> table as
  the list of its rows in insertion order, one function per SQL statement. A UUID is its text.
  \<open>ORDER BY created_at\<close> compares the bytes of the timestamps (SQLite's binary collation); rows
  with equal timestamps, whose order SQL leaves open, stay in table order here. The interface
  the snapshot operations rely on is the locale \<open>snapshot_store\<close>, interpreted on this table.
\<close>

type_synonym uuid = string

record stored_snapshot =
  ss_id :: uuid
  ss_instance :: instance_id
  ss_tag :: string
  ss_description :: "string option"
  ss_created_at :: string
  ss_layer_path :: "string option"
  ss_parent_id :: "uuid option"
  ss_branch :: "string option"

type_synonym snapshot_table = "stored_snapshot list"

text \<open>\<open>INSERT OR REPLACE\<close>: rows in conflict on the primary key or on the unique index over
  \<open>(instance_id, tag)\<close> go, the new row is appended.\<close>

definition conflicts :: "stored_snapshot \<Rightarrow> stored_snapshot \<Rightarrow> bool" where
  "conflicts s r \<longleftrightarrow> ss_id r = ss_id s \<or> (ss_instance r = ss_instance s \<and> ss_tag r = ss_tag s)"

definition save_snapshot :: "stored_snapshot \<Rightarrow> snapshot_table \<Rightarrow> snapshot_table" where
  "save_snapshot s t = filter (\<lambda>r. \<not> conflicts s r) t @ [s]"

definition set_snapshot_branch ::
    "instance_id \<Rightarrow> uuid \<Rightarrow> string option \<Rightarrow> snapshot_table \<Rightarrow> snapshot_table" where
  "set_snapshot_branch i sid b t =
     map (\<lambda>r. if ss_instance r = i \<and> ss_id r = sid then r\<lparr>ss_branch := b\<rparr> else r) t"

definition load_snapshots :: "instance_id \<Rightarrow> snapshot_table \<Rightarrow> stored_snapshot list" where
  "load_snapshots i t = sort_key ss_created_at (filter (\<lambda>r. ss_instance r = i) t)"

definition get_snapshot :: "instance_id \<Rightarrow> string \<Rightarrow> snapshot_table \<Rightarrow> stored_snapshot option" where
  "get_snapshot i tag t = List.find (\<lambda>r. ss_instance r = i \<and> ss_tag r = tag) t"

definition delete_snapshot_by_tag :: "instance_id \<Rightarrow> string \<Rightarrow> snapshot_table \<Rightarrow> snapshot_table" where
  "delete_snapshot_by_tag i tag t = filter (\<lambda>r. \<not> (ss_instance r = i \<and> ss_tag r = tag)) t"

definition delete_snapshot_by_id :: "instance_id \<Rightarrow> uuid \<Rightarrow> snapshot_table \<Rightarrow> snapshot_table" where
  "delete_snapshot_by_id i sid t = filter (\<lambda>r. \<not> (ss_instance r = i \<and> ss_id r = sid)) t"

section \<open>Schema versions\<close>

text \<open>What \<open>apply_schema\<close> sees of a database: the user version, whether the legacy
  \<open>instances\<close> table is there, the columns of \<open>snapshots\<close> if it exists, and the unique index.\<close>

record database =
  db_user_version :: int
  db_has_instances :: bool
  db_snapshot_columns :: "string list option"
  db_tag_index :: bool

definition snapshot_columns :: "string list" where
  "snapshot_columns =
     [''id'', ''instance_id'', ''tag'', ''description'', ''created_at'', ''layer_path'',
      ''parent_id'', ''branch'']"

fun add_columns :: "string list \<Rightarrow> string list \<Rightarrow> string list" where
  "add_columns [] cols = cols"
| "add_columns (c # cs) cols = add_columns cs (if c \<in> set cols then cols else cols @ [c])"

definition apply_schema :: "database \<Rightarrow> database" where
  "apply_schema d =
     (if db_user_version d \<ge> 3 then d
      else
        (let cols = (case db_snapshot_columns d of None \<Rightarrow> snapshot_columns | Some cs \<Rightarrow> cs);
             cols' = add_columns [''layer_path'', ''parent_id'', ''branch''] cols
         in d\<lparr>db_snapshot_columns := Some cols', db_tag_index := True,
              db_user_version := (if db_has_instances d then 1 else 3)\<rparr>))"

definition finalize_config_migration :: "database \<Rightarrow> database" where
  "finalize_config_migration d = d\<lparr>db_has_instances := False, db_user_version := 3\<rparr>"

section \<open>The store's interface\<close>

locale snapshot_store =
  fixes save :: "stored_snapshot \<Rightarrow> 't \<Rightarrow> 't"
    and load :: "instance_id \<Rightarrow> 't \<Rightarrow> stored_snapshot list"
    and get :: "instance_id \<Rightarrow> string \<Rightarrow> 't \<Rightarrow> stored_snapshot option"
    and set_branch :: "instance_id \<Rightarrow> uuid \<Rightarrow> string option \<Rightarrow> 't \<Rightarrow> 't"
    and delete_id :: "instance_id \<Rightarrow> uuid \<Rightarrow> 't \<Rightarrow> 't"
    and ok :: "'t \<Rightarrow> bool"
  assumes ok_save: "ok t \<Longrightarrow> ok (save s t)"
    and ok_set_branch: "ok t \<Longrightarrow> ok (set_branch i sid b t)"
    and ok_delete_id: "ok t \<Longrightarrow> ok (delete_id i sid t)"
    and load_instance: "r \<in> set (load i t) \<Longrightarrow> ss_instance r = i"
    and load_unique: "ok t \<Longrightarrow> r \<in> set (load i t) \<Longrightarrow> r' \<in> set (load j t) \<Longrightarrow> ss_id r = ss_id r' \<Longrightarrow> r = r'"
    and load_unique_tag: "ok t \<Longrightarrow> r \<in> set (load i t) \<Longrightarrow> r' \<in> set (load i t) \<Longrightarrow> ss_tag r = ss_tag r' \<Longrightarrow> r = r'"
    and get_iff: "ok t \<Longrightarrow> get i tag t = Some r \<longleftrightarrow> r \<in> set (load i t) \<and> ss_tag r = tag"
    and load_save: "set (load i (save s t)) =
          {r \<in> set (load i t). \<not> conflicts s r} \<union> (if ss_instance s = i then {s} else {})"
    and load_set_branch: "set (load j (set_branch i sid b t)) =
          (\<lambda>r. if ss_instance r = i \<and> ss_id r = sid then r\<lparr>ss_branch := b\<rparr> else r) ` set (load j t)"
    and load_delete_id: "set (load j (delete_id i sid t)) =
          {r \<in> set (load j t). \<not> (ss_instance r = i \<and> ss_id r = sid)}"
begin

lemma get_None: "ok t \<Longrightarrow> get i tag t = None \<longleftrightarrow> (\<forall>r \<in> set (load i t). ss_tag r \<noteq> tag)"
  by (metis get_iff not_None_eq)

lemma get_save_same: "ok t \<Longrightarrow> get (ss_instance s) (ss_tag s) (save s t) = Some s"
  using ok_save get_iff load_save by auto

text \<open>Saving under a fresh id keeps every row of every other tag and instance.\<close>

lemma load_save_fresh:
  assumes "\<And>j r. r \<in> set (load j t) \<Longrightarrow> ss_id r \<noteq> ss_id s"
    and "\<And>r. r \<in> set (load (ss_instance s) t) \<Longrightarrow> ss_tag r \<noteq> ss_tag s"
  shows "set (load (ss_instance s) (save s t)) = insert s (set (load (ss_instance s) t))"
    and "j \<noteq> ss_instance s \<Longrightarrow> set (load j (save s t)) = set (load j t)"
  using assms load_instance unfolding load_save conflicts_def by auto

text \<open>The statements that name an instance leave the rows of every other instance alone.\<close>

lemma set_branch_isolated: "j \<noteq> i \<Longrightarrow> set (load j (set_branch i sid b t)) = set (load j t)"
  using load_instance[of _ j t] by (force simp: load_set_branch image_iff)

lemma delete_id_isolated: "j \<noteq> i \<Longrightarrow> set (load j (delete_id i sid t)) = set (load j t)"
  using load_instance[of _ j t] by (auto simp: load_delete_id)

lemma delete_id_gone: "r \<in> set (load i (delete_id i sid t)) \<Longrightarrow> ss_id r \<noteq> sid"
  using load_instance[of r i t] by (auto simp: load_delete_id)

end

definition table_ok :: "snapshot_table \<Rightarrow> bool" where
  "table_ok t \<longleftrightarrow> distinct (map ss_id t) \<and> distinct (map (\<lambda>r. (ss_instance r, ss_tag r)) t)"

lemma distinct_map_filter_append:
  "distinct (map f t) \<Longrightarrow> f s \<notin> f ` {r \<in> set t. p r} \<Longrightarrow> distinct (map f (filter p t @ [s]))"
  by (simp add: distinct_map_filter image_iff)

lemma table_ok_save: "table_ok t \<Longrightarrow> table_ok (save_snapshot s t)"
  unfolding table_ok_def save_snapshot_def
  by (intro conjI distinct_map_filter_append) (auto simp: conflicts_def)

lemma table_ok_set_branch: "table_ok t \<Longrightarrow> table_ok (set_snapshot_branch i sid b t)"
proof -
  have "map ss_id (set_snapshot_branch i sid b t) = map ss_id t"
      "map (\<lambda>r. (ss_instance r, ss_tag r)) (set_snapshot_branch i sid b t) =
       map (\<lambda>r. (ss_instance r, ss_tag r)) t"
    by (auto simp: set_snapshot_branch_def)
  then show "table_ok t \<Longrightarrow> ?thesis" by (simp add: table_ok_def)
qed

lemma table_ok_delete_id: "table_ok t \<Longrightarrow> table_ok (delete_snapshot_by_id i sid t)"
  by (simp add: table_ok_def delete_snapshot_by_id_def distinct_map_filter)

lemma set_load [simp]: "set (load_snapshots i t) = {r \<in> set t. ss_instance r = i}"
  by (simp add: load_snapshots_def)

interpretation st: snapshot_store save_snapshot load_snapshots get_snapshot set_snapshot_branch
  delete_snapshot_by_id table_ok
proof (unfold_locales, goal_cases)
  case (1 t s) then show ?case by (rule table_ok_save)
next
  case (2 t i sid b) then show ?case by (rule table_ok_set_branch)
next
  case (3 t i sid) then show ?case by (rule table_ok_delete_id)
next
  case (5 t r i r' j)
  then show ?case by (auto simp: table_ok_def distinct_map inj_on_def)
next
  case (6 t r i r')
  then show ?case by (auto simp: table_ok_def distinct_map inj_on_def)
next
  case (7 t i tag r)
  show ?case
  proof
    assume "get_snapshot i tag t = Some r"
    then show "r \<in> set (load_snapshots i t) \<and> ss_tag r = tag"
      unfolding get_snapshot_def by (drule_tac find_Some) simp
  next
    assume r: "r \<in> set (load_snapshots i t) \<and> ss_tag r = tag"
    then obtain r' where r': "get_snapshot i tag t = Some r'"
      by (cases "get_snapshot i tag t") (auto simp: get_snapshot_def find_None)
    then have "r' \<in> set t" "ss_instance r' = i" "ss_tag r' = tag"
      unfolding get_snapshot_def by (auto dest: find_Some)
    then have "r' = r" using r 7 by (auto simp: table_ok_def distinct_map inj_on_def)
    then show "get_snapshot i tag t = Some r" using r' by simp
  qed
qed (auto simp: save_snapshot_def set_snapshot_branch_def delete_snapshot_by_id_def conflicts_def image_iff)

lemma insort_key_stable_map: "(\<And>x. k (f x) = k x) \<Longrightarrow> insort_key k (f x) (map f xs) = map f (insort_key k x xs)"
  by (induction xs) auto

lemma set_branch_load_sorted:
  "load_snapshots i (set_snapshot_branch i sid b t) =
     map (\<lambda>r. if ss_id r = sid then r\<lparr>ss_branch := b\<rparr> else r) (load_snapshots i t)"
proof -
  define f :: "stored_snapshot \<Rightarrow> stored_snapshot" where "f = (\<lambda>r. if ss_instance r = i \<and> ss_id r = sid then r\<lparr>ss_branch := b\<rparr> else r)"
  have f: "ss_created_at (f r) = ss_created_at r" "ss_instance (f r) = ss_instance r" for r
    by (simp_all add: f_def)
  have "filter (\<lambda>r. ss_instance r = i) (map f t) = map f (filter (\<lambda>r. ss_instance r = i) t)"
    by (simp add: filter_map o_def f)
  moreover have "sort_key ss_created_at (map f xs) = map f (sort_key ss_created_at xs)" for xs
    by (induction xs) (simp_all add: insort_key_stable_map f)
  ultimately have "load_snapshots i (set_snapshot_branch i sid b t) = map f (load_snapshots i t)"
    by (simp add: load_snapshots_def set_snapshot_branch_def f_def)
  moreover have "f r = (if ss_id r = sid then r\<lparr>ss_branch := b\<rparr> else r)" if "r \<in> set (load_snapshots i t)" for r
    using that by (simp add: f_def)
  ultimately show ?thesis by simp
qed

section \<open>The table as a map\<close>

text \<open>What the store promises: a finite map from \<open>(instance, tag)\<close> to rows in which ids are
  unique. \<open>table_map\<close> reads the map off the table through \<open>get_snapshot\<close>.\<close>

definition table_map :: "snapshot_table \<Rightarrow> instance_id \<times> string \<Rightarrow> stored_snapshot option" where
  "table_map t = (\<lambda>(i, tag). get_snapshot i tag t)"

lemma table_map_iff:
  "table_ok t \<Longrightarrow> table_map t (i, tag) = Some r \<longleftrightarrow> r \<in> set t \<and> ss_instance r = i \<and> ss_tag r = tag"
  using st.get_iff[of t i tag r] by (auto simp: table_map_def)

lemma table_map_eqI:
  assumes "table_ok t"
    and "\<And>i tag r. m (i, tag) = Some r \<longleftrightarrow> r \<in> set t \<and> ss_instance r = i \<and> ss_tag r = tag"
  shows "table_map t = m"
proof
  fix k :: "instance_id \<times> string"
  obtain i tag where k: "k = (i, tag)" by (cases k)
  show "table_map t k = m k"
    using table_map_iff[OF assms(1), of i tag] assms(2)[of i tag] unfolding k
    by (cases "table_map t (i, tag)"; cases "m (i, tag)") auto
qed

text \<open>C36. Every statement of the store acts on the table as the corresponding operation on the
  map from \<open>(instance, tag)\<close> to rows, and keeps ids and \<open>(instance, tag)\<close> pairs unique: saving
  binds the row's pair and drops any other row that held its id, deleting by id unbinds the
  instance's row with that id, setting a branch rewrites that row only.\<close>

theorem store_refines_map:
  assumes "table_ok t"
  shows "table_ok (save_snapshot s t)
    \<and> table_map (save_snapshot s t) =
        (\<lambda>k. if k = (ss_instance s, ss_tag s) then Some s
             else (case table_map t k of None \<Rightarrow> None
                   | Some r \<Rightarrow> if ss_id r = ss_id s then None else Some r))
    \<and> table_ok (delete_snapshot_by_id i sid t)
    \<and> table_map (delete_snapshot_by_id i sid t) =
        (\<lambda>k. case table_map t k of None \<Rightarrow> None
             | Some r \<Rightarrow> if ss_instance r = i \<and> ss_id r = sid then None else Some r)
    \<and> table_ok (set_snapshot_branch i sid b t)
    \<and> table_map (set_snapshot_branch i sid b t) =
        (\<lambda>k. map_option (\<lambda>r. if ss_instance r = i \<and> ss_id r = sid then r\<lparr>ss_branch := b\<rparr> else r)
               (table_map t k))"
proof (intro conjI)
  show ok: "table_ok (save_snapshot s t)" "table_ok (delete_snapshot_by_id i sid t)"
      "table_ok (set_snapshot_branch i sid b t)"
    by (rule table_ok_save[OF assms]) (rule table_ok_delete_id[OF assms], rule table_ok_set_branch[OF assms])
  show "table_map (save_snapshot s t) =
        (\<lambda>k. if k = (ss_instance s, ss_tag s) then Some s
             else (case table_map t k of None \<Rightarrow> None
                   | Some r \<Rightarrow> if ss_id r = ss_id s then None else Some r))"
  proof (rule table_map_eqI[OF ok(1)])
    fix j tag r
    show "(if (j, tag) = (ss_instance s, ss_tag s) then Some s
             else (case table_map t (j, tag) of None \<Rightarrow> None
                   | Some r \<Rightarrow> if ss_id r = ss_id s then None else Some r)) = Some r
        \<longleftrightarrow> r \<in> set (save_snapshot s t) \<and> ss_instance r = j \<and> ss_tag r = tag"
    proof (cases "(j, tag) = (ss_instance s, ss_tag s)")
      case True
      then show ?thesis by (auto simp: save_snapshot_def conflicts_def)
    next
      case False
      then have "r \<in> set (save_snapshot s t) \<and> ss_instance r = j \<and> ss_tag r = tag \<longleftrightarrow>
          table_map t (j, tag) = Some r \<and> ss_id r \<noteq> ss_id s"
        unfolding table_map_iff[OF assms] by (auto simp: save_snapshot_def conflicts_def)
      then show ?thesis using False by (auto split: option.splits)
    qed
  qed
  show "table_map (delete_snapshot_by_id i sid t) =
        (\<lambda>k. case table_map t k of None \<Rightarrow> None
             | Some r \<Rightarrow> if ss_instance r = i \<and> ss_id r = sid then None else Some r)"
  proof (rule table_map_eqI[OF ok(2)])
    fix j tag r
    show "(case table_map t (j, tag) of None \<Rightarrow> None
             | Some r \<Rightarrow> if ss_instance r = i \<and> ss_id r = sid then None else Some r) = Some r
        \<longleftrightarrow> r \<in> set (delete_snapshot_by_id i sid t) \<and> ss_instance r = j \<and> ss_tag r = tag"
    proof -
      have "r \<in> set (delete_snapshot_by_id i sid t) \<and> ss_instance r = j \<and> ss_tag r = tag \<longleftrightarrow>
          table_map t (j, tag) = Some r \<and> \<not> (ss_instance r = i \<and> ss_id r = sid)"
        unfolding table_map_iff[OF assms] by (auto simp: delete_snapshot_by_id_def)
      then show ?thesis by (auto split: option.splits)
    qed
  qed
  show "table_map (set_snapshot_branch i sid b t) =
        (\<lambda>k. map_option (\<lambda>r. if ss_instance r = i \<and> ss_id r = sid then r\<lparr>ss_branch := b\<rparr> else r)
               (table_map t k))"
  proof (rule table_map_eqI[OF ok(3)])
    fix j tag r
    show "map_option (\<lambda>r. if ss_instance r = i \<and> ss_id r = sid then r\<lparr>ss_branch := b\<rparr> else r)
               (table_map t (j, tag)) = Some r
        \<longleftrightarrow> r \<in> set (set_snapshot_branch i sid b t) \<and> ss_instance r = j \<and> ss_tag r = tag"
    proof -
      define f :: "stored_snapshot \<Rightarrow> stored_snapshot"
        where "f = (\<lambda>r. if ss_instance r = i \<and> ss_id r = sid then r\<lparr>ss_branch := b\<rparr> else r)"
      have keeps: "ss_instance (f r0) = ss_instance r0" "ss_tag (f r0) = ss_tag r0" for r0
        by (simp_all add: f_def)
      have "map_option f (table_map t (j, tag)) = Some r \<longleftrightarrow>
          (\<exists>r0. (r0 \<in> set t \<and> ss_instance r0 = j \<and> ss_tag r0 = tag) \<and> r = f r0)"
        unfolding table_map_iff[OF assms, symmetric] by auto
      also have "\<dots> \<longleftrightarrow> r \<in> f ` set t \<and> ss_instance r = j \<and> ss_tag r = tag"
        by (auto simp: keeps)
      finally show ?thesis by (simp add: set_snapshot_branch_def f_def)
    qed
  qed
qed

definition example_row :: "uuid \<Rightarrow> string \<Rightarrow> string \<Rightarrow> stored_snapshot" where
  "example_row u tag at =
     \<lparr>ss_id = u, ss_instance = replicate 32 1, ss_tag = tag, ss_description = None,
      ss_created_at = at, ss_layer_path = Some (''disk.snapshots/'' @ u @ ''.qcow2''),
      ss_parent_id = None, ss_branch = None\<rparr>"

theorem store_refines_map_witness:
  "table_map (save_snapshot (example_row ''b'' ''t2'' ''2'') [example_row ''a'' ''t1'' ''1''])
     (replicate 32 1, ''t1'') = Some (example_row ''a'' ''t1'' ''1'')"
proof -
  have "table_ok [example_row ''a'' ''t1'' ''1'']" by (simp add: table_ok_def)
  note eq = store_refines_map[OF this, of "example_row ''b'' ''t2'' ''2''", THEN conjunct2, THEN conjunct1]
  show ?thesis unfolding eq by (simp add: table_map_def get_snapshot_def example_row_def)
qed

lemma set_add_columns: "set (add_columns cs cols) = set cs \<union> set cols"
  by (induction cs arbitrary: cols) auto

lemma add_columns_id: "set cs \<subseteq> set cols \<Longrightarrow> add_columns cs cols = cols"
  by (induction cs) auto

text \<open>Opening a database is idempotent and leaves a readable one: after \<open>apply_schema\<close> on any
  database below version 3 every layer column exists (all columns for a fresh database), the
  version is 1 exactly while the legacy table waits for migration, and opening again, or after
  the migration is finalised, changes nothing.\<close>

theorem apply_schema_idempotent:
  "apply_schema (apply_schema d) = apply_schema d
   \<and> apply_schema (finalize_config_migration d) = finalize_config_migration d
   \<and> (db_user_version d < 3 \<longrightarrow>
        (\<exists>cols. db_snapshot_columns (apply_schema d) = Some cols
           \<and> {''layer_path'', ''parent_id'', ''branch''} \<subseteq> set cols
           \<and> (db_snapshot_columns d = None \<longrightarrow> cols = snapshot_columns))
        \<and> db_user_version (apply_schema d) = (if db_has_instances d then 1 else 3))"
  by (cases "db_snapshot_columns d")
     (simp_all add: apply_schema_def finalize_config_migration_def Let_def set_add_columns
       add_columns_id snapshot_columns_def)

theorem apply_schema_idempotent_witness:
  "db_user_version (apply_schema \<lparr>db_user_version = 0, db_has_instances = True,
     db_snapshot_columns = None, db_tag_index = False\<rparr>) = 1"
  using apply_schema_idempotent[of "\<lparr>db_user_version = 0, db_has_instances = True,
     db_snapshot_columns = None, db_tag_index = False\<rparr>"] by simp

end
