(* ===== verification/Qcow2.thy ===== *)
theory Qcow2
  imports Errors
begin

text \<open>
  Disk images on the host (\<open>services/andler-disk/src/qcow2.rs\<close> and \<open>clone.rs\<close>). The host
  file system is a map from absolute paths to images; an image is what the daemon and a guest
  can observe of it: virtual size, backing reference, and the blocks allocated in it. The
  program \<open>qemu-img\<close> is not part of the repository: it is the parameter \<open>qemu_tool\<close>, run on the
  argument lists the wrappers build, and \<open>qemu_laws\<close> states its documented behaviour.
  \<open>qt_run\<close> stands for one such run with what surrounds it (making the parent directory, spawning,
  the exit status), \<open>qt_info\<close> for \<open>qemu-img info\<close> with its JSON answer read. What is
  stored for a disk is the overlay of its backing chain (\<open>chain_of\<close>, \<open>layered\<close>, \<open>reads\<close>); a guest sees of it
  what no end of a layer cuts off (\<open>guest_view\<close>, \<open>guest_reads\<close>).
\<close>

section \<open>Paths\<close>

definition is_absolute :: "string \<Rightarrow> bool" where
  "is_absolute p \<longleftrightarrow> starts_with ''/'' p"

definition path_join :: "string \<Rightarrow> string \<Rightarrow> string" where
  "path_join d f =
     (if is_absolute f then f
      else if d = [] \<or> ends_with ''/'' d then d @ f
      else d @ ''/'' @ f)"

text \<open>\<open>Path::parent\<close>.\<close>

definition path_parent :: "string \<Rightarrow> string option" where
  "path_parent p =
     (if p = [] \<or> p = ''/'' then None
      else
        (let r = dropWhile (\<lambda>c. c \<noteq> CHR ''/'') (rev p) in
         if r = [] then Some []
         else Some (if tl r = [] then ''/'' else rev (tl r))))"

definition parent_or_empty :: "string \<Rightarrow> string" where
  "parent_or_empty p = (case path_parent p of Some d \<Rightarrow> d | None \<Rightarrow> [])"

definition resolve_backing :: "string \<Rightarrow> string \<Rightarrow> string" where
  "resolve_backing layer backing =
     (if is_absolute backing then backing else path_join (parent_or_empty layer) backing)"

section \<open>Images and the host file system\<close>

record image =
  im_size :: u64
  im_backing :: "string option"
  im_data :: "nat \<Rightarrow> nat option"

type_synonym filesystem = "string \<Rightarrow> image option"

record disk_info =
  di_virtual_size :: u64
  di_actual_size :: u64
  di_format :: string
  di_backing_file :: "string option"

record qemu_tool =
  qt_run :: "string list \<Rightarrow> filesystem \<Rightarrow> disk_error + filesystem"
  qt_info :: "string \<Rightarrow> filesystem \<Rightarrow> disk_error + disk_info"

definition qcow2_create :: "qemu_tool \<Rightarrow> string \<Rightarrow> u64 \<Rightarrow> filesystem \<Rightarrow> disk_error + filesystem" where
  "qcow2_create t p sz fs = qt_run t [''create'', ''-f'', ''qcow2'', p, show_word sz] fs"

definition overlay_args :: "string \<Rightarrow> string \<Rightarrow> u64 \<Rightarrow> string list" where
  "overlay_args p backing sz =
     [''create'', ''-f'', ''qcow2'', ''-F'', ''qcow2'', ''-b'', backing, p, show_word sz]"

definition create_with_backing_file ::
    "qemu_tool \<Rightarrow> string \<Rightarrow> string \<Rightarrow> u64 \<Rightarrow> filesystem \<Rightarrow> disk_error + filesystem" where
  "create_with_backing_file t p backing sz fs =
     (if fs backing = None then Inl (BackingFileNotFound backing)
      else qt_run t (overlay_args p backing sz) fs)"

definition create_overlay ::
    "qemu_tool \<Rightarrow> string \<Rightarrow> string \<Rightarrow> u64 \<Rightarrow> filesystem \<Rightarrow> disk_error + filesystem" where
  "create_overlay t p backing sz fs = qt_run t (overlay_args p backing sz) fs"

definition rebase_unchanged ::
    "qemu_tool \<Rightarrow> string \<Rightarrow> string \<Rightarrow> filesystem \<Rightarrow> disk_error + filesystem" where
  "rebase_unchanged t p new_backing fs =
     qt_run t [''rebase'', ''-u'', ''-F'', ''qcow2'', ''-b'', new_backing, p] fs"

definition commit_layer :: "qemu_tool \<Rightarrow> string \<Rightarrow> filesystem \<Rightarrow> disk_error + filesystem" where
  "commit_layer t p fs = qt_run t [''commit'', p] fs"

definition delete_internal_snapshot ::
    "qemu_tool \<Rightarrow> string \<Rightarrow> string \<Rightarrow> filesystem \<Rightarrow> disk_error + filesystem" where
  "delete_internal_snapshot t p tag fs = qt_run t [''snapshot'', ''-d'', tag, p] fs"

definition restore_internal_snapshot ::
    "qemu_tool \<Rightarrow> string \<Rightarrow> string \<Rightarrow> filesystem \<Rightarrow> disk_error + filesystem" where
  "restore_internal_snapshot t p tag fs =
     (if fs p = None then Inl (DiskIo p ''disk file does not exist'')
      else qt_run t [''snapshot'', ''-a'', tag, p] fs)"

definition clone_full :: "qemu_tool \<Rightarrow> string \<Rightarrow> string \<Rightarrow> filesystem \<Rightarrow> disk_error + filesystem" where
  "clone_full t source dest fs =
     qt_run t [''convert'', ''-f'', ''qcow2'', ''-O'', ''qcow2'', source, dest] fs"

fun format_name :: "disk_format \<Rightarrow> string" where
  "format_name Qcow2 = ''qcow2''"
| "format_name RawDisk = ''raw''"
| "format_name Vdi = ''vdi''"

definition qcow2_convert ::
    "qemu_tool \<Rightarrow> string \<Rightarrow> string \<Rightarrow> disk_format \<Rightarrow> filesystem \<Rightarrow> disk_error + filesystem" where
  "qcow2_convert t source dest fmt fs =
     qt_run t [''convert'', ''-f'', ''qcow2'', ''-O'', format_name fmt, source, dest] fs"

definition virtual_size_bytes :: "qemu_tool \<Rightarrow> string \<Rightarrow> filesystem \<Rightarrow> disk_error + u64" where
  "virtual_size_bytes t p fs = rbind (qt_info t p fs) (\<lambda>i. Inr (di_virtual_size i))"

definition qcow2_resize ::
    "qemu_tool \<Rightarrow> string \<Rightarrow> u64 \<Rightarrow> bool \<Rightarrow> filesystem \<Rightarrow> disk_error + filesystem" where
  "qcow2_resize t p new_size allow_shrink fs =
     rbind (virtual_size_bytes t p fs) (\<lambda>cur.
       if new_size < cur \<and> \<not> allow_shrink then Inl (ShrinkRequiresConfirmation p cur new_size)
       else qt_run t ([''resize''] @ (if new_size < cur then [''--shrink''] else []) @ [p, show_word new_size]) fs)"

text \<open>\<open>tokio::fs::rename\<close> and \<open>remove_file\<close> on the map, with a fault the environment may inject.\<close>

definition fs_rename :: "string option \<Rightarrow> string \<Rightarrow> string \<Rightarrow> filesystem \<Rightarrow> string + filesystem" where
  "fs_rename fault src dst fs =
     (case fault of Some e \<Rightarrow> Inl e
      | None \<Rightarrow> (case fs src of None \<Rightarrow> Inl ''not found''
                 | Some im \<Rightarrow> Inr ((fs(src := None))(dst := Some im))))"

definition fs_remove :: "string option \<Rightarrow> string \<Rightarrow> filesystem \<Rightarrow> string + filesystem" where
  "fs_remove fault p fs =
     (case fault of Some e \<Rightarrow> Inl e
      | None \<Rightarrow> (case fs p of None \<Rightarrow> Inl ''not found'' | Some _ \<Rightarrow> Inr (fs(p := None))))"

section \<open>Walking the backing chain\<close>

text \<open>The loop of \<open>chain_from_head\<close>: it follows backing references until a file has none. Fuel
  counts the passes; \<open>None\<close> means that many passes did not end it.\<close>

fun chain_from_head :: "qemu_tool \<Rightarrow> filesystem \<Rightarrow> nat \<Rightarrow> string \<Rightarrow> (disk_error + string list) option" where
  "chain_from_head t fs 0 cur = None"
| "chain_from_head t fs (Suc n) cur =
     (case qt_info t cur fs of
        Inl e \<Rightarrow> Some (Inl e)
      | Inr i \<Rightarrow>
          (case di_backing_file i of
             None \<Rightarrow> Some (Inr [cur])
           | Some b \<Rightarrow>
               map_option (\<lambda>m. rbind m (\<lambda>ps. Inr (cur # ps)))
                 (chain_from_head t fs n (resolve_backing cur b))))"

section \<open>Clones\<close>

record cloned_disk =
  cl_disk_path :: string
  cl_backing_file :: "string option"

definition linked_clone ::
    "qemu_tool \<Rightarrow> string \<Rightarrow> string \<Rightarrow> u64 \<Rightarrow> filesystem \<Rightarrow> disk_error + (cloned_disk \<times> filesystem)" where
  "linked_clone t source dest sz fs =
     rbind (create_with_backing_file t dest source sz fs) (\<lambda>fs'.
       Inr (\<lparr>cl_disk_path = dest, cl_backing_file = Some source\<rparr>, fs'))"

definition full_standalone_clone ::
    "qemu_tool \<Rightarrow> string \<Rightarrow> string \<Rightarrow> filesystem \<Rightarrow> disk_error + (cloned_disk \<times> filesystem)" where
  "full_standalone_clone t source dest fs =
     rbind (clone_full t source dest fs) (\<lambda>fs'.
       Inr (\<lparr>cl_disk_path = dest, cl_backing_file = None\<rparr>, fs'))"

definition shared_base_clone ::
    "string option \<Rightarrow> string \<Rightarrow> string \<Rightarrow> string \<Rightarrow> filesystem \<Rightarrow> disk_error + (cloned_disk \<times> filesystem)" where
  "shared_base_clone fault source dest base fs =
     (case fault of Some e \<Rightarrow> Inl (DiskIo dest e)
      | None \<Rightarrow> (case fs source of None \<Rightarrow> Inl (DiskIo dest ''not found'')
          | Some im \<Rightarrow> Inr (\<lparr>cl_disk_path = dest, cl_backing_file = Some base\<rparr>, fs(dest := Some im))))"

section \<open>What qemu-img documents\<close>

definition qemu_laws :: "qemu_tool \<Rightarrow> bool" where
  "qemu_laws t \<longleftrightarrow>
     (\<forall>p fs im. fs p = Some im \<longrightarrow>
        (\<exists>i. qt_info t p fs = Inr i \<and> di_virtual_size i = im_size im \<and> di_backing_file i = im_backing im))
   \<and> (\<forall>p fs. fs p = None \<longrightarrow> (\<exists>e. qt_info t p fs = Inl e))
   \<and> (\<forall>p s fs fs'. qcow2_create t p s fs = Inr fs' \<longrightarrow>
        fs' = fs(p := Some \<lparr>im_size = s, im_backing = None, im_data = Map.empty\<rparr>))
   \<and> (\<forall>p b s fs fs'. create_overlay t p b s fs = Inr fs' \<longrightarrow>
        fs' = fs(p := Some \<lparr>im_size = s, im_backing = Some b, im_data = Map.empty\<rparr>))
   \<and> (\<forall>p b fs fs'. rebase_unchanged t p b fs = Inr fs' \<longrightarrow>
        (\<exists>im. fs p = Some im \<and> fs' = fs(p := Some (im\<lparr>im_backing := Some b\<rparr>))))
   \<and> (\<forall>p fs fs'. commit_layer t p fs = Inr fs' \<longrightarrow>
        (\<exists>im b base. fs p = Some im \<and> im_backing im = Some b \<and> resolve_backing p b \<noteq> p
           \<and> fs (resolve_backing p b) = Some base
           \<and> fs' = fs(resolve_backing p b := Some (base\<lparr>im_data := im_data base ++ im_data im\<rparr>),
                      p := Some (im\<lparr>im_data := Map.empty\<rparr>))))"

text \<open>An instance of the parameter that meets them, for the witnesses: every command succeeds
  when its operands are there.\<close>

definition ref_tool :: qemu_tool where
  "ref_tool =
     \<lparr>qt_run = (\<lambda>args fs.
        case args of
          [c, a1, a2, a3, a4] \<Rightarrow>
            (if c = ''create''
             then (case parse_u64 a4 of Some s \<Rightarrow> Inr (fs(a3 := Some \<lparr>im_size = s, im_backing = None, im_data = Map.empty\<rparr>))
                   | None \<Rightarrow> Inl (CommandFailed 1 a4))
             else Inl (CommandFailed 1 c))
        | [c, a1, a2, a3, a4, a5, a6] \<Rightarrow>
            (if c = ''rebase''
             then (case fs a6 of Some im \<Rightarrow> Inr (fs(a6 := Some (im\<lparr>im_backing := Some a5\<rparr>)))
                   | None \<Rightarrow> Inl (CommandFailed 1 a6))
             else Inl (CommandFailed 1 c))
        | [c, a1, a2, a3, a4, a5, a6, a7, a8] \<Rightarrow>
            (if c = ''create''
             then (case parse_u64 a8 of Some s \<Rightarrow> Inr (fs(a7 := Some \<lparr>im_size = s, im_backing = Some a6, im_data = Map.empty\<rparr>))
                   | None \<Rightarrow> Inl (CommandFailed 1 a8))
             else Inl (CommandFailed 1 c))
        | [c, p] \<Rightarrow>
            (if c = ''commit''
             then (case fs p of None \<Rightarrow> Inl (CommandFailed 1 p)
                   | Some im \<Rightarrow> (case im_backing im of None \<Rightarrow> Inl (CommandFailed 1 p)
                       | Some b \<Rightarrow> (case fs (resolve_backing p b) of None \<Rightarrow> Inl (CommandFailed 1 b)
                           | Some base \<Rightarrow> if resolve_backing p b = p then Inl (CommandFailed 1 b)
                               else Inr (fs(resolve_backing p b := Some (base\<lparr>im_data := im_data base ++ im_data im\<rparr>),
                                   p := Some (im\<lparr>im_data := Map.empty\<rparr>))))))
             else Inl (CommandFailed 1 c))
        | _ \<Rightarrow> Inl (CommandFailed 1 [])),
      qt_info = (\<lambda>p fs. case fs p of None \<Rightarrow> Inl (CommandFailed 1 p)
        | Some im \<Rightarrow> Inr \<lparr>di_virtual_size = im_size im, di_actual_size = 0, di_format = ''qcow2'',
                          di_backing_file = im_backing im\<rparr>)\<rparr>"

lemma ref_tool_laws: "qemu_laws ref_tool"
  unfolding qemu_laws_def ref_tool_def qcow2_create_def create_overlay_def rebase_unchanged_def
    commit_layer_def overlay_args_def
  by (auto split: option.splits if_splits)

section \<open>Backing chains\<close>

inductive chain_of :: "filesystem \<Rightarrow> string \<Rightarrow> string list \<Rightarrow> bool" for fs where
  chain_base: "fs p = Some im \<Longrightarrow> im_backing im = None \<Longrightarrow> chain_of fs p [p]"
| chain_link: "fs p = Some im \<Longrightarrow> im_backing im = Some b \<Longrightarrow> chain_of fs (resolve_backing p b) ps
    \<Longrightarrow> chain_of fs p (p # ps)"

inductive_cases chain_ofE: "chain_of fs p ps"
inductive_simps chain_of_simps: "chain_of fs p ps"

text \<open>What is stored along a chain: the blocks of each layer over those of the layers below it, wherever
  the layers end. The snapshot operations make no layer smaller than the disk (\<open>qemu-img info\<close> answering), so that
  this is what the guest reads (\<open>guest_view_layered\<close> below).\<close>

definition layered :: "filesystem \<Rightarrow> string list \<Rightarrow> nat \<Rightarrow> nat option" where
  "layered fs ps = foldr (\<lambda>p v. v ++ (case fs p of Some im \<Rightarrow> im_data im | None \<Rightarrow> Map.empty)) ps Map.empty"

definition reads :: "filesystem \<Rightarrow> string \<Rightarrow> (nat \<Rightarrow> nat option) \<Rightarrow> bool" where
  "reads fs p v \<longleftrightarrow> (\<exists>ps. chain_of fs p ps \<and> v = layered fs ps)"

lemma layered_simps [simp]:
  "layered fs [] = Map.empty"
  "layered fs (p # ps) = layered fs ps ++ (case fs p of Some im \<Rightarrow> im_data im | None \<Rightarrow> Map.empty)"
  by (simp_all add: layered_def)

lemma chain_of_hd: "chain_of fs p ps \<Longrightarrow> \<exists>qs. ps = p # qs"
  by (cases rule: chain_of.cases) auto

lemma chain_of_files: "chain_of fs p ps \<Longrightarrow> q \<in> set ps \<Longrightarrow> fs q \<noteq> None"
  by (induction rule: chain_of.induct) auto

lemma chain_of_det: "chain_of fs p ps \<Longrightarrow> chain_of fs p qs \<Longrightarrow> ps = qs"
proof (induction arbitrary: qs rule: chain_of.induct)
  case (chain_base p im)
  then show ?case by (auto elim: chain_ofE)
next
  case (chain_link p im b ps)
  from chain_link(5) chain_link(1,2) obtain rs where "qs = p # rs" "chain_of fs (resolve_backing p b) rs"
    by (auto elim: chain_ofE)
  then show ?case using chain_link(4) by simp
qed

lemma chain_of_suffix: "chain_of fs p ps \<Longrightarrow> q \<in> set ps \<Longrightarrow> \<exists>qs. chain_of fs q qs \<and> length qs \<le> length ps \<and> set qs \<subseteq> set ps"
proof (induction rule: chain_of.induct)
  case (chain_base p im)
  then show ?case using chain_of.chain_base by fastforce
next
  case (chain_link p im b ps)
  show ?case
  proof (cases "q = p")
    case True
    then show ?thesis using chain_of.chain_link[OF chain_link(1,2,3)] by auto
  next
    case False
    then obtain qs where "chain_of fs q qs" "length qs \<le> length ps" "set qs \<subseteq> set ps"
      using chain_link by auto
    then show ?thesis by (auto intro!: exI[of _ qs])
  qed
qed

lemma chain_of_distinct: "chain_of fs p ps \<Longrightarrow> distinct ps"
proof (induction rule: chain_of.induct)
  case (chain_link p im b ps)
  have "p \<notin> set ps"
  proof
    assume "p \<in> set ps"
    then obtain qs where q: "chain_of fs p qs" "length qs \<le> length ps"
      using chain_of_suffix[OF chain_link(3)] by blast
    have "qs = p # ps" using chain_of_det[OF q(1) chain_of.chain_link[OF chain_link(1,2,3)]] .
    then show False using q(2) by simp
  qed
  then show ?case using chain_link by simp
qed simp

text \<open>Changing files off the chain changes neither the chain nor what is read.\<close>

lemma chain_of_cong:
  "chain_of fs p ps \<Longrightarrow> (\<And>q. q \<in> set ps \<Longrightarrow> map_option im_backing (fs' q) = map_option im_backing (fs q)) \<Longrightarrow> chain_of fs' p ps"
proof (induction rule: chain_of.induct)
  case (chain_base p im)
  then show ?case by (cases "fs' p") (auto intro: chain_of.chain_base)
next
  case (chain_link p im b ps)
  from chain_link(5)[of p] chain_link(1,2) obtain im' where "fs' p = Some im'" "im_backing im' = Some b"
    by auto
  then show ?case using chain_link by (auto intro: chain_of.chain_link)
qed

lemma layered_cong: "(\<And>q. q \<in> set ps \<Longrightarrow> fs' q = fs q) \<Longrightarrow> layered fs' ps = layered fs ps"
  by (induction ps) simp_all

lemma reads_cong:
  "chain_of fs p ps \<Longrightarrow> (\<And>q. q \<in> set ps \<Longrightarrow> fs' q = fs q) \<Longrightarrow> chain_of fs' p ps \<and> layered fs' ps = layered fs ps"
  using chain_of_cong[of fs p ps fs'] layered_cong[of ps fs' fs] by simp

lemma reads_det: "reads fs p v \<Longrightarrow> reads fs p w \<Longrightarrow> v = w"
  by (auto simp: reads_def dest: chain_of_det)

section \<open>What a guest reads of a disk that ends\<close>

text \<open>A guest sees of what is stored along a backing chain only what lies before the end of the disk, and the end of every layer cuts off what the layers below it hold beyond: the blocks are
  sectors of 512 bytes, the unit to which \<open>qemu-img\<close> rounds virtual sizes.\<close>

definition before_end :: "u64 \<Rightarrow> nat set" where
  "before_end sz = {n. n * 512 < unat sz}"

fun guest_view :: "filesystem \<Rightarrow> string list \<Rightarrow> nat \<Rightarrow> nat option" where
  "guest_view fs [] = Map.empty"
| "guest_view fs (p # ps) =
     (case fs p of None \<Rightarrow> Map.empty | Some im \<Rightarrow> (guest_view fs ps ++ im_data im) |` before_end (im_size im))"

definition guest_reads :: "filesystem \<Rightarrow> string \<Rightarrow> (nat \<Rightarrow> nat option) \<Rightarrow> bool" where
  "guest_reads fs p v \<longleftrightarrow> (\<exists>ps. chain_of fs p ps \<and> v = guest_view fs ps)"

lemma guest_view_cong: "(\<And>q. q \<in> set ps \<Longrightarrow> fs' q = fs q) \<Longrightarrow> guest_view fs' ps = guest_view fs ps"
  by (induction ps) (simp_all split: option.split)

lemma guest_reads_det: "guest_reads fs p v \<Longrightarrow> guest_reads fs p u \<Longrightarrow> v = u"
  unfolding guest_reads_def by (metis chain_of_det)

lemma guest_reads_ends: "guest_reads fs p v \<Longrightarrow> fs p = Some im \<Longrightarrow> v |` before_end (im_size im) = v"
  unfolding guest_reads_def using chain_of_hd by fastforce

lemma layered_grows: "dom (layered fs ps) \<subseteq> dom (layered fs (p # ps))"
  by auto

lemma guest_view_layered:
  "(\<And>p. p \<in> set ps \<Longrightarrow> fs p \<noteq> None) \<Longrightarrow>
     (\<And>p im. p \<in> set ps \<Longrightarrow> fs p = Some im \<Longrightarrow> dom (layered fs ps) \<subseteq> before_end (im_size im)) \<Longrightarrow>
     guest_view fs ps = layered fs ps"
proof (induction ps)
  case (Cons p ps)
  obtain im where im: "fs p = Some im" using Cons.prems(1)[of p] by auto
  have "guest_view fs ps = layered fs ps"
    using Cons.prems layered_grows[of fs ps p] by (intro Cons.IH) (simp, meson list.set_intros(2) subset_trans)
  moreover have "layered fs (p # ps) |` before_end (im_size im) = layered fs (p # ps)"
  proof
    fix n
    have "layered fs (p # ps) n = None" if "n \<notin> before_end (im_size im)"
      using Cons.prems(2)[of p im] im that by (metis domIff list.set_intros(1) subsetD)
    then show "(layered fs (p # ps) |` before_end (im_size im)) n = layered fs (p # ps) n"
      by (simp add: restrict_map_def del: layered_simps)
  qed
  ultimately show ?case by (simp add: im)
qed simp

section \<open>The walk returns the chain\<close>

lemma qemu_info_Some:
  "qemu_laws t \<Longrightarrow> fs p = Some im \<Longrightarrow> \<exists>i. qt_info t p fs = Inr i \<and> di_virtual_size i = im_size im \<and> di_backing_file i = im_backing im"
  by (simp add: qemu_laws_def)

lemma qemu_info_None: "qemu_laws t \<Longrightarrow> fs p = None \<Longrightarrow> \<exists>e. qt_info t p fs = Inl e"
  by (simp add: qemu_laws_def)

lemma chain_from_head_iff:
  assumes "qemu_laws t"
  shows "chain_from_head t fs n p = Some (Inr ps) \<longleftrightarrow> chain_of fs p ps \<and> length ps \<le> n"
proof (induction n arbitrary: p ps)
  case 0
  then show ?case by (auto dest: chain_of_hd)
next
  case (Suc n)
  show ?case
  proof (cases "fs p")
    case None
    then show ?thesis using qemu_info_None[OF assms, of fs p] None by (auto elim: chain_ofE)
  next
    case (Some im)
    then obtain i where i: "qt_info t p fs = Inr i" "di_backing_file i = im_backing im"
      using qemu_info_Some[OF assms] by blast
    show ?thesis
    proof (cases "im_backing im")
      case None
      then show ?thesis using i Some by (auto elim: chain_ofE intro: chain_base)
    next
      case (Some b)
      have "chain_of fs p ps \<longleftrightarrow> (\<exists>qs. ps = p # qs \<and> chain_of fs (resolve_backing p b) qs)"
        using \<open>fs p = Some im\<close> Some by (subst chain_of_simps) auto
      then show ?thesis using i Some Suc.IH by (auto simp: rbind_eq_Inr)
    qed
  qed
qed

definition next_layer :: "filesystem \<Rightarrow> string \<Rightarrow> string option" where
  "next_layer fs p = (case fs p of None \<Rightarrow> None | Some im \<Rightarrow> map_option (resolve_backing p) (im_backing im))"

definition stuck_in :: "filesystem \<Rightarrow> string set \<Rightarrow> bool" where
  "stuck_in fs S \<longleftrightarrow> (\<forall>q \<in> S. \<exists>r \<in> S. next_layer fs q = Some r)"

lemma chain_from_head_None:
  assumes "qemu_laws t"
  shows "chain_from_head t fs n p = None \<longleftrightarrow>
    (\<exists>w. w 0 = p \<and> (\<forall>k < n. next_layer fs (w k) = Some (w (Suc k))))"
proof (induction n arbitrary: p)
  case (Suc n)
  have "chain_from_head t fs (Suc n) p = None \<longleftrightarrow>
      (\<exists>q. next_layer fs p = Some q \<and> chain_from_head t fs n q = None)"
  proof (cases "fs p")
    case None
    then show ?thesis using qemu_info_None[OF assms, of fs p] None by (auto simp: next_layer_def)
  next
    case (Some im)
    then obtain i where "qt_info t p fs = Inr i" "di_backing_file i = im_backing im"
      using qemu_info_Some[OF assms] by blast
    then show ?thesis using Some by (auto simp: next_layer_def split: option.splits)
  qed
  also have "\<dots> \<longleftrightarrow> (\<exists>w. w 0 = p \<and> (\<forall>k < Suc n. next_layer fs (w k) = Some (w (Suc k))))" (is "_ = ?R")
  proof
    assume "\<exists>q. next_layer fs p = Some q \<and> chain_from_head t fs n q = None"
    then obtain q w where "next_layer fs p = Some q" "w 0 = q" "\<forall>k < n. next_layer fs (w k) = Some (w (Suc k))"
      using Suc.IH by auto
    then show ?R by (intro exI[of _ "case_nat p w"]) (auto split: nat.splits)
  next
    assume ?R
    then obtain w where w: "w 0 = p" "\<forall>k < Suc n. next_layer fs (w k) = Some (w (Suc k))" by blast
    then have "chain_from_head t fs n (w 1) = None"
      unfolding Suc.IH by (intro exI[of _ "\<lambda>k. w (Suc k)"]) auto
    moreover have "next_layer fs p = Some (w 1)" using w by auto
    ultimately show "\<exists>q. next_layer fs p = Some q \<and> chain_from_head t fs n q = None" by blast
  qed
  finally show ?case .
qed auto

lemma stuck_never_ends:
  assumes "qemu_laws t" "stuck_in fs S" "p \<in> S"
  shows "chain_from_head t fs n p = None"
proof -
  obtain f where f: "\<And>q. q \<in> S \<Longrightarrow> f q \<in> S \<and> next_layer fs q = Some (f q)"
    using assms(2) unfolding stuck_in_def by metis
  have "(f ^^ k) p \<in> S" for k by (induction k) (use assms(3) f in auto)
  then show ?thesis unfolding chain_from_head_None[OF assms(1)]
    by (intro exI[of _ "\<lambda>k. (f ^^ k) p"]) (use f in auto)
qed

lemma long_walk_stuck:
  assumes "finite (dom fs)" "card (dom fs) < n" "w 0 = p"
    and w: "\<forall>k < n. next_layer fs (w k) = Some (w (Suc k))"
  shows "\<exists>S. p \<in> S \<and> stuck_in fs S"
proof -
  have "w k \<in> dom fs" if "k < n" for k
    using w that by (auto simp: next_layer_def dom_def split: option.splits)
  then have "card (w ` {..<n}) \<le> card (dom fs)" by (intro card_mono assms) auto
  then have "\<not> inj_on w {..<n}" using assms(2) card_image[of w "{..<n}"] by auto
  then obtain i j where ij: "i < j" "j < n" "w i = w j"
  proof -
    obtain i j where "i < n" "j < n" "w i = w j" "i \<noteq> j"
      using \<open>\<not> inj_on w {..<n}\<close> by (auto simp: inj_on_def)
    then show thesis using that[of i j] that[of j i] by (cases "i < j") auto
  qed
  have "stuck_in fs (w ` {..<j})"
    unfolding stuck_in_def
  proof (rule ballI)
    fix q assume "q \<in> w ` {..<j}"
    then obtain k where k: "k < j" "q = w k" by auto
    then have n: "next_layer fs q = Some (w (Suc k))" using w ij by auto
    have "w (Suc k) \<in> w ` {..<j}" 
    proof (cases "Suc k = j")
      case True
      then have "w (Suc k) = w i" using ij(3) by simp
      then show ?thesis using ij(1) by blast
    next
      case False
      then show ?thesis using k by force
    qed
    then show "\<exists>r \<in> w ` {..<j}. next_layer fs q = Some r" using n by blast
  qed
  moreover have "p \<in> w ` {..<j}"
    by (rule image_eqI[of _ _ 0]) (simp add: assms(3), use ij(1) in simp)
  ultimately show ?thesis by (intro exI[of _ "w ` {..<j}"] conjI)
qed

lemma chain_of_length: "finite (dom fs) \<Longrightarrow> chain_of fs p ps \<Longrightarrow> length ps \<le> card (dom fs)"
  using chain_of_distinct[of fs p ps] chain_of_files[of fs p ps]
  by (metis card_mono distinct_card domIff subsetI)

text \<open>C40. \<open>chain_from_head\<close> returns the backing chain, whole and in order, whenever there is one,
  and runs forever exactly when the references lead into a cycle: with more passes than there
  are files the walk has either ended or is inside a set of files each of which backs onto
  another of the set.\<close>

theorem chain_from_head_exact:
  assumes "qemu_laws t" and "finite (dom fs)" and "card (dom fs) < n"
  shows "(chain_from_head t fs n p = Some (Inr ps) \<longleftrightarrow> chain_of fs p ps)
    \<and> (chain_from_head t fs n p = None \<longleftrightarrow> (\<exists>S. p \<in> S \<and> stuck_in fs S))"
proof (intro conjI iffI)
  assume "chain_of fs p ps"
  moreover from this have "length ps \<le> n" using chain_of_length[OF assms(2)] assms(3) by fastforce
  ultimately show "chain_from_head t fs n p = Some (Inr ps)"
    by (simp add: chain_from_head_iff[OF assms(1)])
next
  assume "chain_from_head t fs n p = Some (Inr ps)"
  then show "chain_of fs p ps" by (simp add: chain_from_head_iff[OF assms(1)])
next
  assume "chain_from_head t fs n p = None"
  then obtain w where "w 0 = p" "\<forall>k < n. next_layer fs (w k) = Some (w (Suc k))"
    unfolding chain_from_head_None[OF assms(1)] by blast
  then show "\<exists>S. p \<in> S \<and> stuck_in fs S" by (rule long_walk_stuck[OF assms(2,3)])
next
  assume "\<exists>S. p \<in> S \<and> stuck_in fs S"
  then show "chain_from_head t fs n p = None" using stuck_never_ends[OF assms(1)] by blast
qed

definition example_fs :: filesystem where
  "example_fs =
     [''/i/disk'' \<mapsto> \<lparr>im_size = 9, im_backing = Some ''s/a'', im_data = [1 \<mapsto> 11]\<rparr>,
      ''/i/s/a'' \<mapsto> \<lparr>im_size = 9, im_backing = None, im_data = [1 \<mapsto> 10, 2 \<mapsto> 20]\<rparr>,
      ''/x'' \<mapsto> \<lparr>im_size = 9, im_backing = Some ''/y'', im_data = Map.empty\<rparr>,
      ''/y'' \<mapsto> \<lparr>im_size = 9, im_backing = Some ''/x'', im_data = Map.empty\<rparr>]"

theorem chain_from_head_exact_witness:
  "chain_of example_fs ''/i/disk'' [''/i/disk'', ''/i/s/a'']
   \<and> (\<exists>S. ''/x'' \<in> S \<and> stuck_in example_fs S)"
proof -
  have fin: "finite (dom example_fs)" by (simp add: example_fs_def)
  have card: "card (dom example_fs) < 10" by (simp add: example_fs_def)
  have "chain_from_head ref_tool example_fs 10 ''/i/disk'' = Some (Inr [''/i/disk'', ''/i/s/a''])"
    by code_simp
  moreover have "chain_from_head ref_tool example_fs 10 ''/x'' = None" by code_simp
  ultimately show ?thesis
    using chain_from_head_exact[OF ref_tool_laws fin card, of "''/i/disk''" "[''/i/disk'', ''/i/s/a'']"]
      chain_from_head_exact[OF ref_tool_laws fin card, of "''/x''" "[]"]
    by blast
qed

end
