(* ===== verification/DiskChain.thy ===== *)
theory DiskChain
  imports Store Qcow2
begin

text \<open>
  The disk chain of an instance: the layer list (\<open>core/andler-core/src/disk_chain.rs\<close>) and the
  daemon's walks over the stored snapshot records and over the layer files
  (\<open>apps/daemon/src/daemon/disk_chain.rs\<close>), up to the reconciliation that runs when the daemon
  starts. Loops that follow parent links take fuel; \<open>None\<close> means the passes did not end. The
  order in which a directory is listed is the parameter \<open>readdir\<close>.
\<close>

section \<open>Layers\<close>

datatype layer_kind = ActiveLayer | SnapshotLayer | CloneLayer | BaseImageLayer

record disk_layer =
  dl_path :: string
  dl_backing :: "string option"
  dl_kind :: layer_kind

fun connected :: "disk_layer list \<Rightarrow> bool" where
  "connected (a # b # ls) = (dl_backing a = Some (dl_path b) \<and> connected (b # ls))"
| "connected _ = True"

text \<open>\<open>DiskChain::from_head_to_base\<close>: in a debug build an unconnected list panics (\<open>None\<close>).\<close>

definition from_head_to_base :: "bool \<Rightarrow> disk_layer list \<Rightarrow> disk_layer list option" where
  "from_head_to_base debug ls = (if debug \<and> \<not> connected ls then None else Some ls)"

definition chain_head :: "disk_layer list \<Rightarrow> disk_layer option" where
  "chain_head ls = (case ls of [] \<Rightarrow> None | l # _ \<Rightarrow> Some l)"

definition contains_path :: "disk_layer list \<Rightarrow> string \<Rightarrow> bool" where
  "contains_path ls p = list_ex (\<lambda>l. dl_path l = p) ls"

section \<open>Walks over the records\<close>

definition record_by_id :: "stored_snapshot list \<Rightarrow> uuid \<Rightarrow> stored_snapshot option" where
  "record_by_id rs i = List.find (\<lambda>r. ss_id r = i) (rev rs)"

fun ancestors :: "nat \<Rightarrow> stored_snapshot list \<Rightarrow> uuid \<Rightarrow> stored_snapshot list option" where
  "ancestors 0 rs i = None"
| "ancestors (Suc n) rs i =
     (case record_by_id rs i of
        None \<Rightarrow> Some []
      | Some r \<Rightarrow>
          (case ss_parent_id r of
             None \<Rightarrow> Some [r]
           | Some p \<Rightarrow> map_option (\<lambda>rest. r # rest) (ancestors n rs p)))"

definition direct_children :: "stored_snapshot list \<Rightarrow> uuid \<Rightarrow> stored_snapshot list" where
  "direct_children rs parent = filter (\<lambda>r. ss_parent_id r = Some parent) rs"

text \<open>The stack of \<open>descendants_in_branch\<close> grows at its end and is popped there; here its top is
  the head of the list.\<close>

fun descend :: "nat \<Rightarrow> stored_snapshot list \<Rightarrow> string option \<Rightarrow> uuid list \<Rightarrow> stored_snapshot list
    \<Rightarrow> stored_snapshot list option" where
  "descend n rs br [] result = Some result"
| "descend 0 rs br (i # stack) result = None"
| "descend (Suc n) rs br (i # stack) result =
     (let cs = filter (\<lambda>c. ss_branch c = br) (direct_children rs i)
      in descend n rs br (rev (map ss_id cs) @ stack) (result @ cs))"

definition descendants_in_branch ::
    "nat \<Rightarrow> stored_snapshot list \<Rightarrow> uuid \<Rightarrow> string option \<Rightarrow> stored_snapshot list option" where
  "descendants_in_branch n rs start br = descend n rs br [start] []"

text \<open>\<open>max_by\<close> on the creation time: the last of the greatest elements.\<close>

definition last_created :: "stored_snapshot list \<Rightarrow> stored_snapshot option" where
  "last_created rs =
     foldl (\<lambda>acc r. case acc of None \<Rightarrow> Some r
                  | Some a \<Rightarrow> if ss_created_at r < ss_created_at a then acc else Some r) None rs"

definition on_main :: "stored_snapshot \<Rightarrow> bool" where
  "on_main r \<longleftrightarrow> ss_layer_path r \<noteq> None \<and> ss_branch r = None"

definition main_chain_head :: "snapshot_table \<Rightarrow> instance_id \<Rightarrow> stored_snapshot option" where
  "main_chain_head t i = last_created (filter on_main (load_snapshots i t))"

section \<open>Layer files\<close>

definition SNAPSHOTS_DIR_NAME :: string where "SNAPSHOTS_DIR_NAME = ''disk.snapshots''"

definition snapshots_dir :: "string \<Rightarrow> string" where
  "snapshots_dir instance_dir = path_join instance_dir SNAPSHOTS_DIR_NAME"

definition is_tmp_name :: "string \<Rightarrow> bool" where
  "is_tmp_name n = starts_with ''.tmp-'' n"

definition list_layer_files :: "(string \<Rightarrow> filesystem \<Rightarrow> string list) \<Rightarrow> string \<Rightarrow> filesystem \<Rightarrow> string list" where
  "list_layer_files readdir instance_dir fs =
     map (path_join (snapshots_dir instance_dir))
       (filter (\<lambda>n. ends_with ''.qcow2'' n \<and> \<not> is_tmp_name n) (readdir (snapshots_dir instance_dir) fs))"

definition pending_overlay :: "(string \<Rightarrow> filesystem \<Rightarrow> string list) \<Rightarrow> string \<Rightarrow> filesystem \<Rightarrow> string option" where
  "pending_overlay readdir instance_dir fs =
     map_option (path_join (snapshots_dir instance_dir))
       (List.find is_tmp_name (readdir (snapshots_dir instance_dir) fs))"

text \<open>\<open>Path::ends_with\<close>: by whole components.\<close>

definition path_ends_with :: "string \<Rightarrow> string \<Rightarrow> bool" where
  "path_ends_with p suffix \<longleftrightarrow> p = suffix \<or> ends_with (''/'' @ suffix) p"

fun referenced :: "qemu_tool \<Rightarrow> filesystem \<Rightarrow> string list \<Rightarrow> disk_error + string list" where
  "referenced t fs [] = Inr []"
| "referenced t fs (l # ls) =
     rbind (qt_info t l fs) (\<lambda>i. rbind (referenced t fs ls) (\<lambda>rs.
       Inr (case di_backing_file i of Some b \<Rightarrow> resolve_backing l b # rs | None \<Rightarrow> rs)))"

fun pick_head :: "stored_snapshot list \<Rightarrow> string list \<Rightarrow> string list \<Rightarrow> string option \<Rightarrow> string option" where
  "pick_head records refd [] fallback = fallback"
| "pick_head records refd (l # ls) fallback =
     (if l \<in> set refd then pick_head records refd ls fallback
      else if list_ex (\<lambda>r. (case ss_layer_path r of Some rel \<Rightarrow> path_ends_with l rel | None \<Rightarrow> False)
                           \<and> ss_branch r = None) records
      then Some l
      else pick_head records refd ls (Some l))"

definition find_head_layer ::
    "qemu_tool \<Rightarrow> filesystem \<Rightarrow> string list \<Rightarrow> stored_snapshot list \<Rightarrow> daemon_error + string" where
  "find_head_layer t fs layers records =
     rbind (map_err DiskErr (referenced t fs layers)) (\<lambda>refd.
       ok_or (IoErr SNAPSHOTS_DIR_NAME ''no head layer found among snapshot layers'')
         (pick_head records refd layers None))"

text \<open>\<open>Path::file_stem\<close> of a name: the part before its last dot, unless that is its start.\<close>

definition file_stem :: "string \<Rightarrow> string option" where
  "file_stem p =
     (case file_name p of None \<Rightarrow> None
      | Some n \<Rightarrow>
          (let ext = takeWhile (\<lambda>c. c \<noteq> CHR ''.'') (rev n); stem = rev (drop (Suc (length ext)) (rev n))
           in if length ext = length n \<or> stem = [] then Some n else Some stem))"

definition parse_layer_uuid :: "(string \<Rightarrow> uuid option) \<Rightarrow> string \<Rightarrow> uuid option" where
  "parse_layer_uuid parse_uuid p = (case file_stem p of None \<Rightarrow> None | Some s \<Rightarrow> parse_uuid s)"

section \<open>Reconciliation\<close>

record reconcile_env =
  re_instance :: instance_id
  re_instance_dir :: string
  re_disk :: string
  re_now :: string
  re_readdir :: "string \<Rightarrow> filesystem \<Rightarrow> string list"
  re_parse_uuid :: "string \<Rightarrow> uuid option"
  re_rename_fault :: "string option"

definition record_path :: "string \<Rightarrow> stored_snapshot \<Rightarrow> string option" where
  "record_path instance_dir r = map_option (path_join instance_dir) (ss_layer_path r)"

text \<open>The map \<open>by_path\<close>: a later record under the same path replaces an earlier one.\<close>

definition by_path :: "string \<Rightarrow> stored_snapshot list \<Rightarrow> string \<Rightarrow> stored_snapshot option" where
  "by_path instance_dir rs p = List.find (\<lambda>r. record_path instance_dir r = Some p) (rev rs)"

text \<open>The repair of a missing active disk. \<open>Inr (fs, False)\<close> is the early return.\<close>

definition repair_disk ::
    "qemu_tool \<Rightarrow> reconcile_env \<Rightarrow> bool \<Rightarrow> filesystem \<Rightarrow> snapshot_table \<Rightarrow> daemon_error + filesystem \<times> bool" where
  "repair_disk t e files fs table =
     (if fs (re_disk e) \<noteq> None then Inr (fs, True)
      else if \<not> files then Inr (fs, True)
      else (case pending_overlay (re_readdir e) (re_instance_dir e) fs of
        Some tmp \<Rightarrow> rbind (map_err (IoErr tmp) (fs_rename (re_rename_fault e) tmp (re_disk e) fs)) (\<lambda>fs'. Inr (fs', True))
      | None \<Rightarrow>
          (let layers = list_layer_files (re_readdir e) (re_instance_dir e) fs in
           if layers = [] then Inr (fs, False)
           else rbind (find_head_layer t fs layers (load_snapshots (re_instance e) table)) (\<lambda>head.
             rbind (map_err DiskErr (virtual_size_bytes t head fs)) (\<lambda>sz.
             rbind (map_err DiskErr (create_overlay t (re_disk e) head sz fs)) (\<lambda>fs'. Inr (fs', True)))))))"

definition remove_tmp_files :: "reconcile_env \<Rightarrow> filesystem \<Rightarrow> filesystem" where
  "remove_tmp_files e fs =
     fold (\<lambda>n f. f(path_join (snapshots_dir (re_instance_dir e)) n := None))
       (filter is_tmp_name (re_readdir e (snapshots_dir (re_instance_dir e)) fs)) fs"

definition drop_missing :: "reconcile_env \<Rightarrow> filesystem \<Rightarrow> snapshot_table \<Rightarrow> snapshot_table" where
  "drop_missing e fs table =
     (let rs = load_snapshots (re_instance e) table;
          gone = filter (\<lambda>r. case record_path (re_instance_dir e) r of None \<Rightarrow> False
                   | Some p \<Rightarrow> by_path (re_instance_dir e) rs p = Some r \<and> fs p = None) rs
      in fold (\<lambda>r. delete_snapshot_by_id (re_instance e) (ss_id r)) gone table)"

definition recovered_record :: "reconcile_env \<Rightarrow> string \<Rightarrow> uuid \<Rightarrow> uuid option \<Rightarrow> stored_snapshot" where
  "recovered_record e p i prev =
     \<lparr>ss_id = i, ss_instance = re_instance e, ss_tag = ''recovered-'' @ take 8 i,
      ss_description = Some ''recovered by daemon chain reconciliation'',
      ss_created_at = re_now e,
      ss_layer_path = Some (case strip_prefix (re_instance_dir e @ ''/'') p of Some r \<Rightarrow> r | None \<Rightarrow> p),
      ss_parent_id = prev, ss_branch = None\<rparr>"

text \<open>The pass over the chain, head first, with \<open>prev\<close> the id of the record met last.\<close>

fun recover_layers ::
    "reconcile_env \<Rightarrow> stored_snapshot list \<Rightarrow> string list \<Rightarrow> uuid option \<Rightarrow> snapshot_table \<Rightarrow> snapshot_table" where
  "recover_layers e rs [] prev table = table"
| "recover_layers e rs (p # ps) prev table =
     (if p = re_disk e then recover_layers e rs ps prev table
      else if \<not> starts_with (snapshots_dir (re_instance_dir e) @ ''/'') p then recover_layers e rs ps None table
      else (case by_path (re_instance_dir e) rs p of
        Some r \<Rightarrow> recover_layers e rs ps (Some (ss_id r)) table
      | None \<Rightarrow>
          (case parse_layer_uuid (re_parse_uuid e) p of
             None \<Rightarrow> recover_layers e rs ps None table
           | Some i \<Rightarrow> recover_layers e rs ps (Some i) (save_snapshot (recovered_record e p i prev) table))))"

definition reconcile_chain ::
    "qemu_tool \<Rightarrow> nat \<Rightarrow> reconcile_env \<Rightarrow> bool \<Rightarrow> filesystem \<Rightarrow> snapshot_table
       \<Rightarrow> (daemon_error + filesystem \<times> snapshot_table) option" where
  "reconcile_chain t n e files fs table =
     (case repair_disk t e files fs table of
        Inl err \<Rightarrow> Some (Inl err)
      | Inr (fs1, False) \<Rightarrow> Some (Inr (fs1, table))
      | Inr (fs1, True) \<Rightarrow>
          (let fs2 = (if files then remove_tmp_files e fs1 else fs1) in
           case chain_from_head t fs2 n (re_disk e) of
             None \<Rightarrow> None
           | Some (Inl _) \<Rightarrow> Some (Inr (fs2, table))
           | Some (Inr chain) \<Rightarrow>
               (let table1 = drop_missing e fs2 table;
                    rs = load_snapshots (re_instance e) table1
                in Some (Inr (fs2, recover_layers e rs chain None table1)))))"

section \<open>Lemmas on the walks\<close>

definition branch_edges :: "stored_snapshot list \<Rightarrow> string option \<Rightarrow> (uuid \<times> uuid) set" where
  "branch_edges rs br = {(p, c). \<exists>r \<in> set rs. ss_id r = c \<and> ss_parent_id r = Some p \<and> ss_branch r = br}"

text \<open>The records below a stack of ids, along parent links that stay on the branch.\<close>

definition below :: "stored_snapshot list \<Rightarrow> string option \<Rightarrow> uuid set \<Rightarrow> stored_snapshot set" where
  "below rs br ids = {r \<in> set rs. ss_branch r = br \<and>
     (\<exists>p. ss_parent_id r = Some p \<and> (\<exists>i \<in> ids. (i, p) \<in> (branch_edges rs br)\<^sup>*))}"

lemma below_empty [simp]: "below rs br {} = {}"
  by (simp add: below_def)

lemma below_step:
  "below rs br (insert i ids) =
     {c \<in> set (direct_children rs i). ss_branch c = br}
     \<union> below rs br (ss_id ` {c \<in> set (direct_children rs i). ss_branch c = br} \<union> ids)"
  (is "_ = ?C \<union> below rs br (ss_id ` ?C \<union> ids)")
proof -
  define C where "C = {c \<in> set rs. ss_parent_id c = Some i \<and> ss_branch c = br}"
  have C: "?C = C" by (auto simp: C_def direct_children_def)
  have edge: "(i, j) \<in> branch_edges rs br \<longleftrightarrow> j \<in> ss_id ` C" for j
    by (auto simp: branch_edges_def C_def)
  have reach: "(i, p) \<in> (branch_edges rs br)\<^sup>* \<longleftrightarrow>
      p = i \<or> (\<exists>j \<in> ss_id ` C. (j, p) \<in> (branch_edges rs br)\<^sup>*)" for p
    using edge by (metis converse_rtranclE converse_rtrancl_into_rtrancl rtrancl.rtrancl_refl)
  show ?thesis unfolding C
  proof (rule set_eqI)
    fix r
    have "r \<in> below rs br (insert i ids) \<longleftrightarrow> r \<in> set rs \<and> ss_branch r = br \<and>
       (\<exists>p. ss_parent_id r = Some p \<and> ((i, p) \<in> (branch_edges rs br)\<^sup>* \<or>
          (\<exists>j \<in> ids. (j, p) \<in> (branch_edges rs br)\<^sup>*)))"
      by (simp add: below_def)
    also have "\<dots> \<longleftrightarrow> r \<in> C \<or> (r \<in> set rs \<and> ss_branch r = br \<and> (\<exists>p. ss_parent_id r = Some p \<and>
          (\<exists>j \<in> ss_id ` C \<union> ids. (j, p) \<in> (branch_edges rs br)\<^sup>*)))"
      unfolding reach by (auto simp: C_def)
    finally show "r \<in> below rs br (insert i ids) \<longleftrightarrow> r \<in> C \<union> below rs br (ss_id ` C \<union> ids)"
      by (simp add: below_def)
  qed
qed

lemma descend_set:
  "descend n rs br stack result = Some out \<Longrightarrow> set out = set result \<union> below rs br (set stack)"
proof (induction n rs br stack result rule: descend.induct)
  case (3 n rs br i stack result)
  let ?C = "{c \<in> set (direct_children rs i). ss_branch c = br}"
  have "set out = set result \<union> ?C \<union> below rs br (ss_id ` ?C \<union> set stack)"
    using 3 by (auto simp: Let_def)
  then show ?case unfolding list.set below_step[of rs br i] by (simp only: Un_assoc)
qed auto

definition ranked :: "stored_snapshot list \<Rightarrow> (uuid \<Rightarrow> nat) \<Rightarrow> bool" where
  "ranked rs f \<longleftrightarrow> (\<forall>r \<in> set rs. \<forall>p. ss_parent_id r = Some p \<longrightarrow> f p < f (ss_id r))"

lemma descend_terminates:
  assumes "ranked rs f" "\<And>r. r \<in> set rs \<Longrightarrow> f (ss_id r) \<le> M"
  shows "(\<Sum>i \<leftarrow> stack. (length rs + 2) ^ (M + 1 - f i)) \<le> n \<Longrightarrow> descend n rs br stack result \<noteq> None"
proof (induction n arbitrary: stack result)
  case 0
  then show ?case by (cases stack) auto
next
  case (Suc n)
  show ?case
  proof (cases stack)
    case (Cons i st)
    define B where "B = length rs + 2"
    define cs where "cs = filter (\<lambda>c. ss_branch c = br) (direct_children rs i)"
    have w: "B ^ (M + 1 - f (ss_id c)) \<le> B ^ (M - f i)" if "c \<in> set cs" for c
      using that assms(1) by (intro power_increasing) (auto simp: cs_def direct_children_def ranked_def B_def)
    have "(\<Sum>c \<leftarrow> cs. B ^ (M + 1 - f (ss_id c))) \<le> (\<Sum>c \<leftarrow> cs. B ^ (M - f i))"
      by (rule sum_list_mono) (rule w)
    also have "\<dots> = length cs * B ^ (M - f i)" by (simp add: sum_list_triv)
    also have "\<dots> < B ^ (M + 1 - f i)"
    proof (cases cs)
      case Nil
      then show ?thesis by (simp add: B_def)
    next
      case (Cons c cs')
      then have "c \<in> set rs" "f i < f (ss_id c)"
        using assms(1) by (auto simp: cs_def direct_children_def ranked_def filter_eq_Cons_iff)
      then have k: "M + 1 - f i = Suc (M - f i)" using assms(2) by fastforce
      have "length cs \<le> length rs" unfolding cs_def direct_children_def
        by (rule order_trans[OF length_filter_le length_filter_le])
      then have "length cs < B" "0 < B" by (simp_all add: B_def)
      then have "length cs * B ^ (M - f i) < B * B ^ (M - f i)"
        by (intro mult_strict_right_mono) simp_all
      then show ?thesis unfolding k by simp
    qed
    finally have "(\<Sum>j \<leftarrow> rev (map ss_id cs) @ st. B ^ (M + 1 - f j)) \<le> n"
      using Suc.prems by (simp add: Cons rev_map sum_list_rev o_def B_def flip: rev_map)
    then have "descend n rs br (rev (map ss_id cs) @ st) (result @ cs) \<noteq> None"
      unfolding B_def by (rule Suc.IH)
    then show ?thesis by (simp add: Cons cs_def Let_def)
  qed simp
qed

text \<open>\<open>descendants_in_branch\<close> collects exactly the records that lie below the start along
  parent links staying on the branch, and it ends whenever no record is its own ancestor.\<close>

theorem descendants_exact:
  assumes "ranked rs f"
  shows "\<exists>n out. descendants_in_branch n rs start br = Some out \<and> set out = below rs br {start}"
proof -
  define M where "M = Max (insert 0 ((\<lambda>r. f (ss_id r)) ` set rs))"
  have "f (ss_id r) \<le> M" if "r \<in> set rs" for r using that by (simp add: M_def)
  then have "descend ((length rs + 2) ^ (M + 1 - f start)) rs br [start] [] \<noteq> None"
    by (intro descend_terminates[OF assms]) auto
  then obtain out where "descend ((length rs + 2) ^ (M + 1 - f start)) rs br [start] [] = Some out"
    by blast
  then show ?thesis
    using descend_set[of _ rs br "[start]" "[]" out] by (auto simp: descendants_in_branch_def)
qed

theorem descendants_exact_witness:
  "\<exists>n out. descendants_in_branch n [example_row ''a'' ''t1'' ''1'',
      (example_row ''b'' ''t2'' ''2'')\<lparr>ss_parent_id := Some ''a''\<rparr>] ''a'' None = Some out
    \<and> set out = below [example_row ''a'' ''t1'' ''1'',
      (example_row ''b'' ''t2'' ''2'')\<lparr>ss_parent_id := Some ''a''\<rparr>] None {''a''}"
  by (rule descendants_exact[where f = "\<lambda>i. if i = ''a'' then 0 else 1"])
     (simp add: ranked_def example_row_def)

lemma last_created_foldl:
  "foldl (\<lambda>acc r. case acc of None \<Rightarrow> Some r
       | Some a \<Rightarrow> if ss_created_at r < ss_created_at a then acc else Some r) acc rs = Some h \<Longrightarrow>
   (h \<in> set rs \<or> acc = Some h) \<and> (\<forall>r \<in> set rs. ss_created_at r \<le> ss_created_at h)
   \<and> (\<forall>a. acc = Some a \<longrightarrow> ss_created_at a \<le> ss_created_at h)"
proof (induction rs arbitrary: acc)
  case (Cons r rs)
  show ?case
  proof (cases "case acc of None \<Rightarrow> False | Some a \<Rightarrow> ss_created_at r < ss_created_at a")
    case True
    then obtain a where a: "acc = Some a" "ss_created_at r < ss_created_at a"
      by (cases acc) auto
    with Cons.prems have "foldl (\<lambda>acc r. case acc of None \<Rightarrow> Some r
       | Some a \<Rightarrow> if ss_created_at r < ss_created_at a then acc else Some r) acc rs = Some h" by simp
    from Cons.IH[OF this] a show ?thesis by (auto intro: less_imp_le order_trans)
  next
    case False
    with Cons.prems have "foldl (\<lambda>acc r. case acc of None \<Rightarrow> Some r
       | Some a \<Rightarrow> if ss_created_at r < ss_created_at a then acc else Some r) (Some r) rs = Some h"
      by (cases acc) auto
    from Cons.IH[OF this] False show ?thesis
      by (cases acc) (auto simp: not_less intro: order_trans)
  qed
qed simp

lemma last_created_Some:
  "last_created rs = Some h \<Longrightarrow> h \<in> set rs \<and> (\<forall>r \<in> set rs. ss_created_at r \<le> ss_created_at h)"
  unfolding last_created_def by (drule last_created_foldl) simp

lemma last_created_None: "last_created rs = None \<longleftrightarrow> rs = []"
proof (cases rs)
  case (Cons r rs')
  have "foldl (\<lambda>acc r. case acc of None \<Rightarrow> Some r
       | Some a \<Rightarrow> if ss_created_at r < ss_created_at a then acc else Some r) (Some a) xs \<noteq> None" for a xs
    by (induction xs arbitrary: a) auto
  then show ?thesis by (simp add: last_created_def Cons)
qed (simp add: last_created_def)

lemma last_created_unique:
  assumes "h \<in> set rs" "\<And>r. r \<in> set rs \<Longrightarrow> r \<noteq> h \<Longrightarrow> ss_created_at r < ss_created_at h"
  shows "last_created rs = Some h"
proof -
  obtain h' where h': "last_created rs = Some h'"
    using assms(1) last_created_None[of rs] by (cases "last_created rs") auto
  then show ?thesis using last_created_Some[OF h'] assms by (metis leD)
qed

text \<open>Reconciliation registers a run of unrecorded layers upside down: of two adjacent layers
  of the chain, the upper backed by the lower, it is the lower layer's new record that names
  the upper one as its parent, and the upper one's record does not name the lower.\<close>

theorem recovered_parents_upside_down:
  assumes "upper \<noteq> re_disk e" "lower \<noteq> re_disk e"
    and "starts_with (snapshots_dir (re_instance_dir e) @ ''/'') upper"
    and "starts_with (snapshots_dir (re_instance_dir e) @ ''/'') lower"
    and "by_path (re_instance_dir e) rs upper = None" "by_path (re_instance_dir e) rs lower = None"
    and "parse_layer_uuid (re_parse_uuid e) upper = Some u" "parse_layer_uuid (re_parse_uuid e) lower = Some l"
  shows "recover_layers e rs [upper, lower] prev table =
     save_snapshot (recovered_record e lower l (Some u)) (save_snapshot (recovered_record e upper u prev) table)
   \<and> ss_parent_id (recovered_record e lower l (Some u)) = Some (ss_id (recovered_record e upper u prev))"
  using assms by (simp add: recovered_record_def)

definition example_reconcile_env :: reconcile_env where
  "example_reconcile_env =
     \<lparr>re_instance = replicate 32 1, re_instance_dir = ''/i'', re_disk = ''/i/disk.qcow2'',
      re_now = ''9'', re_readdir = (\<lambda>_ _. []), re_parse_uuid = Some, re_rename_fault = None\<rparr>"

theorem recovered_parents_upside_down_witness:
  "recover_layers example_reconcile_env [] [''/i/disk.snapshots/u.qcow2'', ''/i/disk.snapshots/l.qcow2''] None [] =
     save_snapshot (recovered_record example_reconcile_env ''/i/disk.snapshots/l.qcow2'' ''l'' (Some ''u''))
       (save_snapshot (recovered_record example_reconcile_env ''/i/disk.snapshots/u.qcow2'' ''u'' None) [])"
proof -
  have "''/i/disk.snapshots/u.qcow2'' \<noteq> re_disk example_reconcile_env"
    "''/i/disk.snapshots/l.qcow2'' \<noteq> re_disk example_reconcile_env"
    by (simp_all add: example_reconcile_env_def)
  moreover have "starts_with (snapshots_dir (re_instance_dir example_reconcile_env) @ ''/'') ''/i/disk.snapshots/u.qcow2''"
    "starts_with (snapshots_dir (re_instance_dir example_reconcile_env) @ ''/'') ''/i/disk.snapshots/l.qcow2''"
    by code_simp+
  moreover have "by_path (re_instance_dir example_reconcile_env) [] ''/i/disk.snapshots/u.qcow2'' = None"
    "by_path (re_instance_dir example_reconcile_env) [] ''/i/disk.snapshots/l.qcow2'' = None"
    by (simp_all add: by_path_def)
  moreover have "parse_layer_uuid (re_parse_uuid example_reconcile_env) ''/i/disk.snapshots/u.qcow2'' = Some ''u''"
    "parse_layer_uuid (re_parse_uuid example_reconcile_env) ''/i/disk.snapshots/l.qcow2'' = Some ''l''"
    by code_simp+
  ultimately show ?thesis by (rule recovered_parents_upside_down[THEN conjunct1])
qed

end
