(* ===== verification/Snapshots.thy ===== *)
theory Snapshots
  imports DiskChain
begin

text \<open>
  Snapshot operations of the daemon (\<open>apps/daemon/src/daemon/snapshot_ops.rs\<close>), each as one
  function of the host files, the metadata table and the instance, with every guard and early
  return in the code's order. Outcomes of the outside world are the environment \<open>snap_env\<close>:
  fresh ids and timestamps, the hypervisor's answer, injected I/O and database faults, and
  after how many polls a cancellation is seen. \<open>sw_vm\<close> is the file the hypervisor's top node
  writes to: it follows renames, and is \<open>VmUnlinked\<close> once that file was removed.
\<close>

datatype vm_target = VmNone | VmFile string | VmUnlinked

datatype io_step = IoCreateDirs string | IoRename string string | IoRemove string

datatype store_step = StGet string | StLoad | StSave uuid | StSetBranch uuid | StDelete uuid

record snap_env =
  se_tool :: qemu_tool
  se_fuel :: nat
  se_uuid :: uuid
  se_now :: string
  se_branch_stamp :: string
  se_store_present :: bool
  se_backend_tags :: "string list option"
  se_backend_snapshot :: "backend_error option"
  se_space :: "disk_error option"
  se_io :: "io_step \<Rightarrow> string option"
  se_db :: "store_step \<Rightarrow> string option"
  se_cancel_after :: "nat option"

record snap_world =
  sw_fs :: filesystem
  sw_table :: snapshot_table
  sw_vm :: vm_target
  sw_polls :: nat

text \<open>What the operations read of the supervised instance, and of the other instances.\<close>

record snap_instance =
  si_id :: instance_id
  si_state :: instance_state
  si_config :: instance_config
  si_dir :: string
  si_has_handle :: bool
  si_backend_registered :: bool
  si_others :: "(instance_id \<times> instance_config) list"

definition si_disk :: "snap_instance \<Rightarrow> string" where
  "si_disk i = disk_path (ic_disk (si_config i))"

definition MAX_SNAPSHOTS_PER_INSTANCE :: nat where "MAX_SNAPSHOTS_PER_INSTANCE = 20"

section \<open>Guards\<close>

definition with_running_instance :: "snap_instance \<Rightarrow> daemon_error + unit" where
  "with_running_instance i =
     (if si_state i \<noteq> Running \<and> si_state i \<noteq> Paused
      then Inl (SnapErr (SnapshotOperationRequiresRunningInstance (si_id i) (si_state i)))
      else if \<not> si_has_handle i then Inl (BackendErr (HandleNotFound (show_instance_id (si_id i))))
      else if \<not> si_backend_registered i then Inl (NoBackendRegistered (ic_backend (si_config i)))
      else Inr ())"

definition check_snapshot_limit :: "instance_id \<Rightarrow> nat \<Rightarrow> nat \<Rightarrow> daemon_error + unit" where
  "check_snapshot_limit i current limit =
     (if current \<ge> limit then Inl (SnapErr (SnapshotLimitExceeded i current limit)) else Inr ())"

definition ensure_snapshot_restore_allowed :: "instance_id \<Rightarrow> instance_state \<Rightarrow> daemon_error + unit" where
  "ensure_snapshot_restore_allowed i s =
     (if s = Running \<or> s = Paused then Inl (LifeErr (InstanceMustBeStopped i s)) else Inr ())"

definition find_live_clones :: "snap_instance \<Rightarrow> instance_id list" where
  "find_live_clones i =
     map fst (filter (\<lambda>(j, c). j \<noteq> si_id i \<and> disk_base_image (ic_disk c) = Some (si_disk i)) (si_others i))"

text \<open>\<open>find_chain_consumers\<close>: an instance whose chain cannot be read is skipped.\<close>

fun find_chain_consumers ::
    "snap_env \<Rightarrow> filesystem \<Rightarrow> instance_id \<Rightarrow> string \<Rightarrow> (instance_id \<times> instance_config) list
       \<Rightarrow> instance_id list option" where
  "find_chain_consumers e fs i layer [] = Some []"
| "find_chain_consumers e fs i layer ((j, c) # others) =
     (if j = i then find_chain_consumers e fs i layer others
      else (case chain_from_head (se_tool e) fs (se_fuel e) (disk_path (ic_disk c)) of
        None \<Rightarrow> None
      | Some (Inl _) \<Rightarrow> find_chain_consumers e fs i layer others
      | Some (Inr chain) \<Rightarrow>
          map_option (\<lambda>rest. if layer \<in> set chain then j # rest else rest)
            (find_chain_consumers e fs i layer others)))"

section \<open>Steps on the world\<close>

definition db :: "snap_env \<Rightarrow> store_step \<Rightarrow> daemon_error + unit" where
  "db e s = (case se_db e s of Some m \<Rightarrow> Inl (StoreErr m) | None \<Rightarrow> Inr ())"

definition moved :: "string \<Rightarrow> string \<Rightarrow> vm_target \<Rightarrow> vm_target" where
  "moved src dst v = (if v = VmFile src then VmFile dst else if v = VmFile dst then VmUnlinked else v)"

definition unlinked :: "string \<Rightarrow> vm_target \<Rightarrow> vm_target" where
  "unlinked p v = (if v = VmFile p then VmUnlinked else v)"

definition rename_file :: "snap_env \<Rightarrow> string \<Rightarrow> string \<Rightarrow> snap_world \<Rightarrow> string + snap_world" where
  "rename_file e src dst w =
     rbind (fs_rename (se_io e (IoRename src dst)) src dst (sw_fs w)) (\<lambda>fs.
       Inr (w\<lparr>sw_fs := fs, sw_vm := moved src dst (sw_vm w)\<rparr>))"

definition remove_file :: "snap_env \<Rightarrow> string \<Rightarrow> snap_world \<Rightarrow> string + snap_world" where
  "remove_file e p w =
     rbind (fs_remove (se_io e (IoRemove p)) p (sw_fs w)) (\<lambda>fs.
       Inr (w\<lparr>sw_fs := fs, sw_vm := unlinked p (sw_vm w)\<rparr>))"

text \<open>\<open>let _ = ...\<close>: the outcome is dropped.\<close>

definition try_step :: "(snap_world \<Rightarrow> string + snap_world) \<Rightarrow> snap_world \<Rightarrow> snap_world" where
  "try_step f w = (case f w of Inr w' \<Rightarrow> w' | Inl _ \<Rightarrow> w)"

definition poll :: "snap_env \<Rightarrow> snap_world \<Rightarrow> bool \<times> snap_world" where
  "poll e w =
     ((case se_cancel_after e of None \<Rightarrow> False | Some n \<Rightarrow> n \<le> sw_polls w), w\<lparr>sw_polls := Suc (sw_polls w)\<rparr>)"

definition disk_virtual_size :: "snap_env \<Rightarrow> snap_instance \<Rightarrow> snap_world \<Rightarrow> u64" where
  "disk_virtual_size e i w =
     (let actual = (case virtual_size_bytes (se_tool e) (si_disk i) (sw_fs w) of Inr n \<Rightarrow> n | Inl _ \<Rightarrow> 0)
      in max actual (disk_size (ic_disk (si_config i))))"

definition layer_rel :: "uuid \<Rightarrow> string" where
  "layer_rel u = ''disk.snapshots/'' @ u @ ''.qcow2''"

definition layer_path_of :: "snap_instance \<Rightarrow> stored_snapshot \<Rightarrow> string" where
  "layer_path_of i r = path_join (si_dir i) (case ss_layer_path r of Some rel \<Rightarrow> rel | None \<Rightarrow> [])"

section \<open>Creating a snapshot\<close>

definition debug_disk_format :: "disk_format \<Rightarrow> string" where
  "debug_disk_format f = (case f of Qcow2 \<Rightarrow> ''Qcow2'' | RawDisk \<Rightarrow> ''Raw'' | Vdi \<Rightarrow> ''Vdi'')"

definition create_guards :: "snap_env \<Rightarrow> snap_instance \<Rightarrow> string \<Rightarrow> snap_world \<Rightarrow> daemon_error + unit" where
  "create_guards e i tag w =
     rbind (with_running_instance i) (\<lambda>_.
       if disk_config.disk_format (ic_disk (si_config i)) \<noteq> Qcow2
       then Inl (SnapErr (SnapshotRequiresQcow2 (si_id i)
                   (debug_disk_format (disk_config.disk_format (ic_disk (si_config i))))))
       else if \<not> se_store_present e then Inl (SnapErr (SnapshotStoreUnavailable (si_id i)))
       else rbind (db e (StGet tag)) (\<lambda>_.
         if get_snapshot (si_id i) tag (sw_table w) \<noteq> None
         then Inl (SnapErr (SnapshotAlreadyExists (si_id i) tag))
         else rbind (db e StLoad) (\<lambda>_.
           let stored = length (load_snapshots (si_id i) (sw_table w));
               current = (case se_backend_tags e of Some ts \<Rightarrow> stored + length ts | None \<Rightarrow> stored)
           in rbind (check_snapshot_limit (si_id i) current MAX_SNAPSHOTS_PER_INSTANCE) (\<lambda>_.
             case se_space e of Some d \<Rightarrow> Inl (DiskErr d) | None \<Rightarrow> Inr ()))))"

text \<open>From the staging overlay to the rename pair. A failure leaves the world as the code's
  clean-up leaves it.\<close>

definition switch_to_overlay ::
    "snap_env \<Rightarrow> snap_instance \<Rightarrow> string \<Rightarrow> string \<Rightarrow> snap_world \<Rightarrow> (daemon_error + unit) \<times> snap_world" where
  "switch_to_overlay e i layer tmp w =
     (case qcow2_create (se_tool e) tmp (disk_virtual_size e i w) (sw_fs w) of
        Inl d \<Rightarrow> (Inl (DiskErr d), w)
      | Inr fs1 \<Rightarrow>
     (case rebase_unchanged (se_tool e) tmp layer fs1 of
        Inl d \<Rightarrow> (Inl (DiskErr d), w\<lparr>sw_fs := fs1\<rparr>)
      | Inr fs2 \<Rightarrow>
     (case se_backend_snapshot e of
        Some err \<Rightarrow> (Inl (BackendErr err), try_step (remove_file e tmp) (w\<lparr>sw_fs := fs2\<rparr>))
      | None \<Rightarrow>
          (let w2 = w\<lparr>sw_fs := fs2, sw_vm := VmFile tmp\<rparr> in
           case rename_file e (si_disk i) layer w2 of
             Inl m \<Rightarrow> (Inl (IoErr (si_disk i) m), try_step (remove_file e tmp) w2)
           | Inr w3 \<Rightarrow>
               (case rename_file e tmp (si_disk i) w3 of
                  Inl m \<Rightarrow> (Inl (IoErr tmp m),
                            try_step (remove_file e tmp) (try_step (rename_file e layer (si_disk i)) w3))
                | Inr w4 \<Rightarrow> (Inr (), w4))))))"

definition new_record :: "snap_env \<Rightarrow> snap_instance \<Rightarrow> string \<Rightarrow> string option \<Rightarrow> uuid option \<Rightarrow> stored_snapshot" where
  "new_record e i tag desc parent =
     \<lparr>ss_id = se_uuid e, ss_instance = si_id i, ss_tag = tag, ss_description = desc,
      ss_created_at = se_now e, ss_layer_path = Some (layer_rel (se_uuid e)),
      ss_parent_id = parent, ss_branch = None\<rparr>"

definition create_snapshot ::
    "snap_env \<Rightarrow> snap_instance \<Rightarrow> string \<Rightarrow> string option \<Rightarrow> snap_world
       \<Rightarrow> (daemon_error + stored_snapshot) \<times> snap_world" where
  "create_snapshot e i tag desc w =
     (case create_guards e i tag w of
        Inl err \<Rightarrow> (Inl err, w)
      | Inr _ \<Rightarrow>
     (let dir = snapshots_dir (si_dir i);
          layer = path_join dir (se_uuid e @ ''.qcow2'');
          tmp = path_join dir (''.tmp-'' @ se_uuid e @ ''.qcow2'')
      in case se_io e (IoCreateDirs dir) of
        Some m \<Rightarrow> (Inl (IoErr dir m), w)
      | None \<Rightarrow>
     (case switch_to_overlay e i layer tmp w of
        (Inl err, w') \<Rightarrow> (Inl err, w')
      | (Inr _, w') \<Rightarrow>
     (case db e StLoad of
        Inl err \<Rightarrow> (Inl err, w')
      | Inr _ \<Rightarrow>
          (let rec = new_record e i tag desc (map_option ss_id (main_chain_head (sw_table w') (si_id i)))
           in (Inr rec,
               case se_db e (StSave (se_uuid e)) of
                 Some _ \<Rightarrow> w'
               | None \<Rightarrow> w'\<lparr>sw_table := save_snapshot rec (sw_table w')\<rparr>))))))"

section \<open>Restoring a snapshot\<close>

fun discard_layers :: "snap_env \<Rightarrow> snap_instance \<Rightarrow> stored_snapshot list \<Rightarrow> snap_world
    \<Rightarrow> (daemon_error + bool) \<times> snap_world" where
  "discard_layers e i [] w = (Inr False, w)"
| "discard_layers e i (c # cs) w =
     (case poll e w of
        (True, w1) \<Rightarrow> (Inr True, w1)
      | (False, w1) \<Rightarrow>
          (let child = layer_path_of i c in
           case remove_file e child w1 of
             Inl m \<Rightarrow> (Inl (IoErr child m), w1)
           | Inr w2 \<Rightarrow>
               (case db e (StDelete (ss_id c)) of
                  Inl err \<Rightarrow> (Inl err, w2)
                | Inr _ \<Rightarrow> discard_layers e i cs
                    (w2\<lparr>sw_table := delete_snapshot_by_id (si_id i) (ss_id c) (sw_table w2)\<rparr>))))"

text \<open>\<open>discard_newer_layers\<close>; \<open>None\<close> when the walk over the records does not end.\<close>

definition discard_newer_layers ::
    "snap_env \<Rightarrow> snap_instance \<Rightarrow> uuid \<Rightarrow> stored_snapshot list \<Rightarrow> snap_world
       \<Rightarrow> ((daemon_error + unit) \<times> snap_world) option" where
  "discard_newer_layers e i target records w =
     (case descendants_in_branch (se_fuel e) records target None of
        None \<Rightarrow> None
      | Some ds \<Rightarrow> Some
          (case discard_layers e i ds w of
             (Inl err, w1) \<Rightarrow> (Inl err, w1)
           | (Inr True, w1) \<Rightarrow> (Inr (), w1)
           | (Inr False, w1) \<Rightarrow>
               (case poll e w1 of
                  (True, w2) \<Rightarrow> (Inr (), w2)
                | (False, w2) \<Rightarrow>
                    (case remove_file e (si_disk i) w2 of
                       Inl m \<Rightarrow> (Inl (IoErr (si_disk i) m), w2)
                     | Inr w3 \<Rightarrow> (Inr (), w3)))))"

fun move_to_branch :: "snap_env \<Rightarrow> snap_instance \<Rightarrow> string option \<Rightarrow> stored_snapshot list \<Rightarrow> snap_world
    \<Rightarrow> (daemon_error + bool) \<times> snap_world" where
  "move_to_branch e i b [] w = (Inr False, w)"
| "move_to_branch e i b (r # rs) w =
     (case poll e w of
        (True, w1) \<Rightarrow> (Inr True, w1)
      | (False, w1) \<Rightarrow>
          (case db e (StSetBranch (ss_id r)) of
             Inl err \<Rightarrow> (Inl err, w1)
           | Inr _ \<Rightarrow> move_to_branch e i b rs
               (w1\<lparr>sw_table := set_snapshot_branch (si_id i) (ss_id r) b (sw_table w1)\<rparr>)))"

text \<open>The switch-back loop polls before it looks at each ancestor.\<close>

fun switch_back :: "snap_env \<Rightarrow> snap_instance \<Rightarrow> string \<Rightarrow> stored_snapshot list \<Rightarrow> snap_world
    \<Rightarrow> (daemon_error + unit) \<times> snap_world" where
  "switch_back e i tb [] w = (Inr (), w)"
| "switch_back e i tb (a # as) w =
     (case poll e w of
        (True, w1) \<Rightarrow> (Inr (), w1)
      | (False, w1) \<Rightarrow>
          (if ss_branch a = Some tb
           then (case db e (StSetBranch (ss_id a)) of
                   Inl err \<Rightarrow> (Inl err, w1)
                 | Inr _ \<Rightarrow> switch_back e i tb as
                     (w1\<lparr>sw_table := set_snapshot_branch (si_id i) (ss_id a) None (sw_table w1)\<rparr>))
           else switch_back e i tb as w1))"

text \<open>\<open>{:?}\<close> of a string; bytes from 128 on are those of printable UTF-8 text.\<close>

definition escape_debug :: "char \<Rightarrow> string" where
  "escape_debug c =
     (if c = CHR 0x22 then [CHR 0x5C, CHR 0x22]
      else if c = CHR 0x5C then [CHR 0x5C, CHR 0x5C]
      else if c = CHR 0x0A then [CHR 0x5C, CHR ''n'']
      else if c = CHR 0x0D then [CHR 0x5C, CHR ''r'']
      else if c = CHR 0x09 then [CHR 0x5C, CHR ''t'']
      else if c = CHR 0x00 then [CHR 0x5C, CHR ''0'']
      else if byte c < 16 then [CHR 0x5C] @ ''u{'' @ [hex_digit (byte c)] @ ''}''
      else if byte c < 32 \<or> byte c = 127
      then [CHR 0x5C] @ ''u{'' @ [hex_digit (byte c div 16), hex_digit (byte c mod 16)] @ ''}''
      else [c])"

definition debug_string :: "string \<Rightarrow> string" where
  "debug_string s = [CHR 0x22] @ concat (map escape_debug s) @ [CHR 0x22]"

definition archived_record :: "snap_env \<Rightarrow> snap_instance \<Rightarrow> string \<Rightarrow> string \<Rightarrow> uuid option \<Rightarrow> stored_snapshot" where
  "archived_record e i branch tag parent =
     \<lparr>ss_id = se_uuid e, ss_instance = si_id i, ss_tag = ''pre-'' @ branch,
      ss_description = Some (''active disk archived when branching off snapshot '' @ debug_string tag),
      ss_created_at = se_now e, ss_layer_path = Some (layer_rel (se_uuid e)),
      ss_parent_id = parent, ss_branch = Some branch\<rparr>"

definition archive_chain_for_restore ::
    "snap_env \<Rightarrow> snap_instance \<Rightarrow> uuid \<Rightarrow> string option \<Rightarrow> stored_snapshot list \<Rightarrow> string \<Rightarrow> snap_world
       \<Rightarrow> ((daemon_error + unit) \<times> snap_world) option" where
  "archive_chain_for_restore e i target target_branch records tag w =
     (case poll e w of
        (True, w1) \<Rightarrow> Some (Inr (), w1)
      | (False, w1) \<Rightarrow>
     (let branch = ''branch-'' @ se_branch_stamp e;
          arch = path_join (snapshots_dir (si_dir i)) (se_uuid e @ ''.qcow2'')
      in case db e StLoad of
        Inl err \<Rightarrow> Some (Inl err, w1)
      | Inr _ \<Rightarrow>
     (let head = main_chain_head (sw_table w1) (si_id i) in
      case rename_file e (si_disk i) arch w1 of
        Inl m \<Rightarrow> Some (Inl (IoErr (si_disk i) m), w1)
      | Inr w2 \<Rightarrow>
     (case move_to_branch e i (Some branch) (filter on_main records) w2 of
        (Inl err, w3) \<Rightarrow> Some (Inl err, w3)
      | (Inr True, w3) \<Rightarrow> Some (Inr (), w3)
      | (Inr False, w3) \<Rightarrow>
     (case poll e w3 of
        (True, w4) \<Rightarrow> Some (Inr (), w4)
      | (False, w4) \<Rightarrow>
     (case db e (StSave (se_uuid e)) of
        Inl err \<Rightarrow> Some (Inl err, w4)
      | Inr _ \<Rightarrow>
     (let w5 = w4\<lparr>sw_table := save_snapshot (archived_record e i branch tag (map_option ss_id head)) (sw_table w4)\<rparr>
      in case target_branch of
        None \<Rightarrow> Some (Inr (), w5)
      | Some tb \<Rightarrow> map_option (\<lambda>as. switch_back e i tb as w5) (ancestors (se_fuel e) records target))))))))"

definition restore_guards ::
    "snap_env \<Rightarrow> snap_instance \<Rightarrow> string \<Rightarrow> bool \<Rightarrow> snap_world \<Rightarrow> daemon_error + stored_snapshot \<times> string" where
  "restore_guards e i tag branch w =
     rbind (db e (StGet tag)) (\<lambda>_.
     rbind (ok_or (SnapErr (SnapshotNotFound (si_id i) tag)) (get_snapshot (si_id i) tag (sw_table w))) (\<lambda>target.
     rbind (ok_or (SnapErr (SnapshotInternalNotRestorable (si_id i) tag)) (ss_layer_path target)) (\<lambda>rel.
     let target_path = path_join (si_dir i) rel in
     if sw_fs w target_path = None then Inl (SnapErr (SnapshotLayerMissing (si_id i) target_path))
     else if find_live_clones i \<noteq> []
     then Inl (SnapErr (RestoreWouldBreakClones (si_id i) tag (find_live_clones i)))
     else rbind (db e StLoad) (\<lambda>_.
       case (branch, ss_branch target) of
         (False, Some b) \<Rightarrow> Inl (SnapErr (RestoreTargetOnArchivedBranch (si_id i) tag b))
       | _ \<Rightarrow> Inr (target, target_path)))))"

text \<open>The operation's runner: archive or discard, then rebuild the active disk.\<close>

definition restore_run ::
    "snap_env \<Rightarrow> snap_instance \<Rightarrow> string \<Rightarrow> bool \<Rightarrow> stored_snapshot \<Rightarrow> string \<Rightarrow> stored_snapshot list
       \<Rightarrow> u64 \<Rightarrow> string \<Rightarrow> snap_world \<Rightarrow> ((daemon_error + unit) \<times> snap_world) option" where
  "restore_run e i tag branch target target_path records vsize op_id w =
     (case (if branch
            then archive_chain_for_restore e i (ss_id target) (ss_branch target) records tag w
            else discard_newer_layers e i (ss_id target) records w) of
        None \<Rightarrow> None
      | Some (Inl err, w1) \<Rightarrow> Some (Inl err, w1)
      | Some (Inr _, w1) \<Rightarrow> Some
          (case poll e w1 of
             (True, w2) \<Rightarrow> (Inl (OpErr (OperationCancelled op_id)), w2)
           | (False, w2) \<Rightarrow>
               (case create_overlay (se_tool e) (si_disk i) target_path vsize (sw_fs w2) of
                  Inl d \<Rightarrow> (Inl (DiskErr d), w2)
                | Inr fs \<Rightarrow> (Inr (), w2\<lparr>sw_fs := fs\<rparr>))))"

text \<open>\<open>restore_snapshot\<close> for a request that starts its operation (one that joins a running
  restore of the same tag only waits for it).\<close>

definition restore_snapshot ::
    "snap_env \<Rightarrow> snap_instance \<Rightarrow> string \<Rightarrow> bool \<Rightarrow> string \<Rightarrow> snap_world
       \<Rightarrow> ((daemon_error + unit) \<times> snap_world) option" where
  "restore_snapshot e i tag branch op_id w =
     (case ensure_snapshot_restore_allowed (si_id i) (si_state i) of
        Inl err \<Rightarrow> Some (Inl err, w)
      | Inr _ \<Rightarrow>
          (if \<not> se_store_present e
           then Some (case restore_internal_snapshot (se_tool e) (si_disk i) tag (sw_fs w) of
                        Inl d \<Rightarrow> (Inl (DiskErr d), w) | Inr fs \<Rightarrow> (Inr (), w\<lparr>sw_fs := fs\<rparr>))
           else (case restore_guards e i tag branch w of
             Inl err \<Rightarrow> Some (Inl err, w)
           | Inr (target, target_path) \<Rightarrow>
               restore_run e i tag branch target target_path
                 (load_snapshots (si_id i) (sw_table w)) (disk_virtual_size e i w) op_id w)))"

section \<open>Deleting a snapshot\<close>

fun rebase_children ::
    "snap_env \<Rightarrow> snap_instance \<Rightarrow> string \<Rightarrow> stored_snapshot list \<Rightarrow> filesystem \<Rightarrow> (daemon_error + unit) \<times> filesystem" where
  "rebase_children e i parent_path [] fs = (Inr (), fs)"
| "rebase_children e i parent_path (c # cs) fs =
     (let child = layer_path_of i c in
      case rebase_unchanged (se_tool e) child parent_path fs of
        Inl d \<Rightarrow> (Inl (DiskErr d), fs)
      | Inr fs' \<Rightarrow> rebase_children e i parent_path cs fs')"

definition rebase_head ::
    "snap_env \<Rightarrow> snap_instance \<Rightarrow> string \<Rightarrow> string \<Rightarrow> filesystem \<Rightarrow> (daemon_error + unit) \<times> filesystem" where
  "rebase_head e i target_path parent_path fs =
     (case qt_info (se_tool e) (si_disk i) fs of
        Inl _ \<Rightarrow> (Inr (), fs)
      | Inr info \<Rightarrow>
          (if di_backing_file info = Some target_path
           then (case rebase_unchanged (se_tool e) (si_disk i) parent_path fs of
                   Inl d \<Rightarrow> (Inl (DiskErr d), fs) | Inr fs' \<Rightarrow> (Inr (), fs'))
           else (Inr (), fs)))"

definition delete_guards ::
    "snap_env \<Rightarrow> snap_instance \<Rightarrow> stored_snapshot \<Rightarrow> string \<Rightarrow> snap_world
       \<Rightarrow> (daemon_error + string \<times> string) option" where
  "delete_guards e i target rel w =
     (let target_path = path_join (si_dir i) rel;
          records = load_snapshots (si_id i) (sw_table w)
      in if sw_fs w target_path = None
         then Some (Inl (SnapErr (SnapshotLayerMissing (si_id i) target_path)))
         else (case ss_parent_id target of
           None \<Rightarrow> Some (Inl (SnapErr (CannotDeleteBaseLayer (si_id i) (ss_tag target))))
         | Some p \<Rightarrow>
             (case db e StLoad of Inl err \<Rightarrow> Some (Inl err)
              | Inr _ \<Rightarrow>
             (case List.find (\<lambda>r. ss_id r = p) records of
                None \<Rightarrow> Some (Inl (SnapErr (SnapshotLayerMissing (si_id i) ''parent layer record missing'')))
              | Some parent \<Rightarrow>
                  (let parent_path = layer_path_of i parent in
                   if sw_fs w parent_path = None
                   then Some (Inl (SnapErr (SnapshotLayerMissing (si_id i) parent_path)))
                   else (case find_chain_consumers e (sw_fs w) (si_id i) target_path (si_others i) of
                     None \<Rightarrow> None
                   | Some [] \<Rightarrow> Some (Inr (target_path, parent_path))
                   | Some cs \<Rightarrow> Some (Inl (SnapErr (DeleteWouldBreakClones (si_id i) (ss_tag target) cs)))))))))"

definition delete_layer ::
    "snap_env \<Rightarrow> snap_instance \<Rightarrow> stored_snapshot \<Rightarrow> string \<Rightarrow> string \<Rightarrow> snap_world
       \<Rightarrow> (daemon_error + unit) \<times> snap_world" where
  "delete_layer e i target target_path parent_path w =
     (case commit_layer (se_tool e) target_path (sw_fs w) of
        Inl d \<Rightarrow> (Inl (DiskErr d), w)
      | Inr fs1 \<Rightarrow>
     (case rebase_children e i parent_path
             (direct_children (load_snapshots (si_id i) (sw_table w)) (ss_id target)) fs1 of
        (Inl err, fs2) \<Rightarrow> (Inl err, w\<lparr>sw_fs := fs2\<rparr>)
      | (Inr _, fs2) \<Rightarrow>
     (case rebase_head e i target_path parent_path fs2 of
        (Inl err, fs3) \<Rightarrow> (Inl err, w\<lparr>sw_fs := fs3\<rparr>)
      | (Inr _, fs3) \<Rightarrow>
     (case remove_file e target_path (w\<lparr>sw_fs := fs3\<rparr>) of
        Inl m \<Rightarrow> (Inl (IoErr target_path m), w\<lparr>sw_fs := fs3\<rparr>)
      | Inr w4 \<Rightarrow>
     (case db e (StDelete (ss_id target)) of
        Inl err \<Rightarrow> (Inl err, w4)
      | Inr _ \<Rightarrow> (Inr (), w4\<lparr>sw_table := delete_snapshot_by_id (si_id i) (ss_id target) (sw_table w4)\<rparr>))))))"

definition delete_snapshot ::
    "snap_env \<Rightarrow> snap_instance \<Rightarrow> string \<Rightarrow> snap_world \<Rightarrow> ((daemon_error + unit) \<times> snap_world) option" where
  "delete_snapshot e i tag w =
     (case ensure_snapshot_restore_allowed (si_id i) (si_state i) of
        Inl err \<Rightarrow> Some (Inl err, w)
      | Inr _ \<Rightarrow>
     (if \<not> se_store_present e
      then Some (case delete_internal_snapshot (se_tool e) (si_disk i) tag (sw_fs w) of
                   Inl d \<Rightarrow> (Inl (DiskErr d), w) | Inr fs \<Rightarrow> (Inr (), w\<lparr>sw_fs := fs\<rparr>))
      else (case rbind (db e (StGet tag)) (\<lambda>_.
                   ok_or (SnapErr (SnapshotNotFound (si_id i) tag)) (get_snapshot (si_id i) tag (sw_table w))) of
        Inl err \<Rightarrow> Some (Inl err, w)
      | Inr target \<Rightarrow>
     (case ss_layer_path target of
        None \<Rightarrow> Some
          (case delete_internal_snapshot (se_tool e) (si_disk i) tag (sw_fs w) of
             Inl d \<Rightarrow> (Inl (DiskErr d), w)
           | Inr fs \<Rightarrow>
               (case db e (StDelete (ss_id target)) of
                  Inl err \<Rightarrow> (Inl err, w\<lparr>sw_fs := fs\<rparr>)
                | Inr _ \<Rightarrow> (Inr (), w\<lparr>sw_fs := fs, sw_table := delete_snapshot_by_tag (si_id i) tag (sw_table w)\<rparr>)))
      | Some rel \<Rightarrow>
     (case delete_guards e i target rel w of
        None \<Rightarrow> None
      | Some (Inl err) \<Rightarrow> Some (Inl err, w)
      | Some (Inr (target_path, parent_path)) \<Rightarrow>
          Some (delete_layer e i target target_path parent_path w))))))"

section \<open>Listing\<close>

fun merge_backend :: "instance_id \<Rightarrow> (uuid \<times> string \<times> string option) list \<Rightarrow> stored_snapshot list \<Rightarrow> stored_snapshot list" where
  "merge_backend i [] result = result"
| "merge_backend i ((u, tag, at) # bs) result =
     merge_backend i bs
       (if list_ex (\<lambda>r. ss_tag r = tag) result then result
        else result @ [\<lparr>ss_id = u, ss_instance = i, ss_tag = tag, ss_description = None,
               ss_created_at = (case at of Some t \<Rightarrow> t | None \<Rightarrow> []), ss_layer_path = None,
               ss_parent_id = None, ss_branch = None\<rparr>])"

text \<open>The hypervisor's own snapshots come with the id drawn for each when it is listed.\<close>

definition list_snapshots ::
    "snap_env \<Rightarrow> snap_instance \<Rightarrow> (uuid \<times> string \<times> string option) list \<Rightarrow> snap_world
       \<Rightarrow> daemon_error + stored_snapshot list" where
  "list_snapshots e i backend w =
     (if \<not> si_backend_registered i then Inl (NoBackendRegistered (ic_backend (si_config i)))
      else (let bs = (if si_has_handle i then backend else []) in
        if se_store_present e
        then rbind (db e StLoad) (\<lambda>_. Inr (merge_backend (si_id i) bs (load_snapshots (si_id i) (sw_table w))))
        else Inr (map (\<lambda>(u, tag, at). \<lparr>ss_id = u, ss_instance = si_id i, ss_tag = tag, ss_description = None,
               ss_created_at = (case at of Some t \<Rightarrow> t | None \<Rightarrow> []), ss_layer_path = None,
               ss_parent_id = None, ss_branch = None\<rparr>) bs)))"

section \<open>Effects of the steps\<close>

lemma rename_file_iff:
  "rename_file e src dst w = Inr w' \<longleftrightarrow>
     se_io e (IoRename src dst) = None \<and> (\<exists>im. sw_fs w src = Some im \<and>
        w' = w\<lparr>sw_fs := (sw_fs w)(src := None, dst := Some im), sw_vm := moved src dst (sw_vm w)\<rparr>)"
  by (auto simp: rename_file_def fs_rename_def rbind_eq_Inr split: option.splits)

lemma remove_file_iff:
  "remove_file e p w = Inr w' \<longleftrightarrow>
     se_io e (IoRemove p) = None \<and> sw_fs w p \<noteq> None \<and>
        w' = w\<lparr>sw_fs := (sw_fs w)(p := None), sw_vm := unlinked p (sw_vm w)\<rparr>"
  by (auto simp: remove_file_def fs_remove_def rbind_eq_Inr split: option.splits)

lemma poll_eq:
  "poll e w = (b, w') \<longleftrightarrow> w' = w\<lparr>sw_polls := Suc (sw_polls w)\<rparr> \<and>
     b = (case se_cancel_after e of None \<Rightarrow> False | Some n \<Rightarrow> n \<le> sw_polls w)"
  by (auto simp: poll_def)

lemma poll_stays: "poll e w = (True, w1) \<Longrightarrow> sw_polls w1 \<le> sw_polls w2 \<Longrightarrow> fst (poll e w2)"
  by (auto simp: poll_def split: option.splits)

lemma qemu_create:
  "qemu_laws t \<Longrightarrow> qcow2_create t p s fs = Inr fs' \<Longrightarrow>
     fs' = fs(p := Some \<lparr>im_size = s, im_backing = None, im_data = Map.empty\<rparr>)"
  by (simp add: qemu_laws_def)

lemma qemu_overlay:
  "qemu_laws t \<Longrightarrow> create_overlay t p b s fs = Inr fs' \<Longrightarrow>
     fs' = fs(p := Some \<lparr>im_size = s, im_backing = Some b, im_data = Map.empty\<rparr>)"
  by (simp add: qemu_laws_def)

lemma qemu_rebase:
  assumes "qemu_laws t" "rebase_unchanged t p b fs = Inr fs'"
  obtains im where "fs p = Some im" "fs' = fs(p := Some (im\<lparr>im_backing := Some b\<rparr>))"
  using assms unfolding qemu_laws_def by blast

lemma qemu_commit:
  assumes "qemu_laws t" "commit_layer t p fs = Inr fs'"
  obtains im b base where "fs p = Some im" "im_backing im = Some b" "resolve_backing p b \<noteq> p"
    "fs (resolve_backing p b) = Some base"
    "fs' = fs(resolve_backing p b := Some (base\<lparr>im_data := im_data base ++ im_data im\<rparr>),
              p := Some (im\<lparr>im_data := Map.empty\<rparr>))"
  using assms(1)[unfolded qemu_laws_def, THEN conjunct2, THEN conjunct2, THEN conjunct2, THEN conjunct2,
      THEN conjunct2, rule_format, OF assms(2)] that
  by (elim exE conjE)

lemma resolve_absolute [simp]: "is_absolute b \<Longrightarrow> resolve_backing p b = b"
  by (simp add: resolve_backing_def)

definition layer_file :: "snap_env \<Rightarrow> snap_instance \<Rightarrow> string" where
  "layer_file e i = path_join (snapshots_dir (si_dir i)) (se_uuid e @ ''.qcow2'')"

definition staging_file :: "snap_env \<Rightarrow> snap_instance \<Rightarrow> string" where
  "staging_file e i = path_join (snapshots_dir (si_dir i)) (''.tmp-'' @ se_uuid e @ ''.qcow2'')"

definition absolute_backing :: "filesystem \<Rightarrow> string \<Rightarrow> bool" where
  "absolute_backing fs p \<longleftrightarrow> (\<forall>im b. fs p = Some im \<longrightarrow> im_backing im = Some b \<longrightarrow> is_absolute b)"

section \<open>A small world for the examples\<close>

text \<open>One instance whose disk \<open>/i/disk.qcow2\<close> holds one cluster, on a host where every step
  succeeds and \<open>qemu-img\<close> is the reference tool.\<close>

definition demo_env :: "uuid \<Rightarrow> string \<Rightarrow> snap_env" where
  "demo_env u now =
     \<lparr>se_tool = ref_tool, se_fuel = 20, se_uuid = u, se_now = now, se_branch_stamp = ''1'',
      se_store_present = True, se_backend_tags = None, se_backend_snapshot = None, se_space = None,
      se_io = (\<lambda>_. None), se_db = (\<lambda>_. None), se_cancel_after = None\<rparr>"

definition demo_config :: instance_config where
  "demo_config = (example_config 1)\<lparr>ic_disk := disk_reference_default ''/i/disk.qcow2''\<rparr>"

definition demo_instance :: "instance_state \<Rightarrow> snap_instance" where
  "demo_instance s =
     \<lparr>si_id = replicate 32 1, si_state = s, si_config = demo_config, si_dir = ''/i'',
      si_has_handle = True, si_backend_registered = True, si_others = []\<rparr>"

definition guest_writes :: "nat \<Rightarrow> nat \<Rightarrow> snap_world \<Rightarrow> snap_world" where
  "guest_writes k v w =
     w\<lparr>sw_fs := (\<lambda>p. if p = ''/i/disk.qcow2''
        then map_option (\<lambda>im. im\<lparr>im_data := (im_data im)(k := Some v)\<rparr>) (sw_fs w p) else sw_fs w p)\<rparr>"

definition demo_world :: snap_world where
  "demo_world =
     \<lparr>sw_fs = Map.empty(''/i/disk.qcow2'' \<mapsto> \<lparr>im_size = 64, im_backing = None, im_data = [0 \<mapsto> 7]\<rparr>),
      sw_table = [], sw_vm = VmFile ''/i/disk.qcow2'', sw_polls = 0\<rparr>"

text \<open>Two snapshots \<open>a\<close> and \<open>b\<close> with a guest write before each.\<close>

definition demo_after_a :: snap_world where
  "demo_after_a = guest_writes 0 8 (snd (create_snapshot (demo_env ''A'' ''t1'') (demo_instance Running) ''a'' None demo_world))"

definition demo_after_b :: snap_world where
  "demo_after_b = guest_writes 0 9 (snd (create_snapshot (demo_env ''B'' ''t2'') (demo_instance Running) ''b'' None demo_after_a))"

section \<open>Evaluating the small world\<close>

lemma ref_create: "qcow2_create ref_tool p s fs = Inr (fs(p := Some \<lparr>im_size = s, im_backing = None, im_data = Map.empty\<rparr>))"
  by (simp add: qcow2_create_def ref_tool_def)
lemma ref_overlay: "create_overlay ref_tool p b s fs = Inr (fs(p := Some \<lparr>im_size = s, im_backing = Some b, im_data = Map.empty\<rparr>))"
  by (simp add: create_overlay_def overlay_args_def ref_tool_def)
lemma ref_rebase: "fs p = Some im \<Longrightarrow> rebase_unchanged ref_tool p b fs = Inr (fs(p := Some (im\<lparr>im_backing := Some b\<rparr>)))"
  by (simp add: rebase_unchanged_def ref_tool_def)
lemma ref_commit:
  "fs p = Some im \<Longrightarrow> im_backing im = Some b \<Longrightarrow> resolve_backing p b = q \<Longrightarrow> fs q = Some base \<Longrightarrow> q \<noteq> p \<Longrightarrow>
     commit_layer ref_tool p fs = Inr (fs(q := Some (base\<lparr>im_data := im_data base ++ im_data im\<rparr>), p := Some (im\<lparr>im_data := Map.empty\<rparr>)))"
  by (simp add: commit_layer_def ref_tool_def)
lemma ref_info: "qt_info ref_tool p fs = (case fs p of None \<Rightarrow> Inl (CommandFailed 1 p)
        | Some im \<Rightarrow> Inr \<lparr>di_virtual_size = im_size im, di_actual_size = 0, di_format = ''qcow2'',
                          di_backing_file = im_backing im\<rparr>)"
  by (simp add: ref_tool_def)
lemmas ref_tool_eqs = ref_create ref_overlay ref_rebase ref_info

lemma demo_env_sel [simp]:
  "se_tool (demo_env u n) = ref_tool" "se_fuel (demo_env u n) = 20" "se_uuid (demo_env u n) = u" "se_now (demo_env u n) = n"
  "se_branch_stamp (demo_env u n) = ''1''" "se_store_present (demo_env u n)" "se_backend_tags (demo_env u n) = None"
  "se_backend_snapshot (demo_env u n) = None" "se_space (demo_env u n) = None" "se_io (demo_env u n) s = None"
  "se_db (demo_env u n) q = None" "db (demo_env u n) q = Inr ()" "se_cancel_after (demo_env u n) = None"
  by (simp_all add: demo_env_def db_def)

lemma demo_instance_sel [simp]:
  "si_id (demo_instance s) = replicate 32 1" "si_state (demo_instance s) = s" "si_dir (demo_instance s) = ''/i''"
  "si_disk (demo_instance s) = ''/i/disk.qcow2''" "si_has_handle (demo_instance s)" "si_backend_registered (demo_instance s)"
  "si_others (demo_instance s) = []" "disk_config.disk_format (ic_disk (si_config (demo_instance s))) = Qcow2"
  "disk_size (ic_disk (si_config (demo_instance s))) = 274877906944"
  by (simp_all add: demo_instance_def si_disk_def demo_config_def disk_reference_default_def GIB_def)


lemmas path_eval = snapshots_dir_def SNAPSHOTS_DIR_NAME_def path_join_def is_absolute_def starts_with_def ends_with_def
  layer_path_of_def layer_rel_def

definition demo_row :: "uuid \<Rightarrow> string \<Rightarrow> string \<Rightarrow> uuid option \<Rightarrow> stored_snapshot" where
  "demo_row u tag at parent =
     \<lparr>ss_id = u, ss_instance = replicate 32 1, ss_tag = tag, ss_description = None, ss_created_at = at,
      ss_layer_path = Some (''disk.snapshots/'' @ u @ ''.qcow2''), ss_parent_id = parent, ss_branch = None\<rparr>"

lemma demo_size: "sw_fs w ''/i/disk.qcow2'' = Some im \<Longrightarrow> im_size im \<le> 274877906944 \<Longrightarrow>
    disk_virtual_size (demo_env u n) (demo_instance s) w = 274877906944"
  by (simp add: disk_virtual_size_def virtual_size_bytes_def ref_info rbind_def max_absorb2)

lemma ref_switch:
  assumes "sw_fs w d = Some im" "im_size im \<le> 274877906944" "d = ''/i/disk.qcow2''" "t \<noteq> l" "t \<noteq> d" "l \<noteq> d"
  shows "switch_to_overlay (demo_env u n) (demo_instance s) l t w =
    (Inr (), w\<lparr>sw_fs := (sw_fs w)(t := None, l := Some im,
         d := Some \<lparr>im_size = 274877906944, im_backing = Some l, im_data = Map.empty\<rparr>), sw_vm := VmFile d\<rparr>)"
proof -
  have sz: "disk_virtual_size (demo_env u n) (demo_instance s) w = 274877906944"
    using demo_size assms(1-3) by simp
  have dk: "si_disk (demo_instance s) = d" using assms(3) by simp
  show ?thesis
    using assms(1,4-6)
    by (simp add: switch_to_overlay_def sz dk ref_create ref_rebase rename_file_def fs_rename_def rbind_def moved_def
        fun_upd_twist del: demo_instance_sel(4))
qed

lemma demo_create:
  assumes "sw_fs w ''/i/disk.qcow2'' = Some im" "im_size im \<le> 274877906944"
    and "get_snapshot (replicate 32 1) tag (sw_table w) = None" "length (load_snapshots (replicate 32 1) (sw_table w)) < 20"
    and "\<not> starts_with ''/'' u"
  shows "create_snapshot (demo_env u n) (demo_instance Running) tag None w =
    (let r = demo_row u tag n (map_option ss_id (main_chain_head (sw_table w) (replicate 32 1))) in
     (Inr r, w\<lparr>sw_fs := (sw_fs w)(''/i/disk.snapshots/.tmp-'' @ u @ ''.qcow2'' := None,
         ''/i/disk.snapshots/'' @ u @ ''.qcow2'' := Some im,
         ''/i/disk.qcow2'' := Some \<lparr>im_size = 274877906944, im_backing = Some (''/i/disk.snapshots/'' @ u @ ''.qcow2''), im_data = Map.empty\<rparr>),
         sw_table := save_snapshot r (sw_table w), sw_vm := VmFile ''/i/disk.qcow2''\<rparr>))"
proof -
  have g: "create_guards (demo_env u n) (demo_instance Running) tag w = Inr ()"
    using assms(3,4) by (simp add: create_guards_def with_running_instance_def check_snapshot_limit_def
        MAX_SNAPSHOTS_PER_INSTANCE_def rbind_def)
  define l t d where "l = ''/i/disk.snapshots/'' @ u @ ''.qcow2''" and "t = ''/i/disk.snapshots/.tmp-'' @ u @ ''.qcow2''"
    and "d = ''/i/disk.qcow2''"
  note defs = this
  have p: "path_join (snapshots_dir ''/i'') (u @ ''.qcow2'') = l" "path_join (snapshots_dir ''/i'') (''.tmp-'' @ u @ ''.qcow2'') = t"
    using assms(5) by (cases u; simp add: path_eval defs)+
  have ne: "t \<noteq> l" "t \<noteq> d" "l \<noteq> d"
    using arg_cong[of t l length] by (auto simp: defs)
  have sw: "switch_to_overlay (demo_env u n) (demo_instance Running) l t w =
      (Inr (), w\<lparr>sw_fs := (sw_fs w)(t := None, l := Some im,
         d := Some \<lparr>im_size = 274877906944, im_backing = Some l, im_data = Map.empty\<rparr>), sw_vm := VmFile d\<rparr>)"
    using ref_switch[OF _ assms(2) _ ne] assms(1) by (simp add: defs(3))
  show ?thesis
    unfolding create_snapshot_def g Let_def sum.case demo_env_sel demo_instance_sel(1,3) p option.case sw prod.case
    by (simp add: new_record_def demo_row_def layer_rel_def defs)
qed

lemma demo_a:
  "create_snapshot (demo_env ''A'' ''t1'') (demo_instance Running) ''a'' None demo_world =
     (Inr (demo_row ''A'' ''a'' ''t1'' None),
      \<lparr>sw_fs = Map.empty(''/i/disk.snapshots/A.qcow2'' \<mapsto> \<lparr>im_size = 64, im_backing = None, im_data = [0 \<mapsto> 7]\<rparr>,
         ''/i/disk.qcow2'' \<mapsto> \<lparr>im_size = 274877906944, im_backing = Some ''/i/disk.snapshots/A.qcow2'', im_data = Map.empty\<rparr>),
       sw_table = [demo_row ''A'' ''a'' ''t1'' None], sw_vm = VmFile ''/i/disk.qcow2'', sw_polls = 0\<rparr>)"
  by (subst demo_create)
     (simp_all add: demo_world_def get_snapshot_def load_snapshots_def main_chain_head_def last_created_def starts_with_def
       save_snapshot_def conflicts_def fun_upd_twist Let_def)

lemma demo_world_sel:
  "sw_fs demo_world = Map.empty(''/i/disk.qcow2'' \<mapsto> \<lparr>im_size = 64, im_backing = None, im_data = [0 \<mapsto> 7]\<rparr>)"
  "sw_table demo_world = []" "sw_vm demo_world = VmFile ''/i/disk.qcow2''" "sw_polls demo_world = 0"
  by (simp_all add: demo_world_def)

end
