(* ===== verification/SnapshotCreate.thy ===== *)
theory SnapshotCreate
  imports Snapshots
begin



lemma layered_overlay:
  "fs' p = Some \<lparr>im_size = s, im_backing = b, im_data = Map.empty\<rparr> \<Longrightarrow> layered fs' (p # ps) = layered fs' ps"
  by simp



lemma switch_to_overlay_fail:
  assumes "qemu_laws (se_tool e)" "switch_to_overlay e i layer tmp w = (Inl err, w')"
  shows "sw_table w' = sw_table w
    \<and> (se_backend_snapshot e \<noteq> None \<longrightarrow> (\<forall>p. p \<noteq> tmp \<longrightarrow> sw_fs w' p = sw_fs w p)
         \<and> sw_vm w' \<in> {sw_vm w, unlinked tmp (sw_vm w)})"
proof -
  note t = assms(1)
  consider (create) d where "qcow2_create (se_tool e) tmp (disk_virtual_size e i w) (sw_fs w) = Inl d"
    | (later) fs1 where "qcow2_create (se_tool e) tmp (disk_virtual_size e i w) (sw_fs w) = Inr fs1"
    by (cases "qcow2_create (se_tool e) tmp (disk_virtual_size e i w) (sw_fs w)") auto
  then show ?thesis
  proof cases
    case create
    then show ?thesis using assms(2) by (auto simp: switch_to_overlay_def)
  next
    case later
    then have fs1: "\<forall>p. p \<noteq> tmp \<longrightarrow> fs1 p = sw_fs w p" using qemu_create[OF t later] by simp
    show ?thesis
    proof (cases "rebase_unchanged (se_tool e) tmp layer fs1")
      case (Inl d)
      then show ?thesis using assms(2) later fs1 by (auto simp: switch_to_overlay_def)
    next
      case (Inr fs2)
      obtain im where "fs2 = fs1(tmp := Some im)" using qemu_rebase[OF t Inr] by blast
      then have fs2: "\<forall>p. p \<noteq> tmp \<longrightarrow> fs2 p = sw_fs w p" using fs1 by simp
      have drop: "sw_table (try_step f w0) = sw_table w0" if "\<And>w1. f w0 = Inr w1 \<Longrightarrow> sw_table w1 = sw_table w0" for f w0
        using that by (auto simp: try_step_def split: sum.splits)
      have rm: "sw_table (try_step (remove_file e tmp) w0) = sw_table w0" for w0
        by (rule drop) (auto simp: remove_file_iff)
      have rn: "sw_table (try_step (rename_file e a b) w0) = sw_table w0" for w0 a b
        by (rule drop) (auto simp: rename_file_iff)
      show ?thesis
      proof (cases "se_backend_snapshot e")
        case (Some b)
        then have w': "w' = try_step (remove_file e tmp) (w\<lparr>sw_fs := fs2\<rparr>)"
          using assms(2) later Inr by (simp add: switch_to_overlay_def)
        show ?thesis unfolding w' rm
          using fs2 by (auto simp: try_step_def remove_file_iff split: sum.splits)
      next
        case None
        then show ?thesis using assms(2) later Inr
          by (auto simp: switch_to_overlay_def Let_def rm rn rename_file_iff split: sum.splits)
      qed
    qed
  qed
qed

text \<open>A failed \<open>create_snapshot\<close> stores nothing, and when the hypervisor refused the switch
  (or was never asked) no file but the staging overlay was touched.\<close>

theorem create_snapshot_failure:
  assumes "qemu_laws (se_tool e)" and "create_snapshot e i tag desc w = (Inl err, w')"
  shows "sw_table w' = sw_table w
    \<and> (se_backend_snapshot e \<noteq> None \<longrightarrow> (\<forall>p. p \<noteq> staging_file e i \<longrightarrow> sw_fs w' p = sw_fs w p))"
proof -
  from assms(2) consider "w' = w" | err' where
      "switch_to_overlay e i (layer_file e i) (staging_file e i) w = (Inl err', w')"
    | "switch_to_overlay e i (layer_file e i) (staging_file e i) w = (Inr (), w')"
    unfolding create_snapshot_def layer_file_def staging_file_def Let_def
    by (auto split: sum.splits option.splits prod.splits)
  then show ?thesis
  proof cases
    case 1
    then show ?thesis by simp
  next
    case 2
    then show ?thesis using switch_to_overlay_fail[OF assms(1)] by blast
  next
    case 3
    then have "se_backend_snapshot e = None \<and> sw_table w' = sw_table w"
      by (auto simp: switch_to_overlay_def Let_def rename_file_iff split: sum.splits option.splits)
    then show ?thesis by simp
  qed
qed

text \<open>C35. After the hypervisor switched to the staging overlay, a failing first rename makes the
  clean-up delete the very file the running VM writes to.\<close>

theorem create_failure_unlinks_vm_disk:
  assumes "qemu_laws (se_tool e)" and "create_snapshot e i tag desc w = (Inl (IoErr (si_disk i) m), w')"
    and "se_io e (IoRemove (staging_file e i)) = None"
    and "si_disk i \<noteq> snapshots_dir (si_dir i)" and "si_disk i \<noteq> staging_file e i"
  shows "sw_vm w' = VmUnlinked \<and> sw_fs w' (staging_file e i) = None"
proof -
  have guard: "create_guards e i tag w \<noteq> Inl (IoErr x y)" for x y
    by (auto simp: create_guards_def rbind_eq_Inl with_running_instance_def db_def check_snapshot_limit_def Let_def
        split: option.splits if_splits)
  from assms(2) guard assms(4) have sw: "switch_to_overlay e i (layer_file e i) (staging_file e i) w = (Inl (IoErr (si_disk i) m), w')"
    unfolding create_snapshot_def layer_file_def staging_file_def Let_def
    by (auto simp: db_def split: sum.splits option.splits prod.splits)
  let ?s = "staging_file e i"
  from sw assms(5) obtain fs1 fs2 where
      c: "qcow2_create (se_tool e) ?s (disk_virtual_size e i w) (sw_fs w) = Inr fs1"
    and r: "rebase_unchanged (se_tool e) ?s (layer_file e i) fs1 = Inr fs2"
    and w': "w' = try_step (remove_file e ?s) (w\<lparr>sw_fs := fs2, sw_vm := VmFile ?s\<rparr>)"
    by (auto simp: switch_to_overlay_def Let_def split: sum.splits option.splits)
  obtain im where "fs2 = fs1(?s := Some im)" using qemu_rebase[OF assms(1) r] by blast
  then have "fs2 ?s \<noteq> None" by simp
  then have "remove_file e ?s (w\<lparr>sw_fs := fs2, sw_vm := VmFile ?s\<rparr>) =
      Inr (w\<lparr>sw_fs := fs2(?s := None), sw_vm := VmUnlinked\<rparr>)"
    using assms(3) by (simp add: remove_file_iff unlinked_def)
  then show ?thesis by (simp add: w' try_step_def)
qed

section \<open>Examples\<close>


theorem create_snapshot_failure_witness:
  "sw_table (snd (create_snapshot (demo_env ''A'' ''t1'') (demo_instance Stopped) ''a'' None demo_world)) = []"
proof -
  have "create_snapshot (demo_env ''A'' ''t1'') (demo_instance Stopped) ''a'' None demo_world =
      (Inl (SnapErr (SnapshotOperationRequiresRunningInstance (replicate 32 1) Stopped)), demo_world)" (is "?c = _")
    by (simp add: create_snapshot_def create_guards_def with_running_instance_def rbind_def)
  note c = this
  show ?thesis using create_snapshot_failure[OF _ c] by (simp add: ref_tool_laws c demo_world_sel)
qed

definition failing_rename_env :: snap_env where
  "failing_rename_env = (demo_env ''A'' ''t1'')
     \<lparr>se_io := (\<lambda>s. if s = IoRename ''/i/disk.qcow2'' ''/i/disk.snapshots/A.qcow2'' then Some ''EIO'' else None)\<rparr>"

theorem create_failure_unlinks_vm_disk_witness:
  "sw_vm (snd (create_snapshot failing_rename_env (demo_instance Running) ''a'' None demo_world)) = VmUnlinked"
proof -
  have p: "staging_file failing_rename_env (demo_instance Running) = ''/i/disk.snapshots/.tmp-A.qcow2''"
    "path_join (snapshots_dir ''/i'') ''A.qcow2'' = ''/i/disk.snapshots/A.qcow2''"
    "path_join (snapshots_dir ''/i'') ''.tmp-A.qcow2'' = ''/i/disk.snapshots/.tmp-A.qcow2''"
    by (simp_all add: staging_file_def path_eval failing_rename_env_def)
  have g: "create_guards failing_rename_env (demo_instance Running) ''a'' demo_world = Inr ()"
    by (simp add: create_guards_def with_running_instance_def check_snapshot_limit_def failing_rename_env_def db_def
        MAX_SNAPSHOTS_PER_INSTANCE_def rbind_def demo_world_sel get_snapshot_def load_snapshots_def Let_def)
  have "fst (create_snapshot failing_rename_env (demo_instance Running) ''a'' None demo_world) = Inl (IoErr ''/i/disk.qcow2'' ''EIO'')"
    unfolding create_snapshot_def g
    by (simp add: p failing_rename_env_def switch_to_overlay_def ref_create ref_rebase rename_file_def fs_rename_def rbind_def Let_def)
  then have "create_snapshot failing_rename_env (demo_instance Running) ''a'' None demo_world =
      (Inl (IoErr (si_disk (demo_instance Running)) ''EIO''), snd (create_snapshot failing_rename_env (demo_instance Running) ''a'' None demo_world))"
    by (metis demo_instance_sel(4) prod.collapse)
  note c = this
  have e: "se_tool failing_rename_env = ref_tool" "se_io failing_rename_env (IoRemove x) = None" for x
    by (simp_all add: failing_rename_env_def)
  show ?thesis
    using create_failure_unlinks_vm_disk[OF _ c, unfolded p e demo_instance_sel(3,4)] by (simp add: ref_tool_laws path_eval)
qed

end
