(* ===== verification/SnapshotDemo.thy ===== *)
theory SnapshotDemo
  imports Snapshots
begin

text \<open>
  The small world of \<open>Snapshots\<close> run through its operations: two snapshots, then each kind of
  restore and a deletion. The examples of the theories that follow start from these runs.
\<close>

lemma demo_after_a_eq:
  "demo_after_a =
      \<lparr>sw_fs = Map.empty(''/i/disk.snapshots/A.qcow2'' \<mapsto> \<lparr>im_size = 64, im_backing = None, im_data = [0 \<mapsto> 7]\<rparr>,
         ''/i/disk.qcow2'' \<mapsto> \<lparr>im_size = 274877906944, im_backing = Some ''/i/disk.snapshots/A.qcow2'', im_data = [0 \<mapsto> 8]\<rparr>),
       sw_table = [demo_row ''A'' ''a'' ''t1'' None], sw_vm = VmFile ''/i/disk.qcow2'', sw_polls = 0\<rparr>"
  by (simp add: demo_after_a_def guest_writes_def demo_a fun_eq_iff)

lemma demo_after_b_eq:
  "demo_after_b =
      \<lparr>sw_fs = Map.empty(''/i/disk.snapshots/A.qcow2'' \<mapsto> \<lparr>im_size = 64, im_backing = None, im_data = [0 \<mapsto> 7]\<rparr>,
         ''/i/disk.snapshots/B.qcow2'' \<mapsto> \<lparr>im_size = 274877906944, im_backing = Some ''/i/disk.snapshots/A.qcow2'', im_data = [0 \<mapsto> 8]\<rparr>,
         ''/i/disk.qcow2'' \<mapsto> \<lparr>im_size = 274877906944, im_backing = Some ''/i/disk.snapshots/B.qcow2'', im_data = [0 \<mapsto> 9]\<rparr>),
       sw_table = [demo_row ''A'' ''a'' ''t1'' None, demo_row ''B'' ''b'' ''t2'' (Some ''A'')], sw_vm = VmFile ''/i/disk.qcow2'', sw_polls = 0\<rparr>"
  unfolding demo_after_b_def
  by (subst demo_create)
    (simp_all add: demo_after_a_eq get_snapshot_def load_snapshots_def main_chain_head_def last_created_def starts_with_def
       on_main_def save_snapshot_def conflicts_def guest_writes_def fun_eq_iff demo_row_def Let_def)

lemma demo_after_b_sel:
  "sw_fs demo_after_b = Map.empty(''/i/disk.snapshots/A.qcow2'' \<mapsto> \<lparr>im_size = 64, im_backing = None, im_data = [0 \<mapsto> 7]\<rparr>,
         ''/i/disk.snapshots/B.qcow2'' \<mapsto> \<lparr>im_size = 274877906944, im_backing = Some ''/i/disk.snapshots/A.qcow2'', im_data = [0 \<mapsto> 8]\<rparr>,
         ''/i/disk.qcow2'' \<mapsto> \<lparr>im_size = 274877906944, im_backing = Some ''/i/disk.snapshots/B.qcow2'', im_data = [0 \<mapsto> 9]\<rparr>)"
  "sw_table demo_after_b = [demo_row ''A'' ''a'' ''t1'' None, demo_row ''B'' ''b'' ''t2'' (Some ''A'')]"
  "sw_vm demo_after_b = VmFile ''/i/disk.qcow2''" "sw_polls demo_after_b = 0"
  by (simp_all add: demo_after_b_eq)

lemma demo_row_sel:
  "ss_id (demo_row u t n p) = u" "ss_instance (demo_row u t n p) = replicate 32 1" "ss_tag (demo_row u t n p) = t"
  "ss_created_at (demo_row u t n p) = n" "ss_parent_id (demo_row u t n p) = p" "ss_branch (demo_row u t n p) = None"
  "ss_layer_path (demo_row u t n p) = Some (''disk.snapshots/'' @ u @ ''.qcow2'')"
  by (simp_all add: demo_row_def)

lemma demo_b_load:
  "load_snapshots (replicate 32 1) [demo_row ''A'' ''a'' ''t1'' None, demo_row ''B'' ''b'' ''t2'' (Some ''A'')]
     = [demo_row ''A'' ''a'' ''t1'' None, demo_row ''B'' ''b'' ''t2'' (Some ''A'')]"
  "get_snapshot (replicate 32 1) ''a'' [demo_row ''A'' ''a'' ''t1'' None, demo_row ''B'' ''b'' ''t2'' (Some ''A'')]
     = Some (demo_row ''A'' ''a'' ''t1'' None)"
  "get_snapshot (replicate 32 1) ''b'' [demo_row ''A'' ''a'' ''t1'' None, demo_row ''B'' ''b'' ''t2'' (Some ''A'')]
     = Some (demo_row ''B'' ''b'' ''t2'' (Some ''A''))"
  by (simp_all add: load_snapshots_def get_snapshot_def demo_row_sel)

lemma demo_b_desc:
  "descendants_in_branch 20 [demo_row ''A'' ''a'' ''t1'' None, demo_row ''B'' ''b'' ''t2'' (Some ''A'')] ''A'' None
     = Some [demo_row ''B'' ''b'' ''t2'' (Some ''A'')]"
  by (simp add: descendants_in_branch_def eval_nat_numeral direct_children_def demo_row_sel)

lemma demo_paths:
  "path_join ''/i'' (''disk.snapshots/'' @ u) = ''/i/disk.snapshots/'' @ u"
  by (simp add: path_eval)

lemma demo_guards:
  "restore_guards (demo_env u n) (demo_instance Stopped) ''a'' b demo_after_b =
     Inr (demo_row ''A'' ''a'' ''t1'' None, ''/i/disk.snapshots/A.qcow2'')"
  by (simp add: restore_guards_def rbind_def demo_b_load demo_row_sel demo_paths[simplified] demo_after_b_sel find_live_clones_def
       Let_def split: bool.split)

lemma demo_steps:
  "poll (demo_env u n) w = (False, w\<lparr>sw_polls := Suc (sw_polls w)\<rparr>)"
  "sw_fs w p = Some im \<Longrightarrow> remove_file (demo_env u n) p w = Inr (w\<lparr>sw_fs := (sw_fs w)(p := None), sw_vm := unlinked p (sw_vm w)\<rparr>)"
  "sw_fs w p = Some im \<Longrightarrow> rename_file (demo_env u n) p q w =
     Inr (w\<lparr>sw_fs := (sw_fs w)(p := None, q := Some im), sw_vm := moved p q (sw_vm w)\<rparr>)"
  by (simp_all add: poll_def remove_file_def fs_remove_def rename_file_def fs_rename_def rbind_def)

lemma demo_discard_run:
  "\<exists>w1. discard_newer_layers (demo_env u n) (demo_instance s) ''A'' [demo_row ''A'' ''a'' ''t1'' None, demo_row ''B'' ''b'' ''t2'' (Some ''A'')]
     demo_after_b = Some (Inr (), w1)"
  unfolding discard_newer_layers_def
  by (simp add: demo_b_desc demo_steps layer_path_of_def demo_row_sel demo_paths[simplified] demo_after_b_sel Let_def)

lemma demo_restore_discard:
  "\<exists>w'. restore_snapshot (demo_env u n) (demo_instance Stopped) ''a'' False op demo_after_b = Some (Inr (), w')"
proof -
  obtain w1 where w1: "discard_newer_layers (demo_env u n) (demo_instance Stopped) ''A''
      [demo_row ''A'' ''a'' ''t1'' None, demo_row ''B'' ''b'' ''t2'' (Some ''A'')] demo_after_b = Some (Inr (), w1)"
    using demo_discard_run by blast
  have "ensure_snapshot_restore_allowed (replicate 32 1) Stopped = Inr ()"
    by (simp add: ensure_snapshot_restore_allowed_def)
  then show ?thesis
    by (simp add: restore_snapshot_def demo_guards restore_run_def demo_b_load demo_after_b_sel(2) demo_row_sel w1
        demo_steps ref_overlay)
qed

lemma demo_branch_run:
  "\<exists>w1. archive_chain_for_restore (demo_env ''C'' ''t3'') (demo_instance s) ''A'' None [demo_row ''A'' ''a'' ''t1'' None, demo_row ''B'' ''b'' ''t2'' (Some ''A'')]
     ''a'' demo_after_b = Some (Inr (), w1)"
  unfolding archive_chain_for_restore_def
  by (simp add: demo_steps on_main_def layer_path_of_def demo_row_sel path_eval demo_after_b_sel Let_def)

lemma demo_restore_branch:
  "\<exists>w'. restore_snapshot (demo_env ''C'' ''t3'') (demo_instance Stopped) ''a'' True op demo_after_b = Some (Inr (), w')"
proof -
  obtain w1 where w1: "archive_chain_for_restore (demo_env ''C'' ''t3'') (demo_instance Stopped) ''A'' None
      [demo_row ''A'' ''a'' ''t1'' None, demo_row ''B'' ''b'' ''t2'' (Some ''A'')] ''a'' demo_after_b = Some (Inr (), w1)"
    using demo_branch_run by blast
  have "ensure_snapshot_restore_allowed (replicate 32 1) Stopped = Inr ()"
    by (simp add: ensure_snapshot_restore_allowed_def)
  then show ?thesis
    by (simp add: restore_snapshot_def demo_guards restore_run_def demo_b_load demo_after_b_sel(2) demo_row_sel w1
        demo_steps ref_overlay)
qed

lemma demo_delete:
  "\<exists>w'. delete_snapshot (demo_env u n) (demo_instance Stopped) ''b'' demo_after_b = Some (Inr (), w')"
proof -
  let ?r = "demo_row ''B'' ''b'' ''t2'' (Some ''A'')"
  have en: "ensure_snapshot_restore_allowed (replicate 32 1) Stopped = Inr ()"
    by (simp add: ensure_snapshot_restore_allowed_def)
  have "delete_guards (demo_env u n) (demo_instance Stopped) ?r ''disk.snapshots/B.qcow2'' demo_after_b =
      Some (Inr (''/i/disk.snapshots/B.qcow2'', ''/i/disk.snapshots/A.qcow2''))"
    by (simp add: delete_guards_def demo_row_sel demo_b_load demo_after_b_sel layer_path_of_def demo_paths[simplified] Let_def)
  moreover have "\<exists>w'. delete_layer (demo_env u n) (demo_instance Stopped) ?r ''/i/disk.snapshots/B.qcow2'' ''/i/disk.snapshots/A.qcow2'' demo_after_b
      = (Inr (), w')"
    unfolding delete_layer_def
    by (simp add: ref_commit resolve_backing_def is_absolute_def starts_with_def demo_after_b_sel demo_b_load direct_children_def demo_row_sel
        rebase_head_def ref_info ref_rebase demo_steps)
  ultimately show ?thesis
    by (auto simp: delete_snapshot_def en rbind_def demo_b_load demo_after_b_sel(2) demo_row_sel)
qed

lemma demo_chain_a: "chain_of (sw_fs demo_after_b) ''/i/disk.snapshots/A.qcow2'' [''/i/disk.snapshots/A.qcow2'']"
  by (rule chain_base, simp add: demo_after_b_sel, simp)

end
