(* ===== verification/SnapshotRestore.thy ===== *)
theory SnapshotRestore
  imports SnapshotDemo
begin

text \<open>
  What \<open>restore_snapshot\<close> achieves: the default restore, which discards the newer layers, and
  the restore with \<open>branch\<close>, which archives the active disk. A run that ends with \<open>Ok\<close> was not
  cancelled on the way.
\<close>

section \<open>Restoring\<close>

lemma poll_unfold:
  "poll e w = (case se_cancel_after e of None \<Rightarrow> False | Some n \<Rightarrow> n \<le> sw_polls w, w\<lparr>sw_polls := Suc (sw_polls w)\<rparr>)"
  by (simp add: poll_def)

definition cancelled :: "snap_env \<Rightarrow> snap_world \<Rightarrow> bool" where
  "cancelled e w \<longleftrightarrow> fst (poll e w)"

lemma cancelled_mono: "cancelled e w \<Longrightarrow> sw_polls w \<le> sw_polls w' \<Longrightarrow> cancelled e w'"
  by (auto simp: cancelled_def poll_def split: option.splits)

lemma poll_cases:
  obtains "poll e w = (True, w\<lparr>sw_polls := Suc (sw_polls w)\<rparr>)" "cancelled e w"
  | "poll e w = (False, w\<lparr>sw_polls := Suc (sw_polls w)\<rparr>)" "\<not> cancelled e w"
  by (cases "fst (poll e w)") (auto simp: poll_def cancelled_def)





lemma restore_guards_ok:
  assumes "restore_guards e i tag branch w = Inr (tgt, tp)"
  shows "get_snapshot (si_id i) tag (sw_table w) = Some tgt
    \<and> (\<exists>rel. ss_layer_path tgt = Some rel \<and> tp = path_join (si_dir i) rel)
    \<and> sw_fs w tp \<noteq> None \<and> find_live_clones i = [] \<and> (branch \<or> ss_branch tgt = None)"
proof -
  from assms obtain r rel where r: "get_snapshot (si_id i) tag (sw_table w) = Some r"
    and rel: "ss_layer_path r = Some rel"
    and rest: "(let target_path = path_join (si_dir i) rel in
     if sw_fs w target_path = None then Inl (SnapErr (SnapshotLayerMissing (si_id i) target_path))
     else if find_live_clones i \<noteq> []
     then Inl (SnapErr (RestoreWouldBreakClones (si_id i) tag (find_live_clones i)))
     else rbind (db e StLoad) (\<lambda>_.
       case (branch, ss_branch r) of
         (False, Some b) \<Rightarrow> Inl (SnapErr (RestoreTargetOnArchivedBranch (si_id i) tag b))
       | _ \<Rightarrow> Inr (r, target_path))) = Inr (tgt, tp)"
    unfolding restore_guards_def rbind_eq_Inr ok_or_eq_Inr by blast
  from rest have "sw_fs w (path_join (si_dir i) rel) \<noteq> None" "find_live_clones i = []"
    by (simp_all add: Let_def split: if_splits)
  with rest have "tgt = r \<and> tp = path_join (si_dir i) rel \<and> (branch \<or> ss_branch r = None)"
    by (cases branch; cases "ss_branch r"; cases "db e StLoad") (simp_all add: Let_def)
  then show ?thesis using r rel \<open>sw_fs w _ \<noteq> None\<close> \<open>find_live_clones i = []\<close> by simp
qed

lemma restore_snapshot_run:
  assumes "restore_snapshot e i tag branch op_id w = Some (Inr (), w')" and "se_store_present e"
    and "get_snapshot (si_id i) tag (sw_table w) = Some target" and "ss_layer_path target = Some rel"
  shows "restore_run e i tag branch target (path_join (si_dir i) rel)
      (load_snapshots (si_id i) (sw_table w)) (disk_virtual_size e i w) op_id w = Some (Inr (), w')
    \<and> sw_fs w (path_join (si_dir i) rel) \<noteq> None
    \<and> si_state i \<noteq> Running \<and> si_state i \<noteq> Paused \<and> find_live_clones i = []
    \<and> (branch \<or> ss_branch target = None)"
proof -
  have st: "si_state i \<noteq> Running \<and> si_state i \<noteq> Paused"
  proof (rule ccontr)
    assume "\<not> (si_state i \<noteq> Running \<and> si_state i \<noteq> Paused)"
    then have "ensure_snapshot_restore_allowed (si_id i) (si_state i) = Inl (LifeErr (InstanceMustBeStopped (si_id i) (si_state i)))"
      by (simp only: ensure_snapshot_restore_allowed_def) simp
    then show False using assms(1) by (simp only: restore_snapshot_def sum.case) simp
  qed
  then have en: "ensure_snapshot_restore_allowed (si_id i) (si_state i) = Inr ()"
    by (simp add: ensure_snapshot_restore_allowed_def)
  obtain tgt tp where g: "restore_guards e i tag branch w = Inr (tgt, tp)"
    and run: "restore_run e i tag branch tgt tp (load_snapshots (si_id i) (sw_table w))
        (disk_virtual_size e i w) op_id w = Some (Inr (), w')"
  proof (cases "restore_guards e i tag branch w")
    case (Inl err)
    then show ?thesis using assms(1,2) en by (simp only: restore_snapshot_def sum.case) simp
  next
    case (Inr r)
    then show ?thesis using assms(1,2) en that
      by (cases r) (simp only: restore_snapshot_def sum.case prod.case not_True_eq_False if_False)
  qed
  note ok = restore_guards_ok[OF g]
  then have "tgt = target" "tp = path_join (si_dir i) rel" using assms(3,4) by auto
  then show ?thesis using ok run st by simp
qed


text \<open>What a restore with \<open>branch\<close> does to the branches: every main-branch record with a layer
  moves to the new branch, the archived disk is recorded there, and the target's own branch
  comes back to main along the target's ancestors.\<close>

definition rebranch :: "instance_id \<Rightarrow> uuid set \<Rightarrow> string option \<Rightarrow> snapshot_table \<Rightarrow> snapshot_table" where
  "rebranch i ids b t = map (\<lambda>r. if ss_instance r = i \<and> ss_id r \<in> ids then r\<lparr>ss_branch := b\<rparr> else r) t"

lemma rebranch_empty [simp]: "rebranch i {} b t = t"
  by (simp add: rebranch_def)

lemma rebranch_insert: "rebranch i ids b (set_snapshot_branch i k b t) = rebranch i (insert k ids) b t"
  by (auto simp: rebranch_def set_snapshot_branch_def)

lemma set_rebranch:
  "set (rebranch i ids b t) = (\<lambda>r. if ss_instance r = i \<and> ss_id r \<in> ids then r\<lparr>ss_branch := b\<rparr> else r) ` set t"
  by (simp add: rebranch_def)

lemma move_to_branch_effect:
  "move_to_branch e i b rs w = (res, w') \<Longrightarrow>
     sw_fs w' = sw_fs w \<and> sw_vm w' = sw_vm w \<and> sw_polls w \<le> sw_polls w'
   \<and> (res = Inr True \<longrightarrow> cancelled e w')
   \<and> (res = Inr False \<longrightarrow> sw_table w' = rebranch (si_id i) (ss_id ` set rs) b (sw_table w))"
proof (induction rs arbitrary: w)
  case (Cons r rs)
  show ?case
  proof (cases rule: poll_cases[of e w])
    case 1
    then have "res = Inr True \<and> w' = w\<lparr>sw_polls := Suc (sw_polls w)\<rparr>" using Cons.prems by auto
    then show ?thesis using 1(2) cancelled_mono[OF 1(2)] by simp
  next
    case 2
    show ?thesis
    proof (cases "db e (StSetBranch (ss_id r))")
      case (Inl err)
      then have "res = Inl err \<and> w' = w\<lparr>sw_polls := Suc (sw_polls w)\<rparr>" using Cons.prems 2 by auto
      then show ?thesis by simp
    next
      case (Inr u)
      then have "move_to_branch e i b rs (w\<lparr>sw_polls := Suc (sw_polls w),
          sw_table := set_snapshot_branch (si_id i) (ss_id r) b (sw_table w)\<rparr>) = (res, w')"
        using Cons.prems 2 by simp
      from Cons.IH[OF this] show ?thesis by (simp add: rebranch_insert)
    qed
  qed
qed auto

lemma switch_back_effect:
  "switch_back e i tb rs w = (res, w') \<Longrightarrow>
     sw_fs w' = sw_fs w \<and> sw_vm w' = sw_vm w \<and> sw_polls w \<le> sw_polls w'
   \<and> (res = Inr () \<longrightarrow> cancelled e w' \<or>
        sw_table w' = rebranch (si_id i) (ss_id ` {r \<in> set rs. ss_branch r = Some tb}) None (sw_table w))"
proof (induction rs arbitrary: w)
  case (Cons r rs)
  show ?case
  proof (cases rule: poll_cases[of e w])
    case 1
    then have "res = Inr () \<and> w' = w\<lparr>sw_polls := Suc (sw_polls w)\<rparr>" using Cons.prems by auto
    then show ?thesis using 1(2) cancelled_mono[OF 1(2)] by simp
  next
    case 2
    show ?thesis
    proof (cases "ss_branch r = Some tb")
      case False
      then have "switch_back e i tb rs (w\<lparr>sw_polls := Suc (sw_polls w)\<rparr>) = (res, w')"
        using Cons.prems 2 by simp
      moreover have "{x \<in> set (r # rs). ss_branch x = Some tb} = {x \<in> set rs. ss_branch x = Some tb}"
        using False by auto
      ultimately show ?thesis using Cons.IH[of "w\<lparr>sw_polls := Suc (sw_polls w)\<rparr>"] by simp
    next
      case True
      show ?thesis
      proof (cases "db e (StSetBranch (ss_id r))")
        case (Inl err)
        then have "res = Inl err \<and> w' = w\<lparr>sw_polls := Suc (sw_polls w)\<rparr>" using Cons.prems 2 True by auto
        then show ?thesis by simp
      next
        case (Inr u)
        then have "switch_back e i tb rs (w\<lparr>sw_polls := Suc (sw_polls w),
            sw_table := set_snapshot_branch (si_id i) (ss_id r) None (sw_table w)\<rparr>) = (res, w')"
          using Cons.prems 2 True by simp
        moreover have "{x \<in> set (r # rs). ss_branch x = Some tb} = insert r {x \<in> set rs. ss_branch x = Some tb}"
          using True by auto
        ultimately show ?thesis
          using Cons.IH[of "w\<lparr>sw_polls := Suc (sw_polls w), sw_table := set_snapshot_branch (si_id i) (ss_id r) None (sw_table w)\<rparr>"]
          by (auto simp: rebranch_insert)
      qed
    qed
  qed
qed simp

definition restore_branch_name :: "snap_env \<Rightarrow> string" where
  "restore_branch_name e = ''branch-'' @ se_branch_stamp e"

text \<open>The table a finished restore with \<open>branch\<close> leaves.\<close>

definition branched_table ::
    "snap_env \<Rightarrow> snap_instance \<Rightarrow> string \<Rightarrow> stored_snapshot list \<Rightarrow> stored_snapshot list \<Rightarrow> string option
       \<Rightarrow> snapshot_table \<Rightarrow> snapshot_table" where
  "branched_table e i tag records as target_branch t =
     rebranch (si_id i) (ss_id ` {r \<in> set as. target_branch \<noteq> None \<and> ss_branch r = target_branch}) None
       (save_snapshot (archived_record e i (restore_branch_name e) tag (map_option ss_id (main_chain_head t (si_id i))))
         (rebranch (si_id i) (ss_id ` set (filter on_main records)) (Some (restore_branch_name e)) t))"

lemma archive_chain_ok:
  assumes "archive_chain_for_restore e i target target_branch records tag w = Some (Inr (), w')"
    and "\<not> cancelled e w'"
  shows "\<exists>im as. sw_fs w (si_disk i) = Some im
    \<and> sw_fs w' = (sw_fs w)(si_disk i := None, layer_file e i := Some im)
    \<and> (target_branch \<noteq> None \<longrightarrow> ancestors (se_fuel e) records target = Some as)
    \<and> sw_table w' = branched_table e i tag records as target_branch (sw_table w)"
proof -
  let ?b = "restore_branch_name e"
  note defs = assms(1)[unfolded archive_chain_for_restore_def Let_def, folded layer_file_def restore_branch_name_def]
  have p1: "poll e w = (False, w\<lparr>sw_polls := Suc (sw_polls w)\<rparr>)"
  proof (cases rule: poll_cases[of e w])
    case 1
    then have "w' = w\<lparr>sw_polls := Suc (sw_polls w)\<rparr>" using defs by simp
    then show ?thesis using cancelled_mono[OF 1(2)] assms(2) by simp
  qed
  obtain w2 where w2: "rename_file e (si_disk i) (layer_file e i) (w\<lparr>sw_polls := Suc (sw_polls w)\<rparr>) = Inr w2"
    and load: "db e StLoad = Inr ()"
    using defs p1 by (cases "db e StLoad"; cases "rename_file e (si_disk i) (layer_file e i) (w\<lparr>sw_polls := Suc (sw_polls w)\<rparr>)") auto
  obtain im where im: "sw_fs w (si_disk i) = Some im"
    and f2: "sw_fs w2 = (sw_fs w)(si_disk i := None, layer_file e i := Some im)" and t2: "sw_table w2 = sw_table w"
    using w2[unfolded rename_file_iff] by (elim conjE exE) simp
  obtain res w3 where m: "move_to_branch e i (Some ?b) (filter on_main records) w2 = (res, w3)" by fastforce
  note me = move_to_branch_effect[OF m]
  have res: "res = Inr False"
  proof (cases res)
    case (Inl err)
    then show ?thesis using defs p1 load w2 m by simp
  next
    case (Inr c)
    show ?thesis
    proof (cases c)
      case True
      then have "w' = w3" using Inr defs p1 load w2 m by simp
      then show ?thesis using me Inr True assms(2) by simp
    next
      case False
      then show ?thesis using Inr by simp
    qed
  qed
  have p3: "poll e w3 = (False, w3\<lparr>sw_polls := Suc (sw_polls w3)\<rparr>)"
  proof (cases rule: poll_cases[of e w3])
    case 1
    then have "w' = w3\<lparr>sw_polls := Suc (sw_polls w3)\<rparr>" using defs p1 load w2 m res by simp
    then show ?thesis using cancelled_mono[OF 1(2)] assms(2) by simp
  qed
  define w5 where "w5 = w3\<lparr>sw_polls := Suc (sw_polls w3),
      sw_table := save_snapshot (archived_record e i ?b tag (map_option ss_id (main_chain_head (sw_table w) (si_id i)))) (sw_table w3)\<rparr>"
  have save: "db e (StSave (se_uuid e)) = Inr ()"
    using defs p1 load w2 m res p3 by (cases "db e (StSave (se_uuid e))") simp_all
  have rest: "(case target_branch of None \<Rightarrow> Some (Inr (), w5)
      | Some tb \<Rightarrow> map_option (\<lambda>as. switch_back e i tb as w5) (ancestors (se_fuel e) records target)) = Some (Inr (), w')"
    using defs p1 load w2 m res p3 save by (simp add: w5_def cong: option.case_cong)
  have f5: "sw_fs w5 = (sw_fs w)(si_disk i := None, layer_file e i := Some im)"
    using me f2 by (simp add: w5_def)
  have t5: "sw_table w5 = save_snapshot (archived_record e i ?b tag (map_option ss_id (main_chain_head (sw_table w) (si_id i))))
      (rebranch (si_id i) (ss_id ` set (filter on_main records)) (Some ?b) (sw_table w))"
    using me res t2 by (simp add: w5_def)
  show ?thesis
  proof (cases target_branch)
    case None
    then have "w' = w5" using rest by simp
    then show ?thesis using None im f5 t5 by (simp add: branched_table_def)
  next
    case (Some tb)
    then obtain as where as: "ancestors (se_fuel e) records target = Some as" "switch_back e i tb as w5 = (Inr (), w')"
      using rest by auto
    then show ?thesis using Some im f5 t5 switch_back_effect[OF as(2)] assms(2)
      by (auto simp: branched_table_def)
  qed
qed

lemma restore_run_branch:
  assumes "restore_run e i tag True target tp records vsize op_id w = Some (Inr (), w')"
  shows "\<exists>w1 fs. archive_chain_for_restore e i (ss_id target) (ss_branch target) records tag w = Some (Inr (), w1)
    \<and> \<not> cancelled e w1 \<and> create_overlay (se_tool e) (si_disk i) tp vsize (sw_fs w1) = Inr fs
    \<and> w' = w1\<lparr>sw_polls := Suc (sw_polls w1), sw_fs := fs\<rparr>"
proof -
  from assms obtain w1 where a: "archive_chain_for_restore e i (ss_id target) (ss_branch target) records tag w = Some (Inr (), w1)"
    by (cases "archive_chain_for_restore e i (ss_id target) (ss_branch target) records tag w")
       (auto simp: restore_run_def split: sum.splits prod.splits)
  have p1: "poll e w1 = (False, w1\<lparr>sw_polls := Suc (sw_polls w1)\<rparr>) \<and> \<not> cancelled e w1"
    by (cases rule: poll_cases[of e w1]) (use assms a in \<open>simp_all add: restore_run_def\<close>)
  then show ?thesis using a assms
    by (cases "create_overlay (se_tool e) (si_disk i) tp vsize (sw_fs w1)") (simp_all add: restore_run_def)
qed


text \<open>A restore with \<open>branch\<close> to a snapshot of the main branch leaves no layer record on the
  main branch, though the new active disk is an overlay on the target: the next snapshot is
  stored without a parent.\<close>

theorem restore_branch_empties_main:
  assumes "qemu_laws (se_tool e)" and "restore_snapshot e i tag True op_id w = Some (Inr (), w')"
    and "se_store_present e"
    and "get_snapshot (si_id i) tag (sw_table w) = Some target" and "ss_layer_path target = Some rel"
    and "ss_branch target = None"
  shows "main_chain_head (sw_table w') (si_id i) = None"
proof -
  let ?tp = "path_join (si_dir i) rel" and ?rs = "load_snapshots (si_id i) (sw_table w)"
  have run: "restore_run e i tag True target ?tp ?rs (disk_virtual_size e i w) op_id w = Some (Inr (), w')"
    using restore_snapshot_run[OF assms(2-5)] by simp
  obtain w1 fs where a: "archive_chain_for_restore e i (ss_id target) (ss_branch target) ?rs tag w = Some (Inr (), w1)"
    and nc: "\<not> cancelled e w1" and w': "w' = w1\<lparr>sw_polls := Suc (sw_polls w1), sw_fs := fs\<rparr>"
    using restore_run_branch[OF run] by (elim exE conjE) (rule that)
  then have t': "sw_table w' = sw_table w1" by simp
  obtain as where "sw_table w1 = branched_table e i tag ?rs as None (sw_table w)"
    using archive_chain_ok[OF a nc, unfolded assms(6)] by (elim exE conjE) (rule that)
  then have "\<not> on_main r" if "r \<in> set (load_snapshots (si_id i) (sw_table w'))" for r
    using that t' by (auto simp: branched_table_def save_snapshot_def set_rebranch archived_record_def on_main_def
        split: if_splits)
  then have "filter on_main (load_snapshots (si_id i) (sw_table w')) = []" by (simp add: filter_empty_conv)
  then show ?thesis by (simp add: main_chain_head_def last_created_def)
qed

section \<open>Examples\<close>




theorem restore_branch_empties_main_witness:
  "\<exists>w'. restore_snapshot (demo_env ''C'' ''t3'') (demo_instance Stopped) ''a'' True ''op'' demo_after_b = Some (Inr (), w')
    \<and> main_chain_head (sw_table w') (replicate 32 1) = None"
proof -
  obtain w' where w': "restore_snapshot (demo_env ''C'' ''t3'') (demo_instance Stopped) ''a'' True ''op'' demo_after_b = Some (Inr (), w')"
    using demo_restore_branch by blast
  have "main_chain_head (sw_table w') (replicate 32 1) = None"
    using restore_branch_empties_main[OF _ w', where target = "demo_row ''A'' ''a'' ''t1'' None" and rel = "''disk.snapshots/A.qcow2''"]
    by (simp add: ref_tool_laws demo_after_b_sel demo_b_load demo_row_sel)
  then show ?thesis using w' by auto
qed

end
