(* ===== verification/SnapshotDelete.thy ===== *)
theory SnapshotDelete
  imports SnapshotDemo
begin

text \<open>
  What \<open>delete_snapshot\<close> does to the backing chain, to the layers around the deleted one and
  to the records.
\<close>

section \<open>Deleting\<close>

definition rebacked :: "string \<Rightarrow> string set \<Rightarrow> filesystem \<Rightarrow> filesystem" where
  "rebacked b X fs = (\<lambda>p. if p \<in> X then map_option (\<lambda>im. im\<lparr>im_backing := Some b\<rparr>) (fs p) else fs p)"

lemma rebacked_empty [simp]: "rebacked b {} fs = fs"
  by (simp add: rebacked_def)

lemma rebacked_compose: "rebacked b X (rebacked b Y fs) = rebacked b (X \<union> Y) fs"
  by (rule ext) (simp add: rebacked_def option.map_comp o_def)

lemma qemu_info:
  "qemu_laws t \<Longrightarrow> fs p = Some im \<Longrightarrow> \<exists>i. qt_info t p fs = Inr i \<and> di_backing_file i = im_backing im"
  unfolding qemu_laws_def by meson

lemma rebase_rebacked:
  assumes "qemu_laws t" "rebase_unchanged t p b fs = Inr fs'"
  shows "fs' = rebacked b {p} fs"
proof -
  obtain im where "fs p = Some im" "fs' = fs(p := Some (im\<lparr>im_backing := Some b\<rparr>))"
    using qemu_rebase[OF assms] .
  then show ?thesis by (auto simp: rebacked_def)
qed

lemma rebase_children_ok:
  assumes "qemu_laws (se_tool e)"
  shows "rebase_children e i b cs fs = (Inr (), fs') \<Longrightarrow> fs' = rebacked b (layer_path_of i ` set cs) fs"
proof (induction cs arbitrary: fs)
  case (Cons c cs)
  then obtain fs1 where r: "rebase_unchanged (se_tool e) (layer_path_of i c) b fs = Inr fs1"
    and rest: "rebase_children e i b cs fs1 = (Inr (), fs')"
    by (cases "rebase_unchanged (se_tool e) (layer_path_of i c) b fs") (simp_all add: Let_def)
  show ?case using Cons.IH[OF rest] rebase_rebacked[OF assms r] by (simp add: rebacked_compose)
qed simp

lemma rebase_head_ok:
  assumes "qemu_laws (se_tool e)" "rebase_head e i tp b fs = (Inr (), fs')" "fs (si_disk i) = Some im"
  shows "fs' = rebacked b (if im_backing im = Some tp then {si_disk i} else {}) fs"
proof -
  obtain info where info: "qt_info (se_tool e) (si_disk i) fs = Inr info" "di_backing_file info = im_backing im"
    using qemu_info[of "se_tool e" fs "si_disk i" im] assms(1,3) by blast
  show ?thesis
  proof (cases "im_backing im = Some tp")
    case True
    then obtain fs1 where r: "rebase_unchanged (se_tool e) (si_disk i) b fs = Inr fs1" "fs' = fs1"
      using assms(2) info by (cases "rebase_unchanged (se_tool e) (si_disk i) b fs") (simp_all add: rebase_head_def)
    then show ?thesis using True rebase_rebacked[OF assms(1) r(1)] by simp
  next
    case False
    then show ?thesis using assms(2) info by (simp add: rebase_head_def)
  qed
qed

lemma chain_splice:
  "chain_of fs d (qs @ tp # pp # ps) \<Longrightarrow> qs \<noteq> [] \<Longrightarrow> is_absolute pp \<Longrightarrow>
     (\<And>q. q \<in> set (butlast qs) \<Longrightarrow> fs' q = fs q) \<Longrightarrow>
     fs' (last qs) = map_option (\<lambda>im. im\<lparr>im_backing := Some pp\<rparr>) (fs (last qs)) \<Longrightarrow>
     chain_of fs' pp (pp # ps) \<Longrightarrow> chain_of fs' d (qs @ pp # ps)"
proof (induction qs arbitrary: d)
  case (Cons q qs)
  from Cons.prems(1) obtain im b where q: "d = q" "fs q = Some im" "im_backing im = Some b"
    "chain_of fs (resolve_backing q b) (qs @ tp # pp # ps)"
    by (cases rule: chain_of.cases) (simp_all add: Cons_eq_append_conv)
  show ?case
  proof (cases "qs = []")
    case True
    then show ?thesis using q Cons.prems(3,5,6)
      by (auto intro!: chain_link[of fs' q "im\<lparr>im_backing := Some pp\<rparr>" pp])
  next
    case False
    then have "chain_of fs' (resolve_backing q b) (qs @ pp # ps)"
      using Cons.IH[OF q(4) False Cons.prems(3)] Cons.prems(4,5,6) by simp
    moreover have "fs' q = Some im" using Cons.prems(4)[of q] False q by simp
    ultimately show ?thesis using q(1,3) by (auto intro: chain_link)
  qed
qed simp

lemma layered_append_cong:
  "layered fs' xs = layered fs ys \<Longrightarrow>
     (\<And>q. q \<in> set qs \<Longrightarrow> map_option im_data (fs' q) = map_option im_data (fs q)) \<Longrightarrow>
     layered fs' (qs @ xs) = layered fs (qs @ ys)"
proof (induction qs)
  case (Cons q qs)
  then have "layered fs' (qs @ xs) = layered fs (qs @ ys)" by simp
  moreover have "map_option im_data (fs' q) = map_option im_data (fs q)" using Cons.prems by simp
  then have "(case fs' q of Some im \<Rightarrow> im_data im | None \<Rightarrow> Map.empty) = (case fs q of Some im \<Rightarrow> im_data im | None \<Rightarrow> Map.empty)"
    by (cases "fs' q"; cases "fs q") simp_all
  ultimately show ?case by simp
qed simp

definition child_layers :: "snap_instance \<Rightarrow> stored_snapshot \<Rightarrow> snapshot_table \<Rightarrow> string set" where
  "child_layers i target t = layer_path_of i ` set (direct_children (load_snapshots (si_id i) t) (ss_id target))"

text \<open>The files after a deletion: the layer's data is merged into its parent, the children (and the
  active disk, when it stands on the layer) are moved onto the parent, the layer is gone.\<close>

definition deleted_files ::
    "snap_instance \<Rightarrow> stored_snapshot \<Rightarrow> string \<Rightarrow> string \<Rightarrow> snap_world \<Rightarrow> filesystem" where
  "deleted_files i target tp pp w =
     (rebacked pp (child_layers i target (sw_table w) \<union>
         (if map_option im_backing (sw_fs w (si_disk i)) = Some (Some tp) then {si_disk i} else {}))
       ((sw_fs w)(pp := Some ((the (sw_fs w pp))\<lparr>im_data := im_data (the (sw_fs w pp)) ++ im_data (the (sw_fs w tp))\<rparr>))))(tp := None)"

lemma delete_layer_ok:
  assumes "qemu_laws (se_tool e)" "delete_layer e i target tp pp w = (Inr (), w')"
    and "sw_fs w tp = Some tim" "im_backing tim = Some b" "resolve_backing tp b = pp"
    and "sw_fs w (si_disk i) = Some dim" "si_disk i \<notin> child_layers i target (sw_table w)"
    and "si_disk i \<noteq> tp" "si_disk i \<noteq> pp"
  shows "sw_fs w' = deleted_files i target tp pp w
    \<and> sw_table w' = delete_snapshot_by_id (si_id i) (ss_id target) (sw_table w)"
proof -
  note t = assms(1)
  obtain fs1 where c: "commit_layer (se_tool e) tp (sw_fs w) = Inr fs1"
    using assms(2) by (cases "commit_layer (se_tool e) tp (sw_fs w)") (simp_all add: delete_layer_def)
  obtain pim where pim: "sw_fs w pp = Some pim" and ne: "pp \<noteq> tp"
    and fs1: "fs1 = (sw_fs w)(pp := Some (pim\<lparr>im_data := im_data pim ++ im_data tim\<rparr>), tp := Some (tim\<lparr>im_data := Map.empty\<rparr>))"
    using qemu_commit[OF t c] assms(3-5) by (metis option.inject)
  let ?cs = "direct_children (load_snapshots (si_id i) (sw_table w)) (ss_id target)"
  obtain fs2 where r: "rebase_children e i pp ?cs fs1 = (Inr (), fs2)"
    using assms(2) c by (cases "rebase_children e i pp ?cs fs1"; cases "fst (rebase_children e i pp ?cs fs1)")
      (simp_all add: delete_layer_def)
  have fs2: "fs2 = rebacked pp (child_layers i target (sw_table w)) fs1"
    using rebase_children_ok[OF t r] by (simp add: child_layers_def)
  then have dim: "fs2 (si_disk i) = Some dim" using assms(6-9) by (simp add: rebacked_def fs1)
  obtain fs3 where h: "rebase_head e i tp pp fs2 = (Inr (), fs3)"
    using assms(2) c r by (cases "rebase_head e i tp pp fs2"; cases "fst (rebase_head e i tp pp fs2)")
      (simp_all add: delete_layer_def)
  have fs3: "fs3 = rebacked pp (child_layers i target (sw_table w) \<union>
      (if im_backing dim = Some tp then {si_disk i} else {})) fs1"
    using rebase_head_ok[OF t h dim] by (simp add: fs2 rebacked_compose Un_commute)
  obtain w4 where rm: "remove_file e tp (w\<lparr>sw_fs := fs3\<rparr>) = Inr w4" and del: "db e (StDelete (ss_id target)) = Inr ()"
    and w': "w' = w4\<lparr>sw_table := delete_snapshot_by_id (si_id i) (ss_id target) (sw_table w4)\<rparr>"
    using assms(2) c r h by (cases "remove_file e tp (w\<lparr>sw_fs := fs3\<rparr>)"; cases "db e (StDelete (ss_id target))")
      (simp_all add: delete_layer_def)
  have f4: "sw_fs w4 = fs3(tp := None)" and t4: "sw_table w4 = sw_table w"
    using rm[unfolded remove_file_iff] by (elim conjE; simp)+
  have "fs3(tp := None) = deleted_files i target tp pp w"
    using pim ne assms(3,6) by (auto simp: deleted_files_def fs3 fs1 rebacked_def)
  then show ?thesis by (simp add: w' f4 t4)
qed


lemma allowed_ok:
  "(case ensure_snapshot_restore_allowed j s of Inl err \<Rightarrow> Some (Inl err, w) | Inr _ \<Rightarrow> X) = Some (Inr (), w')
     \<Longrightarrow> ensure_snapshot_restore_allowed j s = Inr ()"
  by (cases "ensure_snapshot_restore_allowed j s") simp_all

lemma delete_snapshot_run:
  assumes "delete_snapshot e i tag w = Some (Inr (), w')" and "se_store_present e"
    and "get_snapshot (si_id i) tag (sw_table w) = Some target" and "ss_layer_path target = Some rel"
  obtains p parent where "ss_parent_id target = Some p"
    "List.find (\<lambda>r. ss_id r = p) (load_snapshots (si_id i) (sw_table w)) = Some parent"
    "find_chain_consumers e (sw_fs w) (si_id i) (path_join (si_dir i) rel) (si_others i) = Some []"
    "sw_fs w (layer_path_of i parent) \<noteq> None"
    "delete_layer e i target (path_join (si_dir i) rel) (layer_path_of i parent) w = (Inr (), w')"
proof -
  have en: "ensure_snapshot_restore_allowed (si_id i) (si_state i) = Inr ()"
    by (rule allowed_ok[OF assms(1)[unfolded delete_snapshot_def]])
  have g: "rbind (db e (StGet tag)) (\<lambda>_. ok_or (SnapErr (SnapshotNotFound (si_id i) tag)) (get_snapshot (si_id i) tag (sw_table w))) = Inr target"
    using assms(1-3) en by (cases "db e (StGet tag)") (simp_all add: delete_snapshot_def rbind_def)
  from assms(1) have d: "(case delete_guards e i target rel w of None \<Rightarrow> None
      | Some (Inl err) \<Rightarrow> Some (Inl err, w)
      | Some (Inr (tp, pp)) \<Rightarrow> Some (delete_layer e i target tp pp w)) = Some (Inr (), w')"
    by (simp only: delete_snapshot_def en g sum.case assms(2,4) option.case if_False not_True_eq_False)
  obtain tp pp where gd: "delete_guards e i target rel w = Some (Inr (tp, pp))"
    using d by (cases "delete_guards e i target rel w"; cases "the (delete_guards e i target rel w)") auto
  then obtain p where p: "ss_parent_id target = Some p"
    by (cases "ss_parent_id target") (simp_all add: delete_guards_def Let_def split: if_splits)
  then obtain parent where f: "List.find (\<lambda>r. ss_id r = p) (load_snapshots (si_id i) (sw_table w)) = Some parent"
    using gd by (cases "List.find (\<lambda>r. ss_id r = p) (load_snapshots (si_id i) (sw_table w))"; cases "db e StLoad")
      (simp_all add: delete_guards_def Let_def split: if_splits)
  then have c: "find_chain_consumers e (sw_fs w) (si_id i) (path_join (si_dir i) rel) (si_others i) = Some []
      \<and> tp = path_join (si_dir i) rel \<and> pp = layer_path_of i parent \<and> sw_fs w (layer_path_of i parent) \<noteq> None"
    using gd p by (cases "find_chain_consumers e (sw_fs w) (si_id i) (path_join (si_dir i) rel) (si_others i)"; cases "db e StLoad")
      (simp_all add: delete_guards_def Let_def split: if_splits list.splits)
  then show thesis using that p f d gd by simp
qed

lemma chain_of_drop: "chain_of fs d (qs @ q # ps) \<Longrightarrow> chain_of fs q (q # ps)"
proof (induction qs arbitrary: d)
  case Nil
  then show ?case using chain_of_hd by fastforce
next
  case (Cons x qs)
  from Cons.prems obtain b where "chain_of fs (resolve_backing x b) (qs @ q # ps)"
    by (cases rule: chain_of.cases) auto
  then show ?case by (rule Cons.IH)
qed

lemma chain_of_next:
  assumes "chain_of fs p (p # q # ps)"
  obtains im b where "fs p = Some im" "im_backing im = Some b" "resolve_backing p b = q"
  using assms that by (cases rule: chain_of.cases) (auto dest: chain_of_hd)

text \<open>C17. Deleting a snapshot's layer out of the middle of the active chain does not change what
  the guest reads: its data is merged into the parent layer, the layers that stood on it move to
  the parent, its file and its record are gone. But the parent's own layer, which is the parent
  snapshot's content, now reads what the deleted snapshot read.\<close>

theorem delete_snapshot_effect:
  assumes "qemu_laws (se_tool e)" and "delete_snapshot e i tag w = Some (Inr (), w')" and "se_store_present e"
    and "get_snapshot (si_id i) tag (sw_table w) = Some target" and "ss_layer_path target = Some rel"
    and "tp = path_join (si_dir i) rel" and "is_absolute tp" and "is_absolute pp"
    and "chain_of (sw_fs w) (si_disk i) (qs @ tp # pp # ps)" and "qs \<noteq> []"
    and "si_disk i \<notin> child_layers i target (sw_table w)"
    and "child_layers i target (sw_table w) \<inter> set (butlast qs @ tp # pp # ps) = {}"
    and "last qs \<in> child_layers i target (sw_table w) \<or>
      qs = [si_disk i] \<and> map_option im_backing (sw_fs w (si_disk i)) = Some (Some tp)"
    and "\<forall>p parent. ss_parent_id target = Some p \<longrightarrow>
      List.find (\<lambda>r. ss_id r = p) (load_snapshots (si_id i) (sw_table w)) = Some parent \<longrightarrow> layer_path_of i parent = pp"
  shows "chain_of (sw_fs w') (si_disk i) (qs @ pp # ps)
    \<and> layered (sw_fs w') (qs @ pp # ps) = layered (sw_fs w) (qs @ tp # pp # ps)
    \<and> layered (sw_fs w') (pp # ps) = layered (sw_fs w) (tp # pp # ps)
    \<and> sw_fs w' tp = None
    \<and> sw_table w' = delete_snapshot_by_id (si_id i) (ss_id target) (sw_table w)"
proof -
  let ?d = "si_disk i" and ?K = "child_layers i target (sw_table w)"
  note ch = assms(9)
  obtain p parent where "ss_parent_id target = Some p"
    "List.find (\<lambda>r. ss_id r = p) (load_snapshots (si_id i) (sw_table w)) = Some parent"
    and dl: "delete_layer e i target tp (layer_path_of i parent) w = (Inr (), w')"
    by (rule delete_snapshot_run[OF assms(2-5), folded assms(6)]) (rule that)
  then have dl: "delete_layer e i target tp pp w = (Inr (), w')" using assms(14) by simp
  have dist: "distinct (qs @ tp # pp # ps)" by (rule chain_of_distinct[OF ch])
  have chp: "chain_of (sw_fs w) pp (pp # ps)" using chain_of_drop[of _ _ "qs @ [tp]"] ch by simp
  obtain tim b where tim: "sw_fs w tp = Some tim" "im_backing tim = Some b" "resolve_backing tp b = pp"
    using chain_of_next[OF chain_of_drop[OF ch]] .
  obtain pim where pim: "sw_fs w pp = Some pim" using chain_of_files[OF chp, of pp] by auto
  have hd: "hd qs = ?d" using chain_of_hd[OF ch] assms(10) by (cases qs) auto
  then have d: "?d \<in> set qs" using assms(10) by (metis hd_in_set)
  then obtain dim where dim: "sw_fs w ?d = Some dim" using chain_of_files[OF ch, of ?d] by auto
  have "?d \<noteq> tp" "?d \<noteq> pp" using d dist by auto
  note ok = delete_layer_ok[OF assms(1) dl tim dim assms(11) this]
  have f: "sw_fs w' = deleted_files i target tp pp w" and t: "sw_table w' = delete_snapshot_by_id (si_id i) (ss_id target) (sw_table w)"
    using ok by simp_all
  define X where "X = ?K \<union> (if map_option im_backing (sw_fs w ?d) = Some (Some tp) then {?d} else {})"
  define g where "g = (sw_fs w)(pp := Some (pim\<lparr>im_data := im_data pim ++ im_data tim\<rparr>))"
  have f: "sw_fs w' = (rebacked pp X g)(tp := None)"
    using f pim tim by (simp add: deleted_files_def X_def g_def)
  have butl: "qs = butlast qs @ [last qs]" using assms(10) by simp
  have single: "qs = [?d]" if "map_option im_backing (sw_fs w ?d) = Some (Some tp)"
  proof -
    obtain qs' where qs': "qs = ?d # qs'" using hd assms(10) by (cases qs) auto
    have "chain_of (sw_fs w) tp (qs' @ tp # pp # ps)"
      using ch that assms(7) by (cases rule: chain_of.cases) (auto simp: qs' dim)
    then have "qs' @ tp # pp # ps = tp # pp # ps" using chain_of_det chain_of_drop[OF ch] by blast
    then show ?thesis by (simp add: qs')
  qed
  have X1: "last qs \<in> X" using assms(13) by (auto simp: X_def)
  have X2: "q \<notin> X" if "q \<in> set (qs @ tp # pp # ps)" "q \<noteq> last qs" for q
  proof -
    have "set qs = set (butlast qs @ [last qs])" using butl by simp
    then have "q \<in> set (butlast qs @ tp # pp # ps)" using that by auto
    then have "q \<notin> ?K" using assms(12) by blast
    moreover have "q \<noteq> ?d" if "map_option im_backing (sw_fs w ?d) = Some (Some tp)"
      using single[OF that] \<open>q \<noteq> last qs\<close> by simp
    ultimately show ?thesis by (simp add: X_def)
  qed
  have lq: "last qs \<in> set qs" using assms(10) by simp
  have ne: "last qs \<noteq> tp" "last qs \<noteq> pp" "tp \<noteq> pp" "tp \<notin> set ps" "pp \<notin> set ps" "tp \<notin> set qs" "pp \<notin> set qs"
      "last qs \<notin> set ps" "last qs \<notin> set (butlast qs)"
    using lq dist butl distinct_append[of "butlast qs" "[last qs]"] by auto
  have at: "sw_fs w' q = sw_fs w q" if "q \<in> set (qs @ ps)" "q \<noteq> last qs" for q
    using that ne X2[of q] by (auto simp: f rebacked_def g_def)
  have last: "sw_fs w' (last qs) = map_option (\<lambda>im. im\<lparr>im_backing := Some pp\<rparr>) (sw_fs w (last qs))"
    using X1 ne by (simp add: f rebacked_def g_def)
  have top: "sw_fs w' pp = Some (pim\<lparr>im_data := im_data pim ++ im_data tim\<rparr>)"
    using X2[of pp] ne by (simp add: f rebacked_def g_def)
  have ps: "sw_fs w' q = sw_fs w q" if "q \<in> set ps" for q using that at[of q] ne by auto
  have chp': "chain_of (sw_fs w') pp (pp # ps)"
    by (rule chain_of_cong[OF chp]) (use ps top pim in auto)
  have lay: "layered (sw_fs w') (pp # ps) = layered (sw_fs w) (tp # pp # ps)"
    using layered_cong[of ps "sw_fs w'" "sw_fs w"] ps top pim tim by simp
  have "chain_of (sw_fs w') ?d (qs @ pp # ps)"
  proof (rule chain_splice[OF ch assms(10,8) _ last chp'])
    fix q assume "q \<in> set (butlast qs)"
    then show "sw_fs w' q = sw_fs w q" using at[of q] ne in_set_butlastD[of q qs] by auto
  qed
  moreover have "layered (sw_fs w') (qs @ pp # ps) = layered (sw_fs w) (qs @ tp # pp # ps)"
  proof (rule layered_append_cong[OF lay])
    fix q assume "q \<in> set qs"
    then show "map_option im_data (sw_fs w' q) = map_option im_data (sw_fs w q)"
      using at[of q] last by (cases "q = last qs") (simp_all add: option.map_comp o_def)
  qed
  moreover have "sw_fs w' tp = None" by (simp add: f)
  ultimately show ?thesis using lay t by simp
qed

section \<open>Examples\<close>

theorem delete_snapshot_effect_witness:
  "\<exists>w'. delete_snapshot (demo_env ''C'' ''t3'') (demo_instance Stopped) ''b'' demo_after_b = Some (Inr (), w')
    \<and> layered (sw_fs w') [''/i/disk.qcow2'', ''/i/disk.snapshots/A.qcow2''] 0 = Some 9
    \<and> layered (sw_fs w') [''/i/disk.snapshots/A.qcow2''] 0 = Some 8
    \<and> layered (sw_fs demo_after_b) [''/i/disk.snapshots/A.qcow2''] 0 = Some 7"
proof -
  obtain w' where w': "delete_snapshot (demo_env ''C'' ''t3'') (demo_instance Stopped) ''b'' demo_after_b = Some (Inr (), w')"
    using demo_delete by blast
  have r: "resolve_backing p ''/i/disk.snapshots/A.qcow2'' = ''/i/disk.snapshots/A.qcow2''"
    "resolve_backing p ''/i/disk.snapshots/B.qcow2'' = ''/i/disk.snapshots/B.qcow2''" for p
    by (simp_all add: resolve_backing_def is_absolute_def starts_with_def)
  have "chain_of (sw_fs demo_after_b) ''/i/disk.snapshots/B.qcow2'' [''/i/disk.snapshots/B.qcow2'', ''/i/disk.snapshots/A.qcow2'']"
    by (rule chain_link[where b = "''/i/disk.snapshots/A.qcow2''"], simp add: demo_after_b_sel, simp, simp only: r demo_chain_a)
  then have c: "chain_of (sw_fs demo_after_b) ''/i/disk.qcow2'' ([''/i/disk.qcow2''] @ ''/i/disk.snapshots/B.qcow2'' # ''/i/disk.snapshots/A.qcow2'' # [])"
    unfolding append.simps
    by (intro chain_link[where b = "''/i/disk.snapshots/B.qcow2''"], simp add: demo_after_b_sel, simp, simp only: r)
  have k: "child_layers (demo_instance Stopped) (demo_row ''B'' ''b'' ''t2'' (Some ''A'')) (sw_table demo_after_b) = {}"
    by (simp add: child_layers_def direct_children_def demo_after_b_sel demo_b_load demo_row_sel)
  have "layered (sw_fs w') [''/i/disk.qcow2'', ''/i/disk.snapshots/A.qcow2''] =
        layered (sw_fs demo_after_b) [''/i/disk.qcow2'', ''/i/disk.snapshots/B.qcow2'', ''/i/disk.snapshots/A.qcow2'']
     \<and> layered (sw_fs w') [''/i/disk.snapshots/A.qcow2''] = layered (sw_fs demo_after_b) [''/i/disk.snapshots/B.qcow2'', ''/i/disk.snapshots/A.qcow2'']"
    using delete_snapshot_effect[OF _ w', where target = "demo_row ''B'' ''b'' ''t2'' (Some ''A'')" and rel = "''disk.snapshots/B.qcow2''"
        and tp = "''/i/disk.snapshots/B.qcow2''" and pp = "''/i/disk.snapshots/A.qcow2''" and qs = "[''/i/disk.qcow2'']" and ps = "[]",
        unfolded k demo_row_sel] c
    by (simp add: ref_tool_laws demo_after_b_sel demo_b_load demo_row_sel path_eval del: layered_simps)
  then show ?thesis using w' by (auto simp: demo_after_b_sel)
qed

end
