(* ===== verification/Supervisor.thy ===== *)
theory Supervisor
  imports Errors Readiness
begin

text \<open>
  The instance supervisor (\<open>apps/daemon/src/daemon/supervisor.rs\<close>): one task owns an instance's
  lifecycle state, backend handle, configuration and readiness ladder and takes commands one at
  a time, while long operations run as tasks of their own (\<open>ops.rs\<close>).

  The state is the supervisor's fields, the values its watch channels publish (\<open>sw_...\<close> fields
  of \<open>published\<close>), the tasks it spawned with their cancel tokens, the queue of completion
  messages, the daemon bus, and the file \<open>instance.toml\<close>. A watch cell of an operation and its
  cancel token are addressed by the operation's generation number. Every supervisor action is
  one function; \<open>sup_step\<close> is the interleaving of commands, task steps and completions. The
  TOML reader and writer, modification times and write faults come from outside: \<open>sup_env\<close> for
  the functions, \<open>write_io\<close> for the outcome of one write. The progress fraction of an operation
  (an \<open>f32\<close>) and the audit file, which repeats the bus, are not modelled; generation numbers
  are natural numbers where the code counts in \<open>u64\<close>.
\<close>

section \<open>Operations and their progress handle\<close>

datatype operation_state = OpQueued | OpRunningState | OpDone | OpFailed | OpCancelledState

record operation =
  op_id :: string
  op_instance :: instance_id
  op_kind :: operation_kind
  op_phases :: "string list"
  op_current_phase :: "string option"
  op_state :: operation_state
  op_error :: "string option"

definition mark_running :: "operation \<Rightarrow> operation" where
  "mark_running op = op\<lparr>op_state := OpRunningState\<rparr>"

definition enter_phase :: "string \<Rightarrow> operation \<Rightarrow> operation" where
  "enter_phase name op = op\<lparr>op_current_phase := Some name\<rparr>"

definition op_finish :: "bool \<Rightarrow> string + unit \<Rightarrow> operation \<Rightarrow> operation" where
  "op_finish is_cancelled result op =
     (if is_cancelled then op\<lparr>op_state := OpCancelledState\<rparr>
      else (case result of
        Inr _ \<Rightarrow> op\<lparr>op_state := OpDone\<rparr>
      | Inl m \<Rightarrow> op\<lparr>op_state := OpFailed, op_error := Some m\<rparr>))"

section \<open>Events, files, state\<close>

datatype bus_event =
    Lifecycle instance_state instance_state "string option"
  | ReadinessReached readiness_level
  | OperationEvent operation

type_synonym backend_handle = string

record toml_file =
  tf_mtime :: "nat option"
  tf_text :: "string + string"

record write_io =
  wi_fault :: bool
  wi_mtime :: "nat option"

record sup_env =
  sv_id :: instance_id
  sv_toml :: "string \<Rightarrow> string + instance_config"
  sv_render :: "instance_config \<Rightarrow> string + string"
  sv_show_load_error :: "load_error \<Rightarrow> string"

record published =
  pub_state :: instance_state
  pub_handle :: "backend_handle option"
  pub_config :: instance_config
  pub_readiness :: readiness_snapshot

record supervisor =
  sup_state :: instance_state
  sup_handle :: "backend_handle option"
  sup_config :: instance_config
  sup_config_mtime :: "nat option"
  sup_file_config :: "instance_config option"
  sup_file_error :: "string option"
  sup_live_resolution :: "resolution option"
  sup_ladder :: ladder
  sup_active_op :: "nat option"
  sup_active_op_key :: "string option"
  sup_active_op_new_id :: "instance_id option"
  sup_active_op_cancelled :: bool
  sup_active_op_seq :: "nat option"
  sup_next_op_seq :: nat
  sup_op_cancel :: "nat option"
  sup_published :: published
  sup_cells :: "nat \<Rightarrow> operation option"
  sup_cancel :: "nat \<Rightarrow> bool"
  sup_tasks :: "nat set"
  sup_done_queue :: "nat list"
  sup_bus :: "bus_event list"
  sup_file :: "toml_file option"

definition spawn_supervisor ::
    "instance_config \<Rightarrow> instance_state \<Rightarrow> backend_handle option \<Rightarrow> toml_file option \<Rightarrow> supervisor" where
  "spawn_supervisor config state handle file =
     (let ladder = ladder_new (profile_of (ic_kind config)) in
      \<lparr>sup_state = state, sup_handle = handle, sup_config = config, sup_config_mtime = None,
       sup_file_config = None, sup_file_error = None, sup_live_resolution = None, sup_ladder = ladder,
       sup_active_op = None, sup_active_op_key = None, sup_active_op_new_id = None,
       sup_active_op_cancelled = False, sup_active_op_seq = None, sup_next_op_seq = 0,
       sup_op_cancel = None,
       sup_published = \<lparr>pub_state = state, pub_handle = handle, pub_config = config,
         pub_readiness = ladder_snapshot ladder\<rparr>,
       sup_cells = Map.empty, sup_cancel = (\<lambda>_. False), sup_tasks = {}, sup_done_queue = [],
       sup_bus = [], sup_file = file\<rparr>)"

section \<open>Readiness\<close>

definition publish_readiness :: "supervisor \<Rightarrow> supervisor" where
  "publish_readiness s =
     s\<lparr>sup_published := (sup_published s)\<lparr>pub_readiness := ladder_snapshot (sup_ladder s)\<rparr>\<rparr>"

definition reset_ladder :: "supervisor \<Rightarrow> supervisor" where
  "reset_ladder s = publish_readiness (s\<lparr>sup_ladder := ladder_new (profile_of (ic_kind (sup_config s)))\<rparr>)"

definition rebase_ladder :: "supervisor \<Rightarrow> supervisor" where
  "rebase_ladder s =
     (if rs_profile (ladder_snapshot (sup_ladder s)) \<noteq> profile_of (ic_kind (sup_config s))
      then reset_ladder s else s)"

definition observe_readiness :: "readiness_level \<Rightarrow> probe_outcome \<Rightarrow> supervisor \<Rightarrow> readiness_snapshot \<times> supervisor" where
  "observe_readiness level outcome s =
     (let (ladder, reached) = observe level outcome (sup_ladder s);
          s1 = s\<lparr>sup_ladder := ladder\<rparr>;
          s2 = (case reached of Some l \<Rightarrow> s1\<lparr>sup_bus := sup_bus s1 @ [ReadinessReached l]\<rparr> | None \<Rightarrow> s1)
      in (ladder_snapshot ladder, publish_readiness s2))"

section \<open>The configuration file\<close>

definition publish_config :: "instance_config \<Rightarrow> supervisor \<Rightarrow> supervisor" where
  "publish_config c s = s\<lparr>sup_published := (sup_published s)\<lparr>pub_config := c\<rparr>\<rparr>"

definition reload_if_changed :: "sup_env \<Rightarrow> supervisor \<Rightarrow> supervisor" where
  "reload_if_changed e s =
     (case sup_file s of
        None \<Rightarrow> s\<lparr>sup_config_mtime := None, sup_file_config := None\<rparr>
      | Some f \<Rightarrow>
          (if sup_config_mtime s \<noteq> None \<and> tf_mtime f = sup_config_mtime s then s
           else (case tf_text f of
             Inl err \<Rightarrow> s\<lparr>sup_file_error := Some (''cannot read instance.toml: '' @ err)\<rparr>
           | Inr content \<Rightarrow>
               (case parse_instance_config_toml (sv_toml e) content of
                  Inl err \<Rightarrow> s\<lparr>sup_file_config := None,
                     sup_file_error := Some (''invalid instance.toml: '' @ sv_show_load_error e err)\<rparr>
                | Inr cfg \<Rightarrow>
                    (if ic_id cfg = sv_id e
                     then (let s1 = s\<lparr>sup_file_config := Some cfg, sup_config_mtime := tf_mtime f, sup_file_error := None\<rparr>
                           in if is_disk_idle (sup_state s1)
                              then publish_config cfg (rebase_ladder (s1\<lparr>sup_config := cfg\<rparr>))
                              else s1)
                     else s\<lparr>sup_file_config := None, sup_file_error :=
                        Some ''instance.toml belongs to a different instance id; refusing to load it''\<rparr>)))))"

definition write_instance_toml :: "sup_env \<Rightarrow> write_io \<Rightarrow> instance_config \<Rightarrow> toml_file option \<Rightarrow> toml_file option" where
  "write_instance_toml e io c file =
     (case sv_render e c of
        Inl _ \<Rightarrow> file
      | Inr text \<Rightarrow> if wi_fault io then file else Some \<lparr>tf_mtime = wi_mtime io, tf_text = Inr text\<rparr>)"

definition persist :: "sup_env \<Rightarrow> write_io \<Rightarrow> supervisor \<Rightarrow> supervisor" where
  "persist e io s =
     (let s1 = reload_if_changed e s;
          s2 = s1\<lparr>sup_file := write_instance_toml e io (sup_config s1) (sup_file s1)\<rparr>;
          s3 = (case sup_file s2 of None \<Rightarrow> s2 | Some f \<Rightarrow> s2\<lparr>sup_config_mtime := tf_mtime f\<rparr>)
      in s3\<lparr>sup_file_config := Some (sup_config s3), sup_file_error := None\<rparr>)"

section \<open>Lifecycle transitions\<close>

fun fail_reason :: "instance_event \<Rightarrow> string option" where
  "fail_reason (Fail m) = Some m"
| "fail_reason _ = None"

fun ends_or_starts_run :: "instance_state \<Rightarrow> bool" where
  "ends_or_starts_run Starting = True"
| "ends_or_starts_run Stopping = True"
| "ends_or_starts_run Stopped = True"
| "ends_or_starts_run (Error _) = True"
| "ends_or_starts_run _ = False"

definition apply_transition ::
    "sup_env \<Rightarrow> write_io \<Rightarrow> instance_event \<Rightarrow> supervisor \<Rightarrow> (fsm_error + instance_state) \<times> supervisor" where
  "apply_transition e io ev s =
     (case apply_event (sup_state s) ev of
        Inl err \<Rightarrow> (Inl err, s)
      | Inr new_state \<Rightarrow>
          (let s1 = s\<lparr>sup_state := new_state\<rparr>;
               s2 = (if ends_or_starts_run new_state then reset_ladder s1 else s1);
               s3 = persist e io s2;
               s4 = s3\<lparr>sup_published := (sup_published s3)\<lparr>pub_state := new_state\<rparr>,
                       sup_bus := sup_bus s3 @ [Lifecycle (sup_state s) new_state (fail_reason ev)]\<rparr>
           in (Inr new_state, s4)))"

definition set_handle :: "backend_handle option \<Rightarrow> supervisor \<Rightarrow> supervisor" where
  "set_handle h s = s\<lparr>sup_handle := h, sup_published := (sup_published s)\<lparr>pub_handle := h\<rparr>\<rparr>"

definition set_config ::
    "sup_env \<Rightarrow> write_io \<Rightarrow> instance_config \<Rightarrow> resolution option \<Rightarrow> supervisor \<Rightarrow> supervisor" where
  "set_config e io c live s =
     (let s1 = (case live of Some r \<Rightarrow> s\<lparr>sup_live_resolution := Some r\<rparr> | None \<Rightarrow> s)
      in persist e io (publish_config c (rebase_ladder (s1\<lparr>sup_config := c\<rparr>))))"

record config_snapshot =
  cs_config :: instance_config
  cs_file_config :: "instance_config option"
  cs_file_error :: "string option"
  cs_live_resolution :: "resolution option"

definition reload_config :: "sup_env \<Rightarrow> supervisor \<Rightarrow> config_snapshot \<times> supervisor" where
  "reload_config e s =
     (let s1 = reload_if_changed e s in
      (\<lparr>cs_config = sup_config s1, cs_file_config = sup_file_config s1, cs_file_error = sup_file_error s1,
        cs_live_resolution = sup_live_resolution s1\<rparr>, s1))"

section \<open>Operations\<close>

datatype join_outcome = Joined operation "instance_id option" | Busy operation | Free

definition active_operation :: "supervisor \<Rightarrow> operation option" where
  "active_operation s = (case sup_active_op s of None \<Rightarrow> None | Some a \<Rightarrow> sup_cells s a)"

definition join_decision :: "string option \<Rightarrow> supervisor \<Rightarrow> join_outcome" where
  "join_decision key s =
     (case active_operation s of
        Some active \<Rightarrow>
          (if key \<noteq> None \<and> key = sup_active_op_key s
           then if sup_active_op_cancelled s then Free else Joined active (sup_active_op_new_id s)
           else Busy active)
      | None \<Rightarrow> Free)"

definition already_running :: "sup_env \<Rightarrow> operation \<Rightarrow> daemon_error" where
  "already_running e active = OpErr (OperationAlreadyRunning (sv_id e) (op_id active) (op_kind active))"

definition accept_operation ::
    "operation \<Rightarrow> string option \<Rightarrow> instance_id option \<Rightarrow> supervisor \<Rightarrow> supervisor" where
  "accept_operation op key new_id s =
     (let seq = sup_next_op_seq s in
      s\<lparr>sup_next_op_seq := Suc seq, sup_cells := (sup_cells s)(seq := Some op),
        sup_cancel := (sup_cancel s)(seq := False),
        sup_active_op := Some seq, sup_active_op_key := key, sup_active_op_new_id := new_id,
        sup_active_op_seq := Some seq, sup_active_op_cancelled := False, sup_op_cancel := Some seq,
        sup_tasks := insert seq (sup_tasks s)\<rparr>)"

definition start_operation ::
    "sup_env \<Rightarrow> operation \<Rightarrow> string option \<Rightarrow> supervisor \<Rightarrow> (daemon_error + string option) \<times> supervisor" where
  "start_operation e op key s =
     (case join_decision key s of
        Joined active _ \<Rightarrow> (Inr (Some (op_id active)), s)
      | Busy active \<Rightarrow> (Inl (already_running e active), s)
      | Free \<Rightarrow> (Inr None, accept_operation op key None s))"

definition start_id_operation ::
    "sup_env \<Rightarrow> operation \<Rightarrow> string option \<Rightarrow> instance_id \<Rightarrow> supervisor
       \<Rightarrow> (daemon_error + (string \<times> instance_id) option) \<times> supervisor" where
  "start_id_operation e op key new_id s =
     (case join_decision key s of
        Joined active (Some i) \<Rightarrow> (Inr (Some (op_id active, i)), s)
      | Joined active None \<Rightarrow> (Inl (already_running e active), s)
      | Busy active \<Rightarrow> (Inl (already_running e active), s)
      | Free \<Rightarrow> (Inr None, accept_operation op key (Some new_id) s))"

definition join_active :: "sup_env \<Rightarrow> string option \<Rightarrow> supervisor \<Rightarrow> daemon_error + string option" where
  "join_active e key s =
     (case join_decision key s of
        Joined active _ \<Rightarrow> Inr (Some (op_id active))
      | Busy active \<Rightarrow> Inl (already_running e active)
      | Free \<Rightarrow> Inr None)"

definition cancel_operation :: "string \<Rightarrow> supervisor \<Rightarrow> bool \<times> supervisor" where
  "cancel_operation oid s =
     (case (sup_op_cancel s, active_operation s) of
        (Some c, Some active) \<Rightarrow>
          (if op_id active = oid
           then (True, s\<lparr>sup_cancel := (sup_cancel s)(c := True), sup_active_op_cancelled := True\<rparr>)
           else (False, s))
      | _ \<Rightarrow> (False, s))"

definition op_done :: "nat \<Rightarrow> supervisor \<Rightarrow> supervisor" where
  "op_done seq s =
     (if sup_active_op_seq s = Some seq
      then s\<lparr>sup_active_op := None, sup_active_op_key := None, sup_active_op_new_id := None,
             sup_active_op_seq := None, sup_active_op_cancelled := False, sup_op_cancel := None\<rparr>
      else s)"

section \<open>The task\<close>

datatype command =
    Transition instance_event
  | SetHandle "backend_handle option"
  | SetConfig instance_config "resolution option"
  | ReloadConfig
  | RunOperation operation "string option"
  | RunIdOperation operation "string option" instance_id
  | CancelOperation string
  | ObserveReadiness readiness_level probe_outcome
  | GetActiveOp
  | JoinActive "string option"

fun handle_command :: "sup_env \<Rightarrow> write_io \<Rightarrow> command \<Rightarrow> supervisor \<Rightarrow> supervisor" where
  "handle_command e io (Transition ev) s = snd (apply_transition e io ev s)"
| "handle_command e io (SetHandle h) s = set_handle h s"
| "handle_command e io (SetConfig c live) s = set_config e io c live s"
| "handle_command e io ReloadConfig s = snd (reload_config e s)"
| "handle_command e io (RunOperation op key) s = snd (start_operation e op key s)"
| "handle_command e io (RunIdOperation op key i) s = snd (start_id_operation e op key i s)"
| "handle_command e io (CancelOperation oid) s = snd (cancel_operation oid s)"
| "handle_command e io (ObserveReadiness l oc) s = snd (observe_readiness l oc s)"
| "handle_command e io GetActiveOp s = s"
| "handle_command e io (JoinActive key) s = s"

datatype task_step = MarkRunning | EnterPhase string | Finish "string + unit"

fun progress_op :: "bool \<Rightarrow> task_step \<Rightarrow> operation \<Rightarrow> operation" where
  "progress_op c MarkRunning op = mark_running op"
| "progress_op c (EnterPhase n) op = enter_phase n op"
| "progress_op c (Finish r) op = op_finish c r op"

text \<open>A task updates its own cell and publishes it.\<close>

definition task_progress :: "nat \<Rightarrow> task_step \<Rightarrow> supervisor \<Rightarrow> supervisor" where
  "task_progress seq t s =
     (case sup_cells s seq of
        None \<Rightarrow> s
      | Some op \<Rightarrow>
          (let op' = progress_op (sup_cancel s seq) t op
           in s\<lparr>sup_cells := (sup_cells s)(seq := Some op'), sup_bus := sup_bus s @ [OperationEvent op']\<rparr>))"

inductive sup_step :: "sup_env \<Rightarrow> supervisor \<Rightarrow> supervisor \<Rightarrow> bool" for e where
  step_command: "sup_step e s (handle_command e io c s)"
| step_progress: "seq \<in> sup_tasks s \<Longrightarrow> sup_step e s (task_progress seq t s)"
| step_task_ends: "seq \<in> sup_tasks s \<Longrightarrow>
    sup_step e s (s\<lparr>sup_tasks := sup_tasks s - {seq}, sup_done_queue := sup_done_queue s @ [seq]\<rparr>)"
| step_done: "sup_done_queue s = seq # rest \<Longrightarrow> sup_step e s (op_done seq (s\<lparr>sup_done_queue := rest\<rparr>))"
| step_file_edited: "sup_step e s (s\<lparr>sup_file := f\<rparr>)"

inductive sup_reach :: "sup_env \<Rightarrow> supervisor \<Rightarrow> supervisor \<Rightarrow> bool" for e where
  reach_refl: "sup_reach e s s"
| reach_step: "sup_reach e s t \<Longrightarrow> sup_step e t u \<Longrightarrow> sup_reach e s u"

inductive_cases sup_stepE: "sup_step e s t"

end
