(* ===== verification/SupervisorRuns.thy ===== *)
theory SupervisorRuns
  imports Supervisor
begin

text \<open>
  What holds of every run of the supervisor: the invariant of its operation bookkeeping and of
  its watch channels, the refinement of the lifecycle machine, the accept rule for operations,
  and what happens to \<open>instance.toml\<close>.
\<close>

section \<open>Invariant\<close>

text \<open>The bookkeeping of operations: the fields of an active operation belong together, every
  task is known and numbered below the counter, and a task that is not the active one was
  cancelled.\<close>

definition live_ops :: "supervisor \<Rightarrow> nat set" where
  "live_ops s = sup_tasks s \<union> set (sup_done_queue s)"

definition ops_ok :: "supervisor \<Rightarrow> bool" where
  "ops_ok s \<longleftrightarrow>
     (case sup_active_op_seq s of
        None \<Rightarrow> sup_active_op s = None \<and> sup_op_cancel s = None \<and> sup_active_op_key s = None
          \<and> sup_active_op_new_id s = None \<and> \<not> sup_active_op_cancelled s
      | Some a \<Rightarrow> sup_active_op s = Some a \<and> sup_op_cancel s = Some a \<and> a \<in> live_ops s
          \<and> sup_cancel s a = sup_active_op_cancelled s)
     \<and> (\<forall>a \<in> live_ops s. a < sup_next_op_seq s \<and> sup_cells s a \<noteq> None)
     \<and> distinct (sup_done_queue s) \<and> sup_tasks s \<inter> set (sup_done_queue s) = {}
     \<and> (\<forall>a \<in> live_ops s. sup_active_op_seq s \<noteq> Some a \<longrightarrow> sup_cancel s a)"

text \<open>What the watch channels publish is the state, and the ladder is one of the profile the
  configuration gives.\<close>

definition rest_published :: "supervisor \<Rightarrow> bool" where
  "rest_published s \<longleftrightarrow>
     pub_handle (sup_published s) = sup_handle s \<and> pub_config (sup_published s) = sup_config s
     \<and> pub_readiness (sup_published s) = ladder_snapshot (sup_ladder s)
     \<and> ld_profile (sup_ladder s) = profile_of (ic_kind (sup_config s)) \<and> ladder_ok (sup_ladder s)"

definition sup_ok :: "supervisor \<Rightarrow> bool" where
  "sup_ok s \<longleftrightarrow> ops_ok s \<and> rest_published s \<and> pub_state (sup_published s) = sup_state s"

text \<open>The fields the operation bookkeeping reads.\<close>

definition ops_part where
  "ops_part s = (sup_active_op s, sup_active_op_key s, sup_active_op_new_id s, sup_active_op_cancelled s,
     sup_active_op_seq s, sup_next_op_seq s, sup_op_cancel s, sup_cells s, sup_cancel s, sup_tasks s, sup_done_queue s)"

lemma ops_ok_cong: "ops_part t = ops_part s \<Longrightarrow> ops_ok t = ops_ok s"
  by (simp add: ops_part_def ops_ok_def live_ops_def cong: option.case_cong)

lemma reload_frame:
  "ops_part (reload_if_changed e s) = ops_part s"
  "sup_state (reload_if_changed e s) = sup_state s"
  "sup_bus (reload_if_changed e s) = sup_bus s"
  "sup_file (reload_if_changed e s) = sup_file s"
  "pub_state (sup_published (reload_if_changed e s)) = pub_state (sup_published s)"
  by (simp_all add: reload_if_changed_def ops_part_def publish_config_def rebase_ladder_def reset_ladder_def
      publish_readiness_def Let_def split: option.split sum.split)

lemma rebase_published:
  "pub_handle (sup_published s) = sup_handle s \<Longrightarrow> pub_readiness (sup_published s) = ladder_snapshot (sup_ladder s) \<Longrightarrow>
     ladder_ok (sup_ladder s) \<Longrightarrow> rest_published (publish_config (sup_config s) (rebase_ladder s))"
  by (simp add: rest_published_def publish_config_def rebase_ladder_def reset_ladder_def publish_readiness_def
      ladder_new_def ladder_snapshot_def ladder_ok_def)

lemma reload_published:
  assumes "rest_published s"
  shows "rest_published (reload_if_changed e s)"
proof -
  have cfg: "rest_published (publish_config cfg (rebase_ladder
      (s\<lparr>sup_file_config := Some cfg, sup_config_mtime := m, sup_file_error := None, sup_config := cfg\<rparr>)))" for cfg m
    using rebase_published[of "s\<lparr>sup_file_config := Some cfg, sup_config_mtime := m, sup_file_error := None, sup_config := cfg\<rparr>"] assms
    by (simp add: rest_published_def)
  show ?thesis
    using assms cfg
    by (simp add: reload_if_changed_def Let_def rest_published_def split: option.split sum.split)
qed

lemma persist_frame:
  "ops_part (persist e io s) = ops_part s"
  "sup_state (persist e io s) = sup_state s"
  "sup_bus (persist e io s) = sup_bus s"
  "pub_state (sup_published (persist e io s)) = pub_state (sup_published s)"
  using reload_frame[of e s]
  by (simp_all add: persist_def Let_def ops_part_def split: option.split)

lemma persist_published: "rest_published s \<Longrightarrow> rest_published (persist e io s)"
  using reload_published[of s e] by (simp add: persist_def Let_def rest_published_def split: option.split)

lemma reset_ladder_frame:
  "ops_part (reset_ladder s) = ops_part s" "sup_state (reset_ladder s) = sup_state s" "sup_bus (reset_ladder s) = sup_bus s"
  "sup_config (reset_ladder s) = sup_config s"
  "pub_state (sup_published (reset_ladder s)) = pub_state (sup_published s)"
  "rest_published s \<Longrightarrow> rest_published (reset_ladder s)"
  by (simp_all add: reset_ladder_def publish_readiness_def ops_part_def rest_published_def ladder_new_def ladder_ok_def)

lemma transition_shape:
  assumes "apply_event (sup_state s) ev = Inr t"
  defines "s2 \<equiv> (if ends_or_starts_run t then reset_ladder (s\<lparr>sup_state := t\<rparr>) else s\<lparr>sup_state := t\<rparr>)"
  shows "apply_transition e io ev s = (Inr t, (persist e io s2)\<lparr>
      sup_published := (sup_published (persist e io s2))\<lparr>pub_state := t\<rparr>,
      sup_bus := sup_bus s @ [Lifecycle (sup_state s) t (fail_reason ev)]\<rparr>)"
proof -
  have "sup_bus (persist e io s2) = sup_bus s"
    by (simp add: persist_frame s2_def reset_ladder_frame)
  then show ?thesis using assms(1) by (simp add: apply_transition_def Let_def s2_def)
qed

lemma transition_ok:
  assumes "sup_ok s"
  shows "sup_ok (snd (apply_transition e io ev s))"
proof (cases "apply_event (sup_state s) ev")
  case (Inl err)
  then show ?thesis using assms by (simp add: apply_transition_def)
next
  case (Inr t)
  define s2 where "s2 = (if ends_or_starts_run t then reset_ladder (s\<lparr>sup_state := t\<rparr>) else s\<lparr>sup_state := t\<rparr>)"
  have op: "ops_part s2 = ops_part s" by (simp add: s2_def reset_ladder_frame) (simp add: ops_part_def)
  have "rest_published (s\<lparr>sup_state := t\<rparr>)" using assms by (simp add: sup_ok_def rest_published_def)
  then have pu: "rest_published (persist e io s2)"
    by (intro persist_published) (simp add: s2_def reset_ladder_frame)
  have st: "sup_state (persist e io s2) = t" by (simp add: persist_frame s2_def reset_ladder_frame)
  have "ops_ok (persist e io s2)"
    using assms ops_ok_cong[of "persist e io s2" s] op by (simp add: persist_frame sup_ok_def)
  then show ?thesis
    using pu st unfolding transition_shape[OF Inr] s2_def[symmetric]
    by (simp add: sup_ok_def rest_published_def ops_ok_def live_ops_def cong: option.case_cong)
qed

lemma set_config_ok: "sup_ok s \<Longrightarrow> sup_ok (set_config e io c live s)"
proof -
  assume s: "sup_ok s"
  define s1 where "s1 = (case live of Some r \<Rightarrow> s\<lparr>sup_live_resolution := Some r\<rparr> | None \<Rightarrow> s)\<lparr>sup_config := c\<rparr>"
  define s2 where "s2 = publish_config c (rebase_ladder s1)"
  have "rest_published s2"
    using rebase_published[of s1] s by (cases live) (simp_all add: s2_def s1_def sup_ok_def rest_published_def)
  moreover have "ops_part s2 = ops_part s" "sup_state s2 = sup_state s" "pub_state (sup_published s2) = pub_state (sup_published s)"
    by (cases live; simp add: s2_def s1_def publish_config_def rebase_ladder_def reset_ladder_def publish_readiness_def ops_part_def)+
  ultimately have "sup_ok (persist e io s2)"
    using s ops_ok_cong[of "persist e io s2" s] by (simp add: sup_ok_def persist_published persist_frame)
  then show ?thesis by (simp add: set_config_def s2_def s1_def Let_def)
qed

lemma observe_ok: "sup_ok s \<Longrightarrow> sup_ok (snd (observe_readiness l oc s))"
proof -
  assume s: "sup_ok s"
  obtain lad r where o: "observe l oc (sup_ladder s) = (lad, r)" by fastforce
  have "ladder_ok lad" "ld_profile lad = ld_profile (sup_ladder s)"
    using ladder_ok_observe[of "sup_ladder s" l oc] observe_profile[of l oc "sup_ladder s"] s
    by (simp_all add: o sup_ok_def rest_published_def)
  then show ?thesis
    using s by (cases r) (simp_all add: observe_readiness_def o publish_readiness_def sup_ok_def rest_published_def ops_ok_def live_ops_def cong: option.case_cong)
qed

lemma accept_ok: "sup_ok s \<Longrightarrow> join_decision key s = Free \<Longrightarrow> sup_ok (accept_operation op key i s)"
proof -
  assume s: "sup_ok s" and f: "join_decision key s = Free"
  have old: "sup_cancel s a" if "a \<in> live_ops s" for a
  proof (cases "sup_active_op_seq s = Some a")
    case True
    then show ?thesis using s f that
      by (auto simp: sup_ok_def ops_ok_def join_decision_def active_operation_def split: option.splits if_splits)
  next
    case False
    then show ?thesis using s that by (auto simp: sup_ok_def ops_ok_def)
  qed
  have lt: "a < sup_next_op_seq s \<and> sup_cells s a \<noteq> None" if "a \<in> live_ops s" for a
    using s that by (simp add: sup_ok_def ops_ok_def)
  have "ops_ok (accept_operation op key i s)"
    unfolding ops_ok_def
    using s old lt by (auto simp: accept_operation_def Let_def live_ops_def sup_ok_def ops_ok_def intro!: less_SucI)
  then show ?thesis using s by (simp add: sup_ok_def accept_operation_def Let_def rest_published_def)
qed

lemma cancel_ok: "sup_ok s \<Longrightarrow> sup_ok (snd (cancel_operation oid s))"
  by (auto simp: cancel_operation_def sup_ok_def ops_ok_def rest_published_def live_ops_def split: option.splits if_splits)

lemma done_ok:
  assumes "sup_ok s" "sup_done_queue s = a # rest"
  shows "sup_ok (op_done a (s\<lparr>sup_done_queue := rest\<rparr>))"
  using assms by (auto simp: op_done_def sup_ok_def ops_ok_def rest_published_def live_ops_def split: option.splits)

lemma handle_command_ok: "sup_ok s \<Longrightarrow> sup_ok (handle_command e io c s)"
proof (cases c)
  case ReloadConfig
  assume "sup_ok s"
  then show ?thesis using ReloadConfig reload_published[of s e] ops_ok_cong[of "reload_if_changed e s" s] reload_frame[of e s]
    by (simp add: reload_config_def Let_def sup_ok_def)
qed (auto simp: transition_ok set_config_ok observe_ok cancel_ok set_handle_def start_operation_def start_id_operation_def
      accept_ok split: join_outcome.splits option.splits, auto simp: sup_ok_def ops_ok_def rest_published_def live_ops_def cong: option.case_cong)

lemma sup_step_ok: "sup_step e s t \<Longrightarrow> sup_ok s \<Longrightarrow> sup_ok t"
proof (induction rule: sup_step.induct)
  case (step_command s io c)
  then show ?case by (rule handle_command_ok)
next
  case (step_progress seq s t)
  then show ?case
    by (auto simp: task_progress_def Let_def sup_ok_def ops_ok_def rest_published_def live_ops_def split: option.splits)
next
  case (step_task_ends seq s)
  then show ?case by (auto simp: sup_ok_def ops_ok_def rest_published_def live_ops_def split: option.splits)
next
  case (step_done s seq rest)
  then show ?case using done_ok by blast
next
  case (step_file_edited s f)
  then show ?case by (simp add: sup_ok_def ops_ok_def rest_published_def live_ops_def cong: option.case_cong)
qed


lemma spawn_ok: "sup_ok (spawn_supervisor c st h f)"
  by (simp add: spawn_supervisor_def Let_def sup_ok_def ops_ok_def rest_published_def live_ops_def ladder_new_def ladder_ok_def)

lemma reach_ok: "sup_reach e s t \<Longrightarrow> sup_ok s \<Longrightarrow> sup_ok t"
  by (induction rule: sup_reach.induct) (auto intro: sup_step_ok)

section \<open>The lifecycle log\<close>

text \<open>The lifecycle events on the bus, oldest first.\<close>

definition lifecycle_log :: "supervisor \<Rightarrow> (instance_state \<times> instance_state) list" where
  "lifecycle_log s = concat (map (\<lambda>b. case b of Lifecycle a c _ \<Rightarrow> [(a, c)] | _ \<Rightarrow> []) (sup_bus s))"

inductive log_path :: "instance_state \<Rightarrow> (instance_state \<times> instance_state) list \<Rightarrow> instance_state \<Rightarrow> bool" where
  log_nil: "log_path s [] s"
| log_snoc: "log_path s es t \<Longrightarrow> apply_event t ev = Inr u \<Longrightarrow> log_path s (es @ [(t, u)]) u"

lemma log_append [simp]:
  "concat (map (\<lambda>b. case b of Lifecycle a c _ \<Rightarrow> [(a, c)] | _ \<Rightarrow> []) (bs @ [b])) =
   concat (map (\<lambda>b. case b of Lifecycle a c _ \<Rightarrow> [(a, c)] | _ \<Rightarrow> []) bs)
     @ (case b of Lifecycle a c _ \<Rightarrow> [(a, c)] | _ \<Rightarrow> [])"
  by simp

lemma transition_log:
  "sup_state (snd (apply_transition e io ev s)) = (case apply_event (sup_state s) ev of Inl _ \<Rightarrow> sup_state s | Inr t \<Rightarrow> t)
   \<and> lifecycle_log (snd (apply_transition e io ev s)) =
      lifecycle_log s @ (case apply_event (sup_state s) ev of Inl _ \<Rightarrow> [] | Inr t \<Rightarrow> [(sup_state s, t)])"
proof (cases "apply_event (sup_state s) ev")
  case (Inl err)
  then show ?thesis by (simp add: apply_transition_def)
next
  case (Inr t)
  then show ?thesis unfolding transition_shape[OF Inr]
    by (simp add: persist_frame reset_ladder_frame lifecycle_log_def)
qed

lemma command_log:
  assumes "\<And>ev. c \<noteq> Transition ev"
  shows "sup_state (handle_command e io c s) = sup_state s \<and> lifecycle_log (handle_command e io c s) = lifecycle_log s"
proof (cases c)
  case (SetConfig cfg live)
  define s1 where "s1 = (case live of Some r \<Rightarrow> s\<lparr>sup_live_resolution := Some r\<rparr> | None \<Rightarrow> s)\<lparr>sup_config := cfg\<rparr>"
  have "sup_bus (publish_config cfg (rebase_ladder s1)) = sup_bus s" "sup_state (publish_config cfg (rebase_ladder s1)) = sup_state s"
    by (cases live; simp add: s1_def publish_config_def rebase_ladder_def reset_ladder_def publish_readiness_def)+
  then show ?thesis using SetConfig by (simp add: set_config_def Let_def s1_def persist_frame lifecycle_log_def)
next
  case (ObserveReadiness l oc)
  then show ?thesis
    by (auto simp: observe_readiness_def publish_readiness_def lifecycle_log_def Let_def split: prod.splits option.splits)
next
  case (CancelOperation oid)
  then show ?thesis by (auto simp: cancel_operation_def lifecycle_log_def split: option.splits)
qed (use assms in \<open>auto simp: set_handle_def reload_config_def Let_def reload_frame start_operation_def start_id_operation_def
      accept_operation_def lifecycle_log_def split: join_outcome.splits option.splits\<close>)

lemma step_log:
  "sup_step e s t \<Longrightarrow>
     (sup_state t = sup_state s \<and> lifecycle_log t = lifecycle_log s)
   \<or> (\<exists>ev. apply_event (sup_state s) ev = Inr (sup_state t) \<and> lifecycle_log t = lifecycle_log s @ [(sup_state s, sup_state t)])"
proof (induction rule: sup_step.induct)
  case (step_command s io c)
  show ?case
  proof (cases "\<exists>ev. c = Transition ev")
    case True
    then obtain ev where "c = Transition ev" by blast
    then show ?thesis using transition_log[of e io ev s] by (cases "apply_event (sup_state s) ev") auto
  next
    case False
    then show ?thesis using command_log by blast
  qed
qed (auto simp: task_progress_def Let_def op_done_def lifecycle_log_def split: option.splits)

text \<open>C1. The supervisor's lifecycle log is the run of the state machine: from the state it was
  spawned in, the lifecycle events on the bus form one unbroken path of legal transitions that
  ends in the current state, whatever commands, task steps, completions and file edits come
  between, and the state every reader sees is that state.\<close>

theorem supervisor_refines_fsm:
  assumes "sup_reach e (spawn_supervisor c st h f) t"
  shows "log_path st (lifecycle_log t) (sup_state t) \<and> pub_state (sup_published t) = sup_state t"
proof -
  have "sup_reach e s t \<Longrightarrow> lifecycle_log s = [] \<Longrightarrow> log_path (sup_state s) (lifecycle_log t) (sup_state t)" for s t
  proof (induction rule: sup_reach.induct)
    case (reach_refl s)
    then show ?case by (simp add: log_nil)
  next
    case (reach_step s t u)
    then have p: "log_path (sup_state s) (lifecycle_log t) (sup_state t)" by simp
    from step_log[OF reach_step.hyps(2)] show ?case
    proof
      assume "sup_state u = sup_state t \<and> lifecycle_log u = lifecycle_log t"
      then show ?thesis using p by simp
    next
      assume "\<exists>ev. apply_event (sup_state t) ev = Inr (sup_state u) \<and> lifecycle_log u = lifecycle_log t @ [(sup_state t, sup_state u)]"
      then show ?thesis using log_snoc[OF p] by auto
    qed
  qed
  from this[OF assms] have "log_path st (lifecycle_log t) (sup_state t)"
    by (simp add: spawn_supervisor_def Let_def lifecycle_log_def)
  then show ?thesis using reach_ok[OF assms spawn_ok] by (simp add: sup_ok_def)
qed

text \<open>C2. One operation per instance: in every reachable state each task that is still running
  and was not cancelled is the active operation, so there is at most one; while it runs, status
  and cancel address it.\<close>

theorem one_uncancelled_operation:
  assumes "sup_reach e (spawn_supervisor c st h f) t"
  shows "sup_tasks t \<inter> {a. \<not> sup_cancel t a} \<subseteq> set_option (sup_active_op t)
    \<and> (\<forall>a. sup_active_op t = Some a \<longrightarrow> sup_active_op_seq t = Some a \<and> sup_op_cancel t = Some a
         \<and> active_operation t = sup_cells t a \<and> sup_cells t a \<noteq> None
         \<and> sup_active_op_cancelled t = sup_cancel t a)"
proof -
  have ok: "ops_ok t" using reach_ok[OF assms spawn_ok] by (simp add: sup_ok_def)
  have active: "sup_active_op t = sup_active_op_seq t"
    using ok by (auto simp: ops_ok_def split: option.splits)
  have "a \<in> set_option (sup_active_op t)" if "a \<in> sup_tasks t" "\<not> sup_cancel t a" for a
    using ok that active by (auto simp: ops_ok_def live_ops_def)
  then show ?thesis using ok active
    by (auto simp: ops_ok_def active_operation_def split: option.splits)
qed

text \<open>The two ways to ask for an operation agree: \<open>JoinActive\<close> answers what \<open>RunOperation\<close> with
  the same key would answer, the id of the operation to join, the refusal, or nothing when the
  request may start its own, and only in that last case does \<open>RunOperation\<close> change anything.\<close>

theorem join_agrees_with_run:
  "join_active e key s = fst (start_operation e op key s)
   \<and> (join_active e key s \<noteq> Inr None \<longrightarrow> snd (start_operation e op key s) = s)
   \<and> (join_active e key s = Inr None \<longrightarrow>
        sup_active_op (snd (start_operation e op key s)) = Some (sup_next_op_seq s)
      \<and> active_operation (snd (start_operation e op key s)) = Some op)
   \<and> (join_active e key s = Inr None \<longleftrightarrow>
        active_operation s = None \<or> key \<noteq> None \<and> key = sup_active_op_key s \<and> sup_active_op_cancelled s)"
  by (auto simp: join_active_def start_operation_def join_decision_def accept_operation_def Let_def active_operation_def
      split: option.splits)


section \<open>The configuration file\<close>

lemma reload_busy_config: "\<not> is_disk_idle (sup_state s) \<Longrightarrow> sup_config (reload_if_changed e s) = sup_config s"
  by (simp add: reload_if_changed_def Let_def split: option.split sum.split)

lemma persist_config: "sup_config (persist e io s) = sup_config (reload_if_changed e s)"
  by (simp add: persist_def Let_def split: option.split)

lemma persist_writes:
  assumes "sv_render e (sup_config (persist e io s)) = Inr tml" "\<not> wi_fault io"
  shows "sup_file (persist e io s) = Some \<lparr>tf_mtime = wi_mtime io, tf_text = Inr tml\<rparr>
    \<and> sup_config_mtime (persist e io s) = wi_mtime io
    \<and> sup_file_config (persist e io s) = Some (sup_config (persist e io s)) \<and> sup_file_error (persist e io s) = None"
  using assms by (simp add: persist_config) (simp add: persist_def Let_def write_instance_toml_def)

text \<open>A manual edit of \<open>instance.toml\<close> does not survive a transition between live states: after
  an accepted transition into a state that is not disk-idle the file again holds the
  configuration in memory, and nothing is reported as pending.\<close>

theorem transition_discards_edit:
  assumes "apply_event (sup_state s) ev = Inr t" and "\<not> is_disk_idle t"
    and "sv_render e (sup_config s) = Inr tml" and "\<not> wi_fault io"
  shows "sup_config (snd (apply_transition e io ev s)) = sup_config s
    \<and> sup_file (snd (apply_transition e io ev s)) = Some \<lparr>tf_mtime = wi_mtime io, tf_text = Inr tml\<rparr>
    \<and> sup_file_config (snd (apply_transition e io ev s)) = Some (sup_config s)"
proof -
  define s2 where "s2 = (if ends_or_starts_run t then reset_ladder (s\<lparr>sup_state := t\<rparr>) else s\<lparr>sup_state := t\<rparr>)"
  have "sup_state s2 = t" "sup_config s2 = sup_config s" by (simp_all add: s2_def reset_ladder_frame)
  then have c: "sup_config (persist e io s2) = sup_config s" using reload_busy_config[of s2 e] assms(2) by (simp add: persist_config)
  then show ?thesis
    using persist_writes[of e io s2 tml] assms(3,4) unfolding transition_shape[OF assms(1)] s2_def[symmetric] by simp
qed

text \<open>The effect of \<open>SetConfig\<close>: the configuration in memory afterwards is the one that was set,
  except on a disk-idle instance whose file changed since it was last read and parses to a
  configuration of this instance: there the file wins. Either way the file then holds what
  memory holds.\<close>

theorem set_config_effect:
  assumes "sv_render e (sup_config (set_config e io c live s)) = Inr tml" and "\<not> wi_fault io"
  shows "sup_config (set_config e io c live s) =
      (case sup_file s of
         Some f \<Rightarrow>
           (case tf_text f of
              Inr content \<Rightarrow>
                (case parse_instance_config_toml (sv_toml e) content of
                   Inr cfg \<Rightarrow>
                     if is_disk_idle (sup_state s) \<and> ic_id cfg = sv_id e
                        \<and> (sup_config_mtime s = None \<or> tf_mtime f \<noteq> sup_config_mtime s)
                     then cfg else c
                 | Inl _ \<Rightarrow> c)
            | Inl _ \<Rightarrow> c)
       | None \<Rightarrow> c)
    \<and> sup_file (set_config e io c live s) = Some \<lparr>tf_mtime = wi_mtime io, tf_text = Inr tml\<rparr>
    \<and> sup_config_mtime (set_config e io c live s) = wi_mtime io"
proof -
  define s1 where "s1 = publish_config c (rebase_ladder
      ((case live of Some r \<Rightarrow> s\<lparr>sup_live_resolution := Some r\<rparr> | None \<Rightarrow> s)\<lparr>sup_config := c\<rparr>))"
  have f: "sup_file s1 = sup_file s" "sup_state s1 = sup_state s" "sup_config s1 = c" "sup_config_mtime s1 = sup_config_mtime s"
    by (cases live; simp add: s1_def publish_config_def rebase_ladder_def reset_ladder_def publish_readiness_def)+
  have e: "set_config e io c live s = persist e io s1" by (simp add: set_config_def s1_def Let_def)
  have "sup_config (reload_if_changed e s1) =
      (case sup_file s of
         Some f \<Rightarrow>
           (case tf_text f of
              Inr content \<Rightarrow>
                (case parse_instance_config_toml (sv_toml e) content of
                   Inr cfg \<Rightarrow>
                     if is_disk_idle (sup_state s) \<and> ic_id cfg = sv_id e
                        \<and> (sup_config_mtime s = None \<or> tf_mtime f \<noteq> sup_config_mtime s)
                     then cfg else c
                 | Inl _ \<Rightarrow> c)
            | Inl _ \<Rightarrow> c)
       | None \<Rightarrow> c)"
    by (simp add: reload_if_changed_def f Let_def publish_config_def rebase_ladder_def reset_ladder_def publish_readiness_def
        split: option.split sum.split)
  then show ?thesis using persist_writes[of e io s1 tml] assms by (simp add: e persist_config)
qed

section \<open>Examples\<close>

text \<open>A file holds just the name of the configuration.\<close>

definition demo_sup_env :: sup_env where
  "demo_sup_env = \<lparr>sv_id = replicate 32 1, sv_toml = (\<lambda>t. Inr ((example_config 1)\<lparr>ic_name := t\<rparr>)),
     sv_render = (\<lambda>c. Inr (ic_name c)), sv_show_load_error = (\<lambda>_. [])\<rparr>"

definition demo_io :: write_io where "demo_io = \<lparr>wi_fault = False, wi_mtime = Some 2\<rparr>"

definition demo_op :: "string \<Rightarrow> operation" where
  "demo_op i = \<lparr>op_id = i, op_instance = replicate 32 1, op_kind = OpSnapshotRestore, op_phases = [],
     op_current_phase = None, op_state = OpQueued, op_error = None\<rparr>"

lemma demo_transition: "fst (apply_transition e io ev s) = apply_event (sup_state s) ev"
  by (simp add: apply_transition_def Let_def split: sum.split)

definition demo_sup :: "instance_state \<Rightarrow> toml_file option \<Rightarrow> supervisor" where
  "demo_sup st f = spawn_supervisor (example_config 1) st None f"

lemma demo_sup_sel:
  "sup_state (demo_sup st f) = st" "sup_config (demo_sup st f) = example_config 1" "sup_bus (demo_sup st f) = []"
  "sup_active_op (demo_sup st f) = None" "sup_next_op_seq (demo_sup st f) = 0" "sup_file (demo_sup st f) = f"
  "sup_config_mtime (demo_sup st f) = None" "sup_tasks (demo_sup st f) = {}"
  by (simp_all add: demo_sup_def spawn_supervisor_def Let_def)

theorem supervisor_refines_fsm_witness:
  "log_path Created [(Created, Starting)]
     (sup_state (handle_command demo_sup_env demo_io (Transition Start) (demo_sup Created None)))"
proof -
  have "sup_reach demo_sup_env (demo_sup Created None) (handle_command demo_sup_env demo_io (Transition Start) (demo_sup Created None))"
    by (rule reach_step[OF reach_refl step_command])
  from supervisor_refines_fsm[OF this[unfolded demo_sup_def]] show ?thesis
    using transition_log[of demo_sup_env demo_io Start "demo_sup Created None"]
    by (simp add: demo_sup_def[symmetric] demo_sup_sel lifecycle_log_def)
qed

lemma demo_started:
  "snd (start_operation demo_sup_env (demo_op ''op-1'') k (demo_sup Stopped None)) = accept_operation (demo_op ''op-1'') k None (demo_sup Stopped None)"
  by (simp add: start_operation_def join_decision_def active_operation_def demo_sup_sel)

theorem one_uncancelled_operation_witness:
  "sup_tasks (handle_command demo_sup_env demo_io (RunOperation (demo_op ''op-1'') None) (demo_sup Stopped None))
     \<inter> {a. \<not> sup_cancel (handle_command demo_sup_env demo_io (RunOperation (demo_op ''op-1'') None) (demo_sup Stopped None)) a} \<subseteq> {0}"
proof -
  have "sup_reach demo_sup_env (demo_sup Stopped None) (handle_command demo_sup_env demo_io (RunOperation (demo_op ''op-1'') None) (demo_sup Stopped None))"
    by (rule reach_step[OF reach_refl step_command])
  from one_uncancelled_operation[OF this[unfolded demo_sup_def], THEN conjunct1] show ?thesis
    by (simp add: demo_sup_def[symmetric] demo_started) (simp add: accept_operation_def Let_def demo_sup_sel)
qed

theorem join_agrees_with_run_witness:
  "join_active demo_sup_env (Some ''k'') (accept_operation (demo_op ''op-1'') (Some ''k'') None (demo_sup Stopped None)) = Inr (Some ''op-1'')
   \<and> snd (start_operation demo_sup_env (demo_op ''op-2'') (Some ''k'') (accept_operation (demo_op ''op-1'') (Some ''k'') None (demo_sup Stopped None)))
      = accept_operation (demo_op ''op-1'') (Some ''k'') None (demo_sup Stopped None)"
proof -
  have j: "join_active demo_sup_env (Some ''k'') (accept_operation (demo_op ''op-1'') (Some ''k'') None (demo_sup Stopped None)) = Inr (Some ''op-1'')"
    by (simp add: join_active_def join_decision_def active_operation_def accept_operation_def Let_def demo_op_def)
  then show ?thesis
    using join_agrees_with_run[of demo_sup_env "Some ''k''" "accept_operation (demo_op ''op-1'') (Some ''k'') None (demo_sup Stopped None)" "demo_op ''op-2''"]
    by simp
qed

theorem transition_discards_edit_witness:
  "sup_file (snd (apply_transition demo_sup_env demo_io Stop (demo_sup Running (Some \<lparr>tf_mtime = Some 1, tf_text = Inr ''edited''\<rparr>))))
     = Some \<lparr>tf_mtime = Some 2, tf_text = Inr ''vm''\<rparr>"
  using transition_discards_edit[of "demo_sup Running (Some \<lparr>tf_mtime = Some 1, tf_text = Inr ''edited''\<rparr>)" Stop Stopping demo_sup_env "''vm''" demo_io]
  by (simp add: demo_sup_sel demo_sup_env_def demo_io_def example_config_def)

theorem set_config_effect_witness:
  "sup_file (set_config demo_sup_env demo_io ((example_config 1)\<lparr>ic_name := ''new''\<rparr>) None (demo_sup Running None))
     = Some \<lparr>tf_mtime = Some 2, tf_text = Inr ''new''\<rparr>"
proof -
  have "sup_config (set_config demo_sup_env demo_io ((example_config 1)\<lparr>ic_name := ''new''\<rparr>) None (demo_sup Running None))
      = (example_config 1)\<lparr>ic_name := ''new''\<rparr>"
    by (simp add: set_config_def persist_config reload_if_changed_def publish_config_def rebase_ladder_def reset_ladder_def
        publish_readiness_def demo_sup_sel Let_def)
  then show ?thesis
    using set_config_effect[of demo_sup_env demo_io "(example_config 1)\<lparr>ic_name := ''new''\<rparr>" None "demo_sup Running None" "''new''"]
    by (simp add: demo_sup_env_def demo_io_def)
qed

end
