(* ===== verification/Gates.thy ===== *)
theory Gates
  imports SupervisorRuns "HOL-Library.AList"
begin

text \<open>
  The registry of instances and the start gates
  (\<open>apps/daemon/src/daemon/instance_ops.rs\<close>, \<open>do_start_instance\<close> and the checks it runs under
  the start lock). The registry is the daemon's \<open>HashMap\<close> from instance ids to supervisor
  handles, as an association list in the order the map iterates; a handle is the registry
  directory and the supervisor, of which the gates read what the watch channels publish.

  The gates for host ports, disks and pinned CPUs have one contract, the locale
  \<open>exclusive_gate\<close>: acceptance means that no other occupied instance holds a wanted resource.
  What the contract gives (occupied instances stay pairwise disjoint) is proved once in the
  locale and used for the three gates. The memory gate adds in \<open>u64\<close>, which wraps in the
  release build; the file \<open>/proc/meminfo\<close>, the number of CPUs and the existence of files are
  what \<open>host_system\<close> says they are.
\<close>

section \<open>The registry\<close>

record instance_handle =
  ih_dir :: string
  ih_sup :: supervisor

type_synonym registry = "(instance_id \<times> instance_handle) list"

definition handle_state :: "instance_handle \<Rightarrow> instance_state" where
  "handle_state h = pub_state (sup_published (ih_sup h))"

definition handle_config :: "instance_handle \<Rightarrow> instance_config" where
  "handle_config h = pub_config (sup_published (ih_sup h))"

definition handle_backend :: "instance_handle \<Rightarrow> backend_handle option" where
  "handle_backend h = pub_handle (sup_published (ih_sup h))"

record host_system =
  hs_meminfo :: "string option"
  hs_parallelism :: "u64 option"
  hs_exists :: "string \<Rightarrow> bool"

text \<open>\<open>matches!(state, Running | Paused | Starting)\<close>.\<close>

fun occupies :: "instance_state \<Rightarrow> bool" where
  "occupies Running = True"
| "occupies Paused = True"
| "occupies Starting = True"
| "occupies _ = False"

lemma occupies_busy: "occupies s \<Longrightarrow> \<not> is_disk_idle s"
  by (cases s) simp_all

section \<open>The gates\<close>

definition host_ports :: "instance_config \<Rightarrow> u16 list" where
  "host_ports c = concat (map (\<lambda>n. map pf_host_port (net_port_forwards n)) (ic_network c # ic_extra_networks c))"

definition disk_paths :: "instance_config \<Rightarrow> string list" where
  "disk_paths c = disk_path (ic_disk c) # map disk_path (ic_extra_disks c)"

definition pinned_cpus :: "instance_config \<Rightarrow> u64 list" where
  "pinned_cpus c = (case cpu_affinity (ic_cpu c) of None \<Rightarrow> [] | Some cpus \<Rightarrow> cpus)"

text \<open>The loop the three checks share: the first wanted resource that an occupied instance
  other than the starting one holds.\<close>

fun first_conflict :: "(instance_config \<Rightarrow> 'r list) \<Rightarrow> instance_id \<Rightarrow> 'r list \<Rightarrow> registry \<Rightarrow> ('r \<times> instance_id) option" where
  "first_conflict held i wanted [] = None"
| "first_conflict held i wanted ((other, h) # rest) =
     (if other = i \<or> \<not> occupies (handle_state h) then first_conflict held i wanted rest
      else (case List.find (\<lambda>r. r \<in> set (held (handle_config h))) wanted of
          Some r \<Rightarrow> Some (r, other)
        | None \<Rightarrow> first_conflict held i wanted rest))"

definition check_port_forward_conflicts :: "instance_id \<Rightarrow> instance_config \<Rightarrow> registry \<Rightarrow> daemon_error + unit" where
  "check_port_forward_conflicts i c reg =
     (if host_ports c = [] then Inr ()
      else (case first_conflict host_ports i (host_ports c) reg of
          None \<Rightarrow> Inr ()
        | Some (port, other) \<Rightarrow> Inl (GateErr (PortForwardConflict port i other))))"

definition check_disk_conflicts :: "instance_id \<Rightarrow> instance_config \<Rightarrow> registry \<Rightarrow> daemon_error + unit" where
  "check_disk_conflicts i c reg =
     (if disk_paths c = [] then Inr ()
      else (case first_conflict disk_paths i (disk_paths c) reg of
          None \<Rightarrow> Inr ()
        | Some (path, other) \<Rightarrow> Inl (GateErr (DiskInUse path i other))))"

definition check_cpu_affinity_conflicts :: "instance_id \<Rightarrow> instance_config \<Rightarrow> registry \<Rightarrow> daemon_error + unit" where
  "check_cpu_affinity_conflicts i c reg =
     (if pinned_cpus c = [] then Inr ()
      else (case first_conflict pinned_cpus i (pinned_cpus c) reg of
          None \<Rightarrow> Inr ()
        | Some (cpu, other) \<Rightarrow> Inl (GateErr (CpuAffinityConflict cpu i other))))"

definition affinity_message :: "u64 \<Rightarrow> u64 \<Rightarrow> string" where
  "affinity_message cpu host_cpus =
     ''cpu.affinity references host CPU '' @ show_word cpu @ '', but this host exposes '' @ show_word host_cpus
       @ '' (0-'' @ show_nat (unat host_cpus - 1) @ ''); edit the affinity set in instance.toml''"

definition validate_cpu_affinity :: "host_system \<Rightarrow> instance_config \<Rightarrow> daemon_error + unit" where
  "validate_cpu_affinity host c =
     (let host_cpus = (case hs_parallelism host of Some n \<Rightarrow> n | None \<Rightarrow> 1) in
      case List.find (\<lambda>cpu. host_cpus \<le> cpu) (pinned_cpus c) of
        None \<Rightarrow> Inr ()
      | Some cpu \<Rightarrow> Inl (InvalidConfig (affinity_message cpu host_cpus)))"

section \<open>Guest memory against host memory\<close>

text \<open>\<open>str::lines\<close>: a final line end closes the last line, and a carriage return before a line
  end belongs to it.\<close>

definition strip_cr :: "string \<Rightarrow> string" where
  "strip_cr l = (if l \<noteq> [] \<and> last l = CHR 0x0D then butlast l else l)"

fun lines :: "string \<Rightarrow> string list" where
  "lines [] = []"
| "lines s = (let l = takeWhile (\<lambda>c. c \<noteq> CHR 0x0A) s in
     (if length l < length s then strip_cr l # lines (drop (Suc (length l)) s) else [l]))"

definition saturating_mul_1024 :: "u64 \<Rightarrow> u64" where
  "saturating_mul_1024 w = (if unat w * 1024 < 2 ^ 64 then w * 1024 else - 1)"

text \<open>The loop over the lines of \<open>/proc/meminfo\<close>; every \<open>?\<close> leaves the function with \<open>None\<close>.\<close>

fun mem_total :: "string list \<Rightarrow> u64 option" where
  "mem_total [] = None"
| "mem_total (line # rest) =
     (case split_once (CHR '':'') line of
        None \<Rightarrow> None
      | Some (key, value) \<Rightarrow>
          (if trim key = ''MemTotal''
           then (case split_once (CHR '' '') (trim value) of
               None \<Rightarrow> None
             | Some (num, unit) \<Rightarrow>
                 (if trim unit = ''kB''
                  then (case parse_u64 (trim num) of Some kb \<Rightarrow> Some (saturating_mul_1024 kb) | None \<Rightarrow> mem_total rest)
                  else mem_total rest))
           else mem_total rest))"

definition read_host_total_ram :: "host_system \<Rightarrow> u64 option" where
  "read_host_total_ram host = (case hs_meminfo host of None \<Rightarrow> None | Some raw \<Rightarrow> mem_total (lines raw))"

definition counted_instances :: "instance_id \<Rightarrow> registry \<Rightarrow> instance_handle list" where
  "counted_instances i reg = map snd (filter (\<lambda>(other, h). other \<noteq> i \<and> occupies (handle_state h)) reg)"

definition guest_memory :: "instance_handle \<Rightarrow> u64" where
  "guest_memory h = mem_size (ic_memory (handle_config h))"

definition used_bytes :: "instance_id \<Rightarrow> registry \<Rightarrow> u64" where
  "used_bytes i reg = foldl (\<lambda>used h. used + guest_memory h) 0 (counted_instances i reg)"

definition check_memory_overcommit :: "host_system \<Rightarrow> instance_id \<Rightarrow> instance_config \<Rightarrow> registry \<Rightarrow> daemon_error + unit" where
  "check_memory_overcommit host i c reg =
     (let host_total = (case read_host_total_ram host of Some n \<Rightarrow> n | None \<Rightarrow> mem_size (ic_memory c));
          used = used_bytes i reg;
          requested = used + mem_size (ic_memory c)
      in if host_total < requested
         then Inl (GateErr (MemoryOvercommit requested host_total (length (counted_instances i reg)) used))
         else Inr ())"

text \<open>The checks of \<open>do_start_instance\<close> under the start lock, in their order.\<close>

definition start_gates :: "host_system \<Rightarrow> instance_id \<Rightarrow> instance_config \<Rightarrow> registry \<Rightarrow> daemon_error + unit" where
  "start_gates host i c reg =
     rbind (check_port_forward_conflicts i c reg) (\<lambda>_.
       rbind (check_disk_conflicts i c reg) (\<lambda>_.
         rbind (check_cpu_affinity_conflicts i c reg) (\<lambda>_.
           rbind (validate_cpu_affinity host c) (\<lambda>_. check_memory_overcommit host i c reg))))"

section \<open>The contract of the exclusive gates\<close>

definition registered :: "registry \<Rightarrow> instance_id \<Rightarrow> instance_handle option" where
  "registered reg i = map_of reg i"

lemma first_conflict_None:
  "first_conflict held i wanted reg = None \<longleftrightarrow>
     (\<forall>(other, h) \<in> set reg. other \<noteq> i \<longrightarrow> occupies (handle_state h) \<longrightarrow> set wanted \<inter> set (held (handle_config h)) = {})"
  by (induction held i wanted reg rule: first_conflict.induct)
    (auto simp: find_None split: option.splits dest!: find_Some)

lemma first_conflict_Some:
  "first_conflict held i wanted reg = Some (r, other) \<Longrightarrow>
     r \<in> set wanted \<and> other \<noteq> i \<and> (\<exists>h. (other, h) \<in> set reg \<and> occupies (handle_state h) \<and> r \<in> set (held (handle_config h)))"
  by (induction held i wanted reg rule: first_conflict.induct)
    (auto split: option.splits if_splits dest!: find_Some)

text \<open>No two occupied instances outside \<open>B\<close> hold a common resource.\<close>

definition disjoint_over :: "instance_id set \<Rightarrow> (instance_config \<Rightarrow> 'r list) \<Rightarrow> registry \<Rightarrow> bool" where
  "disjoint_over B held reg \<longleftrightarrow>
     (\<forall>i j h k. registered reg i = Some h \<and> registered reg j = Some k \<and> i \<noteq> j \<and> i \<notin> B \<and> j \<notin> B
        \<and> occupies (handle_state h) \<and> occupies (handle_state k)
        \<longrightarrow> set (held (handle_config h)) \<inter> set (held (handle_config k)) = {})"

lemma disjoint_overD:
  "disjoint_over B held reg \<Longrightarrow> registered reg i = Some h \<Longrightarrow> registered reg j = Some k \<Longrightarrow> i \<noteq> j \<Longrightarrow> i \<notin> B \<Longrightarrow> j \<notin> B \<Longrightarrow>
     occupies (handle_state h) \<Longrightarrow> occupies (handle_state k) \<Longrightarrow>
     set (held (handle_config h)) \<inter> set (held (handle_config k)) = {}"
  unfolding disjoint_over_def by blast

lemma disjoint_over_mono: "disjoint_over B held reg \<Longrightarrow> B \<subseteq> C \<Longrightarrow> disjoint_over C held reg"
  unfolding disjoint_over_def by blast

text \<open>The instances of a set that occupy their resources: the others owe nothing.\<close>

definition holding :: "registry \<Rightarrow> instance_id set \<Rightarrow> instance_id set" where
  "holding reg B = {i \<in> B. \<exists>h. registered reg i = Some h \<and> occupies (handle_state h)}"

lemma disjoint_over_holding: "disjoint_over (holding reg B) held reg = disjoint_over B held reg"
  unfolding disjoint_over_def holding_def by blast

lemma registered_update: "registered (AList.update i h reg) j = (if j = i then Some h else registered reg j)"
  by (simp add: registered_def update_conv)

lemma registered_delete: "registered (AList.delete i reg) j = (if j = i then None else registered reg j)"
  by (simp add: registered_def delete_conv)

text \<open>One changed entry only has to be compared with the others.\<close>

lemma disjoint_over_update:
  assumes "disjoint_over B held reg"
    and "\<And>j k. i \<notin> B \<Longrightarrow> occupies (handle_state h) \<Longrightarrow> registered reg j = Some k \<Longrightarrow> j \<noteq> i \<Longrightarrow> j \<notin> B \<Longrightarrow> occupies (handle_state k)
      \<Longrightarrow> set (held (handle_config h)) \<inter> set (held (handle_config k)) = {}"
  shows "disjoint_over B held (AList.update i h reg)"
  unfolding disjoint_over_def
proof (intro allI impI, elim conjE)
  fix a b x y
  assume r: "registered (AList.update i h reg) a = Some x" "registered (AList.update i h reg) b = Some y" "a \<noteq> b"
    and out: "a \<notin> B" "b \<notin> B" and o: "occupies (handle_state x)" "occupies (handle_state y)"
  consider "a = i" "b \<noteq> i" | "b = i" "a \<noteq> i" | "a \<noteq> i" "b \<noteq> i" using r(3) by blast
  then show "set (held (handle_config x)) \<inter> set (held (handle_config y)) = {}"
  proof cases
    case 1
    then show ?thesis using r out o assms(2)[of b y] by (simp add: registered_update)
  next
    case 2
    then show ?thesis using r out o assms(2)[of a x] by (simp add: registered_update Int_commute)
  next
    case 3
    then show ?thesis using r out o disjoint_overD[OF assms(1), of a x b y] by (simp add: registered_update)
  qed
qed

locale exclusive_gate =
  fixes gate :: "instance_id \<Rightarrow> instance_config \<Rightarrow> registry \<Rightarrow> daemon_error + unit"
    and held :: "instance_config \<Rightarrow> 'r list"
  assumes gate_exact: "distinct (map fst reg) \<Longrightarrow>
    gate i c reg = Inr () \<longleftrightarrow>
      (\<forall>j k. registered reg j = Some k \<and> j \<noteq> i \<and> occupies (handle_state k)
         \<longrightarrow> set (held c) \<inter> set (held (handle_config k)) = {})"
begin

lemma claim_disjoint:
  assumes "distinct (map fst reg)" "gate i c reg = Inr ()" "disjoint_over B held reg"
    and "i \<notin> B \<Longrightarrow> set (held (handle_config h)) = set (held c)"
  shows "disjoint_over B held (AList.update i h reg)"
  using assms(3) by (rule disjoint_over_update) (use gate_exact[OF assms(1), of i c] assms(2,4) in simp)

lemma quiet_update_disjoint:
  assumes "disjoint_over B held reg" "registered reg i = Some h"
    and "i \<notin> B \<Longrightarrow> occupies (handle_state h') \<Longrightarrow>
      occupies (handle_state h) \<and> set (held (handle_config h')) = set (held (handle_config h))"
  shows "disjoint_over B held (AList.update i h' reg)"
  using assms(1)
proof (rule disjoint_over_update)
  fix j k
  assume i: "i \<notin> B" and o: "occupies (handle_state h')"
    and k: "registered reg j = Some k" "j \<noteq> i" "j \<notin> B" "occupies (handle_state k)"
  show "set (held (handle_config h')) \<inter> set (held (handle_config k)) = {}"
    using assms(3)[OF i o] disjoint_overD[OF assms(1,2) k(1)] i k by simp
qed

lemma insert_idle_disjoint:
  "disjoint_over B held reg \<Longrightarrow> (i \<notin> B \<Longrightarrow> \<not> occupies (handle_state h')) \<Longrightarrow> disjoint_over B held (AList.update i h' reg)"
  by (rule disjoint_over_update) simp_all

lemma delete_disjoint:
  assumes "disjoint_over B held reg"
  shows "disjoint_over B held (AList.delete i reg)"
  unfolding disjoint_over_def
proof (intro allI impI, elim conjE)
  fix a b x y
  assume "registered (AList.delete i reg) a = Some x" "registered (AList.delete i reg) b = Some y"
  then have "registered reg a = Some x" "registered reg b = Some y" by (simp_all add: registered_delete split: if_splits)
  moreover assume "a \<noteq> b" "a \<notin> B" "b \<notin> B" "occupies (handle_state x)" "occupies (handle_state y)"
  ultimately show "set (held (handle_config x)) \<inter> set (held (handle_config y)) = {}" by (rule disjoint_overD[OF assms])
qed

end

lemma first_conflict_nothing [simp]: "first_conflict held i [] reg = None"
  by (simp add: first_conflict_None split: prod.split)

lemma first_conflict_exact:
  assumes "distinct (map fst reg)"
  shows "first_conflict held i wanted reg = None \<longleftrightarrow>
    (\<forall>j k. registered reg j = Some k \<and> j \<noteq> i \<and> occupies (handle_state k)
         \<longrightarrow> set wanted \<inter> set (held (handle_config k)) = {})"
  using assms unfolding first_conflict_None registered_def by (auto simp: map_of_eq_Some_iff)

lemma scan_result:
  "(case first_conflict held i wanted reg of None \<Rightarrow> Inr () | Some (r, other) \<Rightarrow> Inl (err r other)) = Inr ()
     \<longleftrightarrow> first_conflict held i wanted reg = None"
  by (simp split: option.split)

interpretation port_gate: exclusive_gate check_port_forward_conflicts host_ports
proof
  fix reg :: registry and i c
  assume "distinct (map fst reg)"
  note exact = first_conflict_exact[OF this, of host_ports i "host_ports c"]
  show "check_port_forward_conflicts i c reg = Inr () \<longleftrightarrow>
    (\<forall>j k. registered reg j = Some k \<and> j \<noteq> i \<and> occupies (handle_state k)
       \<longrightarrow> set (host_ports c) \<inter> set (host_ports (handle_config k)) = {})"
    by (cases "host_ports c = []") (simp_all add: check_port_forward_conflicts_def scan_result exact)
qed

interpretation disk_gate: exclusive_gate check_disk_conflicts disk_paths
proof
  fix reg :: registry and i c
  assume "distinct (map fst reg)"
  note exact = first_conflict_exact[OF this, of disk_paths i "disk_paths c"]
  have "disk_paths c \<noteq> []" by (simp add: disk_paths_def)
  then show "check_disk_conflicts i c reg = Inr () \<longleftrightarrow>
    (\<forall>j k. registered reg j = Some k \<and> j \<noteq> i \<and> occupies (handle_state k)
       \<longrightarrow> set (disk_paths c) \<inter> set (disk_paths (handle_config k)) = {})"
    by (simp only: check_disk_conflicts_def scan_result exact if_False)
qed

interpretation cpu_gate: exclusive_gate check_cpu_affinity_conflicts pinned_cpus
proof
  fix reg :: registry and i c
  assume "distinct (map fst reg)"
  note exact = first_conflict_exact[OF this, of pinned_cpus i "pinned_cpus c"]
  show "check_cpu_affinity_conflicts i c reg = Inr () \<longleftrightarrow>
    (\<forall>j k. registered reg j = Some k \<and> j \<noteq> i \<and> occupies (handle_state k)
       \<longrightarrow> set (pinned_cpus c) \<inter> set (pinned_cpus (handle_config k)) = {})"
    by (cases "pinned_cpus c = []") (simp_all add: check_cpu_affinity_conflicts_def scan_result exact)
qed

end
