(* ===== verification/Registry.thy ===== *)
theory Registry
  imports Gates Qcow2 "HOL-Library.Char_ord" "HOL-Library.List_Lexorder"
begin

text \<open>
  The operations of the instance registry (\<open>apps/daemon/src/daemon/instance_ops.rs\<close>,
  \<open>query_ops.rs\<close>, \<open>mod.rs\<close>): registering, resolving an id prefix, starting, stopping, pausing,
  the process exit watcher, removing and configuring an instance. Each is a function on the
  registry that sends the same commands to the instance's supervisor as the code; a command to
  an instance that left the registry finds its supervisor gone. \<open>reg_step\<close> interleaves the
  commands of concurrent operations; the operations are runs of it.

  The hypervisor backend is the parameter \<open>backend\<close> (the daemon holds a table from backend kinds
  to backends). Background work the operations only launch (compaction after a stop, the
  readiness prober, metrics) and log messages are not modelled.
\<close>

section \<open>Parameters and messages\<close>

record backend =
  bk_spawn :: "instance_config \<Rightarrow> backend_error + backend_handle"
  bk_stop :: "backend_handle \<Rightarrow> bool \<Rightarrow> backend_error + unit"
  bk_pause :: "backend_handle \<Rightarrow> backend_error + unit"
  bk_resume :: "backend_handle \<Rightarrow> backend_error + unit"
  bk_set_resolution :: "backend_handle \<Rightarrow> resolution \<Rightarrow> instance_kind \<Rightarrow> backend_error + unit"

record daemon_env =
  dm_sup :: "instance_id \<Rightarrow> sup_env"
  dm_host :: host_system
  dm_backends :: "backend_kind \<Rightarrow> backend option"

fun show_backend_error :: "backend_error \<Rightarrow> string" where
  "show_backend_error (NotImplemented b op) =
     ''operation `'' @ op @ ''` is not implemented by backend `'' @ b @ ''`''"
| "show_backend_error (HandleNotFound h) = ''instance handle `'' @ h @ ''` not found by backend''"
| "show_backend_error (BackendIo m) = ''backend I/O error: '' @ m"
| "show_backend_error (BackendInvalidConfig b r) = ''invalid configuration for backend `'' @ b @ ''`: '' @ r"
| "show_backend_error ProcessNotRunning = ''hypervisor process for this instance is no longer running''"

fun show_network_error :: "network_error \<Rightarrow> string" where
  "show_network_error (HostPortZero g) =
     ''network.port_forwards['' @ show_word g @ '']: host_port must be 1..=65535 (got 0)''"
| "show_network_error (GuestPortZero h) =
     ''network.port_forwards['' @ show_word h @ '']: guest_port must be 1..=65535 (got 0)''"
| "show_network_error ForwardsNeedNat = ''network.port_forwards are only supported with mode = nat''"

fun show_config_error :: "config_error \<Rightarrow> string" where
  "show_config_error ZeroCores = ''cpu.cores must be at least 1''"
| "show_config_error ZeroMemory = ''memory.size_bytes must be greater than 0''"
| "show_config_error ZeroDisk = ''disk.size_bytes must be greater than 0''"
| "show_config_error (GpuHostmemOutOfRange mib) =
     ''gpu.hostmem_bytes '' @ show_word mib @ '' MiB is outside the sane range (256-16384 MiB)''"
| "show_config_error (ZeroResolution w h) =
     ''display resolution must be non-zero (got '' @ show_word w @ ''x'' @ show_word h @ '')''"
| "show_config_error (ExtraDiskZero p) = ''extra disk '' @ p @ '' has size 0; attach it with a positive --size''"
| "show_config_error (NetworkInvalid e) = show_network_error e"

definition check_valid :: "instance_config \<Rightarrow> daemon_error + unit" where
  "check_valid c = map_err (\<lambda>e. InvalidConfig (show_config_error e)) (validate c)"

section \<open>Talking to a supervisor\<close>

definition handle_for :: "instance_id \<Rightarrow> registry \<Rightarrow> daemon_error + instance_handle" where
  "handle_for i reg = ok_or (InstanceNotFound i) (registered reg i)"

definition backend_for :: "daemon_env \<Rightarrow> backend_kind \<Rightarrow> daemon_error + backend" where
  "backend_for d k = ok_or (NoBackendRegistered k) (dm_backends d k)"

definition backend_handle_of :: "instance_id \<Rightarrow> instance_handle \<Rightarrow> daemon_error + backend_handle" where
  "backend_handle_of i h = ok_or (BackendErr (HandleNotFound (show_instance_id i))) (handle_backend h)"

definition backend_and_handle :: "daemon_env \<Rightarrow> instance_id \<Rightarrow> registry \<Rightarrow> daemon_error + (backend \<times> backend_handle)" where
  "backend_and_handle d i reg =
     rbind (handle_for i reg) (\<lambda>h.
       rbind (backend_handle_of i h) (\<lambda>bh.
         rbind (backend_for d (ic_backend (handle_config h))) (\<lambda>bk. Inr (bk, bh))))"

text \<open>One command to the supervisor of an instance.\<close>

definition with_supervisor :: "instance_id \<Rightarrow> (supervisor \<Rightarrow> supervisor) \<Rightarrow> registry \<Rightarrow> registry" where
  "with_supervisor i f reg =
     (case registered reg i of None \<Rightarrow> reg | Some h \<Rightarrow> AList.update i (h\<lparr>ih_sup := f (ih_sup h)\<rparr>) reg)"

definition send_transition ::
    "daemon_env \<Rightarrow> write_io \<Rightarrow> instance_id \<Rightarrow> instance_event \<Rightarrow> registry \<Rightarrow> (daemon_error + instance_state) \<times> registry" where
  "send_transition d io i ev reg =
     (case registered reg i of
        None \<Rightarrow> (Inl (InstanceSupervisorGone i), reg)
      | Some h \<Rightarrow> (map_err TransitionError (fst (apply_transition (dm_sup d i) io ev (ih_sup h))),
          with_supervisor i (\<lambda>s. snd (apply_transition (dm_sup d i) io ev s)) reg))"

definition send_set_handle :: "instance_id \<Rightarrow> backend_handle option \<Rightarrow> registry \<Rightarrow> (daemon_error + unit) \<times> registry" where
  "send_set_handle i bh reg =
     (case registered reg i of
        None \<Rightarrow> (Inl (InstanceSupervisorGone i), reg)
      | Some _ \<Rightarrow> (Inr (), with_supervisor i (set_handle bh) reg))"

section \<open>Registering, resolving\<close>

definition register_instance ::
    "daemon_env \<Rightarrow> instance_config \<Rightarrow> string \<Rightarrow> toml_file option \<Rightarrow> registry \<Rightarrow> (daemon_error + instance_id) \<times> registry" where
  "register_instance d c dir file reg =
     (case rbind (check_valid c) (\<lambda>_. backend_for d (ic_backend c)) of
        Inl err \<Rightarrow> (Inl err, reg)
      | Inr _ \<Rightarrow> (Inr (ic_id c),
          AList.update (ic_id c) \<lparr>ih_dir = dir, ih_sup = spawn_supervisor c Created None file\<rparr> reg))"

definition is_hex_digit :: "char \<Rightarrow> bool" where
  "is_hex_digit c \<longleftrightarrow> is_digit c \<or> (97 \<le> byte c \<and> byte c \<le> 102) \<or> (65 \<le> byte c \<and> byte c \<le> 70)"

definition ref_matches :: "string \<Rightarrow> instance_id list \<Rightarrow> instance_id list" where
  "ref_matches needle ids =
     remdups_adj (sort_key show_instance_id (filter (\<lambda>i. starts_with needle (show_instance_id i)) ids))"

definition resolve_instance_id :: "string \<Rightarrow> instance_id list \<Rightarrow> instance_id list \<Rightarrow> daemon_error + instance_id" where
  "resolve_instance_id raw supervisors broken =
     (if raw = [] then Inl (ReqErr EmptyInstanceRef)
      else (let needle = to_lower raw in
        if \<not> list_all is_hex_digit needle then Inl (ReqErr (MalformedInstanceRef raw))
        else if length needle = INSTANCE_ID_HEX_LEN
        then map_err (\<lambda>_. ReqErr (MalformedInstanceRef raw)) (parse_instance_id needle)
        else (case ref_matches needle (supervisors @ broken) of
            [] \<Rightarrow> Inl (ReqErr (InstanceRefNotFound raw))
          | [i] \<Rightarrow> Inr i
          | matches \<Rightarrow> Inl (ReqErr (AmbiguousInstanceId raw matches)))))"

section \<open>Starting\<close>

definition check_files :: "(string \<Rightarrow> string) \<Rightarrow> host_system \<Rightarrow> string list \<Rightarrow> backend_error + unit" where
  "check_files message host paths =
     (case List.find (\<lambda>p. \<not> hs_exists host p) paths of None \<Rightarrow> Inr () | Some p \<Rightarrow> Inl (BackendIo (message p)))"

definition validate_instance_files :: "host_system \<Rightarrow> instance_config \<Rightarrow> backend_error + unit" where
  "validate_instance_files host c =
     rbind (check_files (\<lambda>p. ''disk file not found: '' @ p @ '' (was the instance directory moved or deleted?)'')
              host [disk_path (ic_disk c)]) (\<lambda>_.
       rbind (check_files (\<lambda>p. ''OVMF_VARS file not found: '' @ p @ '' (was the instance directory moved or deleted?)'')
              host (if fw_enable_uefi (ic_firmware c) then [fw_ovmf_vars (ic_firmware c)] else [])) (\<lambda>_.
         check_files (\<lambda>p. ''extra disk file not found: '' @ p @ '' (attached disk was moved or deleted?)'')
              host (map disk_path (ic_extra_disks c))))"

text \<open>The critical section under the start lock; \<open>c\<close> was read before the lock was taken.\<close>

definition claim_start :: "daemon_env \<Rightarrow> write_io \<Rightarrow> instance_id \<Rightarrow> instance_config \<Rightarrow> registry \<Rightarrow> (daemon_error + unit) \<times> registry" where
  "claim_start d io i c reg =
     (case start_gates (dm_host d) i c reg of
        Inl err \<Rightarrow> (Inl err, reg)
      | Inr _ \<Rightarrow> (let (r, reg') = send_transition d io i Start reg in (rbind r (\<lambda>_. Inr ()), reg')))"

definition finish_start :: "daemon_env \<Rightarrow> write_io \<Rightarrow> instance_id \<Rightarrow> instance_config \<Rightarrow> registry \<Rightarrow> (daemon_error + unit) \<times> registry" where
  "finish_start d io i c reg =
     (case backend_for d (ic_backend c) of
        Inl err \<Rightarrow> (Inl err, reg)
      | Inr bk \<Rightarrow>
          (case rbind (validate_instance_files (dm_host d) c) (\<lambda>_. bk_spawn bk c) of
             Inr bh \<Rightarrow>
               (case send_set_handle i (Some bh) reg of
                  (Inl err, reg1) \<Rightarrow> (Inl err, reg1)
                | (Inr _, reg1) \<Rightarrow>
                    (let (r, reg2) = send_transition d io i StartCompleted reg1 in (rbind r (\<lambda>_. Inr ()), reg2)))
           | Inl err \<Rightarrow>
               (case send_transition d io i (Fail (show_backend_error err)) reg of
                  (Inl err', reg1) \<Rightarrow> (Inl err', reg1)
                | (Inr _, reg1) \<Rightarrow> (Inl (BackendErr err), reg1))))"

definition do_start_instance :: "daemon_env \<Rightarrow> write_io \<Rightarrow> write_io \<Rightarrow> instance_id \<Rightarrow> registry \<Rightarrow> (daemon_error + unit) \<times> registry" where
  "do_start_instance d io1 io2 i reg =
     (case handle_for i reg of
        Inl err \<Rightarrow> (Inl err, reg)
      | Inr h \<Rightarrow>
          (case claim_start d io1 i (handle_config h) reg of
             (Inl err, reg1) \<Rightarrow> (Inl err, reg1)
           | (Inr _, reg1) \<Rightarrow> finish_start d io2 i (handle_config h) reg1))"

section \<open>Stopping, pausing, process exit\<close>

definition stop_instance ::
    "daemon_env \<Rightarrow> write_io \<Rightarrow> write_io \<Rightarrow> instance_id \<Rightarrow> bool \<Rightarrow> registry \<Rightarrow> (daemon_error + unit) \<times> registry" where
  "stop_instance d io1 io2 i graceful reg =
     (case rbind (handle_for i reg) (\<lambda>h.
        case handle_state h of
          Error m \<Rightarrow> Inl (LifeErr (InstanceAlreadyStopped i m))
        | _ \<Rightarrow> rbind (backend_handle_of i h) (\<lambda>bh.
            rbind (backend_for d (ic_backend (handle_config h))) (\<lambda>bk. Inr (bk, bh)))) of
        Inl err \<Rightarrow> (Inl err, reg)
      | Inr (bk, bh) \<Rightarrow>
          (case send_transition d io1 i Stop reg of
             (Inl err, reg1) \<Rightarrow> (Inl err, reg1)
           | (Inr _, reg1) \<Rightarrow>
               (case bk_stop bk bh graceful of
                  Inr _ \<Rightarrow>
                    (case send_set_handle i None reg1 of
                       (Inl err, reg2) \<Rightarrow> (Inl err, reg2)
                     | (Inr _, reg2) \<Rightarrow>
                         (let (r, reg3) = send_transition d io2 i StopCompleted reg2 in (rbind r (\<lambda>_. Inr ()), reg3)))
                | Inl err \<Rightarrow>
                    (case send_transition d io2 i (Fail (show_backend_error err)) reg1 of
                       (Inl err', reg2) \<Rightarrow> (Inl err', reg2)
                     | (Inr _, reg2) \<Rightarrow> (Inl (BackendErr err), reg2)))))"

text \<open>\<open>apply_event_and_persist\<close>: a refused transition is logged only.\<close>

definition apply_event_and_persist :: "daemon_env \<Rightarrow> write_io \<Rightarrow> instance_id \<Rightarrow> instance_event \<Rightarrow> registry \<Rightarrow> registry" where
  "apply_event_and_persist d io i ev reg = snd (send_transition d io i ev reg)"

definition pause_instance :: "daemon_env \<Rightarrow> write_io \<Rightarrow> instance_id \<Rightarrow> registry \<Rightarrow> (daemon_error + unit) \<times> registry" where
  "pause_instance d io i reg =
     (case backend_and_handle d i reg of
        Inl err \<Rightarrow> (Inl err, reg)
      | Inr (bk, bh) \<Rightarrow>
          (case bk_pause bk bh of
             Inl err \<Rightarrow> (Inl (BackendErr err), reg)
           | Inr _ \<Rightarrow> (Inr (), apply_event_and_persist d io i Pause reg)))"

definition resume_instance :: "daemon_env \<Rightarrow> write_io \<Rightarrow> instance_id \<Rightarrow> registry \<Rightarrow> (daemon_error + unit) \<times> registry" where
  "resume_instance d io i reg =
     (case backend_and_handle d i reg of
        Inl err \<Rightarrow> (Inl err, reg)
      | Inr (bk, bh) \<Rightarrow>
          (case bk_resume bk bh of
             Inl err \<Rightarrow> (Inl (BackendErr err), reg)
           | Inr _ \<Rightarrow> (Inr (), apply_event_and_persist d io i Resume reg)))"

fun exit_message :: "instance_state \<Rightarrow> string" where
  "exit_message s =
     ''QEMU process exited unexpectedly while in '' @
       (case s of Running \<Rightarrow> ''Running'' | Paused \<Rightarrow> ''Paused'' | _ \<Rightarrow> ''Starting'') @ '' (see qemu.log)''"

definition process_exited :: "daemon_env \<Rightarrow> write_io \<Rightarrow> instance_id \<Rightarrow> registry \<Rightarrow> registry" where
  "process_exited d io i reg =
     (case registered reg i of
        None \<Rightarrow> reg
      | Some h \<Rightarrow>
          (if occupies (handle_state h)
           then snd (send_transition d io i (Fail (exit_message (handle_state h))) reg)
           else reg))"

section \<open>Removing\<close>

definition live_clones :: "instance_id \<Rightarrow> registry \<Rightarrow> daemon_error + instance_id list" where
  "live_clones i reg =
     rbind (handle_for i reg) (\<lambda>h. Inr (map fst (filter (\<lambda>(j, k).
       j \<noteq> i \<and> disk_base_image (ic_disk (handle_config k)) = Some (disk_path (ic_disk (handle_config h)))) reg)))"

definition remove_instance :: "instance_id \<Rightarrow> bool \<Rightarrow> registry \<Rightarrow> (daemon_error + unit) \<times> registry" where
  "remove_instance i purge reg =
     (case rbind (if purge
              then rbind (live_clones i reg) (\<lambda>cs. if cs = [] then Inr () else Inl (LifeErr (InstanceHasLiveClones i cs)))
              else Inr ()) (\<lambda>_.
            rbind (handle_for i reg) (\<lambda>h.
              if is_disk_idle (handle_state h) then Inr () else Inl (LifeErr (InstanceNotRemovable i (handle_state h))))) of
        Inl err \<Rightarrow> (Inl err, reg)
      | Inr _ \<Rightarrow> (Inr (), AList.delete i reg))"

section \<open>Configuring\<close>

definition instance_dir_of :: "instance_config \<Rightarrow> string" where
  "instance_dir_of c = parent_or_empty (disk_path (ic_disk c))"

definition parse_resolution :: "string \<Rightarrow> daemon_error + resolution" where
  "parse_resolution value =
     (let bad = Inl (ReqErr (InvalidConfigKey (OtherKeyMessage ''display.resolution expects WxH, e.g. 1920x1080''))) in
      case split_once (CHR ''x'') value of
        None \<Rightarrow> bad
      | Some (w, h) \<Rightarrow>
          (case (parse_u32 w, parse_u32 h) of
             (Some w', Some h') \<Rightarrow> if 0 < w' \<and> 0 < h' then Inr \<lparr>res_width = w', res_height = h'\<rparr> else bad
           | _ \<Rightarrow> bad))"

definition apply_live_key ::
    "daemon_env \<Rightarrow> instance_id \<Rightarrow> instance_config \<Rightarrow> instance_state \<Rightarrow> string \<Rightarrow> string \<Rightarrow> registry
       \<Rightarrow> daemon_error + resolution option" where
  "apply_live_key d i c st key value reg =
     (if key = ''display.resolution''
      then rbind (parse_resolution value) (\<lambda>r.
        if st = Running \<or> st = Paused
        then rbind (backend_and_handle d i reg) (\<lambda>(bk, bh).
          rbind (map_err BackendErr (bk_set_resolution bk bh r (ic_kind c))) (\<lambda>_. Inr (Some r)))
        else Inr None)
      else Inr None)"

definition edited_config :: "instance_config \<Rightarrow> string \<Rightarrow> string \<Rightarrow> daemon_error + instance_config" where
  "edited_config c key value =
     rbind (map_err from_config_key_error (set_key c key value)) (\<lambda>c'. rbind (check_valid c') (\<lambda>_. Inr c'))"

text \<open>The file is written next to the disk, then once more by the supervisor in its directory.\<close>

definition write_and_set ::
    "sup_env \<Rightarrow> write_io \<Rightarrow> write_io \<Rightarrow> bool \<Rightarrow> instance_config \<Rightarrow> resolution option \<Rightarrow> supervisor \<Rightarrow> supervisor" where
  "write_and_set e io1 io2 own_dir c live s =
     set_config e io2 c live (if own_dir then s\<lparr>sup_file := write_instance_toml e io1 c (sup_file s)\<rparr> else s)"

definition set_instance_config ::
    "daemon_env \<Rightarrow> write_io \<Rightarrow> write_io \<Rightarrow> instance_id \<Rightarrow> string \<Rightarrow> string \<Rightarrow> registry \<Rightarrow> (daemon_error + unit) \<times> registry" where
  "set_instance_config d io1 io2 i key value reg =
     (case handle_for i reg of
        Inl err \<Rightarrow> (Inl err, reg)
      | Inr h \<Rightarrow>
          (let snap = fst (reload_config (dm_sup d i) (ih_sup h));
               reg1 = with_supervisor i (\<lambda>s. snd (reload_config (dm_sup d i) s)) reg;
               c = cs_config snap
           in case cs_file_error snap of
                Some m \<Rightarrow> (Inl (ReqErr (ConfigFileInvalid (path_join (instance_dir_of c) ''instance.toml'') m)), reg1)
              | None \<Rightarrow>
                  (case apply_live_key d i c (handle_state h) key value reg1 of
                     Inl err \<Rightarrow> (Inl err, reg1)
                   | Inr live \<Rightarrow>
                       (case edited_config c key value of
                          Inl err \<Rightarrow> (Inl err, reg1)
                        | Inr c' \<Rightarrow> (Inr (),
                            with_supervisor i (write_and_set (dm_sup d i) io1 io2 (instance_dir_of c = ih_dir h) c' live) reg1)))))"

fun same_kind :: "instance_kind \<Rightarrow> instance_kind \<Rightarrow> bool" where
  "same_kind (LinuxVm _ _) (LinuxVm _ _) = True"
| "same_kind (AndroidVm _) (AndroidVm _) = True"
| "same_kind _ _ = False"

definition update_instance_config ::
    "daemon_env \<Rightarrow> write_io \<Rightarrow> write_io \<Rightarrow> instance_id \<Rightarrow> instance_config \<Rightarrow> registry \<Rightarrow> (daemon_error + unit) \<times> registry" where
  "update_instance_config d io1 io2 i c reg =
     (case rbind (if ic_id c \<noteq> i then Inl (ReqErr (ConfigIdMismatch i (ic_id c))) else check_valid c) (\<lambda>_.
        rbind (handle_for i reg) (\<lambda>h.
          if \<not> is_disk_idle (handle_state h) then Inl (LifeErr (InstanceMustBeStopped i (handle_state h)))
          else if \<not> same_kind (ic_kind (handle_config h)) (ic_kind c) then Inl (ReqErr (ConfigKindChanged i))
          else if disk_path (ic_disk (handle_config h)) \<noteq> disk_path (ic_disk c) then Inl (ReqErr (ConfigDiskPathChanged i))
          else Inr ())) of
        Inl err \<Rightarrow> (Inl err, reg)
      | Inr _ \<Rightarrow> (Inr (), with_supervisor i (write_and_set (dm_sup d i) io1 io2 True c None) reg))"

end
