(* ===== verification/RegistryRuns.thy ===== *)
theory RegistryRuns
  imports Registry
begin

text \<open>
  What holds of every run of the registry. A run is any interleaving of the steps of the daemon:
  claims, commands to supervisors (hotplug's and maintenance's included), completions, registrations
  in any state. It records which instances got resources past the start gates; two occupied
  instances off that list share no host port, disk or pinned CPU. The operations that start, stop,
  register, remove and configure an instance are runs that add no one to the list when nothing
  else runs between their steps.
\<close>

section \<open>Editing a key keeps the exclusive resources\<close>

definition same_resources :: "instance_config \<Rightarrow> instance_config \<Rightarrow> bool" where
  "same_resources a b \<longleftrightarrow>
     host_ports a = host_ports b \<and> disk_paths a = disk_paths b \<and> pinned_cpus a = pinned_cpus b"

lemma same_resources_refl [simp]: "same_resources c c"
  by (simp add: same_resources_def)

definition row_keeps :: "config_key \<Rightarrow> bool" where
  "row_keeps row \<longleftrightarrow>
     (case ck_set row of None \<Rightarrow> True | Some f \<Rightarrow> (\<forall>c v c'. f c v = Inr c' \<longrightarrow> same_resources c c'))"

lemmas setter_unfolds = bool_set_def u32_set_def text_set_def enum_set_def cpu_priority_set_def memory_size_set_def
  hostmem_set_def disk_snapshot_timeout_set_def resolution_set_def render_backend_set_def network_mode_set_def

lemmas resource_defs = same_resources_def host_ports_def disk_paths_def pinned_cpus_def

lemma keeps_bool: "bool_set upd c v = Inr c' \<Longrightarrow> (\<And>b c. same_resources c (upd b c)) \<Longrightarrow> same_resources c c'"
  by (auto simp: bool_set_def rbind_eq_Inr)

lemma keeps_u32: "u32_set k upd c v = Inr c' \<Longrightarrow> (\<And>b c. same_resources c (upd b c)) \<Longrightarrow> same_resources c c'"
  by (auto simp: u32_set_def rbind_eq_Inr)

lemma keeps_text: "text_set k upd c v = Inr c' \<Longrightarrow> (\<And>b c. same_resources c (upd b c)) \<Longrightarrow> same_resources c c'"
  by (auto simp: text_set_def split: if_splits)

lemma keeps_enum: "enum_set t upd c v = Inr c' \<Longrightarrow> (\<And>b c. same_resources c (upd b c)) \<Longrightarrow> same_resources c c'"
  by (auto simp: enum_set_def rbind_eq_Inr)

lemma keeps_special:
  "cpu_priority_set c v = Inr c' \<Longrightarrow> same_resources c c'"
  "memory_size_set c v = Inr c' \<Longrightarrow> same_resources c c'"
  "hostmem_set c v = Inr c' \<Longrightarrow> same_resources c c'"
  "disk_snapshot_timeout_set c v = Inr c' \<Longrightarrow> same_resources c c'"
  "resolution_set c v = Inr c' \<Longrightarrow> same_resources c c'"
  "render_backend_set c v = Inr c' \<Longrightarrow> same_resources c c'"
  "network_mode_set c v = Inr c' \<Longrightarrow> same_resources c c'"
  by (auto simp: cpu_priority_set_def memory_size_set_def hostmem_set_def disk_snapshot_timeout_set_def
      resolution_set_def render_backend_set_def network_mode_set_def rbind_eq_Inr resource_defs Let_def
      split: if_splits option.splits prod.splits)

lemmas keeps_rules = keeps_bool keeps_u32 keeps_text keeps_enum keeps_special

lemma key_rows_keep: "\<forall>row \<in> set config_keys. row_keeps row"
  unfolding config_keys_def set_append ball_Un key_row_defs list.set ball_simps row_keeps_def config_key.sel option.case
  by (intro conjI TrueI allI impI; elim keeps_rules; simp add: resource_defs)

lemma set_key_keeps: "set_key c k v = Inr c' \<Longrightarrow> same_resources c c'"
proof -
  assume s: "set_key c k v = Inr c'"
  then obtain row f where r: "find_key k = Some row" "ck_set row = Some f" "f c v = Inr c'"
    by (auto simp: set_key_ok_iff)
  have "row_keeps row" using find_key_Some[OF r(1)] key_rows_keep by blast
  then show ?thesis using r(2,3) by (simp add: row_keeps_def)
qed

section \<open>Runs of the registry\<close>

text \<open>The steps of the daemon. A start claims its instance under the start lock with a configuration
  that was read before, so that \<open>c\<close> is any configuration; a command is any command to a
  supervisor, hotplug's configuration and the bare \<open>Start\<close> of a maintenance boot included; an
  instance may be registered in any state, as an adopted one is.\<close>

datatype reg_action =
    Claim instance_id instance_config
  | Send instance_id command
  | TaskReports instance_id nat
  | TaskEnds instance_id nat
  | TaskHeard instance_id nat
  | FileChanges instance_id
  | Register instance_id instance_config instance_state
  | Unregister instance_id

inductive reg_step :: "daemon_env \<Rightarrow> registry \<Rightarrow> reg_action \<Rightarrow> registry \<Rightarrow> bool" for d where
  step_claim: "registered reg i = Some h \<Longrightarrow> reg_step d reg (Claim i c) (snd (claim_start d io i c reg))"
| step_sup_command: "registered reg i = Some h \<Longrightarrow>
    reg_step d reg (Send i c) (with_supervisor i (handle_command (dm_sup d i) io c) reg)"
| step_sup_progress: "registered reg i = Some h \<Longrightarrow> seq \<in> sup_tasks (ih_sup h) \<Longrightarrow>
    reg_step d reg (TaskReports i seq) (with_supervisor i (task_progress seq t) reg)"
| step_sup_task_ends: "registered reg i = Some h \<Longrightarrow> seq \<in> sup_tasks (ih_sup h) \<Longrightarrow>
    reg_step d reg (TaskEnds i seq) (with_supervisor i
      (\<lambda>s. s\<lparr>sup_tasks := sup_tasks s - {seq}, sup_done_queue := sup_done_queue s @ [seq]\<rparr>) reg)"
| step_sup_done: "registered reg i = Some h \<Longrightarrow> sup_done_queue (ih_sup h) = seq # rest \<Longrightarrow>
    reg_step d reg (TaskHeard i seq) (with_supervisor i (\<lambda>s. op_done seq (s\<lparr>sup_done_queue := rest\<rparr>)) reg)"
| step_file: "reg_step d reg (FileChanges i) (with_supervisor i (\<lambda>s. s\<lparr>sup_file := f\<rparr>) reg)"
| step_register: "reg_step d reg (Register i c st)
    (AList.update i \<lparr>ih_dir = dir, ih_sup = spawn_supervisor c st bh file\<rparr> reg)"
| step_remove: "reg_step d reg (Unregister i) (AList.delete i reg)"

text \<open>The command gives the instance no resource while it occupies what it has.\<close>

fun keeps_resources :: "supervisor \<Rightarrow> command \<Rightarrow> bool" where
  "keeps_resources s (Transition ev) = (ev \<noteq> Start)"
| "keeps_resources s (SetConfig c live) = (occupies (sup_state s) \<longrightarrow> same_resources (sup_config s) c)"
| "keeps_resources s _ = True"

text \<open>The instance that gets hold of resources past the start gates: by a claim that was checked for
  another configuration than the instance has, a configuration with other resources set while it
  occupies the old ones, a \<open>Start\<close> without a claim, or registration in an occupying state.\<close>

fun past_gates :: "registry \<Rightarrow> reg_action \<Rightarrow> instance_id set" where
  "past_gates reg (Claim i c) = {j. j = i \<and> (\<exists>h. registered reg i = Some h \<and> \<not> same_resources (handle_config h) c)}"
| "past_gates reg (Send i c) = {j. j = i \<and> (\<exists>h. registered reg i = Some h \<and> \<not> keeps_resources (ih_sup h) c)}"
| "past_gates reg (Register i c st) = {j. j = i \<and> occupies st}"
| "past_gates reg _ = {}"

text \<open>A run, with the instances that occupy resources they got past the gates: \<open>reg_run d r B s C\<close> leads
  from \<open>r\<close> and \<open>B\<close> to \<open>s\<close> and \<open>C\<close>. An instance that has let go of its resources is off the list.\<close>

inductive reg_run :: "daemon_env \<Rightarrow> registry \<Rightarrow> instance_id set \<Rightarrow> registry \<Rightarrow> instance_id set \<Rightarrow> bool" for d r B where
  run_start: "reg_run d r B r B"
| run_step: "reg_run d r B s C \<Longrightarrow> reg_step d s a t \<Longrightarrow> reg_run d r B t (holding t (C \<union> past_gates s a))"

text \<open>Runs in which nothing gets past the gates.\<close>

definition reg_reach :: "daemon_env \<Rightarrow> registry \<Rightarrow> registry \<Rightarrow> bool" where
  "reg_reach d r s \<longleftrightarrow> (\<forall>B. \<exists>C \<subseteq> B. reg_run d r B s C)"

definition reg_ok :: "registry \<Rightarrow> bool" where
  "reg_ok reg \<longleftrightarrow> distinct (map fst reg) \<and> (\<forall>i h. registered reg i = Some h \<longrightarrow> sup_ok (ih_sup h))"

definition exclusive :: "instance_id set \<Rightarrow> registry \<Rightarrow> bool" where
  "exclusive B reg \<longleftrightarrow> disjoint_over B host_ports reg \<and> disjoint_over B disk_paths reg \<and> disjoint_over B pinned_cpus reg"

lemma exclusive_mono: "exclusive B reg \<Longrightarrow> B \<subseteq> C \<Longrightarrow> exclusive C reg"
  by (simp add: exclusive_def disjoint_over_mono[where B = B])

lemma exclusive_holding: "exclusive (holding reg B) reg = exclusive B reg"
  by (simp add: exclusive_def disjoint_over_holding)

lemma reg_okD:
  "reg_ok reg \<Longrightarrow> distinct (map fst reg)"
  "reg_ok reg \<Longrightarrow> registered reg i = Some h \<Longrightarrow> sup_ok (ih_sup h)"
  by (simp_all add: reg_ok_def)

lemma published_same:
  assumes "sup_ok (ih_sup h)"
  shows "handle_state h = sup_state (ih_sup h)" "handle_config h = sup_config (ih_sup h)"
    "handle_backend h = sup_handle (ih_sup h)"
  using assms by (simp_all add: sup_ok_def rest_published_def handle_state_def handle_config_def handle_backend_def)

lemma with_supervisor_update:
  "registered reg i = Some h \<Longrightarrow> with_supervisor i f reg = AList.update i (h\<lparr>ih_sup := f (ih_sup h)\<rparr>) reg"
  by (simp add: with_supervisor_def)

text \<open>Replacing one entry: what has to hold of the new one.\<close>

lemma reg_ok_update: "reg_ok reg \<Longrightarrow> sup_ok (ih_sup h') \<Longrightarrow> reg_ok (AList.update i h' reg)"
  by (auto simp: reg_ok_def registered_update distinct_update)

lemma exclusive_quiet:
  assumes ex: "exclusive B reg" and h: "registered reg i = Some h" and ok: "sup_ok (ih_sup h)" "sup_ok s"
    and quiet: "i \<notin> B \<Longrightarrow> occupies (sup_state s) \<Longrightarrow>
      occupies (sup_state (ih_sup h)) \<and> same_resources (sup_config (ih_sup h)) (sup_config s)"
  shows "exclusive B (AList.update i (h\<lparr>ih_sup := s\<rparr>) reg)"
proof -
  note old = published_same[OF ok(1)]
  have new: "handle_state (h\<lparr>ih_sup := s\<rparr>) = sup_state s" "handle_config (h\<lparr>ih_sup := s\<rparr>) = sup_config s"
    using published_same[of "h\<lparr>ih_sup := s\<rparr>"] ok(2) by simp_all
  have res: "i \<notin> B \<Longrightarrow> occupies (handle_state (h\<lparr>ih_sup := s\<rparr>)) \<Longrightarrow> occupies (handle_state h) \<and>
      same_resources (handle_config h) (handle_config (h\<lparr>ih_sup := s\<rparr>))"
    using quiet by (simp add: old new)
  have dis: "disjoint_over B host_ports reg" "disjoint_over B disk_paths reg" "disjoint_over B pinned_cpus reg"
    using ex by (simp_all add: exclusive_def)
  have "disjoint_over B host_ports (AList.update i (h\<lparr>ih_sup := s\<rparr>) reg)"
    by (rule port_gate.quiet_update_disjoint[OF dis(1) h]) (use res in \<open>simp add: same_resources_def\<close>)
  moreover have "disjoint_over B disk_paths (AList.update i (h\<lparr>ih_sup := s\<rparr>) reg)"
    by (rule disk_gate.quiet_update_disjoint[OF dis(2) h]) (use res in \<open>simp add: same_resources_def\<close>)
  moreover have "disjoint_over B pinned_cpus (AList.update i (h\<lparr>ih_sup := s\<rparr>) reg)"
    by (rule cpu_gate.quiet_update_disjoint[OF dis(3) h]) (use res in \<open>simp add: same_resources_def\<close>)
  ultimately show ?thesis by (simp add: exclusive_def)
qed

section \<open>The supervisor's part\<close>

lemma transition_config:
  assumes "apply_event (sup_state s) ev = Inr t" "\<not> is_disk_idle t"
  shows "sup_config (snd (apply_transition e io ev s)) = sup_config s"
    "sup_state (snd (apply_transition e io ev s)) = t"
proof -
  define s2 where "s2 = (if ends_or_starts_run t then reset_ladder (s\<lparr>sup_state := t\<rparr>) else s\<lparr>sup_state := t\<rparr>)"
  have st: "sup_state s2 = t" "sup_config s2 = sup_config s" by (simp_all add: s2_def reset_ladder_frame)
  have "sup_config (persist e io s2) = sup_config s"
    using reload_busy_config[of s2 e] assms(2) st by (simp add: persist_config)
  then show "sup_config (snd (apply_transition e io ev s)) = sup_config s"
      "sup_state (snd (apply_transition e io ev s)) = t"
    unfolding transition_shape[OF assms(1)] s2_def[symmetric] using st by (simp_all add: persist_frame)
qed

lemma transition_state:
  "sup_state (snd (apply_transition e io ev s)) = (case apply_event (sup_state s) ev of Inl _ \<Rightarrow> sup_state s | Inr t \<Rightarrow> t)"
  by (cases "apply_event (sup_state s) ev")
    (simp add: apply_transition_def, simp add: transition_shape persist_frame reset_ladder_frame)

lemma occupied_from: "apply_event s ev = Inr t \<Longrightarrow> occupies t \<Longrightarrow> ev \<noteq> Start \<Longrightarrow> occupies s"
  by (erule apply_event_cases) simp_all

lemma quiet_transition:
  fixes s :: supervisor and e :: sup_env and io :: write_io
  assumes "ev \<noteq> Start"
  defines "s' \<equiv> snd (apply_transition e io ev s)"
  shows "occupies (sup_state s') \<Longrightarrow> occupies (sup_state s) \<and> sup_config s' = sup_config s"
proof (cases "apply_event (sup_state s) ev")
  case (Inl err)
  then have "s' = s" by (simp add: s'_def apply_transition_def)
  then show "occupies (sup_state s') \<Longrightarrow> ?thesis" by simp
next
  case (Inr t)
  then have t: "sup_state s' = t" by (simp add: s'_def transition_state)
  show "occupies (sup_state s') \<Longrightarrow> ?thesis"
    using transition_config(1)[OF Inr] occupied_from[OF Inr] occupies_busy[of t] assms t by auto
qed

lemma set_config_busy:
  assumes "\<not> is_disk_idle (sup_state s)"
  shows "sup_config (set_config e io c live s) = c" "sup_state (set_config e io c live s) = sup_state s"
proof -
  define s1 where "s1 = (case live of Some r \<Rightarrow> s\<lparr>sup_live_resolution := Some r\<rparr> | None \<Rightarrow> s)\<lparr>sup_config := c\<rparr>"
  have "sup_state (publish_config c (rebase_ladder s1)) = sup_state s" "sup_config (publish_config c (rebase_ladder s1)) = c"
    by (cases live; simp add: s1_def publish_config_def rebase_ladder_def reset_ladder_def publish_readiness_def)+
  then show "sup_config (set_config e io c live s) = c" "sup_state (set_config e io c live s) = sup_state s"
    using reload_busy_config[of "publish_config c (rebase_ladder s1)" e] assms
    by (simp_all add: set_config_def s1_def[symmetric] persist_config persist_frame)
qed

lemma set_config_state: "sup_state (set_config e io c live s) = sup_state s"
  by (cases live) (simp_all add: set_config_def Let_def persist_frame publish_config_def rebase_ladder_def
      reset_ladder_def publish_readiness_def)

lemma quiet_handle:
  assumes "keeps_resources s c" "occupies (sup_state (handle_command e io c s))"
  shows "occupies (sup_state s) \<and> same_resources (sup_config s) (sup_config (handle_command e io c s))"
proof (cases c)
  case (Transition ev)
  then show ?thesis using assms quiet_transition[of ev e io s] by simp
next
  case (SetConfig c' live)
  then show ?thesis using assms set_config_busy[of s e io c' live] occupies_busy[of "sup_state s"]
    by (simp add: set_config_state)
next
  case ReloadConfig
  then show ?thesis using assms reload_busy_config[of s e] occupies_busy[of "sup_state s"]
    by (simp add: reload_config_def Let_def reload_frame)
qed (use assms in \<open>simp_all add: set_handle_def start_operation_def start_id_operation_def accept_operation_def
      cancel_operation_def observe_readiness_def publish_readiness_def Let_def
      split: join_outcome.splits option.splits prod.splits if_splits\<close>)

section \<open>The invariant\<close>

lemma reg_ok_with:
  assumes "reg_ok reg" "\<And>h. registered reg i = Some h \<Longrightarrow> sup_ok (ih_sup h) \<Longrightarrow> sup_ok (f (ih_sup h))"
  shows "reg_ok (with_supervisor i f reg)"
proof (cases "registered reg i")
  case None
  then show ?thesis using assms(1) by (simp add: with_supervisor_def)
next
  case (Some h)
  then show ?thesis using assms reg_okD(2)[OF assms(1) Some] by (simp add: with_supervisor_update reg_ok_update)
qed

lemma exclusive_with:
  assumes "exclusive B reg" "registered reg i = Some h" "sup_ok (ih_sup h)" "sup_ok (f (ih_sup h))"
    and "i \<notin> B \<Longrightarrow> occupies (sup_state (f (ih_sup h))) \<Longrightarrow>
      occupies (sup_state (ih_sup h)) \<and> same_resources (sup_config (ih_sup h)) (sup_config (f (ih_sup h)))"
  shows "exclusive B (with_supervisor i f reg)"
  using exclusive_quiet[OF assms] assms(2) by (simp add: with_supervisor_update)

lemma start_gates_ok:
  "start_gates host i c reg = Inr () \<Longrightarrow> check_port_forward_conflicts i c reg = Inr ()
     \<and> check_disk_conflicts i c reg = Inr () \<and> check_cpu_affinity_conflicts i c reg = Inr ()"
  by (auto simp: start_gates_def rbind_eq_Inr)

lemma claim_result:
  assumes "registered reg i = Some h"
  shows "snd (claim_start d io i c reg) = reg \<or> (start_gates (dm_host d) i c reg = Inr () \<and>
    snd (claim_start d io i c reg) = AList.update i (h\<lparr>ih_sup := snd (apply_transition (dm_sup d i) io Start (ih_sup h))\<rparr>) reg)"
  using assms by (cases "start_gates (dm_host d) i c reg")
    (simp_all add: claim_start_def send_transition_def with_supervisor_update split: prod.split)

lemma claim_exclusive:
  assumes ok: "reg_ok reg" and ex: "exclusive B reg" and h: "registered reg i = Some h"
    and c: "i \<notin> B \<Longrightarrow> same_resources (handle_config h) c"
  shows "exclusive B (snd (claim_start d io i c reg))"
  using claim_result[OF h, of d io c]
proof (elim disjE conjE)
  define s' where "s' = snd (apply_transition (dm_sup d i) io Start (ih_sup h))"
  assume accepted: "start_gates (dm_host d) i c reg = Inr ()"
    and "snd (claim_start d io i c reg) = AList.update i (h\<lparr>ih_sup := snd (apply_transition (dm_sup d i) io Start (ih_sup h))\<rparr>) reg"
  then have res: "snd (claim_start d io i c reg) = AList.update i (h\<lparr>ih_sup := s'\<rparr>) reg" by (simp add: s'_def)
  note hok = reg_okD(2)[OF ok h]
  have s'ok: "sup_ok s'" using transition_ok[OF hok] by (simp add: s'_def)
  show ?thesis
  proof (cases "apply_event (sup_state (ih_sup h)) Start")
    case (Inl err)
    then have "s' = ih_sup h" by (simp add: s'_def apply_transition_def)
    then show ?thesis using exclusive_quiet[OF ex h hok s'ok] by (simp add: res)
  next
    case (Inr t)
    then have "t = Starting" by (auto elim: apply_event_cases)
    then have "sup_config s' = sup_config (ih_sup h)" using transition_config(1)[OF Inr] by (simp add: s'_def)
    then have cfg: "i \<notin> B \<Longrightarrow> same_resources (handle_config (h\<lparr>ih_sup := s'\<rparr>)) c"
      using published_same[OF hok] published_same[of "h\<lparr>ih_sup := s'\<rparr>"] s'ok c by simp
    have gates: "check_port_forward_conflicts i c reg = Inr () \<and> check_disk_conflicts i c reg = Inr ()
        \<and> check_cpu_affinity_conflicts i c reg = Inr ()"
      using start_gates_ok[of "dm_host d" i c reg] accepted by simp
    note parts = ok[unfolded reg_ok_def] ex[unfolded exclusive_def]
    have "disjoint_over B host_ports (AList.update i (h\<lparr>ih_sup := s'\<rparr>) reg)"
      by (rule port_gate.claim_disjoint[where c = c]) (use parts gates cfg in \<open>simp_all add: same_resources_def\<close>)
    moreover have "disjoint_over B disk_paths (AList.update i (h\<lparr>ih_sup := s'\<rparr>) reg)"
      by (rule disk_gate.claim_disjoint[where c = c]) (use parts gates cfg in \<open>simp_all add: same_resources_def\<close>)
    moreover have "disjoint_over B pinned_cpus (AList.update i (h\<lparr>ih_sup := s'\<rparr>) reg)"
      by (rule cpu_gate.claim_disjoint[where c = c]) (use parts gates cfg in \<open>simp_all add: same_resources_def\<close>)
    ultimately show ?thesis by (simp add: res exclusive_def)
  qed
qed (use ex in simp)

lemma reg_step_ok: "reg_step d r a t \<Longrightarrow> reg_ok r \<Longrightarrow> reg_ok t"
proof (induction rule: reg_step.induct)
  case (step_claim reg i h c io)
  show ?case using claim_result[OF step_claim(1), of d io c] step_claim(2)
    by (auto simp: transition_ok[OF reg_okD(2)[OF step_claim(2,1)]] intro!: reg_ok_update)
next
  case (step_sup_command reg i h c io)
  show ?case by (rule reg_ok_with[OF step_sup_command(2)]) (rule handle_command_ok)
next
  case (step_sup_progress reg i h seq t)
  show ?case by (rule reg_ok_with[OF step_sup_progress(3)]) (use sup_step_ok[OF step_progress] step_sup_progress in simp)
next
  case (step_sup_task_ends reg i h seq)
  show ?case by (rule reg_ok_with[OF step_sup_task_ends(3)]) (use sup_step_ok[OF step_task_ends] step_sup_task_ends in simp)
next
  case (step_sup_done reg i h seq rest)
  show ?case by (rule reg_ok_with[OF step_sup_done(3)]) (use sup_step_ok[OF step_done] step_sup_done in simp)
next
  case (step_file reg i f)
  show ?case by (rule reg_ok_with[OF step_file]) (rule sup_step_ok[OF step_file_edited])
next
  case (step_register reg i c st dir bh tf)
  then show ?case by (simp add: reg_ok_update spawn_ok)
next
  case (step_remove reg i)
  then show ?case using distinct_delete[of reg i] by (auto simp: reg_ok_def registered_delete split: if_splits)
qed

lemma reg_step_exclusive:
  "reg_step d r a t \<Longrightarrow> reg_ok r \<Longrightarrow> exclusive B r \<Longrightarrow> exclusive (B \<union> past_gates r a) t"
proof (induction rule: reg_step.induct)
  case (step_claim reg i h c io)
  show ?case
    by (rule claim_exclusive[OF step_claim(2) exclusive_mono[OF step_claim(3)] step_claim(1)]) (use step_claim(1) in auto)
next
  case (step_sup_command reg i h c io)
  note hok = reg_okD(2)[OF step_sup_command(2,1)]
  show ?case
  proof (rule exclusive_with[OF exclusive_mono[OF step_sup_command(3)] step_sup_command(1) hok])
    show "sup_ok (handle_command (dm_sup d i) io c (ih_sup h))" by (rule handle_command_ok[OF hok])
  next
    assume "i \<notin> B \<union> past_gates reg (Send i c)"
    then have "keeps_resources (ih_sup h) c" using step_sup_command(1) by simp
    then show "occupies (sup_state (handle_command (dm_sup d i) io c (ih_sup h))) \<Longrightarrow> occupies (sup_state (ih_sup h))
        \<and> same_resources (sup_config (ih_sup h)) (sup_config (handle_command (dm_sup d i) io c (ih_sup h)))"
      by (rule quiet_handle)
  qed simp
next
  case (step_sup_progress reg i h seq t)
  note hok = reg_okD(2)[OF step_sup_progress(3,1)]
  show ?case
    by (rule exclusive_with[OF exclusive_mono[OF step_sup_progress(4)] step_sup_progress(1) hok], simp,
        rule sup_step_ok[OF step_progress[OF step_sup_progress(2)] hok])
      (simp add: task_progress_def Let_def split: option.splits)
next
  case (step_sup_task_ends reg i h seq)
  note hok = reg_okD(2)[OF step_sup_task_ends(3,1)]
  show ?case
    by (rule exclusive_with[OF exclusive_mono[OF step_sup_task_ends(4)] step_sup_task_ends(1) hok], simp,
        rule sup_step_ok[OF step_task_ends[OF step_sup_task_ends(2)] hok]) simp
next
  case (step_sup_done reg i h seq rest)
  note hok = reg_okD(2)[OF step_sup_done(3,1)]
  show ?case
    by (rule exclusive_with[OF exclusive_mono[OF step_sup_done(4)] step_sup_done(1) hok], simp,
        rule sup_step_ok[OF step_done[OF step_sup_done(2)] hok]) (simp add: op_done_def split: if_splits)
next
  case (step_file reg i f)
  show ?case
  proof (cases "registered reg i")
    case None
    then show ?thesis using step_file by (simp add: with_supervisor_def)
  next
    case (Some h)
    note hok = reg_okD(2)[OF step_file(1) Some]
    show ?thesis
      by (rule exclusive_with[OF exclusive_mono[OF step_file(2)] Some hok], simp, rule sup_step_ok[OF step_file_edited hok]) simp
  qed
next
  case (step_register reg i c st dir bh tf)
  let ?h = "\<lparr>ih_dir = dir, ih_sup = spawn_supervisor c st bh tf\<rparr>" and ?B = "B \<union> past_gates reg (Register i c st)"
  have idle: "i \<notin> ?B \<Longrightarrow> \<not> occupies (handle_state ?h)" by (simp add: handle_state_def spawn_supervisor_def Let_def)
  have "exclusive ?B reg" using step_register(2) by (rule exclusive_mono) simp
  then show ?case
    using port_gate.insert_idle_disjoint disk_gate.insert_idle_disjoint cpu_gate.insert_idle_disjoint idle
    unfolding exclusive_def by blast
next
  case (step_remove reg i)
  then show ?case
    by (simp add: exclusive_def port_gate.delete_disjoint disk_gate.delete_disjoint cpu_gate.delete_disjoint)
qed

lemma reg_run_ok: "reg_run d r B s C \<Longrightarrow> reg_ok r \<Longrightarrow> reg_ok s"
  by (induction rule: reg_run.induct) (auto intro: reg_step_ok)

lemma reg_run_exclusive: "reg_run d r B s C \<Longrightarrow> reg_ok r \<Longrightarrow> exclusive B r \<Longrightarrow> exclusive C s"
proof (induction rule: reg_run.induct)
  case (run_step s C a t)
  then show ?case using reg_step_exclusive[OF run_step(2) reg_run_ok[OF run_step(1)]] by (simp add: exclusive_holding)
qed

lemma empty_registry: "reg_ok []" "exclusive B []"
  by (simp_all add: reg_ok_def exclusive_def registered_def disjoint_over_def)

text \<open>C3. Two instances that are starting, running or paused share a disk file, a host port or a pinned
  CPU only when one of them is on the list \<open>B\<close> of instances that got resources past the start gates:
  by a claim checked for a configuration that was no longer the instance's, by a configuration with
  other resources set while it occupied the old ones (as hotplug sets it), by a \<open>Start\<close> without a
  claim (as a maintenance boot sends it), or by registration as occupied (as adoption does). This
  holds in every registry that any run of steps reaches, in any order and interleaving.\<close>

theorem resources_exclusive:
  assumes "reg_run d [] {} reg B" "registered reg i = Some h" "registered reg j = Some k" "i \<noteq> j"
    and "occupies (handle_state h)" "occupies (handle_state k)" "i \<notin> B" "j \<notin> B"
  shows "set (disk_paths (handle_config h)) \<inter> set (disk_paths (handle_config k)) = {}
     \<and> set (host_ports (handle_config h)) \<inter> set (host_ports (handle_config k)) = {}
     \<and> set (pinned_cpus (handle_config h)) \<inter> set (pinned_cpus (handle_config k)) = {}"
proof -
  have "exclusive B reg" using reg_run_exclusive[OF assms(1) empty_registry] .
  then have d: "disjoint_over B disk_paths reg" "disjoint_over B host_ports reg" "disjoint_over B pinned_cpus reg"
    by (simp_all add: exclusive_def)
  show ?thesis by (intro conjI; rule disjoint_overD[OF _ assms(2-4,7,8,5,6)]; rule d)
qed

section \<open>The operations are runs\<close>

lemma reg_run_trans: "reg_run d s C t D \<Longrightarrow> reg_run d r B s C \<Longrightarrow> reg_run d r B t D"
  by (induction rule: reg_run.induct) (auto intro: run_step)

lemma reg_refl: "reg_reach d r r"
  unfolding reg_reach_def by (blast intro: run_start)

lemma reg_reach_trans: "reg_reach d s t \<Longrightarrow> reg_reach d r s \<Longrightarrow> reg_reach d r t"
  unfolding reg_reach_def by (meson reg_run_trans subset_trans)

lemma reg_reach_step: "reg_step d r a t \<Longrightarrow> past_gates r a = {} \<Longrightarrow> reg_reach d r t"
  unfolding reg_reach_def
proof
  fix B
  assume a: "reg_step d r a t" "past_gates r a = {}"
  have "holding t B \<subseteq> B" by (auto simp: holding_def)
  then show "\<exists>C \<subseteq> B. reg_run d r B t C" using run_step[OF run_start a(1), of B] a(2) by auto
qed

lemma registered_with: "registered (with_supervisor i f reg) j =
    (if j = i then map_option (\<lambda>h. h\<lparr>ih_sup := f (ih_sup h)\<rparr>) (registered reg i) else registered reg j)"
  by (auto simp: with_supervisor_def registered_update split: option.split)

lemma command_reach:
  assumes "\<And>h. registered reg i = Some h \<Longrightarrow> keeps_resources (ih_sup h) c"
  shows "reg_reach d reg (with_supervisor i (handle_command (dm_sup d i) io c) reg)"
proof (cases "registered reg i")
  case None
  then show ?thesis by (simp add: with_supervisor_def reg_refl)
next
  case (Some h)
  show ?thesis by (rule reg_reach_step[OF step_sup_command[OF Some]]) (use Some assms in simp)
qed

lemma command_functions:
  "handle_command e io (Transition ev) = (\<lambda>s. snd (apply_transition e io ev s))"
  "handle_command e io (SetHandle bh) = set_handle bh"
  "handle_command e io (SetConfig c live) = set_config e io c live"
  "handle_command e io ReloadConfig = (\<lambda>s. snd (reload_config e s))"
  by (rule ext, simp)+

lemma transition_reach: "ev \<noteq> Start \<Longrightarrow> reg_reach d reg (snd (send_transition d io i ev reg))"
  using command_reach[of reg i "Transition ev" d io]
  by (simp add: send_transition_def reg_refl command_functions split: option.split)

lemma set_handle_reach: "reg_reach d reg (snd (send_set_handle i bh reg))"
  using command_reach[of reg i "SetHandle bh" d "undefined"]
  by (simp add: send_set_handle_def reg_refl command_functions split: option.split)

lemma claim_reach: "registered reg i = Some h \<Longrightarrow> reg_reach d reg (snd (claim_start d io i (handle_config h) reg))"
  by (rule reg_reach_step[OF step_claim]) simp_all

text \<open>A continuation after one command.\<close>

lemma after_command:
  "reg_reach d reg (snd m) \<Longrightarrow> (\<And>e r. m = (Inl e, r) \<Longrightarrow> snd (f e r) = r) \<Longrightarrow>
     (\<And>x r. m = (Inr x, r) \<Longrightarrow> reg_reach d r (snd (g x r))) \<Longrightarrow>
     reg_reach d reg (snd (case m of (Inl e, r) \<Rightarrow> f e r | (Inr x, r) \<Rightarrow> g x r))"
  by (cases m; cases "fst m") (auto intro: reg_reach_trans)

lemma finish_reach: "reg_reach d reg (snd (finish_start d io i c reg))"
proof -
  have spawned: "reg_reach d reg (snd (case send_set_handle i (Some bh) reg of (Inl err, reg1) \<Rightarrow> (Inl err, reg1)
      | (Inr _, reg1) \<Rightarrow> (let (r, reg2) = send_transition d io i StartCompleted reg1 in (rbind r (\<lambda>_. Inr ()), reg2))))" for bh
    by (rule after_command[OF set_handle_reach]) (use transition_reach in \<open>auto simp: split_beta\<close>)
  have failed: "reg_reach d reg (snd (case send_transition d io i (Fail m) reg of (Inl err', reg1) \<Rightarrow> (Inl err', reg1)
      | (Inr _, reg1) \<Rightarrow> (Inl err, reg1)))" for m and err :: daemon_error
    by (rule after_command[OF transition_reach]) (simp_all add: reg_refl)
  show ?thesis unfolding finish_start_def
    by (cases "backend_for d (ic_backend c)"; simp only: sum.case)
      (simp add: reg_refl, simp only: spawned failed simp_thms split: sum.split)
qed

lemma start_reach: "reg_reach d reg (snd (do_start_instance d io1 io2 i reg))"
proof (cases "registered reg i")
  case None
  then show ?thesis by (simp add: do_start_instance_def handle_for_def reg_refl)
next
  case (Some h)
  then show ?thesis
    unfolding do_start_instance_def handle_for_def Some ok_or_simps sum.case
    by (intro after_command[OF claim_reach[OF Some]] finish_reach) simp
qed

lemma stop_reach: "reg_reach d reg (snd (stop_instance d io1 io2 i graceful reg))"
proof -
  have stopped: "reg_reach d r (snd (case send_set_handle i None r of (Inl err, reg2) \<Rightarrow> (Inl err, reg2)
      | (Inr _, reg2) \<Rightarrow> (let (x, reg3) = send_transition d io2 i StopCompleted reg2 in (rbind x (\<lambda>_. Inr ()), reg3))))" for r
    by (rule after_command[OF set_handle_reach]) (use transition_reach in \<open>auto simp: split_beta\<close>)
  have failed: "reg_reach d r (snd (case send_transition d io2 i (Fail m) r of (Inl err', reg1) \<Rightarrow> (Inl err', reg1)
      | (Inr _, reg1) \<Rightarrow> (Inl err, reg1)))" for r m and err :: daemon_error
    by (rule after_command[OF transition_reach]) (simp_all add: reg_refl)
  have rest: "reg_reach d reg (snd (case send_transition d io1 i Stop reg of (Inl err, reg1) \<Rightarrow> (Inl err, reg1)
      | (Inr _, reg1) \<Rightarrow> (case bk_stop bk bh graceful of
          Inr _ \<Rightarrow> (case send_set_handle i None reg1 of (Inl err, reg2) \<Rightarrow> (Inl err, reg2)
            | (Inr _, reg2) \<Rightarrow> (let (x, reg3) = send_transition d io2 i StopCompleted reg2 in (rbind x (\<lambda>_. Inr ()), reg3)))
        | Inl err \<Rightarrow> (case send_transition d io2 i (Fail (show_backend_error err)) reg1 of (Inl err', reg2) \<Rightarrow> (Inl err', reg2)
            | (Inr _, reg2) \<Rightarrow> (Inl (BackendErr err), reg2)))))" for bk bh
    by (rule after_command[OF transition_reach]) (simp_all only: stopped failed snd_conv instance_event.distinct
        not_False_eq_True split: sum.split, simp_all)
  show ?thesis unfolding stop_instance_def
    by (simp only: rest reg_refl snd_conv split: sum.split prod.split) simp
qed

lemma pause_resume_reach:
  "reg_reach d reg (snd (pause_instance d io i reg))" "reg_reach d reg (snd (resume_instance d io i reg))"
  by (auto simp: pause_instance_def resume_instance_def apply_event_and_persist_def reg_refl transition_reach
      split: sum.split)

lemma exit_reach: "reg_reach d reg (process_exited d io i reg)"
  by (simp add: process_exited_def reg_refl transition_reach split: option.split)

lemma register_remove_reach:
  "reg_reach d reg (snd (register_instance d c dir file reg))" "reg_reach d reg (snd (remove_instance i purge reg))"
  by (simp_all add: register_instance_def remove_instance_def reg_refl reg_reach_step[OF step_register]
      reg_reach_step[OF step_remove] split: sum.split)

lemma update_twice: "AList.update k v (AList.update k w al) = AList.update k v al"
  by (induction al) auto

lemma with_with: "with_supervisor i g (with_supervisor i f reg) = with_supervisor i (\<lambda>s. g (f s)) reg"
  by (simp add: with_supervisor_def registered_update update_twice split: option.split)

lemma file_reach: "reg_reach d reg (with_supervisor i (\<lambda>s. s\<lparr>sup_file := w (sup_file s)\<rparr>) reg)"
proof (cases "registered reg i")
  case None
  then show ?thesis by (simp add: with_supervisor_def reg_refl)
next
  case (Some h)
  then have "with_supervisor i (\<lambda>s. s\<lparr>sup_file := w (sup_file s)\<rparr>) reg =
      with_supervisor i (\<lambda>s. s\<lparr>sup_file := w (sup_file (ih_sup h))\<rparr>) reg"
    by (simp add: with_supervisor_update)
  then show ?thesis using reg_reach_step[OF reg_step.step_file[where d = d]] by simp
qed

lemma write_and_set_reach:
  assumes "\<And>h. registered reg i = Some h \<Longrightarrow> occupies (sup_state (ih_sup h)) \<Longrightarrow> same_resources (sup_config (ih_sup h)) c"
  shows "reg_reach d reg (with_supervisor i (write_and_set (dm_sup d i) io1 io2 own c live) reg)"
proof -
  define w where "w = (\<lambda>f. if own then write_instance_toml (dm_sup d i) io1 c f else f)"
  have written: "reg_reach d reg (with_supervisor i (\<lambda>s. s\<lparr>sup_file := w (sup_file s)\<rparr>) reg)"
    by (rule file_reach)
  have "reg_reach d (with_supervisor i (\<lambda>s. s\<lparr>sup_file := w (sup_file s)\<rparr>) reg)
      (with_supervisor i (handle_command (dm_sup d i) io2 (SetConfig c live))
        (with_supervisor i (\<lambda>s. s\<lparr>sup_file := w (sup_file s)\<rparr>) reg))"
    by (rule command_reach) (use assms in \<open>auto simp: registered_with\<close>)
  from reg_reach_trans[OF this written] have
    "reg_reach d reg (with_supervisor i (\<lambda>s. set_config (dm_sup d i) io2 c live (s\<lparr>sup_file := w (sup_file s)\<rparr>)) reg)"
    by (simp only: command_functions with_with)
  then show ?thesis by (cases own) (simp_all add: w_def write_and_set_def[abs_def])
qed

lemma update_config_reach:
  assumes "reg_ok reg"
  shows "reg_reach d reg (snd (update_instance_config d io1 io2 i c reg))"
proof -
  have "reg_reach d reg (with_supervisor i (write_and_set (dm_sup d i) io1 io2 True c None) reg)"
    if "registered reg i = Some h" "is_disk_idle (handle_state h)" for h
    by (rule write_and_set_reach)
      (use that published_same(1)[OF reg_okD(2)[OF assms that(1)]] occupies_busy[of "sup_state (ih_sup h)"] in simp)
  then show ?thesis
    by (auto simp: update_instance_config_def handle_for_def reg_refl rbind_eq_Inr ok_or_eq_Inr split: sum.split if_splits)
qed

lemma reload_snapshot: "cs_config (fst (reload_config e s)) = sup_config (snd (reload_config e s))"
  by (simp add: reload_config_def Let_def)

lemma set_config_reach:
  "reg_reach d reg (snd (set_instance_config d io1 io2 i key value reg))"
proof (cases "registered reg i")
  case None
  then show ?thesis by (simp add: set_instance_config_def handle_for_def reg_refl)
next
  case (Some h)
  define reg1 where "reg1 = with_supervisor i (\<lambda>s. snd (reload_config (dm_sup d i) s)) reg"
  define c where "c = cs_config (fst (reload_config (dm_sup d i) (ih_sup h)))"
  have r1: "reg_reach d reg reg1"
    using command_reach[of reg i ReloadConfig d] by (simp add: reg1_def command_functions)
  have at: "registered reg1 i = Some h' \<Longrightarrow> sup_config (ih_sup h') = c" for h'
    using Some by (auto simp: reg1_def registered_with c_def reload_snapshot)
  have "reg_reach d reg1 (with_supervisor i (write_and_set (dm_sup d i) io1 io2 own c' live) reg1)"
    if "edited_config c key value = Inr c'" for own c' live
    by (rule write_and_set_reach)
      (use that at set_key_keeps in \<open>auto simp: edited_config_def rbind_eq_Inr map_err_eq_Inr\<close>)
  from reg_reach_trans[OF this r1] r1 Some show ?thesis
    by (simp add: set_instance_config_def handle_for_def Let_def reg1_def[symmetric] c_def[symmetric]
        split: option.split sum.split)
qed

text \<open>These operations of the daemon are runs of the registry's step relation in which nothing gets
  past the gates: registering, starting (the claim under the lock and what follows it), stopping, pausing,
  resuming, removing, both ways of changing a configuration and the watcher's reaction to a dead
  QEMU process. A start that is interleaved with an edit of its configuration, hotplug and a
  maintenance boot are runs as well, but can put an instance on the list.\<close>

theorem operations_are_runs:
  assumes "reg_ok reg"
  shows "reg_reach d reg (snd (register_instance d c dir tf reg))
    \<and> reg_reach d reg (snd (do_start_instance d io1 io2 i reg))
    \<and> reg_reach d reg (snd (stop_instance d io1 io2 i graceful reg))
    \<and> reg_reach d reg (snd (pause_instance d io1 i reg))
    \<and> reg_reach d reg (snd (resume_instance d io1 i reg))
    \<and> reg_reach d reg (snd (remove_instance i purge reg))
    \<and> reg_reach d reg (snd (set_instance_config d io1 io2 i key value reg))
    \<and> reg_reach d reg (snd (update_instance_config d io1 io2 i c' reg))
    \<and> reg_reach d reg (process_exited d io1 i reg)"
  by (intro conjI register_remove_reach start_reach stop_reach pause_resume_reach set_config_reach
      update_config_reach[OF assms] exit_reach)

end
