(* ===== verification/StartGates.thy ===== *)
theory StartGates
  imports RegistryRuns
begin

text \<open>
  What one start does and what its gates decide: the outcome of \<open>do_start_instance\<close> on each
  branch, the memory gate's arithmetic and the parsing of \<open>/proc/meminfo\<close>, the resolution of
  instance references; and where the gates look away: an instance that is stopping, and a
  memory size edited while the guest runs.
\<close>

section \<open>A transition, seen from the registry\<close>

lemma ladder_handle [simp]: "sup_handle (reset_ladder s) = sup_handle s" "sup_handle (rebase_ladder s) = sup_handle s"
  by (simp_all add: rebase_ladder_def reset_ladder_def publish_readiness_def)

lemma reload_handle [simp]: "sup_handle (reload_if_changed e s) = sup_handle s"
  by (simp add: reload_if_changed_def Let_def publish_config_def split: option.split sum.split)

lemma persist_handle [simp]: "sup_handle (persist e io s) = sup_handle s"
  by (simp add: persist_def Let_def split: option.split)

lemma transition_handle: "sup_handle (snd (apply_transition e io ev s)) = sup_handle s"
proof (cases "apply_event (sup_state s) ev")
  case (Inl err)
  then show ?thesis by (simp add: apply_transition_def)
next
  case (Inr t)
  show ?thesis unfolding transition_shape[OF Inr] by simp
qed

lemma set_handle_sup_ok: "sup_ok s \<Longrightarrow> sup_ok (set_handle bh s)"
  using handle_command_ok[of s e io "SetHandle bh" for e io] by simp

lemma set_handle_parts [simp]:
  "sup_state (set_handle bh s) = sup_state s" "sup_config (set_handle bh s) = sup_config s"
  "sup_handle (set_handle bh s) = bh"
  by (simp_all add: set_handle_def)

lemma send_transition_accepted:
  assumes "registered reg i = Some h" "sup_ok (ih_sup h)" "apply_event (handle_state h) ev = Inr t"
  obtains s where "send_transition d io i ev reg = (Inr t, AList.update i (h\<lparr>ih_sup := s\<rparr>) reg)"
    "sup_ok s" "sup_state s = t" "sup_handle s = handle_backend h"
    "\<not> is_disk_idle t \<Longrightarrow> sup_config s = handle_config h"
proof
  let ?s = "snd (apply_transition (dm_sup d i) io ev (ih_sup h))"
  note pub = published_same[OF assms(2)]
  have ev: "apply_event (sup_state (ih_sup h)) ev = Inr t" using assms(3) pub by simp
  show "send_transition d io i ev reg = (Inr t, AList.update i (h\<lparr>ih_sup := ?s\<rparr>) reg)"
    using assms(1) by (simp add: send_transition_def with_supervisor_update transition_shape[OF ev])
  show "sup_ok ?s" using assms(2) by (rule transition_ok)
  show "sup_state ?s = t" by (simp add: transition_state ev)
  show "sup_handle ?s = handle_backend h" by (simp add: transition_handle pub)
  show "\<not> is_disk_idle t \<Longrightarrow> sup_config ?s = handle_config h" using transition_config(1)[OF ev] pub by simp
qed

section \<open>The outcome of a start\<close>

lemma claim_refused: "start_gates (dm_host d) i c reg = Inl err \<Longrightarrow> claim_start d io i c reg = (Inl err, reg)"
  by (simp add: claim_start_def)

lemma claim_busy:
  assumes "registered reg i = Some h" "sup_ok (ih_sup h)" "start_gates (dm_host d) i c reg = Inr ()"
    and "\<not> is_disk_idle (handle_state h)"
  shows "fst (claim_start d io i c reg) = Inl (TransitionError (InvalidTransition (handle_state h) Start))"
proof -
  have "apply_event (handle_state h) Start = Inl (InvalidTransition (handle_state h) Start)"
    using assms(4) by (cases "handle_state h") simp_all
  then have "apply_transition (dm_sup d i) io Start (ih_sup h) = (Inl (InvalidTransition (handle_state h) Start), ih_sup h)"
    using published_same(1)[OF assms(2)] by (simp add: apply_transition_def)
  then show ?thesis using assms(1,3) by (simp add: claim_start_def send_transition_def)
qed

lemma claim_accepted:
  assumes "registered reg i = Some h" "sup_ok (ih_sup h)" "start_gates (dm_host d) i c reg = Inr ()"
    and "is_disk_idle (handle_state h)"
  obtains s where "claim_start d io i c reg = (Inr (), AList.update i (h\<lparr>ih_sup := s\<rparr>) reg)"
    "sup_ok s" "sup_state s = Starting" "sup_config s = handle_config h"
proof -
  have "apply_event (handle_state h) Start = Inr Starting" using assms(4) by (cases "handle_state h") simp_all
  from send_transition_accepted[OF assms(1,2) this, of d io] obtain s where
    "send_transition d io i Start reg = (Inr Starting, AList.update i (h\<lparr>ih_sup := s\<rparr>) reg)"
    "sup_ok s" "sup_state s = Starting" "sup_config s = handle_config h" by auto
  then show ?thesis using assms(3) that by (simp add: claim_start_def)
qed

lemma finish_failed:
  assumes "registered reg i = Some h" "sup_ok (ih_sup h)" "handle_state h = Starting"
    and "backend_for d (ic_backend c) = Inr bk"
    and "rbind (validate_instance_files (dm_host d) c) (\<lambda>_. bk_spawn bk c) = Inl err"
  obtains h' where "finish_start d io i c reg = (Inl (BackendErr err), AList.update i h' reg)"
    "handle_state h' = Error (show_backend_error err)"
proof -
  have "apply_event (handle_state h) (Fail (show_backend_error err)) = Inr (Error (show_backend_error err))"
    by (simp add: assms(3))
  from send_transition_accepted[OF assms(1,2) this, of d io] obtain s where
    s: "send_transition d io i (Fail (show_backend_error err)) reg
          = (Inr (Error (show_backend_error err)), AList.update i (h\<lparr>ih_sup := s\<rparr>) reg)"
      "sup_ok s" "sup_state s = Error (show_backend_error err)" by auto
  then show ?thesis
    using published_same(1)[of "h\<lparr>ih_sup := s\<rparr>"] by (intro that) (simp_all add: finish_start_def assms(4,5))
qed

lemma finish_spawned:
  assumes "registered reg i = Some h" "sup_ok (ih_sup h)" "handle_state h = Starting"
    and "backend_for d (ic_backend c) = Inr bk"
    and "rbind (validate_instance_files (dm_host d) c) (\<lambda>_. bk_spawn bk c) = Inr bh"
  obtains h' where "finish_start d io i c reg = (Inr (), AList.update i h' reg)"
    "handle_state h' = Running" "handle_backend h' = Some bh" "handle_config h' = handle_config h"
proof -
  define h2 where "h2 = h\<lparr>ih_sup := set_handle (Some bh) (ih_sup h)\<rparr>"
  have sh: "send_set_handle i (Some bh) reg = (Inr (), AList.update i h2 reg)"
    by (simp add: send_set_handle_def assms(1) with_supervisor_update h2_def)
  have r2: "registered (AList.update i h2 reg) i = Some h2" by (simp add: registered_update)
  have ok2: "sup_ok (ih_sup h2)" using assms(2) by (simp add: set_handle_sup_ok h2_def)
  note pub = published_same[OF assms(2)] published_same[OF ok2]
  have "apply_event (handle_state h2) StartCompleted = Inr Running" using pub assms(3) by (simp add: h2_def)
  from send_transition_accepted[OF r2 ok2 this, of d io] obtain s where
    s: "send_transition d io i StartCompleted (AList.update i h2 reg)
          = (Inr Running, AList.update i (h2\<lparr>ih_sup := s\<rparr>) (AList.update i h2 reg))"
      "sup_ok s" "sup_state s = Running" "sup_handle s = handle_backend h2" "sup_config s = handle_config h2" by auto
  show ?thesis
    using s pub published_same[of "h2\<lparr>ih_sup := s\<rparr>"]
    by (intro that[of "h2\<lparr>ih_sup := s\<rparr>"]) (simp_all add: finish_start_def assms(4,5) sh update_twice, simp_all add: h2_def)
qed

lemma start_result:
  assumes ok: "reg_ok reg" and h: "registered reg i = Some h"
    and bk: "dm_backends d (ic_backend (handle_config h)) = Some bk"
  shows "case start_gates (dm_host d) i (handle_config h) reg of
      Inl err \<Rightarrow> do_start_instance d io1 io2 i reg = (Inl err, reg)
    | Inr _ \<Rightarrow>
        if \<not> is_disk_idle (handle_state h)
        then fst (do_start_instance d io1 io2 i reg) = Inl (TransitionError (InvalidTransition (handle_state h) Start))
        else \<exists>h'. snd (do_start_instance d io1 io2 i reg) = AList.update i h' reg \<and>
          (case rbind (validate_instance_files (dm_host d) (handle_config h)) (\<lambda>_. bk_spawn bk (handle_config h)) of
             Inr bh \<Rightarrow> fst (do_start_instance d io1 io2 i reg) = Inr () \<and> handle_state h' = Running
               \<and> handle_backend h' = Some bh \<and> handle_config h' = handle_config h
           | Inl err \<Rightarrow> fst (do_start_instance d io1 io2 i reg) = Inl (BackendErr err)
               \<and> handle_state h' = Error (show_backend_error err))"
proof (cases "start_gates (dm_host d) i (handle_config h) reg")
  case (Inl err)
  then show ?thesis by (simp add: do_start_instance_def handle_for_def h claim_refused)
next
  case (Inr u)
  define c where "c = handle_config h"
  note hok = reg_okD(2)[OF ok h]
  have gates: "start_gates (dm_host d) i c reg = Inr ()" using Inr by (simp add: c_def)
  show ?thesis
  proof (cases "is_disk_idle (handle_state h)")
    case False
    have "fst (claim_start d io1 i c reg) = Inl (TransitionError (InvalidTransition (handle_state h) Start))"
      by (rule claim_busy[OF h hok gates False])
    then show ?thesis using False Inr
      by (cases "claim_start d io1 i c reg") (simp add: do_start_instance_def handle_for_def h c_def)
  next
    case True
    from claim_accepted[OF h hok gates True, of io1] obtain s where
      s: "claim_start d io1 i c reg = (Inr (), AList.update i (h\<lparr>ih_sup := s\<rparr>) reg)"
        "sup_ok s" "sup_state s = Starting" "sup_config s = c" by (auto simp: c_def)
    define h1 where "h1 = h\<lparr>ih_sup := s\<rparr>"
    have fin: "do_start_instance d io1 io2 i reg = finish_start d io2 i c (AList.update i h1 reg)"
      using s(1) by (simp add: do_start_instance_def handle_for_def h c_def h1_def)
    have r1: "registered (AList.update i h1 reg) i = Some h1" by (simp add: registered_update)
    have h1: "sup_ok (ih_sup h1)" using s(2) by (simp add: h1_def)
    have st: "handle_state h1 = Starting" "handle_config h1 = c" using published_same[OF h1] s by (simp_all add: h1_def)
    have bkc: "backend_for d (ic_backend c) = Inr bk" using bk by (simp add: backend_for_def c_def)
    note finish = finish_failed[OF r1 h1 st(1) bkc, of _ io2] finish_spawned[OF r1 h1 st(1) bkc, of _ io2]
    have goal: "\<exists>h'. snd (do_start_instance d io1 io2 i reg) = AList.update i h' reg \<and>
          (case rbind (validate_instance_files (dm_host d) c) (\<lambda>_. bk_spawn bk c) of
             Inr bh \<Rightarrow> fst (do_start_instance d io1 io2 i reg) = Inr () \<and> handle_state h' = Running
               \<and> handle_backend h' = Some bh \<and> handle_config h' = c
           | Inl err \<Rightarrow> fst (do_start_instance d io1 io2 i reg) = Inl (BackendErr err)
               \<and> handle_state h' = Error (show_backend_error err))"
    proof (cases "rbind (validate_instance_files (dm_host d) c) (\<lambda>_. bk_spawn bk c)")
      case (Inl err)
      from finish(1)[OF this] obtain h' where "finish_start d io2 i c (AList.update i h1 reg)
          = (Inl (BackendErr err), AList.update i h' (AList.update i h1 reg))" "handle_state h' = Error (show_backend_error err)" .
      then show ?thesis using Inl by (auto simp: fin update_twice)
    next
      case (Inr bh)
      from finish(2)[OF this] obtain h' where "finish_start d io2 i c (AList.update i h1 reg)
          = (Inr (), AList.update i h' (AList.update i h1 reg))" "handle_state h' = Running" "handle_backend h' = Some bh"
          "handle_config h' = handle_config h1" .
      then show ?thesis using Inr st by (auto simp: fin update_twice)
    qed
    then show ?thesis using True gates unfolding c_def by simp
  qed
qed

text \<open>C5. A start has these outcomes. A refused gate leaves the registry as it was, and an instance
  that is not disk-idle is refused with the transition's error. An instance that passes the gates
  is claimed; if its files are there and the hypervisor starts, it ends \<open>Running\<close> with the new
  process handle and an unchanged configuration, and if not, it ends in \<open>Error\<close> with the reason
  and the caller gets the backend's error. No other instance is touched.\<close>

theorem start_outcome:
  assumes ok: "reg_ok reg" and h: "registered reg i = Some h"
    and bk: "dm_backends d (ic_backend (handle_config h)) = Some bk"
  shows "case start_gates (dm_host d) i (handle_config h) reg of
      Inl err \<Rightarrow> do_start_instance d io1 io2 i reg = (Inl err, reg)
    | Inr _ \<Rightarrow>
        if \<not> is_disk_idle (handle_state h)
        then fst (do_start_instance d io1 io2 i reg) = Inl (TransitionError (InvalidTransition (handle_state h) Start))
        else \<exists>h'. snd (do_start_instance d io1 io2 i reg) = AList.update i h' reg \<and>
          (case rbind (validate_instance_files (dm_host d) (handle_config h)) (\<lambda>_. bk_spawn bk (handle_config h)) of
             Inr bh \<Rightarrow> fst (do_start_instance d io1 io2 i reg) = Inr () \<and> handle_state h' = Running
               \<and> handle_backend h' = Some bh \<and> handle_config h' = handle_config h
           | Inl err \<Rightarrow> fst (do_start_instance d io1 io2 i reg) = Inl (BackendErr err)
               \<and> handle_state h' = Error (show_backend_error err))"
  using start_result[OF ok h bk] .

section \<open>The memory gate\<close>

text \<open>What the counted guests use, as a number and not as a \<open>u64\<close>.\<close>

definition true_used :: "instance_id \<Rightarrow> registry \<Rightarrow> nat" where
  "true_used i reg = sum_list (map (\<lambda>h. unat (guest_memory h)) (counted_instances i reg))"

lemma foldl_words: "foldl (\<lambda>acc h. acc + f h) (a :: 'w::len word) hs = a + sum_list (map f hs)"
  by (induction hs arbitrary: a) (simp_all add: add.assoc)

lemma unat_sum_list: "unat (sum_list (map f hs) :: 'w::len word) = sum_list (map (\<lambda>h. unat (f h)) hs) mod 2 ^ LENGTH('w)"
  by (induction hs) (simp_all add: unat_word_ariths mod_simps)

lemma requested_mod: "unat (used_bytes i reg + m) = (true_used i reg + unat m) mod 2 ^ 64"
  by (simp add: used_bytes_def foldl_words true_used_def unat_word_ariths unat_sum_list mod_simps)

lemma memory_gate_mod:
  assumes "read_host_total_ram host = Some ram"
  shows "check_memory_overcommit host i c reg = Inr () \<longleftrightarrow>
    (true_used i reg + unat (mem_size (ic_memory c))) mod 2 ^ 64 \<le> unat ram"
  using requested_mod[of i reg "mem_size (ic_memory c)"]
  by (simp add: check_memory_overcommit_def assms Let_def word_less_nat_alt not_less)

text \<open>C37. The memory gate is exact as long as the guests' sizes add up below \<open>2 ^ 64\<close>: it accepts
  a start exactly if the memory of all other occupied instances plus the new one fits into the
  host's memory, and the refusal reports these very numbers. (Beyond that bound the \<open>u64\<close> sum
  wraps and \<open>memory_gate_mod\<close> says what is compared.)\<close>

theorem memory_gate_exact:
  assumes "read_host_total_ram host = Some ram"
    and "true_used i reg + unat (mem_size (ic_memory c)) < 2 ^ 64"
  shows "case check_memory_overcommit host i c reg of
      Inr _ \<Rightarrow> true_used i reg + unat (mem_size (ic_memory c)) \<le> unat ram
    | Inl err \<Rightarrow> unat ram < true_used i reg + unat (mem_size (ic_memory c))
        \<and> (\<exists>requested used. err = GateErr (MemoryOvercommit requested ram (length (counted_instances i reg)) used)
             \<and> unat requested = true_used i reg + unat (mem_size (ic_memory c)) \<and> unat used = true_used i reg)"
proof -
  let ?m = "mem_size (ic_memory c)"
  have req: "unat (used_bytes i reg + ?m) = true_used i reg + unat ?m" using requested_mod assms(2) by simp
  have used: "unat (used_bytes i reg) = true_used i reg"
    using requested_mod[of i reg 0] assms(2) by simp
  show ?thesis using req used
    by (simp add: check_memory_overcommit_def assms(1) Let_def word_less_nat_alt)
qed

section \<open>Reading \<open>/proc/meminfo\<close>\<close>

lemma lines_nonempty: "s \<noteq> [] \<Longrightarrow> lines s = (let l = takeWhile (\<lambda>c. c \<noteq> CHR 0x0A) s in
     (if length l < length s then strip_cr l # lines (drop (Suc (length l)) s) else [l]))"
  by (cases s) (simp_all only: lines.simps)

lemma lines_cons: "CHR 0x0A \<notin> set l \<Longrightarrow> lines (l @ CHR 0x0A # rest) = strip_cr l # lines rest"
proof -
  assume "CHR 0x0A \<notin> set l"
  then have "takeWhile (\<lambda>c. c \<noteq> CHR 0x0A) (l @ CHR 0x0A # rest) = l"
    by (subst takeWhile_append2) auto
  then show ?thesis by (simp add: lines_nonempty Let_def del: lines.simps)
qed

lemma trim_pad: "s \<noteq> [] \<Longrightarrow> \<not> is_space (hd s) \<Longrightarrow> \<not> is_space (last s) \<Longrightarrow> trim (replicate n (CHR '' '') @ s) = s"
proof -
  assume s: "s \<noteq> []" "\<not> is_space (hd s)" "\<not> is_space (last s)"
  have "dropWhile is_space (replicate n (CHR '' '') @ s) = dropWhile is_space s"
    by (induction n) (simp_all add: is_space_def byte_def)
  then show ?thesis using trim_id[of s] s by (simp add: trim_def)
qed

text \<open>The line the kernel writes: the count of kilobytes is read whatever the padding.\<close>

lemma mem_total_line:
  "mem_total ((''MemTotal:'' @ replicate n (CHR '' '') @ show_word kb @ '' kB'') # rest) = Some (saturating_mul_1024 kb)"
proof -
  have digits: "show_word kb \<noteq> []" "\<forall>c \<in> set (show_word kb). is_digit c" using show_word_digits by auto
  have sp: "\<not> is_digit (CHR '' '')" "\<not> is_digit (CHR '':'')" by (simp_all add: is_digit_def byte_def)
  have key: "split_once (CHR '':'') (''MemTotal:'' @ replicate n (CHR '' '') @ show_word kb @ '' kB'')
      = Some (''MemTotal'', replicate n (CHR '' '') @ show_word kb @ '' kB'')"
    using split_once_append[of "CHR '':''" "''MemTotal''"] by simp
  have val: "trim (replicate n (CHR '' '') @ show_word kb @ '' kB'') = show_word kb @ '' kB''"
    by (rule trim_pad) (use digits in \<open>simp_all add: hd_append\<close>, simp_all add: is_space_def byte_def)
  have num: "split_once (CHR '' '') (show_word kb @ '' kB'') = Some (show_word kb, ''kB'')"
    using split_once_append[of "CHR '' ''" "show_word kb" "''kB''"] digits sp by auto
  have "trim ''MemTotal'' = ''MemTotal''" "trim ''kB'' = ''kB''" by code_simp+
  then show ?thesis by (simp only: mem_total.simps key val num option.case prod.case simp_thms if_True trim_show_word parse_u64_show)
qed

lemma host_ram_line:
  assumes "hs_meminfo host = Some (''MemTotal:'' @ replicate n (CHR '' '') @ show_word kb @ '' kB'' @ CHR 0x0A # rest)"
  shows "read_host_total_ram host = Some (saturating_mul_1024 kb)"
proof -
  define l where "l = ''MemTotal:'' @ replicate n (CHR '' '') @ show_word kb @ '' kB''"
  have "CHR 0x0A \<notin> set l" using show_word_digits[of "CHR 0x0A" kb] by (auto simp: is_digit_def byte_def l_def)
  moreover have "strip_cr l = l" by (simp add: strip_cr_def l_def)
  ultimately have "lines (l @ CHR 0x0A # rest) = l # lines rest" by (simp add: lines_cons)
  moreover have "hs_meminfo host = Some (l @ CHR 0x0A # rest)" by (simp add: assms l_def)
  moreover have "mem_total (l # lines rest) = Some (saturating_mul_1024 kb)" unfolding l_def by (rule mem_total_line)
  ultimately show ?thesis by (simp only: read_host_total_ram_def option.case)
qed

section \<open>Edits of a running guest's memory\<close>

lemma with_supervisor_result:
  "registered reg i = Some h \<Longrightarrow> with_supervisor i f reg = AList.update i (h\<lparr>ih_sup := f (ih_sup h)\<rparr>) reg"
  by (rule with_supervisor_update)

lemma counted_update:
  assumes "distinct (map fst reg)" "registered reg j = Some h" "j \<noteq> i" "occupies (handle_state h)" "occupies (handle_state h')"
  shows "true_used i (AList.update j h' reg) + unat (guest_memory h) = true_used i reg + unat (guest_memory h')"
  using assms
proof (induction reg)
  case (Cons p reg)
  obtain k x where p: "p = (k, x)" by (cases p)
  show ?case
  proof (cases "k = j")
    case True
    then have "x = h" using Cons.prems(2) by (simp add: p registered_def)
    then show ?thesis using True Cons.prems(3-5) by (simp add: p true_used_def counted_instances_def)
  next
    case False
    then have "true_used i (AList.update j h' reg) + unat (guest_memory h) = true_used i reg + unat (guest_memory h')"
      using Cons by (simp add: p registered_def)
    then show ?thesis using False by (simp add: p true_used_def counted_instances_def)
  qed
qed (simp add: registered_def)

lemma set_config_handle: "sup_handle (set_config e io c live s) = sup_handle s"
  by (cases live) (simp_all add: set_config_def Let_def publish_config_def)

lemma write_and_set_busy:
  assumes "\<not> is_disk_idle (sup_state s)"
  shows "sup_config (write_and_set e io1 io2 own c live s) = c" "sup_state (write_and_set e io1 io2 own c live s) = sup_state s"
    "sup_handle (write_and_set e io1 io2 own c live s) = sup_handle s"
  using assms by (simp_all add: write_and_set_def set_config_busy set_config_handle)

lemma write_and_set_ok: "sup_ok s \<Longrightarrow> sup_ok (write_and_set e io1 io2 own c live s)"
  using set_config_ok[of "if own then s\<lparr>sup_file := write_instance_toml e io1 c (sup_file s)\<rparr> else s" e io2 c live]
    sup_step_ok[OF step_file_edited]
  by (auto simp: write_and_set_def)

lemma reload_busy:
  assumes "\<not> is_disk_idle (sup_state s)"
  shows "sup_config (snd (reload_config e s)) = sup_config s" "sup_state (snd (reload_config e s)) = sup_state s"
    "sup_handle (snd (reload_config e s)) = sup_handle s"
  using reload_busy_config[OF assms] by (simp_all add: reload_config_def Let_def reload_frame)

lemma set_config_registry:
  assumes "set_instance_config d io1 io2 j key v reg = (Inr (), reg')" "registered reg j = Some h"
  obtains own c' live where
    "edited_config (sup_config (snd (reload_config (dm_sup d j) (ih_sup h)))) key v = Inr c'"
    "reg' = with_supervisor j (\<lambda>s. write_and_set (dm_sup d j) io1 io2 own c' live (snd (reload_config (dm_sup d j) s))) reg"
  using assms
  by (auto simp: set_instance_config_def handle_for_def Let_def with_with reload_snapshot split: option.splits sum.splits)

lemma memory_key_effect:
  assumes "edited_config c ''memory.size_bytes'' v = Inr c'"
  shows "parse_size v = Inr (mem_size (ic_memory c'))"
proof -
  have "find_key ''memory.size_bytes'' =
      Some (ConfigKey ''memory.size_bytes'' (\<lambda>c. format_size (mem_size (ic_memory c))) (Some memory_size_set) None False)"
    by (simp add: find_key_def config_keys_def key_row_defs)
  then show ?thesis using assms
    by (auto simp: edited_config_def set_key_def memory_size_set_def rbind_eq_Inr map_err_eq_Inr split: if_splits)
qed

text \<open>The memory gate follows the configuration, not the guests: \<open>config set memory.size_bytes\<close>
  on a running instance is accepted and changes what the gate counts for it, while its QEMU
  process (the same backend handle, the same state) keeps the memory it was started with. The
  sum for the next start drops by the old size and rises by the new one.\<close>

theorem live_memory_edit_moves_gate:
  assumes "reg_ok reg" "registered reg j = Some h" "occupies (handle_state h)" "j \<noteq> i"
    and "set_instance_config d io1 io2 j ''memory.size_bytes'' v reg = (Inr (), reg')"
  shows "\<exists>h'. registered reg' j = Some h' \<and> handle_state h' = handle_state h \<and> handle_backend h' = handle_backend h
    \<and> parse_size v = Inr (guest_memory h')
    \<and> true_used i reg' + unat (guest_memory h) = true_used i reg + unat (guest_memory h')"
proof -
  note hok = reg_okD(2)[OF assms(1,2)]
  note pub = published_same[OF hok]
  have busy: "\<not> is_disk_idle (sup_state (ih_sup h))" using occupies_busy[OF assms(3)] pub by simp
  from set_config_registry[OF assms(5,2)] obtain own c' live where
    c': "edited_config (sup_config (snd (reload_config (dm_sup d j) (ih_sup h)))) ''memory.size_bytes'' v = Inr c'"
    and reg': "reg' = with_supervisor j (\<lambda>s. write_and_set (dm_sup d j) io1 io2 own c' live (snd (reload_config (dm_sup d j) s))) reg" .
  define s1 where "s1 = snd (reload_config (dm_sup d j) (ih_sup h))"
  define h' where "h' = h\<lparr>ih_sup := write_and_set (dm_sup d j) io1 io2 own c' live s1\<rparr>"
  have s1: "sup_ok s1" "sup_state s1 = sup_state (ih_sup h)" "sup_handle s1 = sup_handle (ih_sup h)"
    using handle_command_ok[OF hok, of "dm_sup d j" io1 ReloadConfig] reload_busy[OF busy] by (simp_all add: s1_def)
  have "sup_ok (ih_sup h')" using write_and_set_ok[OF s1(1)] by (simp add: h'_def)
  note pub' = published_same[OF this]
  have upd: "reg' = AList.update j h' reg" by (simp add: reg' with_supervisor_update assms(2) h'_def s1_def)
  have parts: "handle_state h' = handle_state h" "handle_backend h' = handle_backend h" "handle_config h' = c'"
    unfolding pub' pub using busy s1 by (simp_all add: h'_def write_and_set_busy)
  have "true_used i reg' + unat (guest_memory h) = true_used i reg + unat (guest_memory h')"
    unfolding upd by (rule counted_update) (use assms parts reg_okD(1) in auto)
  then show ?thesis
    using parts memory_key_effect[OF c'] by (intro exI[of _ h']) (simp add: upd registered_update guest_memory_def)
qed

section \<open>Instances that are stopping\<close>

text \<open>C39. A stopping instance no longer holds its disk for the gate although its process is still
  there: if instance \<open>j\<close> runs on a disk that \<open>i\<close> wants, a start of \<open>i\<close> is refused, but once \<open>j\<close>
  has begun to stop (its QEMU is still being shut down, its backend handle still set) the disk
  gate accepts \<open>i\<close>, when nobody else holds a disk of \<open>i\<close>.\<close>

theorem stopping_instance_frees_disk:
  assumes "reg_ok reg" "registered reg j = Some h" "handle_state h = Running" "j \<noteq> i"
    and "p \<in> set (disk_paths c)" "p \<in> set (disk_paths (handle_config h))"
    and others: "\<And>k x. registered reg k = Some x \<Longrightarrow> k \<noteq> i \<Longrightarrow> k \<noteq> j \<Longrightarrow> occupies (handle_state x) \<Longrightarrow>
      set (disk_paths c) \<inter> set (disk_paths (handle_config x)) = {}"
  shows "check_disk_conflicts i c reg \<noteq> Inr () \<and>
    (\<exists>h'. registered (snd (send_transition d io j Stop reg)) j = Some h' \<and> handle_state h' = Stopping
       \<and> handle_backend h' = handle_backend h
       \<and> check_disk_conflicts i c (snd (send_transition d io j Stop reg)) = Inr ())"
proof -
  note dist = reg_okD(1)[OF assms(1)]
  have refused: "check_disk_conflicts i c reg \<noteq> Inr ()"
  proof
    assume "check_disk_conflicts i c reg = Inr ()"
    then have "set (disk_paths c) \<inter> set (disk_paths (handle_config h)) = {}"
      using disk_gate.gate_exact[OF dist, THEN iffD1, rule_format, of i c j h] assms(2-4) by simp
    then show False using assms(5,6) by blast
  qed
  have "apply_event (handle_state h) Stop = Inr Stopping" by (simp add: assms(3))
  from send_transition_accepted[OF assms(2) reg_okD(2)[OF assms(1,2)] this, of d io] obtain s where
    s: "send_transition d io j Stop reg = (Inr Stopping, AList.update j (h\<lparr>ih_sup := s\<rparr>) reg)"
      "sup_ok s" "sup_state s = Stopping" "sup_handle s = handle_backend h" by auto
  note pub = published_same[of "h\<lparr>ih_sup := s\<rparr>"]
  have st: "handle_state (h\<lparr>ih_sup := s\<rparr>) = Stopping" "handle_backend (h\<lparr>ih_sup := s\<rparr>) = handle_backend h"
    using pub s by simp_all
  have "check_disk_conflicts i c (AList.update j (h\<lparr>ih_sup := s\<rparr>) reg) = Inr ()"
    unfolding disk_gate.gate_exact[OF distinct_update[OF dist]]
    using others st by (auto simp: registered_update split: if_splits)
  then show ?thesis using refused st s(1) by (simp add: registered_update)
qed

section \<open>References to instances\<close>

lemma remdups_adj_constant: "set xs = {x} \<Longrightarrow> remdups_adj xs = [x]"
proof -
  assume "set xs = {x}"
  then have "xs = replicate (length xs) x" "length xs \<noteq> 0" by (auto intro: replicate_eqI)
  then show ?thesis by (metis remdups_adj_replicate)
qed

lemma set_ref_matches: "set (ref_matches needle ids) = {i \<in> set ids. starts_with needle (show_instance_id i)}"
  by (simp add: ref_matches_def)

lemma ref_matches_single: "ref_matches needle ids = [i] \<longleftrightarrow> {i \<in> set ids. starts_with needle (show_instance_id i)} = {i}"
proof
  assume "ref_matches needle ids = [i]"
  then show "{i \<in> set ids. starts_with needle (show_instance_id i)} = {i}" using set_ref_matches[of needle ids] by simp
next
  assume "{i \<in> set ids. starts_with needle (show_instance_id i)} = {i}"
  then have "set (sort_key show_instance_id (filter (\<lambda>i. starts_with needle (show_instance_id i)) ids)) = {i}" by simp
  then show "ref_matches needle ids = [i]" unfolding ref_matches_def by (rule remdups_adj_constant)
qed

lemma ref_matches_empty: "ref_matches needle ids = [] \<longleftrightarrow> {i \<in> set ids. starts_with needle (show_instance_id i)} = {}"
  using set_ref_matches[of needle ids] by (metis set_empty)

text \<open>An instance reference resolves to an id exactly if it is a complete id in hex (then it is
  taken as it is, known or not) or a shorter, nonempty hex prefix, in either case of letters, of
  the id of one single instance, healthy or broken. A prefix of no instance is reported as not
  found, and a prefix of several as ambiguous, with exactly those instances as candidates.\<close>

theorem resolve_instance_id_exact:
  "(resolve_instance_id raw ids broken = Inr i \<longleftrightarrow>
      raw \<noteq> [] \<and> list_all is_hex_digit (to_lower raw)
      \<and> (if length raw = INSTANCE_ID_HEX_LEN then parse_instance_id (to_lower raw) = Inr i
         else {j \<in> set (ids @ broken). starts_with (to_lower raw) (show_instance_id j)} = {i}))
   \<and> (resolve_instance_id raw ids broken = Inl (ReqErr (InstanceRefNotFound raw)) \<longleftrightarrow>
      raw \<noteq> [] \<and> list_all is_hex_digit (to_lower raw) \<and> length raw \<noteq> INSTANCE_ID_HEX_LEN
      \<and> {j \<in> set (ids @ broken). starts_with (to_lower raw) (show_instance_id j)} = {})
   \<and> (resolve_instance_id raw ids broken = Inl (ReqErr (AmbiguousInstanceId raw cs)) \<longleftrightarrow>
      raw \<noteq> [] \<and> list_all is_hex_digit (to_lower raw) \<and> length raw \<noteq> INSTANCE_ID_HEX_LEN
      \<and> cs = ref_matches (to_lower raw) (ids @ broken) \<and> 2 \<le> length cs)"
proof -
  have len: "length (to_lower raw) = length raw" by (simp add: to_lower_def)
  show ?thesis
  proof (cases "raw = [] \<or> \<not> list_all is_hex_digit (to_lower raw) \<or> length raw = INSTANCE_ID_HEX_LEN")
    case True
    then show ?thesis
      by (cases "parse_instance_id (to_lower raw)")
        (auto simp: resolve_instance_id_def Let_def len)
  next
    case False
    define ms where "ms = ref_matches (to_lower raw) (ids @ broken)"
    have r: "resolve_instance_id raw ids broken = (case ms of [] \<Rightarrow> Inl (ReqErr (InstanceRefNotFound raw))
        | [i] \<Rightarrow> Inr i | _ \<Rightarrow> Inl (ReqErr (AmbiguousInstanceId raw ms)))"
      using False unfolding ms_def by (simp add: resolve_instance_id_def Let_def len split: list.split)
    show ?thesis unfolding r ref_matches_single[symmetric] ref_matches_empty[symmetric] ms_def[symmetric]
      using False by (auto split: list.splits)
  qed
qed

section \<open>A concrete daemon\<close>

text \<open>Two virtual machines with disks of their own on a host with 64 GiB.\<close>

definition demo_daemon :: daemon_env where
  "demo_daemon =
     \<lparr>dm_sup = (\<lambda>i. \<lparr>sv_id = i, sv_toml = (\<lambda>_. Inl []), sv_render = (\<lambda>_. Inl []), sv_show_load_error = (\<lambda>_. [])\<rparr>),
      dm_host = \<lparr>hs_meminfo = Some (''MemTotal:'' @ replicate 7 (CHR '' '') @ show_word (67108864 :: u64) @ '' kB'' @ CHR 0x0A # []),
        hs_parallelism = Some 8, hs_exists = (\<lambda>_. True)\<rparr>,
      dm_backends = (\<lambda>_. Some \<lparr>bk_spawn = (\<lambda>c. Inr (show_instance_id (ic_id c))), bk_stop = (\<lambda>_ _. Inr ()),
        bk_pause = (\<lambda>_. Inr ()), bk_resume = (\<lambda>_. Inr ()), bk_set_resolution = (\<lambda>_ _ _. Inr ())\<rparr>)\<rparr>"

definition plain_io :: write_io where
  "plain_io = \<lparr>wi_fault = False, wi_mtime = None\<rparr>"

definition demo_vm :: "u8 \<Rightarrow> string \<Rightarrow> instance_config" where
  "demo_vm b disk = (example_config b)\<lparr>ic_disk := disk_reference_default disk\<rparr>"

definition demo_entry :: "instance_state \<Rightarrow> u8 \<Rightarrow> string \<Rightarrow> instance_id \<times> instance_handle" where
  "demo_entry st b disk = (replicate 32 b, \<lparr>ih_dir = ''/vm'', ih_sup = spawn_supervisor (demo_vm b disk) st None None\<rparr>)"

lemma demo_entry_view [simp]:
  "fst (demo_entry st b disk) = replicate 32 b"
  "handle_state (snd (demo_entry st b disk)) = st" "handle_config (snd (demo_entry st b disk)) = demo_vm b disk"
  "handle_backend (snd (demo_entry st b disk)) = None" "sup_ok (ih_sup (snd (demo_entry st b disk)))"
  by (simp_all add: demo_entry_def handle_state_def handle_config_def handle_backend_def spawn_ok)
     (simp_all add: spawn_supervisor_def Let_def)

lemma demo_vm_resources [simp]:
  "host_ports (demo_vm b disk) = []" "disk_paths (demo_vm b disk) = [disk]" "pinned_cpus (demo_vm b disk) = []"
  "mem_size (ic_memory (demo_vm b disk)) = mem_size memory_reference_default" "ic_backend (demo_vm b disk) = Qemu"
  "ic_id (demo_vm b disk) = replicate 32 b"
  by (simp_all add: demo_vm_def example_config_def host_ports_def disk_paths_def pinned_cpus_def config_defaults)

lemma demo_ram: "read_host_total_ram (dm_host demo_daemon) = Some 68719476736"
proof -
  have "hs_meminfo (dm_host demo_daemon) =
      Some (''MemTotal:'' @ replicate 7 (CHR '' '') @ show_word (67108864 :: u64) @ '' kB'' @ CHR 0x0A # [])"
    by (simp add: demo_daemon_def)
  from host_ram_line[OF this] show ?thesis by (simp add: saturating_mul_1024_def)
qed

definition demo_pair :: "instance_state \<Rightarrow> string \<Rightarrow> instance_state \<Rightarrow> string \<Rightarrow> registry" where
  "demo_pair s1 d1 s2 d2 = [demo_entry s1 1 d1, demo_entry s2 2 d2]"

lemma demo_pair_registered:
  "registered (demo_pair s1 d1 s2 d2) (replicate 32 1) = Some (snd (demo_entry s1 1 d1))"
  "registered (demo_pair s1 d1 s2 d2) (replicate 32 2) = Some (snd (demo_entry s2 2 d2))"
  by (simp_all add: demo_pair_def registered_def demo_entry_def)

lemma demo_pair_other:
  "registered (demo_pair s1 d1 s2 d2) k = Some x \<Longrightarrow>
     (k = replicate 32 1 \<and> x = snd (demo_entry s1 1 d1)) \<or> (k = replicate 32 2 \<and> x = snd (demo_entry s2 2 d2))"
  by (simp add: demo_pair_def registered_def demo_entry_def split: if_splits)

lemma demo_pair_shape:
  "demo_pair s1 d1 s2 d2 = [(replicate 32 1, snd (demo_entry s1 1 d1)), (replicate 32 2, snd (demo_entry s2 2 d2))]"
  by (simp add: demo_pair_def demo_entry_def)

lemma demo_pair_ok: "reg_ok (demo_pair s1 d1 s2 d2)"
  unfolding reg_ok_def by (auto simp: demo_pair_def dest!: demo_pair_other[unfolded demo_pair_def])

lemma demo_gates:
  assumes "handle_config h1 = demo_vm 1 d1" "handle_config h2 = demo_vm 2 d2" "d1 \<noteq> d2" "i = replicate 32 1 \<or> i = replicate 32 2"
  shows "start_gates (dm_host demo_daemon) i (demo_vm b (if i = replicate 32 1 then d1 else d2))
    [(replicate 32 1, h1), (replicate 32 2, h2)] = Inr ()"
  using assms
  by (auto simp: start_gates_def check_port_forward_conflicts_def check_disk_conflicts_def check_cpu_affinity_conflicts_def
      validate_cpu_affinity_def check_memory_overcommit_def demo_ram used_bytes_def counted_instances_def guest_memory_def
      Let_def config_defaults GIB_def)

lemma demo_reached:
  "\<exists>h k. reg_reach demo_daemon [] [(replicate 32 1, h), (replicate 32 2, k)]
     \<and> handle_state h = Starting \<and> handle_state k = Starting
     \<and> handle_config h = demo_vm 1 ''/a'' \<and> handle_config k = demo_vm 2 ''/b''"
proof -
  let ?e1 = "snd (demo_entry Created 1 ''/a'')" and ?e2 = "snd (demo_entry Created 2 ''/b'')"
  let ?i = "replicate 32 1 :: instance_id" and ?j = "replicate 32 2 :: instance_id"
  have ra: "reg_reach demo_daemon [] [(?i, ?e1)]"
    using reg_reach_step[OF step_register[of demo_daemon "[]" ?i "demo_vm 1 ''/a''" Created "''/vm''" None]]
    by (simp add: demo_entry_def)
  have rb: "reg_reach demo_daemon [(?i, ?e1)] [(?i, ?e1), (?j, ?e2)]"
    using reg_reach_step[OF step_register[of demo_daemon "[(?i, ?e1)]" ?j "demo_vm 2 ''/b''" Created "''/vm''" None]]
    by (simp add: demo_entry_def)
  note r0 = reg_reach_trans[OF rb ra]
  have g1: "start_gates (dm_host demo_daemon) ?i (handle_config ?e1) [(?i, ?e1), (?j, ?e2)] = Inr ()"
    using demo_gates[of ?e1 "''/a''" ?e2 "''/b''" ?i 1] by simp
  from claim_accepted[OF _ _ g1, of ?e1 plain_io] obtain s where
    s: "claim_start demo_daemon plain_io ?i (handle_config ?e1) [(?i, ?e1), (?j, ?e2)]
          = (Inr (), [(?i, ?e1\<lparr>ih_sup := s\<rparr>), (?j, ?e2)])"
      "sup_ok s" "sup_state s = Starting" "sup_config s = demo_vm 1 ''/a''"
    by (auto simp: registered_def)
  define h where "h = ?e1\<lparr>ih_sup := s\<rparr>"
  have h: "handle_state h = Starting" "handle_config h = demo_vm 1 ''/a''"
    using published_same[of h] s by (simp_all add: h_def)
  have r1: "reg_reach demo_daemon [] [(?i, h), (?j, ?e2)]"
    using reg_reach_trans[OF claim_reach[of "[(?i, ?e1), (?j, ?e2)]" ?i ?e1 demo_daemon plain_io] r0] s(1)
    by (simp add: registered_def h_def)
  have g2: "start_gates (dm_host demo_daemon) ?j (handle_config ?e2) [(?i, h), (?j, ?e2)] = Inr ()"
    using demo_gates[of h "''/a''" ?e2 "''/b''" ?j 2] h by simp
  from claim_accepted[OF _ _ g2, of ?e2 plain_io] obtain s' where
    s': "claim_start demo_daemon plain_io ?j (handle_config ?e2) [(?i, h), (?j, ?e2)]
          = (Inr (), [(?i, h), (?j, ?e2\<lparr>ih_sup := s'\<rparr>)])"
      "sup_ok s'" "sup_state s' = Starting" "sup_config s' = demo_vm 2 ''/b''"
    by (auto simp: registered_def)
  define k where "k = ?e2\<lparr>ih_sup := s'\<rparr>"
  have "handle_state k = Starting" "handle_config k = demo_vm 2 ''/b''"
    using published_same[of k] s' by (simp_all add: k_def)
  moreover have "reg_reach demo_daemon [] [(?i, h), (?j, k)]"
    using reg_reach_trans[OF claim_reach[of "[(?i, h), (?j, ?e2)]" ?j ?e2 demo_daemon plain_io] r1] s'(1)
    by (simp add: registered_def k_def)
  ultimately show ?thesis using h by blast
qed

theorem resources_exclusive_witness:
  "\<exists>h k. handle_state h = Starting \<and> handle_state k = Starting
     \<and> set (disk_paths (handle_config h)) = {''/a''} \<and> set (disk_paths (handle_config k)) = {''/b''}
     \<and> set (disk_paths (handle_config h)) \<inter> set (disk_paths (handle_config k)) = {}"
proof -
  from demo_reached obtain h k where
    r: "reg_reach demo_daemon [] [(replicate 32 1, h), (replicate 32 2, k)]"
      "handle_state h = Starting" "handle_state k = Starting"
      "handle_config h = demo_vm 1 ''/a''" "handle_config k = demo_vm 2 ''/b''" by blast
  obtain B where B: "B \<subseteq> {}" "reg_run demo_daemon [] {} [(replicate 32 1, h), (replicate 32 2, k)] B"
    using r(1) unfolding reg_reach_def by blast
  have "set (disk_paths (handle_config h)) \<inter> set (disk_paths (handle_config k)) = {}"
    by (rule resources_exclusive[OF B(2), of "replicate 32 1" h "replicate 32 2" k, THEN conjunct1])
      (use B(1) in \<open>auto simp: registered_def r\<close>)
  then show ?thesis using r by (intro exI[of _ h] exI[of _ k]) simp
qed

theorem operations_are_runs_witness:
  "reg_reach demo_daemon (demo_pair Running ''/a'' Created ''/b'')
     (snd (do_start_instance demo_daemon plain_io plain_io (replicate 32 2) (demo_pair Running ''/a'' Created ''/b'')))"
  using operations_are_runs[OF demo_pair_ok, where d = demo_daemon] by blast

theorem start_outcome_witness:
  "\<exists>h'. do_start_instance demo_daemon plain_io plain_io (replicate 32 2) (demo_pair Running ''/a'' Created ''/b'')
      = (Inr (), AList.update (replicate 32 2) h' (demo_pair Running ''/a'' Created ''/b''))
    \<and> handle_state h' = Running"
proof -
  let ?r = "demo_pair Running ''/a'' Created ''/b''" and ?i = "replicate 32 2 :: instance_id"
  have ok: "reg_ok ?r" by (rule demo_pair_ok)
  obtain bk where bk: "dm_backends demo_daemon Qemu = Some bk" "\<And>c. bk_spawn bk c = Inr (show_instance_id (ic_id c))"
    by (simp add: demo_daemon_def)
  have g: "start_gates (dm_host demo_daemon) ?i (demo_vm 2 ''/b'') ?r = Inr ()"
    using demo_gates[of "snd (demo_entry Running 1 ''/a'')" "''/a''" "snd (demo_entry Created 2 ''/b'')" "''/b''" ?i 2]
    by (simp add: demo_pair_shape)
  have files: "validate_instance_files (dm_host demo_daemon) (demo_vm 2 ''/b'') = Inr ()"
    by (simp add: validate_instance_files_def check_files_def demo_daemon_def find_None[THEN iffD2])
  from start_outcome[OF ok demo_pair_registered(2), of demo_daemon bk plain_io plain_io] bk g files
  show ?thesis by (cases "do_start_instance demo_daemon plain_io plain_io ?i ?r") auto
qed

theorem memory_gate_exact_witness:
  "case check_memory_overcommit (dm_host demo_daemon) (replicate 32 2) (demo_vm 2 ''/b'') (demo_pair Running ''/a'' Created ''/b'') of
     Inr _ \<Rightarrow> true_used (replicate 32 2) (demo_pair Running ''/a'' Created ''/b'') + 8589934592 \<le> 68719476736
   | Inl _ \<Rightarrow> False"
proof -
  have used: "true_used (replicate 32 2) (demo_pair Running ''/a'' Created ''/b'') = 8589934592"
    by (simp add: true_used_def counted_instances_def demo_pair_def demo_entry_def handle_state_def handle_config_def
        guest_memory_def spawn_supervisor_def Let_def config_defaults GIB_def)
  have own: "unat (mem_size memory_reference_default) = 8589934592" by (simp add: config_defaults GIB_def)
  show ?thesis
    using memory_gate_exact[OF demo_ram, of "replicate 32 2" "demo_pair Running ''/a'' Created ''/b''" "demo_vm 2 ''/b''"]
    by (simp add: used own split: sum.splits)
qed

theorem live_memory_edit_moves_gate_witness:
  "\<exists>reg' h'. set_instance_config demo_daemon plain_io plain_io (replicate 32 1) ''memory.size_bytes'' (show_word (1 :: u64) @ '' GiB'')
      (demo_pair Running ''/a'' Created ''/b'') = (Inr (), reg')
    \<and> registered reg' (replicate 32 1) = Some h' \<and> handle_state h' = Running"
proof -
  let ?r = "demo_pair Running ''/a'' Created ''/b''" and ?j = "replicate 32 1 :: instance_id"
  have ok: "reg_ok ?r" by (rule demo_pair_ok)
  have row: "find_key ''memory.size_bytes'' =
      Some (ConfigKey ''memory.size_bytes'' (\<lambda>c. format_size (mem_size (ic_memory c))) (Some memory_size_set) None False)"
    by (simp add: find_key_def config_keys_def key_row_defs)
  have size: "parse_size (show_word (1 :: u64) @ '' GiB'') = Inr (1024 * 1024 * 1024)"
    by (simp add: parse_size_units checked_mul_def)
  have "\<exists>c'. edited_config (demo_vm 1 ''/a'') ''memory.size_bytes'' (show_word (1 :: u64) @ '' GiB'') = Inr c'"
    unfolding edited_config_def set_key_def row ok_or_simps rbind_Inr config_key.sel option.case memory_size_set_def size map_err_simps
    by (simp add: check_valid_def validate_def demo_vm_def
        example_config_def config_defaults check_gpu_def network_validate_def GIB_def MIB_def)
  then obtain c' where c': "edited_config (demo_vm 1 ''/a'') ''memory.size_bytes'' (show_word (1 :: u64) @ '' GiB'') = Inr c'" by blast
  have snap: "cs_file_error (fst (reload_config e (ih_sup (snd (demo_entry Running 1 ''/a''))))) = None"
    "cs_config (fst (reload_config e (ih_sup (snd (demo_entry Running 1 ''/a''))))) = demo_vm 1 ''/a''" for e
    by (simp_all add: reload_config_def demo_entry_def spawn_supervisor_def Let_def reload_if_changed_def)
  obtain reg' where reg': "set_instance_config demo_daemon plain_io plain_io ?j ''memory.size_bytes'' (show_word (1 :: u64) @ '' GiB'') ?r = (Inr (), reg')"
    using c' snap by (simp add: set_instance_config_def handle_for_def demo_pair_registered apply_live_key_def Let_def)
  from live_memory_edit_moves_gate[OF ok demo_pair_registered(1) _ _ reg', of "replicate 32 2"] reg'
  show ?thesis by auto
qed

theorem stopping_instance_frees_disk_witness:
  "check_disk_conflicts (replicate 32 2) (demo_vm 2 ''/a'') (demo_pair Running ''/a'' Created ''/a'') \<noteq> Inr ()
   \<and> check_disk_conflicts (replicate 32 2) (demo_vm 2 ''/a'')
       (snd (send_transition demo_daemon plain_io (replicate 32 1) Stop (demo_pair Running ''/a'' Created ''/a''))) = Inr ()"
proof -
  have ok: "reg_ok (demo_pair Running ''/a'' Created ''/a'')" by (rule demo_pair_ok)
  show ?thesis
    using stopping_instance_frees_disk[OF ok demo_pair_registered(1), of "replicate 32 2" "''/a''" "demo_vm 2 ''/a''" demo_daemon plain_io]
    by (auto dest!: demo_pair_other)
qed

end
