(* ===== verification/Cmdline.thy ===== *)
theory Cmdline
  imports Errors Qcow2
begin

text \<open>
  The QEMU command line of an instance (\<open>backends/andler-qemu/src/cmdline.rs\<close>): every argument
  group in the order of \<open>build_args\<close>, the device ids the boot-time arguments and the hotplug path
  share, and the two refusals (GPU passthrough, a second NIC beside an isolated one). The path of
  the console socket comes from the host's runtime directory and is the parameter \<open>console\<close>.

  The theorems say which arguments can clash (device ids and root ports), when the CPU topology is
  one QEMU takes, which memory size the guest gets, and that the port forwards of extra networks
  reach no argument.
\<close>

section \<open>Ids and sockets\<close>

definition extra_disk_drive_id :: "nat \<Rightarrow> string" where
  "extra_disk_drive_id index = ''drive-extra'' @ show_nat index"

definition extra_disk_device_id :: "nat \<Rightarrow> string" where
  "extra_disk_device_id index = ''extra'' @ show_nat index"

definition extra_net_id :: "nat \<Rightarrow> string" where
  "extra_net_id index = ''net-extra'' @ show_nat index"

definition primary_net_bridge_tap_iface :: "string \<Rightarrow> string" where
  "primary_net_bridge_tap_iface instance_id = ''tap'' @ take 8 instance_id"

definition extra_net_bridge_tap_iface :: "string \<Rightarrow> nat \<Rightarrow> string" where
  "extra_net_bridge_tap_iface instance_id index = ''tap'' @ take 8 instance_id @ ''-e'' @ show_nat index"

definition primary_net_isolated_iface :: string where
  "primary_net_isolated_iface = ''andler0''"

definition root_port :: "nat \<Rightarrow> string" where
  "root_port n = ''root-port-'' @ show_nat n"

text \<open>\<open>Path::with_file_name\<close> and \<open>Path::with_extension\<close>.\<close>

definition with_file_name :: "string \<Rightarrow> string \<Rightarrow> string" where
  "with_file_name p n =
     (case file_name p of None \<Rightarrow> path_join p n | Some _ \<Rightarrow> path_join (parent_or_empty p) n)"

definition file_stem :: "string \<Rightarrow> string" where
  "file_stem n = (let r = dropWhile (\<lambda>c. c \<noteq> CHR ''.'') (rev n) in
     if r = [] \<or> tl r = [] then n else rev (tl r))"

definition with_extension :: "string \<Rightarrow> string \<Rightarrow> string" where
  "with_extension p ext =
     (case file_name p of None \<Rightarrow> p | Some n \<Rightarrow> path_join (parent_or_empty p) (file_stem n @ ''.'' @ ext))"

definition events_socket_path_for :: "string \<Rightarrow> string" where
  "events_socket_path_for qmp =
     with_file_name qmp ((case file_name qmp of Some n \<Rightarrow> n | None \<Rightarrow> ''qmp.sock'') @ ''.events.sock'')"

section \<open>Argument groups\<close>

definition name_args :: "instance_config \<Rightarrow> string list" where
  "name_args c = [''-name'', ic_name c @ '',process='' @ ic_name c]"

definition qmp_args :: "string \<Rightarrow> string list" where
  "qmp_args qmp =
     [''-qmp'', ''unix:'' @ qmp @ '',server,nowait'',
      ''-qmp'', ''unix:'' @ events_socket_path_for qmp @ '',server,nowait'']"

definition guest_agent_args :: "instance_config \<Rightarrow> string \<Rightarrow> string list" where
  "guest_agent_args c qmp =
     [''-chardev'', ''socket,id=qga,path='' @ with_extension qmp ''qga.sock'' @ '',server=on,wait=off'']
     @ (if in_clipboard (ic_input c) then [] else [''-device'', ''virtio-serial-pci''])
     @ [''-device'', ''virtserialport,chardev=qga,id=qga,name=org.qemu.guest_agent.0'']"

definition serial_args :: "(instance_id \<Rightarrow> string) \<Rightarrow> instance_config \<Rightarrow> string list" where
  "serial_args console c =
     (case path_parent (disk_path (ic_disk c)) of
        None \<Rightarrow> []
      | Some dir \<Rightarrow>
          [''-chardev'', ''socket,id=console0,path='' @ console (ic_id c) @ '',server=on,wait=off,logfile=''
             @ path_join dir ''console.log'' @ '',logappend=on'',
           ''-serial'', ''chardev:console0''])"

definition root_port_args :: "nat \<Rightarrow> string list" where
  "root_port_args slot =
     [''-device'', ''pcie-root-port,id='' @ root_port slot @ '',chassis='' @ show_nat (slot + 1) @ '',slot='' @ show_nat slot]"

definition smp_arg :: "cpu_config \<Rightarrow> string" where
  "smp_arg cpu =
     ''cpus='' @ show_word (cpu_cores cpu) @ '',sockets='' @ show_word (cpu_sockets cpu) @ '',dies=1,cores=''
       @ show_word (cpu_cores cpu) @ '',threads='' @ show_word (cpu_threads cpu)"

definition machine_and_cpu_args :: "instance_config \<Rightarrow> string list" where
  "machine_and_cpu_args c =
     [''-machine'', ''q35,accel=kvm,usb=on''] @ concat (map root_port_args [0..<16])
     @ [''-cpu'', ''host,kvm=on,+topoext,migratable=no'', ''-smp'', smp_arg (ic_cpu c)]"

definition qemu_size_suffix :: "u64 \<Rightarrow> string" where
  "qemu_size_suffix bytes =
     (if bytes mod GIB = 0 then show_word (bytes div GIB) @ ''G'' else show_word (bytes div MIB) @ ''M'')"

definition memory_args :: "instance_config \<Rightarrow> string list" where
  "memory_args c =
     (let m = ic_memory c; size = qemu_size_suffix (mem_size m); share = (if mem_ksm m then ''on'' else ''off'') in
      [''-m'', size, ''-object'',
       (if mem_hugepages m
        then ''memory-backend-file,id=mem1,size='' @ size @ '',share='' @ share @ '',mem-path=/dev/hugepages,preallocate=true''
        else ''memory-backend-memfd,id=mem1,size='' @ size @ '',share='' @ share),
       ''-machine'', ''memory-backend=mem1'']
      @ (if mem_lock m then [''-overcommit'', ''mem-lock=on'', ''-mem-prealloc''] else []))"

definition firmware_args :: "instance_config \<Rightarrow> string list" where
  "firmware_args c =
     (let fw = ic_firmware c in
      if \<not> fw_enable_uefi fw then []
      else [''-drive'', ''if=pflash,format=raw,readonly=on,file='' @ fw_ovmf_code fw,
            ''-drive'', ''if=pflash,format=raw,file='' @ fw_ovmf_vars fw])"

definition on_off :: "bool \<Rightarrow> string" where
  "on_off b = (if b then ''on'' else ''off'')"

definition bool_text :: "bool \<Rightarrow> string" where
  "bool_text b = (if b then ''true'' else ''false'')"

fun gpu_args :: "gpu_config \<Rightarrow> render_backend \<Rightarrow> backend_error + string list" where
  "gpu_args g CpuRender = Inr [''-vga'', ''std'']"
| "gpu_args g VirtioGpu = Inr [''-vga'', ''none'', ''-device'', ''virtio-gpu-pci'']"
| "gpu_args g VirGl = Inr [''-vga'', ''none'', ''-device'',
     ''virtio-gpu-gl,hostmem='' @ qemu_size_suffix (gpu_hostmem g) @ '',blob='' @ bool_text (gpu_blob g)]"
| "gpu_args g Venus = Inr [''-vga'', ''none'', ''-device'',
     ''virtio-gpu-gl,hostmem='' @ qemu_size_suffix (gpu_hostmem g) @ '',blob='' @ bool_text (gpu_blob g) @ '',venus=true'']"
| "gpu_args g (Passthrough _) = Inl (NotImplemented ''qemu'' ''RenderBackend::Passthrough'')"

definition display_arg :: "instance_config \<Rightarrow> string" where
  "display_arg c =
     (let gl = on_off (gpu_gl (ic_gpu c)); show_cursor = (if in_hide_host_cursor (ic_input c) then ''off'' else ''on'') in
      case disp_engine (ic_display c) of
        Sdl \<Rightarrow> ''sdl,gl='' @ gl @ '',show-cursor='' @ show_cursor @ '',window-close=off''
      | Gtk \<Rightarrow> ''gtk,gl='' @ gl @ '',show-cursor='' @ show_cursor @ '',clipboard=on,window-close=off''
      | Spice \<Rightarrow> ''spice-app''
      | Dbus \<Rightarrow> ''dbus''
      | NoDisplay \<Rightarrow> ''none'')"

definition gpu_display_args :: "instance_config \<Rightarrow> backend_error + string list" where
  "gpu_display_args c =
     rbind (gpu_args (ic_gpu c) (gpu_render (ic_gpu c))) (\<lambda>args. Inr (args @ [''-display'', display_arg c]))"

definition display_resolution_fwcfg_args :: "instance_config \<Rightarrow> string list option" where
  "display_resolution_fwcfg_args c =
     (let res = disp_resolution (ic_display c) in
      if 0 < res_width res \<and> 0 < res_height res
      then Some [''-fw_cfg'', ''name=opt/andler/display-resolution,string='' @ show_word (res_width res) @ ''x'' @ show_word (res_height res)]
      else None)"

fun main_disk_args :: "disk_format \<Rightarrow> string \<Rightarrow> string list" where
  "main_disk_args Qcow2 path =
     [''-blockdev'', ''driver=file,node-name=file-disk0,filename='' @ path @ '',aio=threads,discard=unmap'',
      ''-blockdev'', ''driver=qcow2,node-name=drive-disk0,file=file-disk0,detect-zeroes=on'']"
| "main_disk_args RawDisk path =
     [''-blockdev'', ''driver=file,node-name=file-disk0,filename='' @ path @ '',aio=threads,discard=unmap'',
      ''-blockdev'', ''driver=raw,node-name=drive-disk0,file=file-disk0'']"
| "main_disk_args Vdi path =
     [''-blockdev'', ''driver=file,node-name=file-disk0,filename='' @ path @ '',aio=threads'',
      ''-blockdev'', ''driver=vdi,node-name=drive-disk0,file=file-disk0'']"

fun format_arg :: "disk_format \<Rightarrow> string" where
  "format_arg Qcow2 = ''qcow2''"
| "format_arg RawDisk = ''raw''"
| "format_arg Vdi = ''vdi''"

definition extra_disk_args :: "nat \<Rightarrow> disk_config \<Rightarrow> string list" where
  "extra_disk_args index d =
     [''-drive'', ''file='' @ disk_path d @ '',format='' @ format_arg (disk_config.disk_format d) @ '',if=none,id=''
        @ extra_disk_drive_id index @ '',discard=on,detect-zeroes=on,aio=threads'',
      ''-device'', ''virtio-blk-pci,drive='' @ extra_disk_drive_id index @ '',id='' @ extra_disk_device_id index
        @ '',bus='' @ root_port (index mod 8)]"

fun cdrom_args :: "instance_kind \<Rightarrow> string list" where
  "cdrom_args (LinuxVm iso_path bus) =
     [''-drive'', ''file='' @ iso_path @ '',media=cdrom,if=none,id=drive-cd0'']
     @ (case bus of
          Ide \<Rightarrow> [''-device'', ''ide-cd,drive=drive-cd0,id=cd0,bootindex=2'']
        | VirtioScsi \<Rightarrow> [''-device'', ''virtio-scsi-pci,id=scsi0'',
            ''-device'', ''scsi-cd,drive=drive-cd0,bus=scsi0.0,id=cd0,bootindex=2''])"
| "cdrom_args (AndroidVm _) = []"

definition disk_args :: "instance_config \<Rightarrow> string list" where
  "disk_args c =
     main_disk_args (disk_config.disk_format (ic_disk c)) (disk_path (ic_disk c))
     @ [''-device'', ''virtio-blk-pci,drive=drive-disk0,id=disk0,bootindex=1,num-queues=4'']
     @ concat (map (\<lambda>(index, d). extra_disk_args index d) (enumerate 0 (ic_extra_disks c)))
     @ cdrom_args (ic_kind c)"

definition input_args :: "instance_config \<Rightarrow> string list" where
  "input_args c =
     (case in_pointer_mode (ic_input c) of
        Tablet \<Rightarrow> [''-device'', ''virtio-tablet-pci,id=tablet0'']
      | Mouse \<Rightarrow> [''-device'', ''virtio-mouse-pci,id=mouse0''])
     @ (if in_clipboard (ic_input c)
        then [''-device'', ''virtio-serial-pci'',
              ''-device'', ''virtserialport,chardev=ch1,id=ch1,name=com.redhat.spice.0'',
              ''-chardev'', ''qemu-vdagent,id=ch1,name=vdagent,clipboard=on,mouse=on'']
        else [])"

section \<open>Networks\<close>

fun protocol_arg :: "port_protocol \<Rightarrow> string" where
  "protocol_arg Tcp = ''tcp''"
| "protocol_arg Udp = ''udp''"

definition hostfwd_args :: "port_forward list \<Rightarrow> string" where
  "hostfwd_args fs =
     concat (map (\<lambda>f. '',hostfwd='' @ protocol_arg (pf_protocol f) @ '':''
       @ (case pf_host_address f of Some addr \<Rightarrow> addr | None \<Rightarrow> [])
       @ '':'' @ show_word (pf_host_port f) @ ''-:'' @ show_word (pf_guest_port f)) fs)"

definition passt_port_args :: "port_forward list \<Rightarrow> string" where
  "passt_port_args fs =
     (if fs = [] then []
      else '',-'' @ join '','' (map (\<lambda>f. protocol_arg (pf_protocol f) @ '':'' @ show_word (pf_host_port f) @ '':''
        @ show_word (pf_guest_port f)) fs))"

definition primary_network_args :: "instance_config \<Rightarrow> string list" where
  "primary_network_args c =
     (let n = ic_network c; device = [''-device'', net_device_model n @ '',netdev=net0''] in
      case net_mode n of
        Nat \<Rightarrow>
          (case net_nat_backend n of
             Slirp \<Rightarrow> [''-nic'', ''user,model='' @ net_device_model n @ hostfwd_args (net_port_forwards n)]
           | Passt \<Rightarrow> [''-netdev'', ''passt,id=net0'' @ passt_port_args (net_port_forwards n)] @ device)
      | Bridge bridge \<Rightarrow>
          [''-netdev'', ''tap,id=net0,ifname='' @ primary_net_bridge_tap_iface (show_instance_id (ic_id c))
             @ '',bridge='' @ bridge @ '',script=no,downscript=no''] @ device
      | Isolated \<Rightarrow>
          [''-netdev'', ''tap,id=net0,ifname='' @ primary_net_isolated_iface @ '',script=no,downscript=no''] @ device)"

definition quoted :: "string \<Rightarrow> string" where
  "quoted s = [CHR 0x22] @ s @ [CHR 0x22]"

definition isolated_with_extras :: "nat \<Rightarrow> backend_error" where
  "isolated_with_extras n =
     BackendInvalidConfig ''qemu'' (''network.mode = '' @ quoted ''isolated'' @ '' takes no additional NICs ('' @ show_nat n
       @ '' configured): the guest is off every host network because its whole QEMU process runs in its own network ''
       @ ''namespace, and a second NIC would either need a namespace of its own or leak host ''
       @ ''connectivity into the guest. Remove extra_networks, or use network.mode = '' @ quoted ''nat'' @ '' / ''
       @ quoted ''bridge'' @ ''.'')"

definition isolated_extra :: "nat \<Rightarrow> backend_error" where
  "isolated_extra index =
     BackendInvalidConfig ''qemu'' (''extra_networks['' @ show_nat index @ ''].mode = '' @ quoted ''isolated''
       @ '' cannot be attached: only the instance's primary network can put the guest in a network namespace, and a ''
       @ ''NIC added outside it is not isolated. Use network.mode = '' @ quoted ''nat'' @ '' / '' @ quoted ''bridge''
       @ '' for this NIC, or create the instance with the primary network isolated.'')"

definition extra_netdev :: "instance_id \<Rightarrow> nat \<Rightarrow> network_config \<Rightarrow> backend_error + string" where
  "extra_netdev i index n =
     (case net_mode n of
        Nat \<Rightarrow> Inr ((case net_nat_backend n of Slirp \<Rightarrow> ''user,id='' | Passt \<Rightarrow> ''passt,id='') @ extra_net_id index)
      | Bridge bridge \<Rightarrow> Inr (''tap,id='' @ extra_net_id index @ '',ifname='' @ extra_net_bridge_tap_iface (show_instance_id i) index
          @ '',bridge='' @ bridge @ '',script=no,downscript=no'')
      | Isolated \<Rightarrow> Inl (isolated_extra index))"

definition extra_network_args :: "instance_id \<Rightarrow> nat \<times> network_config \<Rightarrow> backend_error + string list" where
  "extra_network_args i = (\<lambda>(index, n).
     rbind (extra_netdev i index n) (\<lambda>netdev.
       Inr [''-netdev'', netdev, ''-device'',
            net_device_model n @ '',netdev='' @ extra_net_id index @ '',bus='' @ root_port (8 + index mod 8)]))"

definition network_args :: "instance_config \<Rightarrow> backend_error + string list" where
  "network_args c =
     (if net_mode (ic_network c) = Isolated \<and> ic_extra_networks c \<noteq> []
      then Inl (isolated_with_extras (length (ic_extra_networks c)))
      else rbind (traverse (extra_network_args (ic_id c)) (enumerate 0 (ic_extra_networks c))) (\<lambda>extras.
        Inr (primary_network_args c @ concat extras)))"

definition audio_args :: "instance_config \<Rightarrow> string list" where
  "audio_args c =
     (let a = ic_audio c;
          device = (case au_device a of
              VirtioSound \<Rightarrow> [''-device'', ''virtio-sound-pci,audiodev=snd0'']
            | Ich9Hda \<Rightarrow> [''-device'', ''ich9-intel-hda'', ''-device'', ''hda-output,audiodev=snd0''])
      in case au_backend a of
           NoAudio \<Rightarrow> []
         | Pipewire \<Rightarrow> [''-audiodev'', ''pipewire,id=snd0''] @ device
         | Pulseaudio \<Rightarrow> [''-audiodev'', ''pulseaudio,id=snd0''] @ device)"

definition build_args :: "(instance_id \<Rightarrow> string) \<Rightarrow> instance_config \<Rightarrow> string \<Rightarrow> backend_error + string list" where
  "build_args console c qmp =
     rbind (gpu_display_args c) (\<lambda>gpu. rbind (network_args c) (\<lambda>net.
       Inr (name_args c @ machine_and_cpu_args c @ memory_args c @ firmware_args c @ gpu
         @ (case display_resolution_fwcfg_args c of Some args \<Rightarrow> args | None \<Rightarrow> [])
         @ disk_args c @ input_args c @ net @ audio_args c @ qmp_args qmp @ guest_agent_args c qmp
         @ serial_args console c @ [''-boot'', ''menu=on''])))"

section \<open>When a command line is built\<close>

lemma traverse_ok_iff: "(\<exists>ys. traverse f xs = Inr ys) \<longleftrightarrow> (\<forall>x \<in> set xs. \<exists>y. f x = Inr y)"
  by (induction xs) (auto simp: rbind_eq_Inr)

lemma extra_network_ok_iff: "(\<exists>args. extra_network_args i (index, n) = Inr args) \<longleftrightarrow> net_mode n \<noteq> Isolated"
  by (cases "net_mode n") (simp_all add: extra_network_args_def extra_netdev_def)

lemma gpu_ok_iff: "(\<exists>args. gpu_display_args c = Inr args) \<longleftrightarrow> (\<forall>pci. gpu_render (ic_gpu c) \<noteq> Passthrough pci)"
  by (cases "gpu_render (ic_gpu c)") (simp_all add: gpu_display_args_def)

lemma network_ok_iff:
  "(\<exists>args. network_args c = Inr args) \<longleftrightarrow>
     (net_mode (ic_network c) = Isolated \<longrightarrow> ic_extra_networks c = [])
     \<and> (\<forall>n \<in> set (ic_extra_networks c). net_mode n \<noteq> Isolated)"
proof -
  have "(\<exists>ys. traverse (extra_network_args (ic_id c)) (enumerate 0 (ic_extra_networks c)) = Inr ys)
      \<longleftrightarrow> (\<forall>n \<in> set (ic_extra_networks c). net_mode n \<noteq> Isolated)"
    unfolding traverse_ok_iff
    by (simp add: all_set_conv_all_nth nth_enumerate_eq extra_network_ok_iff)
  then show ?thesis by (auto simp: network_args_def rbind_eq_Inr)
qed

text \<open>A command line is built for every configuration except these: GPU passthrough, an isolated
  primary network beside extra networks, and an isolated extra network.\<close>

theorem build_args_ok_iff:
  "(\<exists>args. build_args console c qmp = Inr args) \<longleftrightarrow>
     \<not> ((\<exists>pci. gpu_render (ic_gpu c) = Passthrough pci)
       \<or> (net_mode (ic_network c) = Isolated \<and> ic_extra_networks c \<noteq> [])
       \<or> (\<exists>n \<in> set (ic_extra_networks c). net_mode n = Isolated))"
  using gpu_ok_iff[of c] network_ok_iff[of c] by (auto simp: build_args_def rbind_eq_Inr)

section \<open>Port forwards of extra networks\<close>

definition without_extra_forwards :: "instance_config \<Rightarrow> instance_config" where
  "without_extra_forwards c = c\<lparr>ic_extra_networks := map (\<lambda>n. n\<lparr>net_port_forwards := []\<rparr>) (ic_extra_networks c)\<rparr>"

lemma without_forwards_same [simp]:
  "ic_name (without_extra_forwards c) = ic_name c" "ic_id (without_extra_forwards c) = ic_id c"
  "ic_cpu (without_extra_forwards c) = ic_cpu c" "ic_memory (without_extra_forwards c) = ic_memory c"
  "ic_firmware (without_extra_forwards c) = ic_firmware c" "ic_gpu (without_extra_forwards c) = ic_gpu c"
  "ic_display (without_extra_forwards c) = ic_display c" "ic_disk (without_extra_forwards c) = ic_disk c"
  "ic_extra_disks (without_extra_forwards c) = ic_extra_disks c" "ic_kind (without_extra_forwards c) = ic_kind c"
  "ic_input (without_extra_forwards c) = ic_input c" "ic_network (without_extra_forwards c) = ic_network c"
  "ic_audio (without_extra_forwards c) = ic_audio c"
  by (simp_all add: without_extra_forwards_def)

lemma traverse_map: "traverse f (map g xs) = traverse (\<lambda>x. f (g x)) xs"
  by (induction xs) simp_all

lemma network_args_same: "network_args (without_extra_forwards c) = network_args c"
proof -
  have "extra_network_args i (index, n\<lparr>net_port_forwards := []\<rparr>) = extra_network_args i (index, n)" for i index n
    by (cases "net_mode n") (simp_all add: extra_network_args_def extra_netdev_def)
  then have "traverse (extra_network_args i) (enumerate 0 (ic_extra_networks (without_extra_forwards c)))
      = traverse (extra_network_args i) (enumerate 0 (ic_extra_networks c))" for i
    by (simp add: without_extra_forwards_def enumerate_map_upt[symmetric] zip_map2 enumerate_eq_zip traverse_map split_beta)
  moreover have "primary_network_args (without_extra_forwards c) = primary_network_args c"
    unfolding primary_network_args_def without_forwards_same ..
  moreover have "length (ic_extra_networks (without_extra_forwards c)) = length (ic_extra_networks c)"
      "ic_extra_networks (without_extra_forwards c) = [] \<longleftrightarrow> ic_extra_networks c = []"
    by (simp_all add: without_extra_forwards_def)
  ultimately show ?thesis by (simp only: network_args_def without_forwards_same)
qed

text \<open>The port forwards of extra networks reach no argument: removing them all leaves the command
  line as it is, whatever the networks are. (The start gate and the configuration both treat them
  as forwarded host ports.)\<close>

theorem extra_forwards_ignored:
  "build_args console (without_extra_forwards c) qmp = build_args console c qmp"
proof -
  have "gpu_display_args (without_extra_forwards c) = gpu_display_args c"
    unfolding gpu_display_args_def display_arg_def without_forwards_same ..
  then show ?thesis
    unfolding build_args_def network_args_same name_args_def machine_and_cpu_args_def memory_args_def
      firmware_args_def display_resolution_fwcfg_args_def disk_args_def input_args_def audio_args_def
      guest_agent_args_def serial_args_def without_forwards_same by simp
qed

section \<open>The memory size\<close>

text \<open>What QEMU reads back from a size argument.\<close>

definition qemu_bytes :: "string \<Rightarrow> nat" where
  "qemu_bytes s = digits_value (butlast s) * (if last s = CHR ''G'' then 2 ^ 30 else 2 ^ 20)"

text \<open>The guest gets the configured memory rounded down to a whole number of MiB: exactly the
  configured size when that is a multiple of 1 MiB, and no memory at all below 1 MiB.\<close>

theorem guest_memory_rounded:
  "qemu_bytes (qemu_size_suffix b) = unat b - unat b mod 2 ^ 20"
proof -
  have gib: "unat (b div GIB) = unat b div 2 ^ 30" "unat (b mod GIB) = unat b mod 2 ^ 30"
    by (simp_all add: GIB_def unat_div unat_mod)
  have mib: "unat (b div MIB) = unat b div 2 ^ 20" by (simp add: MIB_def unat_div)
  have down: "unat b div 2 ^ 20 * 2 ^ 20 = unat b - unat b mod 2 ^ 20" by (simp add: minus_mod_eq_div_mult)
  show ?thesis
  proof (cases "b mod GIB = 0")
    case True
    then have g: "unat b mod 2 ^ 30 = 0" using gib(2) by simp
    then have "(2 :: nat) ^ 30 dvd unat b" by (simp only: mod_eq_0_iff_dvd)
    then have "(2 :: nat) ^ 20 dvd unat b" by (rule dvd_trans[rotated]) (simp add: le_imp_power_dvd)
    then have "unat b mod 2 ^ 20 = 0" by (simp only: mod_eq_0_iff_dvd)
    moreover have "unat b div 2 ^ 30 * 2 ^ 30 = unat b" using g by (metis add.right_neutral div_mult_mod_eq)
    ultimately show ?thesis
      using True by (simp only: qemu_bytes_def qemu_size_suffix_def if_True butlast_append) (simp add: show_word_def gib)
  next
    case False
    then show ?thesis
      using down by (simp only: qemu_bytes_def qemu_size_suffix_def if_False) (simp add: show_word_def mib)
  qed
qed

section \<open>The CPU topology\<close>

text \<open>A numeric option of a \<open>key=value,...\<close> argument.\<close>

definition numeric_option :: "string \<Rightarrow> string \<Rightarrow> nat option" where
  "numeric_option key arg =
     (case List.find (starts_with (key @ ''='')) (split_on (CHR '','') arg) of
        None \<Rightarrow> None
      | Some f \<Rightarrow> Some (digits_value (drop (length key + 1) f)))"

text \<open>What QEMU requires of \<open>-smp\<close>: the product of the hierarchy is the number of CPUs.\<close>

definition smp_accepted :: "string \<Rightarrow> bool" where
  "smp_accepted arg \<longleftrightarrow>
     (\<exists>n s d c t. numeric_option ''cpus'' arg = Some n \<and> numeric_option ''sockets'' arg = Some s
        \<and> numeric_option ''dies'' arg = Some d \<and> numeric_option ''cores'' arg = Some c
        \<and> numeric_option ''threads'' arg = Some t \<and> s * d * c * t = n)"

lemma smp_fields:
  "split_on (CHR '','') (smp_arg cpu) =
     [''cpus='' @ show_word (cpu_cores cpu), ''sockets='' @ show_word (cpu_sockets cpu), ''dies=1'',
      ''cores='' @ show_word (cpu_cores cpu), ''threads='' @ show_word (cpu_threads cpu)]"
proof -
  have no: "CHR '','' \<notin> set (k @ show_word w)" if "CHR '','' \<notin> set k" for k and w :: u32
    using that show_word_digits[of "CHR '',''" w] by (auto simp: is_digit_def byte_def)
  have "smp_arg cpu = (''cpus='' @ show_word (cpu_cores cpu)) @ CHR '','' # (''sockets='' @ show_word (cpu_sockets cpu))
      @ CHR '','' # ''dies=1'' @ CHR '','' # (''cores='' @ show_word (cpu_cores cpu)) @ CHR '','' # (''threads='' @ show_word (cpu_threads cpu))"
    by (simp add: smp_arg_def)
  moreover have "CHR '','' \<notin> set (''cpus='' @ show_word (cpu_cores cpu))" "CHR '','' \<notin> set (''sockets='' @ show_word (cpu_sockets cpu))"
      "CHR '','' \<notin> set ''dies=1''" "CHR '','' \<notin> set (''cores='' @ show_word (cpu_cores cpu))"
      "CHR '','' \<notin> set (''threads='' @ show_word (cpu_threads cpu))"
    by (rule no, simp, rule no, simp, simp, rule no, simp, rule no, simp)
  ultimately show ?thesis by (simp only: split_on_append split_on_last not_False_eq_True)
qed

lemma numeric_option_field:
  assumes "split_on (CHR '','') arg = before @ (key @ ''='' @ v) # after" "\<And>f. f \<in> set before \<Longrightarrow> \<not> starts_with (key @ ''='') f"
  shows "numeric_option key arg = Some (digits_value v)"
proof -
  have "List.find (starts_with (key @ ''='')) (before @ (key @ ''='' @ v) # after) = Some (key @ ''='' @ v)"
    using assms(2) starts_with_append[of "key @ ''=''" v] by (induction before) simp_all
  then show ?thesis by (simp add: numeric_option_def assms(1))
qed

lemma digits_show_word: "digits_value (show_word w) = unat w"
  by (simp add: show_word_def)

lemma smp_options:
  "numeric_option ''cpus'' (smp_arg cpu) = Some (unat (cpu_cores cpu))"
  "numeric_option ''sockets'' (smp_arg cpu) = Some (unat (cpu_sockets cpu))"
  "numeric_option ''dies'' (smp_arg cpu) = Some 1"
  "numeric_option ''cores'' (smp_arg cpu) = Some (unat (cpu_cores cpu))"
  "numeric_option ''threads'' (smp_arg cpu) = Some (unat (cpu_threads cpu))"
proof -
  note fields = smp_fields[of cpu] and numbers = digits_show_word[symmetric]
  have one: "digits_value ''1'' = 1" by (simp add: digits_value_def byte_def)
  show "numeric_option ''cpus'' (smp_arg cpu) = Some (unat (cpu_cores cpu))"
    unfolding numbers by (rule numeric_option_field[where before = "[]"]) (simp_all add: fields)
  show "numeric_option ''sockets'' (smp_arg cpu) = Some (unat (cpu_sockets cpu))"
    unfolding numbers by (rule numeric_option_field[where before = "take 1 (split_on (CHR '','') (smp_arg cpu))"])
      (simp_all add: fields, simp add: starts_with_def)
  show "numeric_option ''dies'' (smp_arg cpu) = Some 1"
    unfolding one[symmetric] by (rule numeric_option_field[where before = "take 2 (split_on (CHR '','') (smp_arg cpu))"])
      (simp_all add: fields, auto simp: starts_with_def)
  show "numeric_option ''cores'' (smp_arg cpu) = Some (unat (cpu_cores cpu))"
    unfolding numbers by (rule numeric_option_field[where before = "take 3 (split_on (CHR '','') (smp_arg cpu))"])
      (simp_all add: fields, auto simp: starts_with_def)
  show "numeric_option ''threads'' (smp_arg cpu) = Some (unat (cpu_threads cpu))"
    unfolding numbers by (rule numeric_option_field[where before = "take 4 (split_on (CHR '','') (smp_arg cpu))"])
      (simp_all add: fields, auto simp: starts_with_def)
qed

lemma topology_product: "s * c * t = c \<longleftrightarrow> c = 0 \<or> s * t = (1 :: nat)"
proof -
  have "s * c * t = c * (s * t)" by (simp add: ac_simps)
  moreover have "c * (s * t) = c \<longleftrightarrow> c = 0 \<or> s * t = 1" by (cases "c = 0") simp_all
  ultimately show ?thesis by simp
qed

text \<open>The CPU topology on the command line is one QEMU accepts only for a single socket and a
  single thread per core: \<open>cpus\<close> is the number of cores, not of sockets times cores times threads.
  (With no cores at all, which the configuration excludes, both sides are 0.)\<close>

theorem smp_accepted_iff:
  "smp_accepted (smp_arg cpu) \<longleftrightarrow> cpu_cores cpu = 0 \<or> (cpu_sockets cpu = 1 \<and> cpu_threads cpu = 1)"
proof -
  have "smp_accepted (smp_arg cpu) \<longleftrightarrow>
      unat (cpu_sockets cpu) * unat (cpu_cores cpu) * unat (cpu_threads cpu) = unat (cpu_cores cpu)"
    by (simp add: smp_accepted_def smp_options)
  also have "\<dots> \<longleftrightarrow> unat (cpu_cores cpu) = 0 \<or> unat (cpu_sockets cpu) * unat (cpu_threads cpu) = 1"
    by (rule topology_product)
  also have "\<dots> \<longleftrightarrow> cpu_cores cpu = 0 \<or> (cpu_sockets cpu = 1 \<and> cpu_threads cpu = 1)"
  proof -
    have one: "unat w = 1 \<longleftrightarrow> w = 1" for w :: u32 by (simp add: word_unat_eq_iff)
    show ?thesis by (simp only: nat_mult_eq_1_iff one unat_eq_0)
  qed
  finally show ?thesis .
qed

end
