(* ===== verification/Hotplug.thy ===== *)
theory Hotplug
  imports StartGates Cmdline
begin

text \<open>
  Attaching and detaching devices of a running instance
  (\<open>apps/daemon/src/daemon/hotplug_ops.rs\<close>) down to the QMP commands of the QEMU backend
  (\<open>backends/andler-qemu/src/backend.rs\<close>, \<open>qmp.rs\<close>).

  The guest behind the QMP socket is the parameter \<open>qmp_peer\<close>: it executes one command at a time,
  time may pass (\<open>qp_wait\<close>: the guest acknowledges an unplug), and \<open>qp_nodes\<close>, \<open>qp_devices\<close>,
  \<open>qp_unplugging\<close> observe its block nodes, its devices with their node and root port, and the
  devices asked to leave. \<open>qmp_laws\<close> is what QEMU documents about the commands used here.

  The theorems: device ids follow the positions of the configuration's list as long as only the
  last disk is detached; after any other detach the ids are off by one and a later detach takes
  the wrong disk out of the guest. A plain file name is never accepted as a path, and attaching
  does not look at other instances.
\<close>

section \<open>The guest behind QMP\<close>

datatype qmp_error =
    ConnectFailed string
  | QmpIo string
  | ConnectionClosed
  | QmpParseError string
  | QmpCommandFailed string string string
  | GuestUnplugTimeout string

datatype qmp_command =
    BlockdevAdd string string string
  | BlockdevDel string
  | DeviceAdd string string string string
  | DeviceDel string

record 'g qmp_peer =
  qp_exec :: "qmp_command \<Rightarrow> 'g \<Rightarrow> (qmp_error + unit) \<times> 'g"
  qp_connect :: "'g \<Rightarrow> qmp_error option"
  qp_alive :: "'g \<Rightarrow> bool"
  qp_known :: "backend_handle \<Rightarrow> bool"
  qp_wait :: "'g \<Rightarrow> 'g"
  qp_nodes :: "'g \<Rightarrow> string \<Rightarrow> string option"
  qp_devices :: "'g \<Rightarrow> string \<Rightarrow> (string \<times> string) option"
  qp_unplugging :: "'g \<Rightarrow> string set"

fun show_qmp_error :: "qmp_error \<Rightarrow> string" where
  "show_qmp_error (ConnectFailed m) = ''failed to connect to QMP socket '' @ m"
| "show_qmp_error (QmpIo m) = ''QMP I/O error: '' @ m"
| "show_qmp_error ConnectionClosed = ''QMP connection closed unexpectedly''"
| "show_qmp_error (QmpParseError m) = ''failed to parse QMP message: '' @ m"
| "show_qmp_error (QmpCommandFailed c k d) = ''QMP command `'' @ c @ ''` failed: class='' @ k @ '', desc='' @ d"
| "show_qmp_error (GuestUnplugTimeout i) =
     ''hot-unplug of `'' @ i @ ''` was not acknowledged by the guest within the timeout '' @ map char_of [0xE2 :: nat, 0x80, 0x94]
       @ '' unplug is guest-driven, so a running VM with a loaded virtio driver must release the device first; the backing file is untouched''"

definition qmp_error_to_backend_error :: "qmp_error \<Rightarrow> backend_error" where
  "qmp_error_to_backend_error e = BackendIo (show_qmp_error e)"

fun is_reply_error :: "qmp_error \<Rightarrow> bool" where
  "is_reply_error (QmpCommandFailed _ _ _) = True"
| "is_reply_error (QmpParseError _) = True"
| "is_reply_error _ = False"

fun is_device_in_use_error :: "qmp_error \<Rightarrow> bool" where
  "is_device_in_use_error (QmpCommandFailed _ k d) = (k = ''DeviceInUse'' \<or> contains ''in use'' (to_lower d))"
| "is_device_in_use_error _ = False"

text \<open>One operation, and once more after a failure of the connection; a reply that is an error is final.\<close>

definition run_qmp_operation ::
    "'g qmp_peer \<Rightarrow> ('g \<Rightarrow> (qmp_error + unit) \<times> 'g) \<Rightarrow> 'g \<Rightarrow> (backend_error + unit) \<times> 'g" where
  "run_qmp_operation p op g =
     (case qp_connect p g of
        Some e \<Rightarrow> (Inl (qmp_error_to_backend_error e), g)
      | None \<Rightarrow>
          (case op g of
             (Inr _, g1) \<Rightarrow> (Inr (), g1)
           | (Inl e, g1) \<Rightarrow>
               (if is_reply_error e then (Inl (qmp_error_to_backend_error e), g1)
                else if \<not> qp_alive p g1 then (Inl ProcessNotRunning, g1)
                else (case qp_connect p g1 of
                    Some e' \<Rightarrow> (Inl (qmp_error_to_backend_error e'), g1)
                  | None \<Rightarrow> (case op g1 of (r, g2) \<Rightarrow> (map_err qmp_error_to_backend_error r, g2))))))"

text \<open>The retry loop of \<open>detach_block_device\<close>; \<open>tries\<close> is how often \<open>blockdev-del\<close> fits into the timeout.\<close>

fun release_block :: "'g qmp_peer \<Rightarrow> string \<Rightarrow> string \<Rightarrow> nat \<Rightarrow> 'g \<Rightarrow> (qmp_error + unit) \<times> 'g" where
  "release_block p dev node tries g =
     (case qp_exec p (BlockdevDel node) g of
        (Inr _, g1) \<Rightarrow> (Inr (), g1)
      | (Inl e, g1) \<Rightarrow>
          (if is_device_in_use_error e
           then (case tries of 0 \<Rightarrow> (Inl (GuestUnplugTimeout dev), g1)
             | Suc n \<Rightarrow> release_block p dev node n (qp_wait p g1))
           else (Inl e, g1)))"

declare release_block.simps [simp del]

definition detach_block_device :: "'g qmp_peer \<Rightarrow> nat \<Rightarrow> string \<Rightarrow> string \<Rightarrow> 'g \<Rightarrow> (qmp_error + unit) \<times> 'g" where
  "detach_block_device p tries dev node g =
     (case qp_exec p (DeviceDel dev) g of
        (Inl e, g1) \<Rightarrow> (Inl e, g1)
      | (Inr _, g1) \<Rightarrow> release_block p dev node tries g1)"

definition attach_block :: "'g qmp_peer \<Rightarrow> disk_config \<Rightarrow> nat \<Rightarrow> 'g \<Rightarrow> (qmp_error + unit) \<times> 'g" where
  "attach_block p disk index g =
     (case qp_exec p (BlockdevAdd (extra_disk_drive_id index) (disk_path disk) (format_arg (disk_config.disk_format disk))) g of
        (Inl e, g1) \<Rightarrow> (Inl e, g1)
      | (Inr _, g1) \<Rightarrow>
          (case qp_exec p (DeviceAdd ''virtio-blk-pci'' (extra_disk_device_id index) (extra_disk_drive_id index)
                  (root_port (index mod 8))) g1 of
             (Inr _, g2) \<Rightarrow> (Inr (), g2)
           | (Inl e, g2) \<Rightarrow> (Inl e, snd (qp_exec p (BlockdevDel (extra_disk_drive_id index)) g2))))"

definition backend_attach_disk ::
    "'g qmp_peer \<Rightarrow> backend_handle \<Rightarrow> disk_config \<Rightarrow> nat \<Rightarrow> 'g \<Rightarrow> (backend_error + unit) \<times> 'g" where
  "backend_attach_disk p bh disk index g =
     (if \<not> qp_known p bh then (Inl (HandleNotFound bh), g) else run_qmp_operation p (attach_block p disk index) g)"

definition backend_detach_disk ::
    "'g qmp_peer \<Rightarrow> nat \<Rightarrow> backend_handle \<Rightarrow> nat \<Rightarrow> 'g \<Rightarrow> (backend_error + unit) \<times> 'g" where
  "backend_detach_disk p tries bh index g =
     (if \<not> qp_known p bh then (Inl (HandleNotFound bh), g)
      else run_qmp_operation p (detach_block_device p tries (extra_disk_device_id index) (extra_disk_drive_id index)) g)"

section \<open>The daemon's part\<close>

definition hotplug_target :: "daemon_env \<Rightarrow> instance_id \<Rightarrow> registry \<Rightarrow> daemon_error + backend_handle" where
  "hotplug_target d i reg =
     rbind (handle_for i reg) (\<lambda>h.
       if handle_state h \<noteq> Running \<and> handle_state h \<noteq> Paused
       then Inl (HotErr (HotplugRequiresRunningInstance i (handle_state h)))
       else rbind (backend_handle_of i h) (\<lambda>bh.
         rbind (backend_for d (ic_backend (handle_config h))) (\<lambda>_. Inr bh)))"

definition EXTRA_DISK_FILENAME :: string where
  "EXTRA_DISK_FILENAME = ''disk-extra''"

definition resolve_extra_disk_path :: "string option \<Rightarrow> string \<Rightarrow> nat \<Rightarrow> daemon_error + string" where
  "resolve_extra_disk_path requested instance_dir index =
     (let path = (case requested of
          Some p \<Rightarrow> if \<not> is_absolute p \<and> path_parent p = None then path_join instance_dir p else p
        | None \<Rightarrow> path_join instance_dir (EXTRA_DISK_FILENAME @ show_nat index @ ''.qcow2''))
      in if is_absolute path then Inr path
         else Inl (InvalidConfig (''disk path '' @ path
           @ '' must be absolute (or a plain file name to place in the instance directory)'')))"

definition hotplugged :: "string \<Rightarrow> u64 \<Rightarrow> disk_config" where
  "hotplugged path sz =
     \<lparr>disk_path = path, disk_size = sz, disk_format = Qcow2, disk_base_image = None, disk_thin = True,
      disk_trim_on_shutdown = False, disk_compact_on_shutdown = False, disk_snapshot_timeout = None\<rparr>"

definition send_set_config :: "daemon_env \<Rightarrow> write_io \<Rightarrow> instance_id \<Rightarrow> instance_config \<Rightarrow> registry \<Rightarrow> registry" where
  "send_set_config d io i c reg = with_supervisor i (set_config (dm_sup d i) io c None) reg"

record 'g hot_state =
  hot_reg :: registry
  hot_fs :: filesystem
  hot_guest :: 'g

text \<open>The guards and the image of \<open>attach_disk\<close>: what is attached, its place, whether it is new.\<close>

definition prepare_disk ::
    "qemu_tool \<Rightarrow> instance_id \<Rightarrow> instance_handle \<Rightarrow> string option \<Rightarrow> u64 \<Rightarrow> filesystem
       \<Rightarrow> (daemon_error + (disk_config \<times> bool)) \<times> filesystem" where
  "prepare_disk t i h requested sz fs =
     (let c = handle_config h in
      case resolve_extra_disk_path requested (ih_dir h) (length (ic_extra_disks c)) of
        Inl e \<Rightarrow> (Inl e, fs)
      | Inr path \<Rightarrow>
          (if path \<in> set (disk_paths c) then (Inl (HotErr (DiskAlreadyAttached i path)), fs)
           else if fs path = None
           then (if sz = 0
                 then (Inl (InvalidConfig ''disk size must be greater than 0 when the image does not exist yet''), fs)
                 else (case qcow2_create t path sz fs of
                     Inl e \<Rightarrow> (Inl (DiskErr e), fs)
                   | Inr fs' \<Rightarrow> (Inr (hotplugged path sz, True), fs')))
           else (case virtual_size_bytes t path fs of
                   Inl e \<Rightarrow> (Inl (DiskErr e), fs)
                 | Inr actual \<Rightarrow>
                     (if actual = 0
                      then (Inl (InvalidConfig (''disk '' @ path @ '' has size 0; attach a real disk image or pass --size'')), fs)
                      else (Inr (hotplugged path actual, False), fs)))))"

definition add_extra_disk :: "disk_config \<Rightarrow> instance_config \<Rightarrow> instance_config" where
  "add_extra_disk disk c = c\<lparr>ic_extra_disks := ic_extra_disks c @ [disk]\<rparr>"

definition drop_extra_disk :: "nat \<Rightarrow> instance_config \<Rightarrow> instance_config" where
  "drop_extra_disk index c = c\<lparr>ic_extra_disks := remove_nth index (ic_extra_disks c)\<rparr>"

definition attach_disk ::
    "daemon_env \<Rightarrow> 'g qmp_peer \<Rightarrow> qemu_tool \<Rightarrow> write_io \<Rightarrow> instance_id \<Rightarrow> string option \<Rightarrow> u64 \<Rightarrow> 'g hot_state
       \<Rightarrow> (daemon_error + (string \<times> nat)) \<times> 'g hot_state" where
  "attach_disk d p t io i requested sz s =
     (case rbind (hotplug_target d i (hot_reg s)) (\<lambda>bh. rbind (handle_for i (hot_reg s)) (\<lambda>h. Inr (bh, h))) of
        Inl e \<Rightarrow> (Inl e, s)
      | Inr (bh, h) \<Rightarrow>
          (case prepare_disk t i h requested sz (hot_fs s) of
             (Inl e, fs) \<Rightarrow> (Inl e, s\<lparr>hot_fs := fs\<rparr>)
           | (Inr (disk, created), fs) \<Rightarrow>
               (let index = length (ic_extra_disks (handle_config h)) in
                case backend_attach_disk p bh disk index (hot_guest s) of
                  (Inl e, g) \<Rightarrow> (Inl (BackendErr e), s\<lparr>hot_guest := g,
                     hot_fs := if created then fs(disk_path disk := None) else fs\<rparr>)
                | (Inr _, g) \<Rightarrow> (Inr (disk_path disk, index), s\<lparr>hot_guest := g, hot_fs := fs,
                     hot_reg := send_set_config d io i (add_extra_disk disk (handle_config h)) (hot_reg s)\<rparr>))))"

definition detach_disk ::
    "daemon_env \<Rightarrow> 'g qmp_peer \<Rightarrow> nat \<Rightarrow> write_io \<Rightarrow> instance_id \<Rightarrow> string \<Rightarrow> 'g hot_state
       \<Rightarrow> (daemon_error + unit) \<times> 'g hot_state" where
  "detach_disk d p tries io i path s =
     (case rbind (hotplug_target d i (hot_reg s)) (\<lambda>bh. rbind (handle_for i (hot_reg s)) (\<lambda>h.
             rbind (ok_or (HotErr (DiskNotAttached i path)) (position (\<lambda>x. disk_path x = path) (ic_extra_disks (handle_config h))))
               (\<lambda>index. Inr (bh, h, index)))) of
        Inl e \<Rightarrow> (Inl e, s)
      | Inr (bh, h, index) \<Rightarrow>
          (case backend_detach_disk p tries bh index (hot_guest s) of
             (Inl e, g) \<Rightarrow> (Inl (BackendErr e), s\<lparr>hot_guest := g\<rparr>)
           | (Inr _, g) \<Rightarrow> (Inr (), s\<lparr>hot_guest := g,
                hot_reg := send_set_config d io i (drop_extra_disk index (handle_config h)) (hot_reg s)\<rparr>)))"

section \<open>What QEMU documents\<close>

text \<open>A refused command changes nothing; a node name, a device id and a port are given once; a
  device can only be deleted when it is there and leaves when the guest acknowledges; a node can
  only be deleted when no device uses it. Errors are replies: the connection stays up.\<close>

definition reply_law :: "'g qmp_peer \<Rightarrow> bool" where
  "reply_law p \<longleftrightarrow> (\<forall>c g e g'. qp_exec p c g = (Inl e, g') \<longrightarrow> is_reply_error e
     \<and> qp_nodes p g' = qp_nodes p g \<and> qp_devices p g' = qp_devices p g \<and> qp_unplugging p g' = qp_unplugging p g)"

definition blockdev_add_law :: "'g qmp_peer \<Rightarrow> bool" where
  "blockdev_add_law p \<longleftrightarrow> (\<forall>n f fmt g g'. qp_exec p (BlockdevAdd n f fmt) g = (Inr (), g') \<longrightarrow>
     qp_nodes p g n = None \<and> qp_nodes p g' = (qp_nodes p g)(n \<mapsto> f)
     \<and> qp_devices p g' = qp_devices p g \<and> qp_unplugging p g' = qp_unplugging p g)"

definition device_add_law :: "'g qmp_peer \<Rightarrow> bool" where
  "device_add_law p \<longleftrightarrow> (\<forall>dr i n b g g'. qp_exec p (DeviceAdd dr i n b) g = (Inr (), g') \<longrightarrow>
     qp_devices p g i = None \<and> qp_nodes p g' = qp_nodes p g
     \<and> qp_devices p g' = (qp_devices p g)(i \<mapsto> (n, b)) \<and> qp_unplugging p g' = qp_unplugging p g - {i})"

definition device_del_law :: "'g qmp_peer \<Rightarrow> bool" where
  "device_del_law p \<longleftrightarrow> (\<forall>i g g'. qp_exec p (DeviceDel i) g = (Inr (), g') \<longrightarrow>
     qp_devices p g i \<noteq> None \<and> qp_nodes p g' = qp_nodes p g
     \<and> (qp_devices p g' = qp_devices p g \<or> qp_devices p g' = (qp_devices p g)(i := None))
     \<and> qp_unplugging p g' = insert i (qp_unplugging p g))"

definition blockdev_del_law :: "'g qmp_peer \<Rightarrow> bool" where
  "blockdev_del_law p \<longleftrightarrow> (\<forall>n g g'. qp_exec p (BlockdevDel n) g = (Inr (), g') \<longrightarrow>
     qp_nodes p g n \<noteq> None \<and> (\<forall>i b. qp_devices p g i \<noteq> Some (n, b))
     \<and> qp_nodes p g' = (qp_nodes p g)(n := None) \<and> qp_devices p g' = qp_devices p g
     \<and> qp_unplugging p g' = qp_unplugging p g)"

definition wait_law :: "'g qmp_peer \<Rightarrow> bool" where
  "wait_law p \<longleftrightarrow> (\<forall>g. qp_nodes p (qp_wait p g) = qp_nodes p g
     \<and> qp_unplugging p (qp_wait p g) \<subseteq> qp_unplugging p g
     \<and> (\<forall>i. qp_devices p (qp_wait p g) i = qp_devices p g i
        \<or> i \<in> qp_unplugging p g \<and> qp_devices p (qp_wait p g) i = None))"

definition qmp_laws :: "'g qmp_peer \<Rightarrow> bool" where
  "qmp_laws p \<longleftrightarrow> reply_law p \<and> blockdev_add_law p \<and> device_add_law p \<and> device_del_law p \<and> blockdev_del_law p \<and> wait_law p"

lemma law_error:
  assumes "qmp_laws p" "qp_exec p c g = (Inl e, g')"
  shows "is_reply_error e \<and> qp_nodes p g' = qp_nodes p g \<and> qp_devices p g' = qp_devices p g \<and> qp_unplugging p g' = qp_unplugging p g"
  using assms by (simp add: qmp_laws_def reply_law_def)

lemma law_blockdev_add:
  assumes "qmp_laws p" "qp_exec p (BlockdevAdd n f fmt) g = (Inr (), g')"
  shows "qp_nodes p g n = None \<and> qp_nodes p g' = (qp_nodes p g)(n \<mapsto> f) \<and> qp_devices p g' = qp_devices p g
    \<and> qp_unplugging p g' = qp_unplugging p g"
proof -
  have "blockdev_add_law p" using assms(1) by (simp add: qmp_laws_def)
  from this[unfolded blockdev_add_law_def, rule_format, OF assms(2)] show ?thesis .
qed

lemma law_device_add:
  assumes "qmp_laws p" "qp_exec p (DeviceAdd dr i n b) g = (Inr (), g')"
  shows "qp_devices p g i = None \<and> qp_nodes p g' = qp_nodes p g \<and> qp_devices p g' = (qp_devices p g)(i \<mapsto> (n, b))
    \<and> qp_unplugging p g' = qp_unplugging p g - {i}"
proof -
  have "device_add_law p" using assms(1) by (simp add: qmp_laws_def)
  from this[unfolded device_add_law_def, rule_format, OF assms(2)] show ?thesis .
qed

lemma law_device_del:
  assumes "qmp_laws p" "qp_exec p (DeviceDel i) g = (Inr (), g')"
  shows "qp_devices p g i \<noteq> None \<and> qp_nodes p g' = qp_nodes p g
    \<and> (qp_devices p g' = qp_devices p g \<or> qp_devices p g' = (qp_devices p g)(i := None))
    \<and> qp_unplugging p g' = insert i (qp_unplugging p g)"
proof -
  have "device_del_law p" using assms(1) by (simp add: qmp_laws_def)
  from this[unfolded device_del_law_def, rule_format, OF assms(2)] show ?thesis .
qed

lemma law_blockdev_del:
  assumes "qmp_laws p" "qp_exec p (BlockdevDel n) g = (Inr (), g')"
  shows "qp_nodes p g n \<noteq> None \<and> (\<forall>i b. qp_devices p g i \<noteq> Some (n, b)) \<and> qp_nodes p g' = (qp_nodes p g)(n := None)
    \<and> qp_devices p g' = qp_devices p g \<and> qp_unplugging p g' = qp_unplugging p g"
proof -
  have "blockdev_del_law p" using assms(1) by (simp add: qmp_laws_def)
  from this[unfolded blockdev_del_law_def, rule_format, OF assms(2)] show ?thesis .
qed

lemma law_wait:
  assumes "qmp_laws p"
  shows "qp_nodes p (qp_wait p g) = qp_nodes p g" "qp_unplugging p (qp_wait p g) \<subseteq> qp_unplugging p g"
    "qp_devices p (qp_wait p g) i = qp_devices p g i \<or> i \<in> qp_unplugging p g \<and> qp_devices p (qp_wait p g) i = None"
  using assms by (simp_all add: qmp_laws_def wait_law_def)

text \<open>Guest \<open>h\<close> has the same nodes as \<open>g\<close>, and the same devices, except that \<open>dev\<close> may be leaving.\<close>

definition releasing :: "'g qmp_peer \<Rightarrow> string \<Rightarrow> 'g \<Rightarrow> 'g \<Rightarrow> bool" where
  "releasing p dev g h \<longleftrightarrow> qp_nodes p h = qp_nodes p g
     \<and> (\<forall>i. qp_devices p h i = qp_devices p g i \<or> (i = dev \<and> qp_devices p h i = None))
     \<and> (\<forall>i \<in> qp_unplugging p h. i = dev \<or> qp_devices p g i = None)"

text \<open>No device is on its way out.\<close>

definition settled :: "'g qmp_peer \<Rightarrow> 'g \<Rightarrow> bool" where
  "settled p g \<longleftrightarrow> (\<forall>i \<in> qp_unplugging p g. qp_devices p g i = None)"

lemma releasing_refl: "settled p g \<Longrightarrow> releasing p dev g g"
  by (auto simp: settled_def releasing_def)

lemma releasing_wait:
  assumes "qmp_laws p" "releasing p dev g h"
  shows "releasing p dev g (qp_wait p h)"
proof -
  have "qp_devices p (qp_wait p h) i = qp_devices p g i \<or> (i = dev \<and> qp_devices p (qp_wait p h) i = None)" for i
    using law_wait(3)[OF assms(1), of h i] assms(2) by (auto simp: releasing_def)
  then show ?thesis using law_wait(1,2)[OF assms(1), of h] assms(2) by (auto simp: releasing_def)
qed

lemma releasing_error:
  "qmp_laws p \<Longrightarrow> releasing p dev g h \<Longrightarrow> qp_exec p c h = (Inl e, h') \<Longrightarrow> releasing p dev g h'"
  using law_error[of p c h e h'] by (simp add: releasing_def)

lemma releasing_del:
  assumes "qmp_laws p" "releasing p dev g h" "qp_exec p (DeviceDel dev) h = (Inr (), h')"
  shows "releasing p dev g h'"
proof -
  note law = law_device_del[OF assms(1,3)]
  have "qp_devices p h' i = qp_devices p h i \<or> (i = dev \<and> qp_devices p h' i = None)" for i
    using law by (elim conjE disjE) simp_all
  then have "qp_devices p h' i = qp_devices p g i \<or> (i = dev \<and> qp_devices p h' i = None)" for i
    using assms(2) unfolding releasing_def by metis
  then show ?thesis using law assms(2) by (auto simp: releasing_def)
qed

text \<open>The guest after a successful detach.\<close>

definition detached :: "'g qmp_peer \<Rightarrow> string \<Rightarrow> string \<Rightarrow> 'g \<Rightarrow> 'g \<Rightarrow> bool" where
  "detached p dev node g h \<longleftrightarrow> qp_nodes p h = (qp_nodes p g)(node := None)
     \<and> (\<forall>i b. qp_devices p h i \<noteq> Some (node, b))
     \<and> (\<forall>i. qp_devices p h i = qp_devices p g i \<or> (i = dev \<and> qp_devices p h i = None))
     \<and> (\<forall>i \<in> qp_unplugging p h. i = dev \<or> qp_devices p g i = None)"

lemma release_result:
  assumes "qmp_laws p"
  shows "releasing p dev g h \<Longrightarrow> release_block p dev node tries h = (r, h') \<Longrightarrow>
    (case r of Inl _ \<Rightarrow> releasing p dev g h' | Inr _ \<Rightarrow> detached p dev node g h')"
proof (induction tries arbitrary: h)
  case 0
  obtain x h1 where x: "qp_exec p (BlockdevDel node) h = (x, h1)" by (cases "qp_exec p (BlockdevDel node) h")
  show ?case
  proof (cases x)
    case (Inl e)
    then show ?thesis using 0 x releasing_error[OF assms 0(1), of "BlockdevDel node" e h1]
      by (auto simp: release_block.simps split: if_splits)
  next
    case (Inr u)
    then show ?thesis using 0 x law_blockdev_del[OF assms, of node h h1]
      by (auto simp: release_block.simps detached_def releasing_def)
  qed
next
  case (Suc n)
  obtain x h1 where x: "qp_exec p (BlockdevDel node) h = (x, h1)" by (cases "qp_exec p (BlockdevDel node) h")
  show ?case
  proof (cases x)
    case (Inl e)
    have "releasing p dev g h1" using releasing_error[OF assms Suc(2)] x Inl by simp
    then show ?thesis using Suc.prems(2) x Inl Suc.IH[OF releasing_wait[OF assms]]
      by (subst (asm) release_block.simps) (auto split: if_splits)
  next
    case (Inr u)
    then show ?thesis using Suc x law_blockdev_del[OF assms, of node h h1]
      by (subst (asm) (2) release_block.simps) (auto simp: detached_def releasing_def)
  qed
qed

lemma detach_result:
  assumes "qmp_laws p" "releasing p dev g h" "detach_block_device p tries dev node h = (r, h')"
  shows "case r of Inl _ \<Rightarrow> releasing p dev g h' | Inr _ \<Rightarrow> detached p dev node g h'"
proof -
  obtain x h1 where x: "qp_exec p (DeviceDel dev) h = (x, h1)" by (cases "qp_exec p (DeviceDel dev) h")
  show ?thesis
  proof (cases x)
    case (Inl e)
    then show ?thesis using assms x releasing_error[OF assms(1,2)] by (auto simp: detach_block_device_def)
  next
    case (Inr u)
    then have "releasing p dev g h1" using releasing_del[OF assms(1,2)] x by simp
    from release_result[OF assms(1) this] show ?thesis using assms(3) x Inr by (simp add: detach_block_device_def)
  qed
qed

lemma run_detach_result:
  assumes "qmp_laws p" "settled p g" "run_qmp_operation p (detach_block_device p tries dev node) g = (Inr (), h')"
  shows "detached p dev node g h'"
proof -
  note start = releasing_refl[OF assms(2), of dev]
  obtain x h1 where x: "detach_block_device p tries dev node g = (x, h1)" by (cases "detach_block_device p tries dev node g")
  note first = detach_result[OF assms(1) start x]
  show ?thesis
  proof (cases x)
    case (Inr u)
    then show ?thesis using assms(3) first x by (auto simp: run_qmp_operation_def split: option.splits)
  next
    case (Inl e)
    obtain y h2 where y: "detach_block_device p tries dev node h1 = (y, h2)" by (cases "detach_block_device p tries dev node h1")
    have "y = Inr () \<and> h' = h2"
      using assms(3) Inl x y by (cases y) (auto simp: run_qmp_operation_def split: option.splits if_splits)
    then show ?thesis using detach_result[OF assms(1) _ y] first Inl by simp
  qed
qed

section \<open>Devices and positions\<close>

text \<open>The guest's extra disks are those of the list, each under the ids of its position. The command
  line gives every booted guest this form.\<close>

definition aligned :: "'g qmp_peer \<Rightarrow> disk_config list \<Rightarrow> 'g \<Rightarrow> bool" where
  "aligned p extras g \<longleftrightarrow> settled p g
     \<and> (\<forall>n. qp_nodes p g (extra_disk_drive_id n) = (if n < length extras then Some (disk_path (extras ! n)) else None))
     \<and> (\<forall>n. qp_devices p g (extra_disk_device_id n) =
          (if n < length extras then Some (extra_disk_drive_id n, root_port (n mod 8)) else None))"

lemma id_inject [simp]:
  "extra_disk_drive_id m = extra_disk_drive_id n \<longleftrightarrow> m = n" "extra_disk_device_id m = extra_disk_device_id n \<longleftrightarrow> m = n"
  by (simp_all add: extra_disk_drive_id_def extra_disk_device_id_def)

text \<open>Detaching position \<open>i\<close> takes exactly the ids of \<open>i\<close> out of the guest.\<close>

lemma detach_position:
  assumes "qmp_laws p" "aligned p extras g" "i < length extras"
    and "backend_detach_disk p tries bh i g = (Inr (), h)"
  shows "settled p h"
    "qp_nodes p h (extra_disk_drive_id n) = (if n < length extras \<and> n \<noteq> i then Some (disk_path (extras ! n)) else None)"
    "qp_devices p h (extra_disk_device_id n) =
       (if n < length extras \<and> n \<noteq> i then Some (extra_disk_drive_id n, root_port (n mod 8)) else None)"
proof -
  have d: "detached p (extra_disk_device_id i) (extra_disk_drive_id i) g h"
    using assms by (intro run_detach_result) (auto simp: backend_detach_disk_def aligned_def split: if_splits)
  have dev: "qp_devices p g (extra_disk_device_id i) = Some (extra_disk_drive_id i, root_port (i mod 8))"
    using assms(2,3) by (simp add: aligned_def)
  have gone: "qp_devices p h (extra_disk_device_id i) = None"
    using d dev unfolding detached_def by metis
  then show "settled p h" using d assms(2) unfolding settled_def aligned_def detached_def by metis
  show "qp_nodes p h (extra_disk_drive_id n) = (if n < length extras \<and> n \<noteq> i then Some (disk_path (extras ! n)) else None)"
    using d assms(2) by (simp add: detached_def aligned_def)
  show "qp_devices p h (extra_disk_device_id n) =
       (if n < length extras \<and> n \<noteq> i then Some (extra_disk_drive_id n, root_port (n mod 8)) else None)"
  proof (cases "n = i")
    case True
    then show ?thesis using gone by simp
  next
    case False
    then have "extra_disk_device_id n \<noteq> extra_disk_device_id i" by simp
    then have "qp_devices p h (extra_disk_device_id n) = qp_devices p g (extra_disk_device_id n)"
      using d unfolding detached_def by blast
    then show ?thesis using False assms(2) by (simp add: aligned_def)
  qed
qed

lemma detach_last_aligned:
  assumes "qmp_laws p" "aligned p extras g" "extras \<noteq> []"
    and "backend_detach_disk p tries bh (length extras - 1) g = (Inr (), h)"
  shows "aligned p (butlast extras) h"
proof -
  have i: "length extras - 1 < length extras" using assms(3) by simp
  note det = detach_position[OF assms(1,2) i assms(4)]
  have "(n < length extras \<and> n \<noteq> length extras - 1) = (n < length extras - 1)" for n using assms(3) by auto
  then show ?thesis unfolding aligned_def using det by (simp add: nth_butlast)
qed

lemma attach_block_result:
  assumes "qmp_laws p" "attach_block p disk index g = (Inr (), h)"
  shows "qp_nodes p h = (qp_nodes p g)(extra_disk_drive_id index \<mapsto> disk_path disk)"
    "qp_devices p h = (qp_devices p g)(extra_disk_device_id index \<mapsto> (extra_disk_drive_id index, root_port (index mod 8)))"
    "qp_unplugging p h = qp_unplugging p g - {extra_disk_device_id index}"
  using assms law_blockdev_add[OF assms(1)] law_device_add[OF assms(1)]
  by (auto simp: attach_block_def split: prod.splits sum.splits)

lemma attach_error_reply:
  assumes "qmp_laws p" "attach_block p disk index g = (Inl e, h)"
  shows "is_reply_error e"
  using assms law_error[OF assms(1)] by (auto simp: attach_block_def split: prod.splits sum.splits)

lemma attach_aligned:
  assumes "qmp_laws p" "aligned p extras g"
    and "backend_attach_disk p bh disk (length extras) g = (Inr (), h)"
  shows "aligned p (extras @ [disk]) h"
proof -
  obtain x h1 where x: "attach_block p disk (length extras) g = (x, h1)" by (cases "attach_block p disk (length extras) g")
  have "x = Inr () \<and> h = h1"
    using assms(3) x attach_error_reply[OF assms(1)]
    by (cases x) (auto simp: backend_attach_disk_def run_qmp_operation_def split: option.splits if_splits)
  then have a: "attach_block p disk (length extras) g = (Inr (), h)" using x by simp
  note res = attach_block_result[OF assms(1) a]
  have "settled p h" using assms(2) res unfolding aligned_def settled_def by auto
  moreover have "(n < length (extras @ [disk])) = (n = length extras \<or> n < length extras)" for n by auto
  ultimately show ?thesis using assms(2) res by (simp add: aligned_def nth_append)
qed

text \<open>C38. Hotplug keeps the device ids of the guest in step with the list of extra disks when disks
  are attached, and when the last one of the list is detached: a guest whose disks carry the ids
  of their positions still does so afterwards.\<close>

theorem hotplug_keeps_alignment:
  assumes "qmp_laws p" "aligned p extras g"
  shows "(\<forall>bh disk h. backend_attach_disk p bh disk (length extras) g = (Inr (), h) \<longrightarrow> aligned p (extras @ [disk]) h)
    \<and> (\<forall>bh tries h. extras \<noteq> [] \<and> backend_detach_disk p tries bh (length extras - 1) g = (Inr (), h)
        \<longrightarrow> aligned p (butlast extras) h)"
  using attach_aligned[OF assms] detach_last_aligned[OF assms] by blast

section \<open>Detaching out of order\<close>

lemma detach_absent:
  assumes "qmp_laws p" "qp_devices p g dev = None"
  shows "run_qmp_operation p (detach_block_device p tries dev node) g \<noteq> (Inr (), h)"
proof -
  obtain x g1 where x: "qp_exec p (DeviceDel dev) g = (x, g1)" by (cases "qp_exec p (DeviceDel dev) g")
  show ?thesis
  proof (cases x)
    case (Inl e)
    then show ?thesis using x law_error[OF assms(1), of "DeviceDel dev" g e g1]
      by (simp add: run_qmp_operation_def detach_block_device_def split: option.split)
  next
    case (Inr u)
    then have "qp_exec p (DeviceDel dev) g = (Inr (), g1)" using x by simp
    from law_device_del[OF assms(1) this] assms(2) show ?thesis by simp
  qed
qed

lemma position_nth:
  "distinct (map f xs) \<Longrightarrow> a < length xs \<Longrightarrow> position (\<lambda>x. f x = f (xs ! a)) xs = Some a"
proof (induction xs arbitrary: a)
  case (Cons x xs)
  show ?case
  proof (cases a)
    case 0
    then show ?thesis by simp
  next
    case (Suc m)
    then have "m < length xs" using Cons.prems by simp
    moreover have "f x \<noteq> f (xs ! m)" using Cons.prems(1) \<open>m < length xs\<close> by auto
    ultimately show ?thesis using Cons Suc by simp
  qed
qed simp

lemma nth_remove_nth: "a < length xs \<Longrightarrow> n < length xs - 1 \<Longrightarrow> remove_nth a xs ! n = (if n < a then xs ! n else xs ! Suc n)"
  by (auto simp: remove_nth_def nth_append min_def)

lemma distinct_remove_nth: "distinct (map f xs) \<Longrightarrow> distinct (map f (remove_nth a xs))"
  by (auto simp: remove_nth_def take_map[symmetric] drop_map[symmetric] set_take_disj_set_drop_if_distinct)

lemma send_set_config_busy:
  assumes "registered reg i = Some h" "sup_ok (ih_sup h)" "\<not> is_disk_idle (handle_state h)"
  obtains h' where "registered (send_set_config d io i c reg) i = Some h'" "handle_config h' = c"
    "handle_state h' = handle_state h" "handle_backend h' = handle_backend h" "sup_ok (ih_sup h')"
proof -
  define h' where "h' = h\<lparr>ih_sup := set_config (dm_sup d i) io c None (ih_sup h)\<rparr>"
  note pub = published_same[OF assms(2)]
  have ok: "sup_ok (ih_sup h')" using set_config_ok[OF assms(2)] by (simp add: h'_def)
  note pub' = published_same[OF ok]
  have busy: "\<not> is_disk_idle (sup_state (ih_sup h))" using assms(3) pub by simp
  show ?thesis
    by (rule that[of h'])
      (use assms(1) ok pub pub' set_config_busy[OF busy] set_config_handle in
        \<open>simp_all add: send_set_config_def with_supervisor_update registered_update h'_def\<close>)
qed

lemma detach_disk_ok:
  assumes "detach_disk d p tries io i path s = (Inr (), s')" "registered (hot_reg s) i = Some h"
  obtains bh index where "position (\<lambda>x. disk_path x = path) (ic_extra_disks (handle_config h)) = Some index"
    "backend_detach_disk p tries bh index (hot_guest s) = (Inr (), hot_guest s')"
    "hot_reg s' = send_set_config d io i (drop_extra_disk index (handle_config h)) (hot_reg s)"
    "handle_state h = Running \<or> handle_state h = Paused"
  using assms
  by (auto simp: detach_disk_def hotplug_target_def handle_for_def rbind_eq_Inr ok_or_eq_Inr
      split: sum.splits prod.splits if_splits)

text \<open>C4. Detaching a disk that is not the last one puts the list and the guest out of step, and a
  later detach goes wrong. Let the guest be in step with the list, and let the disk at position
  \<open>a\<close> be detached, then one from a later position \<open>b\<close>. If \<open>b\<close> came right after \<open>a\<close>, the second
  detach fails. Otherwise, when it succeeds, the guest has lost the disk before \<open>b\<close>, which is
  still listed, and keeps the disk \<open>b\<close>, which is no longer listed.\<close>

theorem later_detach_takes_wrong_disk:
  assumes laws: "qmp_laws p" and ok: "sup_ok (ih_sup h)" and h: "registered (hot_reg s) i = Some h"
    and extras: "extras = ic_extra_disks (handle_config h)" and paths: "distinct (map disk_path extras)"
    and al: "aligned p extras (hot_guest s)" and ab: "a < b" "b < length extras"
    and first: "detach_disk d p tries io i (disk_path (extras ! a)) s = (Inr (), s1)"
    and second: "detach_disk d p tries io i (disk_path (extras ! b)) s1 = (Inr (), s2)"
  shows "b \<noteq> Suc a \<and> (\<exists>h2. registered (hot_reg s2) i = Some h2
    \<and> extras ! (b - 1) \<in> set (ic_extra_disks (handle_config h2)) \<and> extras ! b \<notin> set (ic_extra_disks (handle_config h2))
    \<and> qp_devices p (hot_guest s2) (extra_disk_device_id (b - 1)) = None
    \<and> qp_devices p (hot_guest s2) (extra_disk_device_id b) = Some (extra_disk_drive_id b, root_port (b mod 8))
    \<and> qp_nodes p (hot_guest s2) (extra_disk_drive_id b) = Some (disk_path (extras ! b)))"
proof -
  from detach_disk_ok[OF first h] obtain bh index where
    f: "position (\<lambda>x. disk_path x = disk_path (extras ! a)) extras = Some index"
      "backend_detach_disk p tries bh index (hot_guest s) = (Inr (), hot_guest s1)"
      "hot_reg s1 = send_set_config d io i (drop_extra_disk index (handle_config h)) (hot_reg s)"
      "handle_state h = Running \<or> handle_state h = Paused" unfolding extras .
  have a: "index = a" "a < length extras" using f(1) position_nth[OF paths, of a] ab by auto
  have busy: "\<not> is_disk_idle (handle_state h)" using f(4) by auto
  from send_set_config_busy[OF h ok busy] obtain h1 where
    h1: "registered (hot_reg s1) i = Some h1" "handle_config h1 = drop_extra_disk a (handle_config h)"
      "handle_state h1 = handle_state h" "sup_ok (ih_sup h1)" using f(3) a by metis
  define rest where "rest = remove_nth a extras"
  have rest: "ic_extra_disks (handle_config h1) = rest" by (simp add: h1(2) drop_extra_disk_def rest_def extras)
  have len: "length rest = length extras - 1" using a(2) by (simp add: rest_def length_remove_nth)
  have nth: "rest ! (b - 1) = extras ! b" using nth_remove_nth[OF a(2), of "b - 1"] ab by (simp add: rest_def)
  have dist: "distinct (map disk_path rest)" using distinct_remove_nth[OF paths] by (simp add: rest_def)
  from detach_disk_ok[OF second h1(1)] obtain bh2 index2 where
    g: "position (\<lambda>x. disk_path x = disk_path (extras ! b)) rest = Some index2"
      "backend_detach_disk p tries bh2 index2 (hot_guest s1) = (Inr (), hot_guest s2)"
      "hot_reg s2 = send_set_config d io i (drop_extra_disk index2 (handle_config h1)) (hot_reg s1)" unfolding rest .
  have b: "index2 = b - 1" using g(1) position_nth[OF dist, of "b - 1"] nth len ab by simp
  note det = detach_position[OF laws al a(2) f(2)[unfolded a(1)]]
  have d2: "detached p (extra_disk_device_id (b - 1)) (extra_disk_drive_id (b - 1)) (hot_guest s1) (hot_guest s2)"
    using g(2) det(1) by (intro run_detach_result[OF laws]) (auto simp: backend_detach_disk_def b split: if_splits)
  have run2: "run_qmp_operation p (detach_block_device p tries (extra_disk_device_id (b - 1)) (extra_disk_drive_id (b - 1)))
      (hot_guest s1) = (Inr (), hot_guest s2)"
    using g(2) by (simp add: backend_detach_disk_def b split: if_splits)
  have ne: "b \<noteq> Suc a"
    using detach_absent[OF laws, of "hot_guest s1" "extra_disk_device_id (b - 1)"] det(3)[of a] run2 by auto
  then have before: "b - 1 \<noteq> a" "b - 1 < length extras" "b - 2 < length rest" "b - 1 < length rest" using ab len by auto
  have gone: "qp_devices p (hot_guest s2) (extra_disk_device_id (b - 1)) = None"
    using d2 det(3)[of "b - 1"] before unfolding detached_def by metis
  have "extra_disk_device_id b \<noteq> extra_disk_device_id (b - 1)" "extra_disk_drive_id b \<noteq> extra_disk_drive_id (b - 1)"
    using ab by simp_all
  then have "qp_devices p (hot_guest s2) (extra_disk_device_id b) = qp_devices p (hot_guest s1) (extra_disk_device_id b)"
      "qp_nodes p (hot_guest s2) (extra_disk_drive_id b) = qp_nodes p (hot_guest s1) (extra_disk_drive_id b)"
    using d2 unfolding detached_def by (blast, simp)
  then have stays: "qp_devices p (hot_guest s2) (extra_disk_device_id b) = Some (extra_disk_drive_id b, root_port (b mod 8))"
      "qp_nodes p (hot_guest s2) (extra_disk_drive_id b) = Some (disk_path (extras ! b))"
    using det(2,3)[of b] ab by simp_all
  have busy1: "\<not> is_disk_idle (handle_state h1)" using busy h1(3) by simp
  from send_set_config_busy[OF h1(1,4) busy1] obtain h2 where
    h2: "registered (hot_reg s2) i = Some h2" "handle_config h2 = drop_extra_disk (b - 1) (handle_config h1)"
    using g(3) b by metis
  have list: "ic_extra_disks (handle_config h2) = remove_nth (b - 1) rest"
    using h2(2) rest by (simp add: drop_extra_disk_def)
  have "remove_nth (b - 1) rest ! (b - 2) = extras ! (b - 1)"
    using nth_remove_nth[OF before(4), of "b - 2"] nth_remove_nth[OF a(2), of "b - 2"] ne ab len
    by (auto simp: rest_def Suc_diff_Suc numeral_2_eq_2)
  moreover have "b - 2 < length (remove_nth (b - 1) rest)" using before ne ab len by (simp add: length_remove_nth)
  ultimately have kept: "extras ! (b - 1) \<in> set (remove_nth (b - 1) rest)" by (metis nth_mem)
  have "extras ! b \<notin> set (remove_nth (b - 1) rest)"
  proof
    assume "extras ! b \<in> set (remove_nth (b - 1) rest)"
    then obtain m where "m < length (remove_nth (b - 1) rest)" "remove_nth (b - 1) rest ! m = extras ! b"
      unfolding in_set_conv_nth by blast
    then have m: "m < length rest - 1" "remove_nth (b - 1) rest ! m = rest ! (b - 1)"
      unfolding nth length_remove_nth[OF before(4)] by blast+
    then obtain k where "k < length rest" "k \<noteq> b - 1" "rest ! k = rest ! (b - 1)"
      using nth_remove_nth[OF before(4) m(1)] before(4) by (auto split: if_splits intro: that[of m] that[of "Suc m"])
    then show False using dist before(4) by (metis length_map nth_eq_iff_index_eq nth_map)
  qed
  then show ?thesis using ne h2(1) kept gone stays by (auto simp: list)
qed

section \<open>Paths and other instances\<close>

text \<open>A plain file name is never accepted as the path of an extra disk, although the refusal
  itself, like the code's comment, offers to place it in the instance directory:
  \<open>Path::parent\<close> of a plain name is the empty path, not \<open>None\<close>.\<close>

theorem plain_file_name_refused:
  assumes "name \<noteq> []" "CHR ''/'' \<notin> set name"
  shows "resolve_extra_disk_path (Some name) instance_dir index =
    Inl (InvalidConfig (''disk path '' @ name
      @ '' must be absolute (or a plain file name to place in the instance directory)''))"
proof -
  have "dropWhile (\<lambda>c. c \<noteq> CHR ''/'') (rev name) = []" using assms(2) by auto
  moreover have "name \<noteq> ''/''" using assms(2) by auto
  ultimately have "path_parent name = Some []" using assms(1) by (simp add: path_parent_def)
  moreover have "\<not> is_absolute name" using assms by (cases name) (auto simp: is_absolute_def starts_with_def)
  ultimately show ?thesis by (simp add: resolve_extra_disk_path_def)
qed

theorem plain_file_name_refused_witness:
  "resolve_extra_disk_path (Some ''data.qcow2'') ''/vm'' 0 =
    Inl (InvalidConfig (''disk path '' @ ''data.qcow2''
      @ '' must be absolute (or a plain file name to place in the instance directory)''))"
  by (rule plain_file_name_refused) simp_all

lemma attach_disk_ok:
  assumes "attach_disk d p t io i requested sz s = (Inr (path, index), s')" "registered (hot_reg s) i = Some h"
  obtains disk where "disk_path disk = path"
    "hot_reg s' = send_set_config d io i (add_extra_disk disk (handle_config h)) (hot_reg s)"
    "handle_state h = Running \<or> handle_state h = Paused"
  using assms
  by (auto simp: attach_disk_def hotplug_target_def handle_for_def rbind_eq_Inr ok_or_eq_Inr Let_def
      split: sum.splits prod.splits if_splits)

text \<open>Attaching a disk asks no start gate: when the path is a disk of another instance that is
  starting, running or paused, a successful attach leaves two occupied instances on one disk, the
  state the start gates exclude.\<close>

theorem attach_breaks_exclusivity:
  assumes "registered (hot_reg s) i = Some h" "sup_ok (ih_sup h)"
    and "attach_disk d p t io i requested sz s = (Inr (path, index), s')"
    and "registered (hot_reg s) j = Some k" "j \<noteq> i" "occupies (handle_state k)" "path \<in> set (disk_paths (handle_config k))"
  shows "\<not> disjoint_over {} disk_paths (hot_reg s')"
proof
  assume dis: "disjoint_over {} disk_paths (hot_reg s')"
  from attach_disk_ok[OF assms(3,1)] obtain disk where
    a: "disk_path disk = path" "hot_reg s' = send_set_config d io i (add_extra_disk disk (handle_config h)) (hot_reg s)"
      "handle_state h = Running \<or> handle_state h = Paused" .
  then have busy: "\<not> is_disk_idle (handle_state h)" by auto
  from send_set_config_busy[OF assms(1,2) busy] obtain h' where
    h': "registered (hot_reg s') i = Some h'" "handle_config h' = add_extra_disk disk (handle_config h)"
      "handle_state h' = handle_state h" using a(2) by metis
  have "registered (hot_reg s') j = Some k" using assms(4,5) by (simp add: a(2) send_set_config_def registered_with)
  moreover have "occupies (handle_state h')" using a(3) h'(3) by auto
  moreover have "path \<in> set (disk_paths (handle_config h'))" using a(1) h'(2) by (simp add: disk_paths_def add_extra_disk_def)
  ultimately show False using disjoint_overD[OF dis h'(1)] assms(5-7) by (metis disjoint_iff empty_iff)
qed

section \<open>A guest that meets the laws\<close>

record ref_guest =
  rg_nodes :: "string \<Rightarrow> string option"
  rg_devices :: "string \<Rightarrow> (string \<times> string) option"
  rg_leaving :: "string set"

definition refuse :: "'g \<Rightarrow> (qmp_error + unit) \<times> 'g" where
  "refuse g = (Inl (QmpCommandFailed [] ''GenericError'' []), g)"

fun ref_exec :: "qmp_command \<Rightarrow> ref_guest \<Rightarrow> (qmp_error + unit) \<times> ref_guest" where
  "ref_exec (BlockdevAdd n f fmt) g =
     (if rg_nodes g n = None then (Inr (), g\<lparr>rg_nodes := (rg_nodes g)(n \<mapsto> f)\<rparr>) else refuse g)"
| "ref_exec (DeviceAdd dr i n b) g =
     (if rg_devices g i = None
      then (Inr (), g\<lparr>rg_devices := (rg_devices g)(i \<mapsto> (n, b)), rg_leaving := rg_leaving g - {i}\<rparr>) else refuse g)"
| "ref_exec (DeviceDel i) g =
     (if rg_devices g i = None then refuse g
      else (Inr (), g\<lparr>rg_devices := (rg_devices g)(i := None), rg_leaving := insert i (rg_leaving g)\<rparr>))"
| "ref_exec (BlockdevDel n) g =
     (if rg_nodes g n = None \<or> (\<exists>i b. rg_devices g i = Some (n, b)) then refuse g
      else (Inr (), g\<lparr>rg_nodes := (rg_nodes g)(n := None)\<rparr>))"

definition ref_peer :: "ref_guest qmp_peer" where
  "ref_peer =
     \<lparr>qp_exec = ref_exec, qp_connect = (\<lambda>_. None), qp_alive = (\<lambda>_. True), qp_known = (\<lambda>_. True), qp_wait = (\<lambda>g. g),
      qp_nodes = rg_nodes, qp_devices = rg_devices, qp_unplugging = rg_leaving\<rparr>"

lemma ref_peer_laws: "qmp_laws ref_peer"
proof -
  have "reply_law ref_peer"
    unfolding reply_law_def
  proof (intro allI impI)
    fix c g e g'
    assume "qp_exec ref_peer c g = (Inl e, g')"
    then show "is_reply_error e \<and> qp_nodes ref_peer g' = qp_nodes ref_peer g \<and> qp_devices ref_peer g' = qp_devices ref_peer g
        \<and> qp_unplugging ref_peer g' = qp_unplugging ref_peer g"
      by (cases c) (auto simp: ref_peer_def refuse_def split: if_splits)
  qed
  then show ?thesis
    by (auto simp: qmp_laws_def blockdev_add_law_def device_add_law_def device_del_law_def blockdev_del_law_def wait_law_def
        ref_peer_def refuse_def split: if_splits)
qed

definition demo_guest :: "disk_config list \<Rightarrow> ref_guest" where
  "demo_guest extras =
     \<lparr>rg_nodes = (\<lambda>s. case List.find (\<lambda>n. s = extra_disk_drive_id n) [0..<length extras] of
          Some n \<Rightarrow> Some (disk_path (extras ! n)) | None \<Rightarrow> None),
      rg_devices = (\<lambda>s. case List.find (\<lambda>n. s = extra_disk_device_id n) [0..<length extras] of
          Some n \<Rightarrow> Some (extra_disk_drive_id n, root_port (n mod 8)) | None \<Rightarrow> None),
      rg_leaving = {}\<rparr>"

lemma ref_peer_sel [simp]:
  "qp_exec ref_peer = ref_exec" "qp_connect ref_peer = (\<lambda>_. None)" "qp_known ref_peer = (\<lambda>_. True)"
  "qp_nodes ref_peer = rg_nodes" "qp_devices ref_peer = rg_devices"
  by (simp_all add: ref_peer_def)

lemma find_index: "List.find (\<lambda>m. n = m) [0..<k] = (if n < k then Some n else None)"
proof (cases "List.find (\<lambda>m. n = m) [0..<k]")
  case None
  then show ?thesis by (auto simp: find_None)
next
  case (Some m)
  then show ?thesis using find_Some[OF Some] by simp
qed

lemma demo_guest_aligned: "aligned ref_peer extras (demo_guest extras)"
  by (simp add: aligned_def settled_def ref_peer_def demo_guest_def find_index)

lemma demo_guest_device:
  "rg_devices (demo_guest extras) x = Some (y, b) \<Longrightarrow> \<exists>n. x = extra_disk_device_id n \<and> y = extra_disk_drive_id n"
  by (auto simp: demo_guest_def split: option.splits dest!: find_Some)

text \<open>The reference guest lets a device go at once, so a detach by the right ids succeeds.\<close>

definition ids_match :: "ref_guest \<Rightarrow> bool" where
  "ids_match g \<longleftrightarrow> (\<forall>x y b. rg_devices g x = Some (y, b) \<longrightarrow> (\<exists>n. x = extra_disk_device_id n \<and> y = extra_disk_drive_id n))"

lemma ref_detach:
  assumes "ids_match g" "rg_devices g (extra_disk_device_id n) = Some v" "rg_nodes g (extra_disk_drive_id n) = Some f"
  defines "g' \<equiv> g\<lparr>rg_devices := (rg_devices g)(extra_disk_device_id n := None),
    rg_leaving := insert (extra_disk_device_id n) (rg_leaving g), rg_nodes := (rg_nodes g)(extra_disk_drive_id n := None)\<rparr>"
  shows "backend_detach_disk ref_peer tries bh n g = (Inr (), g')" "ids_match g'"
proof -
  have unused: "((rg_devices g)(extra_disk_device_id n := None)) x \<noteq> Some (extra_disk_drive_id n, b)" for x b
  proof
    assume used: "((rg_devices g)(extra_disk_device_id n := None)) x = Some (extra_disk_drive_id n, b)"
    then have "x \<noteq> extra_disk_device_id n" by auto
    then have "rg_devices g x = Some (extra_disk_drive_id n, b)" using used by simp
    then obtain m where "x = extra_disk_device_id m" "extra_disk_drive_id n = extra_disk_drive_id m"
      using assms(1) unfolding ids_match_def by blast
    then show False using \<open>x \<noteq> extra_disk_device_id n\<close> by simp
  qed
  have "release_block ref_peer dev (extra_disk_drive_id n) tries
      (g\<lparr>rg_devices := (rg_devices g)(extra_disk_device_id n := None),
         rg_leaving := insert (extra_disk_device_id n) (rg_leaving g)\<rparr>) = (Inr (), g')" for dev
    using unused assms(3) by (subst release_block.simps) (simp add: g'_def)
  then have "detach_block_device ref_peer tries (extra_disk_device_id n) (extra_disk_drive_id n) g = (Inr (), g')"
    using assms(2) by (simp add: detach_block_device_def)
  then show "backend_detach_disk ref_peer tries bh n g = (Inr (), g')"
    by (simp add: backend_detach_disk_def run_qmp_operation_def)
  show "ids_match g'" using assms(1) by (simp add: ids_match_def g'_def)
qed

lemma demo_ids: "ids_match (demo_guest extras)"
  using demo_guest_device by (auto simp: ids_match_def)

definition three_disks :: "disk_config list" where
  "three_disks = [hotplugged ''/x0'' 1, hotplugged ''/x1'' 1, hotplugged ''/x2'' 1]"

definition demo_running :: "u8 \<Rightarrow> string \<Rightarrow> disk_config list \<Rightarrow> instance_handle" where
  "demo_running b disk extras =
     \<lparr>ih_dir = ''/vm'', ih_sup = spawn_supervisor ((demo_vm b disk)\<lparr>ic_extra_disks := extras\<rparr>) Running (Some ''qemu'') None\<rparr>"

lemma demo_running_view [simp]:
  "handle_state (demo_running b disk extras) = Running"
  "handle_config (demo_running b disk extras) = (demo_vm b disk)\<lparr>ic_extra_disks := extras\<rparr>"
  "handle_backend (demo_running b disk extras) = Some ''qemu''" "sup_ok (ih_sup (demo_running b disk extras))"
  "ih_dir (demo_running b disk extras) = ''/vm''"
  by (simp_all add: demo_running_def handle_state_def handle_config_def handle_backend_def spawn_ok)
     (simp_all add: spawn_supervisor_def Let_def)

definition demo_hot :: "disk_config list \<Rightarrow> ref_guest hot_state" where
  "demo_hot extras =
     \<lparr>hot_reg = [(replicate 32 1, demo_running 1 ''/a'' extras), (replicate 32 2, demo_running 2 ''/b'' [])],
      hot_fs = (\<lambda>p. if p = ''/b'' then Some \<lparr>im_size = 1, im_backing = None, im_data = Map.empty\<rparr> else None),
      hot_guest = demo_guest extras\<rparr>"

lemma demo_hot_registered:
  "registered (hot_reg (demo_hot extras)) (replicate 32 1) = Some (demo_running 1 ''/a'' extras)"
  "registered (hot_reg (demo_hot extras)) (replicate 32 2) = Some (demo_running 2 ''/b'' [])"
  by (simp_all add: demo_hot_def registered_def)

lemma demo_target:
  assumes "registered (hot_reg s) i = Some h" "handle_state h = Running" "handle_backend h = Some ''qemu''"
  shows "rbind (hotplug_target demo_daemon i (hot_reg s)) (\<lambda>bh. rbind (handle_for i (hot_reg s)) (f bh)) = f ''qemu'' h"
  using assms
  by (simp add: hotplug_target_def handle_for_def backend_handle_of_def backend_for_def demo_daemon_def)

lemma demo_detach:
  assumes "registered (hot_reg s) i = Some h" "handle_state h = Running" "handle_backend h = Some ''qemu''"
    and "position (\<lambda>x. disk_path x = path) (ic_extra_disks (handle_config h)) = Some n"
    and "backend_detach_disk ref_peer tries ''qemu'' n (hot_guest s) = (Inr (), g)"
  shows "detach_disk demo_daemon ref_peer tries io i path s = (Inr (), s\<lparr>hot_guest := g,
    hot_reg := send_set_config demo_daemon io i (drop_extra_disk n (handle_config h)) (hot_reg s)\<rparr>)"
  using assms(4,5) by (simp add: detach_disk_def demo_target[OF assms(1-3)])

theorem hotplug_keeps_alignment_witness:
  "\<exists>h. backend_attach_disk ref_peer ''qemu'' (hotplugged ''/x0'' 1) 0 (demo_guest []) = (Inr (), h)
     \<and> aligned ref_peer [hotplugged ''/x0'' 1] h"
proof -
  obtain h where h: "backend_attach_disk ref_peer ''qemu'' (hotplugged ''/x0'' 1) 0 (demo_guest []) = (Inr (), h)"
    by (simp add: backend_attach_disk_def run_qmp_operation_def attach_block_def ref_peer_def demo_guest_def)
  then show ?thesis
    using hotplug_keeps_alignment[OF ref_peer_laws demo_guest_aligned, of "[]"] by auto
qed

theorem later_detach_takes_wrong_disk_witness:
  "\<exists>s1 s2. detach_disk demo_daemon ref_peer 0 plain_io (replicate 32 1) ''/x0'' (demo_hot three_disks) = (Inr (), s1)
     \<and> detach_disk demo_daemon ref_peer 0 plain_io (replicate 32 1) ''/x2'' s1 = (Inr (), s2)
     \<and> rg_nodes (hot_guest s2) (extra_disk_drive_id 2) = Some ''/x2''"
proof -
  let ?i = "replicate 32 1 :: instance_id" and ?h = "demo_running 1 ''/a'' three_disks"
  let ?g = "demo_guest three_disks"
  note reg = demo_hot_registered(1)[of three_disks]
  have g0: "rg_devices ?g (extra_disk_device_id n) = Some (extra_disk_drive_id n, root_port (n mod 8))"
      "rg_nodes ?g (extra_disk_drive_id n) = Some (disk_path (three_disks ! n))" if "n < 3" for n
    using demo_guest_aligned[of three_disks] that by (simp_all add: aligned_def ref_peer_def three_disks_def)
  have z: "0 < (3 :: nat)" by simp
  from ref_detach(1)[OF demo_ids g0(1)[OF z] g0(2)[OF z], where tries = 0 and bh = "''qemu''"]
    ref_detach(2)[OF demo_ids g0(1)[OF z] g0(2)[OF z]] obtain g1 where
    g1: "backend_detach_disk ref_peer 0 ''qemu'' 0 ?g = (Inr (), g1)" "ids_match g1"
      "rg_devices g1 = (rg_devices ?g)(extra_disk_device_id 0 := None)" "rg_nodes g1 = (rg_nodes ?g)(extra_disk_drive_id 0 := None)"
    by auto
  have pos: "position (\<lambda>x. disk_path x = ''/x0'') (ic_extra_disks (handle_config ?h)) = Some 0"
    by (simp add: three_disks_def hotplugged_def)
  have hg: "hot_guest (demo_hot three_disks) = ?g" by (simp add: demo_hot_def)
  define s1 where "s1 = (demo_hot three_disks)\<lparr>hot_guest := g1, hot_reg := send_set_config demo_daemon plain_io ?i
      (drop_extra_disk 0 (handle_config ?h)) (hot_reg (demo_hot three_disks))\<rparr>"
  have first: "detach_disk demo_daemon ref_peer 0 plain_io ?i ''/x0'' (demo_hot three_disks) = (Inr (), s1)"
    unfolding s1_def by (rule demo_detach[OF reg]) (use pos g1(1) hg in simp_all)
  from send_set_config_busy[OF reg, of demo_daemon plain_io "drop_extra_disk 0 (handle_config ?h)"] obtain h1 where
    h1: "registered (hot_reg s1) ?i = Some h1" "handle_config h1 = drop_extra_disk 0 (handle_config ?h)"
      "handle_state h1 = Running" "handle_backend h1 = Some ''qemu''" by (auto simp: s1_def)
  have pos1: "position (\<lambda>x. disk_path x = ''/x2'') (ic_extra_disks (handle_config h1)) = Some 1"
    by (simp add: h1(2) drop_extra_disk_def remove_nth_def three_disks_def hotplugged_def)
  have d1: "rg_devices g1 (extra_disk_device_id 1) = Some (extra_disk_drive_id 1, root_port 1)"
      "rg_nodes g1 (extra_disk_drive_id 1) = Some (disk_path (three_disks ! 1))"
    using g0[of 1] by (simp_all add: g1)
  from ref_detach(1)[OF g1(2) d1, where tries = 0 and bh = "''qemu''"] obtain g2 where
    g2: "backend_detach_disk ref_peer 0 ''qemu'' 1 g1 = (Inr (), g2)" by blast
  define s2 where "s2 = s1\<lparr>hot_guest := g2,
      hot_reg := send_set_config demo_daemon plain_io ?i (drop_extra_disk 1 (handle_config h1)) (hot_reg s1)\<rparr>"
  have second: "detach_disk demo_daemon ref_peer 0 plain_io ?i ''/x2'' s1 = (Inr (), s2)"
    unfolding s2_def by (rule demo_detach[OF h1(1,3,4) pos1]) (use g2 in \<open>simp add: s1_def\<close>)
  have sel: "disk_path (three_disks ! 0) = ''/x0''" "disk_path (three_disks ! 2) = ''/x2''" "length three_disks = 3"
      "distinct (map disk_path three_disks)" by (simp_all add: three_disks_def hotplugged_def)
  have ok: "sup_ok (ih_sup ?h)" and ex: "three_disks = ic_extra_disks (handle_config ?h)" by simp_all
  have al: "aligned ref_peer three_disks (hot_guest (demo_hot three_disks))" by (simp only: hg demo_guest_aligned)
  have lt: "0 < (2 :: nat)" "2 < length three_disks" by (simp_all add: sel)
  note wrong = later_detach_takes_wrong_disk[OF ref_peer_laws ok reg ex sel(4) al lt first[folded sel(1)] second[folded sel(2)]]
  then have "qp_nodes ref_peer (hot_guest s2) (extra_disk_drive_id 2) = Some (disk_path (three_disks ! 2))" by blast
  then show ?thesis using first second sel(2) by auto
qed

theorem attach_breaks_exclusivity_witness:
  "\<exists>s'. attach_disk demo_daemon ref_peer ref_tool plain_io (replicate 32 1) (Some ''/b'') 0 (demo_hot []) = (Inr (''/b'', 0), s')
     \<and> \<not> disjoint_over {} disk_paths (hot_reg s')"
proof -
  let ?i = "replicate 32 1 :: instance_id" and ?h = "demo_running 1 ''/a'' []"
  have prep: "prepare_disk ref_tool ?i ?h (Some ''/b'') 0 (hot_fs (demo_hot [])) = (Inr (hotplugged ''/b'' 1, False), hot_fs (demo_hot []))"
    by (simp add: prepare_disk_def resolve_extra_disk_path_def is_absolute_def starts_with_def disk_paths_def demo_vm_def
        disk_reference_default_def demo_hot_def virtual_size_bytes_def ref_tool_def Let_def)
  obtain g where g: "backend_attach_disk ref_peer ''qemu'' (hotplugged ''/b'' 1) 0 (hot_guest (demo_hot [])) = (Inr (), g)"
    by (simp add: backend_attach_disk_def run_qmp_operation_def attach_block_def ref_peer_def demo_guest_def demo_hot_def)
  obtain s' where s': "attach_disk demo_daemon ref_peer ref_tool plain_io ?i (Some ''/b'') 0 (demo_hot []) = (Inr (''/b'', 0), s')"
    using prep g by (simp add: attach_disk_def demo_target[OF demo_hot_registered(1)] hotplugged_def)
  from attach_breaks_exclusivity[OF demo_hot_registered(1) _ s' demo_hot_registered(2)] s' show ?thesis
    by (auto simp: disk_paths_def demo_vm_def disk_reference_default_def)
qed

end
