(* ===== verification/WireEnums.thy ===== *)
theory WireEnums
  imports Config
begin

text \<open>
  The enumerations of the RPC interface (\<open>services/andler-rpc/proto/andler.proto\<close>) and their
  conversions (\<open>services/andler-rpc/src/convert.rs\<close>).

  A proto3 enumeration travels as a 32-bit number; the generated accessor reads an unknown
  number as the value numbered 0 (\<open>..._UNSPECIFIED\<close>). \<open>..._values\<close> lists a type's values in the
  order of their numbers, which run from 0 without gaps in every enumeration of the file.
  \<open>..._from\<close> and \<open>..._to\<close> are the two conversions of the code. The locale \<open>wire_enum\<close> states what a
  pair of conversions owes, and a \<open>codec\<close> on the numbers follows.
\<close>

section \<open>Conversion errors\<close>

datatype convert_error =
    MissingAndroidVersion
  | MissingInstanceId
  | InvalidWireInstanceId string
  | MissingCpuPriority
  | MissingDiskFormat
  | MissingDisplayEngine
  | MissingAudioBackend
  | MissingRenderBackendKind
  | MissingNetworkModeKind
  | MissingCloneMode
  | MissingBackendKind
  | MissingPortForwardProtocol
  | MissingField string
  | ClientSuppliedShell string

section \<open>Numbers of enumeration values\<close>

type_synonym wire_number = "32 word"

definition enum_of :: "'a list \<Rightarrow> wire_number \<Rightarrow> 'a" where
  "enum_of vs n = (if unat n < length vs then vs ! unat n else hd vs)"

definition enum_number :: "'a list \<Rightarrow> 'a \<Rightarrow> wire_number" where
  "enum_number vs v = of_nat (length (takeWhile (\<lambda>x. x \<noteq> v) vs))"

lemma takeWhile_index: "v \<in> set vs \<Longrightarrow> length (takeWhile (\<lambda>x. x \<noteq> v) vs) < length vs \<and>
    vs ! length (takeWhile (\<lambda>x. x \<noteq> v) vs) = v"
  by (induction vs) auto

lemma enum_of_number:
  assumes "v \<in> set vs" and "length vs < 2 ^ 32"
  shows "enum_of vs (enum_number vs v) = v"
proof -
  let ?k = "length (takeWhile (\<lambda>x. x \<noteq> v) vs)"
  have k: "?k < length vs" "vs ! ?k = v" using takeWhile_index[OF assms(1)] by auto
  then have "unat (of_nat ?k :: wire_number) = ?k" using assms(2) by (simp add: unat_of_nat take_bit_nat_eq_self)
  then show ?thesis using k by (simp add: enum_of_def enum_number_def)
qed

text \<open>An enumeration of the interface: every domain value is sent as a listed value that reads
  back as itself.\<close>

locale wire_enum =
  fixes vals :: "'p list" and enc :: "'d \<Rightarrow> 'p" and dec :: "'p \<Rightarrow> convert_error + 'd"
  assumes few: "length vals < 2 ^ 32"
    and listed: "enc x \<in> set vals"
    and decoded: "dec (enc x) = Inr x"
begin

lemma number_back [simp]: "enum_of vals (enum_number vals (enc x)) = enc x"
  by (rule enum_of_number[OF listed few])

end

sublocale wire_enum < codec "\<lambda>x. enum_number vals (enc x)" "\<lambda>n. dec (enum_of vals n)"
  by unfold_locales (simp add: decoded)

text \<open>A strict enumeration has no default: the value numbered 0, and any unknown number, is refused.\<close>

definition specified :: "'p list \<Rightarrow> wire_number \<Rightarrow> bool" where
  "specified vs n \<longleftrightarrow> enum_of vs n \<noteq> hd vs"

locale strict_enum = wire_enum +
  assumes strict: "is_ok (dec p) \<longleftrightarrow> p \<noteq> hd vals"
begin

lemma ok_iff_specified: "is_ok (dec (enum_of vals n)) \<longleftrightarrow> specified vals n"
  by (simp add: strict specified_def)

end

section \<open>The enumerations\<close>

datatype clone_mode = Linked | FullStandalone | SharedBase

datatype p_android_version = PAndroidVersionUnspecified | PAndroid11 | PAndroid13

definition android_version_values :: "p_android_version list" where
  "android_version_values = [PAndroidVersionUnspecified, PAndroid11, PAndroid13]"

fun android_version_from :: "p_android_version \<Rightarrow> convert_error + android_version" where
  "android_version_from PAndroidVersionUnspecified = Inl MissingAndroidVersion"
| "android_version_from PAndroid11 = Inr Android11"
| "android_version_from PAndroid13 = Inr Android13"

fun android_version_to :: "android_version \<Rightarrow> p_android_version" where
  "android_version_to Android11 = PAndroid11"
| "android_version_to Android13 = PAndroid13"

datatype p_clone_mode = PCloneModeUnspecified | PLinked | PFullStandalone | PSharedBase

definition clone_mode_values :: "p_clone_mode list" where
  "clone_mode_values = [PCloneModeUnspecified, PLinked, PFullStandalone, PSharedBase]"

fun clone_mode_from :: "p_clone_mode \<Rightarrow> convert_error + clone_mode" where
  "clone_mode_from PCloneModeUnspecified = Inl MissingCloneMode"
| "clone_mode_from PLinked = Inr Linked"
| "clone_mode_from PFullStandalone = Inr FullStandalone"
| "clone_mode_from PSharedBase = Inr SharedBase"

fun clone_mode_to :: "clone_mode \<Rightarrow> p_clone_mode" where
  "clone_mode_to Linked = PLinked"
| "clone_mode_to FullStandalone = PFullStandalone"
| "clone_mode_to SharedBase = PSharedBase"

datatype p_android_boot_mode = PBootModeUnspecified | PBootAndroid | PBootLinux

definition android_boot_mode_values :: "p_android_boot_mode list" where
  "android_boot_mode_values = [PBootModeUnspecified, PBootAndroid, PBootLinux]"

fun android_boot_mode_from :: "p_android_boot_mode \<Rightarrow> android_boot_mode" where
  "android_boot_mode_from PBootModeUnspecified = BootAndroid"
| "android_boot_mode_from PBootAndroid = BootAndroid"
| "android_boot_mode_from PBootLinux = BootLinux"

fun android_boot_mode_to :: "android_boot_mode \<Rightarrow> p_android_boot_mode" where
  "android_boot_mode_to BootAndroid = PBootAndroid"
| "android_boot_mode_to BootLinux = PBootLinux"

datatype p_arm_translator = PArmTranslatorUnspecified | PNoTranslator | PLibndk | PLibhoudini

definition arm_translator_values :: "p_arm_translator list" where
  "arm_translator_values = [PArmTranslatorUnspecified, PNoTranslator, PLibndk, PLibhoudini]"

fun arm_translator_from :: "p_arm_translator \<Rightarrow> arm_translator" where
  "arm_translator_from PArmTranslatorUnspecified = NoTranslator"
| "arm_translator_from PNoTranslator = NoTranslator"
| "arm_translator_from PLibndk = Libndk"
| "arm_translator_from PLibhoudini = Libhoudini"

fun arm_translator_to :: "arm_translator \<Rightarrow> p_arm_translator" where
  "arm_translator_to NoTranslator = PNoTranslator"
| "arm_translator_to Libndk = PLibndk"
| "arm_translator_to Libhoudini = PLibhoudini"

datatype p_cpu_priority = PCpuPriorityUnspecified | PPrioLow | PPrioNormal | PPrioHigh

definition cpu_priority_values :: "p_cpu_priority list" where
  "cpu_priority_values = [PCpuPriorityUnspecified, PPrioLow, PPrioNormal, PPrioHigh]"

fun cpu_priority_from :: "p_cpu_priority \<Rightarrow> convert_error + cpu_priority" where
  "cpu_priority_from PCpuPriorityUnspecified = Inl MissingCpuPriority"
| "cpu_priority_from PPrioLow = Inr PrioLow"
| "cpu_priority_from PPrioNormal = Inr PrioNormal"
| "cpu_priority_from PPrioHigh = Inr PrioHigh"

fun cpu_priority_to :: "cpu_priority \<Rightarrow> p_cpu_priority" where
  "cpu_priority_to PrioLow = PPrioLow"
| "cpu_priority_to PrioNormal = PPrioNormal"
| "cpu_priority_to PrioHigh = PPrioHigh"

datatype p_disk_format = PDiskFormatUnspecified | PQcow2 | PRaw | PVdi

definition disk_format_values :: "p_disk_format list" where
  "disk_format_values = [PDiskFormatUnspecified, PQcow2, PRaw, PVdi]"

fun disk_format_from :: "p_disk_format \<Rightarrow> convert_error + disk_format" where
  "disk_format_from PDiskFormatUnspecified = Inl MissingDiskFormat"
| "disk_format_from PQcow2 = Inr Qcow2"
| "disk_format_from PRaw = Inr RawDisk"
| "disk_format_from PVdi = Inr Vdi"

fun disk_format_to :: "disk_format \<Rightarrow> p_disk_format" where
  "disk_format_to Qcow2 = PQcow2"
| "disk_format_to RawDisk = PRaw"
| "disk_format_to Vdi = PVdi"

datatype p_cdrom_bus = PCdromBusUnspecified | PVirtioScsi | PIde

definition cdrom_bus_values :: "p_cdrom_bus list" where
  "cdrom_bus_values = [PCdromBusUnspecified, PVirtioScsi, PIde]"

fun cdrom_bus_from :: "p_cdrom_bus \<Rightarrow> cdrom_bus" where
  "cdrom_bus_from PCdromBusUnspecified = Ide"
| "cdrom_bus_from PVirtioScsi = VirtioScsi"
| "cdrom_bus_from PIde = Ide"

fun cdrom_bus_to :: "cdrom_bus \<Rightarrow> p_cdrom_bus" where
  "cdrom_bus_to VirtioScsi = PVirtioScsi"
| "cdrom_bus_to Ide = PIde"

datatype p_display_engine = PDisplayEngineUnspecified | PSdl | PSpice | PDbus | PDisplayNone | PGtk

definition display_engine_values :: "p_display_engine list" where
  "display_engine_values = [PDisplayEngineUnspecified, PSdl, PSpice, PDbus, PDisplayNone, PGtk]"

fun display_engine_from :: "p_display_engine \<Rightarrow> convert_error + display_engine" where
  "display_engine_from PDisplayEngineUnspecified = Inl MissingDisplayEngine"
| "display_engine_from PSdl = Inr Sdl"
| "display_engine_from PSpice = Inr Spice"
| "display_engine_from PDbus = Inr Dbus"
| "display_engine_from PDisplayNone = Inr NoDisplay"
| "display_engine_from PGtk = Inr Gtk"

fun display_engine_to :: "display_engine \<Rightarrow> p_display_engine" where
  "display_engine_to Sdl = PSdl"
| "display_engine_to Spice = PSpice"
| "display_engine_to Dbus = PDbus"
| "display_engine_to NoDisplay = PDisplayNone"
| "display_engine_to Gtk = PGtk"

datatype p_nat_backend = PNatBackendUnspecified | PSlirp | PPasst

definition nat_backend_values :: "p_nat_backend list" where
  "nat_backend_values = [PNatBackendUnspecified, PSlirp, PPasst]"

fun nat_backend_from :: "p_nat_backend \<Rightarrow> nat_backend" where
  "nat_backend_from PNatBackendUnspecified = Slirp"
| "nat_backend_from PSlirp = Slirp"
| "nat_backend_from PPasst = Passt"

fun nat_backend_to :: "nat_backend \<Rightarrow> p_nat_backend" where
  "nat_backend_to Slirp = PSlirp"
| "nat_backend_to Passt = PPasst"

datatype p_port_protocol = PPortProtocolUnspecified | PTcp | PUdp

definition port_protocol_values :: "p_port_protocol list" where
  "port_protocol_values = [PPortProtocolUnspecified, PTcp, PUdp]"

fun port_protocol_from :: "p_port_protocol \<Rightarrow> convert_error + port_protocol" where
  "port_protocol_from PPortProtocolUnspecified = Inl MissingPortForwardProtocol"
| "port_protocol_from PTcp = Inr Tcp"
| "port_protocol_from PUdp = Inr Udp"

fun port_protocol_to :: "port_protocol \<Rightarrow> p_port_protocol" where
  "port_protocol_to Tcp = PTcp"
| "port_protocol_to Udp = PUdp"

datatype p_audio_backend = PAudioBackendUnspecified | PPipewire | PPulseaudio | PAudioNone

definition audio_backend_values :: "p_audio_backend list" where
  "audio_backend_values = [PAudioBackendUnspecified, PPipewire, PPulseaudio, PAudioNone]"

fun audio_backend_from :: "p_audio_backend \<Rightarrow> convert_error + audio_backend" where
  "audio_backend_from PAudioBackendUnspecified = Inl MissingAudioBackend"
| "audio_backend_from PPipewire = Inr Pipewire"
| "audio_backend_from PPulseaudio = Inr Pulseaudio"
| "audio_backend_from PAudioNone = Inr NoAudio"

fun audio_backend_to :: "audio_backend \<Rightarrow> p_audio_backend" where
  "audio_backend_to Pipewire = PPipewire"
| "audio_backend_to Pulseaudio = PPulseaudio"
| "audio_backend_to NoAudio = PAudioNone"

datatype p_audio_device = PAudioDeviceUnspecified | PVirtioSound | PIch9Hda

definition audio_device_values :: "p_audio_device list" where
  "audio_device_values = [PAudioDeviceUnspecified, PVirtioSound, PIch9Hda]"

fun audio_device_from :: "p_audio_device \<Rightarrow> audio_device" where
  "audio_device_from PAudioDeviceUnspecified = VirtioSound"
| "audio_device_from PVirtioSound = VirtioSound"
| "audio_device_from PIch9Hda = Ich9Hda"

fun audio_device_to :: "audio_device \<Rightarrow> p_audio_device" where
  "audio_device_to VirtioSound = PVirtioSound"
| "audio_device_to Ich9Hda = PIch9Hda"

datatype p_backend_kind = PBackendKindUnspecified | PQemu

definition backend_kind_values :: "p_backend_kind list" where
  "backend_kind_values = [PBackendKindUnspecified, PQemu]"

fun backend_kind_from :: "p_backend_kind \<Rightarrow> convert_error + backend_kind" where
  "backend_kind_from PBackendKindUnspecified = Inl MissingBackendKind"
| "backend_kind_from PQemu = Inr Qemu"

fun backend_kind_to :: "backend_kind \<Rightarrow> p_backend_kind" where
  "backend_kind_to Qemu = PQemu"

datatype p_pointer_mode = PPointerModeUnspecified | PTablet | PMouse

definition pointer_mode_values :: "p_pointer_mode list" where
  "pointer_mode_values = [PPointerModeUnspecified, PTablet, PMouse]"

fun pointer_mode_to :: "pointer_mode \<Rightarrow> p_pointer_mode" where
  "pointer_mode_to Tablet = PTablet"
| "pointer_mode_to Mouse = PMouse"

text \<open>An unset pointer mode is read from the older flag \<open>tablet_mode\<close>.\<close>

fun pointer_mode_from :: "bool \<Rightarrow> p_pointer_mode \<Rightarrow> pointer_mode" where
  "pointer_mode_from tablet PTablet = Tablet"
| "pointer_mode_from tablet PMouse = Mouse"
| "pointer_mode_from tablet PPointerModeUnspecified = (if tablet then Tablet else Mouse)"

section \<open>Every enumeration meets the contract\<close>

lemmas wire_values =
  android_version_values_def clone_mode_values_def android_boot_mode_values_def arm_translator_values_def
  cpu_priority_values_def disk_format_values_def cdrom_bus_values_def display_engine_values_def
  nat_backend_values_def port_protocol_values_def audio_backend_values_def audio_device_values_def
  backend_kind_values_def pointer_mode_values_def

interpretation android_version_wire: strict_enum android_version_values android_version_to android_version_from
  by (unfold_locales, simp add: wire_values, (case_tac x; simp add: wire_values),
      (case_tac x; simp), (case_tac p; simp add: wire_values))

interpretation clone_mode_wire: strict_enum clone_mode_values clone_mode_to clone_mode_from
  by (unfold_locales, simp add: wire_values, (case_tac x; simp add: wire_values),
      (case_tac x; simp), (case_tac p; simp add: wire_values))

interpretation android_boot_mode_wire: wire_enum android_boot_mode_values android_boot_mode_to "\<lambda>p. Inr (android_boot_mode_from p)"
  by (unfold_locales, simp add: wire_values, (case_tac x; simp add: wire_values)+)

interpretation arm_translator_wire: wire_enum arm_translator_values arm_translator_to "\<lambda>p. Inr (arm_translator_from p)"
  by (unfold_locales, simp add: wire_values, (case_tac x; simp add: wire_values)+)

interpretation cpu_priority_wire: strict_enum cpu_priority_values cpu_priority_to cpu_priority_from
  by (unfold_locales, simp add: wire_values, (case_tac x; simp add: wire_values),
      (case_tac x; simp), (case_tac p; simp add: wire_values))

interpretation disk_format_wire: strict_enum disk_format_values disk_format_to disk_format_from
  by (unfold_locales, simp add: wire_values, (case_tac x; simp add: wire_values),
      (case_tac x; simp), (case_tac p; simp add: wire_values))

interpretation cdrom_bus_wire: wire_enum cdrom_bus_values cdrom_bus_to "\<lambda>p. Inr (cdrom_bus_from p)"
  by (unfold_locales, simp add: wire_values, (case_tac x; simp add: wire_values)+)

interpretation display_engine_wire: strict_enum display_engine_values display_engine_to display_engine_from
  by (unfold_locales, simp add: wire_values, (case_tac x; simp add: wire_values),
      (case_tac x; simp), (case_tac p; simp add: wire_values))

interpretation nat_backend_wire: wire_enum nat_backend_values nat_backend_to "\<lambda>p. Inr (nat_backend_from p)"
  by (unfold_locales, simp add: wire_values, (case_tac x; simp add: wire_values)+)

interpretation port_protocol_wire: strict_enum port_protocol_values port_protocol_to port_protocol_from
  by (unfold_locales, simp add: wire_values, (case_tac x; simp add: wire_values),
      (case_tac x; simp), (case_tac p; simp add: wire_values))

interpretation audio_backend_wire: strict_enum audio_backend_values audio_backend_to audio_backend_from
  by (unfold_locales, simp add: wire_values, (case_tac x; simp add: wire_values),
      (case_tac x; simp), (case_tac p; simp add: wire_values))

interpretation audio_device_wire: wire_enum audio_device_values audio_device_to "\<lambda>p. Inr (audio_device_from p)"
  by (unfold_locales, simp add: wire_values, (case_tac x; simp add: wire_values)+)

interpretation backend_kind_wire: strict_enum backend_kind_values backend_kind_to backend_kind_from
  by (unfold_locales, simp add: wire_values, (case_tac x; simp add: wire_values),
      (case_tac x; simp), (case_tac p; simp add: wire_values))


interpretation pointer_mode_wire: wire_enum pointer_mode_values pointer_mode_to "\<lambda>p. Inr (pointer_mode_from t p)"
  by (unfold_locales, simp add: wire_values, (case_tac x; simp add: wire_values)+)

end
