(* ===== verification/WireConfig.thy ===== *)
theory WireConfig
  imports Wire Fsm
begin

text \<open>
  Whole configurations on the wire: the create and update requests, the response of
  \<open>GetInstanceConfig\<close>, and the commands (\<open>services/andler-rpc/src/convert.rs\<close>). The sections the
  three messages share are one record, which the messages extend; \<open>decode_sections\<close> reads them in
  the order of the code.
\<close>

section \<open>Sections of a message\<close>

record w_sections =
  sec_cpu :: "w_cpu option"
  sec_memory :: "w_memory option"
  sec_disk :: "w_disk option"
  sec_display :: "w_display option"
  sec_gpu :: "w_gpu option"
  sec_network :: "w_network option"
  sec_extra_disks :: "w_disk list"
  sec_extra_networks :: "w_network list"
  sec_firmware :: "w_firmware option"
  sec_audio :: "w_audio option"
  sec_input :: "w_input option"

definition need :: "string \<Rightarrow> 'm option \<Rightarrow> convert_error + 'm" where
  "need f m = ok_or (MissingField f) m"

definition decode_sections ::
    "instance_id \<Rightarrow> string \<Rightarrow> instance_kind \<Rightarrow> backend_kind \<Rightarrow> bool \<Rightarrow> 'z w_sections_scheme
       \<Rightarrow> convert_error + instance_config" where
  "decode_sections i nm kind backend autostart m =
     rbind (rbind (need ''cpu'' (sec_cpu m)) cpu_from_wire) (\<lambda>cpu.
     rbind (need ''memory'' (sec_memory m)) (\<lambda>memory.
     rbind (rbind (need ''disk'' (sec_disk m)) disk_from_wire) (\<lambda>disk.
     rbind (rbind (need ''display'' (sec_display m)) display_from_wire) (\<lambda>display.
     rbind (rbind (need ''gpu'' (sec_gpu m)) gpu_from_wire) (\<lambda>gpu.
     rbind (rbind (need ''network'' (sec_network m)) network_from_wire) (\<lambda>network.
     rbind (traverse disk_from_wire (sec_extra_disks m)) (\<lambda>disks.
     rbind (traverse network_from_wire (sec_extra_networks m)) (\<lambda>networks.
     rbind (need ''firmware'' (sec_firmware m)) (\<lambda>firmware.
     rbind (rbind (need ''audio'' (sec_audio m)) audio_from_wire) (\<lambda>audio.
     rbind (need ''input'' (sec_input m)) (\<lambda>input.
       Inr \<lparr>ic_id = i, ic_name = nm, ic_kind = kind, ic_backend = backend,
            ic_schema_version = CURRENT_SCHEMA_VERSION, ic_cpu = cpu, ic_memory = memory_from_wire memory,
            ic_disk = disk, ic_display = display, ic_gpu = gpu, ic_network = network,
            ic_extra_disks = disks, ic_extra_networks = networks, ic_firmware = firmware_from_wire firmware,
            ic_audio = audio, ic_input = input_from_wire input, ic_autostart = autostart\<rparr>)))))))))))"

section \<open>Requests and responses\<close>

record w_create_request =
  cr_name :: string
  cr_iso_path :: string
  cr_cpu :: "w_cpu option"
  cr_memory :: "w_memory option"
  cr_disk :: "w_disk option"
  cr_display :: "w_display option"
  cr_gpu :: "w_gpu option"
  cr_network :: "w_network option"
  cr_firmware :: "w_firmware option"
  cr_audio :: "w_audio option"
  cr_input :: "w_input option"
  cr_cdrom_bus :: wire_number
  cr_autostart :: bool
  cr_instances_root :: string

text \<open>The fresh id of \<open>InstanceId::new()\<close> is an argument.\<close>

definition create_request_to_config :: "instance_id \<Rightarrow> w_create_request \<Rightarrow> convert_error + instance_config" where
  "create_request_to_config new_id m =
     (if enum_of cdrom_bus_values (cr_cdrom_bus m) = PCdromBusUnspecified then Inl (MissingField ''cdrom_bus'')
      else decode_sections new_id (cr_name m)
        (LinuxVm (cr_iso_path m) (cdrom_bus_from (enum_of cdrom_bus_values (cr_cdrom_bus m)))) Qemu (cr_autostart m)
        \<lparr>sec_cpu = cr_cpu m, sec_memory = cr_memory m, sec_disk = cr_disk m, sec_display = cr_display m,
         sec_gpu = cr_gpu m, sec_network = cr_network m, sec_extra_disks = [], sec_extra_networks = [],
         sec_firmware = cr_firmware m, sec_audio = cr_audio m, sec_input = cr_input m\<rparr>)"

record w_config_response = w_sections +
  gr_instance_id :: string
  gr_name :: string
  gr_kind :: "w_kind option option"
  gr_backend :: wire_number
  gr_boot_mode :: wire_number
  gr_autostart :: bool

definition config_to_response :: "instance_config \<Rightarrow> w_config_response" where
  "config_to_response c =
     (let boot_mode = (case ic_kind c of
            AndroidVm p \<Rightarrow> android_boot_mode_to (ap_boot_mode p)
          | LinuxVm _ _ \<Rightarrow> PBootModeUnspecified)
      in \<lparr>sec_cpu = Some (cpu_to_wire (ic_cpu c)), sec_memory = Some (memory_to_wire (ic_memory c)),
          sec_disk = Some (disk_to_wire (ic_disk c)), sec_display = Some (display_to_wire (ic_display c)),
          sec_gpu = Some (gpu_to_wire (ic_gpu c)), sec_network = Some (network_to_wire (ic_network c)),
          sec_extra_disks = map disk_to_wire (ic_extra_disks c),
          sec_extra_networks = map network_to_wire (ic_extra_networks c),
          sec_firmware = Some (firmware_to_wire (ic_firmware c)), sec_audio = Some (audio_to_wire (ic_audio c)),
          sec_input = Some (input_to_wire (ic_input c)),
          gr_instance_id = show_instance_id (ic_id c), gr_name = ic_name c,
          gr_kind = Some (kind_to_wire (ic_kind c)),
          gr_backend = enum_number backend_kind_values (backend_kind_to (ic_backend c)),
          gr_boot_mode = enum_number android_boot_mode_values boot_mode, gr_autostart = ic_autostart c\<rparr>)"

definition parse_wire_instance_id :: "string \<Rightarrow> convert_error + instance_id" where
  "parse_wire_instance_id raw =
     (if raw = [] then Inl MissingInstanceId
      else map_err (\<lambda>_. InvalidWireInstanceId raw) (parse_instance_id raw))"

definition response_to_config :: "w_config_response \<Rightarrow> convert_error + instance_config" where
  "response_to_config m =
     rbind (backend_kind_from (enum_of backend_kind_values (gr_backend m))) (\<lambda>backend.
     rbind (parse_wire_instance_id (gr_instance_id m)) (\<lambda>i.
     rbind (rbind (need ''kind'' (gr_kind m)) kind_from_wire) (\<lambda>kind.
       decode_sections i (gr_name m) kind backend (gr_autostart m) m)))"

record w_update_request = w_sections +
  ur_instance_ref :: string
  ur_name :: string
  ur_kind :: "w_kind option option"
  ur_backend :: wire_number
  ur_autostart :: bool

definition config_to_update_request :: "instance_config \<Rightarrow> string \<Rightarrow> w_update_request" where
  "config_to_update_request c r =
     (let m = config_to_response c in
      \<lparr>sec_cpu = sec_cpu m, sec_memory = sec_memory m, sec_disk = sec_disk m, sec_display = sec_display m,
       sec_gpu = sec_gpu m, sec_network = sec_network m, sec_extra_disks = sec_extra_disks m,
       sec_extra_networks = sec_extra_networks m, sec_firmware = sec_firmware m, sec_audio = sec_audio m,
       sec_input = sec_input m,
       ur_instance_ref = r, ur_name = gr_name m, ur_kind = gr_kind m, ur_backend = gr_backend m,
       ur_autostart = gr_autostart m\<rparr>)"

definition update_request_to_config :: "instance_id \<Rightarrow> w_update_request \<Rightarrow> convert_error + instance_config" where
  "update_request_to_config i m =
     rbind (backend_kind_from (enum_of backend_kind_values (ur_backend m))) (\<lambda>backend.
     rbind (rbind (need ''kind'' (ur_kind m)) kind_from_wire) (\<lambda>kind.
       decode_sections i (ur_name m) kind backend (ur_autostart m) m))"

section \<open>Other messages\<close>

datatype p_state_kind =
    PStateUnspecified | PCreated | PStarting | PRunning | PPaused | PStopping | PStopped | PError

fun instance_state_to_proto :: "instance_state \<Rightarrow> p_state_kind \<times> string" where
  "instance_state_to_proto Created = (PCreated, [])"
| "instance_state_to_proto Starting = (PStarting, [])"
| "instance_state_to_proto Running = (PRunning, [])"
| "instance_state_to_proto Paused = (PPaused, [])"
| "instance_state_to_proto Stopping = (PStopping, [])"
| "instance_state_to_proto Stopped = (PStopped, [])"
| "instance_state_to_proto (Error msg) = (PError, msg)"

record switch_translator_cmd =
  sa_instance_ref :: string
  sa_translator :: arm_translator
  sa_dir :: "string option"

definition switch_translator_from_wire :: "string \<Rightarrow> wire_number \<Rightarrow> string \<Rightarrow> switch_translator_cmd" where
  "switch_translator_from_wire r translator dir =
     \<lparr>sa_instance_ref = r, sa_translator = arm_translator_from (enum_of arm_translator_values translator),
      sa_dir = none_if_empty dir\<rparr>"

definition switch_boot_mode_from_wire :: "string \<Rightarrow> wire_number \<Rightarrow> convert_error + (string \<times> android_boot_mode)" where
  "switch_boot_mode_from_wire r mode =
     (case enum_of android_boot_mode_values mode of
        PBootModeUnspecified \<Rightarrow> Inl (MissingField ''mode'')
      | PBootAndroid \<Rightarrow> Inr (r, BootAndroid)
      | PBootLinux \<Rightarrow> Inr (r, BootLinux))"

record export_oci_cmd =
  eo_source :: instance_id
  eo_dest_path :: string
  eo_disk_format :: disk_format
  eo_disk_path :: "string option"

record w_export_oci =
  we_source :: string
  we_dest_path :: string
  we_disk_format :: wire_number
  we_disk_path :: "string option"

definition export_oci_from_wire :: "w_export_oci \<Rightarrow> convert_error + export_oci_cmd" where
  "export_oci_from_wire m =
     rbind (disk_format_from (enum_of disk_format_values (we_disk_format m))) (\<lambda>fmt.
     rbind (parse_wire_instance_id (we_source m)) (\<lambda>i.
       Inr \<lparr>eo_source = i, eo_dest_path = we_dest_path m, eo_disk_format = fmt, eo_disk_path = we_disk_path m\<rparr>))"

definition export_oci_to_wire :: "export_oci_cmd \<Rightarrow> w_export_oci" where
  "export_oci_to_wire c =
     \<lparr>we_source = show_instance_id (eo_source c), we_dest_path = eo_dest_path c,
      we_disk_format = enum_number disk_format_values (disk_format_to (eo_disk_format c)),
      we_disk_path = eo_disk_path c\<rparr>"

section \<open>Round trips\<close>

text \<open>What the interface cannot say: an empty affinity list, an empty base image or host address,
  and a schema version.\<close>

definition wire_normal :: "instance_config \<Rightarrow> instance_config" where
  "wire_normal c =
     c\<lparr>ic_schema_version := CURRENT_SCHEMA_VERSION, ic_cpu := cpu_normal (ic_cpu c),
       ic_disk := disk_normal (ic_disk c), ic_network := network_normal (ic_network c),
       ic_extra_disks := map disk_normal (ic_extra_disks c),
       ic_extra_networks := map network_normal (ic_extra_networks c)\<rparr>"

lemmas wire_codecs = cpu_wire.dec_enc_normal disk_wire.dec_enc_normal display_wire.dec_enc gpu_wire.dec_enc
  network_wire.dec_enc_normal audio_wire.dec_enc kind_wire.dec_enc disk_wire.traverse_map_enc_normal
  network_wire.traverse_map_enc_normal memory_wire.dec_enc[simplified] firmware_wire.dec_enc[simplified]
  input_wire.dec_enc[simplified]

lemmas wire_normal_rules = cpu_wire.dec_normal disk_wire.dec_normal network_wire.dec_normal
  disk_wire.traverse_dec_normal network_wire.traverse_dec_normal

lemma need_Some [simp]: "need f (Some m) = Inr m"
  by (simp add: need_def)

lemma need_eq_Inr: "need f x = Inr m \<longleftrightarrow> x = Some m"
  by (simp add: need_def ok_or_eq_Inr)

lemma decode_response_sections:
  "decode_sections i (ic_name c) (ic_kind c) (ic_backend c) (ic_autostart c) (config_to_response c)
     = Inr ((wire_normal c)\<lparr>ic_id := i\<rparr>)"
  by (simp add: decode_sections_def config_to_response_def Let_def wire_codecs wire_normal_def)

lemma decode_update_sections:
  "decode_sections i (ic_name c) (ic_kind c) (ic_backend c) (ic_autostart c) (config_to_update_request c r)
     = Inr ((wire_normal c)\<lparr>ic_id := i\<rparr>)"
  using decode_response_sections[of i c]
  by (simp add: decode_sections_def config_to_update_request_def Let_def)


lemma parse_wire_show: "id_ok i \<Longrightarrow> parse_wire_instance_id (show_instance_id i) = Inr i"
  using length_show_instance_id[of i]
  by (auto simp: parse_wire_instance_id_def parse_show_instance_id id_ok_def)

lemma parse_wire_id_ok: "parse_wire_instance_id s = Inr i \<Longrightarrow> id_ok i"
proof -
  assume "parse_wire_instance_id s = Inr i"
  then have "length s = 64" "hex_pairs s = Some i"
    by (auto simp: parse_wire_instance_id_def map_err_eq_Inr parse_instance_id_def INSTANCE_ID_HEX_LEN_def
        ok_or_eq_Inr split: if_splits)
  then show "id_ok i" using show_hex_pairs[of s i] by (auto simp: id_ok_def)
qed

lemma decode_sections_normal:
  "decode_sections j nm k b a w = Inr e \<Longrightarrow> wire_normal e = e \<and> ic_id e = j"
  by (auto simp: decode_sections_def rbind_eq_Inr wire_normal_def wire_normal_rules)

lemma check_forwards_normal: "check_forwards (map port_forward_normal fs) = check_forwards fs"
  by (induction fs) (simp_all add: port_forward_normal_def)

lemma check_extra_disks_normal: "check_extra_disks (map disk_normal ds) = check_extra_disks ds"
  by (induction ds) (simp_all add: disk_normal_def)

lemma validate_wire_normal: "validate (wire_normal c) = validate c"
  by (simp add: validate_def wire_normal_def cpu_normal_def disk_normal_def check_extra_disks_normal
      network_validate_def network_normal_def check_forwards_normal)

lemma response_roundtrip:
  "id_ok (ic_id c) \<Longrightarrow> response_to_config (config_to_response c) = Inr (wire_normal c)"
proof -
  assume i: "id_ok (ic_id c)"
  have s: "gr_instance_id (config_to_response c) = show_instance_id (ic_id c)" "gr_name (config_to_response c) = ic_name c"
      "gr_kind (config_to_response c) = Some (kind_to_wire (ic_kind c))"
      "gr_backend (config_to_response c) = enum_number backend_kind_values (backend_kind_to (ic_backend c))"
      "gr_autostart (config_to_response c) = ic_autostart c"
    by (simp_all add: config_to_response_def Let_def)
  have "(wire_normal c)\<lparr>ic_id := ic_id c\<rparr> = wire_normal c" by (simp add: wire_normal_def)
  then show ?thesis
    by (simp add: response_to_config_def s backend_kind_wire.decoded parse_wire_show[OF i] kind_wire.dec_enc
        decode_response_sections)
qed

lemma update_roundtrip:
  "update_request_to_config i (config_to_update_request c r) = Inr ((wire_normal c)\<lparr>ic_id := i\<rparr>)"
proof -
  have u: "ur_name (config_to_update_request c r) = ic_name c"
      "ur_kind (config_to_update_request c r) = Some (kind_to_wire (ic_kind c))"
      "ur_backend (config_to_update_request c r) = enum_number backend_kind_values (backend_kind_to (ic_backend c))"
      "ur_autostart (config_to_update_request c r) = ic_autostart c"
    by (simp_all add: config_to_update_request_def Let_def config_to_response_def)
  show ?thesis
    by (simp add: update_request_to_config_def u backend_kind_wire.decoded kind_wire.dec_enc decode_update_sections)
qed

text \<open>C28. A configuration survives the wire: a client that reads the configuration of an instance
  gets its normal form (the schema version is the current one; an empty affinity list, an empty
  base image and an empty host address are absent), sending it back as an update decodes to that
  normal form under the addressed id, and the daemon's validation accepts it exactly when it
  accepts the original.\<close>

theorem config_wire_roundtrip:
  assumes "id_ok (ic_id c)"
  shows "response_to_config (config_to_response c) = Inr (wire_normal c)
    \<and> update_request_to_config i (config_to_update_request c r) = Inr ((wire_normal c)\<lparr>ic_id := i\<rparr>)
    \<and> validate (wire_normal c) = validate c"
  using response_roundtrip[OF assms] update_roundtrip validate_wire_normal by simp

text \<open>C29. Whatever a client sends, an accepted update is a configuration in normal form with the
  addressed id, and an accepted response one in normal form with a well-formed id: reading it back
  gives the same configuration again.\<close>

theorem wire_configs_normal:
  assumes "response_to_config m = Inr c" and "update_request_to_config i u = Inr d"
  shows "wire_normal c = c \<and> id_ok (ic_id c) \<and> wire_normal d = d \<and> ic_id d = i"
  using assms
  by (auto simp: response_to_config_def update_request_to_config_def rbind_eq_Inr
      dest!: decode_sections_normal dest: parse_wire_id_ok)

section \<open>What is accepted\<close>

definition disk_complete :: "w_disk \<Rightarrow> bool" where
  "disk_complete m \<longleftrightarrow> specified disk_format_values (wd_format m)"

definition network_complete :: "w_network \<Rightarrow> bool" where
  "network_complete m \<longleftrightarrow> (\<exists>k. wn_mode m = Some (Some k)) \<and>
     list_all (\<lambda>f. specified port_protocol_values (wf_protocol f)) (wn_port_forwards m)"

definition sections_complete :: "'z w_sections_scheme \<Rightarrow> bool" where
  "sections_complete m \<longleftrightarrow>
     (\<exists>c. sec_cpu m = Some c \<and> specified cpu_priority_values (wc_priority c)) \<and> sec_memory m \<noteq> None \<and>
     (\<exists>d. sec_disk m = Some d \<and> disk_complete d) \<and>
     (\<exists>d. sec_display m = Some d \<and> specified display_engine_values (ws_engine d) \<and> ws_resolution d \<noteq> None) \<and>
     (\<exists>g k. sec_gpu m = Some g \<and> wg_render g = Some (Some k)) \<and>
     (\<exists>n. sec_network m = Some n \<and> network_complete n) \<and>
     list_all disk_complete (sec_extra_disks m) \<and> list_all network_complete (sec_extra_networks m) \<and>
     sec_firmware m \<noteq> None \<and>
     (\<exists>a. sec_audio m = Some a \<and> specified audio_backend_values (wa_backend a)) \<and> sec_input m \<noteq> None"

fun kind_complete :: "w_kind option option \<Rightarrow> bool" where
  "kind_complete (Some (Some (WLinuxVm _ bus))) = specified cdrom_bus_values bus"
| "kind_complete (Some (Some (WAndroidVm (Some p)))) = specified android_version_values (wp_version p)"
| "kind_complete _ = False"

lemma is_ok_need: "is_ok (need f m) \<longleftrightarrow> m \<noteq> None"
  by (cases m) (simp_all add: need_def)

lemmas enum_ok = cpu_priority_wire.ok_iff_specified disk_format_wire.ok_iff_specified
  display_engine_wire.ok_iff_specified port_protocol_wire.ok_iff_specified audio_backend_wire.ok_iff_specified
  android_version_wire.ok_iff_specified backend_kind_wire.ok_iff_specified

lemma ok_exists: "(\<exists>x. m = Inr x) \<longleftrightarrow> is_ok m"
  by (simp add: is_ok_iff)

lemma cpu_ok: "is_ok (cpu_from_wire c) \<longleftrightarrow> specified cpu_priority_values (wc_priority c)"
  by (simp add: cpu_from_wire_def is_ok_rbind ok_exists enum_ok)

lemma disk_ok: "is_ok (disk_from_wire d) \<longleftrightarrow> disk_complete d"
  by (simp add: disk_from_wire_def is_ok_rbind ok_exists enum_ok disk_complete_def)

lemma display_ok: "is_ok (display_from_wire d) \<longleftrightarrow>
    specified display_engine_values (ws_engine d) \<and> ws_resolution d \<noteq> None"
  by (simp add: display_from_wire_def is_ok_rbind ok_exists enum_ok is_ok_ok_or)

lemma gpu_ok: "is_ok (gpu_from_wire g) \<longleftrightarrow> (\<exists>k. wg_render g = Some (Some k))"
  by (auto simp: gpu_from_wire_def render_from_wire_def is_ok_rbind ok_exists is_ok_ok_or ok_or_eq_Inr rbind_eq_Inr)

lemma network_ok: "is_ok (network_from_wire n) \<longleftrightarrow> network_complete n"
  by (auto simp: network_from_wire_def mode_from_wire_def is_ok_rbind ok_exists is_ok_ok_or ok_or_eq_Inr rbind_eq_Inr
      is_ok_traverse port_forward_from_wire_def enum_ok network_complete_def Let_def)

lemma audio_ok: "is_ok (audio_from_wire a) \<longleftrightarrow> specified audio_backend_values (wa_backend a)"
  by (simp add: audio_from_wire_def is_ok_rbind ok_exists enum_ok)

lemma kind_ok: "is_ok (rbind (need f k) kind_from_wire) \<longleftrightarrow> kind_complete k"
proof (cases k)
  case (Some k')
  then show ?thesis
  proof (cases k')
    case (Some w)
    then show ?thesis using \<open>k = Some k'\<close>
    proof (cases w)
      case (WAndroidVm p)
      then show ?thesis using Some \<open>k = Some k'\<close>
        by (cases p) (simp_all add: kind_from_wire_def profile_from_wire_def is_ok_rbind ok_exists enum_ok Let_def)
    qed (simp add: kind_from_wire_def specified_def cdrom_bus_values_def)
  qed (simp add: kind_from_wire_def)
qed (simp add: need_def)

text \<open>A section in the middle of the decoding: present and decodable.\<close>

lemma is_ok_section: "is_ok (rbind (need f x) g) \<longleftrightarrow> (\<exists>m. x = Some m \<and> is_ok (g m))"
  by (cases x) (simp_all add: need_def)

lemma decode_sections_ok: "is_ok (decode_sections i nm k b a m) \<longleftrightarrow> sections_complete m"
  by (simp add: decode_sections_def is_ok_rbind_const is_ok_section is_ok_need is_ok_traverse cpu_ok disk_ok display_ok
      gpu_ok network_ok audio_ok sections_complete_def)

text \<open>An update request is accepted exactly when it is complete: a known backend, a kind with its
  profile or bus, every section present, and inside the sections every enumeration without a
  default specified and every \<open>oneof\<close> set. Numbers and strings are never refused here.\<close>

theorem update_accepted_iff:
  "is_ok (update_request_to_config i m) \<longleftrightarrow>
     specified backend_kind_values (ur_backend m) \<and> kind_complete (ur_kind m) \<and> sections_complete m"
  by (simp add: update_request_to_config_def is_ok_rbind_const enum_ok kind_ok decode_sections_ok)

text \<open>The ports of a forward are 32-bit numbers on the wire and 16-bit ones in the
  configuration, and the conversion keeps the low 16 bits: a request with any multiple of 65536
  added to a port is accepted and means the same forward.\<close>

theorem wide_ports_wrap:
  "port_forward_from_wire (m\<lparr>wf_host_port := wf_host_port m + push_bit 16 a,
       wf_guest_port := wf_guest_port m + push_bit 16 b\<rparr>) = port_forward_from_wire m"
proof -
  have low: "(ucast (p + push_bit 16 q :: u32) :: u16) = ucast p" for p q
    by transfer (simp add: take_bit_push_bit take_bit_add[symmetric, of 16 "_ :: int"] min_def)
  show ?thesis by (simp add: port_forward_from_wire_def low)
qed

section \<open>Examples\<close>

definition demo_wire_config :: instance_config where
  "demo_wire_config = android_resolve
     \<lparr>ap_version = Android13, ap_gapps = True, ap_microg = False, ap_arm_translator = Libndk,
      ap_boot_mode = BootAndroid, ap_base_image_pin = None\<rparr>
     (replicate 32 7) ''vm'' (disk_standalone ''/d'' GIB) ''/vars''"

lemma demo_wire_id [simp]: "id_ok (ic_id demo_wire_config)" "ic_id demo_wire_config = replicate 32 7"
  by (simp_all add: demo_wire_config_def android_resolve_def id_ok_def)

lemma demo_wire_normal [simp]: "wire_normal demo_wire_config = demo_wire_config"
  by (simp add: demo_wire_config_def android_resolve_def wire_normal_def cpu_normal_def disk_normal_def
      network_normal_def cpu_reference_default_def disk_standalone_def network_reference_default_def drop_empty_def)

theorem config_wire_roundtrip_witness:
  "response_to_config (config_to_response demo_wire_config) = Inr demo_wire_config"
  using config_wire_roundtrip[OF demo_wire_id(1)] by simp

lemma demo_wire_decodes:
  "response_to_config (config_to_response demo_wire_config) = Inr demo_wire_config"
  "update_request_to_config (replicate 32 7) (config_to_update_request demo_wire_config r) = Inr (demo_wire_config\<lparr>ic_id := replicate 32 7\<rparr>)"
  using response_roundtrip[OF demo_wire_id(1)] update_roundtrip[of "replicate 32 7" demo_wire_config r] by simp_all

theorem wire_configs_normal_witness:
  "wire_normal demo_wire_config = demo_wire_config \<and> id_ok (ic_id demo_wire_config)"
  using wire_configs_normal[OF demo_wire_decodes(1) demo_wire_decodes(2)] by simp

end
