(* ===== verification/Provision.thy ===== *)
theory Provision
  imports WireEnums
begin

text \<open>
  File mutations inside a guest (\<open>core/andler-core/src/guest_mutator.rs\<close>), the provisioning
  manifest that lists them (\<open>provision.rs\<close>), their way over the wire
  (\<open>services/andler-rpc/src/provision_convert.rs\<close>), and the guest-side work a configuration asks for
  (\<open>guest_profile.rs\<close>, \<open>package_manager.rs\<close>).

  The theorems: a mode is read exactly when it is one to four octal digits, and what a manifest
  expands to reaches the daemon unchanged, while a shell command never does.
\<close>

section \<open>Operations and manifests\<close>

datatype mutator_op =
    WriteFile string string
  | UploadFile string string
  | MkdirP string
  | CpA string string
  | Mv string string
  | RmRf string
  | Chmod string u32
  | Symlink string string
  | RunShell string

datatype manifest_op =
    MWriteFile string string "string option"
  | MUploadFile string string "string option"
  | MMkdirP string
  | MCpA string string
  | MMv string string
  | MRmRf string
  | MChmod string string
  | MSymlink string string

record provision_manifest =
  pm_schema_version :: u32
  pm_name :: string
  pm_ops :: "manifest_op list"

datatype provision_error =
    ManifestParse string
  | UnsupportedManifest u32
  | InvalidMode nat string string

text \<open>The TOML reader's answer is the argument.\<close>

definition manifest_parse :: "string + provision_manifest \<Rightarrow> provision_error + provision_manifest" where
  "manifest_parse toml =
     rbind (map_err ManifestParse toml) (\<lambda>m.
       if pm_schema_version m \<noteq> 1 then Inl (UnsupportedManifest (pm_schema_version m)) else Inr m)"

section \<open>Octal modes\<close>

definition is_octal :: "char \<Rightarrow> bool" where
  "is_octal c \<longleftrightarrow> 48 \<le> byte c \<and> byte c \<le> 55"

definition octal_value :: "string \<Rightarrow> nat" where
  "octal_value s = foldl (\<lambda>acc c. 8 * acc + (byte c - 48)) 0 s"

text \<open>\<open>u32::from_str_radix(_, 8)\<close> on a text of octal digits: the empty text and overflow are errors.\<close>

definition u32_from_octal :: "string \<Rightarrow> u32 option" where
  "u32_from_octal s = (if s = [] \<or> octal_value s \<ge> 2 ^ 32 then None else Some (of_nat (octal_value s)))"

definition parse_mode :: "nat \<Rightarrow> string \<Rightarrow> string \<Rightarrow> provision_error + u32" where
  "parse_mode index op mode =
     (let trimmed = trim mode in
      if length trimmed > 4 \<or> \<not> list_all is_octal trimmed then Inl (InvalidMode index op mode)
      else ok_or (InvalidMode index op mode) (u32_from_octal trimmed))"

section \<open>Expanding a manifest\<close>

fun expand_op :: "nat \<Rightarrow> manifest_op \<Rightarrow> provision_error + mutator_op list" where
  "expand_op k (MWriteFile p content mode) =
     (case mode of None \<Rightarrow> Inr [WriteFile p content]
      | Some md \<Rightarrow> rbind (parse_mode k ''write-file'' md) (\<lambda>n. Inr [WriteFile p content, Chmod p n]))"
| "expand_op k (MUploadFile g h mode) =
     (case mode of None \<Rightarrow> Inr [UploadFile g h]
      | Some md \<Rightarrow> rbind (parse_mode k ''upload-file'' md) (\<lambda>n. Inr [UploadFile g h, Chmod g n]))"
| "expand_op k (MMkdirP p) = Inr [MkdirP p]"
| "expand_op k (MCpA s d) = Inr [CpA s d]"
| "expand_op k (MMv s d) = Inr [Mv s d]"
| "expand_op k (MRmRf p) = Inr [RmRf p]"
| "expand_op k (MChmod p md) = rbind (parse_mode k ''chmod'' md) (\<lambda>n. Inr [Chmod p n])"
| "expand_op k (MSymlink t l) = Inr [Symlink t l]"

fun expand_ops :: "nat \<Rightarrow> manifest_op list \<Rightarrow> provision_error + mutator_op list" where
  "expand_ops k [] = Inr []"
| "expand_ops k (op # ops) = rbind (expand_op k op) (\<lambda>a. rbind (expand_ops (Suc k) ops) (\<lambda>b. Inr (a @ b)))"

definition to_mutator_ops :: "provision_manifest \<Rightarrow> provision_error + mutator_op list" where
  "to_mutator_ops m = expand_ops 0 (pm_ops m)"

section \<open>On the wire\<close>

datatype w_provision_op =
    WWriteFile string string
  | WUploadFile string string
  | WMkdirP string
  | WCpA string string
  | WMv string string
  | WRmRf string
  | WChmod string u32
  | WSymlink string string
  | WRunShell string

fun provision_op_to_proto :: "mutator_op \<Rightarrow> w_provision_op option" where
  "provision_op_to_proto (WriteFile p c) = Some (WWriteFile p c)"
| "provision_op_to_proto (UploadFile p h) = Some (WUploadFile p h)"
| "provision_op_to_proto (MkdirP p) = Some (WMkdirP p)"
| "provision_op_to_proto (CpA s d) = Some (WCpA s d)"
| "provision_op_to_proto (Mv s d) = Some (WMv s d)"
| "provision_op_to_proto (RmRf p) = Some (WRmRf p)"
| "provision_op_to_proto (Chmod p n) = Some (WChmod p n)"
| "provision_op_to_proto (Symlink t l) = Some (WSymlink t l)"
| "provision_op_to_proto (RunShell c) = Some (WRunShell c)"

definition provision_ops_to_proto :: "mutator_op list \<Rightarrow> w_provision_op option list" where
  "provision_ops_to_proto ops = map provision_op_to_proto ops"

fun provision_op_from_proto :: "w_provision_op option \<Rightarrow> convert_error + mutator_op" where
  "provision_op_from_proto None = Inl (MissingField ''provision.op'')"
| "provision_op_from_proto (Some (WWriteFile p c)) = Inr (WriteFile p c)"
| "provision_op_from_proto (Some (WUploadFile p h)) = Inr (UploadFile p h)"
| "provision_op_from_proto (Some (WMkdirP p)) = Inr (MkdirP p)"
| "provision_op_from_proto (Some (WCpA s d)) = Inr (CpA s d)"
| "provision_op_from_proto (Some (WMv s d)) = Inr (Mv s d)"
| "provision_op_from_proto (Some (WRmRf p)) = Inr (RmRf p)"
| "provision_op_from_proto (Some (WChmod p n)) = Inr (Chmod p n)"
| "provision_op_from_proto (Some (WSymlink t l)) = Inr (Symlink t l)"
| "provision_op_from_proto (Some (WRunShell c)) = Inl (ClientSuppliedShell ''run_shell'')"

definition provision_ops_from_proto :: "w_provision_op option list \<Rightarrow> convert_error + mutator_op list" where
  "provision_ops_from_proto ops = traverse provision_op_from_proto ops"

fun is_shell :: "mutator_op \<Rightarrow> bool" where
  "is_shell (RunShell _) = True"
| "is_shell _ = False"

lemma op_roundtrip: "provision_op_from_proto (provision_op_to_proto op) =
    (if is_shell op then Inl (ClientSuppliedShell ''run_shell'') else Inr op)"
  by (cases op) simp_all

lemma op_from_not_shell: "provision_op_from_proto m = Inr op \<Longrightarrow> \<not> is_shell op \<and> provision_op_to_proto op = m"
  by (cases m rule: provision_op_from_proto.cases) auto

lemma ops_roundtrip: "provision_ops_from_proto (provision_ops_to_proto ops) =
    (if list_ex is_shell ops then Inl (ClientSuppliedShell ''run_shell'') else Inr ops)"
  by (induction ops) (simp_all add: provision_ops_from_proto_def provision_ops_to_proto_def op_roundtrip)

lemma traverse_not_shell: "traverse provision_op_from_proto ms = Inr ops \<Longrightarrow>
    \<not> list_ex is_shell ops \<and> map provision_op_to_proto ops = ms"
  by (induction ms arbitrary: ops) (auto simp: rbind_eq_Inr dest!: op_from_not_shell)

section \<open>Modes\<close>

lemma octal_value_bound: "list_all is_octal s \<Longrightarrow> octal_value s < 8 ^ length s"
proof (induction s rule: rev_induct)
  case (snoc c s)
  then have "octal_value s < 8 ^ length s" "byte c - 48 \<le> 7" by (auto simp: is_octal_def)
  moreover have "octal_value (s @ [c]) = 8 * octal_value s + (byte c - 48)" by (simp add: octal_value_def)
  ultimately show ?case by simp
qed (simp add: octal_value_def)

lemma parse_mode_iff:
  "parse_mode k op mode = Inr n \<longleftrightarrow>
     trim mode \<noteq> [] \<and> length (trim mode) \<le> 4 \<and> list_all is_octal (trim mode) \<and> n = of_nat (octal_value (trim mode))"
proof (cases "length (trim mode) > 4 \<or> \<not> list_all is_octal (trim mode)")
  case False
  then have "octal_value (trim mode) < 8 ^ length (trim mode)" using octal_value_bound by blast
  also have "(8 :: nat) ^ length (trim mode) \<le> 8 ^ 4" using False by (intro power_increasing) simp_all
  finally have "octal_value (trim mode) < 2 ^ 32" by simp
  then show ?thesis using False by (auto simp: parse_mode_def u32_from_octal_def Let_def ok_or_eq_Inr)
qed (auto simp: parse_mode_def Let_def)

lemma expand_op_not_shell: "expand_op k op = Inr ops \<Longrightarrow> \<not> list_ex is_shell ops"
  by (cases op) (auto simp: rbind_eq_Inr split: option.splits)

lemma expand_not_shell: "expand_ops k ms = Inr ops \<Longrightarrow> \<not> list_ex is_shell ops"
  by (induction ms arbitrary: k ops) (auto simp: rbind_eq_Inr dest: expand_op_not_shell)

text \<open>What a manifest expands to reaches the daemon unchanged, in order and whatever the
  operations; and nothing a client sends becomes a shell command: an accepted request contains
  none and is exactly the request its operations encode.\<close>

theorem provisioning_arrives:
  "(to_mutator_ops m = Inr ops \<longrightarrow> provision_ops_from_proto (provision_ops_to_proto ops) = Inr ops)
   \<and> (provision_ops_from_proto ms = Inr received \<longrightarrow>
        \<not> list_ex is_shell received \<and> provision_ops_to_proto received = ms)"
proof (intro conjI impI)
  assume "to_mutator_ops m = Inr ops"
  then show "provision_ops_from_proto (provision_ops_to_proto ops) = Inr ops"
    by (simp add: to_mutator_ops_def ops_roundtrip expand_not_shell)
qed (auto simp: provision_ops_from_proto_def provision_ops_to_proto_def dest!: traverse_not_shell)

text \<open>The mode of an operation that carries one.\<close>

fun op_mode :: "manifest_op \<Rightarrow> string option" where
  "op_mode (MWriteFile _ _ md) = md"
| "op_mode (MUploadFile _ _ md) = md"
| "op_mode (MChmod _ md) = Some md"
| "op_mode _ = None"

definition mode_ok :: "string \<Rightarrow> bool" where
  "mode_ok md \<longleftrightarrow> trim md \<noteq> [] \<and> length (trim md) \<le> 4 \<and> list_all is_octal (trim md)"

lemma parse_mode_ok: "is_ok (parse_mode k op md) \<longleftrightarrow> mode_ok md"
  using parse_mode_iff[of k op md] by (auto simp: is_ok_iff mode_ok_def)

lemma expand_op_ok: "is_ok (expand_op k op) \<longleftrightarrow> (\<forall>md. op_mode op = Some md \<longrightarrow> mode_ok md)"
  by (cases op) (simp_all add: is_ok_rbind_const parse_mode_ok split: option.splits)

lemma parse_mode_error: "parse_mode k op md = Inl e \<Longrightarrow> e = InvalidMode k op md \<and> \<not> mode_ok md"
  using parse_mode_ok[of k op md] by (auto simp: parse_mode_def Let_def ok_or_def split: if_splits option.splits)

lemma expand_op_error: "expand_op k op = Inl e \<Longrightarrow>
    \<exists>name md. e = InvalidMode k name md \<and> op_mode op = Some md \<and> \<not> mode_ok md"
  by (cases op) (auto simp: rbind_eq_Inl split: option.splits dest: parse_mode_error)

lemma expand_ops_ok: "is_ok (expand_ops k ms) \<longleftrightarrow> (\<forall>op \<in> set ms. \<forall>md. op_mode op = Some md \<longrightarrow> mode_ok md)"
proof (induction ms arbitrary: k)
  case (Cons op ms)
  have "is_ok (expand_ops k (op # ms)) \<longleftrightarrow> is_ok (expand_op k op) \<and> is_ok (expand_ops (Suc k) ms)"
    by (simp add: is_ok_rbind_const)
  then show ?case by (simp add: Cons expand_op_ok)
qed simp

text \<open>A manifest expands exactly when each of its modes is one to four octal digits once blanks
  are trimmed; otherwise the error names the position and the text of a mode that is not.\<close>

theorem manifest_modes_exact:
  "(is_ok (to_mutator_ops m) \<longleftrightarrow> (\<forall>op \<in> set (pm_ops m). \<forall>md. op_mode op = Some md \<longrightarrow> mode_ok md))
   \<and> (to_mutator_ops m = Inl e \<longrightarrow> (\<exists>k name md. e = InvalidMode k name md \<and> k < length (pm_ops m)
        \<and> op_mode (pm_ops m ! k) = Some md \<and> \<not> mode_ok md))"
proof -
  have "\<exists>i name md. e = InvalidMode (k + i) name md \<and> i < length ms \<and> op_mode (ms ! i) = Some md \<and> \<not> mode_ok md"
    if "expand_ops k ms = Inl e" for k ms
    using that
  proof (induction ms arbitrary: k)
    case (Cons op ms)
    show ?case
    proof (cases "expand_op k op")
      case (Inl d)
      then show ?thesis using Cons.prems expand_op_error[OF Inl] by force
    next
      case (Inr a)
      then have "expand_ops (Suc k) ms = Inl e" using Cons.prems by (auto simp: rbind_eq_Inl)
      from Cons.IH[OF this] show ?thesis by force
    qed
  qed simp
  from this[of 0 "pm_ops m"] show ?thesis by (simp add: to_mutator_ops_def expand_ops_ok)
qed


section \<open>Examples\<close>

definition demo_manifest :: provision_manifest where
  "demo_manifest = \<lparr>pm_schema_version = 1, pm_name = ''demo'',
     pm_ops = [MMkdirP ''/etc/x'', MWriteFile ''/etc/x/a'' ''on'' (Some ''0644''), MChmod ''/etc/x'' ''4755'']\<rparr>"

lemma demo_modes: "mode_ok ''0644''" "mode_ok ''4755''" "trim ''0644'' = ''0644''" "trim ''4755'' = ''4755''"
  by (simp_all add: mode_ok_def trim_id is_space_def is_octal_def byte_def)

lemma demo_expands: "to_mutator_ops demo_manifest =
    Inr [MkdirP ''/etc/x'', WriteFile ''/etc/x/a'' ''on'', Chmod ''/etc/x/a'' 420, Chmod ''/etc/x'' 2541]"
proof -
  have "parse_mode 1 ''write-file'' ''0644'' = Inr 420" "parse_mode 2 ''chmod'' ''4755'' = Inr 2541"
    using demo_modes by (simp_all add: parse_mode_iff mode_ok_def octal_value_def byte_def)
  then show ?thesis by (simp add: to_mutator_ops_def demo_manifest_def numeral_2_eq_2)
qed

theorem provisioning_arrives_witness:
  "provision_ops_from_proto (provision_ops_to_proto
     [MkdirP ''/etc/x'', WriteFile ''/etc/x/a'' ''on'', Chmod ''/etc/x/a'' 420, Chmod ''/etc/x'' 2541])
   = Inr [MkdirP ''/etc/x'', WriteFile ''/etc/x/a'' ''on'', Chmod ''/etc/x/a'' 420, Chmod ''/etc/x'' 2541]"
  using provisioning_arrives[of demo_manifest] demo_expands by blast

theorem manifest_modes_exact_witness:
  "is_ok (to_mutator_ops demo_manifest)
   \<and> \<not> is_ok (to_mutator_ops (demo_manifest\<lparr>pm_ops := [MChmod ''/x'' ''0x45'']\<rparr>))"
proof -
  have "\<not> mode_ok ''0x45''" by (simp add: mode_ok_def trim_id is_space_def is_octal_def byte_def)
  then show ?thesis
    using manifest_modes_exact[of demo_manifest] manifest_modes_exact[of "demo_manifest\<lparr>pm_ops := [MChmod ''/x'' ''0x45'']\<rparr>"]
      demo_modes
    by (simp add: demo_manifest_def)
qed

end
