(* ===== verification/Mutators.thy ===== *)
theory Mutators
  imports Provision Qcow2
begin

text \<open>
  The two ways a batch of file mutations reaches a guest: through the agent of a running guest
  (\<open>backends/andler-qemu/src/mutator.rs\<close>, \<open>guest_file_write_bytes\<close> of \<open>qmp.rs\<close>) and through a
  libguestfs appliance on the disk of a stopped one (\<open>services/andler-guestfs/src/lib.rs\<close>), of which
  this theory has the scripts and \<open>Appliance\<close> the session they are sent to.

  \<open>qga_peer\<close> is the agent, \<open>fish_line\<close> the appliance's command interpreter. \<open>qga_laws\<close> and \<open>fish_laws\<close>
  say what each documents for the operations on files, in terms of one effect of an operation on the
  guest's files; a command through the agent may take any time and is given up when it takes too long.
  The lemmas follow a batch through the agent and through the lines of a script; the theorem says when
  the online way does not give a file back as it is.
\<close>

section \<open>Through the guest agent\<close>

datatype io_message =
    Plain string
  | ExitedWith string "string list" int string
  | CommandTimedOut string "string list"
  | WriteFailed string string
  | UploadFailed string string
  | HostReadFailed string string
  | NoOutput string

datatype mutator_error = MutIo io_message | MutNotFound string | MutUnsupported string

record exec_status =
  es_exitcode :: "int option"
  es_exited :: bool
  es_out :: "string option"
  es_err :: "string option"

record 'g qga_peer =
  qa_exec :: "string \<Rightarrow> string list \<Rightarrow> 'g \<Rightarrow> (string + nat) \<times> 'g"
  qa_status :: "nat \<Rightarrow> 'g \<Rightarrow> (string + exec_status) \<times> 'g"
  qa_open :: "string \<Rightarrow> 'g \<Rightarrow> (string + int) \<times> 'g"
  qa_write :: "int \<Rightarrow> string \<Rightarrow> 'g \<Rightarrow> (string + nat option) \<times> 'g"
  qa_close :: "int \<Rightarrow> 'g \<Rightarrow> (string + unit) \<times> 'g"
  qa_sleep :: "'g \<Rightarrow> 'g"
  qa_encode :: "string \<Rightarrow> string"
  qa_decode :: "string \<Rightarrow> string option"

text \<open>\<open>String::from_utf8\<close>.\<close>

definition continuation :: "char \<Rightarrow> bool" where
  "continuation c \<longleftrightarrow> 128 \<le> byte c \<and> byte c \<le> 191"

fun utf8_valid :: "string \<Rightarrow> bool" where
  "utf8_valid [] = True"
| "utf8_valid (a # s) =
     (if byte a < 128 then utf8_valid s
      else if 194 \<le> byte a \<and> byte a \<le> 223 then
        (case s of b # r \<Rightarrow> continuation b \<and> utf8_valid r | _ \<Rightarrow> False)
      else if 224 \<le> byte a \<and> byte a \<le> 239 then
        (case s of b # c # r \<Rightarrow> continuation b \<and> continuation c \<and> (byte a = 224 \<longrightarrow> 160 \<le> byte b)
             \<and> (byte a = 237 \<longrightarrow> byte b \<le> 159) \<and> utf8_valid r
         | _ \<Rightarrow> False)
      else if 240 \<le> byte a \<and> byte a \<le> 244 then
        (case s of b # c # d # r \<Rightarrow> continuation b \<and> continuation c \<and> continuation d
             \<and> (byte a = 240 \<longrightarrow> 144 \<le> byte b) \<and> (byte a = 244 \<longrightarrow> byte b \<le> 143) \<and> utf8_valid r
         | _ \<Rightarrow> False)
      else False)"

definition decode_guest_exec_data :: "'g qga_peer \<Rightarrow> string option \<Rightarrow> string option" where
  "decode_guest_exec_data p data =
     map_option (\<lambda>raw. case qa_decode p (trim raw) of
         Some bytes \<Rightarrow> if utf8_valid bytes then bytes else raw
       | None \<Rightarrow> raw) data"

definition guest_file_write_bytes :: "'g qga_peer \<Rightarrow> string \<Rightarrow> string \<Rightarrow> 'g \<Rightarrow> (string + unit) \<times> 'g" where
  "guest_file_write_bytes p path content g =
     (case qa_open p path g of
        (Inl e, g1) \<Rightarrow> (Inl e, g1)
      | (Inr h, g1) \<Rightarrow>
     (case qa_write p h (qa_encode p content) g1 of
        (Inl e, g2) \<Rightarrow> (Inl e, g2)
      | (Inr count, g2) \<Rightarrow>
          if count \<noteq> Some (length content) then (Inl ''wrote less than the content'', g2)
          else qa_close p h g2))"

text \<open>Polling for the end of a command: \<open>polls\<close> is how often the agent is asked again before the
  30 seconds are over.\<close>

fun await_exit :: "'g qga_peer \<Rightarrow> string \<Rightarrow> string list \<Rightarrow> nat \<Rightarrow> nat \<Rightarrow> 'g \<Rightarrow> (mutator_error + string option) \<times> 'g" where
  "await_exit p path args pid polls g =
     (case qa_status p pid g of
        (Inl e, g1) \<Rightarrow> (Inl (MutIo (Plain e)), g1)
      | (Inr st, g1) \<Rightarrow>
          if es_exited st then
            (let code = (case es_exitcode st of Some c \<Rightarrow> c | None \<Rightarrow> - 1) in
             if code \<noteq> 0
             then (Inl (MutIo (ExitedWith path args code
                     (trim (case decode_guest_exec_data p (es_err st) of Some t \<Rightarrow> t | None \<Rightarrow> [])))), g1)
             else (Inr (decode_guest_exec_data p (es_out st)), g1))
          else (case polls of
              0 \<Rightarrow> (Inl (MutIo (CommandTimedOut path args)), g1)
            | Suc n \<Rightarrow> await_exit p path args pid n (qa_sleep p g1)))"

declare await_exit.simps [simp del]

definition exec_ok :: "'g qga_peer \<Rightarrow> nat \<Rightarrow> string \<Rightarrow> string list \<Rightarrow> 'g \<Rightarrow> (mutator_error + string option) \<times> 'g" where
  "exec_ok p polls path args g =
     (case qa_exec p path args g of
        (Inl e, g1) \<Rightarrow> (Inl (MutIo (Plain e)), g1)
      | (Inr pid, g1) \<Rightarrow> await_exit p path args pid polls g1)"

fun show_octal :: "nat \<Rightarrow> string" where
  "show_octal n = (if n < 8 then [digit_char n] else show_octal (n div 8) @ [digit_char (n mod 8)])"

declare show_octal.simps [simp del]

text \<open>The argument vector of an operation.\<close>

fun argv_of :: "mutator_op \<Rightarrow> (string \<times> string list) option" where
  "argv_of (MkdirP p) = Some (''mkdir'', [''-p'', p])"
| "argv_of (CpA s d) = Some (''cp'', [''-a'', s, d])"
| "argv_of (Mv s d) = Some (''mv'', [s, d])"
| "argv_of (RmRf p) = Some (''rm'', [''-rf'', p])"
| "argv_of (Chmod p m) = Some (''chmod'', [show_octal (unat m), p])"
| "argv_of (Symlink t l) = Some (''ln'', [''-s'', t, l])"
| "argv_of (RunShell c) = Some (''sh'', [''-c'', c])"
| "argv_of _ = None"

definition unit_result :: "('e + 'a) \<times> 'g \<Rightarrow> ('e + unit) \<times> 'g" where
  "unit_result r = (rbind (fst r) (\<lambda>_. Inr ()), snd r)"

text \<open>\<open>host\<close> is the host's files as \<open>std::fs::read\<close> sees them.\<close>

fun apply_one :: "'g qga_peer \<Rightarrow> nat \<Rightarrow> (string \<Rightarrow> string + string) \<Rightarrow> mutator_op \<Rightarrow> 'g \<Rightarrow> (mutator_error + unit) \<times> 'g" where
  "apply_one p polls host (WriteFile path content) g =
     (case guest_file_write_bytes p path content g of (r, g1) \<Rightarrow> (map_err (\<lambda>e. MutIo (WriteFailed path e)) r, g1))"
| "apply_one p polls host (UploadFile path src) g =
     (case host src of
        Inl e \<Rightarrow> (Inl (MutIo (HostReadFailed src e)), g)
      | Inr content \<Rightarrow>
          (case guest_file_write_bytes p path content g of (r, g1) \<Rightarrow> (map_err (\<lambda>e. MutIo (UploadFailed path e)) r, g1)))"
| "apply_one p polls host op g =
     (case argv_of op of Some (path, args) \<Rightarrow> unit_result (exec_ok p polls path args g) | None \<Rightarrow> (Inr (), g))"

fun apply_online :: "'g qga_peer \<Rightarrow> nat \<Rightarrow> (string \<Rightarrow> string + string) \<Rightarrow> mutator_op list \<Rightarrow> 'g \<Rightarrow> (mutator_error + unit) \<times> 'g" where
  "apply_online p polls host [] g = (Inr (), g)"
| "apply_online p polls host (op # ops) g =
     (case apply_one p polls host op g of
        (Inl e, g1) \<Rightarrow> (Inl e, g1)
      | (Inr _, g1) \<Rightarrow> apply_online p polls host ops g1)"

definition read_file_online :: "'g qga_peer \<Rightarrow> nat \<Rightarrow> string \<Rightarrow> 'g \<Rightarrow> (mutator_error + string) \<times> 'g" where
  "read_file_online p polls path g =
     (case exec_ok p polls ''cat'' [path] g of
        (Inl e, g1) \<Rightarrow> (Inl e, g1)
      | (Inr out, g1) \<Rightarrow> (ok_or (MutIo (NoOutput path)) out, g1))"

section \<open>Through the appliance\<close>

definition NL :: char where "NL = CHR 0x0A"

definition quote :: "string \<Rightarrow> string" where
  "quote s = [CHR 0x27] @ concat (map (\<lambda>c. if c = CHR 0x27 then [CHR 0x27, CHR 0x5C, CHR 0x27, CHR 0x27] else [c]) s)
     @ [CHR 0x27]"

definition staged_path :: "string \<Rightarrow> nat \<Rightarrow> string" where
  "staged_path dir k = path_join dir (''upload-'' @ show_nat k)"

fun script_line :: "string \<Rightarrow> nat \<Rightarrow> mutator_op \<Rightarrow> string" where
  "script_line dir k (WriteFile p _) = ''upload '' @ quote (staged_path dir k) @ '' '' @ quote p"
| "script_line dir k (UploadFile p h) = ''upload '' @ quote h @ '' '' @ quote p"
| "script_line dir k (MkdirP p) = ''mkdir-p '' @ quote p"
| "script_line dir k (CpA s d) = ''cp-a '' @ quote s @ '' '' @ quote d"
| "script_line dir k (Mv s d) = ''mv '' @ quote s @ '' '' @ quote d"
| "script_line dir k (RmRf p) = ''rm-rf '' @ quote p"
| "script_line dir k (Chmod p m) = ''chmod 0'' @ show_octal (unat m) @ '' '' @ quote p"
| "script_line dir k (Symlink t l) = ''ln-s '' @ quote t @ '' '' @ quote l"
| "script_line dir k (RunShell c) = ''sh '' @ quote c"

fun script_lines :: "string \<Rightarrow> nat \<Rightarrow> mutator_op list \<Rightarrow> string list" where
  "script_lines dir k [] = []"
| "script_lines dir k (op # ops) = script_line dir k op # script_lines dir (Suc k) ops"

definition build_script :: "mutator_op list \<Rightarrow> string \<Rightarrow> string" where
  "build_script ops dir = join [NL] (script_lines dir 0 ops)"

text \<open>The contents of \<open>WriteFile\<close> operations land in files numbered by position.\<close>

fun stage_contents :: "string \<Rightarrow> nat \<Rightarrow> mutator_op list \<Rightarrow> (string \<rightharpoonup> string) \<Rightarrow> (string \<rightharpoonup> string)" where
  "stage_contents dir k [] host = host"
| "stage_contents dir k (WriteFile p content # ops) host = stage_contents dir (Suc k) ops (host(staged_path dir k \<mapsto> content))"
| "stage_contents dir k (_ # ops) host = stage_contents dir (Suc k) ops host"

text \<open>The appliance runs one line at a time, given the host's files, and a script up to the first
  line that fails.\<close>

type_synonym 'g fish_line = "(string \<rightharpoonup> string) \<Rightarrow> string \<Rightarrow> 'g \<Rightarrow> (string + string) \<times> 'g"

fun run_lines :: "'g fish_line \<Rightarrow> (string \<rightharpoonup> string) \<Rightarrow> string list \<Rightarrow> 'g \<Rightarrow> (string + string) \<times> 'g" where
  "run_lines f host [] g = (Inr [], g)"
| "run_lines f host (l # ls) g =
     (case f host l g of
        (Inl e, g1) \<Rightarrow> (Inl e, g1)
      | (Inr out, g1) \<Rightarrow> (case run_lines f host ls g1 of (r, g2) \<Rightarrow> (rbind r (\<lambda>rest. Inr (out @ rest)), g2)))"

definition run_script :: "'g fish_line \<Rightarrow> (string \<rightharpoonup> string) \<Rightarrow> string \<Rightarrow> 'g \<Rightarrow> (string + string) \<times> 'g" where
  "run_script f host script g = run_lines f host (split_on NL script) g"

definition classify_failure :: "string \<Rightarrow> mutator_error" where
  "classify_failure msg =
     (if contains ''server is not running'' msg \<or> contains ''.guestfish-'' msg then MutIo (Plain msg)
      else if contains ''not found'' msg \<or> contains ''No such file'' msg then MutNotFound msg
      else MutIo (Plain msg))"

section \<open>What the two peers document\<close>

text \<open>One effect of an operation on the guest: whether it succeeds, and the guest afterwards.\<close>

type_synonym 'g guest_effect = "mutator_op \<Rightarrow> 'g \<Rightarrow> bool \<times> 'g"

definition plain_text :: "string \<Rightarrow> bool" where
  "plain_text s \<longleftrightarrow> NL \<notin> set s \<and> CHR 0x27 \<notin> set s"

definition plain_path :: "string \<Rightarrow> bool" where
  "plain_path s \<longleftrightarrow> plain_text s \<and> starts_with ''/'' s"

text \<open>The operations on files; what a shell command does depends on where it runs.\<close>

fun plain_op :: "mutator_op \<Rightarrow> bool" where
  "plain_op (WriteFile p _) = plain_path p"
| "plain_op (UploadFile p h) = (plain_path p \<and> plain_text h)"
| "plain_op (MkdirP p) = plain_path p"
| "plain_op (CpA s d) = (plain_path s \<and> plain_path d)"
| "plain_op (Mv s d) = (plain_path s \<and> plain_path d)"
| "plain_op (RmRf p) = plain_path p"
| "plain_op (Chmod p _) = plain_path p"
| "plain_op (Symlink t l) = (plain_text t \<and> \<not> starts_with ''-'' t \<and> plain_path l)"
| "plain_op (RunShell c) = False"

text \<open>The meaning of an argument vector, as the commands document it.\<close>

definition octal_mode :: "string \<Rightarrow> u32 option" where
  "octal_mode s = (if s \<noteq> [] \<and> list_all is_octal s then Some (of_nat (octal_value s)) else None)"

fun argv_op :: "string \<Rightarrow> string list \<Rightarrow> mutator_op option" where
  "argv_op cmd [a] = None"
| "argv_op cmd [a, b] =
     (if cmd = ''mkdir'' \<and> a = ''-p'' then Some (MkdirP b)
      else if cmd = ''mv'' then Some (Mv a b)
      else if cmd = ''rm'' \<and> a = ''-rf'' then Some (RmRf b)
      else if cmd = ''chmod'' then map_option (Chmod b) (octal_mode a)
      else if cmd = ''sh'' \<and> a = ''-c'' then Some (RunShell b)
      else None)"
| "argv_op cmd [a, b, c] =
     (if cmd = ''cp'' \<and> a = ''-a'' then Some (CpA b c)
      else if cmd = ''ln'' \<and> a = ''-s'' then Some (Symlink b c)
      else None)"
| "argv_op cmd _ = None"

text \<open>The agent reports a command as running for \<open>n\<close> polls and then as exited.\<close>

fun finishes :: "'g qga_peer \<Rightarrow> nat \<Rightarrow> nat \<Rightarrow> 'g \<Rightarrow> exec_status \<Rightarrow> 'g \<Rightarrow> bool" where
  "finishes p pid 0 g st g' \<longleftrightarrow> qa_status p pid g = (Inr st, g') \<and> es_exited st"
| "finishes p pid (Suc n) g st g' \<longleftrightarrow>
     (\<exists>s1 g1. qa_status p pid g = (Inr s1, g1) \<and> \<not> es_exited s1 \<and> finishes p pid n (qa_sleep p g1) st g')"

definition runs_command :: "'g qga_peer \<Rightarrow> nat \<Rightarrow> string \<Rightarrow> string list \<Rightarrow> 'g \<Rightarrow> bool \<Rightarrow> string option \<Rightarrow> 'g \<Rightarrow> bool" where
  "runs_command p n path args g ok out g' \<longleftrightarrow>
     (\<exists>pid g1 st. qa_exec p path args g = (Inr pid, g1) \<and> finishes p pid n g1 st g'
        \<and> (es_exitcode st = Some 0 \<longleftrightarrow> ok) \<and> es_out st = out)"

definition writes_file :: "'g qga_peer \<Rightarrow> string \<Rightarrow> string \<Rightarrow> 'g \<Rightarrow> bool \<Rightarrow> 'g \<Rightarrow> bool" where
  "writes_file p path content g ok g' \<longleftrightarrow>
     (if ok then (\<exists>h g1 g2. qa_open p path g = (Inr h, g1) \<and> qa_close p h g2 = (Inr (), g')
        \<and> qa_write p h (qa_encode p content) g1 = (Inr (Some (length content)), g2))
      else (\<exists>e. qa_open p path g = (Inl e, g')))"

text \<open>\<open>view\<close> is the guest's files in the agent's world. The agent answers; how long a command takes is open.\<close>

definition qga_laws :: "'g qga_peer \<Rightarrow> ('g \<Rightarrow> 'v) \<Rightarrow> 'v guest_effect \<Rightarrow> bool" where
  "qga_laws p view eff \<longleftrightarrow>
     (\<forall>cmd args op g. argv_op cmd args = Some op \<longrightarrow> plain_op op \<longrightarrow>
        (\<exists>n out g'. runs_command p n cmd args g (fst (eff op (view g))) out g' \<and> view g' = snd (eff op (view g)))) \<and>
     (\<forall>path content g. plain_path path \<longrightarrow>
        (\<exists>g'. writes_file p path content g (fst (eff (WriteFile path content) (view g))) g'
           \<and> view g' = snd (eff (WriteFile path content) (view g))))"

text \<open>A line of a guestfish script: words between blanks, a word in single quotes taken literally.\<close>

function fish_words :: "string \<Rightarrow> string list option" where
  "fish_words s =
     (case dropWhile (\<lambda>c. c = CHR '' '') s of
        [] \<Rightarrow> Some []
      | c # r \<Rightarrow>
          if c = CHR 0x27 then
            (case split_once (CHR 0x27) r of
               None \<Rightarrow> None
             | Some (w, rest) \<Rightarrow> if rest = [] \<or> hd rest = CHR '' '' then map_option ((#) w) (fish_words rest) else None)
          else map_option ((#) (c # takeWhile (\<lambda>c. c \<noteq> CHR '' '') r)) (fish_words (dropWhile (\<lambda>c. c \<noteq> CHR '' '') r)))"
  by pat_completeness auto

lemma dropWhile_length: "dropWhile P s = c # r \<Longrightarrow> length r < length s"
  using length_dropWhile_le[of P s] by simp

lemma split_once_length: "split_once d s = Some (a, b) \<Longrightarrow> length b < length s"
  by (drule split_once_Some) simp

termination fish_words
proof (relation "measure length", goal_cases)
  case (2 s c r x w rest)
  then have "length rest < length r" "length r < length s"
    using dropWhile_length[of _ s c r] split_once_length[of _ r w rest] by auto
  then show ?case by simp
next
  case (3 s c r)
  then show ?case using dropWhile_length[of _ s c r] length_dropWhile_le[of "\<lambda>c. c \<noteq> CHR '' ''" r]
    by (simp add: le_less_trans)
qed simp

declare fish_words.simps [simp del]

fun fish_op :: "(string \<rightharpoonup> string) \<Rightarrow> string list \<Rightarrow> mutator_op option" where
  "fish_op host [cmd, a] =
     (if cmd = ''mkdir-p'' then Some (MkdirP a)
      else if cmd = ''rm-rf'' then Some (RmRf a)
      else if cmd = ''sh'' then Some (RunShell a)
      else None)"
| "fish_op host [cmd, a, b] =
     (if cmd = ''upload'' then map_option (WriteFile b) (host a)
      else if cmd = ''cp-a'' then Some (CpA a b)
      else if cmd = ''mv'' then Some (Mv a b)
      else if cmd = ''chmod'' then map_option (Chmod b) (octal_mode a)
      else if cmd = ''ln-s'' then Some (Symlink a b)
      else None)"
| "fish_op host _ = None"

definition fish_laws :: "'g fish_line \<Rightarrow> 'g guest_effect \<Rightarrow> bool" where
  "fish_laws f eff \<longleftrightarrow>
     (\<forall>host line ws op g. fish_words line = Some ws \<longrightarrow> fish_op host ws = Some op \<longrightarrow> plain_op op \<longrightarrow>
        is_ok (fst (f host line g)) = fst (eff op g) \<and> snd (f host line g) = snd (eff op g)) \<and>
     (\<forall>host line a b g. fish_words line = Some [''upload'', a, b] \<longrightarrow> host a = None \<longrightarrow>
        \<not> is_ok (fst (f host line g)) \<and> snd (f host line g) = g) \<and>
     (\<forall>host g. is_ok (fst (f host ''sync'' g)) \<and> snd (f host ''sync'' g) = g)"

section \<open>Words of a script line\<close>

lemma quote_plain: "plain_text s \<Longrightarrow> quote s = CHR 0x27 # s @ [CHR 0x27]"
proof -
  have "CHR 0x27 \<notin> set s \<Longrightarrow> concat (map (\<lambda>c. if c = CHR 0x27 then [CHR 0x27, CHR 0x5C, CHR 0x27, CHR 0x27] else [c]) s) = s"
    by (induction s) auto
  then show "plain_text s \<Longrightarrow> quote s = CHR 0x27 # s @ [CHR 0x27]" by (simp add: quote_def plain_text_def)
qed

lemma fish_words_Nil [simp]: "fish_words [] = Some []"
  by (simp add: fish_words.simps)

lemma fish_words_blank [simp]: "fish_words (CHR '' '' # s) = fish_words s"
  by (subst (1 2) fish_words.simps) simp

lemma fish_words_quote:
  assumes "plain_text s" and "rest = [] \<or> hd rest = CHR '' ''"
  shows "fish_words (quote s @ rest) = map_option ((#) s) (fish_words rest)"
proof -
  have "split_once (CHR 0x27) (s @ CHR 0x27 # rest) = Some (s, rest)"
    using assms(1) by (intro split_once_append) (simp add: plain_text_def)
  then show ?thesis using assms by (subst fish_words.simps) (simp add: quote_plain)
qed

lemma fish_words_word:
  assumes "w \<noteq> []" "CHR '' '' \<notin> set w" "hd w \<noteq> CHR 0x27"
  shows "fish_words (w @ CHR '' '' # rest) = map_option ((#) w) (fish_words rest)"
proof -
  obtain c cs where w: "w = c # cs" "c \<noteq> CHR '' ''" "CHR '' '' \<notin> set cs" using assms by (cases w) auto
  then have "takeWhile (\<lambda>c. c \<noteq> CHR '' '') (cs @ CHR '' '' # rest) = cs"
    "dropWhile (\<lambda>c. c \<noteq> CHR '' '') (cs @ CHR '' '' # rest) = CHR '' '' # rest"
    by (auto simp: takeWhile_append dropWhile_append)
  then show ?thesis using w assms(3) by (subst fish_words.simps) simp
qed

lemma fish_words_one: "w \<noteq> [] \<Longrightarrow> CHR '' '' \<notin> set w \<Longrightarrow> hd w \<noteq> CHR 0x27 \<Longrightarrow> plain_text a \<Longrightarrow>
    fish_words (w @ CHR '' '' # quote a) = Some [w, a]"
  using fish_words_quote[of a "[]"] by (simp add: fish_words_word)

lemma fish_words_two: "w \<noteq> [] \<Longrightarrow> CHR '' '' \<notin> set w \<Longrightarrow> hd w \<noteq> CHR 0x27 \<Longrightarrow> plain_text a \<Longrightarrow> plain_text b \<Longrightarrow>
    fish_words (w @ CHR '' '' # quote a @ CHR '' '' # quote b) = Some [w, a, b]"
  using fish_words_quote[of b "[]"] fish_words_quote[of a "CHR '' '' # quote b"] by (simp add: fish_words_word)

lemma octal_digit: "d < 8 \<Longrightarrow> is_octal (digit_char d)" "d < 8 \<Longrightarrow> byte (digit_char d) = 48 + d"
  by (simp_all add: is_octal_def)

lemma octal_digits: "list_all is_octal (show_octal n)"
proof (induction n rule: show_octal.induct)
  case (1 n)
  then show ?case by (cases "n < 8") (subst show_octal.simps, simp add: octal_digit)+
qed

lemma octal_value_snoc: "octal_value (s @ [c]) = 8 * octal_value s + (byte c - 48)"
  by (simp add: octal_value_def)

lemma octal_value_show: "octal_value (show_octal n) = n"
proof (induction n rule: show_octal.induct)
  case (1 n)
  show ?case
  proof (cases "n < 8")
    case True
    then show ?thesis by (subst show_octal.simps) (simp add: octal_value_def octal_digit)
  next
    case False
    then have "octal_value (show_octal (n div 8)) = n div 8" using 1 by simp
    then show ?thesis using False by (subst show_octal.simps) (simp add: octal_value_snoc octal_digit)
  qed
qed


section \<open>The two ways agree\<close>

definition timed_out :: "(mutator_error + 'a) \<Rightarrow> bool" where
  "timed_out r \<longleftrightarrow> (\<exists>path args. r = Inl (MutIo (CommandTimedOut path args)))"

lemma await_finishes:
  "finishes p pid n g st g' \<Longrightarrow> n \<le> polls \<Longrightarrow>
     snd (await_exit p path args pid polls g) = g' \<and> is_ok (fst (await_exit p path args pid polls g)) = (es_exitcode st = Some 0)
     \<and> (es_exitcode st = Some 0 \<longrightarrow> fst (await_exit p path args pid polls g) = Inr (decode_guest_exec_data p (es_out st)))"
proof (induction n arbitrary: g polls)
  case 0
  then show ?case by (subst (1 2 3) await_exit.simps) (auto simp: Let_def split: option.split)
next
  case (Suc n)
  then obtain s1 g1 where s: "qa_status p pid g = (Inr s1, g1)" "\<not> es_exited s1" "finishes p pid n (qa_sleep p g1) st g'"
    by auto
  obtain m where m: "polls = Suc m" "n \<le> m" using Suc.prems(2) by (cases polls) auto
  have "await_exit p path args pid polls g = await_exit p path args pid m (qa_sleep p g1)"
    by (subst await_exit.simps) (simp add: s m)
  then show ?case using Suc.IH[OF s(3) m(2)] by simp
qed

lemma await_late: "finishes p pid n g st g' \<Longrightarrow> polls < n \<Longrightarrow>
    fst (await_exit p path args pid polls g) = Inl (MutIo (CommandTimedOut path args))"
proof (induction n arbitrary: g polls)
  case (Suc n)
  then obtain s1 g1 where s: "qa_status p pid g = (Inr s1, g1)" "\<not> es_exited s1" "finishes p pid n (qa_sleep p g1) st g'"
    by auto
  show ?case
  proof (cases polls)
    case 0
    then show ?thesis by (subst await_exit.simps) (simp add: s)
  next
    case (Suc m)
    then have "fst (await_exit p path args pid m (qa_sleep p g1)) = Inl (MutIo (CommandTimedOut path args))"
      using Suc.IH[OF s(3)] Suc.prems(2) by simp
    then show ?thesis by (subst await_exit.simps) (simp add: s Suc)
  qed
qed simp

lemma exec_ok_runs:
  "runs_command p n path args g ok out g' \<Longrightarrow> n \<le> polls \<Longrightarrow>
     snd (exec_ok p polls path args g) = g' \<and> is_ok (fst (exec_ok p polls path args g)) = ok
     \<and> (ok \<longrightarrow> fst (exec_ok p polls path args g) = Inr (decode_guest_exec_data p out))"
  unfolding runs_command_def exec_ok_def
  by (elim exE conjE) (drule await_finishes, assumption, simp)

lemma exec_ok_late:
  "runs_command p n path args g ok out g' \<Longrightarrow> polls < n \<Longrightarrow> timed_out (fst (exec_ok p polls path args g))"
  unfolding runs_command_def exec_ok_def timed_out_def
  by (elim exE conjE) (drule await_late[where path = path and args = args], assumption, simp)

lemma write_outcome:
  assumes "writes_file p path content g ok g'"
  shows "snd (guest_file_write_bytes p path content g) = g' \<and> is_ok (fst (guest_file_write_bytes p path content g)) = ok"
  using assms by (auto simp: writes_file_def guest_file_write_bytes_def split: if_splits)

text \<open>What an operation amounts to on the host's side: an upload writes what the host file holds.\<close>

fun resolved :: "(string \<rightharpoonup> string) \<Rightarrow> mutator_op \<Rightarrow> mutator_op option" where
  "resolved host (UploadFile p h) = map_option (WriteFile p) (host h)"
| "resolved host op = Some op"

definition host_reader :: "(string \<rightharpoonup> string) \<Rightarrow> string \<Rightarrow> string + string" where
  "host_reader host h = ok_or ''No such file or directory'' (host h)"

definition op_effect :: "'g guest_effect \<Rightarrow> (string \<rightharpoonup> string) \<Rightarrow> mutator_op \<Rightarrow> 'g \<Rightarrow> bool \<times> 'g" where
  "op_effect eff host op g = (case resolved host op of None \<Rightarrow> (False, g) | Some op' \<Rightarrow> eff op' g)"

fun batch_effect :: "'g guest_effect \<Rightarrow> (string \<rightharpoonup> string) \<Rightarrow> mutator_op list \<Rightarrow> 'g \<Rightarrow> bool \<times> 'g" where
  "batch_effect eff host [] g = (True, g)"
| "batch_effect eff host (op # ops) g =
     (case op_effect eff host op g of (ok, g1) \<Rightarrow> if ok then batch_effect eff host ops g1 else (False, g1))"

definition same_outcome :: "('g \<Rightarrow> 'v) \<Rightarrow> ('e + 'a) \<times> 'g \<Rightarrow> bool \<times> 'v \<Rightarrow> bool" where
  "same_outcome view r x \<longleftrightarrow> is_ok (fst r) = fst x \<and> view (snd r) = snd x"

lemma octal_mode_show: "octal_mode (show_octal (unat m)) = Some m" "octal_mode (CHR ''0'' # show_octal (unat m)) = Some m"
proof -
  have "foldl (\<lambda>acc c. 8 * acc + (byte c - 48)) 0 (CHR ''0'' # s) = octal_value s" for s
    by (simp add: octal_value_def byte_def)
  then have "octal_value (CHR ''0'' # show_octal (unat m)) = unat m" by (simp add: octal_value_def octal_value_show[unfolded octal_value_def])
  moreover have "show_octal (unat m) \<noteq> []" by (subst show_octal.simps) simp
  ultimately show "octal_mode (show_octal (unat m)) = Some m" "octal_mode (CHR ''0'' # show_octal (unat m)) = Some m"
    by (simp_all add: octal_mode_def octal_digits octal_value_show is_octal_def byte_def)
qed

lemma argv_of_op: "argv_of op = Some (cmd, args) \<Longrightarrow> argv_op cmd args = Some op"
  by (cases op) (auto simp: octal_mode_show)

lemma apply_one_effect:
  assumes laws: "qga_laws p view eff" and plain: "plain_op op"
  shows "timed_out (fst (apply_one p polls (host_reader host) op g))
    \<or> same_outcome view (apply_one p polls (host_reader host) op g) (op_effect eff host op (view g))"
proof (cases "argv_of op")
  case (Some ca)
  then obtain cmd args where ca: "argv_of op = Some (cmd, args)" by (cases ca) auto
  then have e: "op_effect eff host op (view g) = eff op (view g)"
    "apply_one p polls (host_reader host) op g = unit_result (exec_ok p polls cmd args g)"
    by (cases op; simp add: op_effect_def)+
  obtain n out g' where r: "runs_command p n cmd args g (fst (eff op (view g))) out g'" "view g' = snd (eff op (view g))"
    using laws argv_of_op[OF ca] plain unfolding qga_laws_def by blast
  show ?thesis
  proof (cases "n \<le> polls")
    case True
    then show ?thesis using exec_ok_runs[OF r(1) True] r(2)
      by (simp add: e same_outcome_def unit_result_def is_ok_rbind_const)
  next
    case False
    then show ?thesis using exec_ok_late[OF r(1), of polls] by (auto simp: e timed_out_def unit_result_def)
  qed
next
  case None
  have ok: "is_ok (map_err k r) = is_ok r" for k and r :: "'q + 'r" by (cases r) simp_all
  have w: "is_ok (fst (guest_file_write_bytes p path c g)) = fst (eff (WriteFile path c) (view g))
      \<and> view (snd (guest_file_write_bytes p path c g)) = snd (eff (WriteFile path c) (view g))" if path: "plain_path path" for path c
  proof -
    obtain g' where "writes_file p path c g (fst (eff (WriteFile path c) (view g))) g'" "view g' = snd (eff (WriteFile path c) (view g))"
      using laws path unfolding qga_laws_def by blast
    then show ?thesis using write_outcome[of p path c g] by simp
  qed
  show ?thesis
  proof (cases op)
    case (WriteFile path c)
    then show ?thesis using plain w[of path c] by (simp add: same_outcome_def op_effect_def split_beta ok)
  next
    case (UploadFile path h)
    then show ?thesis using plain w[of path]
      by (cases "host h") (simp_all add: same_outcome_def op_effect_def host_reader_def split_beta ok)
  qed (use None in simp_all)
qed

lemma online_effect:
  assumes laws: "qga_laws p view eff" and plain: "list_all plain_op ops"
  shows "timed_out (fst (apply_online p polls (host_reader host) ops g))
    \<or> same_outcome view (apply_online p polls (host_reader host) ops g) (batch_effect eff host ops (view g))"
  using plain
proof (induction ops arbitrary: g)
  case (Cons op ops)
  obtain r g1 where r: "apply_one p polls (host_reader host) op g = (r, g1)" by fastforce
  have one: "timed_out r \<or> same_outcome view (r, g1) (op_effect eff host op (view g))"
    using apply_one_effect[OF laws, of op polls host g] Cons.prems r by simp
  show ?case
  proof (cases r)
    case (Inr u)
    have "apply_online p polls (host_reader host) (op # ops) g = apply_online p polls (host_reader host) ops g1"
      by (simp only: apply_online.simps r Inr prod.case sum.case)
    moreover have "op_effect eff host op (view g) = (True, view g1)"
      using one Inr by (auto simp: timed_out_def same_outcome_def prod_eq_iff)
    ultimately show ?thesis using Cons by simp
  next
    case (Inl e)
    then have "apply_online p polls (host_reader host) (op # ops) g = (Inl e, g1)"
      by (simp only: apply_online.simps r prod.case sum.case)
    then show ?thesis using one Inl by (auto simp: timed_out_def same_outcome_def split: prod.split)
  qed
qed (simp add: same_outcome_def)


lemma NL_neq [simp]: "NL \<noteq> CHR '' ''" "NL \<noteq> CHR 0x27" "NL \<noteq> CHR ''/''" "NL \<noteq> CHR ''-''"
  by (simp_all add: NL_def)

lemma octal_plain: "c \<in> set (show_octal n) \<Longrightarrow> c \<noteq> CHR '' '' \<and> c \<noteq> CHR 0x27 \<and> c \<noteq> NL"
  using octal_digits[of n] by (auto simp: list_all_iff is_octal_def byte_def NL_def)

lemma staged_path_eq: "staged_path dir k =
    (if dir = [] \<or> ends_with ''/'' dir then dir else dir @ ''/'') @ ''upload-'' @ show_nat k"
  by (simp add: staged_path_def path_join_def is_absolute_def starts_with_def)

lemma staged_path_inject: "staged_path dir j = staged_path dir k \<longleftrightarrow> j = k"
  by (simp add: staged_path_eq)

lemma staged_path_plain: "plain_text dir \<Longrightarrow> plain_text (staged_path dir k)"
proof -
  have "c \<noteq> NL \<and> c \<noteq> CHR 0x27" if "c \<in> set (show_nat k)" for c
    using show_nat_all_digit[OF that] by (auto simp: is_digit_def byte_def NL_def)
  then show "plain_text dir \<Longrightarrow> plain_text (staged_path dir k)"
    by (auto simp: staged_path_eq plain_text_def NL_def)
qed

text \<open>The staged files a batch from position \<open>k\<close> on relies on.\<close>

definition staged :: "string \<Rightarrow> (string \<rightharpoonup> string) \<Rightarrow> (string \<rightharpoonup> string) \<Rightarrow> nat \<Rightarrow> mutator_op list \<Rightarrow> bool" where
  "staged dir host H k ops \<longleftrightarrow>
     (\<forall>i < length ops. \<forall>p c. ops ! i = WriteFile p c \<longrightarrow> H (staged_path dir (k + i)) = Some c) \<and>
     (\<forall>p h. UploadFile p h \<in> set ops \<longrightarrow> H h = host h)"

lemma staged_Cons: "staged dir host H k (op # ops) \<longleftrightarrow>
    (\<forall>p c. op = WriteFile p c \<longrightarrow> H (staged_path dir k) = Some c) \<and> (\<forall>p h. op = UploadFile p h \<longrightarrow> H h = host h)
    \<and> staged dir host H (Suc k) ops"
  by (auto simp: staged_def nth_Cons split: nat.splits)

lemma stage_other: "\<forall>i. h \<noteq> staged_path dir (k + i) \<Longrightarrow> stage_contents dir k ops host h = host h"
proof (induction ops arbitrary: k host)
  case (Cons op ops)
  have "\<forall>i. h \<noteq> staged_path dir (Suc k + i)" using Cons.prems by (metis add_Suc_shift)
  then show ?case using Cons.IH[of "Suc k"] Cons.prems[rule_format, of 0] by (cases op) simp_all
qed simp

lemma stage_first: "stage_contents dir (Suc k) ops host (staged_path dir k) = host (staged_path dir k)"
  by (rule stage_other) (simp add: staged_path_inject)

lemma stage_staged:
  assumes "\<forall>p h. UploadFile p h \<in> set ops \<longrightarrow> (\<forall>j. h \<noteq> staged_path dir j)"
  shows "staged dir host (stage_contents dir k ops host) k ops"
proof -
  have "\<forall>i < length ops. \<forall>p c. ops ! i = WriteFile p c \<longrightarrow> stage_contents dir k ops h (staged_path dir (k + i)) = Some c" for h
  proof (induction ops arbitrary: k h)
    case (Cons op ops)
    show ?case
    proof (intro allI impI)
      fix i p c assume i: "i < length (op # ops)" "(op # ops) ! i = WriteFile p c"
      show "stage_contents dir k (op # ops) h (staged_path dir (k + i)) = Some c"
      proof (cases i)
        case 0
        then show ?thesis using i by (simp add: stage_first)
      next
        case (Suc j)
        then show ?thesis using i Cons.IH[of "Suc k"] by (cases op) auto
      qed
    qed
  qed simp
  then show ?thesis using assms stage_other by (auto simp: staged_def)
qed

lemma plain_pathD: "plain_path s \<Longrightarrow> plain_text s"
  by (simp add: plain_path_def)

lemma fish_words_mode:
  assumes "plain_text p"
  shows "fish_words (''chmod 0'' @ show_octal n @ '' '' @ quote p) = Some [''chmod'', CHR ''0'' # show_octal n, p]"
proof -
  have "fish_words ((CHR ''0'' # show_octal n) @ CHR '' '' # quote p) = Some [CHR ''0'' # show_octal n, p]"
    using octal_plain[of _ n] by (intro fish_words_one[OF _ _ _ assms]) auto
  then have "fish_words (''chmod'' @ CHR '' '' # (CHR ''0'' # show_octal n) @ CHR '' '' # quote p)
      = Some [''chmod'', CHR ''0'' # show_octal n, p]"
    by (subst fish_words_word) simp_all
  then show ?thesis by simp
qed

lemma line_effect:
  assumes laws: "fish_laws f eff" and plain: "plain_op op" "plain_text dir"
    and w: "\<forall>p c. op = WriteFile p c \<longrightarrow> H (staged_path dir k) = Some c"
    and u: "\<forall>p h. op = UploadFile p h \<longrightarrow> H h = host h"
  shows "same_outcome id (f H (script_line dir k op) g) (op_effect eff host op g)"
proof -
  have law: "same_outcome id (f H line g) (eff op' g)"
    if "fish_words line = Some ws" "fish_op H ws = Some op'" "plain_op op'" for line ws op'
    using laws[unfolded fish_laws_def, THEN conjunct1, rule_format, OF that] by (simp add: same_outcome_def)
  have miss: "same_outcome id (f H line g) (False, g)" if "fish_words line = Some [''upload'', a, b]" "H a = None" for line a b
    using laws[unfolded fish_laws_def, THEN conjunct2, THEN conjunct1, rule_format, of line a b H g] that by (simp add: same_outcome_def)
  show ?thesis
  proof (cases op)
    case (WriteFile p c)
    have ws: "fish_words (script_line dir k op) = Some [''upload'', staged_path dir k, p]"
      using plain staged_path_plain[OF plain(2), of k] fish_words_two[of "''upload''" "staged_path dir k" p]
      by (simp add: WriteFile plain_path_def)
    from law[OF ws, of op] show ?thesis using plain w by (simp add: WriteFile op_effect_def)
  next
    case (UploadFile p h)
    have ws: "fish_words (script_line dir k op) = Some [''upload'', h, p]"
      using plain fish_words_two[of "''upload''" h p] by (simp add: UploadFile plain_path_def)
    show ?thesis using UploadFile plain u law[OF ws] miss[OF ws]
      by (cases "host h") (simp_all add: op_effect_def)
  next
    case (MkdirP p)
    have ws: "fish_words (script_line dir k op) = Some [''mkdir-p'', p]"
      using plain fish_words_one[of "''mkdir-p''" p] by (simp add: MkdirP plain_path_def)
    from law[OF ws, of op] show ?thesis using plain by (simp add: MkdirP op_effect_def)
  next
    case (CpA s d)
    have ws: "fish_words (script_line dir k op) = Some [''cp-a'', s, d]"
      using plain fish_words_two[of "''cp-a''" s d] by (simp add: CpA plain_path_def)
    from law[OF ws, of op] show ?thesis using plain by (simp add: CpA op_effect_def)
  next
    case (Mv s d)
    have ws: "fish_words (script_line dir k op) = Some [''mv'', s, d]"
      using plain fish_words_two[of "''mv''" s d] by (simp add: Mv plain_path_def)
    from law[OF ws, of op] show ?thesis using plain by (simp add: Mv op_effect_def)
  next
    case (RmRf p)
    have ws: "fish_words (script_line dir k op) = Some [''rm-rf'', p]"
      using plain fish_words_one[of "''rm-rf''" p] by (simp add: RmRf plain_path_def)
    from law[OF ws, of op] show ?thesis using plain by (simp add: RmRf op_effect_def)
  next
    case (Chmod p m)
    have ws: "fish_words (script_line dir k op) = Some [''chmod'', CHR ''0'' # show_octal (unat m), p]"
      using plain fish_words_mode[of p "unat m"] by (simp add: Chmod plain_path_def)
    from law[OF ws, of op] show ?thesis using plain by (simp add: Chmod op_effect_def octal_mode_show)
  next
    case (Symlink t l)
    have ws: "fish_words (script_line dir k op) = Some [''ln-s'', t, l]"
      using plain fish_words_two[of "''ln-s''" t l] by (simp add: Symlink plain_path_def)
    from law[OF ws, of op] show ?thesis using plain by (simp add: Symlink op_effect_def)
  qed (use plain in simp)
qed

lemma lines_effect:
  assumes laws: "fish_laws f eff" and "list_all plain_op ops" "plain_text dir" "staged dir host H k ops"
  shows "same_outcome id (run_lines f H (script_lines dir k ops @ [''sync'']) g) (batch_effect eff host ops g)"
  using assms(2-)
proof (induction ops arbitrary: k g)
  case Nil
  have "is_ok (fst (f H ''sync'' g)) \<and> snd (f H ''sync'' g) = g" using laws unfolding fish_laws_def by blast
  then show ?case by (cases "f H ''sync'' g"; cases "fst (f H ''sync'' g)") (auto simp: same_outcome_def)
next
  case (Cons op ops)
  have one: "same_outcome id (f H (script_line dir k op) g) (op_effect eff host op g)"
    using Cons.prems by (intro line_effect[OF laws]) (simp_all add: staged_Cons)
  obtain r g1 where r: "f H (script_line dir k op) g = (r, g1)" by fastforce
  then have e: "op_effect eff host op g = (is_ok r, g1)" using one by (simp add: same_outcome_def prod_eq_iff)
  show ?case
  proof (cases r)
    case (Inr out)
    have "same_outcome id (run_lines f H (script_lines dir (Suc k) ops @ [''sync'']) g1) (batch_effect eff host ops g1)"
      using Cons.prems by (intro Cons.IH) (simp_all add: staged_Cons)
    then show ?thesis using r e Inr by (simp add: same_outcome_def split_beta is_ok_rbind_const)
  qed (use e r in \<open>simp add: same_outcome_def\<close>)
qed


lemma split_build_script:
  assumes "ops \<noteq> []" and "\<forall>l \<in> set (script_lines dir 0 ops). NL \<notin> set l"
  shows "split_on NL (build_script ops dir @ NL # ''sync'') = script_lines dir 0 ops @ [''sync'']"
proof -
  have "build_script ops dir @ NL # ''sync'' = join [NL] (script_lines dir 0 ops @ [''sync''])"
  proof -
    have "ls \<noteq> [] \<Longrightarrow> join [NL] ls @ NL # s = join [NL] (ls @ [s])" for ls s
      by (induction ls rule: induct_list012) simp_all
    then show ?thesis using assms(1) by (cases ops) (simp_all add: build_script_def)
  qed
  then show ?thesis using assms(2) by (simp add: split_on_join NL_def)
qed

lemma NL_quote: "plain_text s \<Longrightarrow> NL \<notin> set (quote s)"
  by (simp add: quote_plain) (simp add: plain_text_def)

lemma NL_octal: "NL \<notin> set (show_octal n)"
  using octal_plain[of NL n] by blast

lemma NL_line: "plain_op op \<Longrightarrow> plain_text dir \<Longrightarrow> NL \<notin> set (script_line dir k op)"
  by (cases op) (simp_all add: plain_path_def NL_quote staged_path_plain NL_octal, simp_all add: NL_def)

lemma NL_lines: "list_all plain_op ops \<Longrightarrow> plain_text dir \<Longrightarrow> \<forall>l \<in> set (script_lines dir k ops). NL \<notin> set l"
  by (induction ops arbitrary: k) (simp_all add: NL_line)

text \<open>A whole script, as \<open>apply\<close> sends it.\<close>

lemma script_effect:
  assumes laws: "fish_laws f eff" and "ops \<noteq> []" and plain: "list_all plain_op ops" "plain_text dir"
    and host: "\<forall>p h. UploadFile p h \<in> set ops \<longrightarrow> (\<forall>j. h \<noteq> staged_path dir j)"
  shows "same_outcome id (run_script f (stage_contents dir 0 ops host) (build_script ops dir @ NL # ''sync'') g)
    (batch_effect eff host ops g)"
  using lines_effect[OF laws plain stage_staged[OF host], where g = g and k = 0] NL_lines[OF plain, of 0] assms(2)
  by (simp add: run_script_def split_build_script)

text \<open>Reading a file through the agent gives its content back only when that is a non-empty valid
  UTF-8 text: of any other content the caller gets the base64 text the agent sent, and for an
  empty file, of which the agent sends no data, an error.\<close>

theorem read_file_online_lossy:
  assumes "n \<le> polls" "runs_command p n ''cat'' [path] g True (if content = [] then None else Some (qa_encode p content)) g'"
    and "trim (qa_encode p content) = qa_encode p content" and "qa_decode p (qa_encode p content) = Some content"
  shows "read_file_online p polls path g =
    (if content = [] then Inl (MutIo (NoOutput path))
     else Inr (if utf8_valid content then content else qa_encode p content), g')"
  using exec_ok_runs[OF assms(2,1)] assms(3,4)
  by (cases "exec_ok p polls ''cat'' [path] g") (auto simp: read_file_online_def decode_guest_exec_data_def)


section \<open>Examples\<close>

text \<open>A guest with regular files only, in which every command runs at once. It remembers the last
  exit code and the last path written.\<close>

record ref_guest =
  rgf_files :: "string \<rightharpoonup> string"
  rgf_code :: int
  rgf_path :: string

fun ref_files :: "mutator_op \<Rightarrow> (string \<rightharpoonup> string) \<Rightarrow> (string \<rightharpoonup> string) option" where
  "ref_files (WriteFile p c) fs = Some (fs(p \<mapsto> c))"
| "ref_files (CpA s d) fs = map_option (\<lambda>c. fs(d \<mapsto> c)) (fs s)"
| "ref_files (Mv s d) fs = map_option (\<lambda>c. fs(s := None, d \<mapsto> c)) (fs s)"
| "ref_files (RmRf p) fs = Some (fs(p := None))"
| "ref_files _ fs = Some fs"

definition ref_effect :: "ref_guest guest_effect" where
  "ref_effect op g =
     (case ref_files op (rgf_files g) of
        Some fs \<Rightarrow> (True, g\<lparr>rgf_files := fs, rgf_code := 0, rgf_path := (case op of WriteFile p _ \<Rightarrow> p | _ \<Rightarrow> rgf_path g)\<rparr>)
      | None \<Rightarrow> (False, g\<lparr>rgf_code := 1\<rparr>))"

definition ref_qga :: "ref_guest qga_peer" where
  "ref_qga =
     \<lparr>qa_exec = \<lambda>cmd args g. (Inr 1, (case argv_op cmd args of Some op \<Rightarrow> snd (ref_effect op g) | None \<Rightarrow> g\<lparr>rgf_code := 127\<rparr>)),
      qa_status = \<lambda>_ g. (Inr \<lparr>es_exitcode = Some (rgf_code g), es_exited = True, es_out = None, es_err = None\<rparr>, g),
      qa_open = \<lambda>p g. (Inr 1, g\<lparr>rgf_path := p\<rparr>),
      qa_write = \<lambda>_ c g. (Inr (Some (length c)), g\<lparr>rgf_files := (rgf_files g)(rgf_path g \<mapsto> c), rgf_code := 0\<rparr>),
      qa_close = \<lambda>_ g. (Inr (), g), qa_sleep = \<lambda>g. g, qa_encode = \<lambda>s. s, qa_decode = Some\<rparr>"

definition ref_fish :: "ref_guest fish_line" where
  "ref_fish host line g =
     (case fish_words line of
        Some ws \<Rightarrow>
          (case fish_op host ws of
             Some op \<Rightarrow> (case ref_effect op g of (ok, g1) \<Rightarrow> (if ok then Inr [] else Inl ''command failed'', g1))
           | None \<Rightarrow> (if ws = [''sync''] then Inr [] else Inl ''unknown command'', g))
      | None \<Rightarrow> (Inl ''unterminated quote'', g))"

lemma ref_qga_laws: "qga_laws ref_qga id ref_effect"
proof -
  have c: "(rgf_code (snd (ref_effect op g)) = 0) = fst (ref_effect op g)" for op g
    by (simp add: ref_effect_def split: option.split)
  have r: "runs_command ref_qga 0 cmd args g (fst (ref_effect op g)) None (snd (ref_effect op g))"
    if "argv_op cmd args = Some op" for cmd args op g
    unfolding runs_command_def
    by (rule exI[of _ 1], rule exI[of _ "snd (ref_effect op g)"],
        rule exI[of _ "\<lparr>es_exitcode = Some (rgf_code (snd (ref_effect op g))), es_exited = True, es_out = None, es_err = None\<rparr>"])
      (simp add: ref_qga_def that c)
  have w: "writes_file ref_qga path c g (fst (ref_effect (WriteFile path c) g)) (snd (ref_effect (WriteFile path c) g))"
    for path c g
    by (simp add: writes_file_def ref_qga_def ref_effect_def)
  show ?thesis unfolding qga_laws_def using r w by (metis id_apply)
qed

lemma ref_sync: "fish_words ''sync'' = Some [''sync'']"
  by (subst fish_words.simps) simp

lemma ref_fish_laws: "fish_laws ref_fish ref_effect"
  by (auto simp: fish_laws_def ref_fish_def ref_sync split: prod.splits)

definition ref_start :: ref_guest where
  "ref_start = \<lparr>rgf_files = Map.empty, rgf_code = 0, rgf_path = []\<rparr>"

text \<open>An agent that sends the byte \<open>0xFF\<close> of a file as \<open>/w==\<close>.\<close>

definition binary_qga :: "unit qga_peer" where
  "binary_qga =
     \<lparr>qa_exec = \<lambda>_ _ g. (Inr 1, g),
      qa_status = \<lambda>_ g. (Inr \<lparr>es_exitcode = Some 0, es_exited = True, es_out = Some ''/w=='', es_err = None\<rparr>, g),
      qa_open = \<lambda>_ g. (Inr 1, g), qa_write = \<lambda>_ _ g. (Inr None, g), qa_close = \<lambda>_ g. (Inr (), g), qa_sleep = \<lambda>g. g,
      qa_encode = \<lambda>_. ''/w=='', qa_decode = \<lambda>_. Some [CHR 0xFF]\<rparr>"

theorem read_file_online_lossy_witness:
  "read_file_online binary_qga 0 ''/blob'' () = (Inr ''/w=='', ()) \<and> \<not> utf8_valid [CHR 0xFF]"
proof -
  have u: "\<not> utf8_valid [CHR 0xFF]" by (simp add: byte_def)
  have r: "runs_command binary_qga 0 ''cat'' [''/blob''] () True (if [CHR 0xFF] = [] then None else Some (qa_encode binary_qga [CHR 0xFF])) ()"
    unfolding runs_command_def
    by (rule exI[of _ 1], rule exI[of _ "()"],
        rule exI[of _ "\<lparr>es_exitcode = Some 0, es_exited = True, es_out = Some ''/w=='', es_err = None\<rparr>"]) (simp add: binary_qga_def)
  have "trim ''/w=='' = ''/w==''" by (simp add: trim_id is_space_def byte_def)
  then show ?thesis using read_file_online_lossy[OF _ r, of 0] u by (simp add: binary_qga_def)
qed

end
