(* ===== verification/BaseImages.thy ===== *)
theory BaseImages
  imports DiskChain "HOL-Library.List_Lexorder" "HOL-Library.Char_ord" "HOL-Library.Product_Lexorder"
begin

text \<open>
  The cache of base images (\<open>core/andler-core/src/base_image.rs\<close>), its clean-up
  (\<open>apps/cli/src/cache.rs\<close>), the memo of digests (\<open>apps/daemon/src/daemon/base_image_digest.rs\<close>) and
  the pin an instance keeps of its image (\<open>verify_or_derive_pin\<close> of \<open>instance_ops.rs\<close>).

  The cache is a directory with one level of subdirectories, its listing in the order the file
  system gives it; a path is its directory and its file name. The JSON reader and the hash function
  are parameters.

  The theorems: a clean-up keeps exactly one build of each kind, the freshest, which is the one
  new instances get; it takes no notice of the disks that stand on the others; the memo is
  transparent, and a pin accepts exactly the image it was taken from.
\<close>

section \<open>Manifests\<close>

record manifest_part =
  mp_name :: string
  mp_sha256 :: string
  mp_size :: u64

record image_manifest =
  im_major :: string
  im_variant :: string
  im_built_at :: string
  im_schema_version :: u32
  im_sha256 :: "string option"
  im_file_size :: "u64 option"
  im_compression :: "string option"
  im_parts :: "manifest_part list"

definition image_id :: "string \<Rightarrow> string \<Rightarrow> string \<Rightarrow> string" where
  "image_id major variant built = ''android'' @ major @ ''-'' @ to_lower variant @ ''-'' @ built"

definition parts_total_bytes :: "image_manifest \<Rightarrow> u64" where
  "parts_total_bytes m = sum_list (map mp_size (im_parts m))"

definition install_subdir :: "string \<Rightarrow> string \<Rightarrow> string" where
  "install_subdir major variant = ''android'' @ major @ ''-'' @ to_lower variant"

section \<open>The cache directory\<close>

type_synonym cache_path = "string \<times> string"

definition path_text :: "cache_path \<Rightarrow> string" where
  "path_text p = fst p @ ''/'' @ snd p"

definition with_file_name :: "cache_path \<Rightarrow> string \<Rightarrow> cache_path" where
  "with_file_name p n = (fst p, n)"

datatype cache_node = CacheFile string | CacheDir "(string \<times> cache_node) list" | UnreadableDir

datatype cache_root = NoRoot | RootError string | Root "(string \<times> cache_node) list"

datatype base_image_error =
    ImageNotFound string string string
  | ReadDirError string string
  | ReadFileError string string
  | ManifestParseError string string

record base_image_info =
  bi_qcow2 :: cache_path
  bi_manifest :: cache_path
  bi_major :: string
  bi_variant :: string
  bi_built_at :: string

definition info_id :: "base_image_info \<Rightarrow> string" where
  "info_id i = image_id (bi_major i) (bi_variant i) (bi_built_at i)"

text \<open>Everything in the directory and one level below, as paths with their nodes.\<close>

fun sub_entries :: "string \<Rightarrow> string \<times> cache_node \<Rightarrow> (cache_path \<times> cache_node) list" where
  "sub_entries dir (n, CacheDir es) = map (\<lambda>(m, x). ((dir @ ''/'' @ n, m), x)) es"
| "sub_entries dir (n, _) = []"

definition cache_entries :: "string \<Rightarrow> (string \<times> cache_node) list \<Rightarrow> (cache_path \<times> cache_node) list" where
  "cache_entries dir es = concat (map (\<lambda>(n, x). ((dir, n), x) # sub_entries dir (n, x)) es)"

definition root_entries :: "cache_root \<Rightarrow> (string \<times> cache_node) list" where
  "root_entries r = (case r of Root es \<Rightarrow> es | _ \<Rightarrow> [])"

definition path_exists :: "string \<Rightarrow> cache_root \<Rightarrow> cache_path \<Rightarrow> bool" where
  "path_exists dir r p = list_ex (\<lambda>(q, _). q = p) (cache_entries dir (root_entries r))"

definition file_at :: "string \<Rightarrow> cache_root \<Rightarrow> cache_path \<Rightarrow> string option" where
  "file_at dir r p = (case map_of (cache_entries dir (root_entries r)) p of Some (CacheFile c) \<Rightarrow> Some c | _ \<Rightarrow> None)"

definition MANIFEST_EXT :: string where "MANIFEST_EXT = ''.manifest.json''"
definition QCOW2_EXT :: string where "QCOW2_EXT = ''.qcow2''"

fun manifest_entry :: "string \<Rightarrow> string \<times> cache_node \<Rightarrow> cache_path list" where
  "manifest_entry dir (n, x) =
     (if ends_with MANIFEST_EXT n then [(dir, n)]
      else map fst (filter (\<lambda>((d, m), _). ends_with MANIFEST_EXT m) (sub_entries dir (n, x))))"

definition collect_manifest_paths_in :: "string \<Rightarrow> cache_root \<Rightarrow> base_image_error + cache_path list" where
  "collect_manifest_paths_in dir r =
     (case r of NoRoot \<Rightarrow> Inr [] | RootError e \<Rightarrow> Inl (ReadDirError dir e)
      | Root es \<Rightarrow> Inr (concat (map (manifest_entry dir) es)))"

text \<open>The manifests and the images; a name with either ending is not descended into.\<close>

fun cache_file_entry :: "string \<Rightarrow> string \<times> cache_node \<Rightarrow> cache_path list \<times> cache_path list" where
  "cache_file_entry dir (n, x) =
     (if ends_with MANIFEST_EXT n then ([(dir, n)], [])
      else if ends_with QCOW2_EXT n then ([], [(dir, n)])
      else (let sub = map fst (sub_entries dir (n, x)) in
            (filter (\<lambda>(d, m). ends_with MANIFEST_EXT m) sub,
             filter (\<lambda>(d, m). \<not> ends_with MANIFEST_EXT m \<and> ends_with QCOW2_EXT m) sub)))"

definition collect_cache_files :: "string \<Rightarrow> cache_root \<Rightarrow> base_image_error + cache_path list \<times> cache_path list" where
  "collect_cache_files dir r =
     (case r of NoRoot \<Rightarrow> Inr ([], []) | RootError e \<Rightarrow> Inl (ReadDirError dir e)
      | Root es \<Rightarrow> (let parts = map (cache_file_entry dir) es in
          Inr (concat (map fst parts), concat (map snd parts))))"

text \<open>\<open>parse\<close> is the JSON reader on a file's text.\<close>

definition image_of_manifest :: "(string \<Rightarrow> image_manifest option) \<Rightarrow> string \<Rightarrow> cache_root \<Rightarrow> cache_path \<Rightarrow> base_image_info option" where
  "image_of_manifest parse dir r p =
     (case strip_suffix MANIFEST_EXT (snd p) of
        None \<Rightarrow> None
      | Some stem \<Rightarrow>
          (case Option.bind (file_at dir r p) parse of
             None \<Rightarrow> None
           | Some m \<Rightarrow>
               (let q = with_file_name p (stem @ QCOW2_EXT) in
                if path_exists dir r q
                then Some \<lparr>bi_qcow2 = q, bi_manifest = p, bi_major = im_major m, bi_variant = im_variant m,
                           bi_built_at = im_built_at m\<rparr>
                else None)))"

definition collect_images_in :: "(string \<Rightarrow> image_manifest option) \<Rightarrow> string \<Rightarrow> cache_root \<Rightarrow> base_image_error + base_image_info list" where
  "collect_images_in parse dir r =
     rbind (collect_manifest_paths_in dir r) (\<lambda>ps. Inr (List.map_filter (image_of_manifest parse dir r) ps))"

section \<open>Choosing an image\<close>

text \<open>\<open>sort_by(|a, b| b.key.cmp(&a.key))\<close>: stable, the greatest first.\<close>

fun insert_desc :: "('a \<Rightarrow> 'k :: linorder) \<Rightarrow> 'a \<Rightarrow> 'a list \<Rightarrow> 'a list" where
  "insert_desc k x [] = [x]"
| "insert_desc k x (y # ys) = (if k y \<le> k x then x # y # ys else y # insert_desc k x ys)"

definition sort_desc :: "('a \<Rightarrow> 'k :: linorder) \<Rightarrow> 'a list \<Rightarrow> 'a list" where
  "sort_desc k xs = foldr (insert_desc k) xs []"

definition variant_label :: "android_profile \<Rightarrow> string" where
  "variant_label p = (if ap_gapps p then ''GAPPS'' else ''VANILLA'')"

definition matches_profile :: "android_profile \<Rightarrow> base_image_info \<Rightarrow> bool" where
  "matches_profile p i \<longleftrightarrow> bi_major i = show_android_version (ap_version p) \<and> bi_variant i = variant_label p"

definition list_matching ::
    "(string \<Rightarrow> image_manifest option) \<Rightarrow> string \<Rightarrow> cache_root \<Rightarrow> android_profile \<Rightarrow> base_image_error + base_image_info list" where
  "list_matching parse dir r p =
     rbind (collect_images_in parse dir r) (\<lambda>is. Inr (sort_desc bi_built_at (filter (matches_profile p) is)))"

definition resolve_image ::
    "(string \<Rightarrow> image_manifest option) \<Rightarrow> string \<Rightarrow> cache_root \<Rightarrow> android_profile \<Rightarrow> base_image_error + cache_path" where
  "resolve_image parse dir r p =
     rbind (list_matching parse dir r p) (\<lambda>is.
       case is of [] \<Rightarrow> Inl (ImageNotFound (show_android_version (ap_version p)) (variant_label p) dir)
       | i # _ \<Rightarrow> Inr (bi_qcow2 i))"

section \<open>Cleaning up\<close>

record gc_removal =
  gr_qcow2 :: "cache_path option"
  gr_manifest :: "cache_path option"
  gr_label :: string

definition image_group :: "base_image_info \<Rightarrow> string \<times> string" where
  "image_group i = (bi_major i, bi_variant i)"

text \<open>The groups in the order of the map's keys; each sorted with the freshest first.\<close>

definition stale_removals :: "base_image_info list \<Rightarrow> gc_removal list" where
  "stale_removals is =
     concat (map (\<lambda>g. map (\<lambda>i. \<lparr>gr_qcow2 = Some (bi_qcow2 i), gr_manifest = Some (bi_manifest i), gr_label = info_id i\<rparr>)
                (drop 1 (sort_desc bi_built_at (filter (\<lambda>i. image_group i = g) is))))
        (sort (remdups (map image_group is))))"

definition orphan_manifests :: "cache_path list \<Rightarrow> cache_path list \<Rightarrow> gc_removal list" where
  "orphan_manifests manifests qcow2s =
     List.map_filter (\<lambda>p. case strip_suffix MANIFEST_EXT (snd p) of
         Some stem \<Rightarrow> if stem @ QCOW2_EXT \<notin> snd ` set qcow2s
           then Some \<lparr>gr_qcow2 = None, gr_manifest = Some p, gr_label = ''orphan manifest (no matching qcow2)''\<rparr> else None
       | None \<Rightarrow> None) manifests"

definition orphan_qcow2s :: "cache_path list \<Rightarrow> cache_path list \<Rightarrow> gc_removal list" where
  "orphan_qcow2s manifests qcow2s =
     List.map_filter (\<lambda>p. case strip_suffix QCOW2_EXT (snd p) of
         Some stem \<Rightarrow> if stem @ MANIFEST_EXT \<notin> snd ` set manifests
           then Some \<lparr>gr_qcow2 = Some p, gr_manifest = None, gr_label = ''orphan qcow2 (no manifest)''\<rparr> else None
       | None \<Rightarrow> None) qcow2s"

definition gc_candidates :: "(string \<Rightarrow> image_manifest option) \<Rightarrow> string \<Rightarrow> cache_root \<Rightarrow> base_image_error + gc_removal list" where
  "gc_candidates parse dir r =
     rbind (collect_cache_files dir r) (\<lambda>(manifests, qcow2s).
     rbind (collect_images_in parse dir r) (\<lambda>is.
       Inr (sort_key gr_label (stale_removals is @ orphan_manifests manifests qcow2s @ orphan_qcow2s manifests qcow2s))))"

text \<open>Removing the files of an entry: a file that is gone is no error, any other failure stops.
  \<open>denied\<close> is the answer of the file system for files it does not remove.\<close>

fun remove_paths :: "(string \<Rightarrow> string option) \<Rightarrow> cache_path option list \<Rightarrow> (string \<rightharpoonup> 'f) \<Rightarrow> (string + nat) \<times> (string \<rightharpoonup> 'f)" where
  "remove_paths denied [] fs = (Inr 0, fs)"
| "remove_paths denied (None # ps) fs = remove_paths denied ps fs"
| "remove_paths denied (Some p # ps) fs =
     (if fs (path_text p) = None then remove_paths denied ps fs
      else (case denied (path_text p) of
          Some e \<Rightarrow> (Inl e, fs)
        | None \<Rightarrow> (case remove_paths denied ps (fs(path_text p := None)) of (r, fs') \<Rightarrow> (rbind r (\<lambda>n. Inr (Suc n)), fs'))))"

definition remove_entry :: "(string \<Rightarrow> string option) \<Rightarrow> gc_removal \<Rightarrow> (string \<rightharpoonup> 'f) \<Rightarrow> (string + nat) \<times> (string \<rightharpoonup> 'f)" where
  "remove_entry denied e fs = remove_paths denied [gr_qcow2 e, gr_manifest e] fs"

fun clean_cache :: "(string \<Rightarrow> string option) \<Rightarrow> gc_removal list \<Rightarrow> (string \<rightharpoonup> 'f) \<Rightarrow> (string + nat) \<times> (string \<rightharpoonup> 'f)" where
  "clean_cache denied [] fs = (Inr 0, fs)"
| "clean_cache denied (e # es) fs =
     (case remove_entry denied e fs of
        (Inl err, fs1) \<Rightarrow> (Inl err, fs1)
      | (Inr n, fs1) \<Rightarrow> (case clean_cache denied es fs1 of (r, fs2) \<Rightarrow> (rbind r (\<lambda>m. Inr (n + m)), fs2)))"


section \<open>Digests and the memo\<close>

text \<open>The file \<open><stem>.manifest.json\<close> beside an image; \<open>read\<close> gives a file's content.\<close>

definition manifest_path_for :: "cache_path \<Rightarrow> cache_path" where
  "manifest_path_for p = (case file_stem (snd p) of None \<Rightarrow> p | Some s \<Rightarrow> with_file_name p (s @ MANIFEST_EXT))"

definition info_for :: "(cache_path \<Rightarrow> string + string) \<Rightarrow> (string \<Rightarrow> image_manifest option) \<Rightarrow> cache_path \<Rightarrow> base_image_info option" where
  "info_for read parse p =
     (let mp = manifest_path_for p in
      case strip_suffix MANIFEST_EXT (snd mp) of
        None \<Rightarrow> None
      | Some stem \<Rightarrow>
          (case read mp of
             Inl _ \<Rightarrow> None
           | Inr raw \<Rightarrow>
               (case parse raw of
                  None \<Rightarrow> None
                | Some m \<Rightarrow>
                    (let q = with_file_name mp (stem @ QCOW2_EXT) in
                     if q \<noteq> p then None
                     else Some \<lparr>bi_qcow2 = q, bi_manifest = mp, bi_major = im_major m, bi_variant = im_variant m,
                                bi_built_at = im_built_at m\<rparr>))))"

fun hex_text :: "8 word list \<Rightarrow> string" where
  "hex_text [] = []"
| "hex_text (b # bs) = show_byte_hex b @ hex_text bs"

record digest_entry =
  de_size :: u64
  de_mtime_ns :: "128 word"
  de_sha256 :: string

type_synonym digest_memo = "cache_path \<Rightarrow> digest_entry option"

text \<open>What a call meets: the metadata (length, and modification time in nanoseconds since the epoch
  where the platform can say), the resolved path, the contents, the hash of a content, the texts of
  errors, and whether the memo's directory can be made and its file written; and the JSON reader
  and writer.\<close>

record digest_world =
  dw_metadata :: "cache_path \<Rightarrow> string + u64 \<times> int option"
  dw_canonicalize :: "cache_path \<Rightarrow> cache_path option"
  dw_read :: "cache_path \<Rightarrow> string + string"
  dw_hash :: "string \<Rightarrow> 8 word list"
  dw_error_text :: "base_image_error \<Rightarrow> string"
  dw_mkdir_ok :: bool
  dw_write_ok :: bool

record memo_json =
  mj_read :: "string \<Rightarrow> digest_memo option"
  mj_write :: "digest_memo \<Rightarrow> string option"

definition sha256_of :: "digest_world \<Rightarrow> cache_path \<Rightarrow> base_image_error + string" where
  "sha256_of w p = (case dw_read w p of Inl e \<Rightarrow> Inl (ReadFileError (path_text p) e) | Inr b \<Rightarrow> Inr (hex_text (dw_hash w b)))"

definition mtime_nanos :: "int option \<Rightarrow> 128 word" where
  "mtime_nanos t = (case t of Some n \<Rightarrow> if 0 \<le> n then of_int n else 0 | None \<Rightarrow> 0)"

definition image_identity :: "digest_world \<Rightarrow> cache_path \<Rightarrow> daemon_error + u64 \<times> 128 word" where
  "image_identity w p =
     (case dw_metadata w p of Inl e \<Rightarrow> Inl (IoErr (path_text p) e) | Inr (len, t) \<Rightarrow> Inr (len, mtime_nanos t))"

definition canonical :: "digest_world \<Rightarrow> cache_path \<Rightarrow> cache_path" where
  "canonical w p = (case dw_canonicalize w p of Some q \<Rightarrow> q | None \<Rightarrow> p)"

definition load_memo :: "memo_json \<Rightarrow> string option \<Rightarrow> digest_memo" where
  "load_memo j f = (case f of None \<Rightarrow> Map.empty | Some raw \<Rightarrow> (case mj_read j raw of Some m \<Rightarrow> m | None \<Rightarrow> Map.empty))"

definition store_memo :: "memo_json \<Rightarrow> digest_world \<Rightarrow> cache_path \<Rightarrow> digest_entry \<Rightarrow> string option \<Rightarrow> string option" where
  "store_memo j w k e f =
     (let memo = (load_memo j f)(k \<mapsto> e) in
      if \<not> dw_mkdir_ok w then f
      else (case mj_write j memo of None \<Rightarrow> f | Some raw \<Rightarrow> if dw_write_ok w then Some raw else f))"

definition sha256_with_memo ::
    "memo_json \<Rightarrow> digest_world \<Rightarrow> cache_path \<Rightarrow> string option \<Rightarrow> (daemon_error + string) \<times> string option" where
  "sha256_with_memo j w p f =
     (case image_identity w p of
        Inl e \<Rightarrow> (Inl e, f)
      | Inr (len, mtime) \<Rightarrow>
          (let fresh = (case sha256_of w p of
              Inl e \<Rightarrow> (Inl (BaseImageErr (dw_error_text w e)), f)
            | Inr d \<Rightarrow> (Inr d, store_memo j w (canonical w p) \<lparr>de_size = len, de_mtime_ns = mtime, de_sha256 = d\<rparr> f)) in
           case load_memo j f (canonical w p) of
             Some e \<Rightarrow> if de_size e = len \<and> de_mtime_ns e = mtime then (Inr (de_sha256 e), f) else fresh
           | None \<Rightarrow> fresh))"

section \<open>The pin of an instance\<close>

definition pin_unverifiable :: "cache_path \<Rightarrow> base_image_pin \<Rightarrow> daemon_error" where
  "pin_unverifiable p pin = BaseImagePinMismatch
     (''the instance file pins base image `'' @ pin_id pin @ ''`, but no manifest.json exists next to '' @ path_text p
      @ ''; the image's identity cannot be verified -- restore the original image or remove `base_image_pin` ''
      @ ''from the instance file to accept the current one'')"

definition pin_swapped :: "cache_path \<Rightarrow> base_image_pin \<Rightarrow> string \<Rightarrow> daemon_error" where
  "pin_swapped p pin i = BaseImagePinMismatch
     (''the instance file pins base image `'' @ pin_id pin @ ''`, but '' @ path_text p @ '' is `'' @ i
      @ ''`; the image was swapped since the instance was created -- restore the original image or remove ''
      @ ''`base_image_pin` from the instance file to accept the new one'')"

definition pin_changed :: "cache_path \<Rightarrow> base_image_pin \<Rightarrow> string \<Rightarrow> daemon_error" where
  "pin_changed p pin actual = BaseImagePinMismatch
     (''base image '' @ path_text p @ '' changed since it was pinned (expected sha256 '' @ pin_sha256 pin @ '', got ''
      @ actual @ ''); the instance's linked clones may read different content than at creation -- restore the ''
      @ ''original image or remove `base_image_pin` from the instance file to accept the new one'')"

definition verify_or_derive_pin ::
    "memo_json \<Rightarrow> (string \<Rightarrow> image_manifest option) \<Rightarrow> digest_world \<Rightarrow> cache_path \<Rightarrow> base_image_pin option \<Rightarrow> string option
     \<Rightarrow> (daemon_error + base_image_pin option) \<times> string option" where
  "verify_or_derive_pin j parse w p pin f =
     (case info_for (dw_read w) parse p of
        None \<Rightarrow> ((case pin of Some pn \<Rightarrow> Inl (pin_unverifiable p pn) | None \<Rightarrow> Inr None), f)
      | Some info \<Rightarrow>
          (case pin of
             Some pn \<Rightarrow>
               (if pin_id pn \<noteq> info_id info then (Inl (pin_swapped p pn (info_id info)), f)
                else (case sha256_with_memo j w p f of
                    (Inl e, f') \<Rightarrow> (Inl e, f')
                  | (Inr actual, f') \<Rightarrow>
                      (if actual \<noteq> pin_sha256 pn then (Inl (pin_changed p pn actual), f') else (Inr None, f'))))
           | None \<Rightarrow>
               (case sha256_with_memo j w p f of
                  (Inl e, f') \<Rightarrow> (Inl e, f')
                | (Inr d, f') \<Rightarrow> (Inr (Some \<lparr>pin_id = info_id info, pin_sha256 = d\<rparr>), f'))))"


section \<open>Sorting\<close>

lemma set_insert_desc [simp]: "set (insert_desc k x ys) = insert x (set ys)"
  by (induction ys) auto

lemma set_sort_desc [simp]: "set (sort_desc k xs) = set xs"
  by (induction xs) (simp_all add: sort_desc_def)

lemma distinct_insert_desc: "x \<notin> set ys \<Longrightarrow> distinct ys \<Longrightarrow> distinct (insert_desc k x ys)"
  by (induction ys) auto

lemma sort_desc_simps [simp]: "sort_desc k [] = []" "sort_desc k (x # xs) = insert_desc k x (sort_desc k xs)"
  by (simp_all add: sort_desc_def)

lemma distinct_sort_desc: "distinct xs \<Longrightarrow> distinct (sort_desc k xs)"
  by (induction xs) (simp_all add: distinct_insert_desc)

lemma insert_desc_sorted: "sorted_wrt (\<lambda>a b. k b \<le> k a) ys \<Longrightarrow> sorted_wrt (\<lambda>a b. k b \<le> k a) (insert_desc k x ys)"
  by (induction ys) auto

lemma sort_desc_sorted: "sorted_wrt (\<lambda>a b. k b \<le> k a) (sort_desc k xs)"
  by (induction xs) (simp_all add: sort_desc_def insert_desc_sorted)

lemma sort_desc_hd:
  assumes "x \<in> set xs"
  shows "hd (sort_desc k xs) \<in> set xs \<and> k x \<le> k (hd (sort_desc k xs))"
proof (cases "sort_desc k xs")
  case Nil
  then have "set xs = {}" using set_sort_desc[of k xs] by simp
  then show ?thesis using assms by simp
next
  case (Cons a ys)
  have "set xs = insert a (set ys)" using set_sort_desc[of k xs] Cons by simp
  moreover have "\<forall>y \<in> set ys. k y \<le> k a" using sort_desc_sorted[of k xs] Cons by simp
  ultimately show ?thesis using assms Cons by auto
qed

lemma drop_one_iff: "distinct xs \<Longrightarrow> x \<in> set (drop 1 xs) \<longleftrightarrow> x \<in> set xs \<and> x \<noteq> hd xs"
  by (cases xs) auto

section \<open>What the listing gives\<close>

lemma manifest_entry_entries: "set (manifest_entry dir e) \<subseteq> set (map fst ((((dir, fst e), snd e)) # sub_entries dir e))"
  by (cases e) (auto split: if_splits)

lemma distinct_map_filter_fst: "distinct (map fst xs) \<Longrightarrow> distinct (map fst (filter P xs))"
  by (induction xs) auto

lemma distinct_manifest_entry:
  "distinct (map fst ((((dir, fst e), snd e)) # sub_entries dir e)) \<Longrightarrow> distinct (manifest_entry dir e)"
  by (cases e) (simp add: distinct_map_filter_fst)

lemma cache_entries_Cons: "cache_entries dir (e # es) = ((dir, fst e), snd e) # sub_entries dir e @ cache_entries dir es"
  by (cases e) (simp add: cache_entries_def)

lemma distinct_manifests:
  "distinct (map fst (cache_entries dir es)) \<Longrightarrow>
     distinct (concat (map (manifest_entry dir) es)) \<and>
     set (concat (map (manifest_entry dir) es)) \<subseteq> set (map fst (cache_entries dir es))"
proof (induction es)
  case (Cons e es)
  let ?E = "map fst ((((dir, fst e), snd e)) # sub_entries dir e)"
  have d: "distinct ?E" "distinct (map fst (cache_entries dir es))" "set ?E \<inter> set (map fst (cache_entries dir es)) = {}"
    using Cons.prems by (auto simp: cache_entries_Cons)
  have m: "set (manifest_entry dir e) \<subseteq> set ?E" "distinct (manifest_entry dir e)"
    using manifest_entry_entries distinct_manifest_entry[OF d(1)] by auto
  have "set (manifest_entry dir e) \<inter> set (concat (map (manifest_entry dir) es)) = {}"
    using Cons.IH[OF d(2)] d(3) m(1) by (meson disjoint_iff subsetD)
  moreover have "set (manifest_entry dir e) \<union> set (concat (map (manifest_entry dir) es)) \<subseteq>
      set (map fst (cache_entries dir (e # es)))"
    using Cons.IH[OF d(2)] m(1) by (auto simp: cache_entries_Cons simp del: manifest_entry.simps set_concat)
  ultimately show ?case using Cons.IH[OF d(2)] m(2) by (simp del: set_concat manifest_entry.simps)
qed (simp add: cache_entries_def)

lemma image_manifest_path: "image_of_manifest parse dir r p = Some i \<Longrightarrow> bi_manifest i = p"
  by (auto simp: image_of_manifest_def Let_def split: option.splits if_splits)

lemma image_qcow2_path: "image_of_manifest parse dir r p = Some i \<Longrightarrow>
    \<exists>stem. snd p = stem @ MANIFEST_EXT \<and> bi_qcow2 i = (fst p, stem @ QCOW2_EXT)"
proof -
  assume a: "image_of_manifest parse dir r p = Some i"
  then obtain stem where "strip_suffix MANIFEST_EXT (snd p) = Some stem" "bi_qcow2 i = (fst p, stem @ QCOW2_EXT)"
    by (auto simp: image_of_manifest_def with_file_name_def Let_def split: option.splits if_splits)
  moreover from this(1) have "snd p = stem @ MANIFEST_EXT"
    by (auto simp: strip_suffix_def ends_with_iff split: if_splits)
  ultimately show ?thesis by blast
qed

lemma image_inject: "image_of_manifest parse dir r p = Some i \<Longrightarrow> image_of_manifest parse dir r q = Some j \<Longrightarrow>
    bi_qcow2 i = bi_qcow2 j \<Longrightarrow> p = q"
  by (drule image_qcow2_path, drule image_qcow2_path) (auto simp: prod_eq_iff)

definition images_of :: "(string \<Rightarrow> image_manifest option) \<Rightarrow> string \<Rightarrow> cache_root \<Rightarrow> base_image_info list" where
  "images_of parse dir r = List.map_filter (image_of_manifest parse dir r) (concat (map (manifest_entry dir) (root_entries r)))"

lemma collect_images: "collect_images_in parse dir r = Inr is \<Longrightarrow> is = images_of parse dir r"
  by (auto simp: collect_images_in_def collect_manifest_paths_in_def images_of_def root_entries_def
      List.map_filter_def split: cache_root.splits)

lemma set_map_filter: "set (List.map_filter f xs) = {y. \<exists>x \<in> set xs. f x = Some y}"
  by (force simp: List.map_filter_def)

lemma images_by_manifest:
  assumes "i \<in> set (images_of parse dir r)" "j \<in> set (images_of parse dir r)"
  shows "bi_manifest i = bi_manifest j \<Longrightarrow> i = j"
proof -
  obtain p q where "image_of_manifest parse dir r p = Some i" "image_of_manifest parse dir r q = Some j"
    using assms by (auto simp: images_of_def set_map_filter)
  then show "bi_manifest i = bi_manifest j \<Longrightarrow> i = j" using image_manifest_path by (metis option.inject)
qed

lemma images_distinct:
  assumes "distinct (map fst (cache_entries dir (root_entries r)))"
  shows "distinct (images_of parse dir r)"
    and "i \<in> set (images_of parse dir r) \<Longrightarrow> j \<in> set (images_of parse dir r) \<Longrightarrow> bi_qcow2 i = bi_qcow2 j \<Longrightarrow> i = j"
proof -
  have "distinct (List.map_filter (image_of_manifest parse dir r) ps)" if "distinct ps" for ps
    using that by (induction ps) (auto simp: map_filter_simps set_map_filter split: option.split dest!: image_manifest_path)
  then show "distinct (images_of parse dir r)" using distinct_manifests[OF assms] by (simp add: images_of_def)
  show "i \<in> set (images_of parse dir r) \<Longrightarrow> j \<in> set (images_of parse dir r) \<Longrightarrow> bi_qcow2 i = bi_qcow2 j \<Longrightarrow> i = j"
    unfolding images_of_def set_map_filter using image_inject[of parse dir r _ i _ j] by force
qed

lemma sub_entries_fst: "p \<in> fst ` set (sub_entries dir (n, x)) \<Longrightarrow> fst p = dir @ ''/'' @ n"
  by (cases x) auto

lemma cache_file_sub: "q \<in> set (snd (cache_file_entry dir (n, x))) \<Longrightarrow>
    fst q = dir \<or> \<not> ends_with QCOW2_EXT n \<and> fst q = dir @ ''/'' @ n"
  by (cases "ends_with MANIFEST_EXT n"; cases "ends_with QCOW2_EXT n"; cases x) (auto simp: Let_def)

text \<open>The manifest of an image whose file was listed was listed too.\<close>

lemma manifest_listed:
  assumes "collect_cache_files dir r = Inr (ms, qs)" and "p \<in> set (concat (map (manifest_entry dir) (root_entries r)))"
    and "(fst p, q) \<in> set qs"
  shows "p \<in> set ms"
proof -
  have ms: "ms = concat (map (\<lambda>e. fst (cache_file_entry dir e)) (root_entries r))"
    "qs = concat (map (\<lambda>e. snd (cache_file_entry dir e)) (root_entries r))"
    using assms(1) by (auto simp: collect_cache_files_def root_entries_def Let_def comp_def split: cache_root.splits)
  obtain n x where e: "(n, x) \<in> set (root_entries r)" "p \<in> set (manifest_entry dir (n, x))" using assms(2) by auto
  show ?thesis
  proof (cases "ends_with MANIFEST_EXT n")
    case True
    then have "p \<in> set (fst (cache_file_entry dir (n, x)))" using e(2) by simp
    then show ?thesis using e(1) ms(1) by force
  next
    case False
    then have p: "p \<in> fst ` set (sub_entries dir (n, x))" "ends_with MANIFEST_EXT (snd p)" "fst p = dir @ ''/'' @ n"
      using e(2) sub_entries_fst[of p dir n x] by auto
    obtain n' x' where e': "(n', x') \<in> set (root_entries r)" "(fst p, q) \<in> set (snd (cache_file_entry dir (n', x')))"
      using assms(3) ms(2) by auto
    have "n' = n \<and> \<not> ends_with QCOW2_EXT n'"
      using cache_file_sub[OF e'(2)] p(3) by auto
    then have "p \<in> set (fst (cache_file_entry dir (n, x)))" using False p \<open>n' = n \<and> _\<close> by (auto simp: Let_def case_prod_unfold)
    then show ?thesis using e(1) ms(1) by force
  qed
qed


section \<open>What a clean-up removes\<close>

definition removes :: "gc_removal list \<Rightarrow> base_image_info \<Rightarrow> bool" where
  "removes rs i \<longleftrightarrow> (\<exists>e \<in> set rs. gr_qcow2 e = Some (bi_qcow2 i) \<or> gr_manifest e = Some (bi_manifest i))"

definition same_group :: "base_image_info list \<Rightarrow> base_image_info \<Rightarrow> base_image_info list" where
  "same_group is i = filter (\<lambda>j. image_group j = image_group i) is"

lemma ending_ne: "stem @ QCOW2_EXT \<noteq> r @ MANIFEST_EXT"
proof
  assume "stem @ QCOW2_EXT = r @ MANIFEST_EXT"
  then have "last (stem @ QCOW2_EXT) = last (r @ MANIFEST_EXT)" by simp
  then show False by (simp add: QCOW2_EXT_def MANIFEST_EXT_def)
qed

lemma ends_with_qcow2 [simp]: "ends_with QCOW2_EXT (s @ QCOW2_EXT)" "\<not> ends_with MANIFEST_EXT (s @ QCOW2_EXT)"
  "ends_with MANIFEST_EXT (s @ MANIFEST_EXT)"
  using ending_ne by (auto simp: ends_with_iff)

lemma cache_file_manifests: "p \<in> set (fst (cache_file_entry dir (n, x))) \<longleftrightarrow>
    (if ends_with MANIFEST_EXT n then p = (dir, n)
     else \<not> ends_with QCOW2_EXT n \<and> p \<in> fst ` set (sub_entries dir (n, x)) \<and> ends_with MANIFEST_EXT (snd p))"
  by (auto simp: Let_def case_prod_unfold)

lemma cache_file_images: "p \<in> set (snd (cache_file_entry dir (n, x))) \<longleftrightarrow>
    \<not> ends_with MANIFEST_EXT n \<and>
    (if ends_with QCOW2_EXT n then p = (dir, n)
     else p \<in> fst ` set (sub_entries dir (n, x)) \<and> \<not> ends_with MANIFEST_EXT (snd p) \<and> ends_with QCOW2_EXT (snd p))"
  by (auto simp: Let_def case_prod_unfold)

lemma collect_cache_sets:
  "collect_cache_files dir r = Inr (ms, qs) \<Longrightarrow>
     set ms = (\<Union>e \<in> set (root_entries r). set (fst (cache_file_entry dir e))) \<and>
     set qs = (\<Union>e \<in> set (root_entries r). set (snd (cache_file_entry dir e)))"
  by (auto simp: collect_cache_files_def root_entries_def Let_def comp_def simp del: cache_file_entry.simps split: cache_root.splits)

lemma path_exists_cases:
  "path_exists dir r p \<Longrightarrow> \<exists>e \<in> set (root_entries r). p = (dir, fst e) \<or> p \<in> fst ` set (sub_entries dir e)"
  by (force simp: path_exists_def cache_entries_def list_ex_iff)

lemma subdir_name_inject: "dir @ ''/'' @ n = dir @ ''/'' @ m \<longleftrightarrow> n = m" "dir \<noteq> dir @ ''/'' @ n"
  by auto

text \<open>The image beside a listed manifest was listed too.\<close>

lemma qcow2_listed:
  assumes c: "collect_cache_files dir r = Inr (ms, qs)" and p: "p \<in> set ms"
    and q: "path_exists dir r (fst p, stem @ QCOW2_EXT)"
  shows "(fst p, stem @ QCOW2_EXT) \<in> set qs"
proof -
  note sets = collect_cache_sets[OF c]
  obtain n x where e: "(n, x) \<in> set (root_entries r)" "p \<in> set (fst (cache_file_entry dir (n, x)))" using p sets by auto
  obtain n' x' where e': "(n', x') \<in> set (root_entries r)"
    "(fst p, stem @ QCOW2_EXT) = (dir, n') \<or> (fst p, stem @ QCOW2_EXT) \<in> fst ` set (sub_entries dir (n', x'))"
    using path_exists_cases[OF q] by auto
  from e'(2) have "(fst p, stem @ QCOW2_EXT) \<in> set (snd (cache_file_entry dir (n', x')))"
  proof
    assume "(fst p, stem @ QCOW2_EXT) = (dir, n')"
    then have "n' = stem @ QCOW2_EXT" "fst p = dir" by auto
    then show ?thesis by (simp add: cache_file_images del: cache_file_entry.simps)
  next
    assume sub: "(fst p, stem @ QCOW2_EXT) \<in> fst ` set (sub_entries dir (n', x'))"
    then have d: "fst p = dir @ ''/'' @ n'" using sub_entries_fst by fastforce
    have "\<not> ends_with MANIFEST_EXT n" using e(2) d by (auto simp: cache_file_manifests simp del: cache_file_entry.simps)
    moreover from this have "\<not> ends_with QCOW2_EXT n" "fst p = dir @ ''/'' @ n"
      using e(2) sub_entries_fst[of p dir n x] by (auto simp: cache_file_manifests simp del: cache_file_entry.simps)
    ultimately show ?thesis using sub d by (simp add: cache_file_images del: cache_file_entry.simps)
  qed
  then show ?thesis using e'(1) sets by blast
qed

lemma image_files:
  assumes "i \<in> set (images_of parse dir r)"
  obtains p stem where "p \<in> set (concat (map (manifest_entry dir) (root_entries r)))" "bi_manifest i = p"
    "snd p = stem @ MANIFEST_EXT" "bi_qcow2 i = (fst p, stem @ QCOW2_EXT)" "path_exists dir r (fst p, stem @ QCOW2_EXT)"
proof -
  obtain p where p: "p \<in> set (concat (map (manifest_entry dir) (root_entries r)))" "image_of_manifest parse dir r p = Some i"
    using assms by (auto simp: images_of_def set_map_filter simp del: manifest_entry.simps set_concat)
  moreover have "path_exists dir r (bi_qcow2 i)"
    using p(2) by (auto simp: image_of_manifest_def Let_def split: option.splits if_splits)
  ultimately show ?thesis using that image_manifest_path[OF p(2)] image_qcow2_path[OF p(2)] by metis
qed

lemma orphan_manifests_iff: "e \<in> set (orphan_manifests ms qs) \<longleftrightarrow>
    (\<exists>p \<in> set ms. \<exists>stem. strip_suffix MANIFEST_EXT (snd p) = Some stem \<and> stem @ QCOW2_EXT \<notin> snd ` set qs \<and>
       e = \<lparr>gr_qcow2 = None, gr_manifest = Some p, gr_label = ''orphan manifest (no matching qcow2)''\<rparr>)"
  unfolding orphan_manifests_def set_map_filter mem_Collect_eq by (intro bex_cong refl) (auto split: option.split)

lemma orphan_qcow2s_iff: "e \<in> set (orphan_qcow2s ms qs) \<longleftrightarrow>
    (\<exists>p \<in> set qs. \<exists>stem. strip_suffix QCOW2_EXT (snd p) = Some stem \<and> stem @ MANIFEST_EXT \<notin> snd ` set ms \<and>
       e = \<lparr>gr_qcow2 = Some p, gr_manifest = None, gr_label = ''orphan qcow2 (no manifest)''\<rparr>)"
  unfolding orphan_qcow2s_def set_map_filter mem_Collect_eq by (intro bex_cong refl) (auto split: option.split)

lemma orphans_not_images:
  assumes c: "collect_cache_files dir r = Inr (ms, qs)" and i: "i \<in> set (images_of parse dir r)"
  shows "e \<in> set (orphan_manifests ms qs) \<Longrightarrow> gr_qcow2 e \<noteq> Some (bi_qcow2 i) \<and> gr_manifest e \<noteq> Some (bi_manifest i)"
    and "e \<in> set (orphan_qcow2s ms qs) \<Longrightarrow> gr_qcow2 e \<noteq> Some (bi_qcow2 i) \<and> gr_manifest e \<noteq> Some (bi_manifest i)"
proof -
  obtain p stem where p: "p \<in> set (concat (map (manifest_entry dir) (root_entries r)))" "bi_manifest i = p"
    "snd p = stem @ MANIFEST_EXT" "bi_qcow2 i = (fst p, stem @ QCOW2_EXT)" "path_exists dir r (fst p, stem @ QCOW2_EXT)"
    using image_files[OF i] .
  have m: "p \<in> set ms \<Longrightarrow> stem @ QCOW2_EXT \<in> snd ` set qs" using qcow2_listed[OF c _ p(5)] by force
  have q: "(fst p, stem @ QCOW2_EXT) \<in> set qs \<Longrightarrow> stem @ MANIFEST_EXT \<in> snd ` set ms"
    using manifest_listed[OF c p(1)] p(3) by force
  show "e \<in> set (orphan_manifests ms qs) \<Longrightarrow> gr_qcow2 e \<noteq> Some (bi_qcow2 i) \<and> gr_manifest e \<noteq> Some (bi_manifest i)"
    using m p(2,3) by (cases p) (auto simp: orphan_manifests_iff)
  show "e \<in> set (orphan_qcow2s ms qs) \<Longrightarrow> gr_qcow2 e \<noteq> Some (bi_qcow2 i) \<and> gr_manifest e \<noteq> Some (bi_manifest i)"
    using q p(4) by (auto simp: orphan_qcow2s_iff)
qed

lemma by_groups: "e \<in> (\<Union>g \<in> G ` S. f ` {i \<in> S. G i = g \<and> P i}) \<longleftrightarrow> (\<exists>i \<in> S. P i \<and> e = f i)"
  by auto

lemma stale_removals_iff:
  assumes "distinct is"
  shows "e \<in> set (stale_removals is) \<longleftrightarrow> (\<exists>i \<in> set is. i \<noteq> hd (sort_desc bi_built_at (same_group is i)) \<and>
     e = \<lparr>gr_qcow2 = Some (bi_qcow2 i), gr_manifest = Some (bi_manifest i), gr_label = info_id i\<rparr>)"
proof -
  let ?E = "\<lambda>i. \<lparr>gr_qcow2 = Some (bi_qcow2 i), gr_manifest = Some (bi_manifest i), gr_label = info_id i\<rparr>"
  have mem: "set (drop 1 (sort_desc bi_built_at (filter (\<lambda>i. image_group i = g) is))) =
      {i \<in> set is. image_group i = g \<and> i \<noteq> hd (sort_desc bi_built_at (same_group is i))}" for g
  proof (rule set_eqI)
    fix i
    show "i \<in> set (drop 1 (sort_desc bi_built_at (filter (\<lambda>i. image_group i = g) is))) \<longleftrightarrow>
        i \<in> {i \<in> set is. image_group i = g \<and> i \<noteq> hd (sort_desc bi_built_at (same_group is i))}"
      using drop_one_iff[OF distinct_sort_desc[OF distinct_filter[OF assms]], of i bi_built_at "\<lambda>i. image_group i = g"]
      by (auto simp: same_group_def)
  qed
  have "set (stale_removals is) = (\<Union>g \<in> image_group ` set is.
      ?E ` set (drop 1 (sort_desc bi_built_at (filter (\<lambda>i. image_group i = g) is))))"
    by (simp add: stale_removals_def)
  then show ?thesis unfolding mem by (simp only: by_groups)
qed

lemma gc_candidates_parts:
  "gc_candidates parse dir r = Inr rs \<Longrightarrow> \<exists>ms qs. collect_cache_files dir r = Inr (ms, qs) \<and>
     set rs = set (stale_removals (images_of parse dir r)) \<union> set (orphan_manifests ms qs) \<union> set (orphan_qcow2s ms qs)"
  unfolding gc_candidates_def rbind_def by (auto simp: collect_images[symmetric] split: sum.splits)

lemma removes_iff:
  assumes d: "distinct (map fst (cache_entries dir (root_entries r)))" and g: "gc_candidates parse dir r = Inr rs"
    and i: "i \<in> set (images_of parse dir r)"
  shows "removes rs i \<longleftrightarrow> i \<noteq> hd (sort_desc bi_built_at (same_group (images_of parse dir r) i))"
proof -
  obtain ms qs where c: "collect_cache_files dir r = Inr (ms, qs)"
    and rs: "set rs = set (stale_removals (images_of parse dir r)) \<union> set (orphan_manifests ms qs) \<union> set (orphan_qcow2s ms qs)"
    using gc_candidates_parts[OF g] by blast
  have same: "j = i" if "j \<in> set (images_of parse dir r)" "bi_qcow2 j = bi_qcow2 i \<or> bi_manifest j = bi_manifest i" for j
    using images_distinct(2)[OF d that(1) i] that images_by_manifest[OF that(1) i] by auto
  have "removes rs i \<longleftrightarrow> (\<exists>e \<in> set (stale_removals (images_of parse dir r)). gr_qcow2 e = Some (bi_qcow2 i) \<or> gr_manifest e = Some (bi_manifest i))"
    unfolding removes_def rs using orphans_not_images[OF c i] by blast
  also have "\<dots> \<longleftrightarrow> i \<noteq> hd (sort_desc bi_built_at (same_group (images_of parse dir r) i))"
  proof
    assume "\<exists>e \<in> set (stale_removals (images_of parse dir r)). gr_qcow2 e = Some (bi_qcow2 i) \<or> gr_manifest e = Some (bi_manifest i)"
    then obtain j where "j \<in> set (images_of parse dir r)" "j \<noteq> hd (sort_desc bi_built_at (same_group (images_of parse dir r) j))"
      "bi_qcow2 j = bi_qcow2 i \<or> bi_manifest j = bi_manifest i"
      using stale_removals_iff[OF images_distinct(1)[OF d]] by auto
    then show "i \<noteq> hd (sort_desc bi_built_at (same_group (images_of parse dir r) i))" using same by blast
  next
    assume "i \<noteq> hd (sort_desc bi_built_at (same_group (images_of parse dir r) i))"
    then have "\<lparr>gr_qcow2 = Some (bi_qcow2 i), gr_manifest = Some (bi_manifest i), gr_label = info_id i\<rparr>
        \<in> set (stale_removals (images_of parse dir r))"
      unfolding stale_removals_iff[OF images_distinct(1)[OF d]] using i by blast
    then show "\<exists>e \<in> set (stale_removals (images_of parse dir r)). gr_qcow2 e = Some (bi_qcow2 i) \<or> gr_manifest e = Some (bi_manifest i)"
      by (rule bexI[rotated]) simp
  qed
  finally show ?thesis .
qed

lemma removed_image_entry:
  assumes "distinct (map fst (cache_entries dir (root_entries r)))" and "gc_candidates parse dir r = Inr rs"
    and "i \<in> set (images_of parse dir r)" and "removes rs i"
  shows "\<exists>e \<in> set rs. gr_qcow2 e = Some (bi_qcow2 i)"
proof -
  have "i \<noteq> hd (sort_desc bi_built_at (same_group (images_of parse dir r) i))" using removes_iff[OF assms(1-3)] assms(4) by blast
  then have "\<lparr>gr_qcow2 = Some (bi_qcow2 i), gr_manifest = Some (bi_manifest i), gr_label = info_id i\<rparr>
      \<in> set (stale_removals (images_of parse dir r))"
    unfolding stale_removals_iff[OF images_distinct(1)[OF assms(1)]] using assms(3) by blast
  then show ?thesis using gc_candidates_parts[OF assms(2)] by (metis UnI1 gc_removal.select_convs(1))
qed

section \<open>Theorems: the clean-up\<close>

lemma kept_image:
  assumes d: "distinct (map fst (cache_entries dir (root_entries r)))" and g: "gc_candidates parse dir r = Inr rs"
    and i: "i \<in> set (images_of parse dir r)"
  defines "k \<equiv> hd (sort_desc bi_built_at (same_group (images_of parse dir r) i))"
  shows "k \<in> set (images_of parse dir r)" "image_group k = image_group i" "\<not> removes rs k" "bi_built_at i \<le> bi_built_at k"
    and "j \<in> set (images_of parse dir r) \<Longrightarrow> image_group j = image_group i \<Longrightarrow> \<not> removes rs j \<Longrightarrow> j = k"
proof -
  have "i \<in> set (same_group (images_of parse dir r) i)" using i by (simp add: same_group_def)
  from sort_desc_hd[OF this, of bi_built_at]
  show k: "k \<in> set (images_of parse dir r)" "image_group k = image_group i" "bi_built_at i \<le> bi_built_at k"
    by (auto simp: same_group_def k_def)
  have same: "same_group (images_of parse dir r) j = same_group (images_of parse dir r) i" if "image_group j = image_group i" for j
    using that by (simp add: same_group_def)
  show "\<not> removes rs k" using removes_iff[OF d g k(1)] same[OF k(2)] by (simp add: k_def)
  show "j \<in> set (images_of parse dir r) \<Longrightarrow> image_group j = image_group i \<Longrightarrow> \<not> removes rs j \<Longrightarrow> j = k"
    using removes_iff[OF d g, of j] same[of j] by (simp add: k_def)
qed

lemma freshest_kept:
  assumes "distinct (map fst (cache_entries dir (root_entries r)))"
    and "collect_images_in parse dir r = Inr is" and "gc_candidates parse dir r = Inr rs"
  shows "i \<in> set is \<Longrightarrow> \<exists>!k. k \<in> set is \<and> image_group k = image_group i \<and> \<not> removes rs k"
    and "i \<in> set is \<Longrightarrow> k \<in> set is \<Longrightarrow> image_group k = image_group i \<Longrightarrow> \<not> removes rs k \<Longrightarrow> bi_built_at i \<le> bi_built_at k"
    and "resolve_image parse dir r p = Inr q \<Longrightarrow> e \<in> set rs \<Longrightarrow> gr_qcow2 e \<noteq> Some q"
proof -
  note imgs = collect_images[OF assms(2)]
  note kept = kept_image[OF assms(1,3), folded imgs]
  show "\<exists>!k. k \<in> set is \<and> image_group k = image_group i \<and> \<not> removes rs k" if i: "i \<in> set is"
  proof (rule ex1I)
    show "hd (sort_desc bi_built_at (same_group is i)) \<in> set is \<and>
        image_group (hd (sort_desc bi_built_at (same_group is i))) = image_group i \<and>
        \<not> removes rs (hd (sort_desc bi_built_at (same_group is i)))"
      using kept(1-3)[OF i] by simp
  qed (elim conjE, rule kept(5)[OF i])
  show "i \<in> set is \<Longrightarrow> k \<in> set is \<Longrightarrow> image_group k = image_group i \<Longrightarrow> \<not> removes rs k \<Longrightarrow> bi_built_at i \<le> bi_built_at k"
    using kept(4)[of i] kept(5)[of i k] by simp
  assume res: "resolve_image parse dir r p = Inr q" and e: "e \<in> set rs"
  let ?F = "filter (matches_profile p) is"
  obtain j js where j: "sort_desc bi_built_at ?F = j # js" "q = bi_qcow2 j"
    using res assms(2) by (auto simp: resolve_image_def list_matching_def split: list.splits)
  have "j \<in> set ?F" using set_sort_desc[of bi_built_at ?F] j(1) by (metis list.set_intros(1))
  then have jm: "j \<in> set is" "matches_profile p j" by auto
  have "?F = same_group is j"
    using jm(2) by (auto simp: same_group_def matches_profile_def image_group_def intro!: filter_cong)
  then have "\<not> removes rs j" using removes_iff[OF assms(1,3), folded imgs, OF jm(1)] j(1) by simp
  then show "gr_qcow2 e \<noteq> Some q" using e j(2) by (auto simp: removes_def)
qed

text \<open>C23. Of the complete images of each version and variant in the cache, a clean-up leaves
  exactly one, whose build time none of them exceeds, with its manifest; what the daemon gives a new
  instance of that version and variant is never removed.\<close>

theorem gc_keeps_freshest:
  assumes "distinct (map fst (cache_entries dir (root_entries r)))"
    and "collect_images_in parse dir r = Inr imgs" and "gc_candidates parse dir r = Inr rs"
  shows "(\<forall>i \<in> set imgs. \<exists>!k. k \<in> set imgs \<and> image_group k = image_group i \<and> \<not> removes rs k)
    \<and> (\<forall>i \<in> set imgs. \<forall>k \<in> set imgs. image_group k = image_group i \<longrightarrow> \<not> removes rs k \<longrightarrow> bi_built_at i \<le> bi_built_at k)
    \<and> (\<forall>p q. resolve_image parse dir r p = Inr q \<longrightarrow> (\<forall>e \<in> set rs. gr_qcow2 e \<noteq> Some q))"
  using freshest_kept[OF assms] by blast

section \<open>What a clean-up does to the disks above\<close>

definition entry_paths :: "gc_removal \<Rightarrow> string set" where
  "entry_paths e = path_text ` (set_option (gr_qcow2 e) \<union> set_option (gr_manifest e))"

lemma remove_paths_effect:
  "is_ok (fst (remove_paths (\<lambda>_. None) ps fs)) \<and>
   snd (remove_paths (\<lambda>_. None) ps fs) = (\<lambda>x. if x \<in> path_text ` (\<Union>(set_option ` set ps)) then None else fs x)"
proof (induction "\<lambda>_::string. None::string option" ps fs rule: remove_paths.induct)
  case (3 p ps fs)
  show ?case
  proof (cases "fs (path_text p) = None")
    case True
    then show ?thesis using 3(1) by (auto simp: fun_eq_iff)
  next
    case False
    then show ?thesis using 3(2) by (auto simp: fun_eq_iff case_prod_unfold is_ok_rbind is_ok_def split: sum.splits)
  qed
qed auto

lemma clean_cache_effect:
  "is_ok (fst (clean_cache (\<lambda>_. None) es fs)) \<and>
   snd (clean_cache (\<lambda>_. None) es fs) = (\<lambda>x. if x \<in> (\<Union>e \<in> set es. entry_paths e) then None else fs x)"
proof (induction es arbitrary: fs)
  case (Cons e es)
  have e: "is_ok (fst (remove_entry (\<lambda>_. None) e fs))"
    "snd (remove_entry (\<lambda>_. None) e fs) = (\<lambda>x. if x \<in> entry_paths e then None else fs x)"
    using remove_paths_effect[of "[gr_qcow2 e, gr_manifest e]" fs] by (simp_all add: remove_entry_def entry_paths_def)
  then obtain n where "remove_entry (\<lambda>_. None) e fs = (Inr n, (\<lambda>x. if x \<in> entry_paths e then None else fs x))"
    by (cases "remove_entry (\<lambda>_. None) e fs") (auto simp: is_ok_def split: sum.splits)
  then show ?case using Cons.IH[of "\<lambda>x. if x \<in> entry_paths e then None else fs x"]
    by (auto simp: case_prod_unfold fun_eq_iff is_ok_rbind is_ok_def split: sum.splits)
qed simp

lemma chain_of_mono: "chain_of fs' p ps \<Longrightarrow> fs' \<subseteq>\<^sub>m fs \<Longrightarrow> chain_of fs p ps"
proof (induction rule: chain_of.induct)
  case (chain_base p im)
  then show ?case by (metis chain_of.chain_base domI map_le_def)
next
  case (chain_link p im b ps)
  then show ?case by (metis chain_of.chain_link domI map_le_def)
qed

lemma chain_needs_files:
  assumes "chain_of fs p ps" and "q \<in> set ps" and "fs' \<subseteq>\<^sub>m fs" and "fs' q = None"
  shows "\<not> chain_of fs' p qs"
  using assms chain_of_mono[of fs' p qs fs] chain_of_det[of fs p qs ps] chain_of_files[of fs' p qs q] by auto

text \<open>C24. A clean-up takes no notice of the instances: when the disk of one stands on an image of
  which the cache holds a later build, the clean-up succeeds, and afterwards the disk has no backing
  chain any more.\<close>

theorem gc_breaks_linked_instance:
  assumes "distinct (map fst (cache_entries dir (root_entries r)))"
    and "collect_images_in parse dir r = Inr is" and "gc_candidates parse dir r = Inr rs"
    and "i \<in> set is" "j \<in> set is" "image_group j = image_group i" "bi_built_at i < bi_built_at j"
    and "chain_of fs disk ps" and "path_text (bi_qcow2 i) \<in> set ps"
  shows "is_ok (fst (clean_cache (\<lambda>_. None) rs fs)) \<and> (\<nexists>qs. chain_of (snd (clean_cache (\<lambda>_. None) rs fs)) disk qs)"
proof -
  note imgs = collect_images[OF assms(2)]
  have "removes rs i"
    using kept_image(4,5)[OF assms(1,3) assms(5)[unfolded imgs]] assms(4,6,7) by (metis imgs leD)
  then obtain e where e: "e \<in> set rs" "gr_qcow2 e = Some (bi_qcow2 i)"
    using removed_image_entry[OF assms(1,3)] assms(4) imgs by blast
  then have "path_text (bi_qcow2 i) \<in> (\<Union>e \<in> set rs. entry_paths e)" by (force simp: entry_paths_def)
  then have "snd (clean_cache (\<lambda>_. None) rs fs) (path_text (bi_qcow2 i)) = None"
    using clean_cache_effect[of rs fs] by simp
  moreover have "snd (clean_cache (\<lambda>_. None) rs fs) \<subseteq>\<^sub>m fs"
    using clean_cache_effect[of rs fs] by (auto simp: map_le_def split: if_splits)
  ultimately show ?thesis using chain_needs_files[OF assms(8,9)] clean_cache_effect[of rs fs] by blast
qed

definition ex_parse :: "string \<Rightarrow> image_manifest option" where
  "ex_parse raw = Some \<lparr>im_major = ''13'', im_variant = ''GAPPS'', im_built_at = raw, im_schema_version = 1,
     im_sha256 = None, im_file_size = None, im_compression = None, im_parts = []\<rparr>"

definition ex_cache :: cache_root where
  "ex_cache = Root [(''s'', CacheDir [(''a.qcow2'', CacheFile ''A''), (''a.manifest.json'', CacheFile ''1''),
     (''b.qcow2'', CacheFile ''B''), (''b.manifest.json'', CacheFile ''2'')])]"

definition ex_images :: "base_image_info list" where
  "ex_images = [\<lparr>bi_qcow2 = (''/c/s'', ''a.qcow2''), bi_manifest = (''/c/s'', ''a.manifest.json''), bi_major = ''13'',
       bi_variant = ''GAPPS'', bi_built_at = ''1''\<rparr>,
     \<lparr>bi_qcow2 = (''/c/s'', ''b.qcow2''), bi_manifest = (''/c/s'', ''b.manifest.json''), bi_major = ''13'',
       bi_variant = ''GAPPS'', bi_built_at = ''2''\<rparr>]"

definition ex_removals :: "gc_removal list" where
  "ex_removals = [\<lparr>gr_qcow2 = Some (''/c/s'', ''a.qcow2''), gr_manifest = Some (''/c/s'', ''a.manifest.json''),
     gr_label = ''android13-gapps-1''\<rparr>]"

lemma ex_cache_facts:
  "distinct (map fst (cache_entries ''/c'' (root_entries ex_cache)))"
  "collect_images_in ex_parse ''/c'' ex_cache = Inr ex_images"
  "gc_candidates ex_parse ''/c'' ex_cache = Inr ex_removals"
  by code_simp+

theorem gc_keeps_freshest_witness:
  "\<exists>!k. k \<in> set ex_images \<and> image_group k = (''13'', ''GAPPS'') \<and> \<not> removes ex_removals k"
proof -
  have "hd ex_images \<in> set ex_images" "image_group (hd ex_images) = (''13'', ''GAPPS'')"
    by (simp_all add: ex_images_def image_group_def)
  with gc_keeps_freshest[OF ex_cache_facts] show ?thesis by (metis (no_types, lifting))
qed

definition ex_disks :: filesystem where
  "ex_disks = [''/i/disk.qcow2'' \<mapsto> \<lparr>im_size = 9, im_backing = Some ''/c/s/a.qcow2'', im_data = Map.empty\<rparr>,
     ''/c/s/a.qcow2'' \<mapsto> \<lparr>im_size = 9, im_backing = None, im_data = [1 \<mapsto> 10]\<rparr>]"

theorem gc_breaks_linked_instance_witness:
  "chain_of ex_disks ''/i/disk.qcow2'' [''/i/disk.qcow2'', ''/c/s/a.qcow2'']
   \<and> (\<nexists>qs. chain_of (snd (clean_cache (\<lambda>_. None) ex_removals ex_disks)) ''/i/disk.qcow2'' qs)"
proof -
  have "ex_disks ''/i/disk.qcow2'' = Some \<lparr>im_size = 9, im_backing = Some ''/c/s/a.qcow2'', im_data = Map.empty\<rparr>"
    "ex_disks ''/c/s/a.qcow2'' = Some \<lparr>im_size = 9, im_backing = None, im_data = [1 \<mapsto> 10]\<rparr>"
    by (simp_all add: ex_disks_def)
  moreover have "resolve_backing ''/i/disk.qcow2'' ''/c/s/a.qcow2'' = ''/c/s/a.qcow2''" by code_simp
  ultimately have c: "chain_of ex_disks ''/i/disk.qcow2'' [''/i/disk.qcow2'', ''/c/s/a.qcow2'']"
    by (auto intro!: chain_link chain_base)
  have "ex_images ! 0 \<in> set ex_images" "ex_images ! 1 \<in> set ex_images" by (simp_all add: ex_images_def)
  moreover have "image_group (ex_images ! 1) = image_group (ex_images ! 0)"
    "bi_built_at (ex_images ! 0) < bi_built_at (ex_images ! 1)"
    "path_text (bi_qcow2 (ex_images ! 0)) \<in> set [''/i/disk.qcow2'', ''/c/s/a.qcow2'']"
    by code_simp+
  ultimately show ?thesis using gc_breaks_linked_instance[OF ex_cache_facts _ _ _ _ c] c by blast
qed

section \<open>Theorems: digests and pins\<close>

lemma hex_digits_small: "hex_digit 0 = CHR ''0''" "hex_digit (Suc 0) = CHR ''1''" "hex_digit 2 = CHR ''2''"
  by code_simp+

lemma hex_text_inject: "hex_text as = hex_text bs \<longleftrightarrow> as = bs"
proof -
  have "hex_text cs = show_instance_id cs" for cs by (induction cs) (simp_all add: show_instance_id_def)
  then show ?thesis using hex_pairs_show by (metis option.inject)
qed

text \<open>The size and the modification time of an image determine its content: \<open>H\<close> gives the digest
  of the content a path had with a size and a time, and in every world met the file can be read and
  has it.\<close>

definition identified :: "(cache_path \<Rightarrow> u64 \<times> 128 word \<Rightarrow> 8 word list) \<Rightarrow> digest_world \<Rightarrow> cache_path \<Rightarrow> bool" where
  "identified H w p \<longleftrightarrow> (\<forall>s. image_identity w p = Inr s \<longrightarrow> (\<exists>b. dw_read w p = Inr b \<and> dw_hash w b = H (canonical w p) s))"

definition memo_valid :: "(cache_path \<Rightarrow> u64 \<times> 128 word \<Rightarrow> 8 word list) \<Rightarrow> memo_json \<Rightarrow> string option \<Rightarrow> bool" where
  "memo_valid H j f \<longleftrightarrow> (\<forall>k e. load_memo j f k = Some e \<longrightarrow> de_sha256 e = hex_text (H k (de_size e, de_mtime_ns e)))"

definition json_laws :: "memo_json \<Rightarrow> bool" where
  "json_laws j \<longleftrightarrow> (\<forall>m raw. mj_write j m = Some raw \<longrightarrow> mj_read j raw = Some m)"

lemma memo_valid_empty: "memo_valid H j None"
  by (simp add: memo_valid_def load_memo_def)

lemma store_memo_valid:
  assumes "json_laws j" and "memo_valid H j f" and "de_sha256 e = hex_text (H k (de_size e, de_mtime_ns e))"
  shows "memo_valid H j (store_memo j w k e f)"
proof -
  have "load_memo j (store_memo j w k e f) = load_memo j f \<or> load_memo j (store_memo j w k e f) = (load_memo j f)(k \<mapsto> e)"
    using assms(1) by (auto simp: store_memo_def Let_def load_memo_def json_laws_def split: option.split)
  then show ?thesis using assms(2,3) by (auto simp: memo_valid_def split: if_splits)
qed

text \<open>The memo is transparent: what it serves is the digest of the file, and it stays valid.\<close>

lemma memo_transparent:
  assumes "json_laws j" and "memo_valid H j f" and "identified H w p"
  shows "memo_valid H j (snd (sha256_with_memo j w p f))"
    and "fst (sha256_with_memo j w p f) = (case image_identity w p of Inl e \<Rightarrow> Inl e | Inr s \<Rightarrow> Inr (hex_text (H (canonical w p) s)))"
    and "image_identity w p = Inr s \<Longrightarrow> \<exists>b. dw_read w p = Inr b \<and> dw_hash w b = H (canonical w p) s"
proof -
  show r: "image_identity w p = Inr s \<Longrightarrow> \<exists>b. dw_read w p = Inr b \<and> dw_hash w b = H (canonical w p) s" for s
    using assms(3) by (simp add: identified_def)
  show "fst (sha256_with_memo j w p f) = (case image_identity w p of Inl e \<Rightarrow> Inl e | Inr s \<Rightarrow> Inr (hex_text (H (canonical w p) s)))"
  proof (cases "image_identity w p")
    case (Inr s)
    have m: "load_memo j f (canonical w p) = Some e \<Longrightarrow> de_sha256 e = hex_text (H (canonical w p) (de_size e, de_mtime_ns e))" for e
      using assms(2) unfolding memo_valid_def by blast
    show ?thesis using Inr r[OF Inr]
      by (cases s) (auto simp: sha256_with_memo_def sha256_of_def Let_def m split: option.split)
  qed (simp add: sha256_with_memo_def)
  show "memo_valid H j (snd (sha256_with_memo j w p f))"
  proof (cases "image_identity w p")
    case (Inr s)
    then show ?thesis using r[OF Inr] assms(2)
      by (cases s) (auto simp: sha256_with_memo_def sha256_of_def Let_def intro!: store_memo_valid[OF assms(1,2)] split: option.split)
  qed (simp add: sha256_with_memo_def assms(2))
qed

text \<open>C25. A pin taken from an image is accepted later exactly when the manifest beside the image
  chosen then gives the same identity and the digest of its content is the same, whatever the memo of
  digests served in between.\<close>

theorem pin_accepts_exactly:
  assumes "json_laws j" and "memo_valid H j f" and "identified H w p" and "identified H v q"
    and "verify_or_derive_pin j parse w p None f = (Inr (Some pin), g)" and "image_identity v q = Inr s"
  shows "fst (verify_or_derive_pin j parse v q (Some pin) g) = Inr None \<longleftrightarrow>
    (\<exists>i k b c. info_for (dw_read w) parse p = Some i \<and> info_for (dw_read v) parse q = Some k \<and> info_id i = info_id k
       \<and> dw_read w p = Inr b \<and> dw_read v q = Inr c \<and> dw_hash w b = dw_hash v c)"
proof -
  note tw = memo_transparent[OF assms(1-3)]
  obtain i d where i: "info_for (dw_read w) parse p = Some i" "sha256_with_memo j w p f = (Inr d, g)"
    "pin = \<lparr>pin_id = info_id i, pin_sha256 = d\<rparr>"
    using assms(5) by (auto simp: verify_or_derive_pin_def split: option.splits prod.splits sum.splits)
  then obtain t where t: "image_identity w p = Inr t" "d = hex_text (H (canonical w p) t)"
    using tw(2) by (cases "image_identity w p") auto
  obtain b where b: "dw_read w p = Inr b" "dw_hash w b = H (canonical w p) t" using tw(3)[OF t(1)] by blast
  have "memo_valid H j g" using tw(1) i(2) by simp
  note tv = memo_transparent[OF assms(1) this assms(4)]
  obtain c where c: "dw_read v q = Inr c" "dw_hash v c = H (canonical v q) s" using tv(3)[OF assms(6)] by blast
  obtain g' where s: "sha256_with_memo j v q g = (Inr (hex_text (dw_hash v c)), g')"
    using tv(2) assms(6) c(2) by (cases "sha256_with_memo j v q g") auto
  show ?thesis
    using i(1) b c s t(2) by (auto simp: verify_or_derive_pin_def i(3) hex_text_inject split: option.splits)
qed

text \<open>An image that is replaced by one of the same name: the pin of the first refuses the second,
  and accepts the first again.\<close>

definition ex_json :: memo_json where
  "ex_json = \<lparr>mj_read = \<lambda>_. None, mj_write = \<lambda>_. None\<rparr>"

definition ex_world :: "string \<Rightarrow> int \<Rightarrow> 8 word \<Rightarrow> digest_world" where
  "ex_world content t d =
     \<lparr>dw_metadata = \<lambda>_. Inr (9, Some t), dw_canonicalize = \<lambda>_. None,
      dw_read = \<lambda>p. Inr (if p = (''/c/s'', ''a.qcow2'') then content else ''1''),
      dw_hash = \<lambda>b. [if b = content then d else 0], dw_error_text = \<lambda>_. [], dw_mkdir_ok = True, dw_write_ok = True\<rparr>"

definition ex_digests :: "cache_path \<Rightarrow> u64 \<times> 128 word \<Rightarrow> 8 word list" where
  "ex_digests p s = [if snd s = 5 then 1 else 2]"

theorem pin_accepts_exactly_witness:
  "fst (verify_or_derive_pin ex_json ex_parse (ex_world ''B'' 6 2) (''/c/s'', ''a.qcow2'')
      (Some \<lparr>pin_id = ''android13-gapps-1'', pin_sha256 = ''01''\<rparr>) None) \<noteq> Inr None
   \<and> fst (verify_or_derive_pin ex_json ex_parse (ex_world ''A'' 5 1) (''/c/s'', ''a.qcow2'')
      (Some \<lparr>pin_id = ''android13-gapps-1'', pin_sha256 = ''01''\<rparr>) None) = Inr None"
proof -
  let ?p = "(''/c/s'', ''a.qcow2'')"
  have j: "json_laws ex_json" by (simp add: json_laws_def ex_json_def)
  have w: "identified ex_digests (ex_world ''A'' 5 1) ?p" "identified ex_digests (ex_world ''B'' 6 2) ?p"
    by (auto simp: identified_def ex_world_def image_identity_def mtime_nanos_def ex_digests_def)
  have m: "manifest_path_for ?p = (''/c/s'', ''a.manifest.json'')" by code_simp
  have s: "strip_suffix MANIFEST_EXT ''a.manifest.json'' = Some ''a''" by code_simp
  have inf: "info_for (dw_read (ex_world x t d)) ex_parse ?p = Some \<lparr>bi_qcow2 = ?p, bi_manifest = (''/c/s'', ''a.manifest.json''),
      bi_major = ''13'', bi_variant = ''GAPPS'', bi_built_at = ''1''\<rparr>" for x t d
    by (simp add: info_for_def m s ex_world_def ex_parse_def with_file_name_def QCOW2_EXT_def Let_def)
  have iid: "info_id \<lparr>bi_qcow2 = ?p, bi_manifest = (''/c/s'', ''a.manifest.json''),
      bi_major = ''13'', bi_variant = ''GAPPS'', bi_built_at = ''1''\<rparr> = ''android13-gapps-1''" by code_simp
  have ident: "image_identity (ex_world x t d) q = Inr (9, mtime_nanos (Some t))" for x t d q
    by (simp add: image_identity_def ex_world_def)
  have "sha256_of (ex_world ''A'' 5 1) ?p = Inr ''01''"
    by (simp add: sha256_of_def ex_world_def show_byte_hex_def hex_digits_small)
  then have "sha256_with_memo ex_json (ex_world ''A'' 5 1) ?p None = (Inr ''01'', None)"
    by (simp add: sha256_with_memo_def ident load_memo_def store_memo_def ex_json_def)
  then have d: "verify_or_derive_pin ex_json ex_parse (ex_world ''A'' 5 1) ?p None None
      = (Inr (Some \<lparr>pin_id = ''android13-gapps-1'', pin_sha256 = ''01''\<rparr>), None)"
    by (simp add: verify_or_derive_pin_def inf iid)
  show ?thesis
    using pin_accepts_exactly[OF j memo_valid_empty w(1) w(2) d ident] pin_accepts_exactly[OF j memo_valid_empty w(1) w(1) d ident]
    by (simp add: inf) (simp add: ex_world_def)
qed

end
