(* ===== verification/ImageDownload.thy ===== *)
theory ImageDownload
  imports BaseImages
begin

text \<open>
  Fetching published base images (\<open>services/andler-disk/src/base_image_download.rs\<close>,
  \<open>diskspace.rs\<close>) and choosing one (\<open>apps/daemon/src/daemon/image_ops.rs\<close>).

  The network answers requests and keeps a state of its own; an answer is a status and the chunks of
  its body. The host's file system is a map from paths to contents, with the faults it raises as
  functions; the JSON readers, the hash and the decompressor are parameters. An installed path is
  its directory and its name, as in \<open>BaseImages\<close>. Sums of bytes are 64-bit and wrap.
\<close>

section \<open>Texts of disk errors\<close>

definition show_int :: "int \<Rightarrow> string" where
  "show_int n = (if n < 0 then ''-'' @ show_nat (nat (- n)) else show_nat (nat n))"

fun disk_error_text :: "disk_error \<Rightarrow> string" where
  "disk_error_text (SpawnFailed e) = ''failed to spawn qemu-img: '' @ e"
| "disk_error_text (CommandFailed n e) = ''qemu-img exited with status '' @ show_int n @ '': '' @ e"
| "disk_error_text (BackingFileNotFound p) = ''backing file does not exist: '' @ p"
| "disk_error_text (ParseError e) = ''failed to parse qemu-img output: '' @ e"
| "disk_error_text (DiskIo p e) = ''filesystem error at '' @ p @ '': '' @ e"
| "disk_error_text (FileSystem e) = ''filesystem operation failed: '' @ e"
| "disk_error_text (OfflineGuestFailed e) = ''offline guest operation failed: '' @ e"
| "disk_error_text (ShrinkRequiresConfirmation p c r) =
     ''shrinking '' @ p @ '' from '' @ show_word c @ '' to '' @ show_word r @ '' bytes requires ''
     @ ''explicit confirmation (risk of data loss if the guest filesystem was not shrunk first)''"
| "disk_error_text (CompactNotApplicable p f) =
     ''compact is not applicable to `'' @ f @ ''` disks (only qcow2 has reclaimable metadata): '' @ p"
| "disk_error_text (PackageManagerNotFound d) =
     ''no supported package manager (apt/dnf/pacman) found in the guest filesystem: '' @ d"
| "disk_error_text (AgentAlreadyInstalled p) = ''package `'' @ p @ ''` is already installed in guest filesystem''"
| "disk_error_text (AgentNotInstalled p) = ''package `'' @ p @ ''` is not installed in guest filesystem''"
| "disk_error_text (InvalidPackageName p r) = ''cannot run the guest's package manager with `'' @ p @ ''`: '' @ r"
| "disk_error_text (DiskGuestAgentUnavailable i) = ''QEMU guest agent is not available in instance '' @ i"
| "disk_error_text (InsufficientDiskSpace p r a) =
     ''not enough disk space at '' @ p @ '': '' @ show_word a @ '' bytes free, ~'' @ show_word r @ '' bytes needed''"
| "disk_error_text (NoGuestOs p) = 
     ''no installed guest OS found on '' @ p @ '' -- the disk has no root filesystem ''
     @ ''libguestfs can inspect (an ISO-install VM has none until the ISO installs one)''"
| "disk_error_text (ImageIndex u m) = ''cannot read the base-image release index at '' @ u @ '': '' @ m"
| "disk_error_text (ImageDownload a m) = ''cannot download base-image asset `'' @ a @ ''`: '' @ m"
| "disk_error_text (ImageVerify m) = ''base-image verification failed: '' @ m"

section \<open>The source of published images\<close>

definition DEFAULT_REPO :: string where "DEFAULT_REPO = ''hateoff0/andler''"
definition DEFAULT_API_BASE :: string where "DEFAULT_API_BASE = ''https://api.github.com''"
definition REPO_ENV :: string where "REPO_ENV = ''ANDLERD_IMAGE_REPO''"
definition API_BASE_ENV :: string where "API_BASE_ENV = ''ANDLERD_IMAGE_API_BASE''"
definition TOKEN_ENV :: string where "TOKEN_ENV = ''ANDLERD_IMAGE_TOKEN''"
definition TOKEN_FALLBACK_ENVS :: "string list" where "TOKEN_FALLBACK_ENVS = [''GH_TOKEN'', ''GITHUB_TOKEN'']"
definition RELEASE_TAG_PREFIX :: string where "RELEASE_TAG_PREFIX = ''base-image-android''"
definition ACCEPT_JSON :: string where "ACCEPT_JSON = ''application/vnd.github+json''"
definition ACCEPT_ASSET :: string where "ACCEPT_ASSET = ''application/octet-stream''"
definition MAX_SCANNED_RELEASES :: nat where "MAX_SCANNED_RELEASES = 30"
definition MAX_ATTEMPTS :: nat where "MAX_ATTEMPTS = 3"
definition PROGRESS_STEP_BYTES :: u64 where "PROGRESS_STEP_BYTES = 8 * 1024 * 1024"
definition CATALOG_TTL :: nat where "CATALOG_TTL = 300"
definition READ_BUFFER :: nat where "READ_BUFFER = 4 * 1024 * 1024"

record image_source =
  is_repo :: string
  is_api_base :: string
  is_token :: "string option"

definition blank :: "string \<Rightarrow> bool" where
  "blank s \<longleftrightarrow> trim s = []"

definition image_source_new :: "string \<Rightarrow> string \<Rightarrow> image_source" where
  "image_source_new repo api = \<lparr>is_repo = repo, is_api_base = rev (dropWhile (\<lambda>c. c = CHR ''/'') (rev api)), is_token = None\<rparr>"

definition with_token :: "image_source \<Rightarrow> string option \<Rightarrow> image_source" where
  "with_token s t = s\<lparr>is_token := (case t of Some v \<Rightarrow> if blank v then None else Some v | None \<Rightarrow> None)\<rparr>"

definition env_or :: "(string \<Rightarrow> string option) \<Rightarrow> string \<Rightarrow> string \<Rightarrow> string" where
  "env_or env k d = (case env k of Some v \<Rightarrow> if blank v then d else v | None \<Rightarrow> d)"

definition source_from_env :: "(string \<Rightarrow> string option) \<Rightarrow> image_source" where
  "source_from_env env =
     with_token (image_source_new (env_or env REPO_ENV DEFAULT_REPO) (env_or env API_BASE_ENV DEFAULT_API_BASE))
       (find (\<lambda>v. \<not> blank v) (List.map_filter env (TOKEN_ENV # TOKEN_FALLBACK_ENVS)))"

definition describe_source :: "image_source \<Rightarrow> string" where
  "describe_source s = is_repo s @ '' (api '' @ is_api_base s @ '')''"

definition release_page :: "image_source \<Rightarrow> string" where
  "release_page s = ''https://github.com/'' @ is_repo s @ ''/releases''"

definition releases_url :: "image_source \<Rightarrow> string" where
  "releases_url s = is_api_base s @ ''/repos/'' @ is_repo s @ ''/releases''"

section \<open>Images and requests for them\<close>

record remote_asset =
  ra_name :: string
  ra_url :: string
  ra_size :: u64

datatype payload = PartsPayload "remote_asset list" | ZstdPayload remote_asset | Qcow2Payload remote_asset

fun payload_assets :: "payload \<Rightarrow> remote_asset list" where
  "payload_assets (PartsPayload as) = as"
| "payload_assets (ZstdPayload a) = [a]"
| "payload_assets (Qcow2Payload a) = [a]"

fun is_compressed :: "payload \<Rightarrow> bool" where
  "is_compressed (Qcow2Payload _) = False"
| "is_compressed _ = True"

definition download_bytes :: "payload \<Rightarrow> u64" where
  "download_bytes p = sum_list (map ra_size (payload_assets p))"

record remote_image =
  ri_tag :: string
  ri_stem :: string
  ri_manifest :: image_manifest
  ri_raw :: string
  ri_payload :: payload

definition manifest_id :: "image_manifest \<Rightarrow> string" where
  "manifest_id m = image_id (im_major m) (im_variant m) (im_built_at m)"

record image_filter =
  if_major :: "string option"
  if_variant :: "string option"

definition eq_ignore_ascii_case :: "string \<Rightarrow> string \<Rightarrow> bool" where
  "eq_ignore_ascii_case a b \<longleftrightarrow> to_lower a = to_lower b"

definition filter_matches :: "image_filter \<Rightarrow> image_manifest \<Rightarrow> bool" where
  "filter_matches f m \<longleftrightarrow>
     (case if_major f of Some v \<Rightarrow> im_major m = v | None \<Rightarrow> True) \<and>
     (case if_variant f of Some v \<Rightarrow> eq_ignore_ascii_case (im_variant m) v | None \<Rightarrow> True)"

definition describe_filter :: "image_filter \<Rightarrow> string" where
  "describe_filter f =
     (case (if_major f, if_variant f) of
        (Some a, Some v) \<Rightarrow> ''Android '' @ a @ '' '' @ v
      | (Some a, None) \<Rightarrow> ''Android '' @ a
      | (None, Some v) \<Rightarrow> v
      | (None, None) \<Rightarrow> ''any Android version'')"

datatype fetch_phase = Downloading | Verifying | Extracting | Installing

record fetch_progress =
  fp_phase :: fetch_phase
  fp_asset :: string
  fp_index :: u32
  fp_count :: u32
  fp_downloaded :: u64
  fp_total :: u64

record fetch_outcome =
  fo_qcow2 :: cache_path
  fo_manifest :: cache_path
  fo_reused :: bool

section \<open>The network and the catalog cache\<close>

text \<open>An answer to a request: its status, the chunks of its body and the error that broke it off.\<close>

record http_response =
  hr_status :: nat
  hr_chunks :: "string list"
  hr_broken :: "string option"

record 'n network =
  nw_client :: "string option"
  nw_send :: "string \<Rightarrow> string \<Rightarrow> string option \<Rightarrow> 'n \<Rightarrow> (string + http_response) \<times> 'n"
  nw_sleep :: "nat \<Rightarrow> 'n \<Rightarrow> 'n"
  nw_now :: "'n \<Rightarrow> nat"
  nw_status_text :: "nat \<Rightarrow> string"

type_synonym doc_cache = "string \<Rightarrow> (nat \<times> string) option"

definition is_success :: "nat \<Rightarrow> bool" where
  "is_success s \<longleftrightarrow> 200 \<le> s \<and> s < 300"

definition is_server_error :: "nat \<Rightarrow> bool" where
  "is_server_error s \<longleftrightarrow> 500 \<le> s \<and> s < 600"

definition source_client :: "'n network \<Rightarrow> image_source \<Rightarrow> disk_error + unit" where
  "source_client nw src =
     (case nw_client nw of None \<Rightarrow> Inr () | Some e \<Rightarrow> Inl (ImageIndex (releases_url src) (''failed to build http client: '' @ e)))"

definition cached_document :: "nat \<Rightarrow> string \<Rightarrow> doc_cache \<Rightarrow> string option \<times> doc_cache" where
  "cached_document now k c =
     (case c k of
        Some (at, body) \<Rightarrow> if now - at < CATALOG_TTL then (Some body, c) else (None, c(k := None))
      | None \<Rightarrow> (None, c))"

definition remember_document :: "nat \<Rightarrow> string \<Rightarrow> string \<Rightarrow> doc_cache \<Rightarrow> doc_cache" where
  "remember_document now k body c = c(k \<mapsto> (now, body))"

definition index_failure :: "image_source \<Rightarrow> string \<Rightarrow> string \<Rightarrow> string \<Rightarrow> disk_error" where
  "index_failure src url what detail =
     (let hint =
        (if \<not> contains ''HTTP '' detail
         then '' -- cannot reach '' @ is_api_base src @ ''; check the network, or point '' @ REPO_ENV @ '' / ''
              @ API_BASE_ENV @ '' at a mirror or a fixture server''
         else if is_token src = None then
           (if contains ''404'' detail
            then '' -- '' @ is_repo src @ '' is private (or the name is wrong); set '' @ TOKEN_ENV
                 @ '' to a token with read access to it''
            else if contains ''403'' detail \<or> contains ''429'' detail
            then '' -- GitHub throttles unauthenticated requests to 60 per hour; set '' @ TOKEN_ENV @ '' to raise the limit''
            else [])
         else if contains ''401'' detail \<or> contains ''403'' detail
         then '' -- check that '' @ TOKEN_ENV @ '' can read '' @ is_repo src
         else [])
      in ImageIndex url (what @ '': '' @ detail @ hint))"

text \<open>The attempts left, the last error so far, the network and the cache.\<close>

fun get_attempts :: "'n network \<Rightarrow> image_source \<Rightarrow> string \<Rightarrow> string \<Rightarrow> nat \<Rightarrow> string \<Rightarrow> 'n \<times> doc_cache \<Rightarrow>
    (string + string) \<times> 'n \<times> doc_cache" where
  "get_attempts nw src url accept 0 prev st = (Inl prev, st)"
| "get_attempts nw src url accept (Suc n) prev (net, cache) =
     (let attempt = MAX_ATTEMPTS - n;
          again = (\<lambda>e net'. if 0 < n then get_attempts nw src url accept n e (nw_sleep nw attempt net', cache)
                           else (Inl e, net', cache)) in
      case nw_send nw url accept (is_token src) net of
        (Inl e, net') \<Rightarrow> again e net'
      | (Inr r, net') \<Rightarrow>
          (if is_success (hr_status r) then
             (case hr_broken r of
                None \<Rightarrow> (let body = concat (hr_chunks r) in
                   (Inr body, net', remember_document (nw_now nw net') (accept @ '' '' @ url) body cache))
              | Some e \<Rightarrow> again (''cannot read the response body: '' @ e) net')
           else
             (let e = ''HTTP '' @ nw_status_text nw (hr_status r) in
              if is_server_error (hr_status r) then again e net' else (Inl e, net', cache))))"

definition get_bytes :: "'n network \<Rightarrow> image_source \<Rightarrow> string \<Rightarrow> string \<Rightarrow> string \<Rightarrow> 'n \<times> doc_cache \<Rightarrow>
    (disk_error + string) \<times> 'n \<times> doc_cache" where
  "get_bytes nw src url what accept st =
     (case cached_document (nw_now nw (fst st)) (accept @ '' '' @ url) (snd st) of
        (Some body, c) \<Rightarrow> (Inr body, fst st, c)
      | (None, c) \<Rightarrow>
          (case get_attempts nw src url accept MAX_ATTEMPTS [] (fst st, c) of
             (Inr body, st') \<Rightarrow> (Inr body, st')
           | (Inl e, st') \<Rightarrow> (Inl (index_failure src url what e), st')))"

section \<open>The catalog\<close>

record github_asset =
  ga_name :: string
  ga_url :: string
  ga_size :: u64

record github_release =
  rl_tag :: string
  rl_draft :: bool
  rl_assets :: "github_asset list"

record image_readers =
  rd_releases :: "string \<Rightarrow> string + github_release list"
  rd_manifest :: "string \<Rightarrow> string + image_manifest"

definition find_asset :: "github_release \<Rightarrow> string \<Rightarrow> github_asset option" where
  "find_asset rel n = find (\<lambda>a. ga_name a = n) (rl_assets rel)"

definition remote_of :: "github_asset \<Rightarrow> remote_asset" where
  "remote_of a = \<lparr>ra_name = ga_name a, ra_url = ga_url a, ra_size = ga_size a\<rparr>"

definition single_asset_payload :: "github_release \<Rightarrow> string \<Rightarrow> disk_error + payload" where
  "single_asset_payload rel stem =
     (case find_asset rel (stem @ ''.qcow2.zst'') of
        Some a \<Rightarrow> Inr (ZstdPayload (remote_of a))
      | None \<Rightarrow>
          (case find_asset rel (stem @ ''.qcow2'') of
             Some a \<Rightarrow> Inr (Qcow2Payload (remote_of a))
           | None \<Rightarrow> Inl (ImageIndex (rl_tag rel)
               (''release has '' @ stem @ ''.manifest.json but no matching .qcow2 asset''))))"

fun parts_payload :: "github_release \<Rightarrow> manifest_part list \<Rightarrow> disk_error + remote_asset list" where
  "parts_payload rel [] = Inr []"
| "parts_payload rel (part # ps) =
     (case find_asset rel (mp_name part) of
        None \<Rightarrow> Inl (ImageIndex (rl_tag rel) (''manifest lists part `'' @ mp_name part @ ''` but the release has no such asset''))
      | Some a \<Rightarrow> rbind (parts_payload rel ps) (\<lambda>as.
          Inr (\<lparr>ra_name = ga_name a, ra_url = ga_url a,
                 ra_size = (if ga_size a = 0 then mp_size part else ga_size a)\<rparr> # as)))"

definition image_of_release :: "github_release \<Rightarrow> string \<Rightarrow> image_manifest \<Rightarrow> string \<Rightarrow> disk_error + remote_image" where
  "image_of_release rel stem m raw =
     rbind (if im_parts m = [] then single_asset_payload rel stem
            else rbind (parts_payload rel (im_parts m)) (\<lambda>as. Inr (PartsPayload as))) (\<lambda>pl.
       Inr \<lparr>ri_tag = rl_tag rel, ri_stem = stem, ri_manifest = m, ri_raw = raw, ri_payload = pl\<rparr>)"

definition remote_image_from_release :: "'n network \<Rightarrow> image_readers \<Rightarrow> image_source \<Rightarrow> github_release \<Rightarrow> 'n \<times> doc_cache \<Rightarrow>
    (disk_error + remote_image option) \<times> 'n \<times> doc_cache" where
  "remote_image_from_release nw rd src rel st =
     (case find (\<lambda>a. ends_with MANIFEST_EXT (ga_name a)) (rl_assets rel) of
        None \<Rightarrow> (Inr None, st)
      | Some a \<Rightarrow>
          (let stem = (case strip_suffix MANIFEST_EXT (ga_name a) of Some x \<Rightarrow> x | None \<Rightarrow> ga_name a) in
           case get_bytes nw src (ga_url a) ''manifest'' ACCEPT_ASSET st of
             (Inl e, st') \<Rightarrow> (Inl e, st')
           | (Inr raw, st') \<Rightarrow>
               (case rd_manifest rd raw of
                  Inl e \<Rightarrow> (Inl (ImageIndex (ga_url a)
                    (''release '' @ rl_tag rel @ '': cannot parse base image manifest \"<remote>\": '' @ e)), st')
                | Inr m \<Rightarrow> (rbind (image_of_release rel stem m raw) (\<lambda>i. Inr (Some i)), st'))))"

text \<open>The images found, the releases skipped and the number of releases scanned.\<close>

fun scan_releases :: "'n network \<Rightarrow> image_readers \<Rightarrow> image_source \<Rightarrow> image_filter \<Rightarrow> github_release list \<Rightarrow> nat \<Rightarrow> 'n \<times> doc_cache \<Rightarrow>
    (remote_image list \<times> string list \<times> nat) \<times> 'n \<times> doc_cache" where
  "scan_releases nw rd src f [] scanned st = (([], [], scanned), st)"
| "scan_releases nw rd src f (rel # rels) scanned st =
     (if rl_draft rel \<or> \<not> starts_with RELEASE_TAG_PREFIX (rl_tag rel) then scan_releases nw rd src f rels scanned st
      else if MAX_SCANNED_RELEASES \<le> scanned then (([], [], scanned), st)
      else (case remote_image_from_release nw rd src rel st of (r, st1) \<Rightarrow>
        (case scan_releases nw rd src f rels (Suc scanned) st1 of ((is, sk, n), st2) \<Rightarrow>
          (case r of
             Inr (Some i) \<Rightarrow> ((if filter_matches f (ri_manifest i) then i # is else is, sk, n), st2)
           | Inr None \<Rightarrow> ((is, sk, n), st2)
           | Inl e \<Rightarrow> ((is, (rl_tag rel @ '': '' @ disk_error_text e) # sk, n), st2)))))"

definition remote_group :: "remote_image \<Rightarrow> string \<times> string" where
  "remote_group i = (im_major (ri_manifest i), to_upper (im_variant (ri_manifest i)))"

fun first_of_groups :: "(string \<times> string) list \<Rightarrow> remote_image list \<Rightarrow> remote_image list" where
  "first_of_groups seen [] = []"
| "first_of_groups seen (i # is) =
     (if remote_group i \<in> set seen then first_of_groups seen is
      else i # first_of_groups (seen @ [remote_group i]) is)"

definition remote_built_at :: "remote_image \<Rightarrow> string" where
  "remote_built_at i = im_built_at (ri_manifest i)"

definition list_remote :: "'n network \<Rightarrow> image_readers \<Rightarrow> image_source \<Rightarrow> image_filter \<Rightarrow> 'n \<times> doc_cache \<Rightarrow>
    (disk_error + remote_image list) \<times> 'n \<times> doc_cache" where
  "list_remote nw rd src f st =
     (case source_client nw src of
        Inl e \<Rightarrow> (Inl e, st)
      | Inr _ \<Rightarrow>
          (let url = releases_url src @ ''?per_page=100'' in
           case get_bytes nw src url ''release index'' ACCEPT_JSON st of
             (Inl e, st1) \<Rightarrow> (Inl e, st1)
           | (Inr raw, st1) \<Rightarrow>
               (case rd_releases rd raw of
                  Inl e \<Rightarrow> (Inl (ImageIndex url (''cannot parse the release index: '' @ e)), st1)
                | Inr rels \<Rightarrow>
                    (case scan_releases nw rd src f rels 0 st1 of
                       (([], reason # sk, n), st2) \<Rightarrow> (Inl (ImageIndex (releases_url src)
                         (''found '' @ show_nat (length (reason # sk)) @ '' published base-image release(s) but could not ''
                          @ ''read any of them ('' @ show_nat n @ '' total skipped): '' @ reason)), st2)
                     | ((is, _, _), st2) \<Rightarrow> (Inr (first_of_groups [] (sort_desc remote_built_at is)), st2)))))"

section \<open>Free space\<close>

text \<open>What the host answers: which paths exist, \<open>statvfs\<close> (free blocks and their size), and the
  error each file operation raises, if any; the hash; and the decompressor, which may refuse to start
  and gives the chunks it decodes with the error it ends in.\<close>

record host =
  ho_exists :: "string \<Rightarrow> bool"
  ho_statvfs :: "string \<Rightarrow> string + u64 \<times> u64"
  ho_mkdir :: "string \<Rightarrow> string option"
  ho_create :: "string \<Rightarrow> string option"
  ho_write :: "string \<Rightarrow> string option"
  ho_flush :: "string \<Rightarrow> string option"
  ho_open :: "string \<Rightarrow> string option"
  ho_rename :: "string \<Rightarrow> string \<Rightarrow> string option"
  ho_rmdir :: "string \<Rightarrow> string option"
  ho_sha256 :: "string \<Rightarrow> 8 word list"
  ho_zstd_open :: "string \<Rightarrow> string option"
  ho_zstd_read :: "string \<Rightarrow> string list \<times> string option"

lemma path_parent_shorter: "path_parent p = Some q \<Longrightarrow> length q < length p"
proof -
  assume a: "path_parent p = Some q"
  let ?r = "dropWhile (\<lambda>c. c \<noteq> CHR ''/'') (rev p)"
  have l: "length ?r \<le> length p" using length_dropWhile_le[of "\<lambda>c. c \<noteq> CHR ''/''" "rev p"] by simp
  have n: "p \<noteq> []" "p \<noteq> ''/''" using a by (auto simp: path_parent_def)
  then have "length p \<noteq> 0" by simp
  show ?thesis
  proof (cases "?r = [] \<or> tl ?r \<noteq> []")
    case True
    then show ?thesis using a l n by (cases ?r) (auto simp: path_parent_def Let_def split: if_splits)
  next
    case False
    then obtain c where r: "?r = [c]" by (cases ?r) auto
    then have q: "q = ''/''" using a n by (auto simp: path_parent_def Let_def)
    have "length p \<noteq> 1"
    proof
      assume "length p = 1"
      then obtain d where p: "p = [d]" by (cases p) auto
      then show False using r n by (auto split: if_splits)
    qed
    then show ?thesis using q \<open>length p \<noteq> 0\<close> by (cases p; cases "tl p") auto
  qed
qed

text \<open>The closest ancestor that exists.\<close>

function probe_dir :: "(string \<Rightarrow> bool) \<Rightarrow> string \<Rightarrow> string option" where
  "probe_dir ex p = (if ex p then Some p else (case path_parent p of None \<Rightarrow> None | Some q \<Rightarrow> probe_dir ex q))"
  by auto
termination by (relation "measure (\<lambda>(ex, p). length p)") (auto dest: path_parent_shorter)

declare probe_dir.simps [simp del]

definition available_bytes :: "host \<Rightarrow> string \<Rightarrow> disk_error + u64" where
  "available_bytes h path =
     (case probe_dir (ho_exists h) path of
        None \<Rightarrow> Inl (DiskIo path ''no existing ancestor directory found to check free space against'')
      | Some p \<Rightarrow>
          (if CHR 0x00 \<in> set p
           then Inl (DiskIo p ''path contains an interior NUL byte, cannot pass to statvfs(2)'')
           else (case ho_statvfs h p of Inl e \<Rightarrow> Inl (DiskIo p e) | Inr (blocks, unit) \<Rightarrow> Inr (blocks * unit))))"

definition check_available_space :: "host \<Rightarrow> string \<Rightarrow> u64 \<Rightarrow> disk_error + unit" where
  "check_available_space h path required =
     rbind (available_bytes h path) (\<lambda>av.
       if av < required then Inl (InsufficientDiskSpace path required av) else Inr ())"

definition saturating_add :: "u64 \<Rightarrow> u64 \<Rightarrow> u64" where
  "saturating_add a b = (if unat a + unat b < 2 ^ 64 then a + b else - 1)"

section \<open>Fetching an image\<close>

record 'n fetch_state =
  fs_net :: 'n
  fs_files :: "string \<Rightarrow> string option"
  fs_progress :: "fetch_progress list"

type_synonym ('r, 'n) fetch = "'n fetch_state \<Rightarrow> (disk_error + 'r) \<times> 'n fetch_state"

definition NOT_FOUND :: string where "NOT_FOUND = ''No such file or directory (os error 2)''"

definition emit :: "fetch_progress \<Rightarrow> 'n fetch_state \<Rightarrow> 'n fetch_state" where
  "emit p st = st\<lparr>fs_progress := fs_progress st @ [p]\<rparr>"

definition put_file :: "string \<Rightarrow> string \<Rightarrow> 'n fetch_state \<Rightarrow> 'n fetch_state" where
  "put_file p c st = st\<lparr>fs_files := (fs_files st)(p \<mapsto> c)\<rparr>"

definition delete_file :: "string \<Rightarrow> 'n fetch_state \<Rightarrow> 'n fetch_state" where
  "delete_file p st = st\<lparr>fs_files := (fs_files st)(p := None)\<rparr>"

text \<open>\<open>ChainedReader\<close>: one read gives at most \<open>n\<close> bytes of the current file, and nothing once all are
  exhausted; and all the reads until then.\<close>

fun chained_read :: "nat \<Rightarrow> string list \<Rightarrow> string \<times> string list" where
  "chained_read n [] = ([], [])"
| "chained_read n (f # fs) = (if f = [] then chained_read n fs else (take n f, drop n f # fs))"

lemma chained_read_shorter:
  "fst (chained_read n fs) \<noteq> [] \<Longrightarrow> sum_list (map length (snd (chained_read n fs))) < sum_list (map length fs)"
  by (induction n fs rule: chained_read.induct) (auto split: if_splits)

function read_all :: "nat \<Rightarrow> string list \<Rightarrow> string list" where
  "read_all n fs = (if fst (chained_read n fs) = [] then []
     else fst (chained_read n fs) # read_all n (snd (chained_read n fs)))"
  by auto
termination by (relation "measure (\<lambda>(n, fs). sum_list (map length fs))") (auto simp: chained_read_shorter)

declare read_all.simps [simp del]

text \<open>Both copying loops: every chunk is hashed and written, with a report each eight mebibytes.\<close>

fun pour :: "host \<Rightarrow> string \<Rightarrow> (u64 \<Rightarrow> fetch_progress) \<Rightarrow> string list \<Rightarrow> string \<Rightarrow> u64 \<Rightarrow> u64 \<Rightarrow> (string \<times> u64, 'n) fetch" where
  "pour h dest mk [] content written last_report st = (Inr (content, written), st)"
| "pour h dest mk (ch # chs) content written last_report st =
     (case ho_write h dest of
        Some e \<Rightarrow> (Inl (DiskIo dest e), st)
      | None \<Rightarrow>
          (let w = written + of_nat (length ch); st1 = put_file dest (content @ ch) st in
           if PROGRESS_STEP_BYTES \<le> w - last_report
           then pour h dest mk chs (content @ ch) w w (emit (mk w) st1)
           else pour h dest mk chs (content @ ch) w last_report st1))"

definition asset_progress :: "remote_asset \<Rightarrow> u64 \<Rightarrow> u64 \<Rightarrow> u64 \<Rightarrow> fetch_progress" where
  "asset_progress a already tot w =
     \<lparr>fp_phase = Downloading, fp_asset = ra_name a, fp_index = 0, fp_count = 0, fp_downloaded = already + w, fp_total = tot\<rparr>"

definition download_asset_once ::
    "'n network \<Rightarrow> host \<Rightarrow> image_source \<Rightarrow> string \<Rightarrow> string option \<Rightarrow> u64 \<Rightarrow> u64 \<Rightarrow> remote_asset \<Rightarrow> (unit, 'n) fetch" where
  "download_asset_once nw h src dest expected already tot a st =
     (case nw_send nw (ra_url a) ACCEPT_ASSET (is_token src) (fs_net st) of
        (Inl e, net) \<Rightarrow> (Inl (ImageDownload (ra_name a) (''request failed: '' @ e)), st\<lparr>fs_net := net\<rparr>)
      | (Inr r, net) \<Rightarrow>
          (let st = st\<lparr>fs_net := net\<rparr> in
           if \<not> is_success (hr_status r)
           then (Inl (ImageDownload (ra_name a) (''HTTP '' @ nw_status_text nw (hr_status r))), st)
           else (case ho_create h dest of
               Some e \<Rightarrow> (Inl (DiskIo dest e), st)
             | None \<Rightarrow>
                 (case pour h dest (asset_progress a already tot) (hr_chunks r) [] 0 0 (put_file dest [] st) of
                    (Inl e, st1) \<Rightarrow> (Inl e, st1)
                  | (Inr (content, written), st1) \<Rightarrow>
                      (case hr_broken r of
                         Some e \<Rightarrow> (Inl (ImageDownload (ra_name a) (''transfer interrupted: '' @ e)), st1)
                       | None \<Rightarrow>
                           (case ho_flush h dest of
                              Some e \<Rightarrow> (Inl (DiskIo dest e), st1)
                            | None \<Rightarrow>
                                (if ra_size a > 0 \<and> written \<noteq> ra_size a
                                 then (Inl (ImageDownload (ra_name a) (''got '' @ show_word written
                                   @ '' bytes, the release lists '' @ show_word (ra_size a) @ '' bytes'')), st1)
                                 else (case expected of
                                     Some x \<Rightarrow>
                                       (if hex_text (ho_sha256 h content) \<noteq> x
                                        then (Inl (ImageVerify (''asset `'' @ ra_name a
                                          @ ''` does not match its manifest sha256 (expected '' @ x @ '', got ''
                                          @ hex_text (ho_sha256 h content) @ '')'')), st1)
                                        else (Inr (), emit (asset_progress a already tot written) st1))
                                   | None \<Rightarrow> (Inr (), emit (asset_progress a already tot written) st1)))))))))"

text \<open>The attempts left; a failed one leaves no file.\<close>

fun download_attempts ::
    "'n network \<Rightarrow> host \<Rightarrow> image_source \<Rightarrow> string \<Rightarrow> string option \<Rightarrow> u64 \<Rightarrow> u64 \<Rightarrow> remote_asset \<Rightarrow> nat \<Rightarrow> string \<Rightarrow> (unit, 'n) fetch" where
  "download_attempts nw h src dest expected already tot a 0 prev st =
     (Inl (ImageDownload (ra_name a) (prev @ '' (gave up after '' @ show_nat MAX_ATTEMPTS @ '' attempts)'')), st)"
| "download_attempts nw h src dest expected already tot a (Suc n) prev st =
     (case download_asset_once nw h src dest expected already tot a st of
        (Inr _, st1) \<Rightarrow> (Inr (), st1)
      | (Inl e, st1) \<Rightarrow>
          (let st2 = delete_file dest st1;
               st3 = (if 0 < n then st2\<lparr>fs_net := nw_sleep nw (MAX_ATTEMPTS - n) (fs_net st2)\<rparr> else st2) in
           download_attempts nw h src dest expected already tot a n (disk_error_text e) st3))"

definition download_asset ::
    "'n network \<Rightarrow> host \<Rightarrow> image_source \<Rightarrow> string \<Rightarrow> string option \<Rightarrow> u64 \<Rightarrow> u64 \<Rightarrow> remote_asset \<Rightarrow> (unit, 'n) fetch" where
  "download_asset nw h src dest expected already tot a = download_attempts nw h src dest expected already tot a MAX_ATTEMPTS []"

definition part_sha :: "image_manifest \<Rightarrow> string \<Rightarrow> string option" where
  "part_sha m n = map_option mp_sha256 (find (\<lambda>p. mp_name p = n) (im_parts m))"

text \<open>A staged file is used again when its length and its known digest are right.\<close>

definition staged_ok :: "host \<Rightarrow> string \<Rightarrow> remote_asset \<Rightarrow> string option \<Rightarrow> (string \<Rightarrow> string option) \<Rightarrow> bool" where
  "staged_ok h local a expected files \<longleftrightarrow>
     (case files local of
        None \<Rightarrow> False
      | Some c \<Rightarrow> of_nat (length c) = ra_size a \<and> 0 < ra_size a \<and>
          (case expected of None \<Rightarrow> False | Some x \<Rightarrow> ho_open h local = None \<and> hex_text (ho_sha256 h c) = x))"

fun fetch_assets ::
    "'n network \<Rightarrow> host \<Rightarrow> image_source \<Rightarrow> image_manifest \<Rightarrow> string \<Rightarrow> u32 \<Rightarrow> u64 \<Rightarrow> nat \<Rightarrow> u64 \<Rightarrow> remote_asset list \<Rightarrow> (u64, 'n) fetch" where
  "fetch_assets nw h src m staging cnt tot index downloaded [] st = (Inr downloaded, st)"
| "fetch_assets nw h src m staging cnt tot index downloaded (a # as) st =
     (let local = path_join staging (ra_name a); expected = part_sha m (ra_name a) in
      if staged_ok h local a expected (fs_files st)
      then fetch_assets nw h src m staging cnt tot (Suc index) (downloaded + ra_size a) as st
      else (case download_asset nw h src local expected downloaded tot a
              (emit \<lparr>fp_phase = Downloading, fp_asset = ra_name a, fp_index = of_nat (Suc index), fp_count = cnt,
                     fp_downloaded = downloaded, fp_total = tot\<rparr> st) of
          (Inl e, st1) \<Rightarrow> (Inl e, st1)
        | (Inr _, st1) \<Rightarrow> fetch_assets nw h src m staging cnt tot (Suc index) (downloaded + ra_size a) as st1))"

fun open_all :: "host \<Rightarrow> string \<Rightarrow> (string \<Rightarrow> string option) \<Rightarrow> remote_asset list \<Rightarrow> disk_error + string list" where
  "open_all h staging files [] = Inr []"
| "open_all h staging files (a # as) =
     (let p = path_join staging (ra_name a) in
      case ho_open h p of
        Some e \<Rightarrow> Inl (DiskIo p e)
      | None \<Rightarrow> (case files p of None \<Rightarrow> Inl (DiskIo p NOT_FOUND)
          | Some c \<Rightarrow> rbind (open_all h staging files as) (\<lambda>cs. Inr (c # cs))))"

definition extract_progress :: "string \<Rightarrow> u64 \<Rightarrow> u64 \<Rightarrow> fetch_progress" where
  "extract_progress name tot w =
     \<lparr>fp_phase = Extracting, fp_asset = name, fp_index = 0, fp_count = 0, fp_downloaded = w, fp_total = tot\<rparr>"

text \<open>The chunks to write: what the decompressor makes of the whole stream, or the stream as it is read.\<close>

definition payload_chunks :: "host \<Rightarrow> bool \<Rightarrow> string list \<Rightarrow> string list \<times> string option" where
  "payload_chunks h compressed files =
     (if compressed then ho_zstd_read h (concat (read_all READ_BUFFER files)) else (read_all READ_BUFFER files, None))"

definition extract_qcow2 :: "host \<Rightarrow> string list \<Rightarrow> bool \<Rightarrow> string \<Rightarrow> string \<Rightarrow> string option \<Rightarrow> u64 \<Rightarrow> (unit, 'n) fetch" where
  "extract_qcow2 h files compressed partial name expected tot st =
     (case (if compressed then ho_zstd_open h (concat (read_all READ_BUFFER files)) else None) of
        Some e \<Rightarrow> (Inl (ImageDownload name (''cannot open the compressed payload: '' @ e)), st)
      | None \<Rightarrow>
          (case ho_create h partial of
             Some e \<Rightarrow> (Inl (DiskIo partial e), st)
           | None \<Rightarrow>
               (case payload_chunks h compressed files of (chunks, broken) \<Rightarrow>
                 (case pour h partial (extract_progress name tot) chunks [] 0 0 (put_file partial [] st) of
                    (Inl e, st1) \<Rightarrow> (Inl e, st1)
                  | (Inr (content, written), st1) \<Rightarrow>
                      (case broken of
                         Some e \<Rightarrow> (Inl (ImageDownload name
                           (''cannot unpack the payload (the release's compressed stream looks truncated): '' @ e)), st1)
                       | None \<Rightarrow>
                           (case ho_flush h partial of
                              Some e \<Rightarrow> (Inl (DiskIo partial e), st1)
                            | None \<Rightarrow>
                                (case expected of
                                   Some x \<Rightarrow>
                                     (if hex_text (ho_sha256 h content) \<noteq> x
                                      then (Inl (ImageVerify (''unpacked image does not match its manifest (expected sha256 ''
                                        @ x @ '', got '' @ hex_text (ho_sha256 h content)
                                        @ ''); the download was corrupted or the release is inconsistent'')), st1)
                                      else (Inr (), emit (extract_progress name (max tot written) written) st1))
                                 | None \<Rightarrow> (Inr (), emit (extract_progress name (max tot written) written) st1))))))))"

definition move_file :: "host \<Rightarrow> string \<Rightarrow> string \<Rightarrow> (unit, 'n) fetch" where
  "move_file h a b st =
     (case ho_rename h a b of
        Some e \<Rightarrow> (Inl (DiskIo b e), st)
      | None \<Rightarrow> (Inr (), st\<lparr>fs_files := ((fs_files st)(a := None))(b := fs_files st a)\<rparr>))"

text \<open>The manifest is moved into place first, then the image.\<close>

definition install_files :: "host \<Rightarrow> remote_image \<Rightarrow> string \<Rightarrow> string \<Rightarrow> cache_path \<Rightarrow> (unit, 'n) fetch" where
  "install_files h img staging partial qcow2 st =
     (let tmp = path_join staging (ri_stem img @ MANIFEST_EXT) in
      case ho_create h tmp of
        Some e \<Rightarrow> (Inl (DiskIo tmp e), st)
      | None \<Rightarrow>
          (case ho_write h tmp of
             Some e \<Rightarrow> (Inl (DiskIo tmp e), put_file tmp [] st)
           | None \<Rightarrow>
               (case move_file h tmp (path_text (manifest_path_for qcow2)) (put_file tmp (ri_raw img) st) of
                  (Inl e, st1) \<Rightarrow> (Inl e, st1)
                | (Inr _, st1) \<Rightarrow> move_file h partial (path_text qcow2) st1)))"

definition fetch_into ::
    "'n network \<Rightarrow> host \<Rightarrow> image_source \<Rightarrow> remote_image \<Rightarrow> string \<Rightarrow> cache_path \<Rightarrow> (unit, 'n) fetch" where
  "fetch_into nw h src img staging qcow2 st =
     (let as = payload_assets (ri_payload img);
          cnt = of_nat (length as);
          tot = (case ri_payload img of PartsPayload _ \<Rightarrow> download_bytes (ri_payload img) | ZstdPayload a \<Rightarrow> ra_size a
            | Qcow2Payload a \<Rightarrow> ra_size a);
          unpacked = (case im_file_size (ri_manifest img) of Some n \<Rightarrow> n | None \<Rightarrow> 0);
          name = ri_stem img @ ''.qcow2.partial'';
          partial = path_join staging name in
      case fetch_assets nw h src (ri_manifest img) staging cnt tot 0 0 as st of
        (Inl e, st1) \<Rightarrow> (Inl e, st1)
      | (Inr downloaded, st1) \<Rightarrow>
          (let st2 = emit \<lparr>fp_phase = Verifying, fp_asset = ri_stem img, fp_index = cnt, fp_count = cnt,
                          fp_downloaded = downloaded, fp_total = tot\<rparr> st1 in
           case open_all h staging (fs_files st2) as of
             Inl e \<Rightarrow> (Inl e, st2)
           | Inr contents \<Rightarrow>
               (case extract_qcow2 h contents (is_compressed (ri_payload img)) partial name (im_sha256 (ri_manifest img))
                       unpacked st2 of
                  (Inl e, st3) \<Rightarrow> (Inl e, st3)
                | (Inr _, st3) \<Rightarrow>
                    install_files h img staging partial qcow2
                      (emit \<lparr>fp_phase = Installing, fp_asset = ri_stem img, fp_index = cnt, fp_count = cnt,
                             fp_downloaded = unpacked, fp_total = unpacked\<rparr> st3))))"

text \<open>\<open>remove_dir_all\<close>: every file below the directory goes, unless it fails.\<close>

definition below_dir :: "string \<Rightarrow> string \<Rightarrow> bool" where
  "below_dir d p \<longleftrightarrow> starts_with (d @ ''/'') p"

definition remove_staging :: "host \<Rightarrow> string \<Rightarrow> 'n fetch_state \<Rightarrow> 'n fetch_state" where
  "remove_staging h d st =
     (case ho_rmdir h d of
        Some _ \<Rightarrow> st
      | None \<Rightarrow> st\<lparr>fs_files := (\<lambda>p. if below_dir d p then None else fs_files st p)\<rparr>)"

definition installed_under :: "(string \<Rightarrow> string + image_manifest) \<Rightarrow> (string \<Rightarrow> string option) \<Rightarrow> cache_path \<Rightarrow> string \<Rightarrow> bool" where
  "installed_under parse files qcow2 i \<longleftrightarrow>
     files (path_text qcow2) \<noteq> None \<and>
     (case files (path_text (manifest_path_for qcow2)) of
        None \<Rightarrow> False
      | Some raw \<Rightarrow> (case parse raw of Inl _ \<Rightarrow> False | Inr m \<Rightarrow> manifest_id m = i))"

definition image_dir :: "string \<Rightarrow> remote_image \<Rightarrow> string" where
  "image_dir dir img = path_join dir (install_subdir (im_major (ri_manifest img)) (im_variant (ri_manifest img)))"

definition image_path :: "string \<Rightarrow> remote_image \<Rightarrow> cache_path" where
  "image_path dir img = (image_dir dir img, ri_stem img @ QCOW2_EXT)"

definition staging_dir :: "string \<Rightarrow> remote_image \<Rightarrow> string" where
  "staging_dir dir img = path_join (image_dir dir img) (''.fetch-'' @ ri_stem img)"

definition fetch_base_image ::
    "'n network \<Rightarrow> host \<Rightarrow> image_readers \<Rightarrow> string \<Rightarrow> image_source \<Rightarrow> remote_image \<Rightarrow> bool \<Rightarrow> (fetch_outcome, 'n) fetch" where
  "fetch_base_image nw h rd dir src img force st =
     (if im_sha256 (ri_manifest img) = None \<and> \<not> is_compressed (ri_payload img)
      then (Inl (ImageVerify (''release '' @ ri_tag img @ '' ships an uncompressed qcow2 without a sha256 in its manifest; ''
             @ ''refusing to install an image that cannot be verified'')), st)
      else
        (let target = image_dir dir img; qcow2 = image_path dir img; staging = staging_dir dir img;
             done = (\<lambda>again. \<lparr>fo_qcow2 = qcow2, fo_manifest = manifest_path_for qcow2, fo_reused = again\<rparr>) in
         case ho_mkdir h target of
           Some e \<Rightarrow> (Inl (DiskIo target e), st)
         | None \<Rightarrow>
             (if \<not> force \<and> installed_under (rd_manifest rd) (fs_files st) qcow2 (manifest_id (ri_manifest img))
              then (Inr (done True), st)
              else (case ho_mkdir h staging of
                  Some e \<Rightarrow> (Inl (DiskIo staging e), st)
                | None \<Rightarrow>
                    (case check_available_space h target (saturating_add (download_bytes (ri_payload img))
                            (case im_file_size (ri_manifest img) of Some n \<Rightarrow> n | None \<Rightarrow> 0)) of
                       Inl e \<Rightarrow> (Inl e, st)
                     | Inr _ \<Rightarrow>
                         (case source_client nw src of
                            Inl e \<Rightarrow> (Inl e, st)
                          | Inr _ \<Rightarrow>
                              (case fetch_into nw h src img staging qcow2 st of (r, st1) \<Rightarrow>
                                (rbind r (\<lambda>_. Inr (done False)), remove_staging h staging st1))))))))"

section \<open>Choosing a published image\<close>

definition read_cached_manifest :: "(string \<Rightarrow> image_manifest option) \<Rightarrow> string \<Rightarrow> cache_root \<Rightarrow> base_image_info \<Rightarrow> image_manifest option" where
  "read_cached_manifest parse dir r i = Option.bind (file_at dir r (bi_manifest i)) parse"

definition installed_image :: "(string \<Rightarrow> image_manifest option) \<Rightarrow> string \<Rightarrow> cache_root \<Rightarrow> string \<Rightarrow> base_image_info option" where
  "installed_image parse dir r mid =
     (case collect_images_in parse dir r of
        Inl _ \<Rightarrow> None
      | Inr is \<Rightarrow> find (\<lambda>i. case read_cached_manifest parse dir r i of Some m \<Rightarrow> manifest_id m = mid | None \<Rightarrow> False) is)"

record image_selector =
  sl_major :: "string option"
  sl_variant :: "string option"
  sl_tag :: "string option"

definition selector_filter :: "image_selector \<Rightarrow> image_filter" where
  "selector_filter s = \<lparr>if_major = sl_major s, if_variant = sl_variant s\<rparr>"

definition describe_selector :: "image_selector \<Rightarrow> string" where
  "describe_selector s =
     (case sl_tag s of
        Some t \<Rightarrow> if t \<noteq> [] then ''release '' @ t else describe_filter (selector_filter s)
      | None \<Rightarrow> describe_filter (selector_filter s))"

definition validate_selector :: "image_selector \<Rightarrow> daemon_error + unit" where
  "validate_selector s =
     (if (case sl_tag s of Some t \<Rightarrow> t \<noteq> [] | None \<Rightarrow> False) \<or> sl_major s \<noteq> None then Inr ()
      else Inl (InvalidConfig (''downloading a base image needs either `android_version` (the newest matching ''
        @ ''published build) or `release_tag` (one exact build)'')))"

record remote_image_entry =
  re_id :: string
  re_major :: string
  re_variant :: string
  re_built_at :: string
  re_tag :: string
  re_download_bytes :: u64
  re_installed_bytes :: "u64 option"
  re_installed :: bool
  re_path :: cache_path

definition entry_from_remote :: "(string \<Rightarrow> base_image_info option) \<Rightarrow> string \<Rightarrow> remote_image \<Rightarrow> remote_image_entry" where
  "entry_from_remote installed dir i =
     (let m = ri_manifest i in
      \<lparr>re_id = manifest_id m, re_major = im_major m, re_variant = im_variant m, re_built_at = im_built_at m,
       re_tag = ri_tag i, re_download_bytes = download_bytes (ri_payload i), re_installed_bytes = im_file_size m,
       re_installed = installed (manifest_id m) \<noteq> None,
       re_path = (case installed (manifest_id m) of Some c \<Rightarrow> bi_qcow2 c | None \<Rightarrow> image_path dir i)\<rparr>)"

definition image_source_error :: "image_source \<Rightarrow> string \<Rightarrow> daemon_error" where
  "image_source_error src msg =
     BaseImageUnavailable (msg @ '' -- published as GitHub releases by the project's CI ('' @ release_page src @ '')'')"

definition list_remote_base_images ::
    "'n network \<Rightarrow> image_readers \<Rightarrow> image_source \<Rightarrow> (string \<Rightarrow> base_image_info option) \<Rightarrow> string \<Rightarrow> image_selector \<Rightarrow> 'n \<times> doc_cache \<Rightarrow>
     (daemon_error + remote_image_entry list \<times> string) \<times> 'n \<times> doc_cache" where
  "list_remote_base_images nw rd src installed dir sel st =
     (case list_remote nw rd src (selector_filter sel) st of
        (Inl e, st1) \<Rightarrow> (Inl (image_source_error src (disk_error_text e)), st1)
      | (Inr is, st1) \<Rightarrow> (Inr (map (entry_from_remote installed dir) is, describe_source src), st1))"

definition select_image :: "image_source \<Rightarrow> remote_image list \<Rightarrow> image_selector \<Rightarrow> daemon_error + remote_image" where
  "select_image src is sel =
     (case (case sl_tag sel of Some t \<Rightarrow> if t \<noteq> [] then Some t else None | None \<Rightarrow> None) of
        Some t \<Rightarrow> ok_or (BaseImageUnavailable (''no published build carries release tag `'' @ t
            @ ''`; `andler image list` shows the available ones'')) (find (\<lambda>i. ri_tag i = t) is)
      | None \<Rightarrow> ok_or (BaseImageUnavailable (''the release pipeline has not published a base image for ''
            @ describe_selector sel @ '': nothing in '' @ describe_source src @ '' matches ('' @ show_nat (length is)
            @ '' published build(s) checked). Build one locally (`docker/images/build.sh <11|13> <VANILLA|GAPPS>`) or pick ''
            @ ''a published combination with `andler image list`''))
          (find (\<lambda>i. filter_matches (selector_filter sel) (ri_manifest i)) is))"

definition download_base_image ::
    "'n network \<Rightarrow> host \<Rightarrow> image_readers \<Rightarrow> string \<Rightarrow> image_source \<Rightarrow> image_selector \<Rightarrow> bool \<Rightarrow> doc_cache \<Rightarrow> 'n fetch_state \<Rightarrow>
     (daemon_error + fetch_outcome) \<times> 'n fetch_state \<times> doc_cache" where
  "download_base_image nw h rd dir src sel force cache st =
     (case validate_selector sel of
        Inl e \<Rightarrow> (Inl e, st, cache)
      | Inr _ \<Rightarrow>
          (case list_remote nw rd src (selector_filter sel) (fs_net st, cache) of
             (Inl e, net, c) \<Rightarrow> (Inl (image_source_error src (disk_error_text e)), st\<lparr>fs_net := net\<rparr>, c)
           | (Inr is, net, c) \<Rightarrow>
               (case select_image src is sel of
                  Inl e \<Rightarrow> (Inl e, st\<lparr>fs_net := net\<rparr>, c)
                | Inr i \<Rightarrow>
                    (case fetch_base_image nw h rd dir src i force (st\<lparr>fs_net := net\<rparr>) of
                       (r, st1) \<Rightarrow> (map_err DiskErr r, st1, c)))))"

section \<open>The catalog keeps the newest build of each kind\<close>

lemma first_of_groups_set: "i \<in> set (first_of_groups seen is) \<Longrightarrow> i \<in> set is \<and> remote_group i \<notin> set seen"
  by (induction seen "is" rule: first_of_groups.induct) (auto split: if_splits)

lemma first_of_groups_distinct: "distinct (map remote_group (first_of_groups seen is))"
  by (induction seen "is" rule: first_of_groups.induct) (auto dest: first_of_groups_set)

lemma first_of_groups_sorted:
  "sorted_wrt P is \<Longrightarrow> sorted_wrt P (first_of_groups seen is)"
  by (induction seen "is" rule: first_of_groups.induct) (auto dest: first_of_groups_set)

lemma first_of_groups_newest:
  "sorted_wrt (\<lambda>a b. remote_built_at b \<le> remote_built_at a) is \<Longrightarrow> i \<in> set is \<Longrightarrow> k \<in> set (first_of_groups seen is) \<Longrightarrow>
     remote_group i = remote_group k \<Longrightarrow> remote_built_at i \<le> remote_built_at k"
proof (induction seen "is" rule: first_of_groups.induct)
  case (2 seen j js)
  show ?case
  proof (cases "remote_group j \<in> set seen")
    case True
    then show ?thesis using 2(1)[OF True] 2(3-) first_of_groups_set[of k seen js] by auto
  next
    case False
    then show ?thesis using 2(2)[OF False] 2(3-) first_of_groups_set[of k "seen @ [remote_group j]" js] by auto
  qed
qed simp

lemma first_of_groups_covers:
  "i \<in> set is \<Longrightarrow> remote_group i \<notin> set seen \<Longrightarrow> \<exists>k \<in> set (first_of_groups seen is). remote_group k = remote_group i"
  by (induction seen "is" rule: first_of_groups.induct) (auto split: if_splits, metis)

text \<open>The images found by the scan that a listing is made of.\<close>

definition scanned_images :: "'n network \<Rightarrow> image_readers \<Rightarrow> image_source \<Rightarrow> image_filter \<Rightarrow> 'n \<times> doc_cache \<Rightarrow> remote_image list" where
  "scanned_images nw rd src f st =
     (case get_bytes nw src (releases_url src @ ''?per_page=100'') ''release index'' ACCEPT_JSON st of
        (Inr raw, st1) \<Rightarrow> (case rd_releases rd raw of Inr rels \<Rightarrow> fst (fst (scan_releases nw rd src f rels 0 st1)) | Inl _ \<Rightarrow> [])
      | _ \<Rightarrow> [])"

lemma scan_releases_found:
  "scan_releases nw rd src f rels n st = ((is, sk, k), st') \<Longrightarrow>
     (\<forall>i \<in> set is. filter_matches f (ri_manifest i)) \<and> length is + length sk + n \<le> k \<and> (n \<le> MAX_SCANNED_RELEASES \<longrightarrow> k \<le> MAX_SCANNED_RELEASES)"
proof (induction rels arbitrary: n st "is" sk k st')
  case (Cons rel rels)
  show ?case
  proof (cases "(rl_draft rel \<or> \<not> starts_with RELEASE_TAG_PREFIX (rl_tag rel)) \<or> MAX_SCANNED_RELEASES \<le> n")
    case True
    then show ?thesis using Cons.IH[of n st "is" sk k st'] Cons.prems by (auto split: if_splits)
  next
    case False
    obtain r st1 where r: "remote_image_from_release nw rd src rel st = (r, st1)" by (cases "remote_image_from_release nw rd src rel st")
    obtain is0 sk0 k0 st2 where s: "scan_releases nw rd src f rels (Suc n) st1 = ((is0, sk0, k0), st2)" by (metis prod_cases3 surj_pair)
    show ?thesis using Cons.IH[OF s] Cons.prems False
      by (cases r; cases "projr r") (auto simp: r s split: if_splits option.splits)
  qed
qed auto

lemma list_remote_images:
  assumes "list_remote nw rd src f st = (Inr is, st')"
  shows "is = first_of_groups [] (sort_desc remote_built_at (scanned_images nw rd src f st))"
    and "\<forall>i \<in> set (scanned_images nw rd src f st). filter_matches f (ri_manifest i)"
    and "length (scanned_images nw rd src f st) \<le> MAX_SCANNED_RELEASES"
proof -
  let ?url = "releases_url src @ ''?per_page=100''"
  obtain raw st1 where g: "get_bytes nw src ?url ''release index'' ACCEPT_JSON st = (Inr raw, st1)"
    using assms by (cases "get_bytes nw src ?url ''release index'' ACCEPT_JSON st")
      (auto simp: list_remote_def Let_def split: sum.splits)
  then obtain rels where r: "rd_releases rd raw = Inr rels"
    using assms by (auto simp: list_remote_def Let_def split: sum.splits)
  obtain found sk k st2 where s: "scan_releases nw rd src f rels 0 st1 = ((found, sk, k), st2)"
    by (cases "scan_releases nw rd src f rels 0 st1") auto
  have i: "scanned_images nw rd src f st = found" by (simp add: scanned_images_def g r s)
  show "is = first_of_groups [] (sort_desc remote_built_at (scanned_images nw rd src f st))"
    using assms unfolding i by (cases found; cases sk) (auto simp: list_remote_def Let_def g r s split: sum.splits)
  show "\<forall>i \<in> set (scanned_images nw rd src f st). filter_matches f (ri_manifest i)"
    "length (scanned_images nw rd src f st) \<le> MAX_SCANNED_RELEASES"
    using scan_releases_found[OF s] unfolding i by auto
qed

lemma listed_newest:
  assumes "list_remote nw rd src f st = (Inr is, st')"
  shows "k \<in> set is \<Longrightarrow> k \<in> set (scanned_images nw rd src f st)"
    and "i \<in> set (scanned_images nw rd src f st) \<Longrightarrow> k \<in> set is \<Longrightarrow> remote_group i = remote_group k \<Longrightarrow> remote_built_at i \<le> remote_built_at k"
    and "i \<in> set (scanned_images nw rd src f st) \<Longrightarrow> \<exists>k \<in> set is. remote_group k = remote_group i"
    and "distinct (map remote_group is)"
    and "sorted_wrt (\<lambda>a b. remote_built_at b \<le> remote_built_at a) is"
proof -
  let ?S = "sort_desc remote_built_at (scanned_images nw rd src f st)"
  note eq = list_remote_images(1)[OF assms]
  have sorted: "sorted_wrt (\<lambda>a b. remote_built_at b \<le> remote_built_at a) ?S" by (rule sort_desc_sorted)
  show "k \<in> set is \<Longrightarrow> k \<in> set (scanned_images nw rd src f st)" using first_of_groups_set[of k "[]" ?S] by (simp add: eq)
  show "i \<in> set (scanned_images nw rd src f st) \<Longrightarrow> k \<in> set is \<Longrightarrow> remote_group i = remote_group k \<Longrightarrow> remote_built_at i \<le> remote_built_at k"
    using first_of_groups_newest[OF sorted, of i k "[]"] by (simp add: eq)
  show "i \<in> set (scanned_images nw rd src f st) \<Longrightarrow> \<exists>k \<in> set is. remote_group k = remote_group i"
    using first_of_groups_covers[of i ?S "[]"] by (simp add: eq)
  show "distinct (map remote_group is)" "sorted_wrt (\<lambda>a b. remote_built_at b \<le> remote_built_at a) is"
    using first_of_groups_distinct first_of_groups_sorted[OF sorted] by (simp_all add: eq)
qed

text \<open>A release tag does not select one exact build: of the builds of a version and variant the
  catalog lists only the newest, and asking for the tag of an older one answers that no published
  build carries it.\<close>

theorem older_tag_unavailable:
  assumes "list_remote nw rd src (selector_filter sel) (fs_net st, cache) = (Inr is, net, c)"
    and "sl_tag sel = Some (ri_tag i)" and "ri_tag i \<noteq> []"
    and "i \<in> set (scanned_images nw rd src (selector_filter sel) (fs_net st, cache))"
    and "j \<in> set (scanned_images nw rd src (selector_filter sel) (fs_net st, cache))"
    and "remote_group j = remote_group i" and "remote_built_at i < remote_built_at j"
    and "\<forall>k \<in> set (scanned_images nw rd src (selector_filter sel) (fs_net st, cache)). ri_tag k = ri_tag i \<longrightarrow> k = i"
  shows "\<exists>msg. fst (download_base_image nw h rd dir src sel force cache st) = Inl (BaseImageUnavailable msg)"
proof -
  note new = listed_newest[OF assms(1)]
  have "i \<notin> set is" using new(2)[OF assms(5) _ assms(6)] assms(7) by (auto simp: not_less)
  then have "find (\<lambda>k. ri_tag k = ri_tag i) is = None"
    using new(1) assms(8) by (auto simp: find_None_iff)
  then have "select_image src is sel = Inl (BaseImageUnavailable (''no published build carries release tag `'' @ ri_tag i
            @ ''`; `andler image list` shows the available ones''))"
    using assms(2,3) by (simp add: select_image_def ok_or_def)
  then show ?thesis using assms(1-3) by (simp add: download_base_image_def validate_selector_def)
qed

section \<open>What a fetch leaves in the file system\<close>

definition same_but :: "string set \<Rightarrow> 'n fetch_state \<Rightarrow> 'n fetch_state \<Rightarrow> bool" where
  "same_but S st st' \<longleftrightarrow> (\<forall>p. p \<notin> S \<longrightarrow> fs_files st' p = fs_files st p)"

lemma same_but_simps [simp]:
  "same_but S st st" "same_but S (st\<lparr>fs_net := n\<rparr>) st' = same_but S st st'" "same_but S st (st'\<lparr>fs_net := n\<rparr>) = same_but S st st'"
  "same_but S (emit q st) st' = same_but S st st'" "same_but S st (emit q st') = same_but S st st'"
  by (simp_all add: same_but_def emit_def)

lemma emit_files [simp]: "fs_files (emit q st) = fs_files st"
  by (simp add: emit_def)

lemma put_files [simp]: "fs_files (put_file p c st) = (fs_files st)(p \<mapsto> c)"
  by (simp add: put_file_def)

lemma delete_files [simp]: "fs_files (delete_file p st) = (fs_files st)(p := None)"
  by (simp add: delete_file_def)

lemma same_but_trans: "same_but S a b \<Longrightarrow> same_but S b c \<Longrightarrow> same_but S a c"
  by (simp add: same_but_def)

lemma same_but_mono: "same_but S a b \<Longrightarrow> S \<subseteq> T \<Longrightarrow> same_but T a b"
  by (auto simp: same_but_def)

lemma same_but_put [simp]: "p \<in> S \<Longrightarrow> same_but S (put_file p c st) st' = same_but S st st'"
  "p \<in> S \<Longrightarrow> same_but S st (put_file p c st') = same_but S st st'"
  "p \<in> S \<Longrightarrow> same_but S st (delete_file p st') = same_but S st st'"
  by (auto simp: same_but_def)

lemma concat_read_all: "0 < n \<Longrightarrow> concat (read_all n fs) = concat fs"
proof (induction n fs rule: read_all.induct)
  case (1 n fs)
  have split: "0 < n \<Longrightarrow> fst (chained_read n gs) @ concat (snd (chained_read n gs)) = concat gs" for gs
    by (induction n gs rule: chained_read.induct) (simp_all flip: append_assoc)
  have "fst (chained_read n gs) = [] \<Longrightarrow> 0 < n \<Longrightarrow> concat gs = []" for gs
    by (induction n gs rule: chained_read.induct) (auto split: if_splits)
  then show ?case using 1 split[of fs] by (cases "fst (chained_read n fs) = []") (simp_all add: read_all.simps[of n fs])
qed

lemma pour_ok:
  "pour h dest mk chs content w l st = (Inr (c, w'), st') \<Longrightarrow> fs_files st dest = Some content \<Longrightarrow>
     c = content @ concat chs \<and> w' = w + of_nat (length (concat chs)) \<and> fs_files st' = (fs_files st)(dest \<mapsto> c)"
proof (induction chs arbitrary: content w l st)
  case (Cons ch chs)
  show ?case using Cons.prems by (auto simp: Let_def dest!: Cons.IH split: option.splits if_splits)
qed (auto simp: fun_upd_idem)

lemma pour_same: "pour h dest mk chs content w l st = (r, st') \<Longrightarrow> same_but {dest} st st'"
proof (induction chs arbitrary: content w l st)
  case (Cons ch chs)
  show ?case using Cons.prems by (auto simp: Let_def dest!: Cons.IH split: option.splits if_splits)
qed auto

text \<open>What a downloaded file satisfies: its length is the one listed, its digest the manifest's.\<close>

definition verified :: "host \<Rightarrow> string option \<Rightarrow> remote_asset \<Rightarrow> string \<Rightarrow> bool" where
  "verified h expected a c \<longleftrightarrow>
     (0 < ra_size a \<longrightarrow> of_nat (length c) = ra_size a) \<and> (\<forall>x. expected = Some x \<longrightarrow> hex_text (ho_sha256 h c) = x)"

lemma download_once_same: "download_asset_once nw h src dest expected already tot a st = (r, st') \<Longrightarrow> same_but {dest} st st'"
  by (auto simp: download_asset_once_def Let_def dest!: pour_same split: prod.splits sum.splits option.splits if_splits)

lemma download_once_ok:
  "download_asset_once nw h src dest expected already tot a st = (Inr u, st') \<Longrightarrow>
     \<exists>c. fs_files st' = (fs_files st)(dest \<mapsto> c) \<and> verified h expected a c"
  by (fastforce simp: download_asset_once_def Let_def verified_def dest!: pour_ok split: prod.splits sum.splits option.splits if_splits)

lemma download_attempts_same:
  "download_attempts nw h src dest expected already tot a n e st = (r, st') \<Longrightarrow> same_but {dest} st st'"
proof (induction n arbitrary: e st)
  case (Suc n)
  obtain x st1 where o: "download_asset_once nw h src dest expected already tot a st = (x, st1)"
    by (cases "download_asset_once nw h src dest expected already tot a st")
  note same = download_once_same[OF o]
  show ?case
  proof (cases x)
    case (Inl y)
    let ?st3 = "if 0 < n then (delete_file dest st1)\<lparr>fs_net := nw_sleep nw (MAX_ATTEMPTS - n) (fs_net (delete_file dest st1))\<rparr> else delete_file dest st1"
    have "download_attempts nw h src dest expected already tot a n (disk_error_text y) ?st3 = (r, st')"
      using Suc.prems by (simp add: o Inl Let_def)
    from Suc.IH[OF this] have "same_but {dest} ?st3 st'" .
    moreover have "same_but {dest} st1 ?st3" by simp
    ultimately show ?thesis using same same_but_trans by blast
  qed (use Suc.prems same in \<open>simp add: o\<close>)
qed simp

lemma download_attempts_ok:
  "download_attempts nw h src dest expected already tot a n e st = (Inr u, st') \<Longrightarrow>
     \<exists>c. fs_files st' dest = Some c \<and> verified h expected a c"
proof (induction n arbitrary: e st)
  case (Suc n)
  obtain x st1 where o: "download_asset_once nw h src dest expected already tot a st = (x, st1)"
    by (cases "download_asset_once nw h src dest expected already tot a st")
  show ?case
  proof (cases x)
    case (Inr y)
    then show ?thesis using Suc.prems download_once_ok[of nw h src dest expected already tot a st y st1] o by auto
  qed (use Suc in \<open>auto simp: o Let_def\<close>)
qed simp

text \<open>Names without a slash stay inside the directory they are joined to.\<close>

definition plain_name :: "string \<Rightarrow> bool" where
  "plain_name n \<longleftrightarrow> n \<noteq> [] \<and> CHR ''/'' \<notin> set n"

definition plain_dir :: "string \<Rightarrow> bool" where
  "plain_dir d \<longleftrightarrow> d \<noteq> [] \<and> \<not> ends_with ''/'' d"

lemma path_join_plain: "plain_dir d \<Longrightarrow> plain_name n \<Longrightarrow> path_join d n = d @ ''/'' @ n"
  by (cases n) (auto simp: path_join_def plain_dir_def plain_name_def is_absolute_def starts_with_def)

lemma plain_dir_join: "plain_name n \<Longrightarrow> plain_dir (d @ n)"
  by (cases n rule: rev_cases) (auto simp: plain_name_def plain_dir_def ends_with_iff)

lemma below_dir_join [simp]: "below_dir d (d @ CHR ''/'' # n)"
  using starts_with_append[of "d @ ''/''" n] by (simp add: below_dir_def)

definition asset_file :: "string \<Rightarrow> remote_asset \<Rightarrow> string" where
  "asset_file staging a = path_join staging (ra_name a)"

lemma asset_file_below: "plain_dir d \<Longrightarrow> plain_name (ra_name a) \<Longrightarrow> below_dir d (asset_file d a)"
  by (simp add: asset_file_def path_join_plain)

lemma asset_file_inject: "plain_dir d \<Longrightarrow> plain_name (ra_name a) \<Longrightarrow> plain_name (ra_name b) \<Longrightarrow>
    asset_file d a = asset_file d b \<longleftrightarrow> ra_name a = ra_name b"
  by (simp add: asset_file_def path_join_plain)

lemma staged_ok_verified: "staged_ok h p a e files \<Longrightarrow> \<exists>c. files p = Some c \<and> verified h e a c"
  by (auto simp: staged_ok_def verified_def split: option.splits)

lemma fetch_assets_same:
  assumes "plain_dir d"
  shows "fetch_assets nw h src m d cnt tot i dl as st = (r, st') \<Longrightarrow> \<forall>a \<in> set as. plain_name (ra_name a) \<Longrightarrow>
     same_but (asset_file d ` set as) st st'"
proof (induction as arbitrary: i dl st)
  case (Cons a as)
  show ?case
  proof (cases "staged_ok h (path_join d (ra_name a)) a (part_sha m (ra_name a)) (fs_files st)")
    case True
    then have "fetch_assets nw h src m d cnt tot (Suc i) (dl + ra_size a) as st = (r, st')"
      using Cons.prems(1) by (simp add: Let_def)
    from Cons.IH[OF this] Cons.prems(2) have "same_but (asset_file d ` set as) st st'" by simp
    then show ?thesis by (rule same_but_mono) auto
  next
    case False
    obtain x st1 where o: "download_asset nw h src (path_join d (ra_name a)) (part_sha m (ra_name a)) dl tot a
        (emit \<lparr>fp_phase = Downloading, fp_asset = ra_name a, fp_index = of_nat (Suc i), fp_count = cnt,
               fp_downloaded = dl, fp_total = tot\<rparr> st) = (x, st1)"
      by (metis surj_pair)
    have one: "same_but {asset_file d a} st st1"
      using download_attempts_same[OF o[unfolded download_asset_def]] by (simp add: asset_file_def)
    show ?thesis
    proof (cases x)
      case Inl
      then have "st' = st1" using Cons.prems(1) False o by (simp add: Let_def)
      then show ?thesis using same_but_mono[OF one] by simp
    next
      case (Inr u)
      have "fetch_assets nw h src m d cnt tot (Suc i) (dl + ra_size a) as st1 = (r, st')"
        using Cons.prems(1) False o Inr by (simp add: Let_def)
      from Cons.IH[OF this] Cons.prems(2) have "same_but (asset_file d ` set as) st1 st'" by simp
      then have "same_but (asset_file d ` set (a # as)) st1 st'" by (rule same_but_mono) auto
      moreover have "same_but (asset_file d ` set (a # as)) st st1" using one by (rule same_but_mono) auto
      ultimately show ?thesis using same_but_trans by blast
    qed
  qed
qed simp

lemma fetch_assets_ok:
  assumes "plain_dir d"
  shows "fetch_assets nw h src m d cnt tot i dl as st = (Inr n, st') \<Longrightarrow> \<forall>a \<in> set as. plain_name (ra_name a) \<Longrightarrow>
     distinct (map ra_name as) \<Longrightarrow>
     \<forall>a \<in> set as. \<exists>c. fs_files st' (asset_file d a) = Some c \<and> verified h (part_sha m (ra_name a)) a c"
proof (induction as arbitrary: i dl st)
  case (Cons a as)
  obtain i' dl' st1 c where rest: "fetch_assets nw h src m d cnt tot i' dl' as st1 = (Inr n, st')"
    and c: "fs_files st1 (asset_file d a) = Some c" "verified h (part_sha m (ra_name a)) a c"
  proof (cases "staged_ok h (path_join d (ra_name a)) a (part_sha m (ra_name a)) (fs_files st)")
    case True
    then have "fetch_assets nw h src m d cnt tot (Suc i) (dl + ra_size a) as st = (Inr n, st')"
      using Cons.prems(1) by (simp add: Let_def)
    then show ?thesis using that staged_ok_verified[OF True] by (auto simp: asset_file_def)
  next
    case False
    obtain x st1 where o: "download_asset nw h src (path_join d (ra_name a)) (part_sha m (ra_name a)) dl tot a
        (emit \<lparr>fp_phase = Downloading, fp_asset = ra_name a, fp_index = of_nat (Suc i), fp_count = cnt,
               fp_downloaded = dl, fp_total = tot\<rparr> st) = (x, st1)"
      by (metis surj_pair)
    then obtain u where u: "x = Inr u" using Cons.prems(1) False by (cases x) (auto simp: Let_def)
    then have "fetch_assets nw h src m d cnt tot (Suc i) (dl + ra_size a) as st1 = (Inr n, st')"
      using Cons.prems(1) False o by (simp add: Let_def)
    then show ?thesis using that download_attempts_ok[OF o[unfolded u download_asset_def]] by (auto simp: asset_file_def)
  qed
  have "asset_file d a \<noteq> asset_file d b" if "b \<in> set as" for b
    using Cons.prems(2,3) that asset_file_inject[OF assms, of a b] by auto
  then have "asset_file d a \<notin> asset_file d ` set as" by auto
  then have "fs_files st' (asset_file d a) = fs_files st1 (asset_file d a)"
    using fetch_assets_same[OF assms rest] Cons.prems(2) by (auto simp: same_but_def)
  then show ?case using Cons.IH[OF rest] Cons.prems(2,3) c by auto
qed simp

lemma open_all_ok:
  "open_all h d files as = Inr cs \<Longrightarrow> list_all2 (\<lambda>a c. files (asset_file d a) = Some c) as cs"
  by (induction as arbitrary: cs) (auto simp: Let_def asset_file_def rbind_def split: option.splits sum.splits)

text \<open>What the payload of an image unpacks to.\<close>

definition decoded :: "host \<Rightarrow> bool \<Rightarrow> string list \<Rightarrow> string option" where
  "decoded h compressed cs =
     (if compressed then (case ho_zstd_read h (concat cs) of (chs, None) \<Rightarrow> Some (concat chs) | _ \<Rightarrow> None)
      else Some (concat cs))"

lemma READ_BUFFER_pos: "0 < READ_BUFFER"
  by (simp add: READ_BUFFER_def)

lemma payload_chunks_decoded: "payload_chunks h compressed cs = (chs, None) \<Longrightarrow> decoded h compressed cs = Some (concat chs)"
  by (auto simp: payload_chunks_def decoded_def concat_read_all READ_BUFFER_pos split: if_splits)

lemma extract_same: "extract_qcow2 h cs compressed partial name e tot st = (r, st') \<Longrightarrow> same_but {partial} st st'"
  by (auto simp: extract_qcow2_def dest!: pour_same split: prod.splits sum.splits option.splits if_splits)

lemma extract_ok:
  "extract_qcow2 h cs compressed partial name e tot st = (Inr u, st') \<Longrightarrow>
     \<exists>c. decoded h compressed cs = Some c \<and> fs_files st' = (fs_files st)(partial \<mapsto> c) \<and> (\<forall>x. e = Some x \<longrightarrow> hex_text (ho_sha256 h c) = x)"
proof -
  assume x: "extract_qcow2 h cs compressed partial name e tot st = (Inr u, st')"
  obtain chs broken where p: "payload_chunks h compressed cs = (chs, broken)" by fastforce
  obtain r st1 where q: "pour h partial (extract_progress name tot) chs [] 0 0 (put_file partial [] st) = (r, st1)" by (metis surj_pair)
  have b: "broken = None" "\<exists>c w. r = Inr (c, w)"
    using x by (auto simp: extract_qcow2_def p q split: option.splits sum.splits if_splits)
  then obtain c w where r: "r = Inr (c, w)" by blast
  have c: "c = concat chs" "fs_files st1 = (fs_files st)(partial \<mapsto> c)" using pour_ok[OF q[unfolded r]] by auto
  have "fs_files st' = fs_files st1" "\<forall>x. e = Some x \<longrightarrow> hex_text (ho_sha256 h c) = x"
    using x by (auto simp: extract_qcow2_def p q r b(1) split: option.splits if_splits)
  then show ?thesis using payload_chunks_decoded[OF p[unfolded b(1)]] c by auto
qed

lemma rename_ok: "move_file h a b st = (Inr u, st') \<Longrightarrow> fs_files st' = ((fs_files st)(a := None))(b := fs_files st a)"
  by (auto simp: move_file_def split: option.splits)

lemma rename_error: "move_file h a b st = (Inl e, st') \<Longrightarrow> st' = st"
  by (auto simp: move_file_def split: option.splits)

definition manifest_file :: "cache_path \<Rightarrow> string" where
  "manifest_file q = path_text (manifest_path_for q)"

lemma install_ok:
  assumes "install_files h img d partial q st = (Inr u, st')"
    and "distinct [path_join d (ri_stem img @ MANIFEST_EXT), manifest_file q, partial, path_text q]"
  shows "fs_files st' (path_text q) = fs_files st partial" "fs_files st' (manifest_file q) = Some (ri_raw img)"
    and "same_but {path_join d (ri_stem img @ MANIFEST_EXT), partial, path_text q, manifest_file q} st st'"
proof -
  let ?tmp = "path_join d (ri_stem img @ MANIFEST_EXT)"
  obtain st1 where r: "move_file h ?tmp (manifest_file q) (put_file ?tmp (ri_raw img) st) = (Inr (), st1)"
    "move_file h partial (path_text q) st1 = (Inr u, st')"
    using assms(1) by (auto simp: install_files_def manifest_file_def Let_def split: option.splits prod.splits sum.splits)
  note f = rename_ok[OF r(1)] rename_ok[OF r(2)]
  show "fs_files st' (path_text q) = fs_files st partial" "fs_files st' (manifest_file q) = Some (ri_raw img)"
    using assms(2) by (auto simp: f)
  show "same_but {?tmp, partial, path_text q, manifest_file q} st st'" by (auto simp: same_but_def f)
qed

lemma install_error:
  assumes "install_files h img d partial q st = (Inl e, st')" and "partial \<noteq> path_join d (ri_stem img @ MANIFEST_EXT)"
  shows "same_but {path_join d (ri_stem img @ MANIFEST_EXT)} st st' \<or>
    ho_rename h partial (path_text q) \<noteq> None \<and>
    fs_files st' = (fs_files st)(path_join d (ri_stem img @ MANIFEST_EXT) := None, manifest_file q \<mapsto> ri_raw img)"
  using assms
  by (auto simp: install_files_def move_file_def manifest_file_def Let_def split: option.splits if_splits)

section \<open>The paths of an image\<close>

definition partial_file :: "string \<Rightarrow> remote_image \<Rightarrow> string" where
  "partial_file d img = path_join d (ri_stem img @ ''.qcow2.partial'')"

definition plain_image :: "string \<Rightarrow> remote_image \<Rightarrow> bool" where
  "plain_image dir img \<longleftrightarrow> plain_dir dir \<and> plain_name (ri_stem img) \<and>
     CHR ''/'' \<notin> set (im_major (ri_manifest img)) \<and> CHR ''/'' \<notin> set (im_variant (ri_manifest img)) \<and>
     list_all (\<lambda>a. plain_name (ra_name a)) (payload_assets (ri_payload img)) \<and>
     distinct (map ra_name (payload_assets (ri_payload img)))"

lemma stem_of_image:
  assumes "plain_name s"
  shows "file_stem (s @ QCOW2_EXT) = Some s"
proof -
  have r: "rev (s @ QCOW2_EXT) = ''2wocq.'' @ rev s" by (simp add: QCOW2_EXT_def)
  have "takeWhile (\<lambda>c. c \<noteq> CHR ''/'') (rev s) = rev s"
    using assms by (auto simp: plain_name_def takeWhile_eq_all_conv)
  then have "rev (takeWhile (\<lambda>c. c \<noteq> CHR ''/'') (rev s)) = s" by (simp only: rev_rev_ident)
  moreover have "s @ QCOW2_EXT \<noteq> ''..''" by (cases s; cases "tl s") (auto simp: QCOW2_EXT_def)
  ultimately have "file_name (s @ QCOW2_EXT) = Some (s @ QCOW2_EXT)"
    by (simp add: file_name_def Let_def r) (simp add: QCOW2_EXT_def)
  moreover have "takeWhile (\<lambda>c. c \<noteq> CHR ''.'') (rev (s @ QCOW2_EXT)) = ''2wocq''" by (simp add: QCOW2_EXT_def)
  ultimately show ?thesis using assms by (simp add: file_stem_def plain_name_def Let_def) (simp add: QCOW2_EXT_def)
qed

lemma lower_char_slash: "lower_char c = CHR ''/'' \<Longrightarrow> c = CHR ''/''"
proof (rule ccontr)
  assume a: "lower_char c = CHR ''/''" "c \<noteq> CHR ''/''"
  then have b: "65 \<le> byte c" "byte c \<le> 90" "char_of (byte c + 32) = CHR ''/''"
    by (auto simp: lower_char_def split: if_splits)
  have "(byte c + 32) mod 256 = 47" using arg_cong[OF b(3), of "of_char :: char \<Rightarrow> nat"] by simp
  moreover have "(byte c + 32) mod 256 = byte c + 32" using b(1,2) by (intro mod_less) linarith
  ultimately show False using b(1,2) by linarith
qed

lemma to_lower_slash: "CHR ''/'' \<in> set (to_lower v) \<Longrightarrow> CHR ''/'' \<in> set v"
proof -
  assume "CHR ''/'' \<in> set (to_lower v)"
  then obtain c where "c \<in> set v" "lower_char c = CHR ''/''" by (auto simp: to_lower_def)
  then show ?thesis using lower_char_slash[of c] by simp
qed

lemma plain_image_paths:
  assumes "plain_image dir img"
  obtains t where "plain_dir t" "image_dir dir img = t" "path_text (image_path dir img) = t @ ''/'' @ ri_stem img @ QCOW2_EXT"
    "manifest_file (image_path dir img) = t @ ''/'' @ ri_stem img @ MANIFEST_EXT"
    "staging_dir dir img = t @ ''/.fetch-'' @ ri_stem img" "plain_dir (staging_dir dir img)"
proof -
  let ?sub = "install_subdir (im_major (ri_manifest img)) (im_variant (ri_manifest img))"
  let ?t = "dir @ ''/'' @ ?sub"
  have a: "plain_dir dir" "plain_name (ri_stem img)" using assms by (auto simp: plain_image_def)
  have sub: "plain_name ?sub"
    using assms to_lower_slash[of "im_variant (ri_manifest img)"] by (auto simp: plain_image_def plain_name_def install_subdir_def)
  have t: "image_dir dir img = ?t" "plain_dir ?t"
    using path_join_plain[OF a(1) sub] plain_dir_join[OF sub, of "dir @ ''/''"] by (simp_all add: image_dir_def)
  have f: "plain_name (''.fetch-'' @ ri_stem img)" using a(2) by (simp add: plain_name_def)
  have s: "staging_dir dir img = ?t @ ''/.fetch-'' @ ri_stem img"
    using path_join_plain[OF t(2) f] by (simp add: staging_dir_def t(1))
  moreover have "plain_dir (staging_dir dir img)" using plain_dir_join[OF a(2), of "?t @ ''/.fetch-''"] by (simp add: s)
  moreover have "manifest_path_for (image_path dir img) = (?t, ri_stem img @ MANIFEST_EXT)"
    using stem_of_image[OF a(2)] by (simp add: manifest_path_for_def image_path_def with_file_name_def t(1))
  ultimately show ?thesis using that[OF t(2,1)] by (simp add: path_text_def image_path_def manifest_file_def t(1))
qed

lemma not_below_staging:
  assumes "CHR ''/'' \<notin> set r"
  shows "\<not> below_dir (t @ CHR ''/'' # s) (t @ CHR ''/'' # r)"
proof
  assume "below_dir (t @ CHR ''/'' # s) (t @ CHR ''/'' # r)"
  then obtain x where "(t @ CHR ''/'' # s) @ ''/'' @ x = t @ CHR ''/'' # r" by (auto simp: below_dir_def starts_with_iff)
  then have "r = s @ ''/'' @ x" by simp
  then show False using assms by simp
qed

lemma image_paths_outside:
  assumes "plain_image dir img"
  shows "\<not> below_dir (staging_dir dir img) (path_text (image_path dir img))"
    and "\<not> below_dir (staging_dir dir img) (manifest_file (image_path dir img))"
    and "path_text (image_path dir img) \<noteq> manifest_file (image_path dir img)"
    and "plain_dir (staging_dir dir img)"
    and "plain_name n \<Longrightarrow> below_dir (staging_dir dir img) (path_join (staging_dir dir img) n)"
proof -
  obtain t where t: "path_text (image_path dir img) = t @ ''/'' @ ri_stem img @ QCOW2_EXT"
    "manifest_file (image_path dir img) = t @ ''/'' @ ri_stem img @ MANIFEST_EXT"
    "staging_dir dir img = t @ ''/.fetch-'' @ ri_stem img" "plain_dir (staging_dir dir img)"
    using plain_image_paths[OF assms] by metis
  have s: "CHR ''/'' \<notin> set (ri_stem img @ QCOW2_EXT)" "CHR ''/'' \<notin> set (ri_stem img @ MANIFEST_EXT)"
    using assms by (auto simp: plain_image_def plain_name_def QCOW2_EXT_def MANIFEST_EXT_def)
  show "\<not> below_dir (staging_dir dir img) (path_text (image_path dir img))"
    "\<not> below_dir (staging_dir dir img) (manifest_file (image_path dir img))"
    using not_below_staging[OF s(1)] not_below_staging[OF s(2)] by (simp_all add: t(1-3))
  show "path_text (image_path dir img) \<noteq> manifest_file (image_path dir img)"
    using ending_ne[of "ri_stem img" "ri_stem img"] by (simp add: t(1,2))
  show "plain_dir (staging_dir dir img)" by (fact t(4))
  show "plain_name n \<Longrightarrow> below_dir (staging_dir dir img) (path_join (staging_dir dir img) n)"
    by (simp add: path_join_plain[OF t(4)])
qed

lemma staging_names:
  assumes "plain_image dir img"
  shows "plain_name (ri_stem img @ MANIFEST_EXT)" "plain_name (ri_stem img @ ''.qcow2.partial'')"
    and "partial_file (staging_dir dir img) img \<noteq> path_join (staging_dir dir img) (ri_stem img @ MANIFEST_EXT)"
proof -
  show p: "plain_name (ri_stem img @ MANIFEST_EXT)" "plain_name (ri_stem img @ ''.qcow2.partial'')"
    using assms by (auto simp: plain_image_def plain_name_def MANIFEST_EXT_def)
  show "partial_file (staging_dir dir img) img \<noteq> path_join (staging_dir dir img) (ri_stem img @ MANIFEST_EXT)"
    using image_paths_outside(4)[OF assms] p by (simp add: partial_file_def path_join_plain MANIFEST_EXT_def)
qed

text \<open>The download part of a fetch: everything but the installation.\<close>

abbreviation payload_of :: "remote_image \<Rightarrow> remote_asset list" where
  "payload_of img \<equiv> payload_assets (ri_payload img)"

lemma fetch_into_parts:
  assumes "plain_image dir img" and "fetch_into nw h src img (staging_dir dir img) (image_path dir img) st = (r, st')"
  defines "D \<equiv> {p. below_dir (staging_dir dir img) p}"
  shows "(\<exists>e. r = Inl e \<and> same_but D st st') \<or>
    (\<exists>st1 cs c. same_but D st st1 \<and> list_all2 (\<lambda>a c. verified h (part_sha (ri_manifest img) (ra_name a)) a c) (payload_of img) cs
       \<and> decoded h (is_compressed (ri_payload img)) cs = Some c \<and> fs_files st1 (partial_file (staging_dir dir img) img) = Some c
       \<and> (\<forall>x. im_sha256 (ri_manifest img) = Some x \<longrightarrow> hex_text (ho_sha256 h c) = x)
       \<and> install_files h img (staging_dir dir img) (partial_file (staging_dir dir img) img) (image_path dir img) st1 = (r, st'))"
proof -
  let ?d = "staging_dir dir img" and ?m = "ri_manifest img" and ?as = "payload_of img"
  note paths = image_paths_outside[OF assms(1)]
  have names: "\<forall>a \<in> set ?as. plain_name (ra_name a)" "distinct (map ra_name ?as)"
    using assms(1) by (auto simp: plain_image_def list_all_iff)
  have inD: "asset_file ?d ` set ?as \<subseteq> D" "{partial_file ?d img} \<subseteq> D"
    using names(1) asset_file_below[OF paths(4)] paths(5) staging_names(2)[OF assms(1)] by (auto simp: D_def partial_file_def)
  let ?cnt = "of_nat (length ?as)"
  let ?tot = "case ri_payload img of PartsPayload _ \<Rightarrow> download_bytes (ri_payload img) | ZstdPayload a \<Rightarrow> ra_size a | Qcow2Payload a \<Rightarrow> ra_size a"
  obtain x st1 where f: "fetch_assets nw h src ?m ?d ?cnt ?tot 0 0 ?as st = (x, st1)" by (metis surj_pair)
  have s1: "same_but D st st1" using same_but_mono[OF fetch_assets_same[OF paths(4) f names(1)] inD(1)] .
  show ?thesis
  proof (cases x)
    case (Inl e)
    then show ?thesis using assms(2) f s1 by (auto simp: fetch_into_def Let_def)
  next
    case (Inr n)
    define st2 where "st2 = emit \<lparr>fp_phase = Verifying, fp_asset = ri_stem img, fp_index = ?cnt, fp_count = ?cnt,
        fp_downloaded = n, fp_total = ?tot\<rparr> st1"
    have s2: "same_but D st st2" "fs_files st2 = fs_files st1" using s1 by (simp_all add: st2_def)
    show ?thesis
    proof (cases "open_all h ?d (fs_files st2) ?as")
      case (Inl e)
      then show ?thesis using assms(2) f Inr s2 by (auto simp: fetch_into_def Let_def st2_def)
    next
      case (Inr cs)
      have cs: "list_all2 (\<lambda>a c. verified h (part_sha ?m (ra_name a)) a c) ?as cs"
        using open_all_ok[OF Inr] fetch_assets_ok[OF paths(4) f[unfolded \<open>x = Inr n\<close>] names] s2(2)
        by (auto simp: list_all2_conv_all_nth) (metis nth_mem option.inject)
      let ?u = "case im_file_size ?m of Some n \<Rightarrow> n | None \<Rightarrow> 0"
      obtain y st3 where e: "extract_qcow2 h cs (is_compressed (ri_payload img)) (partial_file ?d img)
          (ri_stem img @ ''.qcow2.partial'') (im_sha256 ?m) ?u st2 = (y, st3)" by (metis surj_pair)
      have s3: "same_but D st st3" using same_but_trans[OF s2(1) same_but_mono[OF extract_same[OF e] inD(2)]] .
      show ?thesis
      proof (cases y)
        case (Inl e')
        then show ?thesis using assms(2) f \<open>x = Inr n\<close> Inr e s3 by (auto simp: fetch_into_def partial_file_def Let_def st2_def)
      next
        case y: (Inr u)
        let ?st4 = "emit \<lparr>fp_phase = Installing, fp_asset = ri_stem img, fp_index = ?cnt, fp_count = ?cnt,
            fp_downloaded = ?u, fp_total = ?u\<rparr> st3"
        have "install_files h img ?d (partial_file ?d img) (image_path dir img) ?st4 = (r, st')"
          using assms(2) f \<open>x = Inr n\<close> Inr e y by (simp add: fetch_into_def partial_file_def Let_def st2_def)
        moreover obtain c where "decoded h (is_compressed (ri_payload img)) cs = Some c"
          "fs_files ?st4 (partial_file ?d img) = Some c" "\<forall>x. im_sha256 ?m = Some x \<longrightarrow> hex_text (ho_sha256 h c) = x"
          using extract_ok[OF e[unfolded y]] by auto
        moreover have "same_but D st ?st4" using s3 by simp
        ultimately show ?thesis using cs by blast
      qed
    qed
  qed
qed

lemma remove_staging_files: "\<not> below_dir d p \<Longrightarrow> fs_files (remove_staging h d st) p = fs_files st p"
  "ho_rmdir h d = None \<Longrightarrow> below_dir d p \<Longrightarrow> fs_files (remove_staging h d st) p = None"
  by (simp_all add: remove_staging_def split: option.split)

lemma fetch_cases:
  assumes "fetch_base_image nw h rd dir src img force st = (r, st')"
  obtains (early) e where "r = Inl e" "st' = st"
  | (reused) "st' = st" "r = Inr \<lparr>fo_qcow2 = image_path dir img, fo_manifest = manifest_path_for (image_path dir img), fo_reused = True\<rparr>"
  | (fetched) x st1 where "fetch_into nw h src img (staging_dir dir img) (image_path dir img) st = (x, st1)"
      "r = rbind x (\<lambda>_. Inr \<lparr>fo_qcow2 = image_path dir img, fo_manifest = manifest_path_for (image_path dir img), fo_reused = False\<rparr>)"
      "st' = remove_staging h (staging_dir dir img) st1"
  using assms unfolding fetch_base_image_def
  by (auto simp: Let_def split: if_splits option.splits sum.splits prod.splits)

lemma fetched_files:
  assumes "plain_image dir img"
    and "fetch_base_image nw h rd dir src img force st = (Inr out, st')" and "\<not> fo_reused out"
  shows "\<exists>cs c. list_all2 (\<lambda>a c. verified h (part_sha (ri_manifest img) (ra_name a)) a c) (payload_of img) cs
       \<and> decoded h (is_compressed (ri_payload img)) cs = Some c
       \<and> (\<forall>x. im_sha256 (ri_manifest img) = Some x \<longrightarrow> hex_text (ho_sha256 h c) = x)
       \<and> fs_files st' (path_text (image_path dir img)) = Some c
       \<and> fs_files st' (manifest_file (image_path dir img)) = Some (ri_raw img)"
    and "\<not> below_dir (staging_dir dir img) p \<Longrightarrow> p \<notin> {path_text (image_path dir img), manifest_file (image_path dir img)} \<Longrightarrow>
       fs_files st' p = fs_files st p"
proof -
  let ?d = "staging_dir dir img" and ?q = "image_path dir img"
  let ?tmp = "path_join ?d (ri_stem img @ MANIFEST_EXT)" and ?part = "partial_file ?d img"
  note paths = image_paths_outside[OF assms(1)] and names = staging_names[OF assms(1)]
  obtain u st1 where f: "fetch_into nw h src img ?d ?q st = (Inr u, st1)" and st': "st' = remove_staging h ?d st1"
    using assms(2,3) by (cases rule: fetch_cases) (auto simp: rbind_def split: sum.splits)
  obtain st0 cs c where parts: "same_but {p. below_dir ?d p} st st0"
    "list_all2 (\<lambda>a c. verified h (part_sha (ri_manifest img) (ra_name a)) a c) (payload_of img) cs"
    "decoded h (is_compressed (ri_payload img)) cs = Some c" "fs_files st0 ?part = Some c"
    "\<forall>x. im_sha256 (ri_manifest img) = Some x \<longrightarrow> hex_text (ho_sha256 h c) = x"
    "install_files h img ?d ?part ?q st0 = (Inr u, st1)"
    using fetch_into_parts[OF assms(1) f] by auto
  have below: "below_dir ?d ?tmp" "below_dir ?d ?part" using paths(5)[OF names(1)] paths(5)[OF names(2)] by (simp_all add: partial_file_def)
  then have dist: "distinct [?tmp, manifest_file ?q, ?part, path_text ?q]" using paths(1-3) names(3) by auto
  note inst = install_ok[OF parts(6) dist]
  show "\<exists>cs c. list_all2 (\<lambda>a c. verified h (part_sha (ri_manifest img) (ra_name a)) a c) (payload_of img) cs
       \<and> decoded h (is_compressed (ri_payload img)) cs = Some c
       \<and> (\<forall>x. im_sha256 (ri_manifest img) = Some x \<longrightarrow> hex_text (ho_sha256 h c) = x)
       \<and> fs_files st' (path_text ?q) = Some c \<and> fs_files st' (manifest_file ?q) = Some (ri_raw img)"
    using parts(2-5) inst(1,2) paths(1,2) by (auto simp: st' remove_staging_files)
  assume p: "\<not> below_dir ?d p" "p \<notin> {path_text ?q, manifest_file ?q}"
  then have "p \<noteq> ?tmp" "p \<noteq> ?part" using below by auto
  then show "fs_files st' p = fs_files st p"
    using p inst(3) parts(1) by (simp add: st' remove_staging_files same_but_def)
qed

text \<open>C26. A fetch that reports a new image has installed it: each asset has the length and the digest
  published for it, the installed file is what the assets unpack to, with the digest of the manifest
  if it gives one, the manifest beside it is the published text, and nothing else outside the scratch
  directory has changed.\<close>

theorem fetch_installs_published:
  assumes "plain_image dir img"
    and "fetch_base_image nw h rd dir src img force st = (Inr out, st')" and "\<not> fo_reused out"
  shows "(\<exists>cs c. list_all2 (\<lambda>a c. verified h (part_sha (ri_manifest img) (ra_name a)) a c) (payload_of img) cs
       \<and> decoded h (is_compressed (ri_payload img)) cs = Some c
       \<and> (\<forall>x. im_sha256 (ri_manifest img) = Some x \<longrightarrow> hex_text (ho_sha256 h c) = x)
       \<and> fs_files st' (path_text (image_path dir img)) = Some c
       \<and> fs_files st' (manifest_file (image_path dir img)) = Some (ri_raw img))
    \<and> (\<forall>p. \<not> below_dir (staging_dir dir img) p \<longrightarrow> p \<notin> {path_text (image_path dir img), manifest_file (image_path dir img)} \<longrightarrow>
       fs_files st' p = fs_files st p)"
  using fetched_files[OF assms] by blast

lemma failed_fetch_cache:
  assumes "plain_image dir img" and "fetch_base_image nw h rd dir src img force st = (Inl e, st')" and "\<not> below_dir (staging_dir dir img) p"
  shows "fs_files st' p = fs_files st p \<or>
    ho_rename h (partial_file (staging_dir dir img) img) (path_text (image_path dir img)) \<noteq> None
      \<and> p = manifest_file (image_path dir img) \<and> fs_files st' p = Some (ri_raw img)"
  using assms(2)
proof (cases rule: fetch_cases)
  case (fetched x st1)
  let ?d = "staging_dir dir img" and ?q = "image_path dir img"
  note names = staging_names[OF assms(1)]
  have tmp: "p \<noteq> path_join ?d (ri_stem img @ MANIFEST_EXT)"
    using image_paths_outside(5)[OF assms(1) names(1)] assms(3) by auto
  have x: "x = Inl e" using fetched(2) by (cases x) auto
  have st': "fs_files st' p = fs_files st1 p" using fetched(3) assms(3) by (simp add: remove_staging_files)
  from fetch_into_parts[OF assms(1) fetched(1)] show ?thesis
  proof (elim disjE exE conjE)
    show "same_but {p. below_dir ?d p} st st1 \<Longrightarrow> ?thesis" using assms(3) st' by (simp add: same_but_def)
  next
    fix st0 assume s: "same_but {p. below_dir ?d p} st st0" and i: "install_files h img ?d (partial_file ?d img) ?q st0 = (x, st1)"
    from install_error[OF i[unfolded x] names(3)] show ?thesis
    proof
      assume "same_but {path_join ?d (ri_stem img @ MANIFEST_EXT)} st0 st1"
      then show ?thesis using s assms(3) st' tmp by (simp add: same_but_def)
    next
      assume "ho_rename h (partial_file ?d img) (path_text ?q) \<noteq> None \<and>
        fs_files st1 = (fs_files st0)(path_join ?d (ri_stem img @ MANIFEST_EXT) := None, manifest_file ?q \<mapsto> ri_raw img)"
      then show ?thesis using s assms(3) st' tmp by (auto simp: same_but_def)
    qed
  qed
qed auto

lemma failed_files:
  assumes "plain_image dir img" and "fetch_base_image nw h rd dir src img force st = (Inl e, st')"
    and "ho_rename h (partial_file (staging_dir dir img) img) (path_text (image_path dir img)) = None"
    and "ho_rmdir h (staging_dir dir img) = None"
  shows "\<not> below_dir (staging_dir dir img) p \<Longrightarrow> fs_files st' p = fs_files st p"
    and "below_dir (staging_dir dir img) p \<Longrightarrow> st' = st \<or> fs_files st' p = None"
proof -
  show "\<not> below_dir (staging_dir dir img) p \<Longrightarrow> fs_files st' p = fs_files st p"
    using failed_fetch_cache[OF assms(1,2)] assms(3) by blast
  show "below_dir (staging_dir dir img) p \<Longrightarrow> st' = st \<or> fs_files st' p = None"
    using assms(2) by (cases rule: fetch_cases) (auto simp: remove_staging_files(2)[OF assms(4)])
qed

text \<open>A failed fetch leaves the cache as it was, unless the last of its renames failed. But it does
  not leave the parts it had downloaded either: the scratch directory is removed on every way out,
  so the next try begins again.\<close>

theorem failed_fetch_discards_parts:
  assumes "plain_image dir img" and "fetch_base_image nw h rd dir src img force st = (Inl e, st')"
    and "ho_rename h (partial_file (staging_dir dir img) img) (path_text (image_path dir img)) = None"
    and "ho_rmdir h (staging_dir dir img) = None"
  shows "\<forall>p. if below_dir (staging_dir dir img) p then st' = st \<or> fs_files st' p = None else fs_files st' p = fs_files st p"
  using failed_files[OF assms] by simp

text \<open>C27. The manifest is moved before the image. When the image cannot be moved over an older build
  of the same name, the older image stays under the new manifest, and the next fetch takes it for the
  new one: it reports success without a download.\<close>

theorem interrupted_install_reused:
  assumes "plain_image dir img" and "rd_manifest rd (ri_raw img) = Inr (ri_manifest img)"
    and "fetch_base_image nw h rd dir src img force st = (Inl e, st')"
    and "fs_files st' (manifest_file (image_path dir img)) \<noteq> fs_files st (manifest_file (image_path dir img))"
    and "fs_files st (path_text (image_path dir img)) = Some old"
    and "ho_mkdir h2 (image_dir dir img) = None"
  shows "fs_files st' (path_text (image_path dir img)) = Some old \<and>
    (\<exists>out. fetch_base_image nw2 h2 rd dir src2 img False (st'\<lparr>fs_net := net\<rparr>) = (Inr out, st'\<lparr>fs_net := net\<rparr>) \<and> fo_reused out)"
proof -
  let ?q = "image_path dir img"
  note paths = image_paths_outside[OF assms(1)]
  have m: "fs_files st' (manifest_file ?q) = Some (ri_raw img)" using failed_fetch_cache[OF assms(1,3) paths(2)] assms(4) by auto
  have q: "fs_files st' (path_text ?q) = Some old" using failed_fetch_cache[OF assms(1,3) paths(1)] assms(5) paths(3) by auto
  have "\<not> (im_sha256 (ri_manifest img) = None \<and> \<not> is_compressed (ri_payload img))"
  proof
    assume a: "im_sha256 (ri_manifest img) = None \<and> \<not> is_compressed (ri_payload img)"
    have "st' = st" using assms(3) by (simp add: fetch_base_image_def a)
    then show False using assms(4) by simp
  qed
  moreover have "installed_under (rd_manifest rd) (fs_files (st'\<lparr>fs_net := net\<rparr>)) ?q (manifest_id (ri_manifest img))"
    using m q assms(2) by (simp add: installed_under_def manifest_file_def)
  ultimately show ?thesis using q assms(6) by (auto simp: fetch_base_image_def Let_def)
qed

section \<open>Examples\<close>

definition ex_network :: "(string \<Rightarrow> http_response) \<Rightarrow> unit network" where
  "ex_network answer = \<lparr>nw_client = None, nw_send = \<lambda>url _ _ n. (Inr (answer url), n), nw_sleep = \<lambda>_ n. n, nw_now = \<lambda>_. 0,
     nw_status_text = show_nat\<rparr>"

definition ex_host :: "string option \<Rightarrow> host" where
  "ex_host e = \<lparr>ho_exists = \<lambda>_. True, ho_statvfs = \<lambda>_. Inr (100, 100), ho_mkdir = \<lambda>_. None, ho_create = \<lambda>_. None,
     ho_write = \<lambda>_. None, ho_flush = \<lambda>_. None, ho_open = \<lambda>_. None,
     ho_rename = \<lambda>a b. if b = ''/c/android13-gapps/b.qcow2'' then e else None, ho_rmdir = \<lambda>_. None,
     ho_sha256 = \<lambda>c. [of_nat (length c)], ho_zstd_open = \<lambda>_. None, ho_zstd_read = \<lambda>c. ([c], None)\<rparr>"

definition ex_manifest :: "string \<Rightarrow> image_manifest" where
  "ex_manifest built = \<lparr>im_major = ''13'', im_variant = ''GAPPS'', im_built_at = built, im_schema_version = 1,
     im_sha256 = Some ''02'', im_file_size = Some 2, im_compression = None, im_parts = []\<rparr>"

definition ex_image :: remote_image where
  "ex_image = \<lparr>ri_tag = ''base-image-android13-b'', ri_stem = ''b'', ri_manifest = ex_manifest ''2'', ri_raw = ''2'',
     ri_payload = Qcow2Payload \<lparr>ra_name = ''b.qcow2'', ra_url = ''u'', ra_size = 2\<rparr>\<rparr>"

definition ex_readers :: image_readers where
  "ex_readers = \<lparr>rd_releases = \<lambda>_. Inl ''none'', rd_manifest = \<lambda>raw. Inr (ex_manifest raw)\<rparr>"

definition ex_start :: "unit fetch_state" where
  "ex_start = \<lparr>fs_net = (), fs_files = [''/c/android13-gapps/b.qcow2'' \<mapsto> ''OLD'', ''/c/android13-gapps/b.manifest.json'' \<mapsto> ''1''],
     fs_progress = []\<rparr>"

definition ex_source :: image_source where
  "ex_source = image_source_new ''r'' ''https://a/''"

lemma ex_paths:
  "image_dir ''/c'' ex_image = ''/c/android13-gapps''"
  "path_text (image_path ''/c'' ex_image) = ''/c/android13-gapps/b.qcow2''"
  "manifest_file (image_path ''/c'' ex_image) = ''/c/android13-gapps/b.manifest.json''"
  "path_text (manifest_path_for (image_path ''/c'' ex_image)) = ''/c/android13-gapps/b.manifest.json''"
  "staging_dir ''/c'' ex_image = ''/c/android13-gapps/.fetch-b''"
  "path_join ''/c/android13-gapps/.fetch-b'' ''b.qcow2'' = ''/c/android13-gapps/.fetch-b/b.qcow2''"
  "path_join ''/c/android13-gapps/.fetch-b'' ''b.qcow2.partial'' = ''/c/android13-gapps/.fetch-b/b.qcow2.partial''"
  "path_join ''/c/android13-gapps/.fetch-b'' ''b.manifest.json'' = ''/c/android13-gapps/.fetch-b/b.manifest.json''"
  "partial_file ''/c/android13-gapps/.fetch-b'' ex_image = ''/c/android13-gapps/.fetch-b/b.qcow2.partial''"
  "plain_image ''/c'' ex_image"
  by code_simp+

lemma ex_sel:
  "ri_tag ex_image = ''base-image-android13-b''" "ri_stem ex_image = ''b''" "ri_manifest ex_image = ex_manifest ''2''" "ri_raw ex_image = ''2''"
  "ri_payload ex_image = Qcow2Payload \<lparr>ra_name = ''b.qcow2'', ra_url = ''u'', ra_size = 2\<rparr>"
  "im_sha256 (ex_manifest v) = Some ''02''" "im_file_size (ex_manifest v) = Some 2" "im_parts (ex_manifest v) = []"
  "ho_exists (ex_host e) = (\<lambda>_. True)" "ho_statvfs (ex_host e) = (\<lambda>_. Inr (100, 100))" "ho_mkdir (ex_host e) = (\<lambda>_. None)"
  "ho_create (ex_host e) = (\<lambda>_. None)" "ho_write (ex_host e) = (\<lambda>_. None)" "ho_flush (ex_host e) = (\<lambda>_. None)"
  "ho_open (ex_host e) = (\<lambda>_. None)" "ho_rmdir (ex_host e) = (\<lambda>_. None)" "ho_sha256 (ex_host e) = (\<lambda>c. [of_nat (length c)])"
  "ho_rename (ex_host e) a b = (if b = ''/c/android13-gapps/b.qcow2'' then e else None)"
  "nw_client (ex_network f) = None" "nw_send (ex_network f) url acc t n = (Inr (f url), n)" "nw_sleep (ex_network f) k n = n"
  by (simp_all add: ex_image_def ex_manifest_def ex_host_def ex_network_def)

lemma ex_fetch:
  "fetch_base_image (ex_network f) (ex_host e) ex_readers ''/c'' ex_source ex_image True st =
     (case fetch_into (ex_network f) (ex_host e) ex_source ex_image ''/c/android13-gapps/.fetch-b'' (image_path ''/c'' ex_image) st of
       (r, st1) \<Rightarrow>
       (rbind r (\<lambda>_. Inr \<lparr>fo_qcow2 = image_path ''/c'' ex_image, fo_manifest = manifest_path_for (image_path ''/c'' ex_image),
          fo_reused = False\<rparr>), remove_staging (ex_host e) ''/c/android13-gapps/.fetch-b'' st1))"
  by (simp add: fetch_base_image_def ex_paths ex_sel Let_def source_client_def check_available_space_def available_bytes_def
      probe_dir.simps download_bytes_def saturating_add_def)

text \<open>A server that delivers the image, and one that answers with an error.\<close>

definition ex_served :: "string \<Rightarrow> http_response" where
  "ex_served url = \<lparr>hr_status = 200, hr_chunks = [''A'', ''B''], hr_broken = None\<rparr>"

definition ex_denied :: "string \<Rightarrow> http_response" where
  "ex_denied url = \<lparr>hr_status = 500, hr_chunks = [], hr_broken = None\<rparr>"

lemma ex_download:
  "\<exists>st'. download_asset (ex_network ex_served) (ex_host e) ex_source dest None 0 2 \<lparr>ra_name = ''b.qcow2'', ra_url = ''u'', ra_size = 2\<rparr> st
     = (Inr (), st') \<and> fs_files st' = (fs_files st)(dest \<mapsto> ''AB'')"
  by (simp add: ex_sel download_asset_def MAX_ATTEMPTS_def numeral_3_eq_3 download_asset_once_def ex_served_def is_success_def
      PROGRESS_STEP_BYTES_def Let_def)

lemma ex_read_all: "read_all READ_BUFFER [''AB''] = [''AB'']"
proof -
  have "chained_read READ_BUFFER [''AB''] = (''AB'', [[]])" by (simp add: READ_BUFFER_def)
  then show ?thesis by (simp add: read_all.simps[of READ_BUFFER])
qed

lemma ex_extract:
  "\<exists>st'. extract_qcow2 (ex_host e) [''AB''] False dest n (Some ''02'') 2 st = (Inr (), st') \<and> fs_files st' = (fs_files st)(dest \<mapsto> ''AB'')"
  by (simp add: ex_sel extract_qcow2_def payload_chunks_def ex_read_all PROGRESS_STEP_BYTES_def Let_def show_byte_hex_def hex_digits_small)

lemma ex_fetch_into:
  "\<exists>st' st1. fetch_into (ex_network ex_served) (ex_host e) ex_source ex_image ''/c/android13-gapps/.fetch-b'' (image_path ''/c'' ex_image) ex_start
     = install_files (ex_host e) ex_image ''/c/android13-gapps/.fetch-b'' ''/c/android13-gapps/.fetch-b/b.qcow2.partial'' (image_path ''/c'' ex_image) st'"
proof -
  let ?d = "''/c/android13-gapps/.fetch-b/b.qcow2''"
  let ?st = "emit \<lparr>fp_phase = Downloading, fp_asset = ''b.qcow2'', fp_index = 1, fp_count = 1, fp_downloaded = 0, fp_total = 2\<rparr> ex_start"
  obtain st1 where d: "download_asset (ex_network ex_served) (ex_host e) ex_source ?d None 0 2
      \<lparr>ra_name = ''b.qcow2'', ra_url = ''u'', ra_size = 2\<rparr> ?st = (Inr (), st1)" "fs_files st1 = (fs_files ?st)(?d \<mapsto> ''AB'')"
    using ex_download by blast
  have a: "fetch_assets (ex_network ex_served) (ex_host e) ex_source (ex_manifest ''2'') ''/c/android13-gapps/.fetch-b'' 1 2 0 0
      [\<lparr>ra_name = ''b.qcow2'', ra_url = ''u'', ra_size = 2\<rparr>] ex_start = (Inr 2, st1)"
    using d by (simp add: ex_paths ex_sel Let_def staged_ok_def part_sha_def ex_start_def)
  have o: "open_all (ex_host e) ''/c/android13-gapps/.fetch-b'' (fs_files st1) [\<lparr>ra_name = ''b.qcow2'', ra_url = ''u'', ra_size = 2\<rparr>] = Inr [''AB'']"
    using d(2) by (simp add: ex_sel ex_paths Let_def)
  obtain st3 where x: "extract_qcow2 (ex_host e) [''AB''] False ''/c/android13-gapps/.fetch-b/b.qcow2.partial'' ''b.qcow2.partial'' (Some ''02'') 2
      (emit \<lparr>fp_phase = Verifying, fp_asset = ''b'', fp_index = 1, fp_count = 1, fp_downloaded = 2, fp_total = 2\<rparr> st1) = (Inr (), st3)"
    using ex_extract by blast
  show ?thesis
    by (simp add: fetch_into_def Let_def ex_sel ex_paths a o x del: open_all.simps fetch_assets.simps) blast
qed

lemma ex_install:
  "\<exists>st'. install_files (ex_host None) ex_image ''/c/android13-gapps/.fetch-b'' p (image_path ''/c'' ex_image) st = (Inr (), st')"
  "\<exists>st'. install_files (ex_host (Some x)) ex_image ''/c/android13-gapps/.fetch-b'' p (image_path ''/c'' ex_image) st
     = (Inl (DiskIo ''/c/android13-gapps/b.qcow2'' x), st') \<and> fs_files st' ''/c/android13-gapps/b.manifest.json'' = Some ''2''"
  by (simp_all add: install_files_def ex_sel ex_paths MANIFEST_EXT_def move_file_def Let_def)

theorem fetch_installs_published_witness:
  "\<exists>out st' c. fetch_base_image (ex_network ex_served) (ex_host None) ex_readers ''/c'' ex_source ex_image True ex_start = (Inr out, st')
     \<and> fs_files st' ''/c/android13-gapps/b.qcow2'' = Some c \<and> hex_text (ho_sha256 (ex_host None) c) = ''02''"
proof -
  obtain st1 where "fetch_into (ex_network ex_served) (ex_host None) ex_source ex_image ''/c/android13-gapps/.fetch-b''
      (image_path ''/c'' ex_image) ex_start = (Inr (), st1)"
    using ex_fetch_into ex_install(1) by metis
  then obtain out st' where f: "fetch_base_image (ex_network ex_served) (ex_host None) ex_readers ''/c'' ex_source ex_image True ex_start = (Inr out, st')"
    "\<not> fo_reused out"
    by (simp add: ex_fetch)
  from fetch_installs_published[OF ex_paths(10) f] f(1) show ?thesis by (auto simp: ex_paths ex_sel)
qed

theorem failed_fetch_discards_parts_witness:
  "\<exists>e st'. fetch_base_image (ex_network ex_denied) (ex_host None) ex_readers ''/c'' ex_source ex_image True
       (put_file ''/c/android13-gapps/.fetch-b/b.qcow2'' ''A'' ex_start) = (Inl e, st')
     \<and> fs_files st' ''/c/android13-gapps/b.qcow2'' = Some ''OLD'' \<and> fs_files st' ''/c/android13-gapps/.fetch-b/b.qcow2'' = None"
proof -
  let ?st = "put_file ''/c/android13-gapps/.fetch-b/b.qcow2'' ''A'' ex_start"
  obtain e st1 where f: "fetch_into (ex_network ex_denied) (ex_host None) ex_source ex_image ''/c/android13-gapps/.fetch-b'' (image_path ''/c'' ex_image) ?st = (Inl e, st1)"
    by (simp add: fetch_into_def Let_def ex_sel ex_paths staged_ok_def part_sha_def download_asset_def MAX_ATTEMPTS_def numeral_3_eq_3
        download_asset_once_def ex_denied_def is_success_def)
  define st' where "st' = remove_staging (ex_host None) ''/c/android13-gapps/.fetch-b'' st1"
  have g: "fetch_base_image (ex_network ex_denied) (ex_host None) ex_readers ''/c'' ex_source ex_image True ?st = (Inl e, st')"
    by (simp add: ex_fetch f st'_def)
  have b: "\<not> below_dir (staging_dir ''/c'' ex_image) ''/c/android13-gapps/b.qcow2''"
    "below_dir (staging_dir ''/c'' ex_image) ''/c/android13-gapps/.fetch-b/b.qcow2''"
    by code_simp+
  have n: "fs_files st' ''/c/android13-gapps/.fetch-b/b.qcow2'' = None"
    using b(2) by (simp add: st'_def remove_staging_files ex_sel ex_paths)
  then show ?thesis
    using g spec[OF failed_fetch_discards_parts[OF ex_paths(10) g _ _], of "''/c/android13-gapps/b.qcow2''"] b
    by (auto simp: ex_sel ex_start_def)
qed

theorem interrupted_install_reused_witness:
  "\<exists>e st' out. fetch_base_image (ex_network ex_served) (ex_host (Some ''EIO'')) ex_readers ''/c'' ex_source ex_image True ex_start = (Inl e, st')
     \<and> fetch_base_image (ex_network ex_served) (ex_host None) ex_readers ''/c'' ex_source ex_image False (st'\<lparr>fs_net := ()\<rparr>) = (Inr out, st'\<lparr>fs_net := ()\<rparr>)
     \<and> fo_reused out \<and> fs_files st' ''/c/android13-gapps/b.qcow2'' = Some ''OLD''"
proof -
  obtain st1 where i: "fetch_into (ex_network ex_served) (ex_host (Some ''EIO'')) ex_source ex_image ''/c/android13-gapps/.fetch-b''
      (image_path ''/c'' ex_image) ex_start = (Inl (DiskIo ''/c/android13-gapps/b.qcow2'' ''EIO''), st1)"
    "fs_files st1 ''/c/android13-gapps/b.manifest.json'' = Some ''2''"
    using ex_fetch_into ex_install(2) by metis
  define st' where "st' = remove_staging (ex_host (Some ''EIO'')) ''/c/android13-gapps/.fetch-b'' st1"
  have f: "fetch_base_image (ex_network ex_served) (ex_host (Some ''EIO'')) ex_readers ''/c'' ex_source ex_image True ex_start
      = (Inl (DiskIo ''/c/android13-gapps/b.qcow2'' ''EIO''), st')"
    by (simp add: ex_fetch i(1) st'_def)
  have "\<not> below_dir ''/c/android13-gapps/.fetch-b'' ''/c/android13-gapps/b.manifest.json''" by code_simp
  then have m: "fs_files st' (manifest_file (image_path ''/c'' ex_image)) \<noteq> fs_files ex_start (manifest_file (image_path ''/c'' ex_image))"
    using i(2) by (simp add: st'_def ex_paths remove_staging_files ex_start_def)
  have r: "rd_manifest ex_readers (ri_raw ex_image) = Inr (ri_manifest ex_image)" by (simp add: ex_readers_def ex_sel)
  have q: "fs_files ex_start (path_text (image_path ''/c'' ex_image)) = Some ''OLD''" by (simp add: ex_paths ex_start_def)
  from interrupted_install_reused[OF ex_paths(10) r f m q, of "ex_host None"] f show ?thesis
    by (simp add: ex_sel) (metis ex_paths(2))
qed

text \<open>A catalog with two builds of the same version and variant.\<close>

definition ex_release :: "string \<Rightarrow> github_release" where
  "ex_release v = \<lparr>rl_tag = ''base-image-android13-'' @ v, rl_draft = False,
     rl_assets = [\<lparr>ga_name = ''b.manifest.json'', ga_url = v, ga_size = 0\<rparr>, \<lparr>ga_name = ''b.qcow2'', ga_url = ''u'', ga_size = 2\<rparr>]\<rparr>"

definition ex_catalog_readers :: image_readers where
  "ex_catalog_readers = \<lparr>rd_releases = \<lambda>_. Inr [ex_release ''2'', ex_release ''1''], rd_manifest = \<lambda>raw. Inr (ex_manifest raw)\<rparr>"

definition ex_published :: "string \<Rightarrow> remote_image" where
  "ex_published v = \<lparr>ri_tag = ''base-image-android13-'' @ v, ri_stem = ''b'', ri_manifest = ex_manifest v, ri_raw = v,
     ri_payload = Qcow2Payload \<lparr>ra_name = ''b.qcow2'', ra_url = ''u'', ra_size = 2\<rparr>\<rparr>"

definition ex_selector :: image_selector where
  "ex_selector = \<lparr>sl_major = None, sl_variant = None, sl_tag = Some ''base-image-android13-1''\<rparr>"

definition ex_catalog :: "unit network" where
  "ex_catalog = ex_network (\<lambda>url. \<lparr>hr_status = 200, hr_chunks = [url], hr_broken = None\<rparr>)"

theorem older_tag_unavailable_witness:
  "ex_published ''1'' \<in> set (scanned_images ex_catalog ex_catalog_readers ex_source (selector_filter ex_selector) ((), Map.empty))
   \<and> (\<exists>msg. fst (download_base_image ex_catalog (ex_host None) ex_catalog_readers ''/c'' ex_source ex_selector False Map.empty ex_start)
        = Inl (BaseImageUnavailable msg))"
proof -
  have s: "scanned_images ex_catalog ex_catalog_readers ex_source (selector_filter ex_selector) ((), Map.empty)
      = [ex_published ''2'', ex_published ''1'']"
    by code_simp
  have st: "(fs_net ex_start, Map.empty) = ((), Map.empty)" by simp
  have "fst (list_remote ex_catalog ex_catalog_readers ex_source (selector_filter ex_selector) ((), Map.empty)) = Inr [ex_published ''2'']"
    by code_simp
  then obtain net c where l: "list_remote ex_catalog ex_catalog_readers ex_source (selector_filter ex_selector) (fs_net ex_start, Map.empty)
      = (Inr [ex_published ''2''], net, c)"
    by (metis prod.collapse st)
  have "sl_tag ex_selector = Some (ri_tag (ex_published ''1''))" "ri_tag (ex_published ''1'') \<noteq> []"
    "remote_group (ex_published ''2'') = remote_group (ex_published ''1'')"
    "remote_built_at (ex_published ''1'') < remote_built_at (ex_published ''2'')" "ri_tag (ex_published ''2'') \<noteq> ri_tag (ex_published ''1'')"
    by code_simp+
  then show ?thesis
    using older_tag_unavailable[OF l, of "ex_published ''1''" "ex_published ''2''" "ex_host None" "''/c''" False] by (simp add: s)
qed

end
