(* ===== verification/Creation.thy ===== *)
theory Creation
  imports Registry ImageDownload WireEnums
begin

text \<open>
  Creating, cloning, exporting and purging instances (\<open>apps/daemon/src/daemon/instance_ops.rs\<close>,
  \<open>clone_ops.rs\<close>, \<open>types.rs\<close>; \<open>services/andler-disk/src/overlay.rs\<close>; \<open>provision_vars\<close> of
  \<open>services/andler-firmware\<close>). These operations touch disk images, plain files and the registry
  together; \<open>create_world\<close> holds all three, and each operation is a function that threads it
  (\<open>cbind\<close>), returning \<open>Inl\<close> at every early return of the code. \<open>with_guard\<close> is
  \<open>InstanceDirGuard\<close>: whatever way the body fails, the new directory is removed.

  Faults of the host (making a directory, copying, removing a tree), \<open>qemu-img\<close>, the guest
  file tool behind the boot mode switch and the text of an error are parameters (\<open>create_env\<close>).
  A clone runs as an operation of the source's supervisor, so other requests are served while its
  disk is being copied: \<open>others\<close> is what happens to the world meanwhile, be it their doing or that
  of the guard of this very request, when its caller goes away and the request is dropped. The text of
  \<open>instance.toml\<close> belongs to the supervisor that is spawned for the new instance
  (\<open>sup_file\<close>), as in the theory Supervisor.
\<close>

section \<open>The world of the operations\<close>

record create_world =
  cw_images :: filesystem
  cw_files :: "string \<Rightarrow> string option"
  cw_registry :: registry
  cw_broken :: "instance_id \<rightharpoonup> string"
  cw_memo :: "string option"

record create_env =
  ce_daemon :: daemon_env
  ce_tool :: qemu_tool
  ce_mkdir :: "string \<Rightarrow> string option"
  ce_copy :: "string \<Rightarrow> string \<Rightarrow> string option"
  ce_rmdir :: "string \<Rightarrow> bool"
  ce_boot :: "string \<Rightarrow> filesystem \<Rightarrow> filesystem"
  ce_write :: write_io
  ce_json :: memo_json
  ce_manifest :: "string \<Rightarrow> image_manifest option"
  ce_digest :: digest_world
  ce_show :: "daemon_error \<Rightarrow> string"

type_synonym 'a create = "create_world \<Rightarrow> (daemon_error + 'a) \<times> create_world"

definition cdone :: "'a \<Rightarrow> 'a create" where "cdone a w = (Inr a, w)"

definition cfail :: "daemon_error \<Rightarrow> 'a create" where "cfail err w = (Inl err, w)"

definition cbind :: "'a create \<Rightarrow> ('a \<Rightarrow> 'b create) \<Rightarrow> 'b create" where
  "cbind m k w = (case m w of (Inl err, w') \<Rightarrow> (Inl err, w') | (Inr a, w') \<Rightarrow> k a w')"

definition on_images :: "(filesystem \<Rightarrow> disk_error + 'a \<times> filesystem) \<Rightarrow> 'a create" where
  "on_images f w =
     (case f (cw_images w) of Inl err \<Rightarrow> (Inl (DiskErr err), w) | Inr (a, fs) \<Rightarrow> (Inr a, w\<lparr>cw_images := fs\<rparr>))"

definition run_images :: "(filesystem \<Rightarrow> disk_error + filesystem) \<Rightarrow> unit create" where
  "run_images f = on_images (\<lambda>fs. rbind (f fs) (\<lambda>fs'. Inr ((), fs')))"

definition cexists :: "create_world \<Rightarrow> string \<Rightarrow> bool" where
  "cexists w p \<longleftrightarrow> cw_images w p \<noteq> None \<or> cw_files w p \<noteq> None"

text \<open>What the start of an instance sees of this world.\<close>

definition daemon_in :: "create_env \<Rightarrow> create_world \<Rightarrow> daemon_env" where
  "daemon_in e w = (ce_daemon e)\<lparr>dm_host := (dm_host (ce_daemon e))\<lparr>hs_exists := cexists w\<rparr>\<rparr>"

section \<open>The steps the operations share\<close>

definition make_private_dir :: "create_env \<Rightarrow> string \<Rightarrow> unit create" where
  "make_private_dir e d w = ((case ce_mkdir e d of Some m \<Rightarrow> Inl (IoErr d m) | None \<Rightarrow> Inr ()), w)"

text \<open>\<open>tokio::fs::copy\<close> of a plain file.\<close>

definition copy_file :: "create_env \<Rightarrow> string \<Rightarrow> string \<Rightarrow> create_world \<Rightarrow> (string + unit) \<times> create_world" where
  "copy_file e src dst w =
     (case ce_copy e src dst of
        Some m \<Rightarrow> (Inl m, w)
      | None \<Rightarrow>
          (case cw_files w src of
             None \<Rightarrow> (Inl ''not found'', w)
           | Some content \<Rightarrow> (Inr (), w\<lparr>cw_files := (cw_files w)(dst := Some content)\<rparr>)))"

definition provision_message :: "string \<Rightarrow> string \<Rightarrow> string \<Rightarrow> string" where
  "provision_message template dest m =
     ''failed to provision OVMF_VARS from '' @ template @ '' to '' @ dest @ '': '' @ m"

definition provision_vars :: "create_env \<Rightarrow> string \<Rightarrow> string \<Rightarrow> unit create" where
  "provision_vars e template dest w =
     (case copy_file e template dest w of
        (Inl m, w') \<Rightarrow> (Inl (FirmwareErr (provision_message template dest m)), w')
      | (Inr _, w') \<Rightarrow> (Inr (), w'))"

definition register_at :: "create_env \<Rightarrow> string \<Rightarrow> instance_config \<Rightarrow> instance_id create" where
  "register_at e dir c w =
     (let d = ce_daemon e;
          file = write_instance_toml (dm_sup d (ic_id c)) (ce_write e) c None;
          (r, reg) = register_instance d c dir file (cw_registry w)
      in (r, w\<lparr>cw_registry := reg\<rparr>))"

text \<open>\<open>InstanceDirGuard\<close>: dropped while armed, it removes the tree.\<close>

definition discard_dir :: "create_env \<Rightarrow> string \<Rightarrow> create_world \<Rightarrow> create_world" where
  "discard_dir e d w =
     (if ce_rmdir e d
      then w\<lparr>cw_images := (\<lambda>p. if below_dir d p then None else cw_images w p),
             cw_files := (\<lambda>p. if below_dir d p then None else cw_files w p)\<rparr>
      else w)"

definition with_guard :: "create_env \<Rightarrow> string \<Rightarrow> 'a create \<Rightarrow> 'a create" where
  "with_guard e d m w =
     (case m w of (Inl err, w') \<Rightarrow> (Inl err, discard_dir e d w') | (Inr a, w') \<Rightarrow> (Inr a, w'))"

definition new_dir :: "string \<Rightarrow> instance_id \<Rightarrow> string" where
  "new_dir root i = path_join root (show_instance_id i)"

section \<open>Overlays on a base image\<close>

record overlay_disk =
  od_overlay_path :: string
  od_base_image_path :: string

definition instance_overlay ::
    "qemu_tool \<Rightarrow> string \<Rightarrow> string \<Rightarrow> u64 \<Rightarrow> filesystem \<Rightarrow> disk_error + overlay_disk \<times> filesystem" where
  "instance_overlay t dir base sz fs =
     (let p = path_join dir ''disk.qcow2'' in
      rbind (create_with_backing_file t p base sz fs) (\<lambda>fs'.
        Inr (\<lparr>od_overlay_path = p, od_base_image_path = base\<rparr>, fs')))"

definition factory_reset ::
    "qemu_tool \<Rightarrow> string option \<Rightarrow> string \<Rightarrow> string \<Rightarrow> u64 \<Rightarrow> filesystem \<Rightarrow> disk_error + overlay_disk \<times> filesystem" where
  "factory_reset t fault dir base sz fs =
     (let p = path_join dir ''disk.qcow2'' in
      rbind (if fs p \<noteq> None then map_err (DiskIo p) (fs_remove fault p fs) else Inr fs)
        (instance_overlay t dir base sz))"

section \<open>Creating\<close>

definition pin_step :: "create_env \<Rightarrow> cache_path \<Rightarrow> android_profile \<Rightarrow> android_profile create" where
  "pin_step e base prof w =
     (let (r, memo) = verify_or_derive_pin (ce_json e) (ce_manifest e) (ce_digest e) base (ap_base_image_pin prof) (cw_memo w)
      in (rbind r (\<lambda>pin. Inr (case pin of Some pn \<Rightarrow> prof\<lparr>ap_base_image_pin := Some pn\<rparr> | None \<Rightarrow> prof)),
          w\<lparr>cw_memo := memo\<rparr>))"

definition android_disk :: "create_env \<Rightarrow> bool \<Rightarrow> string \<Rightarrow> string \<Rightarrow> u64 \<Rightarrow> disk_config create" where
  "android_disk e linked dir base sz =
     (if linked
      then cbind (on_images (instance_overlay (ce_tool e) dir base sz)) (\<lambda>od.
        cdone (disk_overlay (od_overlay_path od) (od_base_image_path od) sz))
      else (let p = path_join dir ''disk.qcow2'' in
        cbind (run_images (clone_full (ce_tool e) base p)) (\<lambda>_.
          cbind (run_images (qcow2_resize (ce_tool e) p sz True)) (\<lambda>_.
            cdone (disk_standalone p sz)))))"

text \<open>The boot mode switch is best effort: a failure is logged and creation goes on.\<close>

definition switch_new_disk :: "create_env \<Rightarrow> string \<Rightarrow> unit create" where
  "switch_new_disk e p w = (Inr (), w\<lparr>cw_images := ce_boot e p (cw_images w)\<rparr>)"

definition android_steps ::
    "create_env \<Rightarrow> android_profile \<Rightarrow> string \<Rightarrow> cache_path \<Rightarrow> string \<Rightarrow> u64 \<Rightarrow> string \<Rightarrow> bool \<Rightarrow> instance_id \<Rightarrow> instance_id create" where
  "android_steps e prof nm base dir sz template linked i =
     cbind (pin_step e base prof) (\<lambda>prof'.
     cbind (make_private_dir e dir) (\<lambda>_.
     if template = [] then cfail (LifeErr MissingOvmfVarsTemplate)
     else (let vars = path_join dir ''VARS.fd'' in
       cbind (provision_vars e template vars) (\<lambda>_.
       cbind (android_disk e linked dir (path_text base) sz) (\<lambda>disk.
       cbind (switch_new_disk e (disk_path disk)) (\<lambda>_.
       register_at e dir (android_resolve prof' i nm disk vars)))))))"

definition create_android_instance ::
    "create_env \<Rightarrow> android_profile \<Rightarrow> string \<Rightarrow> cache_path \<Rightarrow> string \<Rightarrow> u64 \<Rightarrow> string \<Rightarrow> bool \<Rightarrow> instance_id \<Rightarrow> instance_id create" where
  "create_android_instance e prof nm base root sz template linked i =
     (let dir = new_dir root i in with_guard e dir (android_steps e prof nm base dir sz template linked i))"

definition linux_vars :: "create_env \<Rightarrow> string \<Rightarrow> string \<Rightarrow> instance_config \<Rightarrow> instance_config create" where
  "linux_vars e template dir c =
     (if template = [] then cdone c
      else (let vars = path_join dir ''VARS.fd'' in
        cbind (provision_vars e template vars) (\<lambda>_. cdone (c\<lparr>ic_firmware := (ic_firmware c)\<lparr>fw_ovmf_vars := vars\<rparr>\<rparr>))))"

definition linux_disk_path :: "string \<Rightarrow> instance_config \<Rightarrow> string" where
  "linux_disk_path dir c =
     path_join dir (case file_name (disk_path (ic_disk c)) of Some n \<Rightarrow> n | None \<Rightarrow> ''disk.qcow2'')"

definition linux_disk :: "create_env \<Rightarrow> string \<Rightarrow> instance_config \<Rightarrow> instance_config create" where
  "linux_disk e dir c w =
     (if disk_format (ic_disk c) = Qcow2 \<and> \<not> cexists w (disk_path (ic_disk c))
      then (let p = linux_disk_path dir c in
        cbind (run_images (qcow2_create (ce_tool e) p (disk_size (ic_disk c)))) (\<lambda>_.
          cdone (c\<lparr>ic_disk := (ic_disk c)\<lparr>disk_path := p\<rparr>\<rparr>)) w)
      else (Inr c, w))"

definition linux_steps :: "create_env \<Rightarrow> instance_config \<Rightarrow> string \<Rightarrow> string \<Rightarrow> instance_id \<Rightarrow> instance_id create" where
  "linux_steps e c dir template i =
     cbind (make_private_dir e dir) (\<lambda>_.
     cbind (linux_vars e template dir c) (\<lambda>c1.
     cbind (linux_disk e dir c1) (\<lambda>c2.
     register_at e dir (c2\<lparr>ic_id := i\<rparr>))))"

definition create_linux_instance ::
    "create_env \<Rightarrow> instance_config \<Rightarrow> string \<Rightarrow> string \<Rightarrow> instance_id \<Rightarrow> instance_id create" where
  "create_linux_instance e c root template i =
     (let dir = new_dir root i in with_guard e dir (linux_steps e c dir template i))"

section \<open>Cloning\<close>

definition terminal_clonable_config :: "instance_id \<Rightarrow> registry \<Rightarrow> daemon_error + instance_config" where
  "terminal_clonable_config i reg =
     rbind (handle_for i reg) (\<lambda>h.
       if is_disk_idle (handle_state h) then Inr (handle_config h)
       else Inl (LifeErr (InstanceNotClonable i (handle_state h))))"

fun show_clone_mode :: "clone_mode \<Rightarrow> string" where
  "show_clone_mode Linked = ''Linked''"
| "show_clone_mode FullStandalone = ''FullStandalone''"
| "show_clone_mode SharedBase = ''SharedBase''"

definition clone_key :: "instance_id \<Rightarrow> string \<Rightarrow> clone_mode \<Rightarrow> string option \<Rightarrow> string option" where
  "clone_key src nm mode token =
     (case token of Some t \<Rightarrow> Some t
      | None \<Rightarrow> Some (''clone:'' @ show_instance_id src @ '':'' @ nm @ '':'' @ show_clone_mode mode))"

definition clone_phases :: "string list" where
  "clone_phases = [''validate'', ''clone-disk'', ''register'']"

definition new_operation :: "string \<Rightarrow> instance_id \<Rightarrow> operation_kind \<Rightarrow> string list \<Rightarrow> operation" where
  "new_operation oid i k phases =
     \<lparr>op_id = oid, op_instance = i, op_kind = k, op_phases = phases, op_current_phase = None,
      op_state = OpQueued, op_error = None\<rparr>"

definition clone_operation :: "instance_id \<Rightarrow> instance_id \<Rightarrow> operation" where
  "clone_operation src i = new_operation (''clone-'' @ show_instance_id i) src OpClone clone_phases"

fun android_kind :: "instance_kind \<Rightarrow> bool" where
  "android_kind (AndroidVm _) = True"
| "android_kind _ = False"

text \<open>The checks before anything is set up: the source's configuration as it is then.\<close>

definition clone_check :: "instance_id \<Rightarrow> clone_mode \<Rightarrow> instance_config create" where
  "clone_check src mode w =
     (rbind (terminal_clonable_config src (cw_registry w)) (\<lambda>c.
        if mode = SharedBase \<and> \<not> android_kind (ic_kind c) then Inl (LifeErr (SharedBaseNotSupportedForLinuxVm src))
        else Inr c), w)"

datatype 'a accepted = Started nat | JoinedTo 'a

definition request_clone ::
    "create_env \<Rightarrow> instance_id \<Rightarrow> string option \<Rightarrow> instance_id \<Rightarrow> instance_id accepted create" where
  "request_clone e src key i w =
     (case registered (cw_registry w) src of
        None \<Rightarrow> (Inl (InstanceSupervisorGone src), w)
      | Some h \<Rightarrow>
          (let (r, s) = start_id_operation (dm_sup (ce_daemon e) src) (clone_operation src i) key i (ih_sup h) in
           (rbind r (\<lambda>j. Inr (case j of None \<Rightarrow> Started (sup_next_op_seq (ih_sup h)) | Some (_, k) \<Rightarrow> JoinedTo k)),
            w\<lparr>cw_registry := with_supervisor src (\<lambda>_. s) (cw_registry w)\<rparr>)))"

text \<open>The progress handle of the running task: it reports to the source's supervisor.\<close>

definition report :: "instance_id \<Rightarrow> nat \<Rightarrow> task_step \<Rightarrow> unit create" where
  "report src seq t w = (Inr (), w\<lparr>cw_registry := with_supervisor src (task_progress seq t) (cw_registry w)\<rparr>)"

definition task_cancelled :: "instance_id \<Rightarrow> nat \<Rightarrow> create_world \<Rightarrow> bool" where
  "task_cancelled src seq w =
     (case registered (cw_registry w) src of None \<Rightarrow> False | Some h \<Rightarrow> sup_cancel (ih_sup h) seq)"

definition stop_if_cancelled :: "instance_id \<Rightarrow> nat \<Rightarrow> string \<Rightarrow> unit create" where
  "stop_if_cancelled src seq oid w =
     ((if task_cancelled src seq w then Inl (OpErr (OperationCancelled oid)) else Inr ()), w)"

definition copy_vars :: "create_env \<Rightarrow> string \<Rightarrow> string \<Rightarrow> unit create" where
  "copy_vars e src dst w =
     (case copy_file e src dst w of (Inl m, w') \<Rightarrow> (Inl (IoErr dst m), w') | (Inr _, w') \<Rightarrow> (Inr (), w'))"

definition clone_disk :: "create_env \<Rightarrow> clone_mode \<Rightarrow> disk_config \<Rightarrow> string \<Rightarrow> cloned_disk create" where
  "clone_disk e mode disk dest =
     (case mode of
        Linked \<Rightarrow> on_images (linked_clone (ce_tool e) (disk_path disk) dest (disk_size disk))
      | FullStandalone \<Rightarrow> on_images (full_standalone_clone (ce_tool e) (disk_path disk) dest)
      | SharedBase \<Rightarrow>
          (case disk_base_image disk of
             None \<Rightarrow> cfail (IoErr (disk_path disk) ''SharedBase clone requires a source disk with base_image set'')
           | Some base \<Rightarrow> on_images (shared_base_clone (ce_copy e (disk_path disk) dest) (disk_path disk) dest base)))"

definition meanwhile :: "(create_world \<Rightarrow> create_world) \<Rightarrow> unit create" where
  "meanwhile others w = (Inr (), others w)"

text \<open>The body of the operation, up to the disk and from there.\<close>

definition clone_prepare ::
    "create_env \<Rightarrow> instance_id \<Rightarrow> instance_config \<Rightarrow> clone_mode \<Rightarrow> string \<Rightarrow> string \<Rightarrow> nat \<Rightarrow> (create_world \<Rightarrow> create_world) \<Rightarrow> cloned_disk create" where
  "clone_prepare e src c mode dir oid seq others =
     cbind (report src seq (EnterPhase ''validate'')) (\<lambda>_.
     cbind (stop_if_cancelled src seq oid) (\<lambda>_.
     cbind (report src seq (EnterPhase ''clone-disk'')) (\<lambda>_.
     cbind (make_private_dir e dir) (\<lambda>_.
     cbind (copy_vars e (fw_ovmf_vars (ic_firmware c)) (path_join dir ''VARS.fd'')) (\<lambda>_.
     cbind (clone_disk e mode (ic_disk c) (path_join dir ''disk.qcow2'')) (\<lambda>cl.
     cbind (meanwhile others) (\<lambda>_.
     cbind (stop_if_cancelled src seq oid) (\<lambda>_.
     cdone cl))))))))"

definition cloned_config :: "instance_config \<Rightarrow> instance_id \<Rightarrow> string \<Rightarrow> string \<Rightarrow> cloned_disk \<Rightarrow> instance_config" where
  "cloned_config c i nm dir cl =
     c\<lparr>ic_id := i, ic_name := nm,
       ic_disk := (ic_disk c)\<lparr>disk_path := cl_disk_path cl, disk_base_image := cl_backing_file cl\<rparr>,
       ic_firmware := (ic_firmware c)\<lparr>fw_ovmf_vars := path_join dir ''VARS.fd''\<rparr>\<rparr>"

definition clone_register ::
    "create_env \<Rightarrow> instance_id \<Rightarrow> instance_config \<Rightarrow> string \<Rightarrow> string \<Rightarrow> instance_id \<Rightarrow> nat \<Rightarrow> cloned_disk \<Rightarrow> instance_id create" where
  "clone_register e src c nm dir i seq cl =
     cbind (report src seq (EnterPhase ''register'')) (\<lambda>_.
     register_at e dir (cloned_config c i nm dir cl))"

text \<open>The task: the outcome is recorded on the progress handle, then the supervisor hears that
  the task is over.\<close>

definition finish_task :: "create_env \<Rightarrow> instance_id \<Rightarrow> nat \<Rightarrow> 'a create \<Rightarrow> 'a create" where
  "finish_task e src seq body w =
     (case body w of
        (r, w1) \<Rightarrow>
          (let result = (case r of Inl err \<Rightarrow> Inl (ce_show e err) | Inr _ \<Rightarrow> Inr ()) in
           (r, w1\<lparr>cw_registry := with_supervisor src (op_done seq)
                 (with_supervisor src (task_progress seq (Finish result)) (cw_registry w1))\<rparr>)))"

definition clone_task ::
    "create_env \<Rightarrow> instance_id \<Rightarrow> instance_config \<Rightarrow> clone_mode \<Rightarrow> string \<Rightarrow> string \<Rightarrow> instance_id \<Rightarrow> nat \<Rightarrow> (create_world \<Rightarrow> create_world) \<Rightarrow> instance_id create" where
  "clone_task e src c mode nm dir i seq others =
     cbind (report src seq MarkRunning) (\<lambda>_.
     finish_task e src seq (
       cbind (clone_prepare e src c mode dir (''clone-'' @ show_instance_id i) seq others) (\<lambda>cl.
       clone_register e src c nm dir i seq cl)))"

definition clone_steps ::
    "create_env \<Rightarrow> instance_id \<Rightarrow> instance_config \<Rightarrow> clone_mode \<Rightarrow> string \<Rightarrow> string \<Rightarrow> string option \<Rightarrow> instance_id \<Rightarrow> (create_world \<Rightarrow> create_world) \<Rightarrow> instance_id create" where
  "clone_steps e src c mode nm dir key i others =
     cbind (request_clone e src key i) (\<lambda>acc.
       (case acc of
          JoinedTo k \<Rightarrow> cdone k
        | Started seq \<Rightarrow> clone_task e src c mode nm dir i seq others))"

definition clone_instance ::
    "create_env \<Rightarrow> instance_id \<Rightarrow> string \<Rightarrow> string \<Rightarrow> clone_mode \<Rightarrow> string option \<Rightarrow> instance_id \<Rightarrow> (create_world \<Rightarrow> create_world) \<Rightarrow> instance_id create" where
  "clone_instance e src nm root mode token i others =
     cbind (clone_check src mode) (\<lambda>c.
       (let dir = new_dir root i in
        with_guard e dir (clone_steps e src c mode nm dir (clone_key src nm mode token) i others)))"

section \<open>Exporting\<close>

definition export_key :: "instance_id \<Rightarrow> string \<Rightarrow> string option \<Rightarrow> string option" where
  "export_key src dest token =
     (case token of Some t \<Rightarrow> Some t | None \<Rightarrow> Some (''export:'' @ show_instance_id src @ '':'' @ dest))"

definition export_operation :: "instance_id \<Rightarrow> operation" where
  "export_operation src = new_operation (''export-'' @ show_instance_id src) src OpExport [''validate'', ''convert'']"

definition request_export :: "create_env \<Rightarrow> instance_id \<Rightarrow> string option \<Rightarrow> string accepted create" where
  "request_export e src key w =
     (case registered (cw_registry w) src of
        None \<Rightarrow> (Inl (InstanceSupervisorGone src), w)
      | Some h \<Rightarrow>
          (let (r, s) = start_operation (dm_sup (ce_daemon e) src) (export_operation src) key (ih_sup h) in
           (rbind r (\<lambda>j. Inr (case j of None \<Rightarrow> Started (sup_next_op_seq (ih_sup h)) | Some oid \<Rightarrow> JoinedTo oid)),
            w\<lparr>cw_registry := with_supervisor src (\<lambda>_. s) (cw_registry w)\<rparr>)))"

definition export_task :: "create_env \<Rightarrow> instance_id \<Rightarrow> string \<Rightarrow> string \<Rightarrow> nat \<Rightarrow> (create_world \<Rightarrow> create_world) \<Rightarrow> unit create" where
  "export_task e src disk dest seq others =
     (let oid = ''export-'' @ show_instance_id src in
      cbind (report src seq MarkRunning) (\<lambda>_.
      finish_task e src seq (
        cbind (report src seq (EnterPhase ''validate'')) (\<lambda>_.
        cbind (stop_if_cancelled src seq oid) (\<lambda>_.
        cbind (report src seq (EnterPhase ''convert'')) (\<lambda>_.
        cbind (on_images (full_standalone_clone (ce_tool e) disk dest)) (\<lambda>_.
        cbind (meanwhile others) (\<lambda>_.
        stop_if_cancelled src seq oid))))))))"

definition export_instance_disk ::
    "create_env \<Rightarrow> instance_id \<Rightarrow> string \<Rightarrow> string option \<Rightarrow> (create_world \<Rightarrow> create_world) \<Rightarrow> unit create" where
  "export_instance_disk e src dest token others =
     cbind (\<lambda>w. (terminal_clonable_config src (cw_registry w), w)) (\<lambda>c.
       cbind (request_export e src (export_key src dest token)) (\<lambda>acc.
         (case acc of
            JoinedTo _ \<Rightarrow> cdone ()
          | Started seq \<Rightarrow> export_task e src (disk_path (ic_disk c)) dest seq others)))"

section \<open>Purging\<close>

text \<open>\<open>purge_instance_files\<close> after a removal: failures of single files are logged only.
  \<open>faulty\<close> are the paths the host fails to remove.\<close>

definition purge_file :: "(string \<Rightarrow> bool) \<Rightarrow> string \<Rightarrow> create_world \<Rightarrow> create_world" where
  "purge_file faulty p w =
     (if faulty p then w else w\<lparr>cw_images := (cw_images w)(p := None), cw_files := (cw_files w)(p := None)\<rparr>)"

definition own_disks :: "string \<Rightarrow> instance_config \<Rightarrow> string list" where
  "own_disks dir c = filter (\<lambda>p. path_parent p = Some dir) (map disk_path (ic_extra_disks c))"

definition purge_paths :: "string \<Rightarrow> instance_config \<Rightarrow> string list" where
  "purge_paths dir c =
     disk_path (ic_disk c) # fw_ovmf_vars (ic_firmware c) # own_disks dir c
       @ [path_join dir ''instance.toml'', path_join dir ''events.jsonl'']"

definition purge_instance_files ::
    "create_env \<Rightarrow> (string \<Rightarrow> bool) \<Rightarrow> instance_config \<Rightarrow> string \<Rightarrow> create_world \<Rightarrow> create_world" where
  "purge_instance_files e faulty c dir w = discard_dir e dir (fold (purge_file faulty) (purge_paths dir c) w)"

text \<open>Without purge only the entries of the registry go, and a marker keeps the next scan away.\<close>

definition remove_registry_entries :: "(string \<Rightarrow> bool) \<Rightarrow> string \<Rightarrow> create_world \<Rightarrow> create_world" where
  "remove_registry_entries faulty dir w =
     (let w' = fold (purge_file faulty) [path_join dir ''instance.toml'', path_join dir ''events.jsonl''] w;
          marker = path_join dir ''instance.removed''
      in if faulty marker then w' else w'\<lparr>cw_files := (cw_files w')(marker := Some [])\<rparr>)"

definition remove_with_files ::
    "create_env \<Rightarrow> (string \<Rightarrow> bool) \<Rightarrow> instance_id \<Rightarrow> bool \<Rightarrow> unit create" where
  "remove_with_files e faulty i purge w =
     (case remove_instance i purge (cw_registry w) of
        (Inl err, _) \<Rightarrow> (Inl err, w)
      | (Inr _, reg) \<Rightarrow>
          (let w' = w\<lparr>cw_registry := reg\<rparr> in
           (Inr (), case registered (cw_registry w) i of
              None \<Rightarrow> w'
            | Some h \<Rightarrow>
                (if purge then purge_instance_files e faulty (handle_config h) (ih_dir h) w'
                 else remove_registry_entries faulty (ih_dir h) w'))))"

text \<open>An entry whose \<open>instance.toml\<close> is unreadable has no supervisor, only a directory below the
  root of the instances.\<close>

definition remove_broken_instance :: "create_env \<Rightarrow> string \<Rightarrow> instance_id \<Rightarrow> bool \<Rightarrow> unit create" where
  "remove_broken_instance e root i purge w =
     (case cw_broken w i of
        None \<Rightarrow> (Inl (InstanceNotFound i), w)
      | Some _ \<Rightarrow>
          (let w' = w\<lparr>cw_broken := (cw_broken w)(i := None)\<rparr> in
           (Inr (), if purge then discard_dir e (new_dir root i) w' else w')))"

definition remove_instance_entry ::
    "create_env \<Rightarrow> (string \<Rightarrow> bool) \<Rightarrow> string \<Rightarrow> instance_id \<Rightarrow> bool \<Rightarrow> unit create" where
  "remove_instance_entry e faulty root i purge w =
     (if cw_broken w i \<noteq> None then remove_broken_instance e root i purge w
      else remove_with_files e faulty i purge w)"

end
