(* ===== verification/CreationRuns.thy ===== *)
theory CreationRuns
  imports Creation RegistryRuns
begin

text \<open>
  What creating and cloning instances guarantees. The first part is the calculus of the threaded
  operations: a relation between the worlds before and after that every step keeps (\<open>keeps\<close>), or
  keeps whenever it fails (\<open>fails_clean\<close>), is kept by their composition; \<open>world_relation\<close> is the
  contract, interpreted by the relations the properties need.
\<close>

section \<open>Threading\<close>

lemma cbind_Inr_iff: "cbind m k w = (Inr b, w') \<longleftrightarrow> (\<exists>a w1. m w = (Inr a, w1) \<and> k a w1 = (Inr b, w'))"
  by (auto simp: cbind_def split: prod.splits sum.splits)

lemma cbind_Inl_iff: "cbind m k w = (Inl err, w') \<longleftrightarrow>
    m w = (Inl err, w') \<or> (\<exists>a w1. m w = (Inr a, w1) \<and> k a w1 = (Inl err, w'))"
  by (auto simp: cbind_def split: prod.splits sum.splits)

lemma cdone_iff [simp]: "cdone a w = (r, w') \<longleftrightarrow> r = Inr a \<and> w' = w"
  by (auto simp: cdone_def)

lemma cfail_iff [simp]: "cfail err w = (r, w') \<longleftrightarrow> r = Inl err \<and> w' = w"
  by (auto simp: cfail_def)

definition keeps :: "(create_world \<Rightarrow> create_world \<Rightarrow> bool) \<Rightarrow> 'a create \<Rightarrow> bool" where
  "keeps R m \<longleftrightarrow> (\<forall>w. R w (snd (m w)))"

definition fails_clean :: "(create_world \<Rightarrow> create_world \<Rightarrow> bool) \<Rightarrow> 'a create \<Rightarrow> bool" where
  "fails_clean R m \<longleftrightarrow> (\<forall>w err w'. m w = (Inl err, w') \<longrightarrow> R w w')"

lemma keepsD: "keeps R m \<Longrightarrow> m w = (r, w') \<Longrightarrow> R w w'"
  unfolding keeps_def by (metis snd_conv)

lemma fails_cleanD: "fails_clean R m \<Longrightarrow> m w = (Inl err, w') \<Longrightarrow> R w w'"
  by (simp add: fails_clean_def)

locale world_relation =
  fixes R :: "create_world \<Rightarrow> create_world \<Rightarrow> bool"
  assumes same: "R w w"
    and later: "R u v \<Longrightarrow> R v w \<Longrightarrow> R u w"
begin

lemma keeps_value: "keeps R m \<Longrightarrow> (\<And>a u v. m u = (Inr a, v) \<Longrightarrow> keeps R (k a)) \<Longrightarrow> keeps R (cbind m k)"
  unfolding keeps_def cbind_def by (auto split: prod.splits sum.splits) (metis later snd_conv)+

lemma keeps_bind: "keeps R m \<Longrightarrow> (\<And>a. keeps R (k a)) \<Longrightarrow> keeps R (cbind m k)"
  by (rule keeps_value)

lemma keeps_still: "(\<And>w. snd (m w) = w) \<Longrightarrow> keeps R m"
  by (simp add: keeps_def same)

lemma keeps_fails: "keeps R m \<Longrightarrow> fails_clean R m"
  unfolding fails_clean_def by (blast dest: keepsD)

lemma fails_clean_bind: "keeps R m \<Longrightarrow> (\<And>a. fails_clean R (k a)) \<Longrightarrow> fails_clean R (cbind m k)"
  unfolding fails_clean_def cbind_Inl_iff by (blast dest: keepsD intro: later)

lemma keeps_if: "keeps R m \<Longrightarrow> keeps R m' \<Longrightarrow> keeps R (if b then m else m')"
  by simp

lemma fails_clean_if: "fails_clean R m \<Longrightarrow> fails_clean R m' \<Longrightarrow> fails_clean R (if b then m else m')"
  by simp

lemma keeps_trivial: "keeps R (cdone a)" "keeps R (cfail err)" "keeps R (make_private_dir e d)"
    "keeps R (stop_if_cancelled src seq oid)" "keeps R (clone_check src mode)"
  by (rule keeps_still; simp add: cdone_def cfail_def make_private_dir_def stop_if_cancelled_def clone_check_def)+

end

text \<open>Nothing outside the new directory changes; the registry does not change; an id is not given
  to an instance.\<close>

definition same_outside :: "string \<Rightarrow> create_world \<Rightarrow> create_world \<Rightarrow> bool" where
  "same_outside d w w' \<longleftrightarrow> (\<forall>p. \<not> below_dir d p \<longrightarrow> cw_images w' p = cw_images w p \<and> cw_files w' p = cw_files w p)"

definition same_registry :: "create_world \<Rightarrow> create_world \<Rightarrow> bool" where
  "same_registry w w' \<longleftrightarrow> cw_registry w' = cw_registry w"

definition still_free :: "instance_id \<Rightarrow> create_world \<Rightarrow> create_world \<Rightarrow> bool" where
  "still_free i w w' \<longleftrightarrow> (registered (cw_registry w) i = None \<longrightarrow> registered (cw_registry w') i = None)"

interpretation outside: world_relation "same_outside d" for d
  by unfold_locales (auto simp: same_outside_def)

interpretation unregistered: world_relation same_registry
  by unfold_locales (auto simp: same_registry_def)

interpretation free_id: world_relation "still_free i" for i
  by unfold_locales (auto simp: still_free_def)

section \<open>Paths in the new directory\<close>

lemma hex_digit_plain: "d < 16 \<Longrightarrow> hex_digit d \<noteq> CHR ''/''"
  using hex_digit_roundtrip[of d] by (auto simp: to_digit16_def byte_def)

lemma plain_show_id: "id_ok i \<Longrightarrow> plain_name (show_instance_id i)"
proof -
  assume "id_ok i"
  have "CHR ''/'' \<notin> set (show_byte_hex b)" for b
  proof -
    have "unat b div 16 < 16" using unsigned_less[of b, where 'a = nat] by simp
    then show ?thesis using hex_digit_plain[of "unat b div 16"] hex_digit_plain[of "unat b mod 16"]
      by (auto simp: show_byte_hex_def)
  qed
  then have "CHR ''/'' \<notin> set (show_instance_id i)" by (simp add: show_instance_id_def)
  moreover have "0 < length (show_instance_id i)" using \<open>id_ok i\<close> by (simp add: length_show_instance_id id_ok_def)
  ultimately show ?thesis by (simp add: plain_name_def)
qed

lemma plain_new_dir: "id_ok i \<Longrightarrow> plain_dir (new_dir root i)"
  using plain_show_id[of i] plain_dir_join[of "show_instance_id i" root] plain_dir_join[of "show_instance_id i" "root @ ''/''"]
    plain_dir_join[of "show_instance_id i" "[]"]
  by (auto simp: new_dir_def path_join_def)

lemma below_new: "id_ok i \<Longrightarrow> plain_name n \<Longrightarrow> below_dir (new_dir root i) (path_join (new_dir root i) n)"
  using plain_new_dir[of i root] by (simp add: path_join_plain)

lemma plain_names [simp]: "plain_name ''VARS.fd''" "plain_name ''disk.qcow2''"
  by (simp_all add: plain_name_def)

lemma file_name_plain: "file_name p = Some n \<Longrightarrow> plain_name n"
  by (auto simp: file_name_def plain_name_def Let_def split: if_splits dest: set_takeWhileD)

lemma linux_disk_below: "id_ok i \<Longrightarrow> below_dir (new_dir root i) (linux_disk_path (new_dir root i) c)"
  using below_new[of i] by (auto simp: linux_disk_path_def split: option.split dest: file_name_plain)

text \<open>Ids are drawn at random: nothing is below the new directory yet.\<close>

definition fresh_dir :: "string \<Rightarrow> create_world \<Rightarrow> bool" where
  "fresh_dir d w \<longleftrightarrow> (\<forall>p. below_dir d p \<longrightarrow> \<not> cexists w p)"

lemma fresh_image: "fresh_dir d w \<Longrightarrow> below_dir d p \<Longrightarrow> cw_images w p = None"
  by (simp add: fresh_dir_def cexists_def)

section \<open>What \<open>qemu-img\<close> and the boot mode switch do\<close>

text \<open>Documented behaviour: a conversion writes a standalone image that reads like its source, a
  resize changes the size of the file it names.\<close>

definition image_laws :: "qemu_tool \<Rightarrow> bool" where
  "image_laws t \<longleftrightarrow> qemu_laws t
     \<and> (\<forall>src dst fs fs'. clone_full t src dst fs = Inr fs' \<longrightarrow>
          (\<exists>im v. fs src = Some im \<and> guest_reads fs src v
             \<and> fs' = fs(dst := Some \<lparr>im_size = im_size im, im_backing = None, im_data = v\<rparr>)))
     \<and> (\<forall>p n shrink fs fs'. qcow2_resize t p n shrink fs = Inr fs' \<longrightarrow>
          (\<exists>im v. fs p = Some im \<and> fs' = fs(p := Some (im\<lparr>im_size := n, im_data := v\<rparr>))))"

lemma image_lawsD:
  assumes "image_laws t"
  shows "qemu_laws t"
    and "clone_full t src dst fs = Inr fs' \<Longrightarrow> \<exists>im v. fs src = Some im \<and> guest_reads fs src v
             \<and> fs' = fs(dst := Some \<lparr>im_size = im_size im, im_backing = None, im_data = v\<rparr>)"
    and "qcow2_resize t p n shrink fs = Inr fs' \<Longrightarrow> \<exists>im v. fs p = Some im \<and> fs' = fs(p := Some (im\<lparr>im_size := n, im_data := v\<rparr>))"
    and "qcow2_create t p s fs = Inr fs' \<Longrightarrow> fs' = fs(p := Some \<lparr>im_size = s, im_backing = None, im_data = Map.empty\<rparr>)"
    and "create_with_backing_file t p b s fs = Inr fs' \<Longrightarrow>
             fs b \<noteq> None \<and> fs' = fs(p := Some \<lparr>im_size = s, im_backing = Some b, im_data = Map.empty\<rparr>)"
proof -
  show q: "qemu_laws t" using assms by (simp add: image_laws_def)
  show "clone_full t src dst fs = Inr fs' \<Longrightarrow> \<exists>im v. fs src = Some im \<and> guest_reads fs src v
             \<and> fs' = fs(dst := Some \<lparr>im_size = im_size im, im_backing = None, im_data = v\<rparr>)"
    and "qcow2_resize t p n shrink fs = Inr fs' \<Longrightarrow> \<exists>im v. fs p = Some im \<and> fs' = fs(p := Some (im\<lparr>im_size := n, im_data := v\<rparr>))"
    using assms[unfolded image_laws_def, THEN conjunct2, THEN conjunct1]
      assms[unfolded image_laws_def, THEN conjunct2, THEN conjunct2] by simp_all
  show "qcow2_create t p s fs = Inr fs' \<Longrightarrow> fs' = fs(p := Some \<lparr>im_size = s, im_backing = None, im_data = Map.empty\<rparr>)"
    using q[unfolded qemu_laws_def, THEN conjunct2, THEN conjunct2, THEN conjunct1] by simp
  have "create_overlay t p b s fs = Inr fs' \<Longrightarrow> fs' = fs(p := Some \<lparr>im_size = s, im_backing = Some b, im_data = Map.empty\<rparr>)"
    using q[unfolded qemu_laws_def, THEN conjunct2, THEN conjunct2, THEN conjunct2, THEN conjunct1] by simp
  then show "create_with_backing_file t p b s fs = Inr fs' \<Longrightarrow>
             fs b \<noteq> None \<and> fs' = fs(p := Some \<lparr>im_size = s, im_backing = Some b, im_data = Map.empty\<rparr>)"
    by (auto simp: create_with_backing_file_def create_overlay_def split: if_splits)
qed

text \<open>The guest file tool writes into the disk it is given and nowhere else.\<close>

definition boot_laws :: "create_env \<Rightarrow> bool" where
  "boot_laws e \<longleftrightarrow> (\<forall>p fs. (\<forall>q. q \<noteq> p \<longrightarrow> ce_boot e p fs q = fs q)
     \<and> map_option im_backing (ce_boot e p fs p) = map_option im_backing (fs p))"

lemma boot_lawsD: "boot_laws e \<Longrightarrow> q \<noteq> p \<Longrightarrow> ce_boot e p fs q = fs q"
    "boot_laws e \<Longrightarrow> map_option im_backing (ce_boot e p fs q) = map_option im_backing (fs q)"
proof -
  assume b: "boot_laws e"
  have off: "q \<noteq> p \<Longrightarrow> ce_boot e p fs q = fs q" for q p fs using b unfolding boot_laws_def by blast
  show "q \<noteq> p \<Longrightarrow> ce_boot e p fs q = fs q" by (rule off)
  have "map_option im_backing (ce_boot e p fs p) = map_option im_backing (fs p)" using b unfolding boot_laws_def by blast
  then show "map_option im_backing (ce_boot e p fs q) = map_option im_backing (fs q)" by (cases "q = p") (simp_all add: off)
qed

section \<open>What each step touches\<close>

lemma on_images_keeps:
  assumes "\<And>fs a fs'. f fs = Inr (a, fs') \<Longrightarrow> \<exists>im. fs' = fs(p := im)"
  shows "below_dir d p \<Longrightarrow> keeps (same_outside d) (on_images f)"
    and "keeps same_registry (on_images f)" "keeps (still_free i) (on_images f)"
  using assms unfolding keeps_def on_images_def same_outside_def same_registry_def still_free_def
  by (auto split: sum.splits) (metis (no_types) fun_upd_other)


text \<open>Steps that work on plain files.\<close>

lemma copies_keep:
  "below_dir d p \<Longrightarrow> keeps (same_outside d) (copy_vars e s p)" "below_dir d p \<Longrightarrow> keeps (same_outside d) (provision_vars e s p)"
  "keeps same_registry (copy_vars e s p)" "keeps same_registry (provision_vars e s p)"
  "keeps (still_free i) (copy_vars e s p)"
  by (auto simp: keeps_def copy_vars_def provision_vars_def copy_file_def same_outside_def same_registry_def still_free_def
      split: option.splits)

lemma pin_step_keeps: "keeps (same_outside d) (pin_step e base prof)" "keeps same_registry (pin_step e base prof)"
  by (auto simp: keeps_def pin_step_def same_outside_def same_registry_def split: prod.splits)

lemma switch_keeps:
  "boot_laws e \<Longrightarrow> below_dir d p \<Longrightarrow> keeps (same_outside d) (switch_new_disk e p)" "keeps same_registry (switch_new_disk e p)"
  by (auto simp: keeps_def switch_new_disk_def same_outside_def same_registry_def) (metis boot_lawsD(1))

lemma register_keeps:
  "keeps (same_outside d) (register_at e dir c)" "fails_clean same_registry (register_at e dir c)"
  "fails_clean (still_free i) (register_at e dir c)"
  by (auto simp: keeps_def fails_clean_def register_at_def register_instance_def same_outside_def same_registry_def
      still_free_def Let_def split: sum.splits)

lemma images_keep:
  assumes "image_laws t"
  shows "below_dir d p \<Longrightarrow> keeps (same_outside d) (run_images (qcow2_create t p s))"
    and "below_dir d p \<Longrightarrow> keeps (same_outside d) (run_images (clone_full t src p))"
    and "below_dir d p \<Longrightarrow> keeps (same_outside d) (run_images (qcow2_resize t p n shrink))"
    and "below_dir d (path_join dir ''disk.qcow2'') \<Longrightarrow> keeps (same_outside d) (on_images (instance_overlay t dir b s))"
  unfolding run_images_def
  by (rule on_images_keeps(1)[rotated], assumption,
      auto simp: rbind_def instance_overlay_def Let_def split: sum.splits dest!: image_lawsD(2-5)[OF assms])+

lemma run_images_registry: "keeps same_registry (run_images f)" "keeps same_registry (on_images g)"
    "keeps (still_free i) (on_images g)"
  by (auto simp: keeps_def run_images_def on_images_def same_registry_def still_free_def split: sum.splits)

lemma clone_disk_keeps:
  assumes "image_laws (ce_tool e)" and "below_dir d p"
  shows "keeps (same_outside d) (clone_disk e mode disk p)"
proof (cases mode)
  case Linked
  then show ?thesis unfolding clone_disk_def using assms(2)
    by (auto intro!: on_images_keeps(1)[rotated] simp: linked_clone_def rbind_def split: sum.splits
        dest!: image_lawsD(5)[OF assms(1)])
next
  case FullStandalone
  then show ?thesis unfolding clone_disk_def using assms(2)
    by (auto intro!: on_images_keeps(1)[rotated] simp: full_standalone_clone_def rbind_def split: sum.splits
        dest!: image_lawsD(2)[OF assms(1)])
next
  case SharedBase
  then show ?thesis unfolding clone_disk_def using assms(2)
    by (auto intro!: on_images_keeps(1)[rotated] outside.keeps_trivial simp: shared_base_clone_def split: option.splits)
qed


section \<open>A failed creation\<close>

text \<open>Below the directory nothing is left, elsewhere nothing has changed.\<close>

definition no_trace :: "string \<Rightarrow> create_world \<Rightarrow> create_world \<Rightarrow> bool" where
  "no_trace d w w' \<longleftrightarrow> (\<forall>p. if below_dir d p then \<not> cexists w' p
     else cw_images w' p = cw_images w p \<and> cw_files w' p = cw_files w p)"

lemma guard_no_trace:
  assumes "keeps (same_outside d) m" "ce_rmdir e d" "with_guard e d m w = (Inl err, w')"
  shows "no_trace d w w'"
proof -
  obtain w1 where m: "m w = (Inl err, w1)" and w': "w' = discard_dir e d w1"
    using assms(3) by (auto simp: with_guard_def split: prod.splits sum.splits)
  show ?thesis using keepsD[OF assms(1) m] assms(2)
    by (simp add: w' no_trace_def same_outside_def discard_dir_def cexists_def)
qed

lemma guard_fails:
  assumes "with_guard e d m w = (Inl err, w')"
  shows "fails_clean same_registry m \<Longrightarrow> cw_registry w' = cw_registry w"
    and "fails_clean (still_free i) m \<Longrightarrow> registered (cw_registry w) i = None \<Longrightarrow> registered (cw_registry w') i = None"
proof -
  obtain w1 where m: "m w = (Inl err, w1)" and w': "w' = discard_dir e d w1"
    using assms by (auto simp: with_guard_def split: prod.splits sum.splits)
  have "cw_registry w' = cw_registry w1" by (simp add: w' discard_dir_def)
  then show "fails_clean same_registry m \<Longrightarrow> cw_registry w' = cw_registry w"
    and "fails_clean (still_free i) m \<Longrightarrow> registered (cw_registry w) i = None \<Longrightarrow> registered (cw_registry w') i = None"
    using fails_cleanD[of same_registry m w err w1] fails_cleanD[of "still_free i" m w err w1] m
    by (auto simp: same_registry_def still_free_def)
qed

lemma disk_below: "id_ok i \<Longrightarrow> below_dir (new_dir root i) (path_join (new_dir root i) ''disk.qcow2'')"
  "id_ok i \<Longrightarrow> below_dir (new_dir root i) (path_join (new_dir root i) ''VARS.fd'')"
  by (rule below_new; simp)+

lemma android_disk_keeps:
  assumes "image_laws (ce_tool e)" "below_dir d (path_join dir ''disk.qcow2'')"
  shows "keeps (same_outside d) (android_disk e linked dir base sz)" "keeps same_registry (android_disk e linked dir base sz)"
  unfolding android_disk_def Let_def
  by (intro outside.keeps_if outside.keeps_bind images_keep outside.keeps_trivial assms)
    (intro unregistered.keeps_if unregistered.keeps_bind run_images_registry unregistered.keeps_trivial)

lemma android_disk_path: "android_disk e linked dir base sz w = (Inr disk, w') \<Longrightarrow> disk_path disk = path_join dir ''disk.qcow2''"
  by (auto simp: android_disk_def cbind_Inr_iff on_images_def instance_overlay_def disk_overlay_def disk_standalone_def Let_def
      rbind_def split: if_splits sum.splits prod.splits)

lemma android_steps_keep:
  assumes "image_laws (ce_tool e)" "boot_laws e" "id_ok i"
  shows "keeps (same_outside (new_dir root i)) (android_steps e prof nm base (new_dir root i) sz template linked i)"
    and "fails_clean same_registry (android_steps e prof nm base (new_dir root i) sz template linked i)"
proof -
  let ?d = "new_dir root i"
  note below = disk_below[OF assms(3), of root]
  show "keeps (same_outside ?d) (android_steps e prof nm base ?d sz template linked i)"
    unfolding android_steps_def Let_def
    by (intro outside.keeps_bind outside.keeps_if outside.keeps_trivial pin_step_keeps copies_keep below
        outside.keeps_value[OF android_disk_keeps(1)[OF assms(1) below(1)]] register_keeps switch_keeps assms(2))
      (simp add: android_disk_path below)
  show "fails_clean same_registry (android_steps e prof nm base ?d sz template linked i)"
    unfolding android_steps_def Let_def
    by (intro unregistered.fails_clean_bind unregistered.fails_clean_if unregistered.keeps_trivial
        unregistered.keeps_fails[OF unregistered.keeps_trivial(2)] pin_step_keeps copies_keep
        android_disk_keeps(2)[OF assms(1) below(1)] register_keeps switch_keeps)
qed

lemma linux_steps_keep:
  assumes "image_laws (ce_tool e)" "id_ok i"
  shows "keeps (same_outside (new_dir root i)) (linux_steps e c (new_dir root i) template i)"
    and "fails_clean same_registry (linux_steps e c (new_dir root i) template i)"
proof -
  let ?d = "new_dir root i"
  note below = disk_below[OF assms(2), of root]
  have vars: "keeps (same_outside ?d) (linux_vars e template ?d c')" "keeps same_registry (linux_vars e template ?d c')" for c'
    unfolding linux_vars_def Let_def
    by (intro outside.keeps_if outside.keeps_bind outside.keeps_trivial copies_keep below)
      (intro unregistered.keeps_if unregistered.keeps_bind unregistered.keeps_trivial copies_keep)
  have step: "keeps (same_outside ?d) (cbind (run_images (qcow2_create (ce_tool e) (linux_disk_path ?d c') s)) (\<lambda>_. cdone x))"
    "keeps same_registry (cbind (run_images f) (\<lambda>_. cdone x))" for c' s f and x :: instance_config
    by (intro outside.keeps_bind outside.keeps_trivial images_keep assms linux_disk_below)
      (intro unregistered.keeps_bind unregistered.keeps_trivial run_images_registry)
  have disk: "keeps (same_outside ?d) (linux_disk e ?d c')" "keeps same_registry (linux_disk e ?d c')" for c'
    using step unfolding keeps_def linux_disk_def Let_def by (auto simp: outside.same unregistered.same)
  show "keeps (same_outside ?d) (linux_steps e c ?d template i)"
    unfolding linux_steps_def by (intro outside.keeps_bind outside.keeps_trivial vars disk register_keeps)
  show "fails_clean same_registry (linux_steps e c ?d template i)"
    unfolding linux_steps_def by (intro unregistered.fails_clean_bind unregistered.keeps_trivial vars disk register_keeps)
qed

text \<open>A creation that fails, of an Android instance or of a Linux one, leaves no trace: nothing
  below the directory it made, everything else as it was, the registry unchanged.\<close>

theorem failed_creation_leaves_no_trace:
  assumes "image_laws (ce_tool e)" and "boot_laws e" and "id_ok i" and "ce_rmdir e (new_dir root i)"
    and "create_android_instance e prof nm base root sz template linked i w = (Inl err, w')
       \<or> create_linux_instance e c root template i w = (Inl err, w')"
  shows "no_trace (new_dir root i) w w' \<and> cw_registry w' = cw_registry w"
  using assms(5)
proof
  assume "create_android_instance e prof nm base root sz template linked i w = (Inl err, w')"
  then have g: "with_guard e (new_dir root i) (android_steps e prof nm base (new_dir root i) sz template linked i) w = (Inl err, w')"
    by (simp add: create_android_instance_def Let_def)
  show ?thesis
    using guard_no_trace[OF android_steps_keep(1)[OF assms(1-3)] assms(4) g] guard_fails(1)[OF g android_steps_keep(2)[OF assms(1-3)]]
    by simp
next
  assume "create_linux_instance e c root template i w = (Inl err, w')"
  then have g: "with_guard e (new_dir root i) (linux_steps e c (new_dir root i) template i) w = (Inl err, w')"
    by (simp add: create_linux_instance_def Let_def)
  show ?thesis
    using guard_no_trace[OF linux_steps_keep(1)[OF assms(1,3)] assms(4) g] guard_fails(1)[OF g linux_steps_keep(2)[OF assms(1,3)]]
    by simp
qed

section \<open>A created instance\<close>

lemma register_at_Inr:
  assumes "register_at e dir c w = (Inr k, w')"
  shows "k = ic_id c" "validate c = Inr ()" "cw_images w' = cw_images w" "cw_files w' = cw_files w"
    and "\<exists>h. registered (cw_registry w') k = Some h \<and> ih_dir h = dir \<and> handle_state h = Created
      \<and> handle_config h = c \<and> handle_backend h = None"
  using assms
  by (auto simp: register_at_def register_instance_def check_valid_def map_err_def registered_def update_conv
      handle_state_def handle_config_def handle_backend_def spawn_supervisor_def rbind_def Let_def split: sum.splits)

lemma copies_Inr:
  "provision_vars e s p w = (Inr u, w') \<Longrightarrow> cw_files w s \<noteq> None \<and> w' = w\<lparr>cw_files := (cw_files w)(p := cw_files w s)\<rparr>"
  "copy_vars e s p w = (Inr u, w') \<Longrightarrow> cw_files w s \<noteq> None \<and> w' = w\<lparr>cw_files := (cw_files w)(p := cw_files w s)\<rparr>"
  by (auto simp: provision_vars_def copy_vars_def copy_file_def split: option.splits)

lemma on_images_Inr:
  "on_images f w = (Inr a, w') \<longleftrightarrow> (\<exists>fs. f (cw_images w) = Inr (a, fs) \<and> w' = w\<lparr>cw_images := fs\<rparr>)"
  by (auto simp: on_images_def split: sum.splits)

lemma run_images_Inr:
  "run_images f w = (Inr u, w') \<longleftrightarrow> (\<exists>fs. f (cw_images w) = Inr fs \<and> w' = w\<lparr>cw_images := fs\<rparr>)"
  by (auto simp: run_images_def on_images_Inr rbind_def split: sum.splits)

text \<open>The new disk: an overlay on the base image, or a copy of it that stands alone.\<close>

lemma android_disk_Inr:
  assumes "image_laws (ce_tool e)" and "android_disk e linked dir base sz w = (Inr disk, w')"
  shows "disk = (if linked then disk_overlay (path_join dir ''disk.qcow2'') base sz else disk_standalone (path_join dir ''disk.qcow2'') sz)
    \<and> cw_files w' = cw_files w
    \<and> (\<exists>im. cw_images w' (path_join dir ''disk.qcow2'') = Some im \<and> im_size im = sz \<and> im_backing im = (if linked then Some base else None))"
  using assms(2)
  by (auto simp: android_disk_def cbind_Inr_iff on_images_Inr run_images_Inr instance_overlay_def Let_def rbind_def
      split: if_splits sum.splits dest!: image_lawsD(2,3,5)[OF assms(1)])

lemma with_guard_Inr [simp]: "with_guard e d m w = (Inr a, w') \<longleftrightarrow> m w = (Inr a, w')"
  by (auto simp: with_guard_def split: prod.splits sum.splits)

lemma cexists_file: "cw_files w p \<noteq> None \<Longrightarrow> cexists w p" and cexists_image: "cw_images w p \<noteq> None \<Longrightarrow> cexists w p"
  by (simp_all add: cexists_def)

lemma validate_files_ok:
  assumes "hs_exists host (disk_path (ic_disk c))" "fw_enable_uefi (ic_firmware c) \<Longrightarrow> hs_exists host (fw_ovmf_vars (ic_firmware c))"
    and "\<And>d. d \<in> set (ic_extra_disks c) \<Longrightarrow> hs_exists host (disk_path d)"
  shows "validate_instance_files host c = Inr ()"
proof -
  have ok: "check_files msg host ps = Inr ()" if "\<And>p. p \<in> set ps \<Longrightarrow> hs_exists host p" for msg ps
    using that by (auto simp: check_files_def find_None split: option.splits dest!: find_Some)
  have "check_files msg host [disk_path (ic_disk c)] = Inr ()"
    "check_files msg host (if fw_enable_uefi (ic_firmware c) then [fw_ovmf_vars (ic_firmware c)] else []) = Inr ()"
    "check_files msg host (map disk_path (ic_extra_disks c)) = Inr ()" for msg
    by (rule ok; use assms in \<open>auto split: if_splits\<close>)+
  then show ?thesis by (simp add: validate_instance_files_def rbind_def)
qed

text \<open>C19. An Android instance that was created is registered, in state Created and with no process; its
  configuration is valid and names the new disk, which is an overlay on the base image exactly when
  a linked one was asked for; and the files it needs to start are there.\<close>

theorem created_instance_can_start:
  assumes "image_laws (ce_tool e)" and "boot_laws e" and "id_ok i"
    and "create_android_instance e prof nm base root sz template linked i w = (Inr k, w')"
  shows "k = i \<and> (\<exists>h im. registered (cw_registry w') i = Some h \<and> ih_dir h = new_dir root i
     \<and> handle_state h = Created \<and> handle_backend h = None \<and> ic_name (handle_config h) = nm
     \<and> check_valid (handle_config h) = Inr ()
     \<and> cw_images w' (disk_path (ic_disk (handle_config h))) = Some im
     \<and> im_backing im = (if linked then Some (path_text base) else None)
     \<and> disk_base_image (ic_disk (handle_config h)) = im_backing im
     \<and> validate_instance_files (dm_host (daemon_in e w')) (handle_config h) = Inr ())"
proof -
  let ?d = "new_dir root i" and ?dd = "\<lambda>n. path_join (new_dir root i) n"
  have ne: "?dd ''disk.qcow2'' \<noteq> ?dd ''VARS.fd''"
    using plain_new_dir[OF assms(3), of root] by (simp add: path_join_plain)
  obtain prof' w0 w1 w2 w3 disk where steps: "template \<noteq> []"
    "provision_vars e template (?dd ''VARS.fd'') w0 = (Inr (), w1)"
    "android_disk e linked ?d (path_text base) sz w1 = (Inr disk, w2)"
    "w3 = w2\<lparr>cw_images := ce_boot e (disk_path disk) (cw_images w2)\<rparr>"
    "register_at e ?d (android_resolve prof' i nm disk (?dd ''VARS.fd'')) w3 = (Inr k, w')"
    using assms(4) by (auto simp: create_android_instance_def android_steps_def cbind_Inr_iff switch_new_disk_def Let_def split: if_splits)
  note disk = android_disk_Inr[OF assms(1) steps(3)]
  note reg = register_at_Inr[OF steps(5)]
  have p: "disk_path disk = ?dd ''disk.qcow2''" using disk by (simp add: disk_overlay_def disk_standalone_def)
  obtain im where im: "cw_images w' (?dd ''disk.qcow2'') = Some im" "im_backing im = (if linked then Some (path_text base) else None)"
  proof -
    have "map_option im_backing (cw_images w' (?dd ''disk.qcow2'')) = map_option im_backing (cw_images w2 (?dd ''disk.qcow2''))"
      by (simp add: reg(3) steps(4) boot_lawsD(2)[OF assms(2)])
    then show ?thesis using that disk[THEN conjunct2, THEN conjunct2] by (auto simp: map_option_eq_Some)
  qed
  have vars: "cw_files w' (?dd ''VARS.fd'') \<noteq> None"
    using copies_Inr(1)[OF steps(2)] disk by (simp add: reg(4) steps(4))
  let ?c = "android_resolve prof' i nm disk (?dd ''VARS.fd'')"
  have "validate_instance_files (dm_host (daemon_in e w')) ?c = Inr ()"
    by (rule validate_files_ok) (simp_all add: android_resolve_def firmware_reference_default_def daemon_in_def p
        cexists_image im(1) cexists_file[OF vars])
  moreover have "disk_base_image disk = im_backing im" using disk im(2) by (simp add: disk_overlay_def disk_standalone_def)
  moreover have "ic_name ?c = nm" "ic_disk ?c = disk" "ic_id ?c = i" by (simp_all add: android_resolve_def)
  ultimately show ?thesis using reg(1,2,5) im p by (auto simp: check_valid_def map_err_def)
qed


section \<open>Clones\<close>

lemma task_steps_keep:
  "keeps (same_outside d) (report src seq t)" "keeps (still_free i) (report src seq t)"
  "keeps (same_outside d) (request_clone e src key i')" "keeps (still_free i) (request_clone e src key i')"
  by (auto simp: keeps_def report_def request_clone_def same_outside_def still_free_def registered_with
      split: prod.splits option.splits)

lemma finish_task_body:
  assumes "finish_task e src seq body w = (r, w')"
  obtains w1 where "body w = (r, w1)" "cw_images w' = cw_images w1" "cw_files w' = cw_files w1"
    and "\<And>j. j \<noteq> src \<Longrightarrow> registered (cw_registry w') j = registered (cw_registry w1) j"
    and "\<And>j. registered (cw_registry w') j = None \<longleftrightarrow> registered (cw_registry w1) j = None"
  using assms by (auto simp: finish_task_def registered_with Let_def split: prod.splits)

lemma finish_task_keeps:
  "keeps (same_outside d) body \<Longrightarrow> keeps (same_outside d) (finish_task e src seq body)"
  "fails_clean (still_free i) body \<Longrightarrow> fails_clean (still_free i) (finish_task e src seq body)"
proof -
  show "keeps (same_outside d) (finish_task e src seq body)" if b: "keeps (same_outside d) body"
  proof (unfold keeps_def, rule allI)
    fix w
    obtain r w' where f: "finish_task e src seq body w = (r, w')" by fastforce
    then have "same_outside d w w'"
      using keepsD[OF b, of w] by (elim finish_task_body) (auto simp: same_outside_def)
    then show "same_outside d w (snd (finish_task e src seq body w))" by (simp add: f)
  qed
  show "fails_clean (still_free i) (finish_task e src seq body)" if b: "fails_clean (still_free i) body"
    unfolding fails_clean_def
    by (intro allI impI, elim finish_task_body) (use fails_cleanD[OF b] in \<open>auto simp: still_free_def\<close>)
qed

text \<open>What happens beside a running clone: it neither touches files nor takes the new id.\<close>

definition calm :: "instance_id \<Rightarrow> (create_world \<Rightarrow> create_world) \<Rightarrow> bool" where
  "calm i others \<longleftrightarrow> (\<forall>v. cw_images (others v) = cw_images v \<and> cw_files (others v) = cw_files v \<and> still_free i v (others v))"

lemma meanwhile_keeps: "calm i others \<Longrightarrow> keeps (same_outside d) (meanwhile others)" "calm i others \<Longrightarrow> keeps (still_free i) (meanwhile others)"
  by (auto simp: calm_def keeps_def meanwhile_def same_outside_def)

lemma clone_disk_registry: "keeps (still_free i) (clone_disk e mode disk dest)"
  by (auto simp: clone_disk_def run_images_registry free_id.keeps_trivial split: clone_mode.split option.split)

lemma clone_task_free: "calm i others \<Longrightarrow> fails_clean (still_free i) (clone_task e src c mode nm d i seq others)"
  unfolding clone_task_def clone_prepare_def clone_register_def
  by (intro free_id.fails_clean_bind free_id.keeps_bind free_id.keeps_trivial task_steps_keep finish_task_keeps copies_keep
      clone_disk_registry meanwhile_keeps register_keeps)

lemma clone_steps_keep:
  assumes "image_laws (ce_tool e)" "id_ok i" "calm i others"
  shows "keeps (same_outside (new_dir root i)) (clone_steps e src c mode nm (new_dir root i) key i others)"
    and "fails_clean (still_free i) (clone_steps e src c mode nm (new_dir root i) key i others)"
proof -
  let ?d = "new_dir root i"
  note below = disk_below[OF assms(2), of root]
  have prep: "keeps (same_outside ?d) (clone_prepare e src c mode ?d oid seq others)"
    "keeps (still_free i) (clone_prepare e src c mode ?d oid seq others)" for oid seq
    unfolding clone_prepare_def
    by (intro outside.keeps_bind outside.keeps_trivial task_steps_keep copies_keep clone_disk_keeps meanwhile_keeps[OF assms(3)] assms(1) below)
      (intro free_id.keeps_bind free_id.keeps_trivial task_steps_keep copies_keep clone_disk_registry meanwhile_keeps[OF assms(3)])
  have reg: "keeps (same_outside ?d) (clone_register e src c nm ?d i seq cl)"
    "fails_clean (still_free i) (clone_register e src c nm ?d i seq cl)" for seq cl
    unfolding clone_register_def
    by (intro outside.keeps_bind task_steps_keep register_keeps)
      (intro free_id.fails_clean_bind task_steps_keep register_keeps)
  have task: "keeps (same_outside ?d) (clone_task e src c mode nm ?d i seq others)"
    "fails_clean (still_free i) (clone_task e src c mode nm ?d i seq others)" for seq
    unfolding clone_task_def
    by (intro outside.keeps_bind task_steps_keep finish_task_keeps prep reg)
      (intro free_id.fails_clean_bind task_steps_keep finish_task_keeps prep reg)
  show "keeps (same_outside ?d) (clone_steps e src c mode nm ?d key i others)"
    unfolding clone_steps_def
    by (intro outside.keeps_bind task_steps_keep) (auto intro: task outside.keeps_trivial split: accepted.split)
  show "fails_clean (still_free i) (clone_steps e src c mode nm ?d key i others)"
    unfolding clone_steps_def
    by (intro free_id.fails_clean_bind task_steps_keep)
      (auto intro: task free_id.keeps_fails free_id.keeps_trivial split: accepted.split)
qed

text \<open>C20. A clone that fails or is cancelled, whatever the source's supervisor is asked meanwhile, leaves
  nothing below the directory of the new instance and everything else as it was; the new id is not
  given to an instance.\<close>

theorem failed_clone_leaves_no_trace:
  assumes "image_laws (ce_tool e)" and "id_ok i" and "ce_rmdir e (new_dir root i)" and "calm i others"
    and "fresh_dir (new_dir root i) w" and "registered (cw_registry w) i = None"
    and "clone_instance e src nm root mode token i others w = (Inl err, w')"
  shows "no_trace (new_dir root i) w w' \<and> registered (cw_registry w') i = None"
proof -
  from assms(7) consider "w' = w" | c where
    "with_guard e (new_dir root i) (clone_steps e src c mode nm (new_dir root i) (clone_key src nm mode token) i others) w = (Inl err, w')"
    by (auto simp: clone_instance_def cbind_Inl_iff clone_check_def Let_def)
  then show ?thesis
  proof cases
    case 1
    then show ?thesis using assms(5,6) by (simp add: no_trace_def fresh_dir_def)
  next
    case 2
    show ?thesis
      using guard_no_trace[OF clone_steps_keep(1)[OF assms(1,2,4)] assms(3) 2]
        guard_fails(2)[OF 2 clone_steps_keep(2)[OF assms(1,2,4)] assms(6)] by simp
  qed
qed

text \<open>What each mode makes of the source's image.\<close>

fun clone_image :: "clone_mode \<Rightarrow> disk_config \<Rightarrow> filesystem \<Rightarrow> image \<Rightarrow> bool" where
  "clone_image Linked disk fs im \<longleftrightarrow> fs (disk_path disk) \<noteq> None
     \<and> im_backing im = Some (disk_path disk) \<and> im_size im = disk_size disk \<and> im_data im = Map.empty"
| "clone_image FullStandalone disk fs im \<longleftrightarrow> im_backing im = None \<and> guest_reads fs (disk_path disk) (im_data im)
     \<and> map_option im_size (fs (disk_path disk)) = Some (im_size im)"
| "clone_image SharedBase disk fs im \<longleftrightarrow> fs (disk_path disk) = Some im"

fun recorded_backing :: "clone_mode \<Rightarrow> disk_config \<Rightarrow> string option" where
  "recorded_backing Linked disk = Some (disk_path disk)"
| "recorded_backing FullStandalone disk = None"
| "recorded_backing SharedBase disk = disk_base_image disk"

lemma clone_disk_Inr:
  assumes "image_laws (ce_tool e)" and "clone_disk e mode disk dest w = (Inr cl, w')"
  shows "cl = \<lparr>cl_disk_path = dest, cl_backing_file = recorded_backing mode disk\<rparr>
    \<and> (\<exists>im. w' = w\<lparr>cw_images := (cw_images w)(dest := Some im)\<rparr> \<and> clone_image mode disk (cw_images w) im)"
proof (cases mode)
  case Linked
  then show ?thesis using assms(2)
    by (auto simp: clone_disk_def on_images_Inr linked_clone_def rbind_def split: sum.splits dest!: image_lawsD(5)[OF assms(1)])
next
  case FullStandalone
  then show ?thesis using assms(2)
    by (auto simp: clone_disk_def on_images_Inr full_standalone_clone_def rbind_def split: sum.splits dest!: image_lawsD(2)[OF assms(1)])
next
  case SharedBase
  then show ?thesis using assms(2)
    by (auto simp: clone_disk_def on_images_Inr shared_base_clone_def split: option.splits)
qed

text \<open>What a guest reads of the clone where the source reads \<open>v\<close>: a linked clone ends where the
  configuration says the source ends.\<close>

fun clone_view :: "clone_mode \<Rightarrow> disk_config \<Rightarrow> (nat \<Rightarrow> nat option) \<Rightarrow> nat \<Rightarrow> nat option" where
  "clone_view Linked disk v = v |` before_end (disk_size disk)"
| "clone_view FullStandalone disk v = v"
| "clone_view SharedBase disk v = v"

lemma clone_image_reads:
  assumes "clone_image mode disk fs im" and "guest_reads fs (disk_path disk) v" and "fs dest = None" and "is_absolute (disk_path disk)"
    and "mode = SharedBase \<Longrightarrow> (\<forall>b. im_backing im = Some b \<longrightarrow> is_absolute b)"
  shows "guest_reads (fs(dest := Some im)) dest (clone_view mode disk v)"
proof -
  let ?fs = "fs(dest := Some im)" and ?src = "disk_path disk"
  obtain ps where ps: "chain_of fs ?src ps" "v = guest_view fs ps" using assms(2) by (auto simp: guest_reads_def)
  have off: "q \<noteq> dest" if "q \<in> set ps" for q using chain_of_files[OF ps(1) that] assms(3) by auto
  have same: "chain_of fs p qs \<Longrightarrow> set qs \<subseteq> set ps \<Longrightarrow> chain_of ?fs p qs \<and> guest_view ?fs qs = guest_view fs qs" for p qs
    using off chain_of_cong[of fs p qs ?fs] guest_view_cong[of qs ?fs fs] by (auto simp: subset_iff)
  show ?thesis
  proof (cases mode)
    case Linked
    then have "chain_of ?fs dest (dest # ps)"
      using assms(1,4) same[OF ps(1)] by (auto intro!: chain_of.chain_link simp: resolve_backing_def)
    then show ?thesis using same[OF ps(1)] ps(2) Linked assms(1) by (auto simp: guest_reads_def intro!: exI[of _ "dest # ps"])
  next
    case FullStandalone
    then have im: "im_backing im = None" "im_data im = v" "map_option im_size (fs ?src) = Some (im_size im)"
      using assms(1) guest_reads_det[OF assms(2)] by auto
    then have "v |` before_end (im_size im) = v" using guest_reads_ends[OF assms(2)] by auto
    then show ?thesis
      using im FullStandalone by (auto simp: guest_reads_def intro!: exI[of _ "[dest]"] chain_of.chain_base)
  next
    case SharedBase
    then have im: "fs ?src = Some im" using assms(1) by simp
    obtain qs where qs: "ps = ?src # qs" using chain_of_hd[OF ps(1)] by blast
    have "chain_of ?fs dest (dest # qs) \<and> guest_view ?fs qs = guest_view fs qs"
    proof (cases "im_backing im")
      case None
      then have "qs = []" using ps(1)[unfolded qs] im by (subst (asm) chain_of_simps) auto
      then show ?thesis using None by (auto intro: chain_of.chain_base)
    next
      case (Some b)
      then have b: "is_absolute b" "chain_of fs b qs"
        using assms(5)[OF SharedBase] ps(1)[unfolded qs] im by (subst (asm) chain_of_simps, auto simp: resolve_backing_def)+
      have "set qs \<subseteq> set ps" using qs by auto
      then show ?thesis using same[OF b(2)] b(1) Some by (auto intro!: chain_of.chain_link simp: resolve_backing_def)
    qed
    then show ?thesis using ps(2) qs im SharedBase by (auto simp: guest_reads_def intro!: exI[of _ "dest # qs"])
  qed
qed


text \<open>A clone whose request was accepted and that reported the new instance.\<close>

lemma quiet_steps:
  "report src seq t w = (r, w') \<Longrightarrow> cw_images w' = cw_images w \<and> cw_files w' = cw_files w
     \<and> (registered (cw_registry w') i = None \<longleftrightarrow> registered (cw_registry w) i = None)"
  "stop_if_cancelled src seq oid w = (r, w') \<Longrightarrow> w' = w"
  "make_private_dir e d w = (r, w') \<Longrightarrow> w' = w"
  "meanwhile others w = (r, w') \<Longrightarrow> w' = others w"
  by (auto simp: report_def stop_if_cancelled_def make_private_dir_def meanwhile_def registered_with split: if_splits)

text \<open>\<open>v\<close> is the world when the disk has been copied, \<open>others v\<close> the one the task goes on in.\<close>

lemma clone_prepare_Inr:
  assumes "image_laws (ce_tool e)" and "clone_prepare e src c mode dir oid seq others w = (Inr cl, w')"
  obtains v im where "w' = others v" "cl = \<lparr>cl_disk_path = path_join dir ''disk.qcow2'', cl_backing_file = recorded_backing mode (ic_disk c)\<rparr>"
    "cw_files w (fw_ovmf_vars (ic_firmware c)) \<noteq> None"
    "cw_files v = (cw_files w)(path_join dir ''VARS.fd'' := cw_files w (fw_ovmf_vars (ic_firmware c)))"
    "cw_images v = (cw_images w)(path_join dir ''disk.qcow2'' := Some im)" "clone_image mode (ic_disk c) (cw_images w) im"
proof -
  obtain w1 w2 w3 u where steps: "cw_images w1 = cw_images w" "cw_files w1 = cw_files w"
    "copy_vars e (fw_ovmf_vars (ic_firmware c)) (path_join dir ''VARS.fd'') w1 = (Inr u, w2)"
    "clone_disk e mode (ic_disk c) (path_join dir ''disk.qcow2'') w2 = (Inr cl, w3)" "w' = others w3"
    using assms(2) unfolding clone_prepare_def cbind_Inr_iff cdone_iff
    by (auto dest!: quiet_steps(1) quiet_steps(2-4))
  note vars = copies_Inr(2)[OF steps(3)] and disk = clone_disk_Inr[OF assms(1) steps(4)]
  then show thesis using that[OF steps(5)] steps(1,2) by auto
qed

lemma clone_task_Inr:
  assumes "image_laws (ce_tool e)" and "i \<noteq> src"
    and "clone_task e src c mode nm dir i seq others w = (Inr k, w')"
  obtains v im h where "k = i" "registered (cw_registry w') i = Some h" "ih_dir h = dir" "handle_state h = Created" "handle_backend h = None"
    "handle_config h = cloned_config c i nm dir \<lparr>cl_disk_path = path_join dir ''disk.qcow2'', cl_backing_file = recorded_backing mode (ic_disk c)\<rparr>"
    "validate (handle_config h) = Inr ()" "cw_files w (fw_ovmf_vars (ic_firmware c)) \<noteq> None"
    "cw_images w' = cw_images (others v)" "cw_files w' = cw_files (others v)"
    "cw_files v = (cw_files w)(path_join dir ''VARS.fd'' := cw_files w (fw_ovmf_vars (ic_firmware c)))"
    "cw_images v = (cw_images w)(path_join dir ''disk.qcow2'' := Some im)" "clone_image mode (ic_disk c) (cw_images w) im"
proof -
  let ?prep = "clone_prepare e src c mode dir (''clone-'' @ show_instance_id i) seq others"
  obtain w0 where w0: "cw_images w0 = cw_images w" "cw_files w0 = cw_files w"
    and fin: "finish_task e src seq (cbind ?prep (clone_register e src c nm dir i seq)) w0 = (Inr k, w')"
    using assms(3) unfolding clone_task_def cbind_Inr_iff by (auto dest!: quiet_steps(1))
  from fin obtain w3 where body: "cbind ?prep (clone_register e src c nm dir i seq) w0 = (Inr k, w3)"
    and w': "cw_images w' = cw_images w3" "cw_files w' = cw_files w3"
    and reg: "registered (cw_registry w') i = registered (cw_registry w3) i"
    using assms(2) by (elim finish_task_body) metis
  from body obtain cl w1 w2 where prep: "?prep w0 = (Inr cl, w1)"
    and w2: "cw_images w2 = cw_images w1" "cw_files w2 = cw_files w1"
    and register: "register_at e dir (cloned_config c i nm dir cl) w2 = (Inr k, w3)"
    unfolding cbind_Inr_iff clone_register_def by (auto dest!: quiet_steps(1))
  note r = register_at_Inr[OF register]
  have k: "k = i" using r(1) by (simp add: cloned_config_def)
  obtain h where h: "registered (cw_registry w3) i = Some h" "ih_dir h = dir" "handle_state h = Created"
    "handle_config h = cloned_config c i nm dir cl" "handle_backend h = None"
    using r(5) k by auto
  obtain v im where v: "w1 = others v" "cl = \<lparr>cl_disk_path = path_join dir ''disk.qcow2'', cl_backing_file = recorded_backing mode (ic_disk c)\<rparr>"
    "cw_files w (fw_ovmf_vars (ic_firmware c)) \<noteq> None"
    "cw_files v = (cw_files w)(path_join dir ''VARS.fd'' := cw_files w (fw_ovmf_vars (ic_firmware c)))"
    "cw_images v = (cw_images w)(path_join dir ''disk.qcow2'' := Some im)" "clone_image mode (ic_disk c) (cw_images w) im"
    using clone_prepare_Inr[OF assms(1) prep] by (metis w0)
  show thesis
    by (rule that[of h v im]) (use k h r(2-4) w' w2 v reg in simp_all)
qed

lemma cloned_config_sel:
  "disk_path (ic_disk (cloned_config c i nm dir \<lparr>cl_disk_path = p, cl_backing_file = b\<rparr>)) = p"
  "disk_base_image (ic_disk (cloned_config c i nm dir \<lparr>cl_disk_path = p, cl_backing_file = b\<rparr>)) = b"
  "ic_extra_disks (cloned_config c i nm dir cl) = ic_extra_disks c"
  by (simp_all add: cloned_config_def)

lemma validate_cloned: "validate (cloned_config c i nm dir cl) = validate c"
  by (simp add: validate_def cloned_config_def)

lemma clone_instance_Inr:
  assumes "image_laws (ce_tool e)" and "calm i others" and "registered (cw_registry w) i = None"
    and "registered (cw_registry w) src = Some h" and "join_decision (clone_key src nm mode token) (ih_sup h) = Free"
    and "clone_instance e src nm root mode token i others w = (Inr k, w')"
  obtains seq reg where "is_disk_idle (handle_state h)" "mode = SharedBase \<Longrightarrow> android_kind (ic_kind (handle_config h))"
    "registered reg i = None"
    "clone_task e src (handle_config h) mode nm (new_dir root i) i seq others (w\<lparr>cw_registry := reg\<rparr>) = (Inr k, w')"
proof -
  let ?reg = "with_supervisor src (\<lambda>_. accept_operation (clone_operation src i) (clone_key src nm mode token) (Some i) (ih_sup h)) (cw_registry w)"
  have "is_disk_idle (handle_state h) \<and> (mode = SharedBase \<longrightarrow> android_kind (ic_kind (handle_config h)))
    \<and> clone_task e src (handle_config h) mode nm (new_dir root i) i (sup_next_op_seq (ih_sup h)) others (w\<lparr>cw_registry := ?reg\<rparr>) = (Inr k, w')"
    using assms(4-6)
    by (auto simp: clone_instance_def cbind_Inr_iff clone_check_def terminal_clonable_config_def handle_for_def ok_or_def
        clone_steps_def request_clone_def start_id_operation_def Let_def rbind_def split: if_splits)
  moreover have "registered ?reg i = None" using assms(3,4) by (auto simp: registered_with)
  ultimately show thesis using that by blast
qed

lemma calm_clone_Inr:
  assumes "image_laws (ce_tool e)" and "calm i others" and "registered (cw_registry w) i = None"
    and "registered (cw_registry w) src = Some h" and "join_decision (clone_key src nm mode token) (ih_sup h) = Free"
    and "clone_instance e src nm root mode token i others w = (Inr k, w')"
  obtains im hc where "k = i" "registered (cw_registry w') i = Some hc" "ih_dir hc = new_dir root i" "handle_state hc = Created" "handle_backend hc = None"
    "handle_config hc = cloned_config (handle_config h) i nm (new_dir root i)
       \<lparr>cl_disk_path = path_join (new_dir root i) ''disk.qcow2'', cl_backing_file = recorded_backing mode (ic_disk (handle_config h))\<rparr>"
    "validate (handle_config hc) = Inr ()"
    "cw_files w' = (cw_files w)(path_join (new_dir root i) ''VARS.fd'' := cw_files w (fw_ovmf_vars (ic_firmware (handle_config h))))"
    "cw_images w' = (cw_images w)(path_join (new_dir root i) ''disk.qcow2'' := Some im)"
    "clone_image mode (ic_disk (handle_config h)) (cw_images w) im"
proof (rule clone_instance_Inr[OF assms(1-6)])
  fix seq reg
  assume task: "clone_task e src (handle_config h) mode nm (new_dir root i) i seq others (w\<lparr>cw_registry := reg\<rparr>) = (Inr k, w')"
  have "i \<noteq> src" using assms(3,4) by auto
  from assms(1) this task show thesis
  proof (rule clone_task_Inr)
    fix v im hc
    assume r: "k = i" "registered (cw_registry w') i = Some hc" "ih_dir hc = new_dir root i" "handle_state hc = Created" "handle_backend hc = None"
      "handle_config hc = cloned_config (handle_config h) i nm (new_dir root i)
         \<lparr>cl_disk_path = path_join (new_dir root i) ''disk.qcow2'', cl_backing_file = recorded_backing mode (ic_disk (handle_config h))\<rparr>"
      "validate (handle_config hc) = Inr ()" "cw_images w' = cw_images (others v)" "cw_files w' = cw_files (others v)"
      "cw_files v = (cw_files (w\<lparr>cw_registry := reg\<rparr>))(path_join (new_dir root i) ''VARS.fd'' :=
         cw_files (w\<lparr>cw_registry := reg\<rparr>) (fw_ovmf_vars (ic_firmware (handle_config h))))"
      "cw_images v = (cw_images (w\<lparr>cw_registry := reg\<rparr>))(path_join (new_dir root i) ''disk.qcow2'' := Some im)"
      "clone_image mode (ic_disk (handle_config h)) (cw_images (w\<lparr>cw_registry := reg\<rparr>)) im"
    have "cw_images (others v) = cw_images v" "cw_files (others v) = cw_files v" using assms(2) by (simp_all add: calm_def)
    then show thesis by (intro that[of hc im] r(1-7)) (use r(8-12) in simp_all)
  qed
qed

text \<open>C18. A full and a shared-base clone read exactly what the source read when it was made. A linked clone
  reads it up to the size in the source's configuration, where the overlay ends: a source image that
  is larger than its configuration says is cut off. Every clone has the source's firmware variables and is
  registered in state Created under the new name, with the new id and its own disk, and no other file
  has changed. This needs the source to be named by an absolute path and, for a shared base, the source's
  own backing reference to be absolute.\<close>

theorem clone_reads_like_source:
  assumes "image_laws (ce_tool e)" and "id_ok i" and "calm i others"
    and "fresh_dir (new_dir root i) w" and "registered (cw_registry w) i = None"
    and "registered (cw_registry w) src = Some h" and "join_decision (clone_key src nm mode token) (ih_sup h) = Free"
    and "is_absolute (disk_path (ic_disk (handle_config h)))"
    and "mode = SharedBase \<longrightarrow> (\<forall>im b. cw_images w (disk_path (ic_disk (handle_config h))) = Some im \<longrightarrow> im_backing im = Some b \<longrightarrow> is_absolute b)"
    and "clone_instance e src nm root mode token i others w = (Inr k, w')"
  shows "k = i \<and> (\<exists>hc. registered (cw_registry w') i = Some hc \<and> handle_state hc = Created \<and> handle_backend hc = None
     \<and> ic_name (handle_config hc) = nm \<and> check_valid (handle_config hc) = Inr ()
     \<and> (\<forall>v. guest_reads (cw_images w) (disk_path (ic_disk (handle_config h))) v \<longrightarrow>
          guest_reads (cw_images w') (disk_path (ic_disk (handle_config hc))) (clone_view mode (ic_disk (handle_config h)) v))
     \<and> cw_files w' (fw_ovmf_vars (ic_firmware (handle_config hc))) = cw_files w (fw_ovmf_vars (ic_firmware (handle_config h))))
   \<and> same_outside (new_dir root i) w w'"
proof (rule calm_clone_Inr[OF assms(1,3,5,6,7,10)])
  let ?dd = "\<lambda>n. path_join (new_dir root i) n" and ?c = "handle_config h"
  fix im hc
  assume r: "k = i" "registered (cw_registry w') i = Some hc" "handle_state hc = Created" "handle_backend hc = None"
    "handle_config hc = cloned_config ?c i nm (new_dir root i) \<lparr>cl_disk_path = ?dd ''disk.qcow2'', cl_backing_file = recorded_backing mode (ic_disk ?c)\<rparr>"
    "validate (handle_config hc) = Inr ()"
    "cw_files w' = (cw_files w)(?dd ''VARS.fd'' := cw_files w (fw_ovmf_vars (ic_firmware ?c)))"
    "cw_images w' = (cw_images w)(?dd ''disk.qcow2'' := Some im)" "clone_image mode (ic_disk ?c) (cw_images w) im"
  note below = disk_below[OF assms(2), of root]
  have "cw_images w (?dd ''disk.qcow2'') = None" by (rule fresh_image[OF assms(4) below(1)])
  moreover have "mode = SharedBase \<Longrightarrow> \<forall>b. im_backing im = Some b \<longrightarrow> is_absolute b"
    using assms(9) r(9) by auto
  ultimately have "guest_reads (cw_images w) (disk_path (ic_disk ?c)) v \<Longrightarrow>
      guest_reads (cw_images w') (?dd ''disk.qcow2'') (clone_view mode (ic_disk ?c) v)" for v
    using clone_image_reads[OF r(9) _ _ assms(8)] by (simp add: r(8))
  moreover have "same_outside (new_dir root i) w w'" using below by (auto simp: same_outside_def r(7,8))
  moreover have "ic_name (handle_config hc) = nm" "fw_ovmf_vars (ic_firmware (handle_config hc)) = ?dd ''VARS.fd''"
    "disk_path (ic_disk (handle_config hc)) = ?dd ''disk.qcow2''"
    by (simp_all add: r(5) cloned_config_def)
  moreover have "check_valid (handle_config hc) = Inr ()" by (simp add: check_valid_def r(6) map_err_def)
  ultimately show ?thesis using r(1-4,7) by auto
qed

section \<open>What can go wrong beside a clone\<close>

text \<open>The caller of a clone goes away while the disk is copied: its request is dropped and with it the
  guard, which removes the directory of the clone; but the task goes on and registers an instance,
  in state Created, none of whose files are there.\<close>

theorem abandoned_clone_registers_no_files:
  assumes "image_laws (ce_tool e)" and "i \<noteq> src" and "id_ok i" and "ce_rmdir e (new_dir root i)"
    and "clone_task e src c mode nm (new_dir root i) i seq (discard_dir e (new_dir root i)) w = (Inr k, w')"
  shows "\<exists>h. registered (cw_registry w') i = Some h \<and> handle_state h = Created
     \<and> (\<forall>p. below_dir (new_dir root i) p \<longrightarrow> \<not> cexists w' p)
     \<and> validate_instance_files (dm_host (daemon_in e w')) (handle_config h) \<noteq> Inr ()"
proof -
  let ?d = "new_dir root i"
  obtain v h where r: "registered (cw_registry w') i = Some h" "handle_state h = Created"
    "disk_path (ic_disk (handle_config h)) = path_join ?d ''disk.qcow2''"
    "cw_images w' = cw_images (discard_dir e ?d v)" "cw_files w' = cw_files (discard_dir e ?d v)"
    using clone_task_Inr[OF assms(1,2,5)] by (metis cloned_config_sel)
  have gone: "\<not> cexists w' p" if "below_dir ?d p" for p
    using that assms(4) by (simp add: cexists_def r(4,5) discard_dir_def)
  have "\<not> hs_exists (dm_host (daemon_in e w')) (disk_path (ic_disk (handle_config h)))"
    using gone[OF disk_below(1)[OF assms(3)]] by (simp add: daemon_in_def r(3))
  then have "validate_instance_files (dm_host (daemon_in e w')) (handle_config h) \<noteq> Inr ()"
    by (simp add: validate_instance_files_def check_files_def rbind_def)
  then show ?thesis using r(1,2) gone by blast
qed





text \<open>What the daemon sees of another instance does not change while a clone is made, and no other
  instance comes to stand on the disk \<open>p\<close>.\<close>

definition based_on :: "string \<Rightarrow> registry \<Rightarrow> instance_id set" where
  "based_on p reg = fst ` {x \<in> set reg. disk_base_image (ic_disk (handle_config (snd x))) = Some p}"

definition same_view :: "instance_id \<Rightarrow> string \<Rightarrow> create_world \<Rightarrow> create_world \<Rightarrow> bool" where
  "same_view j p w w' \<longleftrightarrow>
     map_option (\<lambda>h. (ih_dir h, handle_state h, handle_config h)) (registered (cw_registry w') j) =
     map_option (\<lambda>h. (ih_dir h, handle_state h, handle_config h)) (registered (cw_registry w) j)
   \<and> (distinct (map fst (cw_registry w)) \<longrightarrow> distinct (map fst (cw_registry w')))
   \<and> based_on p (cw_registry w') \<subseteq> based_on p (cw_registry w)"

interpretation view: world_relation "same_view j p" for j p
  by unfold_locales (auto simp: same_view_def)

lemma quiet_supervisor [simp]:
  "sup_published (task_progress seq t s) = sup_published s" "sup_published (op_done seq s) = sup_published s"
  "sup_published (accept_operation op key new_id s) = sup_published s"
  by (simp_all add: task_progress_def op_done_def accept_operation_def Let_def split: option.split)

lemma start_id_published: "sup_published (snd (start_id_operation e op key i s)) = sup_published s"
  by (simp add: start_id_operation_def split: join_outcome.split option.split)

lemma distinct_with: "distinct (map fst reg) \<Longrightarrow> distinct (map fst (with_supervisor i f reg))"
  by (simp add: with_supervisor_def distinct_update split: option.split)

lemma based_on_update:
  "based_on p (AList.update k v reg) \<subseteq> based_on p reg \<union> (if disk_base_image (ic_disk (handle_config v)) = Some p then {k} else {})"
proof -
  have "set (AList.update k v reg) \<subseteq> insert (k, v) (set reg)" by (induction reg) auto
  then show ?thesis by (auto simp: based_on_def)
qed

lemma based_on_with:
  assumes "\<And>h. registered reg i = Some h \<Longrightarrow> sup_published (f (ih_sup h)) = sup_published (ih_sup h)"
  shows "based_on p (with_supervisor i f reg) \<subseteq> based_on p reg"
proof (cases "registered reg i")
  case (Some h)
  then have "disk_base_image (ic_disk (handle_config (h\<lparr>ih_sup := f (ih_sup h)\<rparr>))) = Some p \<Longrightarrow> i \<in> based_on p reg"
    using assms[OF Some] map_of_SomeD[of reg i h]
    by (force simp: based_on_def registered_def handle_config_def)
  then show ?thesis using based_on_update[of p i "h\<lparr>ih_sup := f (ih_sup h)\<rparr>" reg] Some
    by (auto simp: with_supervisor_def split: if_splits)
qed (simp add: with_supervisor_def)

lemma same_view_with: "(\<And>s. sup_published (f s) = sup_published s) \<Longrightarrow> same_view j p w (w\<lparr>cw_registry := with_supervisor i f (cw_registry w)\<rparr>)"
  by (cases "registered (cw_registry w) i")
    (simp_all add: same_view_def registered_with distinct_with based_on_with handle_state_def handle_config_def)

lemma view_steps:
  "keeps (same_view j p) (report src seq t)" "keeps (same_view j p) (request_clone e src key i)"
  "keeps (same_view j p) (on_images f)" "keeps (same_view j p) (copy_vars e s q)" "keeps (same_view j p) (clone_disk e mode disk q)"
  "ic_id c \<noteq> j \<Longrightarrow> disk_base_image (ic_disk c) \<noteq> Some p \<Longrightarrow> keeps (same_view j p) (register_at e dir c)" "keeps (same_view j p) (meanwhile (\<lambda>v. v))"
  "keeps (same_view j p) body \<Longrightarrow> keeps (same_view j p) (finish_task e src seq body)"
proof -
  show "keeps (same_view j p) (report src seq t)" by (simp add: keeps_def report_def same_view_with)
  show images: "keeps (same_view j p) (on_images f)" for f :: "filesystem \<Rightarrow> disk_error + 'x \<times> filesystem"
    by (auto simp: keeps_def on_images_def same_view_def split: sum.splits)
  show "keeps (same_view j p) (copy_vars e s q)"
    by (auto simp: keeps_def copy_vars_def copy_file_def same_view_def split: option.splits)
  show "keeps (same_view j p) (clone_disk e mode disk q)"
    by (auto simp: clone_disk_def images view.keeps_trivial split: clone_mode.split option.split)
  show "keeps (same_view j p) (register_at e dir c)" if c: "ic_id c \<noteq> j" "disk_base_image (ic_disk c) \<noteq> Some p"
  proof -
    have "based_on p (AList.update (ic_id c) \<lparr>ih_dir = dir, ih_sup = spawn_supervisor c Created None f\<rparr> reg) \<subseteq> based_on p reg" for f reg
      using based_on_update[of p "ic_id c" "\<lparr>ih_dir = dir, ih_sup = spawn_supervisor c Created None f\<rparr>" reg] c(2)
      by (simp add: handle_config_def spawn_supervisor_def Let_def)
    then show ?thesis using c(1)
      by (auto simp: keeps_def register_at_def register_instance_def same_view_def registered_update distinct_update Let_def
          split: sum.splits)
  qed
  show "keeps (same_view j p) (meanwhile (\<lambda>v. v))" by (simp add: keeps_def meanwhile_def view.same)
  show "keeps (same_view j p) (request_clone e src key i)"
  proof -
    have "same_view j p w (w\<lparr>cw_registry := with_supervisor src (\<lambda>_. snd (start_id_operation e' op key i (ih_sup h))) (cw_registry w)\<rparr>)"
      if "registered (cw_registry w) src = Some h" for w h e' op
      using that start_id_published[of e' op key i "ih_sup h"] based_on_with[of "cw_registry w" src "\<lambda>_. snd (start_id_operation e' op key i (ih_sup h))" p]
      by (simp add: same_view_def registered_with distinct_with based_on_with handle_state_def handle_config_def)
    then show ?thesis by (auto simp: keeps_def request_clone_def view.same split: option.split prod.split) (metis snd_conv)
  qed
  show "keeps (same_view j p) (finish_task e src seq body)" if b: "keeps (same_view j p) body"
    unfolding keeps_def
  proof
    fix w
    obtain r w1 where w1: "body w = (r, w1)" by fastforce
    have "same_view j p w w1" using keepsD[OF b w1] .
    then have "same_view j p w (w1\<lparr>cw_registry := with_supervisor src (op_done seq) (with_supervisor src (task_progress seq t) (cw_registry w1))\<rparr>)" for t
      using distinct_with same_view_with[of "task_progress seq t" j p w1 src]
        same_view_with[of "op_done seq" j p "w1\<lparr>cw_registry := with_supervisor src (task_progress seq t) (cw_registry w1)\<rparr>" src]
      by (auto simp: same_view_def)
    then show "same_view j p w (snd (finish_task e src seq body w))" by (simp add: finish_task_def w1 Let_def)
  qed
qed

lemma clone_instance_view:
  assumes "image_laws (ce_tool e)" and "i \<noteq> j" and "clone_instance e src nm root mode token i (\<lambda>v. v) w = (Inr k, w')"
    and "\<And>h. registered (cw_registry w) src = Some h \<Longrightarrow> recorded_backing mode (ic_disk (handle_config h)) \<noteq> Some p"
  shows "same_view j p w w'"
proof -
  have prep: "keeps (same_view j p) (clone_prepare e src c mode d oid seq (\<lambda>v. v))" for c d oid seq
    unfolding clone_prepare_def by (intro view.keeps_bind view_steps view.keeps_trivial)
  have reg: "keeps (same_view j p) (clone_register e src c nm d i seq cl)" if "cl_backing_file cl \<noteq> Some p" for c d seq cl
    unfolding clone_register_def
    by (intro view.keeps_bind view_steps) (use that assms(2) in \<open>simp_all add: cloned_config_def\<close>)
  have "keeps (same_view j p) (clone_task e src c mode nm d i seq (\<lambda>v. v))" if c: "recorded_backing mode (ic_disk c) \<noteq> Some p" for c d seq
    unfolding clone_task_def
  proof (rule view.keeps_bind[OF view_steps(1)], rule view_steps(8), rule view.keeps_value[OF prep])
    fix cl u v
    assume "clone_prepare e src c mode d (''clone-'' @ show_instance_id i) seq (\<lambda>v. v) u = (Inr cl, v)"
    then have "cl_backing_file cl = recorded_backing mode (ic_disk c)" by (rule clone_prepare_Inr[OF assms(1)]) simp
    then show "keeps (same_view j p) (clone_register e src c nm d i seq cl)" using c by (simp add: reg)
  qed
  then have steps: "keeps (same_view j p) (clone_steps e src c mode nm d key i (\<lambda>v. v))"
    if "recorded_backing mode (ic_disk c) \<noteq> Some p" for c d key
    using that unfolding clone_steps_def by (intro view.keeps_bind view_steps) (auto intro: view.keeps_trivial split: accepted.split)
  obtain h where h: "registered (cw_registry w) src = Some h"
    and run: "clone_steps e src (handle_config h) mode nm (new_dir root i) (clone_key src nm mode token) i (\<lambda>v. v) w = (Inr k, w')"
    using assms(3) by (auto simp: clone_instance_def cbind_Inr_iff clone_check_def terminal_clonable_config_def handle_for_def
        ok_or_def rbind_def Let_def split: option.splits if_splits)
  show ?thesis using keepsD[OF steps[OF assms(4)[OF h]] run] .
qed


lemma purge_only_removes:
  "cw_images (purge_instance_files e faulty c d w) q \<in> {None, cw_images w q}"
  "ce_rmdir e d \<Longrightarrow> below_dir d q \<Longrightarrow> cw_images (purge_instance_files e faulty c d w) q = None"
proof -
  have one: "cw_images (purge_file faulty p v) q \<in> {None, cw_images v q}" for p v by (simp add: purge_file_def)
  have f: "cw_images (fold (purge_file faulty) ps v) q \<in> {None, cw_images v q}" for ps v
  proof (induction ps arbitrary: v)
    case (Cons p ps)
    show ?case using Cons.IH[of "purge_file faulty p v"] one[of p v] by auto
  qed simp
  show "cw_images (purge_instance_files e faulty c d w) q \<in> {None, cw_images w q}"
    using f unfolding purge_instance_files_def discard_dir_def by simp
  show "ce_rmdir e d \<Longrightarrow> below_dir d q \<Longrightarrow> cw_images (purge_instance_files e faulty c d w) q = None"
    unfolding purge_instance_files_def discard_dir_def by simp
qed

lemma purge_registry: "cw_registry (purge_instance_files e faulty c d w) = cw_registry w"
proof -
  have "cw_registry (fold (purge_file faulty) ps v) = cw_registry v" for ps v
    by (induction ps arbitrary: v) (simp_all add: purge_file_def)
  then show ?thesis by (simp add: purge_instance_files_def discard_dir_def)
qed

lemma no_chain_without_backing:
  assumes "fs p \<in> {None, Some im}" and "im_backing im = Some b" and "is_absolute b" and "fs b = None"
  shows "\<nexists>ps. chain_of fs p ps"
proof
  assume "\<exists>ps. chain_of fs p ps"
  then obtain ps where "chain_of fs p ps" ..
  then show False
  proof cases
    case (chain_link im' b' qs)
    then have "chain_of fs b qs" using assms(1-3) by (simp add: resolve_backing_def)
    then show False using chain_of_hd[of fs b qs] chain_of_files[of fs b qs b] assms(4) by auto
  qed (use assms(1,2) in simp)
qed

text \<open>C21. A shared base clone of an instance that has snapshots stands on the newest layer of its source,
  though what is recorded for it is the base image. The check against live clones does not find it: if
  the source had no clones, purging it is accepted, which removes the layer, and nothing can be read from
  the clone any more, which stays registered.\<close>

theorem shared_base_clone_dies_with_source:
  assumes "image_laws (ce_tool e)" and "ce_rmdir e (ih_dir h)"
    and "distinct (map fst (cw_registry w))" and "registered (cw_registry w) i = None"
    and "registered (cw_registry w) src = Some h" and "join_decision (clone_key src nm SharedBase token) (ih_sup h) = Free"
    and "cw_images w (disk_path (ic_disk (handle_config h))) = Some im"
    and "im_backing im = Some layer" and "is_absolute layer" and "below_dir (ih_dir h) layer"
    and "disk_base_image (ic_disk (handle_config h)) \<noteq> Some (disk_path (ic_disk (handle_config h)))"
    and "live_clones src (cw_registry w) = Inr []"
    and "clone_instance e src nm root SharedBase token i (\<lambda>v. v) w = (Inr k, w')"
  shows "\<exists>hc w''. remove_with_files e faulty src True w' = (Inr (), w'') \<and> registered (cw_registry w'') i = Some hc
     \<and> handle_state hc = Created \<and> (\<nexists>v. reads (cw_images w'') (disk_path (ic_disk (handle_config hc))) v)"
proof -
  let ?dd = "\<lambda>n. path_join (new_dir root i) n" and ?c = "handle_config h" and ?p = "disk_path (ic_disk (handle_config h))"
  have ne: "i \<noteq> src" using assms(4,5) by auto
  have calm: "calm i (\<lambda>v. v)" by (simp add: calm_def still_free_def)
  have idle: "is_disk_idle (handle_state h)" by (rule clone_instance_Inr[OF assms(1) calm assms(4,5,6,13)])
  have "recorded_backing SharedBase (ic_disk (handle_config g)) \<noteq> Some ?p" if "registered (cw_registry w) src = Some g" for g
    using that assms(5,11) by simp
  from clone_instance_view[OF assms(1) ne assms(13) this] have "same_view src ?p w w'" by blast
  then obtain h' where h': "registered (cw_registry w') src = Some h'" "ih_dir h' = ih_dir h" "handle_config h' = ?c" "handle_state h' = handle_state h"
      and distinct: "distinct (map fst (cw_registry w'))" and based: "based_on ?p (cw_registry w') \<subseteq> based_on ?p (cw_registry w)"
    using assms(3,5) by (auto simp: same_view_def)
  have "live_clones src reg = Inr [] \<longleftrightarrow> based_on ?p reg \<subseteq> {src}"
    if "registered reg src = Some g" "handle_config g = ?c" for reg g
    using that by (auto simp: live_clones_def handle_for_def ok_or_def rbind_def based_on_def filter_empty_conv image_subset_iff)
  then have unlisted: "live_clones src (cw_registry w') = Inr []" using assms(5,12) h' based by blast
  let ?w2 = "purge_instance_files e faulty ?c (ih_dir h) (w'\<lparr>cw_registry := AList.delete src (cw_registry w')\<rparr>)"
  have purge: "remove_with_files e faulty src True w' = (Inr (), ?w2)"
    using unlisted h' idle by (simp add: remove_with_files_def remove_instance_def handle_for_def ok_or_def rbind_def)
  show ?thesis
  proof (rule calm_clone_Inr[OF assms(1) calm assms(4,5,6,13)])
    fix il hc
    assume r: "registered (cw_registry w') i = Some hc" "handle_state hc = Created"
      "handle_config hc = cloned_config ?c i nm (new_dir root i) \<lparr>cl_disk_path = ?dd ''disk.qcow2'', cl_backing_file = recorded_backing SharedBase (ic_disk ?c)\<rparr>"
      "cw_images w' = (cw_images w)(?dd ''disk.qcow2'' := Some il)" "clone_image SharedBase (ic_disk ?c) (cw_images w) il"
    have "cw_images ?w2 layer = None" by (rule purge_only_removes(2)[OF assms(2,10)])
    moreover have "cw_images ?w2 (?dd ''disk.qcow2'') \<in> {None, Some il}"
      using purge_only_removes(1)[of e faulty ?c "ih_dir h" "w'\<lparr>cw_registry := AList.delete src (cw_registry w')\<rparr>" "?dd ''disk.qcow2''"]
      by (simp add: r(4))
    moreover have "im_backing il = Some layer" using r(5) assms(7,8) by simp
    ultimately have "\<nexists>v. reads (cw_images ?w2) (?dd ''disk.qcow2'') v"
      using no_chain_without_backing[of "cw_images ?w2" "?dd ''disk.qcow2''" il layer] assms(9) unfolding reads_def by blast
    moreover have "disk_path (ic_disk (handle_config hc)) = ?dd ''disk.qcow2''" by (simp add: r(3) cloned_config_sel)
    moreover have "registered (cw_registry ?w2) i = Some hc" using ne r(1) by (simp add: purge_registry registered_delete)
    ultimately show ?thesis using purge r(2) by auto
  qed
qed

text \<open>Purging an instance removes its disk even when another registered instance names the same file
  as its own: the check against live clones looks at recorded base images only.\<close>

lemma purge_takes_shared_disk:
  assumes "registered (cw_registry w) i = Some h" and "registered (cw_registry w) j = Some hj" and "i \<noteq> j"
    and "disk_path (ic_disk (handle_config hj)) = disk_path (ic_disk (handle_config h))"
    and "is_disk_idle (handle_state h)" and "live_clones i (cw_registry w) = Inr []"
    and "\<not> faulty (disk_path (ic_disk (handle_config h)))"
  shows "\<exists>w'. remove_with_files e faulty i True w = (Inr (), w') \<and> registered (cw_registry w') j = Some hj
     \<and> validate_instance_files (dm_host (daemon_in e w')) (handle_config hj) \<noteq> Inr ()"
proof -
  let ?c = "handle_config h" and ?p = "disk_path (ic_disk (handle_config h))"
  have f: "cw_images v ?p = None \<Longrightarrow> cw_files v ?p = None \<Longrightarrow>
      cw_images (fold (purge_file faulty) ps v) ?p = None \<and> cw_files (fold (purge_file faulty) ps v) ?p = None" for ps v
    by (induction ps arbitrary: v) (simp_all add: purge_file_def)
  have "\<not> cexists (purge_instance_files e faulty ?c (ih_dir h) v) ?p" for v
    using f assms(7) by (simp add: purge_instance_files_def discard_dir_def cexists_def purge_file_def purge_paths_def del: fold_append)
  then show ?thesis
    using assms(1-6)
    by (auto simp: remove_with_files_def remove_instance_def handle_for_def ok_or_def rbind_def registered_delete purge_registry
        validate_instance_files_def check_files_def daemon_in_def)
qed

text \<open>A second request for the same clone is answered with the id of the clone under way while no such
  instance is registered, at once and without waiting; if the task fails after that, there never is
  one.\<close>

theorem joined_clone_answers_early:
  assumes "request_clone e src (clone_key src nm mode token) i w = (Inr (Started seq), w1)"
    and "registered (cw_registry w) i = None" and "clone_check src mode w1 = (Inr c, w1)"
  shows "\<exists>w2. clone_instance e src nm root mode token i2 others w1 = (Inr i, w2)
     \<and> registered (cw_registry w2) i = None \<and> cw_images w2 = cw_images w1 \<and> cw_files w2 = cw_files w1
     \<and> (\<forall>others' err w3. calm i others' \<longrightarrow> clone_task e src c mode nm (new_dir root i) i seq others' w2 = (Inl err, w3)
          \<longrightarrow> registered (cw_registry w3) i = None)"
proof -
  obtain h where h: "registered (cw_registry w) src = Some h" "join_decision (clone_key src nm mode token) (ih_sup h) = Free"
      and w1: "w1 = w\<lparr>cw_registry := with_supervisor src (\<lambda>_. accept_operation (clone_operation src i)
         (clone_key src nm mode token) (Some i) (ih_sup h)) (cw_registry w)\<rparr>"
    using assms(1) by (auto simp: request_clone_def start_id_operation_def rbind_def split: option.splits join_outcome.splits)
  let ?s = "accept_operation (clone_operation src i) (clone_key src nm mode token) (Some i) (ih_sup h)"
  have join: "join_decision (clone_key src nm mode token) ?s = Joined (clone_operation src i) (Some i)"
    by (simp add: join_decision_def active_operation_def accept_operation_def clone_key_def Let_def split: option.split)
  have src: "registered (cw_registry w1) src = Some (h\<lparr>ih_sup := ?s\<rparr>)" by (simp add: w1 registered_with h(1))
  have free: "registered (cw_registry w1) i = None" using assms(2) h(1) by (auto simp: w1 registered_with)
  let ?w2 = "w1\<lparr>cw_registry := with_supervisor src (\<lambda>_. ?s) (cw_registry w1)\<rparr>"
  have "clone_instance e src nm root mode token i2 others w1 = (Inr i, ?w2)"
    by (simp add: clone_instance_def cbind_def assms(3) clone_steps_def request_clone_def src start_id_operation_def join
        with_guard_def cdone_def Let_def rbind_def)
  moreover have free2: "registered (cw_registry ?w2) i = None" using free src by (auto simp: registered_with)
  moreover have "registered (cw_registry w3) i = None"
    if "calm i others'" "clone_task e src c mode nm (new_dir root i) i seq others' ?w2 = (Inl err, w3)" for others' err w3
    using fails_cleanD[OF clone_task_free[OF that(1)] that(2)] free2 by (simp add: still_free_def)
  ultimately show ?thesis by auto
qed

text \<open>An instance that boots without UEFI needs no variables file: it starts without one. It cannot be
  cloned, though: every clone of it fails on the copy of that file.\<close>

lemma clone_needs_unused_variables:
  assumes "registered (cw_registry w) src = Some h" and "is_disk_idle (handle_state h)"
    and "join_decision (clone_key src nm mode token) (ih_sup h) = Free"
    and "mode = SharedBase \<Longrightarrow> android_kind (ic_kind (handle_config h))"
    and "\<not> fw_enable_uefi (ic_firmware (handle_config h))" and "cw_files w (fw_ovmf_vars (ic_firmware (handle_config h))) = None"
    and "cexists w (disk_path (ic_disk (handle_config h)))" and "ic_extra_disks (handle_config h) = []"
    and "ce_mkdir e (new_dir root i) = None"
    and "ce_copy e (fw_ovmf_vars (ic_firmware (handle_config h))) (path_join (new_dir root i) ''VARS.fd'') = None"
  shows "validate_instance_files (dm_host (daemon_in e w)) (handle_config h) = Inr ()
     \<and> fst (clone_instance e src nm root mode token i others w) = Inl (IoErr (path_join (new_dir root i) ''VARS.fd'') ''not found'')"
proof
  show "validate_instance_files (dm_host (daemon_in e w)) (handle_config h) = Inr ()"
    by (rule validate_files_ok) (simp_all add: assms(5,7,8) daemon_in_def)
  show "fst (clone_instance e src nm root mode token i others w) = Inl (IoErr (path_join (new_dir root i) ''VARS.fd'') ''not found'')"
    using assms(1-4,6,9,10)
    by (simp add: clone_instance_def clone_check_def terminal_clonable_config_def handle_for_def ok_or_def rbind_def
        clone_steps_def request_clone_def start_id_operation_def clone_task_def finish_task_def clone_prepare_def
        report_def stop_if_cancelled_def task_cancelled_def make_private_dir_def copy_vars_def copy_file_def
        cbind_def with_guard_def registered_with accept_operation_def task_progress_def Let_def)
qed

end
