(* ===== verification/CreationDemo.thy ===== *)
theory CreationDemo
  imports CreationRuns StartGates
begin

text \<open>
  A concrete host for the properties of creating and cloning: a \<open>qemu-img\<close> that meets its laws
  (\<open>clone_tool\<close>), an Android instance whose disk stands on a snapshot layer that stands on the base
  image, and the operations run on it.
\<close>

section \<open>A program that meets the laws\<close>

fun flat_data :: "filesystem \<Rightarrow> nat \<Rightarrow> string \<Rightarrow> (nat \<Rightarrow> nat option) option" where
  "flat_data fs 0 p = None"
| "flat_data fs (Suc n) p =
     (case fs p of None \<Rightarrow> None
      | Some im \<Rightarrow>
          (case im_backing im of
             None \<Rightarrow> Some (im_data im |` before_end (im_size im))
           | Some b \<Rightarrow> map_option (\<lambda>v. (v ++ im_data im) |` before_end (im_size im)) (flat_data fs n (resolve_backing p b))))"

lemma flat_data_reads: "flat_data fs n p = Some v \<Longrightarrow> guest_reads fs p v"
proof (induction n arbitrary: p v)
  case (Suc n)
  then obtain im where im: "fs p = Some im" by (auto split: option.splits)
  show ?case
  proof (cases "im_backing im")
    case None
    then show ?thesis using Suc.prems im by (auto simp: guest_reads_def intro!: exI[of _ "[p]"] chain_of.chain_base)
  next
    case (Some b)
    then obtain u where "flat_data fs n (resolve_backing p b) = Some u" "v = (u ++ im_data im) |` before_end (im_size im)" using Suc.prems im by auto
    then obtain ps where "chain_of fs (resolve_backing p b) ps" "u = guest_view fs ps" using Suc.IH by (auto simp: guest_reads_def)
    then show ?thesis
      using im Some \<open>v = (u ++ im_data im) |` before_end (im_size im)\<close> by (auto simp: guest_reads_def intro!: exI[of _ "p # ps"] chain_of.chain_link)
  qed
qed simp

definition clone_tool :: qemu_tool where
  "clone_tool =
     \<lparr>qt_run = (\<lambda>args fs.
        if hd args = ''convert''
        then (let src = args ! 5; dst = args ! 6 in
          case (fs src, flat_data fs 100 src) of
            (Some im, Some v) \<Rightarrow> Inr (fs(dst := Some \<lparr>im_size = im_size im, im_backing = None, im_data = v\<rparr>))
          | _ \<Rightarrow> Inl (CommandFailed 1 src))
        else if hd args = ''resize''
        then (let p = last (butlast args) in
          case (fs p, parse_u64 (last args)) of
            (Some im, Some n) \<Rightarrow> Inr (fs(p := Some (im\<lparr>im_size := n\<rparr>)))
          | _ \<Rightarrow> Inl (CommandFailed 1 p))
        else qt_run ref_tool args fs),
      qt_info = qt_info ref_tool\<rparr>"

lemma clone_tool_as_ref:
  "qcow2_create clone_tool = qcow2_create ref_tool" "create_overlay clone_tool = create_overlay ref_tool"
  "rebase_unchanged clone_tool = rebase_unchanged ref_tool" "commit_layer clone_tool = commit_layer ref_tool"
  "qt_info clone_tool = qt_info ref_tool"
  by (simp_all add: fun_eq_iff clone_tool_def qcow2_create_def create_overlay_def rebase_unchanged_def commit_layer_def overlay_args_def)

lemma clone_tool_laws: "image_laws clone_tool"
proof -
  have "qemu_laws clone_tool" using ref_tool_laws by (simp add: qemu_laws_def clone_tool_as_ref)
  moreover have "\<exists>im v. fs src = Some im \<and> guest_reads fs src v
       \<and> fs' = fs(dst := Some \<lparr>im_size = im_size im, im_backing = None, im_data = v\<rparr>)"
    if "clone_full clone_tool src dst fs = Inr fs'" for src dst fs fs'
    using that by (auto simp: clone_full_def clone_tool_def Let_def split: option.splits dest: flat_data_reads)
  moreover have "\<exists>im v. fs p = Some im \<and> fs' = fs(p := Some (im\<lparr>im_size := n, im_data := v\<rparr>))"
    if r: "qcow2_resize clone_tool p n shrink fs = Inr fs'" for p n shrink fs fs'
  proof -
    from r obtain im where "fs p = Some im" "fs' = fs(p := Some (im\<lparr>im_size := n\<rparr>))"
      by (auto simp: qcow2_resize_def virtual_size_bytes_def clone_tool_def rbind_def Let_def split: sum.splits if_splits option.splits)
    then show ?thesis by (intro exI[of _ im] exI[of _ "im_data im"]) simp
  qed
  ultimately show ?thesis by (simp add: image_laws_def)
qed

section \<open>When a clone succeeds\<close>

lemma clone_task_succeeds:
  assumes "registered (cw_registry w) src = Some h" and "\<not> sup_cancel (ih_sup h) seq"
    and "cw_files w (fw_ovmf_vars (ic_firmware c)) = Some vars" and "ce_mkdir e dir = None"
    and "ce_copy e (fw_ovmf_vars (ic_firmware c)) (path_join dir ''VARS.fd'') = None"
    and "\<And>v. cw_images v = cw_images w \<Longrightarrow>
      clone_disk e mode (ic_disk c) (path_join dir ''disk.qcow2'') v = (Inr cl, v\<lparr>cw_images := fs\<rparr>)"
    and "validate c = Inr ()" and "dm_backends (ce_daemon e) (ic_backend c) = Some bk"
    and "\<And>v. cw_registry (others v) = cw_registry v"
  shows "\<exists>w'. clone_task e src c mode nm dir i seq others w = (Inr i, w')"
proof -
  have id: "ic_id (cloned_config c i nm d x) = i" "ic_backend (cloned_config c i nm d x) = ic_backend c"
      "check_valid (cloned_config c i nm d x) = Inr ()" for d x
    using assms(7) by (simp_all add: cloned_config_def check_valid_def validate_cloned[unfolded cloned_config_def] map_err_def)
  show ?thesis
    using assms(1-5,8,9)
    by (simp add: clone_task_def finish_task_def clone_prepare_def clone_register_def rbind_def ok_or_def
        report_def stop_if_cancelled_def task_cancelled_def make_private_dir_def copy_vars_def copy_file_def meanwhile_def
        cbind_def cdone_def registered_with task_progress_def assms(6) register_at_def register_instance_def
        backend_for_def id Let_def split: prod.split option.split)
qed

lemma clone_succeeds:
  assumes "registered (cw_registry w) src = Some h" and "is_disk_idle (handle_state h)"
    and "join_decision (clone_key src nm mode token) (ih_sup h) = Free"
    and "mode = SharedBase \<Longrightarrow> android_kind (ic_kind (handle_config h))"
    and "cw_files w (fw_ovmf_vars (ic_firmware (handle_config h))) = Some vars" and "ce_mkdir e (new_dir root i) = None"
    and "ce_copy e (fw_ovmf_vars (ic_firmware (handle_config h))) (path_join (new_dir root i) ''VARS.fd'') = None"
    and "\<And>v. cw_images v = cw_images w \<Longrightarrow>
      clone_disk e mode (ic_disk (handle_config h)) (path_join (new_dir root i) ''disk.qcow2'') v = (Inr cl, v\<lparr>cw_images := fs\<rparr>)"
    and "validate (handle_config h) = Inr ()" and "dm_backends (ce_daemon e) (ic_backend (handle_config h)) = Some bk"
  shows "\<exists>w'. clone_instance e src nm root mode token i (\<lambda>v. v) w = (Inr i, w')"
proof -
  let ?s = "accept_operation (clone_operation src i) (clone_key src nm mode token) (Some i) (ih_sup h)"
  let ?w = "w\<lparr>cw_registry := with_supervisor src (\<lambda>_. ?s) (cw_registry w)\<rparr>"
  have "registered (cw_registry ?w) src = Some (h\<lparr>ih_sup := ?s\<rparr>)" by (simp add: registered_with assms(1))
  moreover have "\<not> sup_cancel ?s (sup_next_op_seq (ih_sup h))" by (simp add: accept_operation_def Let_def)
  ultimately obtain w' where "clone_task e src (handle_config h) mode nm (new_dir root i) i (sup_next_op_seq (ih_sup h)) (\<lambda>v. v) ?w = (Inr i, w')"
    using clone_task_succeeds[of ?w src "h\<lparr>ih_sup := ?s\<rparr>" "sup_next_op_seq (ih_sup h)" "handle_config h" vars e "new_dir root i" mode cl fs bk
        "\<lambda>v. v" nm i] assms(5-10) by auto
  then show ?thesis
    using assms(1-4)
    by (simp add: clone_instance_def clone_check_def terminal_clonable_config_def handle_for_def ok_or_def rbind_def
        clone_steps_def request_clone_def start_id_operation_def cbind_def Let_def)
qed

section \<open>A concrete world\<close>

definition clone_env :: "(string \<Rightarrow> string \<Rightarrow> string option) \<Rightarrow> create_env" where
  "clone_env copies =
     \<lparr>ce_daemon = demo_daemon, ce_tool = clone_tool, ce_mkdir = (\<lambda>_. None), ce_copy = copies, ce_rmdir = (\<lambda>_. True),
      ce_boot = (\<lambda>_ fs. fs), ce_write = plain_io, ce_json = ex_json, ce_manifest = (\<lambda>_. None), ce_digest = ex_world ''A'' 5 1,
      ce_show = (\<lambda>_. [])\<rparr>"

definition demo_profile :: android_profile where
  "demo_profile = \<lparr>ap_version = Android13, ap_gapps = True, ap_microg = False, ap_arm_translator = NoTranslator,
     ap_boot_mode = BootAndroid, ap_base_image_pin = None\<rparr>"

definition source_config :: instance_config where
  "source_config = android_resolve demo_profile (replicate 32 1) ''a'' (disk_overlay ''/s/disk.qcow2'' ''/b/a.qcow2'' 1024) ''/s/VARS.fd''"

definition source_handle :: instance_handle where
  "source_handle = \<lparr>ih_dir = ''/s'', ih_sup = spawn_supervisor source_config Stopped None None\<rparr>"

definition clone_world :: create_world where
  "clone_world =
     \<lparr>cw_images = [''/s/disk.qcow2'' \<mapsto> \<lparr>im_size = 1024, im_backing = Some ''/s/l1'', im_data = [0 \<mapsto> 7]\<rparr>,
        ''/s/l1'' \<mapsto> \<lparr>im_size = 1024, im_backing = Some ''/b/a.qcow2'', im_data = [0 \<mapsto> 6]\<rparr>,
        ''/b/a.qcow2'' \<mapsto> \<lparr>im_size = 1024, im_backing = None, im_data = [1 \<mapsto> 5]\<rparr>],
      cw_files = [''/s/VARS.fd'' \<mapsto> ''V'', ''/t/VARS.fd'' \<mapsto> ''T''],
      cw_registry = [(replicate 32 1, source_handle)], cw_broken = Map.empty, cw_memo = None\<rparr>"

lemma source_sel:
  "handle_state source_handle = Stopped" "handle_config source_handle = source_config" "ih_dir source_handle = ''/s''"
  "disk_path (ic_disk source_config) = ''/s/disk.qcow2''" "disk_base_image (ic_disk source_config) = Some ''/b/a.qcow2''"
  "disk_size (ic_disk source_config) = 1024"
  "fw_ovmf_vars (ic_firmware source_config) = ''/s/VARS.fd''" "ic_extra_disks source_config = []"
  "android_kind (ic_kind source_config)" "join_decision key (ih_sup source_handle) = Free"
  by (simp_all add: source_handle_def handle_state_def handle_config_def spawn_supervisor_def Let_def source_config_def
      android_resolve_def disk_overlay_def firmware_reference_default_def join_decision_def active_operation_def)

lemma world_sel:
  "registered (cw_registry clone_world) (replicate 32 1) = Some source_handle"
  "registered (cw_registry clone_world) (replicate 32 2) = None" "distinct (map fst (cw_registry clone_world))"
  "cw_images clone_world ''/s/disk.qcow2'' = Some \<lparr>im_size = 1024, im_backing = Some ''/s/l1'', im_data = [0 \<mapsto> 7]\<rparr>"
  "cw_files clone_world ''/s/VARS.fd'' = Some ''V''" "cw_files clone_world ''/t/VARS.fd'' = Some ''T''"
  "cw_images clone_world ''/b/a.qcow2'' \<noteq> None"
  by (simp_all add: clone_world_def registered_def)

lemma env_sel:
  "ce_tool (clone_env f) = clone_tool" "ce_mkdir (clone_env f) d = None" "ce_copy (clone_env f) = f" "ce_rmdir (clone_env f) d"
  "ce_daemon (clone_env f) = demo_daemon" "ce_write (clone_env f) = plain_io" "ce_boot (clone_env f) p fs = fs"
  by (simp_all add: clone_env_def)

lemma env_laws: "image_laws (ce_tool (clone_env f))" "boot_laws (clone_env f)"
  by (simp_all add: env_sel clone_tool_laws boot_laws_def)

lemma id_two: "id_ok (replicate 32 2)" "id_ok (replicate 32 1)" by (simp_all add: id_ok_def)

lemma clone_paths: "is_absolute ''/s/disk.qcow2''" "is_absolute ''/s/l1''" "is_absolute ''/b/a.qcow2''" "below_dir ''/s'' ''/s/l1''"
  by code_simp+

lemma fresh_world: "fresh_dir (new_dir ''/i'' (replicate 32 2)) clone_world"
proof -
  have "\<not> cexists clone_world p" if "below_dir (new_dir ''/i'' (replicate 32 2)) p" for p
  proof -
    have "plain_dir ''/i''" by code_simp
    with that obtain r where "p = ''/i/'' @ r"
      using plain_show_id[OF id_two(1)] by (auto simp: below_dir_def new_dir_def path_join_plain starts_with_iff)
    then show ?thesis by (simp add: cexists_def clone_world_def)
  qed
  then show ?thesis by (simp add: fresh_dir_def)
qed

lemma source_reads:
  "reads (cw_images clone_world) ''/s/disk.qcow2'' [0 \<mapsto> 7, 1 \<mapsto> 5]"
  "guest_reads (cw_images clone_world) ''/s/disk.qcow2'' [0 \<mapsto> 7, 1 \<mapsto> 5]"
proof -
  have b: "chain_of (cw_images clone_world) ''/b/a.qcow2'' [''/b/a.qcow2'']"
    by (rule chain_of.chain_base[of _ _ "\<lparr>im_size = 1024, im_backing = None, im_data = [1 \<mapsto> 5]\<rparr>"]) (simp_all add: clone_world_def)
  have r: "resolve_backing ''/s/l1'' ''/b/a.qcow2'' = ''/b/a.qcow2''" "resolve_backing ''/s/disk.qcow2'' ''/s/l1'' = ''/s/l1''"
    by code_simp+
  have "chain_of (cw_images clone_world) ''/s/l1'' [''/s/l1'', ''/b/a.qcow2'']"
    by (rule chain_of.chain_link[of _ _ "\<lparr>im_size = 1024, im_backing = Some ''/b/a.qcow2'', im_data = [0 \<mapsto> 6]\<rparr>" "''/b/a.qcow2''"])
      (simp_all add: clone_world_def r b[unfolded clone_world_def, simplified])
  then have c: "chain_of (cw_images clone_world) ''/s/disk.qcow2'' [''/s/disk.qcow2'', ''/s/l1'', ''/b/a.qcow2'']"
    using chain_of.chain_link[of "cw_images clone_world" "''/s/disk.qcow2''", OF world_sel(4), of "''/s/l1''"] by (simp add: r)
  have "layered (cw_images clone_world) [''/s/disk.qcow2'', ''/s/l1'', ''/b/a.qcow2''] = [0 \<mapsto> 7, 1 \<mapsto> 5]"
    by (auto simp: clone_world_def fun_eq_iff)
  with c show "reads (cw_images clone_world) ''/s/disk.qcow2'' [0 \<mapsto> 7, 1 \<mapsto> 5]" unfolding reads_def by metis
  have "guest_view (cw_images clone_world) [''/s/disk.qcow2'', ''/s/l1'', ''/b/a.qcow2''] = [0 \<mapsto> 7, 1 \<mapsto> 5]"
    by (auto simp: clone_world_def fun_eq_iff before_end_def restrict_map_def map_add_def)
  with c show "guest_reads (cw_images clone_world) ''/s/disk.qcow2'' [0 \<mapsto> 7, 1 \<mapsto> 5]" unfolding guest_reads_def by metis
qed

lemma demo_backend: "\<exists>bk. dm_backends (ce_daemon (clone_env f)) k = Some bk"
  by (simp add: env_sel demo_daemon_def)

lemma source_valid: "validate source_config = Inr ()"
  by (simp add: source_config_def android_resolve_valid disk_overlay_def)

text \<open>The disks of the three kinds of clone are made here.\<close>

lemma overlay_made: "fs b \<noteq> None \<Longrightarrow> create_with_backing_file clone_tool p b s fs =
    Inr (fs(p := Some \<lparr>im_size = s, im_backing = Some b, im_data = Map.empty\<rparr>))"
  by (simp add: create_with_backing_file_def clone_tool_def ref_tool_def overlay_args_def)

lemma clone_disk_made:
  assumes "cw_images v = cw_images clone_world"
  shows "clone_disk (clone_env f) Linked (ic_disk source_config) p v =
      (Inr \<lparr>cl_disk_path = p, cl_backing_file = Some ''/s/disk.qcow2''\<rparr>,
       v\<lparr>cw_images := (cw_images clone_world)(p := Some \<lparr>im_size = 1024, im_backing = Some ''/s/disk.qcow2'', im_data = Map.empty\<rparr>)\<rparr>)"
    and "f ''/s/disk.qcow2'' p = None \<Longrightarrow> clone_disk (clone_env f) SharedBase (ic_disk source_config) p v =
      (Inr \<lparr>cl_disk_path = p, cl_backing_file = Some ''/b/a.qcow2''\<rparr>,
       v\<lparr>cw_images := (cw_images clone_world)(p := cw_images clone_world ''/s/disk.qcow2'')\<rparr>)"
  using assms world_sel(4)
  by (simp_all add: clone_disk_def on_images_def linked_clone_def env_sel source_sel overlay_made rbind_def shared_base_clone_def)

lemma demo_clone:
  "\<exists>w'. clone_instance (clone_env (\<lambda>_ _. None)) (replicate 32 1) nm ''/i'' Linked token (replicate 32 2) (\<lambda>v. v) clone_world = (Inr (replicate 32 2), w')"
  "\<exists>w'. clone_instance (clone_env (\<lambda>_ _. None)) (replicate 32 1) nm ''/i'' SharedBase token (replicate 32 2) (\<lambda>v. v) clone_world = (Inr (replicate 32 2), w')"
proof -
  obtain bk where bk: "dm_backends (ce_daemon (clone_env (\<lambda>_ _. None))) (ic_backend (handle_config source_handle)) = Some bk"
    using demo_backend by blast
  show "\<exists>w'. clone_instance (clone_env (\<lambda>_ _. None)) (replicate 32 1) nm ''/i'' Linked token (replicate 32 2) (\<lambda>v. v) clone_world = (Inr (replicate 32 2), w')"
    by (rule clone_succeeds[OF world_sel(1) _ _ _ _ _ _ _ _ bk, where vars = "''V''"])
      (simp_all add: source_sel env_sel world_sel source_valid clone_disk_made(1))
  show "\<exists>w'. clone_instance (clone_env (\<lambda>_ _. None)) (replicate 32 1) nm ''/i'' SharedBase token (replicate 32 2) (\<lambda>v. v) clone_world = (Inr (replicate 32 2), w')"
    by (rule clone_succeeds[OF world_sel(1) _ _ _ _ _ _ _ _ bk, where vars = "''V''"])
      (simp_all add: source_sel env_sel world_sel source_valid clone_disk_made(2))
qed

lemma calm_same: "calm i (\<lambda>v. v)" by (simp add: calm_def still_free_def)

section \<open>Witnesses\<close>

theorem clone_reads_like_source_witness:
  "\<exists>w' hc. clone_instance (clone_env (\<lambda>_ _. None)) (replicate 32 1) ''b'' ''/i'' SharedBase None (replicate 32 2) (\<lambda>v. v) clone_world
       = (Inr (replicate 32 2), w')
     \<and> registered (cw_registry w') (replicate 32 2) = Some hc \<and> ic_name (handle_config hc) = ''b''
     \<and> guest_reads (cw_images w') (disk_path (ic_disk (handle_config hc))) [0 \<mapsto> 7, 1 \<mapsto> 5]"
proof -
  obtain w' where w': "clone_instance (clone_env (\<lambda>_ _. None)) (replicate 32 1) ''b'' ''/i'' SharedBase None (replicate 32 2) (\<lambda>v. v) clone_world
      = (Inr (replicate 32 2), w')"
    using demo_clone(2) by blast
  have abs: "is_absolute (disk_path (ic_disk (handle_config source_handle)))" by (simp add: source_sel clone_paths)
  have layer: "SharedBase = SharedBase \<longrightarrow> (\<forall>im b. cw_images clone_world (disk_path (ic_disk (handle_config source_handle))) = Some im
      \<longrightarrow> im_backing im = Some b \<longrightarrow> is_absolute b)"
    by (auto simp: source_sel world_sel clone_paths)
  have free: "join_decision key (ih_sup source_handle) = Free" for key by (rule source_sel)
  from clone_reads_like_source[OF env_laws(1) id_two(1) calm_same fresh_world world_sel(2,1) free abs layer w']
  obtain hc where hc: "registered (cw_registry w') (replicate 32 2) = Some hc" "ic_name (handle_config hc) = ''b''"
    "\<forall>v. guest_reads (cw_images clone_world) ''/s/disk.qcow2'' v \<longrightarrow> guest_reads (cw_images w') (disk_path (ic_disk (handle_config hc))) v"
    unfolding source_sel clone_view.simps by (elim conjE exE)
  show ?thesis by (intro exI conjI, rule w', rule hc, rule hc, rule hc(3)[rule_format, OF source_reads(2)])
qed



theorem shared_base_clone_dies_with_source_witness:
  "\<exists>w' w'' hc. clone_instance (clone_env (\<lambda>_ _. None)) (replicate 32 1) ''b'' ''/i'' SharedBase None (replicate 32 2) (\<lambda>v. v) clone_world
       = (Inr (replicate 32 2), w')
     \<and> remove_with_files (clone_env (\<lambda>_ _. None)) (\<lambda>_. False) (replicate 32 1) True w' = (Inr (), w'')
     \<and> registered (cw_registry w'') (replicate 32 2) = Some hc
     \<and> (\<nexists>v. reads (cw_images w'') (disk_path (ic_disk (handle_config hc))) v)"
proof -
  obtain w' where w': "clone_instance (clone_env (\<lambda>_ _. None)) (replicate 32 1) ''b'' ''/i'' SharedBase None (replicate 32 2) (\<lambda>v. v) clone_world
      = (Inr (replicate 32 2), w')"
    using demo_clone(2) by blast
  have free: "join_decision key (ih_sup source_handle) = Free" for key by (rule source_sel)
  have dir: "ce_rmdir (clone_env (\<lambda>_ _. None)) (ih_dir source_handle)" by (simp add: env_sel)
  have disk: "cw_images clone_world (disk_path (ic_disk (handle_config source_handle))) = Some \<lparr>im_size = 1024, im_backing = Some ''/s/l1'', im_data = [0 \<mapsto> 7]\<rparr>"
    "im_backing \<lparr>im_size = 1024, im_backing = Some ''/s/l1'', im_data = [0 \<mapsto> 7]\<rparr> = Some ''/s/l1''"
    "is_absolute ''/s/l1''" "below_dir (ih_dir source_handle) ''/s/l1''"
    "disk_base_image (ic_disk (handle_config source_handle)) \<noteq> Some (disk_path (ic_disk (handle_config source_handle)))"
    unfolding source_sel by (rule world_sel, simp, rule clone_paths, rule clone_paths, simp)
  have clones: "live_clones (replicate 32 1) (cw_registry clone_world) = Inr []"
    by (simp add: live_clones_def handle_for_def world_sel(1) ok_or_def rbind_def) (simp add: clone_world_def source_sel)
  from shared_base_clone_dies_with_source[OF env_laws(1) dir world_sel(3,2,1) free disk clones w', where faulty = "\<lambda>_. False"]
  obtain w'' hc where r: "remove_with_files (clone_env (\<lambda>_ _. None)) (\<lambda>_. False) (replicate 32 1) True w' = (Inr (), w'')"
    "registered (cw_registry w'') (replicate 32 2) = Some hc" "\<nexists>v. reads (cw_images w'') (disk_path (ic_disk (handle_config hc))) v"
    by (elim exE conjE)
  show ?thesis by (intro exI conjI, rule w', rule r(1), rule r(2), rule r(3))
qed

lemma demo_request:
  "\<exists>w1. request_clone (clone_env f) (replicate 32 1) key (replicate 32 2) clone_world = (Inr (Started 0), w1)
     \<and> clone_check (replicate 32 1) Linked w1 = (Inr source_config, w1)"
  by (simp add: request_clone_def world_sel(1) start_id_operation_def source_sel rbind_def clone_check_def terminal_clonable_config_def
      handle_for_def ok_or_def registered_with accept_operation_def Let_def)
    (simp add: source_handle_def handle_state_def handle_config_def spawn_supervisor_def Let_def)

theorem joined_clone_answers_early_witness:
  "\<exists>w1 w2. clone_instance (clone_env (\<lambda>_ _. None)) (replicate 32 1) ''b'' ''/i'' Linked None (replicate 32 3) (\<lambda>v. v) w1 = (Inr (replicate 32 2), w2)
     \<and> registered (cw_registry w2) (replicate 32 2) = None"
proof -
  obtain w1 where w1: "request_clone (clone_env (\<lambda>_ _. None)) (replicate 32 1) (clone_key (replicate 32 1) ''b'' Linked None) (replicate 32 2) clone_world
      = (Inr (Started 0), w1)" "clone_check (replicate 32 1) Linked w1 = (Inr source_config, w1)"
    using demo_request by blast
  from joined_clone_answers_early[OF w1(1) world_sel(2) w1(2)] show ?thesis by blast
qed

theorem abandoned_clone_registers_no_files_witness:
  "\<exists>w' h. clone_task (clone_env (\<lambda>_ _. None)) (replicate 32 1) source_config Linked ''b'' (new_dir ''/i'' (replicate 32 2)) (replicate 32 2) 0
       (discard_dir (clone_env (\<lambda>_ _. None)) (new_dir ''/i'' (replicate 32 2))) clone_world = (Inr (replicate 32 2), w')
     \<and> registered (cw_registry w') (replicate 32 2) = Some h
     \<and> validate_instance_files (dm_host (daemon_in (clone_env (\<lambda>_ _. None)) w')) (handle_config h) \<noteq> Inr ()"
proof -
  let ?e = "clone_env (\<lambda>_ _. None)" and ?d = "new_dir ''/i'' (replicate 32 2)"
  obtain bk where bk: "dm_backends (ce_daemon ?e) (ic_backend source_config) = Some bk" using demo_backend by blast
  have "\<not> sup_cancel (ih_sup source_handle) 0" by (simp add: source_handle_def spawn_supervisor_def Let_def)
  from clone_task_succeeds[OF world_sel(1) this _ _ _ clone_disk_made(1) source_valid bk, where vars = "''V''"]
  obtain w' where w': "clone_task ?e (replicate 32 1) source_config Linked ''b'' ?d (replicate 32 2) 0 (discard_dir ?e ?d) clone_world
      = (Inr (replicate 32 2), w')"
    by (fastforce simp: source_sel env_sel world_sel discard_dir_def)
  have "replicate 32 (2 :: 8 word) \<noteq> replicate 32 1" by simp
  from abandoned_clone_registers_no_files[OF env_laws(1) this id_two(1) env_sel(4) w'] w' show ?thesis by blast
qed

theorem failed_clone_leaves_no_trace_witness:
  "\<exists>err w'. clone_instance (clone_env (\<lambda>_ _. Some ''EIO'')) (replicate 32 1) ''b'' ''/i'' Linked None (replicate 32 2) (\<lambda>v. v) clone_world = (Inl err, w')
     \<and> no_trace (new_dir ''/i'' (replicate 32 2)) clone_world w' \<and> registered (cw_registry w') (replicate 32 2) = None"
proof -
  let ?r = "clone_instance (clone_env (\<lambda>_ _. Some ''EIO'')) (replicate 32 1) ''b'' ''/i'' Linked None (replicate 32 2) (\<lambda>v. v) clone_world"
  have "fst ?r = Inl (IoErr (path_join (new_dir ''/i'' (replicate 32 2)) ''VARS.fd'') ''EIO'')"
    by (simp add: clone_instance_def clone_check_def terminal_clonable_config_def handle_for_def ok_or_def rbind_def world_sel source_sel
        clone_steps_def request_clone_def start_id_operation_def clone_task_def finish_task_def clone_prepare_def
        report_def stop_if_cancelled_def task_cancelled_def make_private_dir_def copy_vars_def copy_file_def env_sel
        cbind_def with_guard_def registered_with accept_operation_def task_progress_def Let_def)
  then obtain err w' where r: "?r = (Inl err, w')" by (cases ?r) simp
  from failed_clone_leaves_no_trace[OF env_laws(1) id_two(1) env_sel(4) calm_same fresh_world world_sel(2) r] r show ?thesis by blast
qed

lemma demo_pin: "pin_step (clone_env f) base demo_profile w = (Inr demo_profile, w)"
proof -
  have "info_for read (\<lambda>_. None) p = None" for read p
    by (simp add: info_for_def Let_def split: option.split sum.split)
  then show ?thesis by (simp add: pin_step_def verify_or_derive_pin_def clone_env_def demo_profile_def rbind_def)
qed

lemma demo_creation:
  "fst (create_android_instance (clone_env (\<lambda>_ _. None)) demo_profile ''n'' (''/b'', ''z.qcow2'') ''/i'' 64 ''/t/VARS.fd'' True (replicate 32 2) clone_world)
     = Inl (DiskErr (BackingFileNotFound ''/b/z.qcow2''))"
  "fst (create_android_instance (clone_env (\<lambda>_ _. None)) demo_profile ''n'' (''/b'', ''a.qcow2'') ''/i'' 64 ''/t/VARS.fd'' True (replicate 32 2) clone_world)
     = Inr (replicate 32 2)"
proof -
  have z: "cw_images clone_world ''/b/z.qcow2'' = None" "path_text (''/b'', ''z.qcow2'') = ''/b/z.qcow2''"
    and a: "cw_images clone_world ''/b/a.qcow2'' \<noteq> None" "path_text (''/b'', ''a.qcow2'') = ''/b/a.qcow2''"
    by (simp_all add: clone_world_def path_text_def)
  have valid: "check_valid (android_resolve demo_profile i nm (disk_overlay p b 64) vars) = Inr ()" for i nm p b vars
    by (simp add: check_valid_def android_resolve_valid disk_overlay_def map_err_def)
  have id: "ic_id (android_resolve pr i nm d vars) = i" for pr i nm d vars by (simp add: android_resolve_def)
  note steps = create_android_instance_def android_steps_def demo_pin cbind_def make_private_dir_def env_sel provision_vars_def
    copy_file_def world_sel android_disk_def on_images_def instance_overlay_def rbind_def with_guard_def cdone_def Let_def
  show "fst (create_android_instance (clone_env (\<lambda>_ _. None)) demo_profile ''n'' (''/b'', ''z.qcow2'') ''/i'' 64 ''/t/VARS.fd'' True (replicate 32 2) clone_world)
     = Inl (DiskErr (BackingFileNotFound ''/b/z.qcow2''))"
    by (simp add: steps z create_with_backing_file_def)
  obtain bk where "dm_backends demo_daemon (ic_backend (android_resolve pr i nm d vars)) = Some bk" for pr i nm d vars
    using demo_backend by (simp add: env_sel demo_daemon_def)
  then show "fst (create_android_instance (clone_env (\<lambda>_ _. None)) demo_profile ''n'' (''/b'', ''a.qcow2'') ''/i'' 64 ''/t/VARS.fd'' True (replicate 32 2) clone_world)
     = Inr (replicate 32 2)"
    by (simp add: steps a overlay_made switch_new_disk_def register_at_def register_instance_def valid id backend_for_def ok_or_def split: prod.split)
qed

theorem failed_creation_leaves_no_trace_witness:
  "\<exists>w'. create_android_instance (clone_env (\<lambda>_ _. None)) demo_profile ''n'' (''/b'', ''z.qcow2'') ''/i'' 64 ''/t/VARS.fd'' True (replicate 32 2) clone_world
       = (Inl (DiskErr (BackingFileNotFound ''/b/z.qcow2'')), w')
     \<and> no_trace (new_dir ''/i'' (replicate 32 2)) clone_world w'"
proof -
  let ?r = "create_android_instance (clone_env (\<lambda>_ _. None)) demo_profile ''n'' (''/b'', ''z.qcow2'') ''/i'' 64 ''/t/VARS.fd'' True (replicate 32 2) clone_world"
  obtain w' where r: "?r = (Inl (DiskErr (BackingFileNotFound ''/b/z.qcow2'')), w')" using demo_creation(1) by (cases ?r) simp
  from failed_creation_leaves_no_trace[OF env_laws id_two(1) env_sel(4) disjI1, OF r] r show ?thesis by blast
qed

theorem created_instance_can_start_witness:
  "\<exists>w' h. create_android_instance (clone_env (\<lambda>_ _. None)) demo_profile ''n'' (''/b'', ''a.qcow2'') ''/i'' 64 ''/t/VARS.fd'' True (replicate 32 2) clone_world
       = (Inr (replicate 32 2), w')
     \<and> registered (cw_registry w') (replicate 32 2) = Some h \<and> handle_state h = Created
     \<and> validate_instance_files (dm_host (daemon_in (clone_env (\<lambda>_ _. None)) w')) (handle_config h) = Inr ()"
proof -
  let ?r = "create_android_instance (clone_env (\<lambda>_ _. None)) demo_profile ''n'' (''/b'', ''a.qcow2'') ''/i'' 64 ''/t/VARS.fd'' True (replicate 32 2) clone_world"
  obtain w' where r: "?r = (Inr (replicate 32 2), w')" using demo_creation(2) by (cases ?r) simp
  from created_instance_can_start[OF env_laws id_two(1) r] r show ?thesis by blast
qed

end
