(* ===== verification/HostNet.thy ===== *)
theory HostNet
  imports Cmdline Gates
begin

text \<open>
  Host networks (\<open>services/andler-net/src/lib.rs\<close>, \<open>isolated.rs\<close>): a tap on a bridge, put up and taken
  down with \<open>ip\<close>, and the private namespace of an isolated guest with the probe that checks it
  before QEMU runs.

  The host is the parameter \<open>host_net\<close> over a world \<open>'w\<close>: \<open>ip\<close> runs, the probe child is started,
  looked at and killed, files below \<open>/proc/sys\<close> are read. \<open>hn_names\<close> observes the interfaces of the
  host; \<open>ip_laws\<close> is what \<open>ip\<close> documents of the commands used here: \<open>tuntap add\<close> refuses a name that is
  in use, \<open>link del\<close> removes one, everything else keeps the set, and a command that fails changes
  nothing. The laws are the locale \<open>host_links\<close>, whose lemmas the backend builds on.
\<close>

section \<open>Errors\<close>

datatype net_error =
    BridgeNotFound string
  | NotABridge string
  | InterfaceExists string
  | SetupFailed string
  | CleanupFailed string
  | IsolationLeaked string
  | NetIo string

fun show_net_error :: "net_error \<Rightarrow> string" where
  "show_net_error (BridgeNotFound b) = ''Bridge '' @ b @ '' not found''"
| "show_net_error (NotABridge b) = ''Interface '' @ b @ '' exists but is not a bridge''"
| "show_net_error (InterfaceExists i) = ''Interface '' @ i @ '' already exists and is in use''"
| "show_net_error (SetupFailed m) = ''Setup failed: '' @ m"
| "show_net_error (CleanupFailed m) = ''Cleanup failed: '' @ m"
| "show_net_error (IsolationLeaked m) = ''Isolation leaked: '' @ m"
| "show_net_error (NetIo m) = ''IO error: '' @ m"

section \<open>The namespace of an isolated guest\<close>

record isolated_net =
  in_tap_iface :: string
  in_launcher :: "string list"

definition TAP_RECIPE :: string where
  "TAP_RECIPE = concat (map (\<lambda>l. l @ [CHR 0x0A])
     [''set -eu'', ''ip link set lo up'', ''ip tuntap add dev '' @ quoted ''$1'' @ '' mode tap'',
      ''ip link set '' @ quoted ''$1'' @ '' up'', ''shift'', ''exec '' @ quoted ''$@''])"

definition isolated_net_new :: "string \<Rightarrow> isolated_net" where
  "isolated_net_new tap = \<lparr>in_tap_iface = tap, in_launcher =
     [''unshare'', ''--user'', ''--map-root-user'', ''--net'', ''--'', ''sh'', ''-c'', TAP_RECIPE, ''andler-qemu'', tap]\<rparr>"

definition MAX_IFACE_LEN :: nat where
  "MAX_IFACE_LEN = 15"

definition PROBE_HOLD :: string where
  "PROBE_HOLD = ''sleep 5''"

record namespace_view =
  nv_netns :: string
  nv_ifaces :: "string list"
  nv_v4_routes :: nat

text \<open>What \<open>/proc/<pid>\<close> holds of a process: the link of its network namespace, \<open>net/dev\<close> and
  \<open>net/route\<close>, each as far as it can be read.\<close>

record proc_net =
  pn_netns :: "string option"
  pn_dev :: "string option"
  pn_route :: "string option"

definition parse_ifaces :: "string \<Rightarrow> string list" where
  "parse_ifaces dev =
     filter (\<lambda>n. n \<noteq> []) (map (\<lambda>l. trim (hd (split_on (CHR '':'') l))) (drop 2 (lines dev)))"

definition read_view :: "proc_net \<Rightarrow> namespace_view option" where
  "read_view pn =
     (case (pn_netns pn, pn_dev pn) of
        (Some netns, Some dev) \<Rightarrow>
          Some \<lparr>nv_netns = netns, nv_ifaces = parse_ifaces dev,
            nv_v4_routes = (case pn_route pn of Some table \<Rightarrow> length (lines table) - 1 | None \<Rightarrow> 0)\<rparr>
      | _ \<Rightarrow> None)"

definition has_iface :: "string \<Rightarrow> namespace_view \<Rightarrow> bool" where
  "has_iface n v \<longleftrightarrow> n \<in> set (nv_ifaces v)"

definition ticked :: "string \<Rightarrow> string" where
  "ticked s = [CHR 0x60] @ s @ [CHR 0x60]"

definition leaks :: "string \<Rightarrow> namespace_view \<Rightarrow> string list" where
  "leaks tap v =
     map (\<lambda>i. ''it carries the extra interface '' @ ticked i) (filter (\<lambda>i. i \<noteq> ''lo'' \<and> i \<noteq> tap) (nv_ifaces v))
     @ (if 0 < nv_v4_routes v then [''it has '' @ show_nat (nv_v4_routes v) @ '' IPv4 route table entries''] else [])"

section \<open>The host\<close>

text \<open>\<open>hn_ip\<close>: \<open>Inl\<close> when \<open>ip\<close> cannot be run, \<open>Some\<close> with its standard error when it exits non-zero.
  \<open>hn_kill\<close> kills the probe child and returns what it wrote to standard error, \<open>hn_tick\<close> lets 20 ms
  pass.\<close>

record 'w host_net =
  hn_ip :: "string list \<Rightarrow> 'w \<Rightarrow> (string + string option) \<times> 'w"
  hn_bridge_dir :: "string \<Rightarrow> 'w \<Rightarrow> bool"
  hn_sysctl :: "string \<Rightarrow> 'w \<Rightarrow> string option"
  hn_start :: "string list \<Rightarrow> 'w \<Rightarrow> (string + nat) \<times> 'w"
  hn_running :: "nat \<Rightarrow> 'w \<Rightarrow> bool"
  hn_proc :: "nat \<Rightarrow> 'w \<Rightarrow> proc_net"
  hn_self :: nat
  hn_tick :: "'w \<Rightarrow> 'w"
  hn_kill :: "nat \<Rightarrow> 'w \<Rightarrow> string \<times> 'w"
  hn_names :: "'w \<Rightarrow> string set"

definition run_ip :: "'w host_net \<Rightarrow> string list \<Rightarrow> 'w \<Rightarrow> (net_error + unit) \<times> 'w" where
  "run_ip h args w =
     (case hn_ip h args w of
        (Inl e, w1) \<Rightarrow> (Inl (NetIo e), w1)
      | (Inr (Some err), w1) \<Rightarrow> (Inl (SetupFailed (''ip '' @ join '' '' args @ '' failed: '' @ trim err)), w1)
      | (Inr None, w1) \<Rightarrow> (Inr (), w1))"

fun run_ips :: "'w host_net \<Rightarrow> string list list \<Rightarrow> 'w \<Rightarrow> (net_error + unit) \<times> 'w" where
  "run_ips h [] w = (Inr (), w)"
| "run_ips h (args # rest) w =
     (case run_ip h args w of (Inl e, w1) \<Rightarrow> (Inl e, w1) | (Inr _, w1) \<Rightarrow> run_ips h rest w1)"

definition ip_show :: "string \<Rightarrow> string list" where
  "ip_show i = [''link'', ''show'', i]"

definition ip_add_tap :: "string \<Rightarrow> string list" where
  "ip_add_tap i = [''tuntap'', ''add'', ''dev'', i, ''mode'', ''tap'']"

definition ip_set :: "string \<Rightarrow> string list \<Rightarrow> string list" where
  "ip_set i opts = [''link'', ''set'', i] @ opts"

definition ip_del :: "string \<Rightarrow> string list" where
  "ip_del i = [''link'', ''del'', i]"

definition setup_bridge :: "'w host_net \<Rightarrow> string \<Rightarrow> string \<Rightarrow> 'w \<Rightarrow> (net_error + unit) \<times> 'w" where
  "setup_bridge h bridge vm_iface w =
     (case hn_ip h (ip_show bridge) w of
        (Inl e, w1) \<Rightarrow> (Inl (NetIo e), w1)
      | (Inr (Some _), w1) \<Rightarrow> (Inl (BridgeNotFound bridge), w1)
      | (Inr None, w1) \<Rightarrow>
          (if \<not> hn_bridge_dir h (''/sys/class/net/'' @ bridge @ ''/bridge'') w1 then (Inl (NotABridge bridge), w1)
           else run_ips h
             [ip_add_tap vm_iface, ip_set vm_iface [''master'', bridge], ip_set bridge [''up''], ip_set vm_iface [''up'']] w1))"

text \<open>The exit status of \<open>ip link del\<close> is not looked at.\<close>

definition teardown_bridge :: "'w host_net \<Rightarrow> string \<Rightarrow> 'w \<Rightarrow> (net_error + unit) \<times> 'w" where
  "teardown_bridge h vm_iface w =
     (case run_ips h [ip_set vm_iface [''nomaster''], ip_set vm_iface [''down'']] w of
        (Inl e, w1) \<Rightarrow> (Inl e, w1)
      | (Inr _, w1) \<Rightarrow>
          (case hn_ip h (ip_del vm_iface) w1 of
             (Inl e, w2) \<Rightarrow> (Inl (CleanupFailed e), w2)
           | (Inr _, w2) \<Rightarrow> (Inr (), w2)))"

section \<open>The check before an isolated guest runs\<close>

definition read_enabled_knob :: "'w host_net \<Rightarrow> string \<Rightarrow> 'w \<Rightarrow> bool option" where
  "read_enabled_knob h relative w =
     (case hn_sysctl h (path_join ''/proc/sys'' relative) w of
        None \<Rightarrow> None
      | Some v \<Rightarrow> map_option (\<lambda>limit. limit \<noteq> 0) (parse_u64 (trim v)))"

definition CLONE_KNOB :: string where
  "CLONE_KNOB = ''kernel/unprivileged_userns_clone''"

definition MAX_NAMESPACES_KNOB :: string where
  "MAX_NAMESPACES_KNOB = ''user/max_user_namespaces''"

definition user_namespaces_disabled :: "'w host_net \<Rightarrow> 'w \<Rightarrow> string option" where
  "user_namespaces_disabled h w =
     (if read_enabled_knob h CLONE_KNOB w \<noteq> Some False \<and> read_enabled_knob h MAX_NAMESPACES_KNOB w \<noteq> Some False
      then None
      else Some (''isolated network mode needs unprivileged user namespaces ('' @ CLONE_KNOB @ '' or ''
        @ MAX_NAMESPACES_KNOB @ ''), and this kernel has them disabled: enable them with ''
        @ ticked ''sudo sysctl kernel.unprivileged_userns_clone=1'' @ '' (Debian/Ubuntu-style kernels) or ''
        @ ticked ''sudo sysctl -w user.max_user_namespaces=10000'' @ '' (upstream limit), or use network.mode = ''
        @ quoted ''nat'' @ '' / '' @ quoted ''bridge'' @ ''.''))"

text \<open>The last line of standard error that is not blank, or a sentence in its place.\<close>

definition namespace_refused :: "nat \<Rightarrow> string \<Rightarrow> net_error" where
  "namespace_refused pid err =
     SetupFailed (''isolated network mode needs an unprivileged user and network namespace, and this host ''
       @ ''did not provide one (probe process '' @ show_nat pid @ ''): ''
       @ (case List.find (\<lambda>l. l \<noteq> []) (rev (map trim (lines err))) of
            Some l \<Rightarrow> l
          | None \<Rightarrow> ''the unprivileged user and network namespace was refused'')
       @ ''. Enable unprivileged user namespaces (sudo sysctl kernel.unprivileged_userns_clone=1 on ''
       @ ''Debian/Ubuntu-style kernels, sudo sysctl -w user.max_user_namespaces=10000 for the upstream limit) and ''
       @ ''make sure the '' @ ticked ''tun'' @ '' module and /dev/net/tun are available, or use network.mode = ''
       @ quoted ''nat'' @ '' / '' @ quoted ''bridge'' @ ''.'')"

text \<open>The polls of \<open>run_probe\<close>: every round sleeps at least \<open>PROBE_POLL\<close>, 20 ms, so that the deadline
  of 5 s is over after at most 250 rounds.\<close>

definition PROBE_ROUNDS :: nat where
  "PROBE_ROUNDS = 250"

fun probe_loop :: "'w host_net \<Rightarrow> string \<Rightarrow> nat \<Rightarrow> nat \<Rightarrow> 'w \<Rightarrow> namespace_view option \<times> 'w" where
  "probe_loop h tap pid rounds w =
     (let view = read_view (hn_proc h pid w) in
      if (case view of Some v \<Rightarrow> has_iface tap v | None \<Rightarrow> False) then (view, w)
      else if \<not> hn_running h pid w then (view, w)
      else (case rounds of 0 \<Rightarrow> (view, w) | Suc r \<Rightarrow> probe_loop h tap pid r (hn_tick h w)))"

declare probe_loop.simps [simp del]

record probe_run =
  pr_pid :: nat
  pr_view :: "namespace_view option"
  pr_stderr :: string

definition run_probe :: "'w host_net \<Rightarrow> isolated_net \<Rightarrow> 'w \<Rightarrow> (net_error + probe_run) \<times> 'w" where
  "run_probe h net w =
     (case hn_start h (in_launcher net @ [''sh'', ''-c'', PROBE_HOLD]) w of
        (Inl e, w1) \<Rightarrow>
          (Inl (SetupFailed (''isolated network mode cannot run '' @ ticked (hd (in_launcher net)) @ '': '' @ e
             @ '' '' @ map char_of [0xE2 :: nat, 0x80, 0x94] @ '' install util-linux (unshare) or use network.mode = ''
             @ quoted ''nat'' @ '' / '' @ quoted ''bridge'')), w1)
      | (Inr pid, w1) \<Rightarrow>
          (case probe_loop h (in_tap_iface net) pid PROBE_ROUNDS w1 of
             (view, w2) \<Rightarrow> (case hn_kill h pid w2 of
               (err, w3) \<Rightarrow> (Inr \<lparr>pr_pid = pid, pr_view = view, pr_stderr = err\<rparr>, w3))))"

definition preflight :: "'w host_net \<Rightarrow> isolated_net \<Rightarrow> 'w \<Rightarrow> (net_error + unit) \<times> 'w" where
  "preflight h net w =
     (let tap = in_tap_iface net in
      if tap = [] \<or> MAX_IFACE_LEN < length tap
      then (Inl (SetupFailed (''isolated network mode needs a tap interface name of 1..='' @ show_nat MAX_IFACE_LEN
        @ '' characters (IFNAMSIZ), got '' @ ticked tap @ '' ('' @ show_nat (length tap) @ '')'')), w)
      else (case user_namespaces_disabled h w of
        Some reason \<Rightarrow> (Inl (SetupFailed reason), w)
      | None \<Rightarrow>
          (case run_probe h net w of
             (Inl e, w1) \<Rightarrow> (Inl e, w1)
           | (Inr run, w1) \<Rightarrow>
               (let host = map_option nv_netns (read_view (hn_proc h (hn_self h) w1));
                    refused = Inl (namespace_refused (pr_pid run) (pr_stderr run))
                in case pr_view run of
                     None \<Rightarrow> (refused, w1)
                   | Some v \<Rightarrow>
                       (if Some (nv_netns v) \<noteq> host \<and> has_iface tap v
                        then (if leaks tap v = [] then (Inr (), w1)
                          else (Inl (SetupFailed (''isolated network mode started a namespace that is not isolated: ''
                            @ join ''; '' (leaks tap v) @ ''. This is a bug in andler-net, not a host misconfiguration ''
                            @ map char_of [0xE2 :: nat, 0x80, 0x94] @ '' report it rather than running the guest'')), w1))
                        else (refused, w1))))))"

definition setup_isolated :: "'w host_net \<Rightarrow> string \<Rightarrow> 'w \<Rightarrow> (net_error + isolated_net) \<times> 'w" where
  "setup_isolated h vm_iface w =
     (let net = isolated_net_new vm_iface in
      case preflight h net w of (Inl e, w1) \<Rightarrow> (Inl e, w1) | (Inr _, w1) \<Rightarrow> (Inr net, w1))"

definition teardown_isolated :: "'w host_net \<Rightarrow> isolated_net \<Rightarrow> 'w \<Rightarrow> (net_error + unit) \<times> 'w" where
  "teardown_isolated h net w =
     (case hn_ip h (ip_show (in_tap_iface net)) w of
        (Inl e, w1) \<Rightarrow> (Inl (NetIo e), w1)
      | (Inr (Some _), w1) \<Rightarrow> (Inr (), w1)
      | (Inr None, w1) \<Rightarrow>
          (case run_ip h (ip_del (in_tap_iface net)) w1 of
             (Inl e, w2) \<Rightarrow> (Inl e, w2)
           | (Inr _, w2) \<Rightarrow>
               (Inl (IsolationLeaked (''the tap '' @ ticked (in_tap_iface net) @ '' was on the host instead of inside ''
                  @ ''the guest's namespace: removed it, but that guest did not run isolated'')), w2)))"

end
