(* ===== verification/Backend.thy ===== *)
theory Backend
  imports HostNet Hotplug Snapshots
begin

text \<open>
  The QEMU backend's instances (\<open>backends/andler-qemu/src/backend.rs\<close>, \<open>process.rs\<close>): starting a
  QEMU process with its host networks, taking over one that survived a daemon restart, stopping,
  pausing, the status, live snapshots and network cards that come and go while the guest runs.

  A backend value is the map of instances with the world around it. The operating system is the
  parameter \<open>backend_env\<close>: processes are started, signalled and awaited, \<open>/proc\<close> is read, a QMP
  socket is connected to and answers commands, \<open>be_net\<close> is the host of \<open>HostNet\<close>.
\<close>

section \<open>Processes\<close>

datatype process_error = ProcSpawnFailed string | ProcIo string | GracefulShutdownTimedOut nat

fun show_process_error :: "process_error \<Rightarrow> string" where
  "show_process_error (ProcSpawnFailed e) = ''failed to spawn qemu-system-x86_64: '' @ e"
| "show_process_error (ProcIo e) = ''process I/O error: '' @ e"
| "show_process_error (GracefulShutdownTimedOut s) =
     ''process did not exit within '' @ show_nat s @ ''s after SIGTERM''"

definition process_error_to_backend_error :: "process_error \<Rightarrow> backend_error" where
  "process_error_to_backend_error e = BackendIo (show_process_error e)"

text \<open>\<open>pc_child\<close> is \<open>None\<close> for an adopted process, else whether it is killed when dropped.\<close>

record qemu_process =
  pc_child :: "bool option"
  pc_pid :: nat
  pc_socket :: string
  pc_log :: "string option"

datatype process_signal = SigTerm | SigKill

datatype kill_result = Signalled | NoSuchProcess | KillFailed string

datatype wait_result = Exited | WaitFailed string | Elapsed

datatype connect_result = Connected | NotListening string | ConnectError qmp_error

datatype vm_status = VmRunning | VmPaused | VmShutdown | VmOther

datatype monitor_command =
    MonStop
  | MonCont
  | MonAddOverlay string string
  | MonSnapshot string string
  | MonNetdevTap string string
  | MonNetdevUser string
  | MonNetdevPasst string
  | MonDeviceNet string string string string
  | MonDeviceDel string
  | MonNetdevDel string

text \<open>A node of the block graph as \<open>query-named-block-nodes\<close> lists it.\<close>

record block_node =
  bn_name :: string
  bn_driver :: "string option"
  bn_file :: "string option"

text \<open>\<open>NotListening\<close> is a connection refused or a socket file that is not there. \<open>be_kill\<close> is
  \<open>kill(2)\<close>, \<open>be_await\<close> waits that many seconds for the exit, \<open>be_drop\<close> is the kill when a child is
  dropped. \<open>be_cmdline\<close> and \<open>be_fds\<close> are what is readable of \<open>/proc/<pid>\<close>.\<close>

record 'w backend_env =
  be_net :: "'w host_net"
  be_runtime :: string
  be_dev_restart :: bool
  be_private_dir :: "string \<Rightarrow> 'w \<Rightarrow> (string + unit) \<times> 'w"
  be_unlink :: "string \<Rightarrow> 'w \<Rightarrow> 'w"
  be_exec :: "string list \<Rightarrow> bool \<Rightarrow> 'w \<Rightarrow> (string + nat) \<times> 'w"
  be_pidfd :: "nat \<Rightarrow> 'w \<Rightarrow> string option"
  be_drop :: "nat \<Rightarrow> 'w \<Rightarrow> 'w"
  be_alive :: "nat \<Rightarrow> 'w \<Rightarrow> bool"
  be_kill :: "process_signal \<Rightarrow> nat \<Rightarrow> 'w \<Rightarrow> kill_result \<times> 'w"
  be_await :: "nat \<Rightarrow> nat \<Rightarrow> 'w \<Rightarrow> wait_result \<times> 'w"
  be_connect :: "string \<Rightarrow> 'w \<Rightarrow> connect_result \<times> 'w"
  be_sleep :: "nat \<Rightarrow> 'w \<Rightarrow> 'w"
  be_command :: "string \<Rightarrow> monitor_command \<Rightarrow> 'w \<Rightarrow> (qmp_error + unit) \<times> 'w"
  be_status :: "string \<Rightarrow> 'w \<Rightarrow> (qmp_error + vm_status) \<times> 'w"
  be_nodes :: "string \<Rightarrow> 'w \<Rightarrow> (qmp_error + block_node list) \<times> 'w"
  be_owner :: "string \<Rightarrow> 'w \<Rightarrow> (qmp_error + nat) \<times> 'w"
  be_cmdline :: "nat \<Rightarrow> 'w \<Rightarrow> string + string"
  be_pids :: "'w \<Rightarrow> string + nat list"
  be_inode :: "string \<Rightarrow> 'w \<Rightarrow> nat option"
  be_fds :: "nat \<Rightarrow> 'w \<Rightarrow> string list option"

definition process_argv :: "string list \<Rightarrow> nat list option \<Rightarrow> string list option \<Rightarrow> string list" where
  "process_argv args affinity launcher =
     (case affinity of None \<Rightarrow> [] | Some cpus \<Rightarrow> [''taskset'', ''-c'', join '','' (map show_nat cpus)])
     @ (case launcher of None \<Rightarrow> [] | Some prefix \<Rightarrow> prefix)
     @ ''qemu-system-x86_64'' # args"

definition drop_process :: "'w backend_env \<Rightarrow> qemu_process \<Rightarrow> 'w \<Rightarrow> 'w" where
  "drop_process b p w = (if pc_child p = Some True then be_drop b (pc_pid p) w else w)"

definition spawn_process ::
    "'w backend_env \<Rightarrow> string list \<Rightarrow> string \<Rightarrow> string option \<Rightarrow> bool \<Rightarrow> nat list option \<Rightarrow> string list option
      \<Rightarrow> 'w \<Rightarrow> (process_error + qemu_process) \<times> 'w" where
  "spawn_process b args sock logf kill_on_drop affinity launcher w =
     (case be_exec b (process_argv args affinity launcher) kill_on_drop w of
        (Inl e, w1) \<Rightarrow> (Inl (ProcSpawnFailed e), w1)
      | (Inr pid, w1) \<Rightarrow>
          (let p = \<lparr>pc_child = Some kill_on_drop, pc_pid = pid, pc_socket = sock, pc_log = logf\<rparr> in
           case be_pidfd b pid w1 of
             Some e \<Rightarrow> (Inl (ProcIo e), drop_process b p w1)
           | None \<Rightarrow> (Inr p, w1)))"

definition adopt_process :: "'w backend_env \<Rightarrow> nat \<Rightarrow> string \<Rightarrow> string option \<Rightarrow> 'w \<Rightarrow> process_error + qemu_process" where
  "adopt_process b pid sock logf w =
     (case be_pidfd b pid w of
        Some e \<Rightarrow> Inl (ProcIo e)
      | None \<Rightarrow> Inr \<lparr>pc_child = None, pc_pid = pid, pc_socket = sock, pc_log = logf\<rparr>)"

definition GRACEFUL_SHUTDOWN_TIMEOUT :: nat where
  "GRACEFUL_SHUTDOWN_TIMEOUT = 30"

definition terminate_process :: "'w backend_env \<Rightarrow> qemu_process \<Rightarrow> 'w \<Rightarrow> (process_error + unit) \<times> 'w" where
  "terminate_process b p w =
     (case be_kill b SigTerm (pc_pid p) w of
        (NoSuchProcess, w1) \<Rightarrow> (Inr (), w1)
      | (KillFailed e, w1) \<Rightarrow> (Inl (ProcIo e), w1)
      | (Signalled, w1) \<Rightarrow>
          (case be_await b GRACEFUL_SHUTDOWN_TIMEOUT (pc_pid p) w1 of
             (Exited, w2) \<Rightarrow> (Inr (), w2)
           | (WaitFailed e, w2) \<Rightarrow> (Inl (ProcIo e), w2)
           | (Elapsed, w2) \<Rightarrow> (Inl (GracefulShutdownTimedOut GRACEFUL_SHUTDOWN_TIMEOUT), w2)))"

definition force_kill :: "'w backend_env \<Rightarrow> qemu_process \<Rightarrow> 'w \<Rightarrow> (process_error + unit) \<times> 'w" where
  "force_kill b p w =
     (case be_kill b SigKill (pc_pid p) w of
        (NoSuchProcess, w1) \<Rightarrow> (Inr (), w1)
      | (KillFailed e, w1) \<Rightarrow> (Inl (ProcIo e), w1)
      | (Signalled, w1) \<Rightarrow> (Inr (), snd (be_await b 5 (pc_pid p) w1)))"

section \<open>The instances of the backend\<close>

datatype network_info = BridgeInfo string string | IsolatedInfo isolated_net | NatInfo

record running_instance =
  ri_process :: qemu_process
  ri_client :: bool
  ri_events :: bool
  ri_head :: string
  ri_network :: network_info
  ri_extras :: "(string \<times> network_info) list"

record 'w qemu_backend =
  qb_instances :: "backend_handle \<Rightarrow> running_instance option"
  qb_reconnects :: nat
  qb_world :: 'w

definition backend_handle_for :: "instance_config \<Rightarrow> backend_handle" where
  "backend_handle_for c = ''qemu:'' @ show_instance_id (ic_id c)"

definition instance_id_from_handle :: "backend_handle \<Rightarrow> backend_error + string" where
  "instance_id_from_handle bh = ok_or (HandleNotFound bh) (strip_prefix ''qemu:'' bh)"

definition qmp_socket_path_for :: "'w backend_env \<Rightarrow> instance_config \<Rightarrow> string" where
  "qmp_socket_path_for b c =
     path_join (path_join (be_runtime b) ''andler/qmp'') (show_instance_id (ic_id c) @ ''.sock'')"

definition console_socket_path :: "'w backend_env \<Rightarrow> instance_id \<Rightarrow> string" where
  "console_socket_path b i =
     path_join (path_join (be_runtime b) ''andler/console'') (show_instance_id i @ ''.sock'')"

definition net_failed :: "net_error \<Rightarrow> backend_error" where
  "net_failed e = BackendIo (show_net_error e)"

definition isolated_extra_nic_error :: backend_error where
  "isolated_extra_nic_error = BackendInvalidConfig ''qemu''
     (''an additional NIC cannot be attached with isolated networking: the guest is off ''
      @ ''every host network because its whole QEMU process runs in its own network ''
      @ ''namespace, and a NIC outside that namespace is not isolated while a second NIC ''
      @ ''inside it has no host to reach. Use NAT or Bridge mode when the guest needs more ''
      @ ''than one interface.'')"

definition setup_extra_network ::
    "'w host_net \<Rightarrow> network_config \<Rightarrow> nat \<Rightarrow> string \<Rightarrow> 'w \<Rightarrow> (backend_error + network_info) \<times> 'w" where
  "setup_extra_network h n index i w =
     (case net_mode n of
        Bridge bridge \<Rightarrow>
          (let tap = extra_net_bridge_tap_iface i index in
           case setup_bridge h bridge tap w of
             (Inl e, w1) \<Rightarrow> (Inl (net_failed e), w1)
           | (Inr _, w1) \<Rightarrow> (Inr (BridgeInfo bridge tap), w1))
      | Isolated \<Rightarrow> (Inl isolated_extra_nic_error, w)
      | Nat \<Rightarrow> (Inr NatInfo, w))"

definition setup_primary_network ::
    "'w host_net \<Rightarrow> instance_config \<Rightarrow> 'w \<Rightarrow> (backend_error + network_info) \<times> 'w" where
  "setup_primary_network h c w =
     (case net_mode (ic_network c) of
        Bridge bridge \<Rightarrow>
          (let tap = primary_net_bridge_tap_iface (show_instance_id (ic_id c)) in
           case setup_bridge h bridge tap w of
             (Inl e, w1) \<Rightarrow> (Inl (net_failed e), w1)
           | (Inr _, w1) \<Rightarrow> (Inr (BridgeInfo bridge tap), w1))
      | Isolated \<Rightarrow>
          (case setup_isolated h primary_net_isolated_iface w of
             (Inl e, w1) \<Rightarrow> (Inl (net_failed e), w1)
           | (Inr net, w1) \<Rightarrow> (Inr (IsolatedInfo net), w1))
      | Nat \<Rightarrow> (Inr NatInfo, w))"

text \<open>The result of taking a network down: used by \<open>stop\<close>, ignored everywhere else.\<close>

definition teardown_network :: "'w host_net \<Rightarrow> network_info \<Rightarrow> 'w \<Rightarrow> (net_error + unit) \<times> 'w" where
  "teardown_network h info w =
     (case info of
        BridgeInfo bridge tap \<Rightarrow> teardown_bridge h tap w
      | IsolatedInfo net \<Rightarrow> teardown_isolated h net w
      | NatInfo \<Rightarrow> (Inr (), w))"

definition teardown_network_info :: "'w host_net \<Rightarrow> network_info \<Rightarrow> 'w \<Rightarrow> 'w" where
  "teardown_network_info h info w = snd (teardown_network h info w)"

fun teardown_all :: "'w host_net \<Rightarrow> network_info list \<Rightarrow> 'w \<Rightarrow> 'w" where
  "teardown_all h [] w = w"
| "teardown_all h (info # rest) w = teardown_all h rest (teardown_network_info h info w)"

text \<open>The extra networks in order; after a failure the ones set up so far are taken down again.\<close>

fun setup_extra_networks ::
    "'w host_net \<Rightarrow> string \<Rightarrow> network_info \<Rightarrow> (string \<times> network_info) list \<Rightarrow> (nat \<times> network_config) list
      \<Rightarrow> 'w \<Rightarrow> (backend_error + (string \<times> network_info) list) \<times> 'w" where
  "setup_extra_networks h i primary infos [] w = (Inr infos, w)"
| "setup_extra_networks h i primary infos ((index, n) # rest) w =
     (case setup_extra_network h n index i w of
        (Inl e, w1) \<Rightarrow> (Inl e, teardown_all h (primary # map snd infos) w1)
      | (Inr info, w1) \<Rightarrow> setup_extra_networks h i primary (infos @ [(extra_net_id index, info)]) rest w1)"

section \<open>Starting\<close>

definition insert_instance ::
    "'w backend_env \<Rightarrow> backend_handle \<Rightarrow> running_instance \<Rightarrow> 'w qemu_backend \<Rightarrow> 'w qemu_backend" where
  "insert_instance b bh ri s =
     s\<lparr>qb_instances := (qb_instances s)(bh \<mapsto> ri),
       qb_world := (case qb_instances s bh of
           None \<Rightarrow> qb_world s | Some old \<Rightarrow> drop_process b (ri_process old) (qb_world s))\<rparr>"

definition not_implemented_render :: "render_backend \<Rightarrow> backend_error" where
  "not_implemented_render r = BackendInvalidConfig ''qemu'' (''render backend ''
     @ (case r of Passthrough pci \<Rightarrow> ''Passthrough { gpu_pci_id: '' @ debug_string pci @ '' }'' | _ \<Rightarrow> [])
     @ '' is not implemented'')"

definition private_parent :: "'w backend_env \<Rightarrow> string \<Rightarrow> 'w \<Rightarrow> (backend_error + unit) \<times> 'w" where
  "private_parent b p w =
     (case path_parent p of
        None \<Rightarrow> (Inr (), w)
      | Some d \<Rightarrow> (case be_private_dir b d w of (r, w1) \<Rightarrow> (map_err BackendIo r, w1)))"

definition qemu_log_path :: "instance_config \<Rightarrow> string option" where
  "qemu_log_path c = map_option (\<lambda>d. path_join d ''qemu.log'') (path_parent (disk_path (ic_disk c)))"

definition info_launcher :: "network_info \<Rightarrow> string list option" where
  "info_launcher info = (case info of IsolatedInfo net \<Rightarrow> Some (in_launcher net) | _ \<Rightarrow> None)"

text \<open>The part of \<open>spawn\<close> once the arguments are there: the networks, then the process.\<close>

definition start_networks_and_process ::
    "'w backend_env \<Rightarrow> instance_config \<Rightarrow> string list \<Rightarrow> 'w \<Rightarrow> (backend_error + running_instance) \<times> 'w" where
  "start_networks_and_process b c args w =
     (case setup_primary_network (be_net b) c w of
        (Inl e, w1) \<Rightarrow> (Inl e, w1)
      | (Inr primary, w1) \<Rightarrow>
          (case setup_extra_networks (be_net b) (show_instance_id (ic_id c)) primary []
                  (enumerate 0 (ic_extra_networks c)) w1 of
             (Inl e, w2) \<Rightarrow> (Inl e, w2)
           | (Inr extras, w2) \<Rightarrow>
               (case spawn_process b args (qmp_socket_path_for b c) (qemu_log_path c) (\<not> be_dev_restart b)
                       (map_option (map unat) (cpu_affinity (ic_cpu c))) (info_launcher primary) w2 of
                  (Inl e, w3) \<Rightarrow>
                    (Inl (process_error_to_backend_error e), teardown_all (be_net b) (primary # map snd extras) w3)
                | (Inr p, w3) \<Rightarrow>
                    (Inr \<lparr>ri_process = p, ri_client = False, ri_events = True, ri_head = ''drive-disk0'',
                          ri_network = primary, ri_extras = extras\<rparr>, w3))))"

definition spawn :: "'w backend_env \<Rightarrow> instance_config \<Rightarrow> 'w qemu_backend \<Rightarrow> (backend_error + backend_handle) \<times> 'w qemu_backend" where
  "spawn b c s =
     (if \<not> is_implemented (gpu_render (ic_gpu c)) then (Inl (not_implemented_render (gpu_render (ic_gpu c))), s)
      else (case private_parent b (qmp_socket_path_for b c) (qb_world s) of
        (Inl e, w1) \<Rightarrow> (Inl e, s\<lparr>qb_world := w1\<rparr>)
      | (Inr _, w1) \<Rightarrow>
          (case private_parent b (console_socket_path b (ic_id c)) w1 of
             (Inl e, w2) \<Rightarrow> (Inl e, s\<lparr>qb_world := w2\<rparr>)
           | (Inr _, w2) \<Rightarrow>
               (let w3 = be_unlink b (qmp_socket_path_for b c) w2 in
                case build_args (console_socket_path b) c (qmp_socket_path_for b c) of
                  Inl e \<Rightarrow> (Inl e, s\<lparr>qb_world := w3\<rparr>)
                | Inr args \<Rightarrow>
                    (case start_networks_and_process b c args w3 of
                       (Inl e, w4) \<Rightarrow> (Inl e, s\<lparr>qb_world := w4\<rparr>)
                     | (Inr ri, w4) \<Rightarrow>
                         (Inr (backend_handle_for c), insert_instance b (backend_handle_for c) ri (s\<lparr>qb_world := w4\<rparr>)))))))"

section \<open>Stopping\<close>

fun stop_extras :: "'w host_net \<Rightarrow> (string \<times> network_info) list \<Rightarrow> 'w \<Rightarrow> (backend_error + unit) \<times> 'w" where
  "stop_extras h [] w = (Inr (), w)"
| "stop_extras h ((_, info) # rest) w =
     (case teardown_network h info w of
        (Inl e, w1) \<Rightarrow> (Inl (net_failed e), w1)
      | (Inr _, w1) \<Rightarrow> stop_extras h rest w1)"

definition end_process :: "'w backend_env \<Rightarrow> bool \<Rightarrow> qemu_process \<Rightarrow> 'w \<Rightarrow> (process_error + unit) \<times> 'w" where
  "end_process b graceful p w = (if graceful then terminate_process b p w else force_kill b p w)"

definition forget_instance ::
    "'w backend_env \<Rightarrow> backend_handle \<Rightarrow> running_instance \<Rightarrow> 'w qemu_backend \<Rightarrow> 'w qemu_backend" where
  "forget_instance b bh ri s =
     s\<lparr>qb_instances := (qb_instances s)(bh := None), qb_world := drop_process b (ri_process ri) (qb_world s)\<rparr>"

definition stop :: "'w backend_env \<Rightarrow> backend_handle \<Rightarrow> bool \<Rightarrow> 'w qemu_backend \<Rightarrow> (backend_error + unit) \<times> 'w qemu_backend" where
  "stop b bh graceful s =
     (case qb_instances s bh of
        None \<Rightarrow> (Inl (HandleNotFound bh), s)
      | Some ri \<Rightarrow>
          (case end_process b graceful (ri_process ri) (qb_world s) of
             (Inl e, w1) \<Rightarrow> (Inl (process_error_to_backend_error e), s\<lparr>qb_world := w1\<rparr>)
           | (Inr _, w1) \<Rightarrow>
               (let s1 = forget_instance b bh ri (s\<lparr>qb_world := w1\<rparr>) in
                case teardown_network (be_net b) (ri_network ri) (qb_world s1) of
                  (Inl e, w2) \<Rightarrow> (Inl (net_failed e), s1\<lparr>qb_world := w2\<rparr>)
                | (Inr _, w2) \<Rightarrow>
                    (case stop_extras (be_net b) (ri_extras ri) w2 of (r, w3) \<Rightarrow> (r, s1\<lparr>qb_world := w3\<rparr>)))))"

section \<open>The command monitor\<close>

fun connect_loop :: "'w backend_env \<Rightarrow> qemu_process \<Rightarrow> string \<Rightarrow> nat \<Rightarrow> 'w \<Rightarrow> (qmp_error + unit) \<times> 'w" where
  "connect_loop b p last_error 0 w = (Inl (ConnectFailed last_error), w)"
| "connect_loop b p last_error (Suc n) w =
     (case be_connect b (pc_socket p) w of
        (Connected, w1) \<Rightarrow> (Inr (), w1)
      | (ConnectError e, w1) \<Rightarrow> (Inl e, w1)
      | (NotListening m, w1) \<Rightarrow>
          (if \<not> be_alive b (pc_pid p) w1 then (Inl (ConnectFailed m), w1)
           else connect_loop b p m n (be_sleep b 100 w1)))"

definition ensure_qmp_connected ::
    "'w backend_env \<Rightarrow> running_instance \<Rightarrow> 'w \<Rightarrow> (qmp_error + unit) \<times> running_instance \<times> 'w" where
  "ensure_qmp_connected b ri w =
     (if ri_client ri then (Inr (), ri, w)
      else (case connect_loop b (ri_process ri) [] 300 w of
        (Inl e, w1) \<Rightarrow> (Inl e, ri, w1)
      | (Inr _, w1) \<Rightarrow> (Inr (), ri\<lparr>ri_client := True\<rparr>, w1)))"

text \<open>One operation on the command monitor of an instance, and once more after an error of the
  connection. The second component of a result is the instance with its client, the third the
  number of reconnects counted.\<close>

type_synonym 'w monitor_op = "string \<Rightarrow> 'w \<Rightarrow> (qmp_error + unit) \<times> 'w"

definition run_monitor_op ::
    "'w backend_env \<Rightarrow> 'w monitor_op \<Rightarrow> running_instance \<Rightarrow> 'w
      \<Rightarrow> (backend_error + unit) \<times> running_instance \<times> nat \<times> 'w" where
  "run_monitor_op b op ri w =
     (case ensure_qmp_connected b ri w of
        (Inl e, ri1, w1) \<Rightarrow> (Inl (qmp_error_to_backend_error e), ri1, 0, w1)
      | (Inr _, ri1, w1) \<Rightarrow>
          (case op (pc_socket (ri_process ri)) w1 of
             (Inr _, w2) \<Rightarrow> (Inr (), ri1, 0, w2)
           | (Inl e, w2) \<Rightarrow>
               (if is_reply_error e then (Inl (qmp_error_to_backend_error e), ri1, 0, w2)
                else (let ri2 = ri1\<lparr>ri_client := False\<rparr> in
                  if \<not> be_alive b (pc_pid (ri_process ri)) w2 then (Inl ProcessNotRunning, ri2, 1, w2)
                  else (case ensure_qmp_connected b ri2 w2 of
                    (Inl e', ri3, w3) \<Rightarrow> (Inl (qmp_error_to_backend_error e'), ri3, 1, w3)
                  | (Inr _, ri3, w3) \<Rightarrow>
                      (case op (pc_socket (ri_process ri)) w3 of
                         (r, w4) \<Rightarrow> (map_err qmp_error_to_backend_error r, ri3, 1, w4)))))))"

definition put_instance ::
    "backend_handle \<Rightarrow> running_instance \<Rightarrow> nat \<Rightarrow> 'w \<Rightarrow> 'w qemu_backend \<Rightarrow> 'w qemu_backend" where
  "put_instance bh ri n w s =
     s\<lparr>qb_instances := (qb_instances s)(bh \<mapsto> ri), qb_reconnects := qb_reconnects s + n, qb_world := w\<rparr>"

definition on_monitor ::
    "'w backend_env \<Rightarrow> backend_handle \<Rightarrow> 'w monitor_op \<Rightarrow> 'w qemu_backend \<Rightarrow> (backend_error + unit) \<times> 'w qemu_backend" where
  "on_monitor b bh op s =
     (case qb_instances s bh of
        None \<Rightarrow> (Inl (HandleNotFound bh), s)
      | Some ri \<Rightarrow> (case run_monitor_op b op ri (qb_world s) of (r, ri1, n, w1) \<Rightarrow> (r, put_instance bh ri1 n w1 s)))"

definition backend_pause :: "'w backend_env \<Rightarrow> backend_handle \<Rightarrow> 'w qemu_backend \<Rightarrow> (backend_error + unit) \<times> 'w qemu_backend" where
  "backend_pause b bh = on_monitor b bh (\<lambda>sock. be_command b sock MonStop)"

definition backend_resume :: "'w backend_env \<Rightarrow> backend_handle \<Rightarrow> 'w qemu_backend \<Rightarrow> (backend_error + unit) \<times> 'w qemu_backend" where
  "backend_resume b bh = on_monitor b bh (\<lambda>sock. be_command b sock MonCont)"

section \<open>Status\<close>

record backend_status =
  bs_state :: instance_state
  bs_detail :: "string option"
  bs_clean :: bool

definition vm_status_to_instance_state :: "vm_status \<Rightarrow> instance_state option" where
  "vm_status_to_instance_state v =
     (case v of VmRunning \<Rightarrow> Some Running | VmPaused \<Rightarrow> Some Paused | VmShutdown \<Rightarrow> Some Stopped | VmOther \<Rightarrow> None)"

definition debug_vm_status :: "vm_status \<Rightarrow> string" where
  "debug_vm_status v =
     (case v of VmRunning \<Rightarrow> ''Running'' | VmPaused \<Rightarrow> ''Paused'' | VmShutdown \<Rightarrow> ''Shutdown'' | VmOther \<Rightarrow> ''Other'')"

definition observed_status :: "vm_status \<Rightarrow> backend_status" where
  "observed_status v =
     (case vm_status_to_instance_state v of
        Some Stopped \<Rightarrow> \<lparr>bs_state = Stopped,
          bs_detail = Some ''guest shut down cleanly (QMP reports VM status Shutdown)'', bs_clean = True\<rparr>
      | Some st \<Rightarrow> \<lparr>bs_state = st, bs_detail = None, bs_clean = False\<rparr>
      | None \<Rightarrow> \<lparr>bs_state = Running,
          bs_detail = Some (''process is alive; QMP reports VM status '' @ debug_vm_status v
            @ '', which does not map directly to a HypervisorBackend state''), bs_clean = False\<rparr>)"

definition status :: "'w backend_env \<Rightarrow> backend_handle \<Rightarrow> 'w qemu_backend \<Rightarrow> (backend_error + backend_status) \<times> 'w qemu_backend" where
  "status b bh s =
     (case qb_instances s bh of
        None \<Rightarrow> (Inl (HandleNotFound bh), s)
      | Some ri \<Rightarrow>
          (if \<not> be_alive b (pc_pid (ri_process ri)) (qb_world s)
           then (Inr \<lparr>bs_state = Stopped, bs_detail = Some ''process is not running'', bs_clean = False\<rparr>, s)
           else (case ensure_qmp_connected b ri (qb_world s) of
             (Inl e, ri1, w1) \<Rightarrow>
               (Inr \<lparr>bs_state = Running, bs_detail = Some (''process is alive but QMP connection failed: '' @ show_qmp_error e),
                     bs_clean = False\<rparr>, put_instance bh ri1 0 w1 s)
           | (Inr _, ri1, w1) \<Rightarrow>
               (case be_status b (pc_socket (ri_process ri)) w1 of
                  (Inr v, w2) \<Rightarrow> (Inr (observed_status v), put_instance bh ri1 0 w2 s)
                | (Inl e, w2) \<Rightarrow>
                    (Inr \<lparr>bs_state = Running, bs_detail = Some (''process is alive but QMP query-status failed: '' @ show_qmp_error e),
                          bs_clean = False\<rparr>, put_instance bh (ri1\<lparr>ri_client := False\<rparr>) 0 w2 s)))))"

section \<open>Taking over a process after a daemon restart\<close>

definition process_marker :: "string \<Rightarrow> string" where
  "process_marker nm = ''process='' @ nm"

text \<open>The marker is looked for anywhere inside an argument.\<close>

definition verify_cmdline_marker :: "'w backend_env \<Rightarrow> nat \<Rightarrow> string \<Rightarrow> 'w \<Rightarrow> string + unit" where
  "verify_cmdline_marker b pid nm w =
     (case be_cmdline b pid w of
        Inl e \<Rightarrow> Inl (''cannot read /proc/'' @ show_nat pid @ ''/cmdline: '' @ e)
      | Inr cmdline \<Rightarrow>
          (if list_ex (contains (process_marker nm)) (split_on (CHR 0x00) cmdline) then Inr ()
           else Inl (''/proc/'' @ show_nat pid @ ''/cmdline does not contain the '' @ ticked (process_marker nm) @ '' marker'')))"

definition holds_socket :: "'w backend_env \<Rightarrow> nat \<Rightarrow> 'w \<Rightarrow> nat \<Rightarrow> bool" where
  "holds_socket b inode w pid =
     (case be_fds b pid w of
        None \<Rightarrow> False | Some targets \<Rightarrow> (''socket:['' @ show_nat inode @ '']'') \<in> set targets)"

definition debug_pids :: "nat list \<Rightarrow> string" where
  "debug_pids ps = ''['' @ join '', '' (map show_nat ps) @ '']''"

definition scan_for_owner :: "'w backend_env \<Rightarrow> string \<Rightarrow> string \<Rightarrow> 'w \<Rightarrow> string + nat" where
  "scan_for_owner b sock nm w =
     (case be_pids b w of
        Inl e \<Rightarrow> Inl (''cannot scan /proc: '' @ e)
      | Inr pids \<Rightarrow>
          (case filter (\<lambda>p. verify_cmdline_marker b p nm w = Inr ()) pids of
             [] \<Rightarrow> Inl (''no live process carries the '' @ ticked (process_marker nm) @ '' marker ''
               @ map char_of [0xE2 :: nat, 0x80, 0x94] @ '' the instance QEMU either died or never ran'')
           | [single] \<Rightarrow> Inr single
           | many \<Rightarrow>
               (case be_inode b sock w of
                  None \<Rightarrow> Inl (''cannot stat '' @ sock)
                | Some inode \<Rightarrow>
                    (case List.find (holds_socket b inode w) many of
                       Some p \<Rightarrow> Inr p
                     | None \<Rightarrow> Inl (''multiple processes carry the '' @ ticked (process_marker nm) @ '' marker (''
                         @ debug_pids many @ '') and none can be tied to '' @ sock)))))"

definition resolve_owner_pid :: "'w backend_env \<Rightarrow> string \<Rightarrow> string \<Rightarrow> 'w \<Rightarrow> (string + nat) \<times> 'w" where
  "resolve_owner_pid b sock nm w =
     (case be_owner b sock w of
        (Inr pid, w1) \<Rightarrow>
          (case verify_cmdline_marker b pid nm w1 of
             Inr _ \<Rightarrow> (Inr pid, w1)
           | Inl reason \<Rightarrow> (Inl (''QMP gives owner pid '' @ show_nat pid @ '' but it is not the expected instance process: ''
               @ reason), w1))
      | (Inl _, w1) \<Rightarrow> (scan_for_owner b sock nm w1, w1))"

definition query_head_node_name :: "'w backend_env \<Rightarrow> string \<Rightarrow> string \<Rightarrow> 'w \<Rightarrow> (qmp_error + string) \<times> 'w" where
  "query_head_node_name b sock active w =
     (case be_nodes b sock w of
        (Inl e, w1) \<Rightarrow> (Inl e, w1)
      | (Inr nodes, w1) \<Rightarrow>
          (case List.find (\<lambda>n. bn_driver n = Some ''qcow2'' \<and> bn_file n = Some active) nodes of
             Some n \<Rightarrow> (Inr (bn_name n), w1)
           | None \<Rightarrow> (Inl (QmpCommandFailed ''query-named-block-nodes'' ''GenericError''
               (''no qcow2 node with file '' @ active)), w1)))"

text \<open>The network of an adopted instance is derived from its configuration; its extra networks
  are not.\<close>

definition adopted_network :: "instance_config \<Rightarrow> network_info" where
  "adopted_network c =
     (case net_mode (ic_network c) of
        Bridge bridge \<Rightarrow> BridgeInfo bridge (primary_net_bridge_tap_iface (show_instance_id (ic_id c)))
      | Isolated \<Rightarrow> IsolatedInfo (isolated_net_new primary_net_isolated_iface)
      | Nat \<Rightarrow> NatInfo)"

definition adoptable_state :: "string \<Rightarrow> vm_status \<Rightarrow> backend_error + instance_state" where
  "adoptable_state sock v =
     (case vm_status_to_instance_state v of
        Some Running \<Rightarrow> Inr Running
      | Some Paused \<Rightarrow> Inr Paused
      | _ \<Rightarrow> Inl (BackendIo (''QMP socket '' @ sock @ '' answers, but the VM is '' @ debug_vm_status v @ '' ''
          @ map char_of [0xE2 :: nat, 0x80, 0x94] @ '' not a state a restarted daemon can adopt'')))"

definition adopt_steps ::
    "'w backend_env \<Rightarrow> instance_config \<Rightarrow> 'w \<Rightarrow> (backend_error + instance_state \<times> running_instance) \<times> 'w" where
  "adopt_steps b c w =
     (let sock = qmp_socket_path_for b c in
      case be_connect b sock w of
        (NotListening m, w1) \<Rightarrow> (Inl (qmp_error_to_backend_error (ConnectFailed m)), w1)
      | (ConnectError e, w1) \<Rightarrow> (Inl (qmp_error_to_backend_error e), w1)
      | (Connected, w1) \<Rightarrow>
          (case be_status b sock w1 of
             (Inl e, w2) \<Rightarrow> (Inl (qmp_error_to_backend_error e), w2)
           | (Inr v, w2) \<Rightarrow>
               (case adoptable_state sock v of
                  Inl e \<Rightarrow> (Inl e, w2)
                | Inr st \<Rightarrow>
                    (case resolve_owner_pid b sock (ic_name c) w2 of
                       (Inl e, w3) \<Rightarrow> (Inl (BackendIo e), w3)
                     | (Inr pid, w3) \<Rightarrow>
                         (case adopt_process b pid sock (qemu_log_path c) w3 of
                            Inl e \<Rightarrow> (Inl (process_error_to_backend_error e), w3)
                          | Inr p \<Rightarrow>
                              (case query_head_node_name b sock (disk_path (ic_disk c)) w3 of
                                 (Inl e, w4) \<Rightarrow> (Inl (qmp_error_to_backend_error e), w4)
                               | (Inr head, w4) \<Rightarrow>
                                   (Inr (st, \<lparr>ri_process = p, ri_client = True, ri_events = True, ri_head = head,
                                       ri_network = adopted_network c, ri_extras = []\<rparr>), w4)))))))"

definition adopt ::
    "'w backend_env \<Rightarrow> instance_config \<Rightarrow> 'w qemu_backend \<Rightarrow> (backend_error + backend_handle \<times> instance_state) \<times> 'w qemu_backend" where
  "adopt b c s =
     (case adopt_steps b c (qb_world s) of
        (Inl e, w1) \<Rightarrow> (Inl e, s\<lparr>qb_world := w1\<rparr>)
      | (Inr (st, ri), w1) \<Rightarrow>
          (Inr (backend_handle_for c, st), insert_instance b (backend_handle_for c) ri (s\<lparr>qb_world := w1\<rparr>)))"

section \<open>Live snapshots\<close>

definition snapshot_node_name :: "string \<Rightarrow> string" where
  "snapshot_node_name layer_path =
     (let stem = (case file_name layer_path of Some n \<Rightarrow> Cmdline.file_stem n | None \<Rightarrow> ''overlay'');
          stem = (case strip_prefix ''.tmp-'' stem of Some r \<Rightarrow> r | None \<Rightarrow> stem)
      in ''snap-'' @ take 24 stem)"

definition live_snapshot ::
    "'w backend_env \<Rightarrow> backend_handle \<Rightarrow> string \<Rightarrow> 'w qemu_backend \<Rightarrow> (backend_error + unit) \<times> 'w qemu_backend" where
  "live_snapshot b bh layer_path s =
     (case qb_instances s bh of
        None \<Rightarrow> (Inl (HandleNotFound bh), s)
      | Some ri \<Rightarrow>
          (case ensure_qmp_connected b ri (qb_world s) of
             (Inl e, ri1, w1) \<Rightarrow> (Inl (qmp_error_to_backend_error e), put_instance bh ri1 0 w1 s)
           | (Inr _, ri1, w1) \<Rightarrow>
               (let sock = pc_socket (ri_process ri); node = snapshot_node_name layer_path in
                case be_command b sock (MonAddOverlay node layer_path) w1 of
                  (Inl e, w2) \<Rightarrow> (Inl (qmp_error_to_backend_error e), put_instance bh ri1 0 w2 s)
                | (Inr _, w2) \<Rightarrow>
                    (case be_command b sock (MonSnapshot (ri_head ri) node) w2 of
                       (Inl e, w3) \<Rightarrow> (Inl (qmp_error_to_backend_error e), put_instance bh ri1 0 w3 s)
                     | (Inr _, w3) \<Rightarrow> (Inr (), put_instance bh (ri1\<lparr>ri_head := node\<rparr>) 0 w3 s)))))"

section \<open>Network cards of a running guest\<close>

definition netdev_command :: "nat_backend \<Rightarrow> string option \<Rightarrow> string \<Rightarrow> monitor_command" where
  "netdev_command nat_backend tap netdev =
     (case tap of
        Some ifname \<Rightarrow> MonNetdevTap netdev ifname
      | None \<Rightarrow> (case nat_backend of Slirp \<Rightarrow> MonNetdevUser netdev | Passt \<Rightarrow> MonNetdevPasst netdev))"

definition attach_nic :: "'w backend_env \<Rightarrow> network_config \<Rightarrow> string option \<Rightarrow> nat \<Rightarrow> 'w monitor_op" where
  "attach_nic b n tap index sock w =
     (let netdev = extra_net_id index in
      case be_command b sock (netdev_command (net_nat_backend n) tap netdev) w of
        (Inl e, w1) \<Rightarrow> (Inl e, w1)
      | (Inr _, w1) \<Rightarrow> be_command b sock (MonDeviceNet (net_device_model n) netdev netdev (root_port (8 + index mod 8))) w1)"

definition is_isolated_info :: "network_info \<Rightarrow> bool" where
  "is_isolated_info info = (case info of IsolatedInfo _ \<Rightarrow> True | _ \<Rightarrow> False)"

definition backend_attach_network ::
    "'w backend_env \<Rightarrow> backend_handle \<Rightarrow> network_config \<Rightarrow> nat \<Rightarrow> 'w qemu_backend \<Rightarrow> (backend_error + unit) \<times> 'w qemu_backend" where
  "backend_attach_network b bh n index s =
     (case qb_instances s bh of
        None \<Rightarrow> (Inl (HandleNotFound bh), s)
      | Some ri \<Rightarrow>
          (case instance_id_from_handle bh of
             Inl e \<Rightarrow> (Inl e, s)
           | Inr i \<Rightarrow>
               (if is_isolated_info (ri_network ri) then (Inl isolated_extra_nic_error, s)
                else (case setup_extra_network (be_net b) n index i (qb_world s) of
                  (Inl e, w1) \<Rightarrow> (Inl e, s\<lparr>qb_world := w1\<rparr>)
                | (Inr info, w1) \<Rightarrow>
                    (let tap = (case net_mode n of Bridge _ \<Rightarrow> Some (extra_net_bridge_tap_iface i index) | _ \<Rightarrow> None) in
                     case run_monitor_op b (attach_nic b n tap index) ri w1 of
                       (Inr _, ri1, k, w2) \<Rightarrow>
                         (Inr (), put_instance bh (ri1\<lparr>ri_extras := ri_extras ri1 @ [(extra_net_id index, info)]\<rparr>) k w2 s)
                     | (Inl e, ri1, k, w2) \<Rightarrow>
                         (Inl e, put_instance bh ri1 k (teardown_network_info (be_net b) info w2) s))))))"

fun release_nic :: "'w backend_env \<Rightarrow> string \<Rightarrow> string \<Rightarrow> string \<Rightarrow> nat \<Rightarrow> 'w \<Rightarrow> (qmp_error + unit) \<times> 'w" where
  "release_nic b sock dev netdev tries w =
     (case be_command b sock (MonNetdevDel netdev) w of
        (Inr _, w1) \<Rightarrow> (Inr (), w1)
      | (Inl e, w1) \<Rightarrow>
          (if is_device_in_use_error e
           then (case tries of 0 \<Rightarrow> (Inl (GuestUnplugTimeout dev), w1)
             | Suc n \<Rightarrow> release_nic b sock dev netdev n (be_sleep b 250 w1))
           else (Inl e, w1)))"

declare release_nic.simps [simp del]

text \<open>Within the 15 s of the caller, at 250 ms a round.\<close>

definition UNPLUG_ROUNDS :: nat where
  "UNPLUG_ROUNDS = 60"

definition detach_net_device :: "'w backend_env \<Rightarrow> string \<Rightarrow> string \<Rightarrow> 'w monitor_op" where
  "detach_net_device b dev netdev sock w =
     (case be_command b sock (MonDeviceDel dev) w of
        (Inl e, w1) \<Rightarrow> (Inl e, w1)
      | (Inr _, w1) \<Rightarrow> release_nic b sock dev netdev UNPLUG_ROUNDS w1)"

text \<open>The first recorded network with this netdev, and the others.\<close>

fun take_info :: "string \<Rightarrow> (string \<times> network_info) list \<Rightarrow> (network_info \<times> (string \<times> network_info) list) option" where
  "take_info netdev [] = None"
| "take_info netdev ((i, info) # rest) =
     (if i = netdev then Some (info, rest)
      else map_option (\<lambda>(found, others). (found, (i, info) # others)) (take_info netdev rest))"

definition backend_detach_network ::
    "'w backend_env \<Rightarrow> backend_handle \<Rightarrow> nat \<Rightarrow> 'w qemu_backend \<Rightarrow> (backend_error + unit) \<times> 'w qemu_backend" where
  "backend_detach_network b bh index s =
     (case qb_instances s bh of
        None \<Rightarrow> (Inl (HandleNotFound bh), s)
      | Some ri \<Rightarrow>
          (case run_monitor_op b (detach_net_device b (extra_net_id index) (extra_net_id index)) ri (qb_world s) of
             (Inl e, ri1, k, w1) \<Rightarrow> (Inl e, put_instance bh ri1 k w1 s)
           | (Inr _, ri1, k, w1) \<Rightarrow>
               (case take_info (extra_net_id index) (ri_extras ri1) of
                  None \<Rightarrow> (Inr (), put_instance bh ri1 k w1 s)
                | Some (info, others) \<Rightarrow>
                    (Inr (), put_instance bh (ri1\<lparr>ri_extras := others\<rparr>) k (teardown_network_info (be_net b) info w1) s))))"

section \<open>The daemon's part\<close>

record 'w nic_state =
  ns_reg :: registry
  ns_backend :: "'w qemu_backend"

definition add_extra_network :: "network_config \<Rightarrow> instance_config \<Rightarrow> instance_config" where
  "add_extra_network n c = c\<lparr>ic_extra_networks := ic_extra_networks c @ [n]\<rparr>"

definition drop_extra_network :: "nat \<Rightarrow> instance_config \<Rightarrow> instance_config" where
  "drop_extra_network k c = c\<lparr>ic_extra_networks := remove_nth k (ic_extra_networks c)\<rparr>"

definition attach_network ::
    "daemon_env \<Rightarrow> 'w backend_env \<Rightarrow> write_io \<Rightarrow> instance_id \<Rightarrow> network_config \<Rightarrow> 'w nic_state \<Rightarrow> (daemon_error + nat) \<times> 'w nic_state" where
  "attach_network d b io i n s =
     (if net_device_model n = [] then (Inl (InvalidConfig ''network device model must not be empty''), s)
      else (case rbind (hotplug_target d i (ns_reg s)) (\<lambda>bh. rbind (handle_for i (ns_reg s)) (\<lambda>h. Inr (bh, h))) of
        Inl e \<Rightarrow> (Inl e, s)
      | Inr (bh, h) \<Rightarrow>
          (let index = length (ic_extra_networks (handle_config h)) in
           case backend_attach_network b bh n index (ns_backend s) of
             (Inl e, q) \<Rightarrow> (Inl (BackendErr e), s\<lparr>ns_backend := q\<rparr>)
           | (Inr _, q) \<Rightarrow> (Inr index, s\<lparr>ns_backend := q,
                ns_reg := send_set_config d io i (add_extra_network n (handle_config h)) (ns_reg s)\<rparr>))))"

definition detach_network ::
    "daemon_env \<Rightarrow> 'w backend_env \<Rightarrow> write_io \<Rightarrow> instance_id \<Rightarrow> nat \<Rightarrow> 'w nic_state \<Rightarrow> (daemon_error + unit) \<times> 'w nic_state" where
  "detach_network d b io i index s =
     (case rbind (hotplug_target d i (ns_reg s)) (\<lambda>bh. rbind (handle_for i (ns_reg s)) (\<lambda>h.
             if length (ic_extra_networks (handle_config h)) \<le> index
             then Inl (HotErr (NetworkNotAttached i index (length (ic_extra_networks (handle_config h)))))
             else Inr (bh, h))) of
        Inl e \<Rightarrow> (Inl e, s)
      | Inr (bh, h) \<Rightarrow>
          (case backend_detach_network b bh index (ns_backend s) of
             (Inl e, q) \<Rightarrow> (Inl (BackendErr e), s\<lparr>ns_backend := q\<rparr>)
           | (Inr _, q) \<Rightarrow> (Inr (), s\<lparr>ns_backend := q,
                ns_reg := send_set_config d io i (drop_extra_network index (handle_config h)) (ns_reg s)\<rparr>)))"

end
