(* ===== verification/BackendRuns.thy ===== *)
theory BackendRuns
  imports Backend
begin

text \<open>
  What the backend does to the interfaces of the host, and what it knows about them afterwards.
\<close>

section \<open>What \<open>ip\<close> documents\<close>

definition show_law :: "'w host_net \<Rightarrow> bool" where
  "show_law h \<longleftrightarrow> (\<forall>i w. hn_names h (snd (hn_ip h (ip_show i) w)) = hn_names h w)"

definition set_law :: "'w host_net \<Rightarrow> bool" where
  "set_law h \<longleftrightarrow> (\<forall>i opts w. hn_names h (snd (hn_ip h (ip_set i opts) w)) = hn_names h w)"

definition add_law :: "'w host_net \<Rightarrow> bool" where
  "add_law h \<longleftrightarrow> (\<forall>i w r w1. hn_ip h (ip_add_tap i) w = (r, w1) \<longrightarrow>
     (if r = Inr None then i \<notin> hn_names h w \<and> hn_names h w1 = insert i (hn_names h w)
      else hn_names h w1 = hn_names h w))"

definition del_law :: "'w host_net \<Rightarrow> bool" where
  "del_law h \<longleftrightarrow> (\<forall>i w r w1. hn_ip h (ip_del i) w = (r, w1) \<longrightarrow>
     hn_names h w1 = (if r = Inr None then hn_names h w - {i} else hn_names h w))"

definition probe_law :: "'w host_net \<Rightarrow> bool" where
  "probe_law h \<longleftrightarrow> (\<forall>argv pid w. hn_names h (snd (hn_start h argv w)) = hn_names h w
     \<and> hn_names h (hn_tick h w) = hn_names h w \<and> hn_names h (snd (hn_kill h pid w)) = hn_names h w)"

definition ip_laws :: "'w host_net \<Rightarrow> bool" where
  "ip_laws h \<longleftrightarrow> show_law h \<and> set_law h \<and> add_law h \<and> del_law h \<and> probe_law h"

text \<open>Nothing else the backend does makes or removes an interface of the host.\<close>

definition quiet_laws :: "'w backend_env \<Rightarrow> bool" where
  "quiet_laws b \<longleftrightarrow> (let N = hn_names (be_net b) in
     (\<forall>p w. N (snd (be_private_dir b p w)) = N w) \<and> (\<forall>p w. N (be_unlink b p w) = N w)
     \<and> (\<forall>argv k w. N (snd (be_exec b argv k w)) = N w) \<and> (\<forall>pid w. N (be_drop b pid w) = N w)
     \<and> (\<forall>sg pid w. N (snd (be_kill b sg pid w)) = N w) \<and> (\<forall>n pid w. N (snd (be_await b n pid w)) = N w)
     \<and> (\<forall>p w. N (snd (be_connect b p w)) = N w) \<and> (\<forall>n w. N (be_sleep b n w) = N w)
     \<and> (\<forall>p c w. N (snd (be_command b p c w)) = N w) \<and> (\<forall>p w. N (snd (be_status b p w)) = N w)
     \<and> (\<forall>p w. N (snd (be_nodes b p w)) = N w) \<and> (\<forall>p w. N (snd (be_owner b p w)) = N w))"

definition host_laws :: "'w backend_env \<Rightarrow> bool" where
  "host_laws b \<longleftrightarrow> ip_laws (be_net b) \<and> quiet_laws b"

lemma ip_show_names: "ip_laws h \<Longrightarrow> hn_ip h (ip_show i) w = (r, w1) \<Longrightarrow> hn_names h w1 = hn_names h w"
  unfolding ip_laws_def show_law_def by (metis snd_conv)

lemma ip_set_names: "ip_laws h \<Longrightarrow> hn_ip h (ip_set i opts) w = (r, w1) \<Longrightarrow> hn_names h w1 = hn_names h w"
  unfolding ip_laws_def set_law_def by (metis snd_conv)

lemma ip_add_names:
  "ip_laws h \<Longrightarrow> hn_ip h (ip_add_tap i) w = (Inr None, w1) \<Longrightarrow> i \<notin> hn_names h w \<and> hn_names h w1 = insert i (hn_names h w)"
  unfolding ip_laws_def add_law_def by (metis (full_types))

lemma ip_add_refused: "ip_laws h \<Longrightarrow> hn_ip h (ip_add_tap i) w = (r, w1) \<Longrightarrow> r \<noteq> Inr None \<Longrightarrow> hn_names h w1 = hn_names h w"
  unfolding ip_laws_def add_law_def by (metis (full_types))

lemma ip_del_names:
  "ip_laws h \<Longrightarrow> hn_ip h (ip_del i) w = (r, w1) \<Longrightarrow>
     hn_names h w1 = (if r = Inr None then hn_names h w - {i} else hn_names h w)"
  unfolding ip_laws_def del_law_def by blast

lemma probe_names:
  assumes "ip_laws h"
  shows "hn_start h argv w = (r, w1) \<Longrightarrow> hn_names h w1 = hn_names h w"
    "hn_names h (hn_tick h w) = hn_names h w"
    "hn_kill h pid w = (err, w1) \<Longrightarrow> hn_names h w1 = hn_names h w"
  using assms unfolding ip_laws_def probe_law_def by (metis snd_conv)+

section \<open>Bridges and namespaces\<close>

lemma run_ip_cases:
  "run_ip h args w = (r, w1) \<Longrightarrow> \<exists>out. hn_ip h args w = (out, w1) \<and> (out = Inr None \<longleftrightarrow> r = Inr ())"
  by (auto simp: run_ip_def split: prod.splits sum.splits option.splits)

lemma run_sets_names:
  assumes "ip_laws h" "run_ips h (map (\<lambda>(i, opts). ip_set i opts) sets) w = (r, w1)"
  shows "hn_names h w1 = hn_names h w"
  using assms(2)
proof (induction sets arbitrary: w)
  case (Cons x xs)
  obtain i opts where x: "x = (i, opts)" by (cases x)
  obtain out wa where o: "run_ip h (ip_set i opts) w = (out, wa)" by (cases "run_ip h (ip_set i opts) w")
  have n: "hn_names h wa = hn_names h w" using run_ip_cases[OF o] ip_set_names[OF assms(1)] by blast
  show ?case
  proof (cases out)
    case (Inl e)
    with Cons.prems o n x show ?thesis by simp
  next
    case (Inr u)
    with Cons.prems o x have "run_ips h (map (\<lambda>(i, opts). ip_set i opts) xs) wa = (r, w1)" by simp
    from Cons.IH[OF this] n show ?thesis by simp
  qed
qed simp

text \<open>The tap is the only interface a bridge set-up can make, and it makes it only when the name is
  free. After a failure the tap may be there all the same.\<close>

lemma setup_bridge_names:
  assumes "ip_laws h" "setup_bridge h bridge i w = (r, w1)"
  shows "hn_names h w1 = hn_names h w \<and> r \<noteq> Inr () \<or> i \<notin> hn_names h w \<and> hn_names h w1 = insert i (hn_names h w)"
proof -
  obtain out wa where o: "hn_ip h (ip_show bridge) w = (out, wa)" by (cases "hn_ip h (ip_show bridge) w")
  note na = ip_show_names[OF assms(1) o]
  show ?thesis
  proof (cases "out = Inr None \<and> hn_bridge_dir h (''/sys/class/net/'' @ bridge @ ''/bridge'') wa")
    case False
    with assms(2) o na show ?thesis
      by (auto simp: setup_bridge_def split: sum.splits option.splits if_splits)
  next
    case True
    let ?sets = "[(i, [''master'', bridge]), (bridge, [''up'']), (i, [''up''])]"
    from True assms(2) o have run: "run_ips h (ip_add_tap i # map (\<lambda>(i, opts). ip_set i opts) ?sets) wa = (r, w1)"
      by (simp add: setup_bridge_def)
    obtain a wb where a: "run_ip h (ip_add_tap i) wa = (a, wb)" by (cases "run_ip h (ip_add_tap i) wa")
    obtain out2 where o2: "hn_ip h (ip_add_tap i) wa = (out2, wb)" "out2 = Inr None \<longleftrightarrow> a = Inr ()"
      using run_ip_cases[OF a] by blast
    show ?thesis
    proof (cases a)
      case (Inl e)
      with run a have "r = Inl e" "w1 = wb" by simp_all
      moreover have "hn_names h wb = hn_names h wa" using ip_add_refused[OF assms(1) o2(1)] o2(2) Inl by simp
      ultimately show ?thesis using na by simp
    next
      case (Inr u)
      with run a have rest: "run_ips h (map (\<lambda>(i, opts). ip_set i opts) ?sets) wb = (r, w1)" by simp
      have "i \<notin> hn_names h wa \<and> hn_names h wb = insert i (hn_names h wa)"
        using ip_add_names[OF assms(1)] o2 Inr by simp
      with run_sets_names[OF assms(1) rest] na show ?thesis by simp
    qed
  qed
qed

lemma setup_bridge_taken:
  assumes "ip_laws h" "setup_bridge h bridge i w = (r, w1)" "i \<in> hn_names h w"
  shows "\<exists>e. r = Inl e"
  using setup_bridge_names[OF assms(1,2)] assms(3) by (cases r) auto

lemma teardown_bridge_names:
  assumes "ip_laws h" "teardown_bridge h i w = (r, w1)"
  shows "hn_names h w1 = hn_names h w \<or> hn_names h w1 = hn_names h w - {i}"
    and "r \<noteq> Inr () \<Longrightarrow> hn_names h w1 = hn_names h w"
proof -
  let ?sets = "[(i, [''nomaster'']), (i, [''down''])]"
  obtain a wa where a: "run_ips h (map (\<lambda>(i, opts). ip_set i opts) ?sets) w = (a, wa)"
    by (cases "run_ips h (map (\<lambda>(i, opts). ip_set i opts) ?sets) w")
  note na = run_sets_names[OF assms(1) a]
  obtain out wb where o: "hn_ip h (ip_del i) wa = (out, wb)" by (cases "hn_ip h (ip_del i) wa")
  note nb = ip_del_names[OF assms(1) o]
  from a have a': "run_ips h [ip_set i [''nomaster''], ip_set i [''down'']] w = (a, wa)" by simp
  show "hn_names h w1 = hn_names h w \<or> hn_names h w1 = hn_names h w - {i}"
    using assms(2) a' o na nb
    by (cases a; cases out) (auto simp: teardown_bridge_def simp del: run_ips.simps split: if_splits)
  show "hn_names h w1 = hn_names h w" if "r \<noteq> Inr ()"
    using assms(2) a' o na nb that
    by (cases a; cases out) (auto simp: teardown_bridge_def simp del: run_ips.simps split: if_splits)
qed

lemma probe_loop_names: "ip_laws h \<Longrightarrow> hn_names h (snd (probe_loop h tap pid n w)) = hn_names h w"
  by (induction h tap pid n w rule: probe_loop.induct)
    (subst probe_loop.simps, auto simp: Let_def probe_names split: nat.splits option.splits)

lemma run_probe_names:
  assumes "ip_laws h" "run_probe h net w = (r, w1)"
  shows "hn_names h w1 = hn_names h w"
proof -
  obtain out wa where o: "hn_start h (in_launcher net @ [''sh'', ''-c'', PROBE_HOLD]) w = (out, wa)"
    by (cases "hn_start h (in_launcher net @ [''sh'', ''-c'', PROBE_HOLD]) w")
  show ?thesis
  proof (cases out)
    case (Inl e)
    with assms(2) o probe_names(1)[OF assms(1) o] show ?thesis by (simp add: run_probe_def)
  next
    case (Inr pid)
    obtain v wb where v: "probe_loop h (in_tap_iface net) pid PROBE_ROUNDS wa = (v, wb)"
      by (cases "probe_loop h (in_tap_iface net) pid PROBE_ROUNDS wa")
    obtain err wc where k: "hn_kill h pid wb = (err, wc)" by (cases "hn_kill h pid wb")
    from assms(2) o Inr v k have "w1 = wc" by (simp add: run_probe_def)
    with probe_names(1)[OF assms(1) o] probe_names(3)[OF assms(1) k]
      probe_loop_names[OF assms(1), of "in_tap_iface net" pid PROBE_ROUNDS wa] v
    show ?thesis by simp
  qed
qed

lemma setup_isolated_names:
  assumes "ip_laws h" "setup_isolated h i w = (r, w1)"
  shows "hn_names h w1 = hn_names h w"
proof (cases "run_probe h (isolated_net_new i) w")
  case (Pair out wa)
  with assms(2) run_probe_names[OF assms(1) Pair] show ?thesis
    by (auto simp: setup_isolated_def preflight_def Let_def split: if_splits option.splits sum.splits prod.splits)
qed

lemma teardown_isolated_names:
  assumes "ip_laws h" "teardown_isolated h net w = (r, w1)"
  shows "hn_names h w1 = hn_names h w \<or> hn_names h w1 = hn_names h w - {in_tap_iface net}"
proof -
  obtain out wa where o: "hn_ip h (ip_show (in_tap_iface net)) w = (out, wa)"
    by (cases "hn_ip h (ip_show (in_tap_iface net)) w")
  obtain a wb where a: "run_ip h (ip_del (in_tap_iface net)) wa = (a, wb)"
    by (cases "run_ip h (ip_del (in_tap_iface net)) wa")
  obtain out2 where o2: "hn_ip h (ip_del (in_tap_iface net)) wa = (out2, wb)" using run_ip_cases[OF a] by blast
  show ?thesis
    using assms(2) o a ip_show_names[OF assms(1) o] ip_del_names[OF assms(1) o2]
    by (auto simp: teardown_isolated_def split: sum.splits option.splits if_splits)
qed

text \<open>The interface a recorded network stands for.\<close>

definition info_tap :: "network_info \<Rightarrow> string option" where
  "info_tap info = (case info of BridgeInfo _ tap \<Rightarrow> Some tap | IsolatedInfo net \<Rightarrow> Some (in_tap_iface net) | NatInfo \<Rightarrow> None)"

lemma teardown_network_keeps:
  assumes "ip_laws h" "teardown_network h info w = (r, w1)" "t \<in> hn_names h w" "info_tap info \<noteq> Some t"
  shows "t \<in> hn_names h w1"
  using assms(2-4) teardown_bridge_names(1)[OF assms(1)] teardown_isolated_names[OF assms(1)]
  by (cases info) (fastforce simp: teardown_network_def info_tap_def)+

lemma teardown_network_subset:
  assumes "ip_laws h" "teardown_network h info w = (r, w1)"
  shows "hn_names h w1 \<subseteq> hn_names h w"
  using assms(2) teardown_bridge_names(1)[OF assms(1)] teardown_isolated_names[OF assms(1)]
  by (cases info) (fastforce simp: teardown_network_def)+

lemma teardown_all_keeps:
  assumes "ip_laws h" "t \<in> hn_names h w" "\<forall>info \<in> set infos. info_tap info \<noteq> Some t"
  shows "t \<in> hn_names h (teardown_all h infos w)"
  using assms(2,3)
proof (induction infos arbitrary: w)
  case (Cons info infos)
  have "t \<in> hn_names h (teardown_network_info h info w)"
    unfolding teardown_network_info_def using teardown_network_keeps[OF assms(1) surjective_pairing] Cons.prems by simp
  with Cons show ?case by simp
qed simp

section \<open>A tap that is already there\<close>

definition extra_tap :: "string \<Rightarrow> nat \<times> network_config \<Rightarrow> string option" where
  "extra_tap i = (\<lambda>(index, n). case net_mode n of Bridge _ \<Rightarrow> Some (extra_net_bridge_tap_iface i index) | _ \<Rightarrow> None)"

definition primary_tap :: "instance_config \<Rightarrow> string option" where
  "primary_tap c = (case net_mode (ic_network c) of
     Bridge _ \<Rightarrow> Some (primary_net_bridge_tap_iface (show_instance_id (ic_id c))) | _ \<Rightarrow> None)"

text \<open>The taps a start of the instance makes on the host.\<close>

definition host_taps :: "instance_config \<Rightarrow> string set" where
  "host_taps c = {t. primary_tap c = Some t
     \<or> (\<exists>x \<in> set (enumerate 0 (ic_extra_networks c)). extra_tap (show_instance_id (ic_id c)) x = Some t)}"

lemma host_taps_named: "t \<in> host_taps c \<Longrightarrow> take 3 t = ''tap''"
  by (auto simp: host_taps_def primary_tap_def extra_tap_def primary_net_bridge_tap_iface_def extra_net_bridge_tap_iface_def
      split: network_mode.splits)

lemma isolated_iface_no_tap: "t \<in> host_taps c \<Longrightarrow> t \<noteq> primary_net_isolated_iface"
  using host_taps_named[of t c] by (auto simp: primary_net_isolated_iface_def)

lemma setup_extra_names:
  assumes "ip_laws h" "setup_extra_network h n index i w = (r, w1)"
  shows "hn_names h w \<subseteq> hn_names h w1"
    and "r = Inr info \<Longrightarrow> info_tap info = extra_tap i (index, n)"
    and "extra_tap i (index, n) = Some t \<Longrightarrow> t \<in> hn_names h w \<Longrightarrow> \<exists>e. r = Inl e"
proof -
  consider (other) "\<forall>br. net_mode n \<noteq> Bridge br" | (bridge) br where "net_mode n = Bridge br" by blast
  then have all: "hn_names h w \<subseteq> hn_names h w1 \<and> (\<forall>info. r = Inr info \<longrightarrow> info_tap info = extra_tap i (index, n))
      \<and> (\<forall>t. extra_tap i (index, n) = Some t \<longrightarrow> t \<in> hn_names h w \<longrightarrow> (\<exists>e. r = Inl e))"
  proof cases
    case other
    with assms(2) show ?thesis
      by (auto simp: setup_extra_network_def extra_tap_def info_tap_def split: network_mode.splits)
  next
    case bridge
    let ?tap = "extra_net_bridge_tap_iface i index"
    obtain a wa where a: "setup_bridge h br ?tap w = (a, wa)" by (cases "setup_bridge h br ?tap w")
    from assms(2) bridge a setup_bridge_names[OF assms(1) a] setup_bridge_taken[OF assms(1) a]
    show ?thesis by (auto simp: setup_extra_network_def extra_tap_def info_tap_def split: sum.splits)
  qed
  show "hn_names h w \<subseteq> hn_names h w1" using all by simp
  show "info_tap info = extra_tap i (index, n)" if "r = Inr info" using all that by simp
  show "\<exists>e. r = Inl e" if "extra_tap i (index, n) = Some t" "t \<in> hn_names h w" using all that by blast
qed

lemma setup_extras_stale:
  assumes "ip_laws h" "setup_extra_networks h i primary infos rest w = (r, w1)" "t \<in> hn_names h w"
    and "\<forall>info \<in> set (primary # map snd infos). info_tap info \<noteq> Some t"
  shows "t \<in> hn_names h w1 \<and> ((\<exists>x \<in> set rest. extra_tap i x = Some t) \<longrightarrow> (\<exists>e. r = Inl e))
    \<and> (\<forall>xs. r = Inr xs \<longrightarrow> (\<forall>info \<in> set (map snd xs). info_tap info \<noteq> Some t))"
  using assms(2-4)
proof (induction rest arbitrary: infos w)
  case (Cons x rest)
  obtain index n where x: "x = (index, n)" by (cases x)
  obtain a wa where a: "setup_extra_network h n index i w = (a, wa)" by (cases "setup_extra_network h n index i w")
  have t: "t \<in> hn_names h wa" using setup_extra_names(1)[OF assms(1) a] Cons.prems(2) by blast
  show ?case
  proof (cases a)
    case (Inl e)
    with Cons.prems(1) a x have "r = Inl e" "w1 = teardown_all h (primary # map snd infos) wa" by simp_all
    with teardown_all_keeps[OF assms(1) t Cons.prems(3)] show ?thesis by simp
  next
    case (Inr info)
    have free: "info_tap info \<noteq> Some t"
      using setup_extra_names(2,3)[OF assms(1) a] Inr Cons.prems(2) by force
    from Cons.prems(1) a x Inr
    have "setup_extra_networks h i primary (infos @ [(extra_net_id index, info)]) rest wa = (r, w1)" by simp
    from Cons.IH[OF this t] Cons.prems(3) free
    have "t \<in> hn_names h w1 \<and> ((\<exists>x \<in> set rest. extra_tap i x = Some t) \<longrightarrow> (\<exists>e. r = Inl e))
      \<and> (\<forall>xs. r = Inr xs \<longrightarrow> (\<forall>info \<in> set (map snd xs). info_tap info \<noteq> Some t))" by auto
    moreover have "extra_tap i x \<noteq> Some t"
      using setup_extra_names(2)[OF assms(1) a] Inr free x by simp
    ultimately show ?thesis by simp
  qed
qed auto

lemma setup_primary_names:
  assumes "ip_laws h" "setup_primary_network h c w = (r, w1)"
  shows "hn_names h w \<subseteq> hn_names h w1"
    and "r = Inr info \<Longrightarrow> info_tap info = primary_tap c \<or> info_tap info = Some primary_net_isolated_iface"
    and "primary_tap c = Some t \<Longrightarrow> t \<in> hn_names h w \<Longrightarrow> \<exists>e. r = Inl e"
proof -
  have all: "hn_names h w \<subseteq> hn_names h w1
      \<and> (\<forall>info. r = Inr info \<longrightarrow> info_tap info = primary_tap c \<or> info_tap info = Some primary_net_isolated_iface)
      \<and> (\<forall>t. primary_tap c = Some t \<longrightarrow> t \<in> hn_names h w \<longrightarrow> (\<exists>e. r = Inl e))"
  proof (cases "net_mode (ic_network c)")
    case Nat
    with assms(2) show ?thesis by (auto simp: setup_primary_network_def primary_tap_def info_tap_def)
  next
    case Isolated
    obtain a wa where a: "setup_isolated h primary_net_isolated_iface w = (a, wa)"
      by (cases "setup_isolated h primary_net_isolated_iface w")
    have net: "a = Inr net \<Longrightarrow> net = isolated_net_new primary_net_isolated_iface" for net
      using a by (auto simp: setup_isolated_def Let_def split: sum.splits prod.splits)
    from assms(2) Isolated a net setup_isolated_names[OF assms(1) a] show ?thesis
      by (auto simp: setup_primary_network_def primary_tap_def info_tap_def isolated_net_new_def split: sum.splits)
  next
    case (Bridge br)
    let ?tap = "primary_net_bridge_tap_iface (show_instance_id (ic_id c))"
    obtain a wa where a: "setup_bridge h br ?tap w = (a, wa)" by (cases "setup_bridge h br ?tap w")
    from assms(2) Bridge a setup_bridge_names[OF assms(1) a] setup_bridge_taken[OF assms(1) a]
    show ?thesis by (auto simp: setup_primary_network_def primary_tap_def info_tap_def split: sum.splits)
  qed
  show "hn_names h w \<subseteq> hn_names h w1" using all by simp
  show "info_tap info = primary_tap c \<or> info_tap info = Some primary_net_isolated_iface" if "r = Inr info" using all that by simp
  show "\<exists>e. r = Inl e" if "primary_tap c = Some t" "t \<in> hn_names h w" using all that by blast
qed

section \<open>The other calls keep the interfaces\<close>

lemma quiet_names:
  assumes "host_laws b"
  shows "be_private_dir b p w = (r1, wa) \<Longrightarrow> hn_names (be_net b) wa = hn_names (be_net b) w"
    "hn_names (be_net b) (be_unlink b p w) = hn_names (be_net b) w"
    "be_exec b argv k w = (r2, wa) \<Longrightarrow> hn_names (be_net b) wa = hn_names (be_net b) w"
    "hn_names (be_net b) (be_drop b pid w) = hn_names (be_net b) w"
    "be_kill b sg pid w = (r3, wa) \<Longrightarrow> hn_names (be_net b) wa = hn_names (be_net b) w"
    "be_await b n pid w = (r4, wa) \<Longrightarrow> hn_names (be_net b) wa = hn_names (be_net b) w"
    "be_connect b p w = (r5, wa) \<Longrightarrow> hn_names (be_net b) wa = hn_names (be_net b) w"
    "hn_names (be_net b) (be_sleep b n w) = hn_names (be_net b) w"
    "be_command b p cmd w = (r6, wa) \<Longrightarrow> hn_names (be_net b) wa = hn_names (be_net b) w"
    "be_status b p w = (r7, wa) \<Longrightarrow> hn_names (be_net b) wa = hn_names (be_net b) w"
    "be_nodes b p w = (r8, wa) \<Longrightarrow> hn_names (be_net b) wa = hn_names (be_net b) w"
    "be_owner b p w = (r9, wa) \<Longrightarrow> hn_names (be_net b) wa = hn_names (be_net b) w"
  using assms unfolding host_laws_def quiet_laws_def Let_def by (metis snd_conv)+

lemma host_ip_laws: "host_laws b \<Longrightarrow> ip_laws (be_net b)"
  by (simp add: host_laws_def)

lemma drop_process_names: "host_laws b \<Longrightarrow> hn_names (be_net b) (drop_process b p w) = hn_names (be_net b) w"
  by (simp add: drop_process_def quiet_names(4))

lemma spawn_process_names:
  assumes "host_laws b" "spawn_process b args sock logf k aff l w = (r, w1)"
  shows "hn_names (be_net b) w1 = hn_names (be_net b) w"
proof -
  obtain out wa where o: "be_exec b (process_argv args aff l) k w = (out, wa)" by (cases "be_exec b (process_argv args aff l) k w")
  from assms(2) o quiet_names(3)[OF assms(1) o] drop_process_names[OF assms(1)] show ?thesis
    by (auto simp: spawn_process_def Let_def split: sum.splits option.splits)
qed

lemma private_parent_names:
  assumes "host_laws b" "private_parent b p w = (r, w1)"
  shows "hn_names (be_net b) w1 = hn_names (be_net b) w"
  using assms(2) quiet_names(1)[OF assms(1)]
  by (auto simp: private_parent_def split: option.splits prod.splits)

section \<open>A start that finds its tap taken\<close>

lemma start_stale:
  assumes "host_laws b" "t \<in> host_taps c" "t \<in> hn_names (be_net b) w" "start_networks_and_process b c args w = (r, w1)"
  shows "(\<exists>e. r = Inl e) \<and> t \<in> hn_names (be_net b) w1"
proof -
  let ?h = "be_net b" and ?i = "show_instance_id (ic_id c)" and ?x = "enumerate 0 (ic_extra_networks c)"
  note laws = host_ip_laws[OF assms(1)]
  obtain p wa where p: "setup_primary_network ?h c w = (p, wa)" by (cases "setup_primary_network ?h c w")
  have ta: "t \<in> hn_names ?h wa" using setup_primary_names(1)[OF laws p] assms(3) by blast
  show ?thesis
  proof (cases p)
    case (Inl e)
    with assms(4) p ta show ?thesis by (auto simp: start_networks_and_process_def)
  next
    case (Inr primary)
    have np: "primary_tap c \<noteq> Some t" using setup_primary_names(3)[OF laws p _ assms(3)] Inr by blast
    with setup_primary_names(2)[OF laws p Inr] isolated_iface_no_tap[OF assms(2)]
    have free: "info_tap primary \<noteq> Some t" by auto
    obtain x wb where x: "setup_extra_networks ?h ?i primary [] ?x wa = (x, wb)"
      by (cases "setup_extra_networks ?h ?i primary [] ?x wa")
    from setup_extras_stale[OF laws x ta] free
    have "t \<in> hn_names ?h wb" "(\<exists>y \<in> set ?x. extra_tap ?i y = Some t) \<longrightarrow> (\<exists>e. x = Inl e)" by simp_all
    moreover from this assms(2) np obtain e where "x = Inl e" by (auto simp: host_taps_def)
    ultimately show ?thesis using assms(4) p Inr x by (auto simp: start_networks_and_process_def)
  qed
qed

lemma spawn_stale:
  assumes "host_laws b" "t \<in> host_taps c" "t \<in> hn_names (be_net b) (qb_world s)" "spawn b c s = (r, s1)"
  shows "(\<exists>e. r = Inl e) \<and> qb_instances s1 = qb_instances s \<and> t \<in> hn_names (be_net b) (qb_world s1)"
proof (cases "is_implemented (gpu_render (ic_gpu c))")
  case False
  with assms(3,4) show ?thesis by (auto simp: spawn_def)
next
  case True
  let ?N = "hn_names (be_net b)"
  obtain r1 wa where d1: "private_parent b (qmp_socket_path_for b c) (qb_world s) = (r1, wa)"
    by (cases "private_parent b (qmp_socket_path_for b c) (qb_world s)")
  obtain r2 wb where d2: "private_parent b (console_socket_path b (ic_id c)) wa = (r2, wb)"
    by (cases "private_parent b (console_socket_path b (ic_id c)) wa")
  let ?w = "be_unlink b (qmp_socket_path_for b c) wb"
  have names: "?N wa = ?N (qb_world s)" "?N wb = ?N (qb_world s)" "?N ?w = ?N (qb_world s)"
    using private_parent_names[OF assms(1) d1] private_parent_names[OF assms(1) d2] quiet_names(2)[OF assms(1)] by simp_all
  show ?thesis
  proof (cases "\<exists>e. r1 = Inl e \<or> r2 = Inl e \<or> build_args (console_socket_path b) c (qmp_socket_path_for b c) = Inl e")
    case early: True
    from early True assms(3,4) d1 d2 names show ?thesis by (auto simp: spawn_def Let_def split: sum.splits)
  next
    case False
    then obtain args where ok: "r1 = Inr ()" "r2 = Inr ()" "build_args (console_socket_path b) c (qmp_socket_path_for b c) = Inr args"
      by (metis (full_types) old.unit.exhaust sum.exhaust)
    obtain a wc where a: "start_networks_and_process b c args ?w = (a, wc)" by (cases "start_networks_and_process b c args ?w")
    from start_stale[OF assms(1,2) _ a] names(3) assms(3) obtain e where "a = Inl e" "t \<in> ?N wc" by auto
    with assms(4) True d1 d2 ok a show ?thesis by (auto simp: spawn_def Let_def)
  qed
qed

text \<open>Starts one after the other.\<close>

definition respawned :: "'w backend_env \<Rightarrow> instance_config \<Rightarrow> nat \<Rightarrow> 'w qemu_backend \<Rightarrow> 'w qemu_backend" where
  "respawned b c n s = ((\<lambda>s. snd (spawn b c s)) ^^ n) s"

lemma respawned_stale:
  assumes "host_laws b" "t \<in> host_taps c" "t \<in> hn_names (be_net b) (qb_world s)"
  shows "t \<in> hn_names (be_net b) (qb_world (respawned b c n s)) \<and> (\<exists>e. fst (spawn b c (respawned b c n s)) = Inl e)"
proof -
  have "t \<in> hn_names (be_net b) (qb_world (respawned b c n s))"
  proof (induction n)
    case (Suc n)
    show ?case using spawn_stale[OF assms(1,2) Suc surjective_pairing] by (simp add: respawned_def)
  qed (simp add: respawned_def assms(3))
  with spawn_stale[OF assms(1,2) this surjective_pairing] show ?thesis by simp
qed

section \<open>Stopping\<close>

lemma end_process_names:
  assumes "host_laws b" "end_process b graceful p w = (r, w1)"
  shows "hn_names (be_net b) w1 = hn_names (be_net b) w"
proof -
  obtain r1 wa where k: "be_kill b (if graceful then SigTerm else SigKill) (pc_pid p) w = (r1, wa)"
    by (cases "be_kill b (if graceful then SigTerm else SigKill) (pc_pid p) w")
  obtain r2 wb where a: "be_await b (if graceful then GRACEFUL_SHUTDOWN_TIMEOUT else 5) (pc_pid p) wa = (r2, wb)"
    by (cases "be_await b (if graceful then GRACEFUL_SHUTDOWN_TIMEOUT else 5) (pc_pid p) wa")
  from assms(2) k a quiet_names(5)[OF assms(1) k] quiet_names(6)[OF assms(1) a] show ?thesis
    by (auto simp: end_process_def terminate_process_def force_kill_def split: if_splits kill_result.splits wait_result.splits)
qed

lemma stop_extras_keeps:
  assumes "ip_laws h" "stop_extras h infos w = (r, w1)" "t \<in> hn_names h w" "\<forall>info \<in> snd ` set infos. info_tap info \<noteq> Some t"
  shows "t \<in> hn_names h w1"
  using assms(2-4)
proof (induction infos arbitrary: w)
  case (Cons x infos)
  obtain i info where x: "x = (i, info)" by (cases x)
  obtain a wa where a: "teardown_network h info w = (a, wa)" by (cases "teardown_network h info w")
  have "t \<in> hn_names h wa" using teardown_network_keeps[OF assms(1) a Cons.prems(2)] Cons.prems(3) x by simp
  with Cons x a show ?case by (auto split: sum.splits)
qed simp

text \<open>Whatever the outcome, a stop takes no interface away that the instance has not recorded.\<close>

lemma stop_keeps:
  assumes "host_laws b" "stop b bh graceful s = (r, s1)" "t \<in> hn_names (be_net b) (qb_world s)"
    and "qb_instances s bh = Some ri" "\<forall>info \<in> insert (ri_network ri) (snd ` set (ri_extras ri)). info_tap info \<noteq> Some t"
  shows "t \<in> hn_names (be_net b) (qb_world s1)"
proof -
  let ?h = "be_net b"
  note laws = host_ip_laws[OF assms(1)]
  obtain a wa where a: "end_process b graceful (ri_process ri) (qb_world s) = (a, wa)"
    by (cases "end_process b graceful (ri_process ri) (qb_world s)")
  note na = end_process_names[OF assms(1) a]
  let ?w = "drop_process b (ri_process ri) wa"
  obtain d wb where d: "teardown_network ?h (ri_network ri) ?w = (d, wb)" by (cases "teardown_network ?h (ri_network ri) ?w")
  have tb: "t \<in> hn_names ?h wb"
    using teardown_network_keeps[OF laws d] drop_process_names[OF assms(1)] na assms(3,5) by simp
  obtain x wc where x: "stop_extras ?h (ri_extras ri) wb = (x, wc)" by (cases "stop_extras ?h (ri_extras ri) wb")
  have "t \<in> hn_names ?h wc" using stop_extras_keeps[OF laws x tb] assms(5) by simp
  with assms(2,3,4) a na d tb x show ?thesis
    by (auto simp: stop_def forget_instance_def Let_def split: sum.splits)
qed

section \<open>Taking over\<close>

lemma adopt_steps_names:
  assumes "host_laws b" "adopt_steps b c w = (r, w1)"
  shows "hn_names (be_net b) w1 = hn_names (be_net b) w"
    and "r = Inr (st, ri) \<Longrightarrow> ri_network ri = adopted_network c \<and> ri_extras ri = []"
proof -
  let ?sock = "qmp_socket_path_for b c" and ?N = "hn_names (be_net b)"
  obtain r1 wa where c1: "be_connect b ?sock w = (r1, wa)" by (cases "be_connect b ?sock w")
  obtain r2 wb where c2: "be_status b ?sock wa = (r2, wb)" by (cases "be_status b ?sock wa")
  obtain r3 wc where c3: "be_owner b ?sock wb = (r3, wc)" by (cases "be_owner b ?sock wb")
  obtain r4 wd where c4: "be_nodes b ?sock wc = (r4, wd)" by (cases "be_nodes b ?sock wc")
  have n: "?N wa = ?N w" "?N wb = ?N w" "?N wc = ?N w" "?N wd = ?N w"
    using quiet_names(7)[OF assms(1) c1] quiet_names(10)[OF assms(1) c2] quiet_names(12)[OF assms(1) c3]
      quiet_names(11)[OF assms(1) c4] by simp_all
  have "snd (resolve_owner_pid b ?sock (ic_name c) wb) = wc"
    using c3 by (auto simp: resolve_owner_pid_def split: sum.splits)
  then obtain r5 where own: "resolve_owner_pid b ?sock (ic_name c) wb = (r5, wc)"
    by (cases "resolve_owner_pid b ?sock (ic_name c) wb") simp
  have "snd (query_head_node_name b ?sock (disk_path (ic_disk c)) wc) = wd"
    using c4 by (auto simp: query_head_node_name_def split: sum.splits option.splits)
  then obtain r6 where head: "query_head_node_name b ?sock (disk_path (ic_disk c)) wc = (r6, wd)"
    by (cases "query_head_node_name b ?sock (disk_path (ic_disk c)) wc") simp
  show "?N w1 = ?N w"
    using assms(2) c1 c2 own head n
    by (auto simp: adopt_steps_def Let_def split: connect_result.splits sum.splits)
  show "ri_network ri = adopted_network c \<and> ri_extras ri = []" if "r = Inr (st, ri)"
    using assms(2) c1 c2 own head that
    by (auto simp: adopt_steps_def Let_def split: connect_result.splits sum.splits)
qed

lemma insert_instance_sel:
  assumes "host_laws b"
  shows "qb_instances (insert_instance b bh ri s) bh = Some ri"
    "hn_names (be_net b) (qb_world (insert_instance b bh ri s)) = hn_names (be_net b) (qb_world s)"
  by (auto simp: insert_instance_def drop_process_names[OF assms] split: option.splits)

lemma adopt_cases:
  assumes "host_laws b" "adopt b c s = (Inr (bh, st), s1)"
  shows "\<exists>ri. qb_instances s1 bh = Some ri \<and> ri_network ri = adopted_network c \<and> ri_extras ri = []
    \<and> hn_names (be_net b) (qb_world s1) = hn_names (be_net b) (qb_world s)"
proof -
  obtain r w1 where a: "adopt_steps b c (qb_world s) = (r, w1)" by (cases "adopt_steps b c (qb_world s)")
  with assms(2) obtain ri where r: "r = Inr (st, ri)" "bh = backend_handle_for c"
      "s1 = insert_instance b bh ri (s\<lparr>qb_world := w1\<rparr>)"
    by (auto simp: adopt_def split: sum.splits)
  from adopt_steps_names(1)[OF assms(1) a] adopt_steps_names(2)[OF assms(1) a r(1)] insert_instance_sel[OF assms(1)] r(3)
  show ?thesis by simp
qed

lemma adopted_tap: "info_tap (adopted_network c) = primary_tap c \<or> info_tap (adopted_network c) = Some primary_net_isolated_iface"
  by (auto simp: adopted_network_def info_tap_def primary_tap_def isolated_net_new_def split: network_mode.splits)

lemma extra_tap_not_primary: "primary_tap c = Some t \<Longrightarrow> extra_net_bridge_tap_iface (show_instance_id (ic_id c)) k \<noteq> t"
  by (auto simp: primary_tap_def primary_net_bridge_tap_iface_def extra_net_bridge_tap_iface_def split: network_mode.splits)

lemma host_tap_extra:
  assumes "k < length (ic_extra_networks c)" "net_mode (ic_extra_networks c ! k) = Bridge br"
  shows "extra_net_bridge_tap_iface (show_instance_id (ic_id c)) k \<in> host_taps c"
proof -
  have "(k, ic_extra_networks c ! k) \<in> set (enumerate 0 (ic_extra_networks c))"
    using assms(1) by (force simp: in_set_enumerate_eq)
  with assms(2) show ?thesis by (force simp: host_taps_def extra_tap_def)
qed

text \<open>C9. An instance that has an extra network card on a bridge, taken over after a daemon restart and
  then stopped, cannot be started again: its tap is still on the host, and no number of further
  starts gets past it.\<close>

theorem adopted_extra_tap_blocks_start:
  assumes "host_laws b" "k < length (ic_extra_networks c)" "net_mode (ic_extra_networks c ! k) = Bridge br"
    and "extra_net_bridge_tap_iface (show_instance_id (ic_id c)) k \<in> hn_names (be_net b) (qb_world s)"
    and "adopt b c s = (Inr (bh, st), s1)" "stop b bh graceful s1 = (r, s2)"
  shows "\<exists>e. fst (spawn b c (respawned b c n s2)) = Inl e"
proof -
  let ?t = "extra_net_bridge_tap_iface (show_instance_id (ic_id c)) k"
  note host = host_tap_extra[OF assms(2,3)]
  obtain ri where ri: "qb_instances s1 bh = Some ri" "ri_network ri = adopted_network c" "ri_extras ri = []"
      "?t \<in> hn_names (be_net b) (qb_world s1)"
    using adopt_cases[OF assms(1,5)] assms(4) by auto
  have "info_tap (ri_network ri) \<noteq> Some ?t"
    using adopted_tap[of c] extra_tap_not_primary[of c ?t k] isolated_iface_no_tap[OF host] ri(2) by auto
  then have "?t \<in> hn_names (be_net b) (qb_world s2)"
    using stop_keeps[OF assms(1,6) ri(4,1)] ri(3) by simp
  then show ?thesis using respawned_stale[OF assms(1) host] by blast
qed

text \<open>C12. When the network of an instance cannot be taken down, \<open>stop\<close> reports an error although the
  process is gone: the instance is forgotten, a second stop does not find it, and the taps of its
  extra network cards stay on the host.\<close>

theorem failed_teardown_forgets_instance:
  assumes "host_laws b" "qb_instances s bh = Some ri" "(i, BridgeInfo br t) \<in> set (ri_extras ri)"
    and "t \<in> hn_names (be_net b) (qb_world s)" "info_tap (ri_network ri) \<noteq> Some t"
    and "end_process b graceful (ri_process ri) (qb_world s) = (Inr (), w1)"
    and "teardown_network (be_net b) (ri_network ri) (drop_process b (ri_process ri) w1) = (Inl e, w2)"
  shows "case stop b bh graceful s of (r, s1) \<Rightarrow>
    r = Inl (net_failed e) \<and> qb_instances s1 bh = None \<and> t \<in> hn_names (be_net b) (qb_world s1)
    \<and> (\<forall>g. stop b bh g s1 = (Inl (HandleNotFound bh), s1))"
proof -
  have s1: "stop b bh graceful s = (Inl (net_failed e), s\<lparr>qb_instances := (qb_instances s)(bh := None), qb_world := w2\<rparr>)"
    using assms(2,6,7) by (simp add: stop_def forget_instance_def Let_def)
  have "t \<in> hn_names (be_net b) w2"
    using teardown_network_keeps[OF host_ip_laws[OF assms(1)] assms(7) _ assms(5)] assms(4)
      drop_process_names[OF assms(1)] end_process_names[OF assms(1,6)] by simp
  with s1 show ?thesis by (simp add: stop_def)
qed

end
