(* ===== verification/BackendStart.thy ===== *)
theory BackendStart
  imports BackendRuns
begin

text \<open>
  What a start and a stop do to the interfaces of the host. Without any assumption on what \<open>ip\<close> can
  do, a start that fails takes none away and leaves no others behind than taps of this very instance.
  When \<open>ip\<close> may take a tap of the instance down (\<open>may_delete\<close>), a stop undoes a start; when it may also
  attach one to a bridge (\<open>may_attach\<close>), a failed start leaves nothing. A start with isolated
  networking ran the guest in a namespace that had been looked at.
\<close>

section \<open>What a daemon with network rights can do to its taps\<close>

definition bridge_at :: "'w host_net \<Rightarrow> string \<Rightarrow> 'w \<Rightarrow> bool" where
  "bridge_at h br w = hn_bridge_dir h (''/sys/class/net/'' @ br @ ''/bridge'') w"

text \<open>\<open>CAP_NET_ADMIN\<close> over the taps \<open>T\<close>: one that exists can be detached, put down and deleted; whether the
  interface of isolated guests is on the host can be asked.\<close>

definition may_delete :: "'w host_net \<Rightarrow> string set \<Rightarrow> bool" where
  "may_delete h T \<longleftrightarrow>
     (\<forall>w. \<exists>out. fst (hn_ip h (ip_show primary_net_isolated_iface) w) = Inr out
        \<and> (out = None \<longleftrightarrow> primary_net_isolated_iface \<in> hn_names h w))
     \<and> (\<forall>t \<in> T. \<forall>w. t \<in> hn_names h w \<longrightarrow> fst (hn_ip h (ip_set t [''nomaster'']) w) = Inr None
          \<and> fst (hn_ip h (ip_set t [''down'']) w) = Inr None \<and> fst (hn_ip h (ip_del t) w) = Inr None)"

text \<open>The same over attaching them: a tap that exists can be made a port of a bridge that exists and put
  up, such a bridge can be put up, and neither making nor attaching a tap removes a bridge.\<close>

definition may_attach :: "'w host_net \<Rightarrow> string set \<Rightarrow> bool" where
  "may_attach h T \<longleftrightarrow>
     (\<forall>t \<in> T. \<forall>br w. t \<in> hn_names h w \<and> bridge_at h br w \<longrightarrow>
        fst (hn_ip h (ip_set t [''master'', br]) w) = Inr None \<and> fst (hn_ip h (ip_set br [''up'']) w) = Inr None)
     \<and> (\<forall>t \<in> T. \<forall>w. t \<in> hn_names h w \<longrightarrow> fst (hn_ip h (ip_set t [''up'']) w) = Inr None)
     \<and> (\<forall>t \<in> T. \<forall>br w. bridge_at h br w \<longrightarrow>
          bridge_at h br (snd (hn_ip h (ip_add_tap t) w)) \<and> bridge_at h br (snd (hn_ip h (ip_set t [''master'', br]) w)))"

lemma run_ip_ok: "fst (hn_ip h args w) = Inr None \<Longrightarrow> run_ip h args w = (Inr (), snd (hn_ip h args w))"
  by (cases "hn_ip h args w") (simp add: run_ip_def)

lemma setup_bridge_failed:
  assumes "ip_laws h" "may_attach h T" "i \<in> T" "setup_bridge h bridge i w = (Inl e, w1)"
  shows "hn_names h w1 = hn_names h w"
proof (rule ccontr)
  assume changed: "hn_names h w1 \<noteq> hn_names h w"
  obtain out wa where o: "hn_ip h (ip_show bridge) w = (out, wa)" by (cases "hn_ip h (ip_show bridge) w")
  note na = ip_show_names[OF assms(1) o]
  have at: "out = Inr None" "bridge_at h bridge wa"
    using assms(4) o na changed
    by (auto simp: setup_bridge_def bridge_at_def split: sum.splits option.splits if_splits)
  let ?sets = "[ip_set i [''master'', bridge], ip_set bridge [''up''], ip_set i [''up'']]"
  have run: "run_ips h (ip_add_tap i # ?sets) wa = (Inl e, w1)"
    using assms(4) o at by (simp add: setup_bridge_def bridge_at_def del: run_ips.simps)
  obtain out2 wb where a: "hn_ip h (ip_add_tap i) wa = (out2, wb)" by (cases "hn_ip h (ip_add_tap i) wa")
  have ok: "out2 = Inr None"
  proof (rule ccontr)
    assume bad: "out2 \<noteq> Inr None"
    then have "w1 = wb" using run a by (auto simp: run_ip_def split: sum.splits option.splits)
    then show False using ip_add_refused[OF assms(1) a bad] na changed by simp
  qed
  have i: "i \<in> hn_names h wb" using ip_add_names[OF assms(1)] a ok by blast
  have bb: "bridge_at h bridge wb" using assms(2,3) at(2) a unfolding may_attach_def by (metis snd_conv)
  define wc where "wc = snd (hn_ip h (ip_set i [''master'', bridge]) wb)"
  define wd where "wd = snd (hn_ip h (ip_set bridge [''up'']) wc)"
  have c: "run_ip h (ip_set i [''master'', bridge]) wb = (Inr (), wc)"
    using run_ip_ok[of h "ip_set i [''master'', bridge]" wb] assms(2,3) i bb unfolding may_attach_def wc_def by blast
  have ic: "i \<in> hn_names h wc" using ip_set_names[OF assms(1) surjective_pairing] i by (simp add: wc_def)
  have bc: "bridge_at h bridge wc" using assms(2,3) bb unfolding may_attach_def wc_def by blast
  have d: "run_ip h (ip_set bridge [''up'']) wc = (Inr (), wd)"
    using run_ip_ok[of h "ip_set bridge [''up'']" wc] assms(2,3) ic bc unfolding may_attach_def wd_def by blast
  have i2: "i \<in> hn_names h wd" using ip_set_names[OF assms(1) surjective_pairing] ic by (simp add: wd_def)
  have "run_ip h (ip_set i [''up'']) wd = (Inr (), snd (hn_ip h (ip_set i [''up'']) wd))"
    using run_ip_ok[of h "ip_set i [''up'']" wd] assms(2,3) i2 unfolding may_attach_def by blast
  moreover have "run_ip h (ip_add_tap i) wa = (Inr (), wb)" using run_ip_ok[of h "ip_add_tap i" wa] a ok by simp
  ultimately show False using run c d by simp
qed

lemma setup_bridge_done:
  assumes "ip_laws h" "setup_bridge h bridge i w = (Inr (), w1)"
  shows "i \<notin> hn_names h w" "hn_names h w1 = insert i (hn_names h w)"
  using setup_bridge_names[OF assms] by simp_all

lemma teardown_bridge_clean:
  assumes "ip_laws h" "may_delete h T" "i \<in> T" "i \<in> hn_names h w"
  shows "\<exists>w1. teardown_bridge h i w = (Inr (), w1) \<and> hn_names h w1 = hn_names h w - {i}"
proof -
  define wa where "wa = snd (hn_ip h (ip_set i [''nomaster'']) w)"
  define wb where "wb = snd (hn_ip h (ip_set i [''down'']) wa)"
  have na: "hn_names h wa = hn_names h w" using ip_set_names[OF assms(1) surjective_pairing] by (simp add: wa_def)
  have nb: "hn_names h wb = hn_names h w" using ip_set_names[OF assms(1) surjective_pairing] na by (simp add: wb_def)
  have "run_ip h (ip_set i [''nomaster'']) w = (Inr (), wa)"
    using run_ip_ok[of h "ip_set i [''nomaster'']" w] assms(2-4) unfolding may_delete_def wa_def by blast
  moreover have "run_ip h (ip_set i [''down'']) wa = (Inr (), wb)"
    using run_ip_ok[of h "ip_set i [''down'']" wa] assms(2-4) na unfolding may_delete_def wb_def by blast
  moreover have "fst (hn_ip h (ip_del i) wb) = Inr None" using assms(2-4) nb unfolding may_delete_def by blast
  then obtain wc where c: "hn_ip h (ip_del i) wb = (Inr None, wc)" by (metis prod.collapse)
  ultimately have "teardown_bridge h i w = (Inr (), wc)" by (simp add: teardown_bridge_def)
  with ip_del_names[OF assms(1) c] nb show ?thesis by simp
qed

lemma teardown_isolated_clean:
  assumes "ip_laws h" "may_delete h T" "in_tap_iface net = primary_net_isolated_iface" "in_tap_iface net \<notin> hn_names h w"
  shows "\<exists>w1. teardown_isolated h net w = (Inr (), w1) \<and> hn_names h w1 = hn_names h w"
proof -
  obtain out where "fst (hn_ip h (ip_show (in_tap_iface net)) w) = Inr out" "out \<noteq> None"
    using assms(2-4) unfolding may_delete_def by metis
  then obtain e wa where o: "hn_ip h (ip_show (in_tap_iface net)) w = (Inr (Some e), wa)"
    by (cases "hn_ip h (ip_show (in_tap_iface net)) w") auto
  with ip_show_names[OF assms(1) o] show ?thesis by (simp add: teardown_isolated_def)
qed

section \<open>Networks set up so far\<close>

text \<open>The host has the interfaces \<open>N\<close> and, apart from them, exactly the taps of the recorded networks.\<close>

definition bridge_taps :: "network_info list \<Rightarrow> string list" where
  "bridge_taps infos = concat (map (\<lambda>info. case info of BridgeInfo _ t \<Rightarrow> [t] | _ \<Rightarrow> []) infos)"

lemma bridge_taps_simps [simp]:
  "bridge_taps [] = []" "bridge_taps (BridgeInfo br t # infos) = t # bridge_taps infos"
  "bridge_taps (IsolatedInfo net # infos) = bridge_taps infos" "bridge_taps (NatInfo # infos) = bridge_taps infos"
  "bridge_taps (infos @ rest) = bridge_taps infos @ bridge_taps rest"
  by (simp_all add: bridge_taps_def)

lemma bridge_taps_snoc [simp]:
  "bridge_taps (info # infos @ [BridgeInfo br t]) = bridge_taps (info # infos) @ [t]"
  "bridge_taps (info # infos @ [NatInfo]) = bridge_taps (info # infos)"
  by (cases info; simp)+

definition balanced :: "'w host_net \<Rightarrow> string set \<Rightarrow> string set \<Rightarrow> network_info list \<Rightarrow> 'w \<Rightarrow> bool" where
  "balanced h T N infos w \<longleftrightarrow> hn_names h w = N \<union> set (bridge_taps infos) \<and> distinct (bridge_taps infos)
     \<and> N \<inter> set (bridge_taps infos) = {} \<and> set (bridge_taps infos) \<subseteq> T
     \<and> (\<forall>net. IsolatedInfo net \<in> set infos \<longrightarrow>
          in_tap_iface net = primary_net_isolated_iface \<and> in_tap_iface net \<notin> hn_names h w)"

lemma balanced_names: "balanced h T N [] w \<longleftrightarrow> hn_names h w = N"
  by (simp add: balanced_def)

lemma balanced_cong: "balanced h T N infos w \<Longrightarrow> hn_names h w1 = hn_names h w \<Longrightarrow> balanced h T N infos w1"
  by (auto simp: balanced_def)

lemma teardown_network_balanced:
  assumes "ip_laws h" "may_delete h T" "balanced h T N (info # infos) w"
  shows "\<exists>w1. teardown_network h info w = (Inr (), w1) \<and> balanced h T N infos w1"
proof (cases info)
  case (BridgeInfo br t)
  have t: "t \<in> T" "t \<in> hn_names h w" "t \<notin> N" "t \<notin> set (bridge_taps infos)"
    using assms(3) BridgeInfo by (auto simp: balanced_def)
  obtain w1 where "teardown_bridge h t w = (Inr (), w1)" "hn_names h w1 = hn_names h w - {t}"
    using teardown_bridge_clean[OF assms(1,2) t(1,2)] by blast
  with assms(3) t BridgeInfo show ?thesis
    by (auto simp: teardown_network_def balanced_def)
next
  case (IsolatedInfo net)
  have "IsolatedInfo net \<in> set (info # infos)" using IsolatedInfo by simp
  then have "in_tap_iface net = primary_net_isolated_iface" "in_tap_iface net \<notin> hn_names h w"
    using assms(3) unfolding balanced_def by blast+
  from teardown_isolated_clean[OF assms(1,2) this] obtain w1
    where "teardown_isolated h net w = (Inr (), w1)" "hn_names h w1 = hn_names h w" by blast
  with assms(3) IsolatedInfo show ?thesis by (auto simp: teardown_network_def balanced_def)
next
  case NatInfo
  with assms(3) show ?thesis by (auto simp: teardown_network_def balanced_def)
qed

lemma teardown_all_balanced:
  assumes "ip_laws h" "may_delete h T" "balanced h T N infos w"
  shows "hn_names h (teardown_all h infos w) = N"
  using assms(3)
proof (induction infos arbitrary: w)
  case (Cons info infos)
  from teardown_network_balanced[OF assms(1,2) Cons.prems] Cons.IH show ?case by (auto simp: teardown_network_info_def)
qed (simp add: balanced_names)

lemma stop_extras_balanced:
  assumes "ip_laws h" "may_delete h T" "balanced h T N (map snd infos) w"
  shows "\<exists>w1. stop_extras h infos w = (Inr (), w1) \<and> hn_names h w1 = N"
  using assms(3)
proof (induction infos arbitrary: w)
  case (Cons x infos)
  obtain i info where x: "x = (i, info)" by (cases x)
  from teardown_network_balanced[OF assms(1,2), of N info "map snd infos" w] Cons.prems x Cons.IH show ?case by auto
qed (simp add: balanced_names)

lemma balanced_add:
  assumes "balanced h T N (primary # infos) w" "t \<notin> hn_names h w" "hn_names h w1 = insert t (hn_names h w)"
    and "t \<in> T" "t \<noteq> primary_net_isolated_iface"
  shows "balanced h T N (primary # infos @ [BridgeInfo br t]) w1"
proof -
  have "\<forall>net. IsolatedInfo net \<in> set (primary # infos @ [BridgeInfo br t]) \<longrightarrow>
      in_tap_iface net = primary_net_isolated_iface \<and> in_tap_iface net \<notin> hn_names h w1"
  proof (intro allI impI)
    fix net assume "IsolatedInfo net \<in> set (primary # infos @ [BridgeInfo br t])"
    then have "IsolatedInfo net \<in> set (primary # infos)" by auto
    then have "in_tap_iface net = primary_net_isolated_iface" "in_tap_iface net \<notin> hn_names h w"
      using assms(1) unfolding balanced_def by blast+
    then show "in_tap_iface net = primary_net_isolated_iface \<and> in_tap_iface net \<notin> hn_names h w1"
      using assms(3,5) by simp
  qed
  moreover have "hn_names h w1 = N \<union> set (bridge_taps (primary # infos @ [BridgeInfo br t]))"
      "distinct (bridge_taps (primary # infos @ [BridgeInfo br t]))"
      "N \<inter> set (bridge_taps (primary # infos @ [BridgeInfo br t])) = {}"
      "set (bridge_taps (primary # infos @ [BridgeInfo br t])) \<subseteq> T"
    using assms by (auto simp: balanced_def)
  ultimately show ?thesis unfolding balanced_def by blast
qed

lemma extra_tap_no_isolated: "extra_tap i x = Some t \<Longrightarrow> t \<noteq> primary_net_isolated_iface"
  by (cases x) (auto simp: extra_tap_def extra_net_bridge_tap_iface_def primary_net_isolated_iface_def split: network_mode.splits)

lemma setup_extras_balanced:
  assumes "ip_laws h" "setup_extra_networks h i primary infos rest w = (r, w1)" "balanced h T N (primary # map snd infos) w"
    and "\<forall>x \<in> set rest. \<forall>t. extra_tap i x = Some t \<longrightarrow> t \<in> T"
  shows "case r of Inl _ \<Rightarrow> may_delete h T \<and> may_attach h T \<longrightarrow> hn_names h w1 = N
    | Inr xs \<Rightarrow> balanced h T N (primary # map snd xs) w1"
  using assms(2-4)
proof (induction rest arbitrary: infos w)
  case (Cons x rest)
  obtain index n where x: "x = (index, n)" by (cases x)
  show ?case
  proof (cases "net_mode n")
    case (Bridge br)
    let ?t = "extra_net_bridge_tap_iface i index"
    have tap: "extra_tap i x = Some ?t" using Bridge x by (simp add: extra_tap_def)
    have t: "?t \<in> T" "?t \<noteq> primary_net_isolated_iface"
      using Cons.prems(3) tap extra_tap_no_isolated[OF tap] by auto
    obtain d wd where d: "setup_bridge h br ?t w = (d, wd)" by (cases "setup_bridge h br ?t w")
    show ?thesis
    proof (cases d)
      case (Inr u)
      then have ok: "setup_bridge h br ?t w = (Inr (), wd)" using d by simp
      note names = setup_bridge_done[OF assms(1) ok]
      have "balanced h T N (primary # map snd (infos @ [(extra_net_id index, BridgeInfo br ?t)])) wd"
        using balanced_add[OF Cons.prems(2) names t] by simp
      moreover from Cons.prems(1) x ok Bridge
      have "setup_extra_networks h i primary (infos @ [(extra_net_id index, BridgeInfo br ?t)]) rest wd = (r, w1)"
        by (simp add: setup_extra_network_def)
      ultimately show ?thesis using Cons.IH Cons.prems(3) by simp
    next
      case (Inl e)
      with Cons.prems(1) x d Bridge have out: "r = Inl (net_failed e)" "w1 = teardown_all h (primary # map snd infos) wd"
        by (simp_all add: setup_extra_network_def)
      have "hn_names h w1 = N" if rights: "may_delete h T" "may_attach h T"
        using teardown_all_balanced[OF assms(1) rights(1) balanced_cong[OF Cons.prems(2)
              setup_bridge_failed[OF assms(1) rights(2) t(1) d[unfolded Inl]]]] out by simp
      with out show ?thesis by simp
    qed
  next
    case Isolated
    with Cons.prems(1) x have "r = Inl isolated_extra_nic_error" "w1 = teardown_all h (primary # map snd infos) w"
      by (simp_all add: setup_extra_network_def)
    with teardown_all_balanced[OF assms(1) _ Cons.prems(2)] show ?thesis by simp
  next
    case Nat
    from Cons.prems(1) x Nat
    have "setup_extra_networks h i primary (infos @ [(extra_net_id index, NatInfo)]) rest w = (r, w1)"
      by (simp add: setup_extra_network_def)
    moreover have "balanced h T N (primary # map snd (infos @ [(extra_net_id index, NatInfo)])) w"
      using Cons.prems(2) by (auto simp: balanced_def)
    ultimately show ?thesis using Cons.IH Cons.prems(3) by simp
  qed
qed auto

lemma setup_primary_balanced:
  assumes "ip_laws h" "setup_primary_network h c w = (r, w1)" "primary_net_isolated_iface \<notin> hn_names h w"
    and "\<forall>t. primary_tap c = Some t \<longrightarrow> t \<in> T"
  shows "case r of Inl _ \<Rightarrow> may_attach h T \<longrightarrow> hn_names h w1 = hn_names h w | Inr info \<Rightarrow> balanced h T (hn_names h w) [info] w1"
proof (cases "net_mode (ic_network c)")
  case Nat
  with assms(2) show ?thesis by (auto simp: setup_primary_network_def balanced_def)
next
  case Isolated
  obtain a wa where a: "setup_isolated h primary_net_isolated_iface w = (a, wa)"
    by (cases "setup_isolated h primary_net_isolated_iface w")
  have net: "a = Inr net \<Longrightarrow> in_tap_iface net = primary_net_isolated_iface" for net
    using a by (auto simp: setup_isolated_def Let_def isolated_net_new_def split: sum.splits prod.splits)
  from assms(2,3) Isolated a net setup_isolated_names[OF assms(1) a] show ?thesis
    by (cases a) (auto simp: setup_primary_network_def balanced_def)
next
  case (Bridge br)
  let ?t = "primary_net_bridge_tap_iface (show_instance_id (ic_id c))"
  have t: "?t \<in> T" using assms(4) Bridge by (simp add: primary_tap_def)
  obtain a wa where a: "setup_bridge h br ?t w = (a, wa)" by (cases "setup_bridge h br ?t w")
  show ?thesis
  proof (cases a)
    case (Inl e)
    with assms(2) Bridge a setup_bridge_failed[OF assms(1) _ t a[unfolded Inl]] show ?thesis
      by (auto simp: setup_primary_network_def)
  next
    case (Inr u)
    from assms(2) Bridge a Inr have "r = Inr (BridgeInfo br ?t)" "w1 = wa" by (simp_all add: setup_primary_network_def)
    with setup_bridge_done[OF assms(1), of br ?t w wa] a Inr t show ?thesis by (simp add: balanced_def)
  qed
qed

lemma host_taps_parts:
  "primary_tap c = Some t \<Longrightarrow> t \<in> host_taps c"
  "x \<in> set (enumerate 0 (ic_extra_networks c)) \<Longrightarrow> extra_tap (show_instance_id (ic_id c)) x = Some t \<Longrightarrow> t \<in> host_taps c"
  by (auto simp: host_taps_def)

lemma start_balanced:
  assumes "host_laws b" "primary_net_isolated_iface \<notin> hn_names (be_net b) w"
    and "start_networks_and_process b c args w = (r, w1)"
  shows "case r of
      Inl _ \<Rightarrow> may_delete (be_net b) (host_taps c) \<and> may_attach (be_net b) (host_taps c)
        \<longrightarrow> hn_names (be_net b) w1 = hn_names (be_net b) w
    | Inr ri \<Rightarrow> balanced (be_net b) (host_taps c) (hn_names (be_net b) w) (ri_network ri # map snd (ri_extras ri)) w1"
proof -
  let ?h = "be_net b" and ?i = "show_instance_id (ic_id c)" and ?x = "enumerate 0 (ic_extra_networks c)" and ?T = "host_taps c"
  note laws = host_ip_laws[OF assms(1)]
  obtain p wa where p: "setup_primary_network ?h c w = (p, wa)" by (cases "setup_primary_network ?h c w")
  have sp: "case p of Inl _ \<Rightarrow> may_attach ?h ?T \<longrightarrow> hn_names ?h wa = hn_names ?h w
      | Inr info \<Rightarrow> balanced ?h ?T (hn_names ?h w) [info] wa"
    by (rule setup_primary_balanced[OF laws p assms(2)]) (simp add: host_taps_parts(1))
  show ?thesis
  proof (cases p)
    case (Inl e)
    with assms(3) p sp show ?thesis by (auto simp: start_networks_and_process_def)
  next
    case (Inr primary)
    obtain x wb where x: "setup_extra_networks ?h ?i primary [] ?x wa = (x, wb)"
      by (cases "setup_extra_networks ?h ?i primary [] ?x wa")
    have "balanced ?h ?T (hn_names ?h w) (primary # map snd []) wa" using sp Inr by simp
    from setup_extras_balanced[OF laws x this] have sx: "case x of
        Inl _ \<Rightarrow> may_delete ?h ?T \<and> may_attach ?h ?T \<longrightarrow> hn_names ?h wb = hn_names ?h w
      | Inr xs \<Rightarrow> balanced ?h ?T (hn_names ?h w) (primary # map snd xs) wb" using host_taps_parts(2)[of _ c] by blast
    show ?thesis
    proof (cases x)
      case Inlx: (Inl e)
      with assms(3) p Inr x sx show ?thesis by (auto simp: start_networks_and_process_def)
    next
      case Inrx: (Inr extras)
      let ?call = "spawn_process b args (qmp_socket_path_for b c) (qemu_log_path c) (\<not> be_dev_restart b)
          (map_option (map unat) (cpu_affinity (ic_cpu c))) (info_launcher primary) wb"
      obtain q wc where q: "?call = (q, wc)" by (cases ?call)
      have bal: "balanced ?h ?T (hn_names ?h w) (primary # map snd extras) wc"
        using sx Inrx balanced_cong[OF _ spawn_process_names[OF assms(1) q]] by simp
      with assms(3) p Inr x Inrx q teardown_all_balanced[OF laws _ bal] show ?thesis
        by (auto simp: start_networks_and_process_def split: sum.splits)
    qed
  qed
qed

section \<open>A failed start on any host\<close>

text \<open>Whatever \<open>ip\<close> answers, the host keeps the interfaces \<open>N\<close> it had, and the networks recorded so far
  stand for taps that were made since.\<close>

definition within :: "'w host_net \<Rightarrow> string set \<Rightarrow> string set \<Rightarrow> network_info list \<Rightarrow> 'w \<Rightarrow> bool" where
  "within h T N infos w \<longleftrightarrow> N \<subseteq> hn_names h w \<and> hn_names h w \<subseteq> N \<union> T
     \<and> (\<forall>info \<in> set infos. \<forall>t. info_tap info = Some t \<longrightarrow> t \<notin> N \<or> t = primary_net_isolated_iface)"

definition bounded :: "'w host_net \<Rightarrow> string set \<Rightarrow> string set \<Rightarrow> 'w \<Rightarrow> bool" where
  "bounded h T N w \<longleftrightarrow> N - {primary_net_isolated_iface} \<subseteq> hn_names h w \<and> hn_names h w \<subseteq> N \<union> T"

lemma teardown_all_subset: "ip_laws h \<Longrightarrow> hn_names h (teardown_all h infos w) \<subseteq> hn_names h w"
proof (induction infos arbitrary: w)
  case (Cons info infos)
  have "hn_names h (teardown_network_info h info w) \<subseteq> hn_names h w"
    unfolding teardown_network_info_def by (rule teardown_network_subset[OF Cons.prems surjective_pairing])
  with Cons.IH[OF Cons.prems] show ?case by fastforce
qed simp

lemma teardown_all_within:
  assumes "ip_laws h" "within h T N infos w"
  shows "bounded h T N (teardown_all h infos w)"
  unfolding bounded_def
proof (intro conjI subsetI)
  fix t assume t: "t \<in> N - {primary_net_isolated_iface}"
  show "t \<in> hn_names h (teardown_all h infos w)"
    by (rule teardown_all_keeps[OF assms(1)]) (use t assms(2) in \<open>auto simp: within_def\<close>)
next
  fix t assume "t \<in> hn_names h (teardown_all h infos w)"
  then show "t \<in> N \<union> T" using teardown_all_subset[OF assms(1)] assms(2) unfolding within_def by blast
qed

lemma setup_bridge_within:
  assumes "ip_laws h" "setup_bridge h br t w = (r, w1)" "within h T N infos w" "t \<in> T"
  shows "within h T N infos w1" "r = Inr () \<Longrightarrow> t \<notin> N"
  using setup_bridge_names[OF assms(1,2)] assms(3,4) by (auto simp: within_def)

lemma setup_extra_within:
  assumes "ip_laws h" "setup_extra_network h n index i w = (r, w1)" "within h T N infos w"
    and "\<And>t. extra_tap i (index, n) = Some t \<Longrightarrow> t \<in> T"
  shows "within h T N infos w1" "r = Inr info \<Longrightarrow> info_tap info = Some t \<Longrightarrow> t \<notin> N"
proof -
  have "within h T N infos w1 \<and> (r = Inr info \<longrightarrow> info_tap info = Some t \<longrightarrow> t \<notin> N)"
  proof (cases "net_mode n")
    case (Bridge br)
    let ?t = "extra_net_bridge_tap_iface i index"
    obtain d wd where d: "setup_bridge h br ?t w = (d, wd)" by (cases "setup_bridge h br ?t w")
    have "?t \<in> T" using assms(4) Bridge by (simp add: extra_tap_def)
    note in_bridge = setup_bridge_within[OF assms(1) d assms(3) this]
    from assms(2) Bridge d in_bridge show ?thesis
      by (cases d) (auto simp: setup_extra_network_def info_tap_def)
  qed (use assms(2,3) in \<open>auto simp: setup_extra_network_def info_tap_def\<close>)
  then show "within h T N infos w1" "r = Inr info \<Longrightarrow> info_tap info = Some t \<Longrightarrow> t \<notin> N" by simp_all
qed

lemma setup_extras_within:
  assumes "ip_laws h" "setup_extra_networks h i primary infos rest w = (r, w1)" "within h T N (primary # map snd infos) w"
    and "\<forall>x \<in> set rest. \<forall>t. extra_tap i x = Some t \<longrightarrow> t \<in> T"
  shows "case r of Inl _ \<Rightarrow> bounded h T N w1 | Inr xs \<Rightarrow> within h T N (primary # map snd xs) w1"
  using assms(2-4)
proof (induction rest arbitrary: infos w)
  case (Cons x rest)
  obtain index n where x: "x = (index, n)" by (cases x)
  obtain a wa where a: "setup_extra_network h n index i w = (a, wa)" by (cases "setup_extra_network h n index i w")
  have tap: "\<And>t. extra_tap i (index, n) = Some t \<Longrightarrow> t \<in> T" using Cons.prems(3) x by simp
  note now = setup_extra_within(1)[OF assms(1) a Cons.prems(2) tap]
  have new: "info_tap info = Some t \<Longrightarrow> t \<notin> N" if "a = Inr info" for info t
    by (rule setup_extra_within(2)[OF assms(1) a Cons.prems(2) tap that])
  show ?case
  proof (cases a)
    case (Inl e)
    with Cons.prems(1) a x teardown_all_within[OF assms(1) now] show ?thesis by auto
  next
    case (Inr info)
    have "within h T N (primary # map snd (infos @ [(extra_net_id index, info)])) wa"
      using now new[OF Inr] by (auto simp: within_def)
    moreover from Cons.prems(1) a x Inr
    have "setup_extra_networks h i primary (infos @ [(extra_net_id index, info)]) rest wa = (r, w1)" by simp
    ultimately show ?thesis using Cons.IH Cons.prems(3) by simp
  qed
qed auto

lemma setup_primary_within:
  assumes "ip_laws h" "setup_primary_network h c w = (r, w1)" "\<forall>t. primary_tap c = Some t \<longrightarrow> t \<in> T"
  shows "case r of Inl _ \<Rightarrow> bounded h T (hn_names h w) w1 | Inr info \<Rightarrow> within h T (hn_names h w) [info] w1"
proof (cases "net_mode (ic_network c)")
  case Nat
  with assms(2) show ?thesis by (auto simp: setup_primary_network_def within_def info_tap_def)
next
  case Isolated
  obtain a wa where a: "setup_isolated h primary_net_isolated_iface w = (a, wa)"
    by (cases "setup_isolated h primary_net_isolated_iface w")
  have net: "a = Inr net \<Longrightarrow> in_tap_iface net = primary_net_isolated_iface" for net
    using a by (auto simp: setup_isolated_def Let_def isolated_net_new_def split: sum.splits prod.splits)
  from assms(2) Isolated a net setup_isolated_names[OF assms(1) a] show ?thesis
    by (cases a) (auto simp: setup_primary_network_def within_def bounded_def info_tap_def)
next
  case (Bridge br)
  let ?t = "primary_net_bridge_tap_iface (show_instance_id (ic_id c))"
  have t: "?t \<in> T" using assms(3) Bridge by (simp add: primary_tap_def)
  obtain a wa where a: "setup_bridge h br ?t w = (a, wa)" by (cases "setup_bridge h br ?t w")
  from assms(2) Bridge a t setup_bridge_names[OF assms(1) a] show ?thesis
    by (cases a) (auto simp: setup_primary_network_def within_def bounded_def info_tap_def)
qed

lemma start_bounded:
  assumes "host_laws b" "start_networks_and_process b c args w = (Inl e, w1)"
  shows "bounded (be_net b) (host_taps c) (hn_names (be_net b) w) w1"
proof -
  let ?h = "be_net b" and ?i = "show_instance_id (ic_id c)" and ?x = "enumerate 0 (ic_extra_networks c)" and ?T = "host_taps c"
  note laws = host_ip_laws[OF assms(1)]
  obtain p wa where p: "setup_primary_network ?h c w = (p, wa)" by (cases "setup_primary_network ?h c w")
  have sp: "case p of Inl _ \<Rightarrow> bounded ?h ?T (hn_names ?h w) wa | Inr info \<Rightarrow> within ?h ?T (hn_names ?h w) [info] wa"
    by (rule setup_primary_within[OF laws p]) (simp add: host_taps_parts(1))
  show ?thesis
  proof (cases p)
    case (Inl e)
    with assms(2) p sp show ?thesis by (auto simp: start_networks_and_process_def)
  next
    case (Inr primary)
    obtain x wb where x: "setup_extra_networks ?h ?i primary [] ?x wa = (x, wb)"
      by (cases "setup_extra_networks ?h ?i primary [] ?x wa")
    have "within ?h ?T (hn_names ?h w) (primary # map snd []) wa" using sp Inr by simp
    from setup_extras_within[OF laws x this] have sx: "case x of Inl _ \<Rightarrow> bounded ?h ?T (hn_names ?h w) wb
      | Inr xs \<Rightarrow> within ?h ?T (hn_names ?h w) (primary # map snd xs) wb" using host_taps_parts(2)[of _ c] by blast
    show ?thesis
    proof (cases x)
      case Inlx: (Inl e)
      with assms(2) p Inr x sx show ?thesis by (auto simp: start_networks_and_process_def)
    next
      case Inrx: (Inr extras)
      let ?call = "spawn_process b args (qmp_socket_path_for b c) (qemu_log_path c) (\<not> be_dev_restart b)
          (map_option (map unat) (cpu_affinity (ic_cpu c))) (info_launcher primary) wb"
      obtain q wc where q: "?call = (q, wc)" by (cases ?call)
      have "within ?h ?T (hn_names ?h w) (primary # map snd extras) wc"
        using sx Inrx spawn_process_names[OF assms(1) q] by (simp add: within_def)
      note out = teardown_all_within[OF laws this]
      with assms(2) p Inr x Inrx q show ?thesis
        by (auto simp: start_networks_and_process_def split: sum.splits)
    qed
  qed
qed

section \<open>Starting and stopping\<close>

text \<open>What \<open>spawn\<close> comes down to once its arguments are there.\<close>

lemma spawn_cases:
  assumes "host_laws b" "spawn b c s = (r, s1)"
  shows "(\<exists>e. r = Inl e) \<and> qb_instances s1 = qb_instances s \<and> hn_names (be_net b) (qb_world s1) = hn_names (be_net b) (qb_world s)
    \<or> (\<exists>args w0 a w1. build_args (console_socket_path b) c (qmp_socket_path_for b c) = Inr args
        \<and> hn_names (be_net b) w0 = hn_names (be_net b) (qb_world s) \<and> start_networks_and_process b c args w0 = (a, w1)
        \<and> (case a of Inl e \<Rightarrow> r = Inl e \<and> s1 = s\<lparr>qb_world := w1\<rparr>
          | Inr ri \<Rightarrow> r = Inr (backend_handle_for c) \<and> s1 = insert_instance b (backend_handle_for c) ri (s\<lparr>qb_world := w1\<rparr>)))"
proof (cases "is_implemented (gpu_render (ic_gpu c))")
  case False
  with assms(2) show ?thesis by (auto simp: spawn_def)
next
  case True
  let ?N = "hn_names (be_net b)"
  obtain r1 wa where d1: "private_parent b (qmp_socket_path_for b c) (qb_world s) = (r1, wa)"
    by (cases "private_parent b (qmp_socket_path_for b c) (qb_world s)")
  obtain r2 wb where d2: "private_parent b (console_socket_path b (ic_id c)) wa = (r2, wb)"
    by (cases "private_parent b (console_socket_path b (ic_id c)) wa")
  let ?w = "be_unlink b (qmp_socket_path_for b c) wb"
  have names: "?N wa = ?N (qb_world s)" "?N wb = ?N (qb_world s)" "?N ?w = ?N (qb_world s)"
    using private_parent_names[OF assms(1) d1] private_parent_names[OF assms(1) d2] quiet_names(2)[OF assms(1)] by simp_all
  show ?thesis
  proof (cases "\<exists>e. r1 = Inl e \<or> r2 = Inl e \<or> build_args (console_socket_path b) c (qmp_socket_path_for b c) = Inl e")
    case early: True
    from early True assms(2) d1 d2 names show ?thesis by (auto simp: spawn_def Let_def split: sum.splits)
  next
    case False
    then obtain args where ok: "r1 = Inr ()" "r2 = Inr ()" "build_args (console_socket_path b) c (qmp_socket_path_for b c) = Inr args"
      by (metis (full_types) old.unit.exhaust sum.exhaust)
    obtain a w1 where a: "start_networks_and_process b c args ?w = (a, w1)" by (cases "start_networks_and_process b c args ?w")
    have out: "case a of Inl e \<Rightarrow> r = Inl e \<and> s1 = s\<lparr>qb_world := w1\<rparr>
          | Inr ri \<Rightarrow> r = Inr (backend_handle_for c) \<and> s1 = insert_instance b (backend_handle_for c) ri (s\<lparr>qb_world := w1\<rparr>)"
      using assms(2) True d1 d2 ok a by (cases a) (auto simp: spawn_def Let_def)
    show ?thesis by (intro disjI2 exI conjI) (rule ok(3), rule names(3), rule a, rule out)
  qed
qed

text \<open>C7. A start that fails, at whatever step and whatever \<open>ip\<close> answers, records no instance and takes no
  interface off the host except the one of isolated guests. What it leaves behind that was not
  there are taps of this instance, and while such a tap is there every start of the instance fails.
  It leaves nothing behind when the host had no interface of isolated guests and the daemon may
  attach the instance's taps to bridges and delete them.\<close>

theorem failed_start_interfaces:
  assumes "host_laws b" "spawn b c s = (Inl e, s1)"
  shows "qb_instances s1 = qb_instances s
    \<and> hn_names (be_net b) (qb_world s) - {primary_net_isolated_iface} \<subseteq> hn_names (be_net b) (qb_world s1)
    \<and> (\<forall>t \<in> hn_names (be_net b) (qb_world s1) - hn_names (be_net b) (qb_world s). t \<in> host_taps c
         \<and> (\<forall>s2. t \<in> hn_names (be_net b) (qb_world s2) \<longrightarrow> (\<exists>e2. fst (spawn b c s2) = Inl e2)))
    \<and> (primary_net_isolated_iface \<notin> hn_names (be_net b) (qb_world s) \<and> may_delete (be_net b) (host_taps c)
         \<and> may_attach (be_net b) (host_taps c) \<longrightarrow> hn_names (be_net b) (qb_world s1) = hn_names (be_net b) (qb_world s))"
proof -
  let ?N = "\<lambda>s. hn_names (be_net b) (qb_world s)"
  have all: "qb_instances s1 = qb_instances s \<and> bounded (be_net b) (host_taps c) (?N s) (qb_world s1)
    \<and> (primary_net_isolated_iface \<notin> ?N s \<and> may_delete (be_net b) (host_taps c) \<and> may_attach (be_net b) (host_taps c)
        \<longrightarrow> ?N s1 = ?N s)"
    using spawn_cases[OF assms]
  proof (elim disjE exE conjE)
    fix args w0 a w1
    assume names: "hn_names (be_net b) w0 = ?N s" and a: "start_networks_and_process b c args w0 = (a, w1)"
      and out: "case a of Inl e' \<Rightarrow> Inl e = Inl e' \<and> s1 = s\<lparr>qb_world := w1\<rparr>
        | Inr ri \<Rightarrow> Inl e = Inr (backend_handle_for c) \<and> s1 = insert_instance b (backend_handle_for c) ri (s\<lparr>qb_world := w1\<rparr>)"
    from out obtain e' where e': "a = Inl e'" "s1 = s\<lparr>qb_world := w1\<rparr>" by (cases a) auto
    have "start_networks_and_process b c args w0 = (Inl e', w1)" using a e' by simp
    from start_bounded[OF assms(1) this] e' names start_balanced[OF assms(1) _ this] show ?thesis by simp
  qed (simp_all add: bounded_def)
  have stuck: "\<exists>e2. fst (spawn b c s2) = Inl e2" if "t \<in> host_taps c" "t \<in> ?N s2" for t s2
    using spawn_stale[OF assms(1) that surjective_pairing] by simp
  from all stuck show ?thesis by (auto simp: bounded_def)
qed

text \<open>C6. Stopping a started instance gives back what the start took: the interfaces of the host are
  the ones before the start, every tear-down succeeds, and the instance is forgotten. The daemon must be
  allowed to take the instance's own taps down, the interface of isolated guests must not have been on
  the host, the instance must not have been running already, and its process must end.\<close>

theorem stop_undoes_start:
  assumes "host_laws b" "may_delete (be_net b) (host_taps c)"
    and "primary_net_isolated_iface \<notin> hn_names (be_net b) (qb_world s)"
    and "spawn b c s = (Inr bh, s1)" "qb_instances s bh = None" "stop b bh graceful s1 = (r, s2)"
    and "qb_instances s1 bh = Some ri" "fst (end_process b graceful (ri_process ri) (qb_world s1)) = Inr ()"
  shows "r = Inr () \<and> qb_instances s2 = qb_instances s \<and> hn_names (be_net b) (qb_world s2) = hn_names (be_net b) (qb_world s)"
  using spawn_cases[OF assms(1,4)]
proof (elim disjE exE conjE)
  let ?h = "be_net b" and ?T = "host_taps c"
  let ?N = "hn_names ?h (qb_world s)"
  fix args w0 a w1
  assume names: "hn_names ?h w0 = ?N" and a: "start_networks_and_process b c args w0 = (a, w1)"
    and out: "case a of Inl e' \<Rightarrow> Inr bh = Inl e' \<and> s1 = s\<lparr>qb_world := w1\<rparr>
      | Inr ri \<Rightarrow> Inr bh = Inr (backend_handle_for c) \<and> s1 = insert_instance b (backend_handle_for c) ri (s\<lparr>qb_world := w1\<rparr>)"
  note laws = host_ip_laws[OF assms(1)]
  from out obtain ri' where ri': "a = Inr ri'" "bh = backend_handle_for c"
      "s1 = insert_instance b bh ri' (s\<lparr>qb_world := w1\<rparr>)" by (cases a) auto
  then have same: "ri' = ri" and world: "qb_world s1 = w1" and map: "qb_instances s1 = (qb_instances s)(bh \<mapsto> ri)"
    using assms(5,7) by (auto simp: insert_instance_def)
  obtain we where we: "end_process b graceful (ri_process ri) w1 = (Inr (), we)"
    using assms(8) world by (cases "end_process b graceful (ri_process ri) w1") auto
  have "primary_net_isolated_iface \<notin> hn_names ?h w0" using names assms(3) by simp
  from start_balanced[OF assms(1) this a] ri'(1) same names
  have "balanced ?h ?T ?N (ri_network ri # map snd (ri_extras ri)) w1" by simp
  then have bal: "balanced ?h ?T ?N (ri_network ri # map snd (ri_extras ri)) (drop_process b (ri_process ri) we)"
    by (rule balanced_cong) (simp add: drop_process_names[OF assms(1)] end_process_names[OF assms(1) we])
  from teardown_network_balanced[OF laws assms(2) bal] obtain wf
    where f: "teardown_network ?h (ri_network ri) (drop_process b (ri_process ri) we) = (Inr (), wf)"
      "balanced ?h ?T ?N (map snd (ri_extras ri)) wf" by blast
  from stop_extras_balanced[OF laws assms(2) f(2)] obtain wg
    where g: "stop_extras ?h (ri_extras ri) wf = (Inr (), wg)" "hn_names ?h wg = ?N" by blast
  have "qb_instances s1 bh = Some ri" by (simp add: map)
  with assms(6) we f g world have "r = Inr ()" "qb_world s2 = wg" "qb_instances s2 = (qb_instances s1)(bh := None)"
    by (auto simp: stop_def forget_instance_def Let_def)
  with map g(2) assms(5) show ?thesis by (auto simp: fun_eq_iff)
qed simp_all

section \<open>Isolated guests\<close>

lemma setup_isolated_ok:
  assumes "setup_isolated h tap w = (Inr net, w1)"
  shows "\<exists>run v. net = isolated_net_new tap \<and> run_probe h net w = (Inr run, w1) \<and> pr_view run = Some v
    \<and> Some (nv_netns v) \<noteq> map_option nv_netns (read_view (hn_proc h (hn_self h) w1))
    \<and> tap \<in> set (nv_ifaces v) \<and> set (nv_ifaces v) \<subseteq> {''lo'', tap} \<and> nv_v4_routes v = 0"
proof -
  let ?net = "isolated_net_new tap"
  have net: "net = ?net" and ok: "preflight h ?net w = (Inr (), w1)"
    using assms by (auto simp: setup_isolated_def Let_def split: prod.splits sum.splits)
  have tap: "in_tap_iface ?net = tap" by (simp add: isolated_net_new_def)
  obtain p wa where p: "run_probe h ?net w = (p, wa)" by (cases "run_probe h ?net w")
  from ok p obtain run where run: "p = Inr run" "wa = w1"
    by (auto simp: preflight_def Let_def split: if_splits option.splits sum.splits)
  from ok p run obtain v where v: "pr_view run = Some v" "Some (nv_netns v) \<noteq> map_option nv_netns (read_view (hn_proc h (hn_self h) w1))"
      "has_iface tap v" "leaks tap v = []"
    unfolding preflight_def Let_def tap by (auto split: if_splits option.splits)
  have "set (nv_ifaces v) \<subseteq> {''lo'', tap}" "nv_v4_routes v = 0"
    using v(4) by (auto simp: leaks_def filter_empty_conv split: if_splits)
  with v net p run show ?thesis by (auto simp: has_iface_def)
qed

text \<open>C8. An isolated guest that started was preceded by a probe of the very launcher it runs under:
  the probe's namespace was not the host's, held loopback and the tap only and had no route. The
  start made no interface on the host, and no network card can be added to the guest later.\<close>

theorem isolated_start_was_probed:
  assumes "host_laws b" "spawn b c s = (Inr bh, s1)" "net_mode (ic_network c) = Isolated"
  shows "\<exists>ri net w0 run w1 v. qb_instances s1 bh = Some ri \<and> ri_network ri = IsolatedInfo net
    \<and> run_probe (be_net b) net w0 = (Inr run, w1) \<and> pr_view run = Some v
    \<and> Some (nv_netns v) \<noteq> map_option nv_netns (read_view (hn_proc (be_net b) (hn_self (be_net b)) w1))
    \<and> set (nv_ifaces v) \<subseteq> {''lo'', in_tap_iface net} \<and> nv_v4_routes v = 0
    \<and> (\<exists>args w2 pid w3. be_exec b
          ((case cpu_affinity (ic_cpu c) of None \<Rightarrow> [] | Some cpus \<Rightarrow> [''taskset'', ''-c'', join '','' (map (show_nat \<circ> unat) cpus)])
             @ in_launcher net @ ''qemu-system-x86_64'' # args) (\<not> be_dev_restart b) w2 = (Inr pid, w3))
    \<and> hn_names (be_net b) (qb_world s1) = hn_names (be_net b) (qb_world s)
    \<and> (\<forall>n k. \<exists>e. fst (backend_attach_network b bh n k s1) = Inl e)"
  using spawn_cases[OF assms(1,2)]
proof (elim disjE exE conjE)
  let ?h = "be_net b"
  fix args w0 a w1
  assume args: "build_args (console_socket_path b) c (qmp_socket_path_for b c) = Inr args"
    and names: "hn_names ?h w0 = hn_names ?h (qb_world s)" and a: "start_networks_and_process b c args w0 = (a, w1)"
    and out: "case a of Inl e' \<Rightarrow> Inr bh = Inl e' \<and> s1 = s\<lparr>qb_world := w1\<rparr>
      | Inr ri \<Rightarrow> Inr bh = Inr (backend_handle_for c) \<and> s1 = insert_instance b (backend_handle_for c) ri (s\<lparr>qb_world := w1\<rparr>)"
  note laws = host_ip_laws[OF assms(1)]
  from out obtain ri where ri: "a = Inr ri" "s1 = insert_instance b bh ri (s\<lparr>qb_world := w1\<rparr>)" by (cases a) auto
  have "\<not> ((\<exists>pci. gpu_render (ic_gpu c) = Passthrough pci) \<or> net_mode (ic_network c) = Isolated \<and> ic_extra_networks c \<noteq> []
      \<or> (\<exists>n \<in> set (ic_extra_networks c). net_mode n = Isolated))"
    using args build_args_ok_iff[of "console_socket_path b" c "qmp_socket_path_for b c"] by blast
  then have none: "ic_extra_networks c = []" using assms(3) by blast
  obtain p wa where p: "setup_isolated ?h primary_net_isolated_iface w0 = (p, wa)"
    by (cases "setup_isolated ?h primary_net_isolated_iface w0")
  from a ri(1) p assms(3) obtain net where net: "p = Inr net"
    by (cases p) (auto simp: start_networks_and_process_def setup_primary_network_def)
  let ?argv = "process_argv args (map_option (map unat) (cpu_affinity (ic_cpu c))) (Some (in_launcher net))"
  have argv: "?argv = (case cpu_affinity (ic_cpu c) of None \<Rightarrow> [] | Some cpus \<Rightarrow> [''taskset'', ''-c'', join '','' (map (show_nat \<circ> unat) cpus)])
      @ in_launcher net @ ''qemu-system-x86_64'' # args"
    by (cases "cpu_affinity (ic_cpu c)") (simp_all add: process_argv_def)
  obtain q wc where q: "spawn_process b args (qmp_socket_path_for b c) (qemu_log_path c) (\<not> be_dev_restart b)
      (map_option (map unat) (cpu_affinity (ic_cpu c))) (Some (in_launcher net)) wa = (q, wc)" by fastforce
  from a ri(1) p net assms(3) none q have st: "ri_network ri = IsolatedInfo net" "wc = w1" "\<exists>pr. q = Inr pr"
    by (auto simp: start_networks_and_process_def setup_primary_network_def info_launcher_def split: sum.splits)
  from q st(3) obtain pid wd where ex: "be_exec b ?argv (\<not> be_dev_restart b) wa = (Inr pid, wd)"
    by (auto simp: spawn_process_def Let_def split: prod.splits sum.splits)
  from setup_isolated_ok[of ?h primary_net_isolated_iface w0 net wa] p net obtain run v where v:
      "net = isolated_net_new primary_net_isolated_iface" "run_probe ?h net w0 = (Inr run, wa)" "pr_view run = Some v"
      "Some (nv_netns v) \<noteq> map_option nv_netns (read_view (hn_proc ?h (hn_self ?h) wa))"
      "set (nv_ifaces v) \<subseteq> {''lo'', primary_net_isolated_iface}" "nv_v4_routes v = 0" by blast
  have tap: "in_tap_iface net = primary_net_isolated_iface" using v(1) by (simp add: isolated_net_new_def)
  have world: "hn_names ?h (qb_world s1) = hn_names ?h (qb_world s)"
    using ri(2) insert_instance_sel(2)[OF assms(1)] setup_isolated_names[OF laws p] spawn_process_names[OF assms(1) q] st(2) names
    by simp
  have got: "qb_instances s1 bh = Some ri" using ri(2) insert_instance_sel(1)[OF assms(1)] by simp
  have refuse: "\<exists>e. fst (backend_attach_network b bh n k s1) = Inl e" for n k
    using got st(1) by (auto simp: backend_attach_network_def is_isolated_info_def split: sum.splits)
  show ?thesis
    by (rule exI[of _ ri], rule exI[of _ net], rule exI[of _ w0], rule exI[of _ run], rule exI[of _ wa], rule exI[of _ v])
      (use got st(1) v tap ex[unfolded argv] world refuse in auto)
qed simp_all

end
