(* ===== verification/BackendGuest.thy ===== *)
theory BackendGuest
  imports BackendStart
begin

text \<open>
  What the backend learns from a running QEMU: whether a process is the instance's own, what its
  status is, and which network cards it takes.
\<close>

section \<open>Whose process it is\<close>

text \<open>Process \<open>pid\<close> was started for configuration \<open>c\<close>: one of its arguments is the \<open>-name\<close> value.\<close>

definition runs_for :: "'w backend_env \<Rightarrow> nat \<Rightarrow> instance_config \<Rightarrow> 'w \<Rightarrow> bool" where
  "runs_for b pid c w \<longleftrightarrow> (\<exists>cmdline. be_cmdline b pid w = Inr cmdline \<and> last (name_args c) \<in> set (split_on (CHR 0x00) cmdline))"

lemma contains_middle: "contains p (a @ p @ s)"
proof (induction a)
  case Nil
  have "starts_with p (p @ s)" by simp
  then show ?case by (cases "p @ s") simp_all
next
  case (Cons x a)
  then show ?case by simp
qed

lemma marker_of_name: "ic_name c' = ic_name c @ suffix \<Longrightarrow> contains (process_marker (ic_name c)) (last (name_args c'))"
  using contains_middle[of "process_marker (ic_name c)" "ic_name c @ suffix @ '',''" suffix]
  by (simp add: name_args_def process_marker_def)

lemma runs_for_verified:
  "runs_for b pid c' w \<Longrightarrow> ic_name c' = ic_name c @ suffix \<Longrightarrow> verify_cmdline_marker b pid (ic_name c) w = Inr ()"
  using marker_of_name[of c' c suffix] by (auto simp: runs_for_def verify_cmdline_marker_def list_ex_iff)

lemma filter_two:
  assumes "p1 \<in> set xs" "p2 \<in> set xs" "p1 \<noteq> p2" "P p1" "P p2"
  shows "\<exists>x y zs. filter P xs = x # y # zs"
proof -
  have "{p1, p2} \<subseteq> set (filter P xs)" using assms by simp
  then have "card {p1, p2} \<le> length (filter P xs)"
    using card_mono[OF finite_set] card_length[of "filter P xs"] by (meson le_trans)
  then have "2 \<le> length (filter P xs)" using assms(3) by simp
  then show ?thesis by (cases "filter P xs"; cases "tl (filter P xs)") auto
qed

text \<open>C10. When another running instance's name begins with this one's and QEMU does not say which
  process it is (\<open>query-processes\<close> fails), a restarted daemon does not take this instance over,
  although its QEMU answers on its socket: the marker is found in both processes, and the inode of the
  socket file, which the code looks for among their open files, is the number of none of their sockets
  (\<open>/proc\<close> shows the numbers of the kernel's socket file system, where the files can be read at all).\<close>

theorem longer_name_blocks_adoption:
  assumes "be_connect b (qmp_socket_path_for b c) (qb_world s) = (Connected, w1)"
    and "be_status b (qmp_socket_path_for b c) w1 = (Inr VmRunning, w2)"
    and "be_owner b (qmp_socket_path_for b c) w2 = (Inl e, w3)"
    and "be_pids b w3 = Inr pids" "p1 \<in> set pids" "p2 \<in> set pids" "p1 \<noteq> p2"
    and "runs_for b p1 c w3" "runs_for b p2 c' w3" "ic_name c' = ic_name c @ suffix"
    and "\<And>p inode. p \<in> set pids \<Longrightarrow> verify_cmdline_marker b p (ic_name c) w3 = Inr () \<Longrightarrow>
      be_inode b (qmp_socket_path_for b c) w3 = Some inode \<Longrightarrow> \<not> holds_socket b inode w3 p"
  shows "\<exists>msg. adopt b c s = (Inl (BackendIo msg), s\<lparr>qb_world := w3\<rparr>)"
proof -
  let ?sock = "qmp_socket_path_for b c" and ?P = "\<lambda>p. verify_cmdline_marker b p (ic_name c) w3 = Inr ()"
  have p1: "?P p1" using runs_for_verified[OF assms(8), of c "[]"] by simp
  have p2: "?P p2" by (rule runs_for_verified[OF assms(9,10)])
  from filter_two[OF assms(5-7), of ?P, OF p1 p2]
  obtain x y zs where two: "filter ?P pids = x # y # zs" by (elim exE)
  have sub: "p \<in> set pids \<and> ?P p" if "p \<in> set (x # y # zs)" for p
    using that unfolding two[symmetric] by simp
  have none: "List.find (holds_socket b inode w3) (x # y # zs) = None" if "be_inode b ?sock w3 = Some inode" for inode
    unfolding find_None_iff using sub assms(11)[OF _ _ that] by blast
  have "\<exists>msg. scan_for_owner b ?sock (ic_name c) w3 = Inl msg"
    using assms(4) two none by (cases "be_inode b ?sock w3") (auto simp: scan_for_owner_def)
  then obtain msg where "resolve_owner_pid b ?sock (ic_name c) w2 = (Inl msg, w3)"
    using assms(3) by (auto simp: resolve_owner_pid_def)
  with assms(1,2) show ?thesis
    by (auto simp: adopt_def adopt_steps_def Let_def adoptable_state_def vm_status_to_instance_state_def)
qed

section \<open>Status\<close>

text \<open>A status is given for every known instance, whatever its monitor does: \<open>Stopped\<close> for a process
  that is gone or a guest that shut down, and clean only in the second case.\<close>

lemma status_outcome:
  assumes "qb_instances s bh = Some ri"
  shows "\<exists>st s1. status b bh s = (Inr st, s1) \<and> (bs_clean st \<longrightarrow> bs_state st = Stopped)
    \<and> (\<not> be_alive b (pc_pid (ri_process ri)) (qb_world s) \<longrightarrow> bs_state st = Stopped \<and> \<not> bs_clean st \<and> s1 = s)"
proof -
  obtain r ri1 w1 where e: "ensure_qmp_connected b ri (qb_world s) = (r, ri1, w1)" by (metis prod_cases3)
  obtain r2 w2 where q: "be_status b (pc_socket (ri_process ri)) w1 = (r2, w2)" by fastforce
  from assms e q show ?thesis
    by (cases r; cases r2) (auto simp: status_def observed_status_def vm_status_to_instance_state_def split: vm_status.splits)
qed

section \<open>Network cards\<close>

text \<open>\<open>nd\<close> observes the netdevs of the guest. QEMU refuses a netdev id that is in use, removes one on
  \<open>netdev_del\<close>, and a command that fails changes nothing; \<open>ip\<close> and connecting do not touch them.\<close>

definition netdev_added :: "monitor_command \<Rightarrow> string option" where
  "netdev_added cmd =
     (case cmd of MonNetdevTap n _ \<Rightarrow> Some n | MonNetdevUser n \<Rightarrow> Some n | MonNetdevPasst n \<Rightarrow> Some n | _ \<Rightarrow> None)"

definition netdev_laws :: "'w backend_env \<Rightarrow> ('w \<Rightarrow> string set) \<Rightarrow> bool" where
  "netdev_laws b nd \<longleftrightarrow>
     (\<forall>p cmd w r w1. be_command b p cmd w = (r, w1) \<longrightarrow>
        (case r of
           Inl e \<Rightarrow> is_reply_error e \<and> nd w1 = nd w
         | Inr _ \<Rightarrow>
             (case netdev_added cmd of
                Some n \<Rightarrow> n \<notin> nd w \<and> nd w1 = insert n (nd w)
              | None \<Rightarrow> nd w1 = (case cmd of MonNetdevDel n \<Rightarrow> nd w - {n} | _ \<Rightarrow> nd w))))
     \<and> (\<forall>args w. nd (snd (hn_ip (be_net b) args w)) = nd w)
     \<and> (\<forall>p w. nd (snd (be_connect b p w)) = nd w) \<and> (\<forall>n w. nd (be_sleep b n w) = nd w)"

lemma netdev_refused: "netdev_laws b nd \<Longrightarrow> be_command b p cmd w = (Inl e, w1) \<Longrightarrow> is_reply_error e \<and> nd w1 = nd w"
  unfolding netdev_laws_def by fastforce

lemma netdev_done:
  assumes "netdev_laws b nd" "be_command b p cmd w = (Inr u, w1)" "netdev_added cmd = Some n"
  shows "n \<notin> nd w \<and> nd w1 = insert n (nd w)"
  using assms unfolding netdev_laws_def by fastforce

lemma netdev_command_adds: "netdev_added (netdev_command back tap n) = Some n"
  by (auto simp: netdev_command_def netdev_added_def split: option.splits nat_backend.splits)

lemma netdev_ip: "netdev_laws b nd \<Longrightarrow> hn_ip (be_net b) args w = (r, w1) \<Longrightarrow> nd w1 = nd w"
  unfolding netdev_laws_def by (metis snd_conv)

lemma netdev_run_ips: "netdev_laws b nd \<Longrightarrow> nd (snd (run_ips (be_net b) cmds w)) = nd w"
proof (induction cmds arbitrary: w)
  case (Cons args cmds)
  obtain a wa where a: "run_ip (be_net b) args w = (a, wa)" by fastforce
  have "nd wa = nd w" using run_ip_cases[OF a] netdev_ip[OF Cons.prems] by blast
  with Cons a show ?case by (auto split: sum.splits)
qed simp

lemma netdev_bridges:
  assumes "netdev_laws b nd"
  shows "nd (snd (setup_bridge (be_net b) br t w)) = nd w" "nd (snd (teardown_bridge (be_net b) t w)) = nd w"
proof -
  obtain r wa where a: "hn_ip (be_net b) (ip_show br) w = (r, wa)" by fastforce
  show "nd (snd (setup_bridge (be_net b) br t w)) = nd w"
    using a netdev_ip[OF assms a] netdev_run_ips[OF assms]
    by (auto simp: setup_bridge_def simp del: run_ips.simps split: sum.splits option.splits)
  let ?cmds = "[ip_set t [''nomaster''], ip_set t [''down'']]"
  obtain r2 wb where b: "run_ips (be_net b) ?cmds w = (r2, wb)" by fastforce
  obtain r3 wc where c: "hn_ip (be_net b) (ip_del t) wb = (r3, wc)" by fastforce
  show "nd (snd (teardown_bridge (be_net b) t w)) = nd w"
    using b c netdev_run_ips[OF assms, of ?cmds w] netdev_ip[OF assms c]
    by (auto simp: teardown_bridge_def simp del: run_ips.simps split: sum.splits)
qed

lemma netdev_setup:
  assumes "netdev_laws b nd" "setup_extra_network (be_net b) n k i w = (r, w1)"
  shows "nd w1 = nd w" and "r = Inr info \<Longrightarrow> nd (teardown_network_info (be_net b) info w2) = nd w2"
proof -
  show "nd w1 = nd w"
    using assms(2) netdev_bridges(1)[OF assms(1)]
    by (auto simp: setup_extra_network_def Let_def split: network_mode.splits sum.splits prod.splits) (metis snd_conv)+
  show "nd (teardown_network_info (be_net b) info w2) = nd w2" if "r = Inr info"
    using assms(2) netdev_bridges(2)[OF assms(1)] that
    by (auto simp: setup_extra_network_def Let_def teardown_network_info_def teardown_network_def
        split: network_mode.splits sum.splits prod.splits)
qed

lemma netdev_connect: "netdev_laws b nd \<Longrightarrow> nd (snd (connect_loop b p m n w)) = nd w"
proof (induction n arbitrary: m w)
  case (Suc n)
  obtain r wa where a: "be_connect b (pc_socket p) w = (r, wa)" by fastforce
  have "nd wa = nd w" "\<And>k v. nd (be_sleep b k v) = nd v" using Suc.prems a unfolding netdev_laws_def by (metis snd_conv)+
  with Suc a show ?case by (auto split: connect_result.splits)
qed simp

lemma netdev_ensure:
  assumes "netdev_laws b nd" "ensure_qmp_connected b ri w = (r, ri1, w1)"
  shows "nd w1 = nd w"
proof -
  obtain q wa where q: "connect_loop b (ri_process ri) [] 300 w = (q, wa)" by fastforce
  with netdev_connect[OF assms(1), of "ri_process ri" "[]" 300 w] assms(2) show ?thesis
    by (auto simp: ensure_qmp_connected_def split: if_splits sum.splits)
qed

text \<open>A card is refused while its netdev id is taken, and the id stays taken.\<close>

lemma attach_nic_taken:
  assumes "netdev_laws b nd" "extra_net_id k \<in> nd w" "attach_nic b n tap k sock w = (r, w1)"
  shows "\<exists>e. r = Inl e \<and> is_reply_error e \<and> nd w1 = nd w"
proof -
  obtain a wa where a: "be_command b sock (netdev_command (net_nat_backend n) tap (extra_net_id k)) w = (a, wa)" by fastforce
  have "\<exists>e. a = Inl e"
    using netdev_done[OF assms(1) _ netdev_command_adds] a assms(2) by (cases a) blast+
  with a assms(3) netdev_refused[OF assms(1)] show ?thesis by (auto simp: attach_nic_def Let_def)
qed

lemma run_monitor_taken:
  assumes "netdev_laws b nd" "extra_net_id k \<in> nd w" "run_monitor_op b (attach_nic b n tap k) ri w = (r, ri1, j, w1)"
  shows "(\<exists>e. r = Inl e) \<and> extra_net_id k \<in> nd w1"
proof -
  obtain q ri2 wa where q: "ensure_qmp_connected b ri w = (q, ri2, wa)" by (metis prod_cases3)
  have na: "extra_net_id k \<in> nd wa" using netdev_ensure[OF assms(1) q] assms(2) by simp
  obtain a wb where a: "attach_nic b n tap k (pc_socket (ri_process ri)) wa = (a, wb)" by fastforce
  from attach_nic_taken[OF assms(1) na a] obtain e where e: "a = Inl e" "is_reply_error e" "nd wb = nd wa" by blast
  with assms(3) q a na show ?thesis by (cases q) (auto simp: run_monitor_op_def)
qed

lemma attach_network_taken:
  assumes "netdev_laws b nd" "extra_net_id k \<in> nd (qb_world s)" "backend_attach_network b bh n k s = (r, s1)"
  shows "(\<exists>e. r = Inl e) \<and> extra_net_id k \<in> nd (qb_world s1)"
proof (cases "qb_instances s bh")
  case None
  with assms(2,3) show ?thesis by (auto simp: backend_attach_network_def)
next
  case (Some ri)
  show ?thesis
  proof (cases "instance_id_from_handle bh")
    case (Inl e)
    with Some assms(2,3) show ?thesis by (auto simp: backend_attach_network_def)
  next
    case (Inr i)
    obtain q wa where q: "setup_extra_network (be_net b) n k i (qb_world s) = (q, wa)" by fastforce
    have na: "extra_net_id k \<in> nd wa" using netdev_setup(1)[OF assms(1) q] assms(2) by simp
    let ?tap = "case net_mode n of Bridge _ \<Rightarrow> Some (extra_net_bridge_tap_iface i k) | _ \<Rightarrow> None"
    obtain m ri1 j wb where m: "run_monitor_op b (attach_nic b n ?tap k) ri wa = (m, ri1, j, wb)" by (metis prod_cases4)
    note taken = run_monitor_taken[OF assms(1) na m]
    then obtain e where e: "m = Inl e" by blast
    show ?thesis
    proof (cases "is_isolated_info (ri_network ri)")
      case True
      with Some Inr assms(2,3) show ?thesis by (auto simp: backend_attach_network_def)
    next
      case False
      show ?thesis
      proof (cases q)
        case Inlq: (Inl e')
        with Some Inr False q na assms(3) show ?thesis by (auto simp: backend_attach_network_def)
      next
        case Inrq: (Inr info)
        from Some Inr False q Inrq m e assms(3)
        have "r = Inl e" "qb_world s1 = teardown_network_info (be_net b) info wb"
          by (auto simp: backend_attach_network_def Let_def put_instance_def)
        with netdev_setup(2)[OF assms(1) q Inrq] taken show ?thesis by simp
      qed
    qed
  qed
qed

text \<open>Several tries to add a card in the same place.\<close>

fun attach_tries :: "'w backend_env \<Rightarrow> backend_handle \<Rightarrow> nat \<Rightarrow> network_config list \<Rightarrow> 'w qemu_backend \<Rightarrow> 'w qemu_backend" where
  "attach_tries b bh k [] s = s"
| "attach_tries b bh k (n # ns) s = attach_tries b bh k ns (snd (backend_attach_network b bh n k s))"

text \<open>C13. When QEMU takes the netdev of a new network card and then refuses the card (a bad model, no
  free port), the netdev is not taken back: every further try to add a card in that place fails,
  whatever card it is.\<close>

theorem refused_card_blocks_its_place:
  assumes "netdev_laws b nd" "qb_instances s bh = Some ri" "ri_client ri" "\<not> is_isolated_info (ri_network ri)"
    and "instance_id_from_handle bh = Inr i" "net_mode n = Nat"
    and "be_command b (pc_socket (ri_process ri)) (netdev_command (net_nat_backend n) None (extra_net_id k)) (qb_world s) = (Inr (), w1)"
    and "be_command b (pc_socket (ri_process ri))
           (MonDeviceNet (net_device_model n) (extra_net_id k) (extra_net_id k) (root_port (8 + k mod 8))) w1 = (Inl e, w2)"
  shows "\<exists>e. fst (backend_attach_network b bh m k (attach_tries b bh k ns (snd (backend_attach_network b bh n k s)))) = Inl e"
proof -
  note add = netdev_done[OF assms(1,7) netdev_command_adds]
  note refuse = netdev_refused[OF assms(1,8)]
  have "attach_nic b n None k (pc_socket (ri_process ri)) (qb_world s) = (Inl e, w2)"
    using assms(7,8) by (simp add: attach_nic_def Let_def)
  then have "run_monitor_op b (attach_nic b n None k) ri (qb_world s) = (Inl (qmp_error_to_backend_error e), ri, 0, w2)"
    using assms(3) refuse by (simp add: run_monitor_op_def ensure_qmp_connected_def)
  then have "qb_world (snd (backend_attach_network b bh n k s)) = w2"
    using assms(2,4,5,6)
    by (simp add: backend_attach_network_def setup_extra_network_def Let_def put_instance_def teardown_network_info_def
        teardown_network_def)
  then have taken: "extra_net_id k \<in> nd (qb_world (snd (backend_attach_network b bh n k s)))" using add refuse by simp
  have "extra_net_id k \<in> nd (qb_world (attach_tries b bh k ns t))" if "extra_net_id k \<in> nd (qb_world t)" for t
    using that
  proof (induction ns arbitrary: t)
    case (Cons x ns)
    have "extra_net_id k \<in> nd (qb_world (snd (backend_attach_network b bh x k t)))"
      using attach_network_taken[OF assms(1) Cons.prems surjective_pairing] by blast
    from Cons.IH[OF this] show ?case by simp
  qed simp
  from attach_network_taken[OF assms(1) this[OF taken] surjective_pairing] show ?thesis by blast
qed

end
