(* ===== verification/BackendDemo.thy ===== *)
theory BackendDemo
  imports BackendGuest
begin

text \<open>
  A host whose \<open>ip\<close>, processes and QEMU behave as documented, and the theorems of the backend applied
  to instances on it.
\<close>

section \<open>The host\<close>

record ref_box =
  rb_links :: "string list"
  rb_netdevs :: "string list"

definition ref_ip :: "string list \<Rightarrow> ref_box \<Rightarrow> (string + string option) \<times> ref_box" where
  "ref_ip args w =
     (if args ! 1 = ''show'' then (Inr (if args ! 2 \<in> set (rb_links w) then None else Some ''does not exist''), w)
      else if args ! 1 = ''add'' then
        (if args ! 3 \<in> set (rb_links w) then (Inr (Some ''ioctl(TUNSETIFF): Device or resource busy''), w)
         else (Inr None, w\<lparr>rb_links := args ! 3 # rb_links w\<rparr>))
      else if args ! 1 = ''del'' then
        (if args ! 2 \<in> set (rb_links w) then (Inr None, w\<lparr>rb_links := removeAll (args ! 2) (rb_links w)\<rparr>)
         else (Inr (Some ''Cannot find device''), w))
      else (Inr (if args ! 2 \<in> set (rb_links w)
                  \<and> (drop 3 args = [''master'', args ! 4] \<longrightarrow> args ! 4 \<in> set (rb_links w)) then None
                 else Some ''Cannot find device''), w))"

definition newline :: string where "newline = [CHR 0x0A]"

definition ref_net :: "ref_box host_net" where
  "ref_net =
     \<lparr>hn_ip = ref_ip, hn_bridge_dir = (\<lambda>p w. ''br0'' \<in> set (rb_links w) \<and> p = ''/sys/class/net/br0/bridge''), hn_sysctl = (\<lambda>p w. None),
      hn_start = (\<lambda>argv w. (Inr 7, w)), hn_running = (\<lambda>pid w. True),
      hn_proc = (\<lambda>pid w. if pid = 7
        then \<lparr>pn_netns = Some ''net:[2]'', pn_dev = Some (''Inter'' @ newline @ '' face'' @ newline @ ''    lo: 0'' @ newline
          @ ''andler0: 0'' @ newline), pn_route = Some (''Iface'' @ newline)\<rparr>
        else \<lparr>pn_netns = Some ''net:[1]'', pn_dev = Some [], pn_route = None\<rparr>),
      hn_self = 1, hn_tick = (\<lambda>w. w), hn_kill = (\<lambda>pid w. ([], w)), hn_names = (\<lambda>w. set (rb_links w))\<rparr>"

definition bridged :: network_config where
  "bridged = network_reference_default\<lparr>net_mode := Bridge ''br0''\<rparr>"

definition bridged_vm :: instance_config where
  "bridged_vm = demo_config\<lparr>ic_name := ''vm'', ic_network := bridged, ic_extra_networks := [bridged]\<rparr>"

definition bridged_vm2 :: instance_config where
  "bridged_vm2 = bridged_vm\<lparr>ic_name := ''vm2''\<rparr>"

definition qemu_cmdline :: "instance_config \<Rightarrow> string" where
  "qemu_cmdline c = join [CHR 0x00] (''qemu-system-x86_64'' # name_args c)"

definition duplicate_id :: qmp_error where
  "duplicate_id = QmpCommandFailed ''netdev_add'' ''GenericError'' ''Duplicate ID''"

definition ref_command :: "monitor_command \<Rightarrow> ref_box \<Rightarrow> (qmp_error + unit) \<times> ref_box" where
  "ref_command cmd w =
     (case netdev_added cmd of
        Some n \<Rightarrow> (if n \<in> set (rb_netdevs w) then (Inl duplicate_id, w) else (Inr (), w\<lparr>rb_netdevs := n # rb_netdevs w\<rparr>))
      | None \<Rightarrow>
          (case cmd of
             MonNetdevDel n \<Rightarrow> (Inr (), w\<lparr>rb_netdevs := removeAll n (rb_netdevs w)\<rparr>)
           | MonDeviceNet model _ _ _ \<Rightarrow>
               (if model = ''virtio-net-pci'' then (Inr (), w)
                else (Inl (QmpCommandFailed ''device_add'' ''GenericError'' ''not a valid device model name''), w))
           | _ \<Rightarrow> (Inr (), w)))"

definition ref_backend :: "ref_box backend_env" where
  "ref_backend =
     \<lparr>be_net = ref_net, be_runtime = ''/run'', be_dev_restart = False, be_private_dir = (\<lambda>p w. (Inr (), w)),
      be_unlink = (\<lambda>p w. w), be_exec = (\<lambda>argv k w. (Inr 10, w)), be_pidfd = (\<lambda>pid w. None), be_drop = (\<lambda>pid w. w),
      be_alive = (\<lambda>pid w. True), be_kill = (\<lambda>sg pid w. (Signalled, w)), be_await = (\<lambda>n pid w. (Exited, w)),
      be_connect = (\<lambda>p w. (Connected, w)), be_sleep = (\<lambda>n w. w), be_command = (\<lambda>p. ref_command),
      be_status = (\<lambda>p w. (Inr VmRunning, w)),
      be_nodes = (\<lambda>p w. (Inr [\<lparr>bn_name = ''drive-disk0'', bn_driver = Some ''qcow2'', bn_file = Some ''/i/disk.qcow2''\<rparr>], w)),
      be_owner = (\<lambda>p w. (Inl (QmpCommandFailed ''query-processes'' ''CommandNotFound'' []), w)),
      be_cmdline = (\<lambda>pid w. Inr (qemu_cmdline (if pid = 11 then bridged_vm2 else bridged_vm))),
      be_pids = (\<lambda>w. Inr [10]), be_inode = (\<lambda>p w. Some 5), be_fds = (\<lambda>pid w. None)\<rparr>"

definition box :: "string list \<Rightarrow> ref_box" where
  "box links = \<lparr>rb_links = links, rb_netdevs = []\<rparr>"

definition empty_backend :: "ref_box \<Rightarrow> ref_box qemu_backend" where
  "empty_backend w = \<lparr>qb_instances = Map.empty, qb_reconnects = 0, qb_world = w\<rparr>"

lemma ref_net_sel [simp]:
  "hn_ip ref_net = ref_ip" "hn_names ref_net = (\<lambda>w. set (rb_links w))" "be_net ref_backend = ref_net"
  "hn_bridge_dir ref_net p w \<longleftrightarrow> ''br0'' \<in> set (rb_links w) \<and> p = ''/sys/class/net/br0/bridge''"
  by (simp_all add: ref_net_def ref_backend_def)

lemma ref_ip_calls:
  "ref_ip (ip_show i) w = (Inr (if i \<in> set (rb_links w) then None else Some ''does not exist''), w)"
  "ref_ip (ip_add_tap i) w = (if i \<in> set (rb_links w) then (Inr (Some ''ioctl(TUNSETIFF): Device or resource busy''), w)
     else (Inr None, w\<lparr>rb_links := i # rb_links w\<rparr>))"
  "ref_ip (ip_del i) w = (if i \<in> set (rb_links w) then (Inr None, w\<lparr>rb_links := removeAll i (rb_links w)\<rparr>)
     else (Inr (Some ''Cannot find device''), w))"
  "ref_ip (ip_set i opts) w = (Inr (if i \<in> set (rb_links w) \<and> (opts = [''master'', opts ! 1] \<longrightarrow> opts ! 1 \<in> set (rb_links w))
     then None else Some ''Cannot find device''), w)"
  by (simp_all add: ref_ip_def ip_show_def ip_add_tap_def ip_del_def ip_set_def)

lemma ref_ip_laws: "ip_laws ref_net"
  by (auto simp: ip_laws_def show_law_def set_law_def add_law_def del_law_def probe_law_def ref_ip_calls)
     (simp_all add: ref_net_def)

lemma ref_quiet: "quiet_laws ref_backend"
proof -
  have "rb_links (snd (ref_command cmd w)) = rb_links w" for cmd w
    by (auto simp: ref_command_def split: option.splits monitor_command.splits)
  then show ?thesis by (simp add: quiet_laws_def Let_def) (simp add: ref_backend_def)
qed

lemma ref_laws: "host_laws ref_backend"
  by (simp add: host_laws_def ref_ip_laws ref_quiet)

lemma ref_rights: "may_delete (be_net ref_backend) T" "may_attach (be_net ref_backend) T"
  by (auto simp: may_delete_def may_attach_def bridge_at_def ref_ip_calls)

lemma ref_netdev_laws: "netdev_laws ref_backend (\<lambda>w. set (rb_netdevs w))"
proof -
  have ip: "rb_netdevs (snd (ref_ip args w)) = rb_netdevs w" for args w by (simp add: ref_ip_def)
  have cmd: "case r of Inl e \<Rightarrow> is_reply_error e \<and> set (rb_netdevs w1) = set (rb_netdevs w)
      | Inr _ \<Rightarrow> (case netdev_added c of
          Some n \<Rightarrow> n \<notin> set (rb_netdevs w) \<and> set (rb_netdevs w1) = insert n (set (rb_netdevs w))
        | None \<Rightarrow> set (rb_netdevs w1) = (case c of MonNetdevDel n \<Rightarrow> set (rb_netdevs w) - {n} | _ \<Rightarrow> set (rb_netdevs w)))"
    if "ref_command c w = (r, w1)" for c w r w1
    using that by (cases c) (auto simp: ref_command_def netdev_added_def duplicate_id_def split: if_splits)
  have "be_command ref_backend p = ref_command" "be_connect ref_backend p w = (Connected, w)" "be_sleep ref_backend k w = w" for p w k
    by (simp_all add: ref_backend_def)
  with ip cmd show ?thesis unfolding netdev_laws_def by simp
qed

section \<open>A bridged instance\<close>

definition tap0 :: string where "tap0 = primary_net_bridge_tap_iface (show_instance_id (ic_id bridged_vm))"

definition tap1 :: string where "tap1 = extra_net_bridge_tap_iface (show_instance_id (ic_id bridged_vm)) 0"

lemma taps_distinct [simp]: "tap0 \<noteq> ''br0''" "tap1 \<noteq> ''br0''" "tap1 \<noteq> tap0" "tap0 \<noteq> tap1"
  "primary_net_isolated_iface \<noteq> ''br0''" "primary_net_isolated_iface \<noteq> tap0" "primary_net_isolated_iface \<noteq> tap1"
  by (simp_all add: tap0_def tap1_def primary_net_bridge_tap_iface_def extra_net_bridge_tap_iface_def primary_net_isolated_iface_def)

lemma bridged_sel [simp]:
  "net_mode bridged = Bridge ''br0''" "ic_network bridged_vm = bridged" "ic_extra_networks bridged_vm = [bridged]"
  "gpu_render (ic_gpu bridged_vm) = gpu_render (ic_gpu demo_config)" "disk_path (ic_disk bridged_vm) = ''/i/disk.qcow2''"
  "ic_name bridged_vm = ''vm''" "ic_name bridged_vm2 = ''vm2''"
  by (simp_all add: bridged_def bridged_vm_def bridged_vm2_def demo_config_def disk_reference_default_def)

lemma demo_render: "gpu_render (ic_gpu demo_config) = Venus"
  by (simp add: demo_config_def example_config_def gpu_reference_default_def)

lemma bridged_args:
  "\<exists>args. build_args (console_socket_path ref_backend) bridged_vm (qmp_socket_path_for ref_backend bridged_vm) = Inr args"
  by (subst build_args_ok_iff) (simp add: demo_render)

lemma ref_private: "private_parent ref_backend p w = (Inr (), w)"
  by (simp add: private_parent_def ref_backend_def split: option.splits)

definition bridged_running :: running_instance where
  "bridged_running =
     \<lparr>ri_process = \<lparr>pc_child = Some True, pc_pid = 10, pc_socket = qmp_socket_path_for ref_backend bridged_vm,
        pc_log = qemu_log_path bridged_vm\<rparr>,
      ri_client = False, ri_events = True, ri_head = ''drive-disk0'', ri_network = BridgeInfo ''br0'' tap0,
      ri_extras = [(extra_net_id 0, BridgeInfo ''br0'' tap1)]\<rparr>"

lemma ref_setup_bridge:
  assumes "''br0'' \<in> set (rb_links w)" "t \<notin> set (rb_links w)"
  shows "setup_bridge ref_net ''br0'' t w = (Inr (), w\<lparr>rb_links := t # rb_links w\<rparr>)"
  using assms by (simp add: setup_bridge_def run_ip_def ref_ip_calls)

lemma ref_setup_extra:
  assumes "''br0'' \<in> set (rb_links w)" "tap1 \<notin> set (rb_links w)"
  shows "setup_extra_network ref_net bridged 0 (show_instance_id (ic_id bridged_vm)) w
    = (Inr (BridgeInfo ''br0'' tap1), w\<lparr>rb_links := tap1 # rb_links w\<rparr>)"
  using ref_setup_bridge[OF assms] by (simp add: setup_extra_network_def flip: tap1_def)

lemma ref_setup_primary:
  assumes "''br0'' \<in> set (rb_links w)" "tap0 \<notin> set (rb_links w)"
  shows "setup_primary_network ref_net bridged_vm w = (Inr (BridgeInfo ''br0'' tap0), w\<lparr>rb_links := tap0 # rb_links w\<rparr>)"
  using ref_setup_bridge[OF assms] by (simp add: setup_primary_network_def flip: tap0_def)

definition started :: "ref_box qemu_backend" where
  "started = \<lparr>qb_instances = Map.empty(backend_handle_for bridged_vm \<mapsto> bridged_running), qb_reconnects = 0,
     qb_world = box [tap1, tap0, ''br0'']\<rparr>"

lemma ref_process:
  "spawn_process ref_backend args sock logf k aff l w = (Inr \<lparr>pc_child = Some k, pc_pid = 10, pc_socket = sock, pc_log = logf\<rparr>, w)"
  by (simp add: spawn_process_def Let_def) (simp add: ref_backend_def)

lemma bridged_start:
  "start_networks_and_process ref_backend bridged_vm args (box [''br0'']) = (Inr bridged_running, box [tap1, tap0, ''br0''])"
  by (simp add: start_networks_and_process_def ref_setup_primary ref_setup_extra ref_process box_def bridged_running_def)
     (simp add: ref_backend_def)

lemma bridged_spawn: "spawn ref_backend bridged_vm (empty_backend (box [''br0''])) = (Inr (backend_handle_for bridged_vm), started)"
proof -
  have "be_unlink ref_backend p w = w" for p w by (simp add: ref_backend_def)
  with bridged_args bridged_start show ?thesis
    by (auto simp: spawn_def ref_private Let_def empty_backend_def insert_instance_def started_def demo_render)
qed

lemma ref_end: "end_process ref_backend graceful p w = (Inr (), w)"
  by (simp add: end_process_def terminate_process_def force_kill_def) (simp add: ref_backend_def)

theorem stop_undoes_start_witness:
  "qb_instances (snd (stop ref_backend (backend_handle_for bridged_vm) True started)) = Map.empty
   \<and> set (rb_links (qb_world (snd (stop ref_backend (backend_handle_for bridged_vm) True started)))) = {''br0''}"
proof -
  let ?bh = "backend_handle_for bridged_vm"
  obtain r s2 where s: "stop ref_backend ?bh True started = (r, s2)" by fastforce
  have "qb_instances started ?bh = Some bridged_running" by (simp add: started_def)
  moreover have "fst (end_process ref_backend True (ri_process bridged_running) (qb_world started)) = Inr ()" by (simp add: ref_end)
  moreover have "primary_net_isolated_iface \<notin> hn_names (be_net ref_backend) (qb_world (empty_backend (box [''br0''])))"
    "qb_instances (empty_backend (box [''br0''])) ?bh = None" by (simp_all add: empty_backend_def box_def)
  ultimately show ?thesis
    using stop_undoes_start[OF ref_laws ref_rights(1) _ bridged_spawn _ s] s by (simp add: empty_backend_def box_def)
qed

section \<open>A start that fails\<close>

definition missing_bridge_vm :: instance_config where
  "missing_bridge_vm = bridged_vm\<lparr>ic_extra_networks := [bridged, bridged\<lparr>net_mode := Bridge ''br9''\<rparr>]\<rparr>"

theorem failed_start_interfaces_witness:
  "(\<exists>e. fst (spawn ref_backend missing_bridge_vm (empty_backend (box [''br0'']))) = Inl e)
   \<and> set (rb_links (qb_world (snd (spawn ref_backend missing_bridge_vm (empty_backend (box [''br0''])))))) = {''br0''}"
proof -
  let ?s = "empty_backend (box [''br0''])"
  have sel: "ic_network missing_bridge_vm = bridged" "ic_id missing_bridge_vm = ic_id bridged_vm"
      "ic_extra_networks missing_bridge_vm = [bridged, bridged\<lparr>net_mode := Bridge ''br9''\<rparr>]"
      "gpu_render (ic_gpu missing_bridge_vm) = Venus"
    using demo_render bridged_sel(4) by (simp_all add: missing_bridge_vm_def)
  obtain args where args: "build_args (console_socket_path ref_backend) missing_bridge_vm
      (qmp_socket_path_for ref_backend missing_bridge_vm) = Inr args"
    using build_args_ok_iff[of "console_socket_path ref_backend" missing_bridge_vm "qmp_socket_path_for ref_backend missing_bridge_vm"]
    by (auto simp: sel)
  have primary: "setup_primary_network ref_net missing_bridge_vm w = setup_primary_network ref_net bridged_vm w" for w
    by (simp add: setup_primary_network_def sel)
  have br9: "setup_bridge ref_net ''br9'' t (box [tap1, tap0, ''br0'']) = (Inl (BridgeNotFound ''br9''), box [tap1, tap0, ''br0''])" for t
  proof -
    have "''br9'' \<noteq> tap0" "''br9'' \<noteq> tap1"
      by (simp_all add: tap0_def tap1_def primary_net_bridge_tap_iface_def extra_net_bridge_tap_iface_def)
    then show ?thesis by (simp add: setup_bridge_def ref_ip_calls box_def)
  qed
  have "\<exists>e w. start_networks_and_process ref_backend missing_bridge_vm args (box [''br0'']) = (Inl e, w)"
    using br9 by (simp add: start_networks_and_process_def primary ref_setup_primary ref_setup_extra sel box_def
        setup_extra_network_def[of ref_net "bridged\<lparr>net_mode := _\<rparr>"])
  then obtain e w where start: "start_networks_and_process ref_backend missing_bridge_vm args (box [''br0'']) = (Inl e, w)" by blast
  have "be_unlink ref_backend p v = v" for p v by (simp add: ref_backend_def)
  with args start have spawn: "spawn ref_backend missing_bridge_vm ?s = (Inl e, ?s\<lparr>qb_world := w\<rparr>)"
    by (simp add: spawn_def ref_private Let_def empty_backend_def sel)
  have "primary_net_isolated_iface \<notin> hn_names (be_net ref_backend) (qb_world ?s)" by (simp add: empty_backend_def box_def)
  with failed_start_interfaces[OF ref_laws spawn] ref_rights spawn show ?thesis
    by (simp add: empty_backend_def box_def)
qed

section \<open>After a daemon restart\<close>

lemma name_args_demo: "name_args bridged_vm = [''-name'', ''vm,process=vm'']" "name_args bridged_vm2 = [''-name'', ''vm2,process=vm2'']"
  by (simp_all add: name_args_def)

lemma ref_runs: "runs_for ref_backend 10 bridged_vm w" "runs_for ref_backend 11 bridged_vm2 w"
proof -
  have "split_on (CHR 0x00) (qemu_cmdline bridged_vm) = ''qemu-system-x86_64'' # name_args bridged_vm"
    "split_on (CHR 0x00) (qemu_cmdline bridged_vm2) = ''qemu-system-x86_64'' # name_args bridged_vm2"
    unfolding qemu_cmdline_def by (rule split_on_join; simp add: name_args_demo)+
  then show "runs_for ref_backend 10 bridged_vm w" "runs_for ref_backend 11 bridged_vm2 w"
    by (simp_all add: runs_for_def name_args_demo) (simp_all add: ref_backend_def name_args_demo)
qed

definition restarted :: "ref_box qemu_backend" where
  "restarted = empty_backend (box [tap1, tap0, ''br0''])"

lemma ref_owner: "resolve_owner_pid ref_backend sock ''vm'' w = (Inr 10, w)"
proof -
  have "verify_cmdline_marker ref_backend 10 ''vm'' w = Inr ()"
    using runs_for_verified[OF ref_runs(1), of bridged_vm "[]"] by simp
  then have "scan_for_owner ref_backend sock ''vm'' w = Inr 10" 
    by (simp add: scan_for_owner_def) (simp add: ref_backend_def)
  moreover have "\<exists>e. be_owner ref_backend sock w = (Inl e, w)" by (simp add: ref_backend_def)
  ultimately show ?thesis by (auto simp: resolve_owner_pid_def)
qed

lemma bridged_adopt:
  "\<exists>s1. adopt ref_backend bridged_vm restarted = (Inr (backend_handle_for bridged_vm, Running), s1)"
proof -
  have "be_connect ref_backend p w = (Connected, w)" "be_status ref_backend p w = (Inr VmRunning, w)" "be_pidfd ref_backend k w = None"
    "query_head_node_name ref_backend p ''/i/disk.qcow2'' w = (Inr ''drive-disk0'', w)" for p k w
    by (simp_all add: ref_backend_def query_head_node_name_def)
  then show ?thesis
    by (simp add: adopt_def adopt_steps_def Let_def adoptable_state_def vm_status_to_instance_state_def ref_owner adopt_process_def)
qed

theorem adopted_extra_tap_blocks_start_witness:
  "\<exists>e. fst (spawn ref_backend bridged_vm (respawned ref_backend bridged_vm 3
     (snd (stop ref_backend (backend_handle_for bridged_vm) True (snd (adopt ref_backend bridged_vm restarted)))))) = Inl e"
proof -
  let ?bh = "backend_handle_for bridged_vm"
  obtain s1 where s1: "adopt ref_backend bridged_vm restarted = (Inr (?bh, Running), s1)" using bridged_adopt by blast
  obtain r s2 where s2: "stop ref_backend ?bh True s1 = (r, s2)" by fastforce
  have "extra_net_bridge_tap_iface (show_instance_id (ic_id bridged_vm)) 0 \<in> hn_names (be_net ref_backend) (qb_world restarted)"
    by (simp add: restarted_def empty_backend_def box_def flip: tap1_def)
  from adopted_extra_tap_blocks_start[OF ref_laws _ _ this s1 s2, of "''br0''" 3] s1 s2 show ?thesis by simp
qed

text \<open>The daemon is process 1; the open files of all three can be read. The socket file is inode 5.\<close>

definition two_named :: "ref_box backend_env" where
  "two_named = ref_backend\<lparr>be_pids := (\<lambda>w. Inr [1, 10, 11]),
     be_cmdline := (\<lambda>pid w. if pid = 1 then Inr ''andler-daemon'' else be_cmdline ref_backend pid w),
     be_fds := (\<lambda>pid w. Some [''/dev/null'', if pid = 10 then ''socket:[777]'' else ''socket:[778]''])\<rparr>"

theorem longer_name_blocks_adoption_witness:
  "\<exists>msg. adopt two_named bridged_vm restarted = (Inl (BackendIo msg), restarted)"
proof -
  let ?w = "qb_world restarted"
  have env: "be_connect two_named p w = (Connected, w)" "be_status two_named p w = (Inr VmRunning, w)"
      "be_owner two_named p w = (Inl (QmpCommandFailed ''query-processes'' ''CommandNotFound'' []), w)"
      "be_pids two_named w = Inr [1, 10, 11]" "be_inode two_named p w = Some 5"
      "be_fds two_named k w = Some [''/dev/null'', if k = 10 then ''socket:[777]'' else ''socket:[778]'']" for p k w
    by (simp_all add: two_named_def ref_backend_def)
  have runs: "runs_for two_named 10 bridged_vm ?w" "runs_for two_named 11 bridged_vm2 ?w"
    using ref_runs by (simp_all add: runs_for_def two_named_def)
  have named: "ic_name bridged_vm2 = ic_name bridged_vm @ ''2''" by simp
  have five: "show_nat 5 = ''5''" by code_simp
  have "\<exists>msg. adopt two_named bridged_vm restarted = (Inl (BackendIo msg), restarted\<lparr>qb_world := ?w\<rparr>)"
    by (rule longer_name_blocks_adoption[OF env(1,2,3,4) _ _ _ runs named])
      (simp_all add: env(5,6) holds_socket_def five)
  then show ?thesis by simp
qed

section \<open>A tear-down that fails\<close>

text \<open>The tap of the primary card was removed by hand while the guest was running.\<close>

definition tap_gone :: "ref_box qemu_backend" where
  "tap_gone = started\<lparr>qb_world := box [tap1, ''br0'']\<rparr>"

theorem failed_teardown_forgets_instance_witness:
  "case stop ref_backend (backend_handle_for bridged_vm) True tap_gone of (r, s1) \<Rightarrow>
     (\<exists>e. r = Inl e) \<and> qb_instances s1 = Map.empty \<and> tap1 \<in> set (rb_links (qb_world s1))"
proof -
  let ?bh = "backend_handle_for bridged_vm" and ?w = "box [tap1, ''br0'']"
  have ri: "qb_instances tap_gone ?bh = Some bridged_running" "qb_instances tap_gone = Map.empty(?bh \<mapsto> bridged_running)"
      "qb_world tap_gone = ?w"
    by (simp_all add: tap_gone_def started_def)
  have ex: "(extra_net_id 0, BridgeInfo ''br0'' tap1) \<in> set (ri_extras bridged_running)"
      "info_tap (ri_network bridged_running) \<noteq> Some tap1"
    by (simp_all add: bridged_running_def info_tap_def)
  have on: "tap1 \<in> hn_names (be_net ref_backend) (qb_world tap_gone)" by (simp add: ri box_def)
  have drop: "drop_process ref_backend p w = w" for p w by (simp add: drop_process_def ref_backend_def)
  have "\<exists>e. teardown_network (be_net ref_backend) (ri_network bridged_running) ?w = (Inl e, ?w)"
    by (simp add: teardown_network_def bridged_running_def teardown_bridge_def run_ip_def ref_ip_calls box_def)
  then obtain e where td: "teardown_network (be_net ref_backend) (ri_network bridged_running)
      (drop_process ref_backend (ri_process bridged_running) ?w) = (Inl e, ?w)" by (auto simp: drop)
  have en: "end_process ref_backend True (ri_process bridged_running) (qb_world tap_gone) = (Inr (), ?w)" by (simp add: ref_end ri)
  have "qb_instances (snd (stop ref_backend ?bh True tap_gone)) = (qb_instances tap_gone)(?bh := None)"
    using en td ri by (simp add: stop_def forget_instance_def Let_def)
  with failed_teardown_forgets_instance[OF ref_laws ri(1) ex(1) on ex(2) en td] ri(2) show ?thesis by auto
qed

section \<open>An isolated guest\<close>

definition isolated_vm :: instance_config where
  "isolated_vm = bridged_vm\<lparr>ic_network := bridged\<lparr>net_mode := Isolated\<rparr>, ic_extra_networks := []\<rparr>"

lemma isolated_sel [simp]:
  "net_mode (ic_network isolated_vm) = Isolated" "ic_extra_networks isolated_vm = []" "gpu_render (ic_gpu isolated_vm) = Venus"
  using demo_render bridged_sel(4) by (simp_all add: isolated_vm_def)

lemma probe_view:
  "read_view (hn_proc ref_net 7 w) = Some \<lparr>nv_netns = ''net:[2]'', nv_ifaces = [''lo'', ''andler0''], nv_v4_routes = 0\<rparr>"
  unfolding ref_net_def by code_simp

lemma host_view: "read_view (hn_proc ref_net (hn_self ref_net) w) = Some \<lparr>nv_netns = ''net:[1]'', nv_ifaces = [], nv_v4_routes = 0\<rparr>"
  unfolding ref_net_def by code_simp

lemma ref_isolated: "setup_isolated ref_net primary_net_isolated_iface w = (Inr (isolated_net_new primary_net_isolated_iface), w)"
proof -
  let ?net = "isolated_net_new primary_net_isolated_iface"
  have tap: "in_tap_iface ?net = ''andler0''" by (simp add: isolated_net_new_def primary_net_isolated_iface_def)
  have "probe_loop ref_net ''andler0'' 7 PROBE_ROUNDS w = (read_view (hn_proc ref_net 7 w), w)"
    by (subst probe_loop.simps) (simp add: probe_view has_iface_def)
  moreover have "hn_start ref_net argv w = (Inr 7, w)" "hn_kill ref_net k w = ([], w)" "hn_sysctl ref_net p w = None" for argv k p
    by (simp_all add: ref_net_def)
  ultimately show ?thesis
    by (simp add: setup_isolated_def preflight_def run_probe_def user_namespaces_disabled_def read_enabled_knob_def
        tap probe_view host_view has_iface_def leaks_def MAX_IFACE_LEN_def Let_def)
qed

theorem isolated_start_was_probed_witness:
  "\<exists>s1 ri net. spawn ref_backend isolated_vm (empty_backend (box [''eth0''])) = (Inr (backend_handle_for isolated_vm), s1)
    \<and> qb_instances s1 (backend_handle_for isolated_vm) = Some ri \<and> ri_network ri = IsolatedInfo net
    \<and> set (rb_links (qb_world s1)) = {''eth0''}"
proof -
  let ?s = "empty_backend (box [''eth0''])" and ?bh = "backend_handle_for isolated_vm"
  obtain args where args: "build_args (console_socket_path ref_backend) isolated_vm (qmp_socket_path_for ref_backend isolated_vm) = Inr args"
    using build_args_ok_iff[of "console_socket_path ref_backend" isolated_vm "qmp_socket_path_for ref_backend isolated_vm"] by auto
  have "\<exists>ri w. start_networks_and_process ref_backend isolated_vm args (box [''eth0'']) = (Inr ri, w)"
    by (simp add: start_networks_and_process_def setup_primary_network_def ref_isolated ref_process)
  moreover have "be_unlink ref_backend p w = w" for p w by (simp add: ref_backend_def)
  ultimately obtain s1 where s1: "spawn ref_backend isolated_vm ?s = (Inr ?bh, s1)"
    using args by (auto simp: spawn_def ref_private Let_def empty_backend_def)
  from isolated_start_was_probed[OF ref_laws s1 isolated_sel(1)] s1 show ?thesis
    by (auto simp: empty_backend_def box_def)
qed

section \<open>A card QEMU does not know\<close>

definition with_model :: "string \<Rightarrow> network_config" where
  "with_model m = network_reference_default\<lparr>net_device_model := m\<rparr>"

definition connected_backend :: "ref_box qemu_backend" where
  "connected_backend = \<lparr>qb_instances = Map.empty(backend_handle_for bridged_vm \<mapsto> bridged_running\<lparr>ri_client := True\<rparr>),
     qb_reconnects = 0, qb_world = box [''br0'']\<rparr>"

theorem refused_card_blocks_its_place_witness:
  "\<exists>e. fst (backend_attach_network ref_backend (backend_handle_for bridged_vm) (with_model ''virtio-net-pci'') 1
     (snd (backend_attach_network ref_backend (backend_handle_for bridged_vm) (with_model ''virtio-net'') 1 connected_backend))) = Inl e"
proof -
  let ?ri = "bridged_running\<lparr>ri_client := True\<rparr>" and ?bh = "backend_handle_for bridged_vm" and ?n = "with_model ''virtio-net''"
  have sel: "net_mode ?n = Nat" "net_nat_backend ?n = Slirp" "net_device_model ?n = ''virtio-net''"
    by (simp_all add: with_model_def network_reference_default_def)
  have cmd: "be_command ref_backend p = ref_command" for p by (simp add: ref_backend_def)
  have add: "be_command ref_backend (pc_socket (ri_process ?ri)) (netdev_command (net_nat_backend ?n) None (extra_net_id 1))
      (qb_world connected_backend) = (Inr (), box [''br0'']\<lparr>rb_netdevs := [extra_net_id 1]\<rparr>)"
    by (simp add: cmd sel netdev_command_def ref_command_def netdev_added_def connected_backend_def box_def)
  have dev: "be_command ref_backend (pc_socket (ri_process ?ri))
      (MonDeviceNet (net_device_model ?n) (extra_net_id 1) (extra_net_id 1) (root_port (8 + 1 mod 8)))
      (box [''br0'']\<lparr>rb_netdevs := [extra_net_id 1]\<rparr>)
    = (Inl (QmpCommandFailed ''device_add'' ''GenericError'' ''not a valid device model name''),
       box [''br0'']\<lparr>rb_netdevs := [extra_net_id 1]\<rparr>)"
    by (simp add: cmd sel ref_command_def netdev_added_def)
  have ri: "qb_instances connected_backend ?bh = Some ?ri" "ri_client ?ri" "\<not> is_isolated_info (ri_network ?ri)"
    by (simp_all add: connected_backend_def bridged_running_def is_isolated_info_def)
  have i: "instance_id_from_handle ?bh = Inr (show_instance_id (ic_id bridged_vm))"
    by (simp add: instance_id_from_handle_def backend_handle_for_def ok_or_def strip_prefix_def starts_with_def)
  from refused_card_blocks_its_place[OF ref_netdev_laws ri i sel(1) add dev, of "with_model ''virtio-net-pci''" "[]"]
  show ?thesis by simp
qed

end
