(* ===== verification/GuestExec.thy ===== *)
theory GuestExec
  imports Backend Mutators
begin

text \<open>
  Commands inside a running guest: package steps, single commands, the check for a binary and the
  display resolution (\<open>backends/andler-qemu/src/backend.rs\<close>), the command shapes of the package managers
  (\<open>core/andler-core/src/package_manager.rs\<close>), and the client that carries them (\<open>execute_raw\<close> of
  \<open>qmp.rs\<close>).

  The agent is the parameter \<open>agent\<close>. A poll loop sleeps a fixed time between two questions, so that
  the caller's time limit allows a known number of rounds.
\<close>

section \<open>Replies of a monitor\<close>

text \<open>A line that was read: an event, a reply with its return value or its error, something that is
  JSON but no reply, or no JSON. \<open>None\<close> in the input is a read error.\<close>

datatype 'v wire_line =
    EventLine
  | ReplyLine "'v option" "(string \<times> string) option"
  | OtherLine string

fun read_reply_skipping_events :: "(string + 'v wire_line) list \<Rightarrow> (qmp_error + 'v option \<times> (string \<times> string) option) \<times> (string + 'v wire_line) list" where
  "read_reply_skipping_events [] = (Inl ConnectionClosed, [])"
| "read_reply_skipping_events (Inl e # rest) = (Inl (QmpIo e), rest)"
| "read_reply_skipping_events (Inr EventLine # rest) = read_reply_skipping_events rest"
| "read_reply_skipping_events (Inr (ReplyLine v e) # rest) = (Inr (v, e), rest)"
| "read_reply_skipping_events (Inr (OtherLine m) # rest) = (Inl (QmpParseError m), rest)"

definition execute_raw :: "string \<Rightarrow> (string + 'v wire_line) list \<Rightarrow> (qmp_error + 'v) \<times> (string + 'v wire_line) list" where
  "execute_raw command input =
     (case read_reply_skipping_events input of
        (Inl e, rest) \<Rightarrow> (Inl e, rest)
      | (Inr (Some v, _), rest) \<Rightarrow> (Inr v, rest)
      | (Inr (None, Some (k, d)), rest) \<Rightarrow> (Inl (QmpCommandFailed command k d), rest)
      | (Inr (None, None), rest) \<Rightarrow>
          (Inl (QmpParseError (''QMP reply to '' @ ticked command @ '' has neither '' @ ticked ''return'' @ '' nor ''
             @ ticked ''error'' @ '' field'')), rest))"

lemma events_skipped: "read_reply_skipping_events (replicate n (Inr EventLine) @ Inr (ReplyLine v e) # rest) = (Inr (v, e), rest)"
  by (induction n) simp_all

section \<open>Package managers\<close>

datatype package_manager = Apt | Dnf | Pacman

fun binary_name :: "package_manager \<Rightarrow> string" where
  "binary_name Apt = ''apt-get''"
| "binary_name Dnf = ''dnf''"
| "binary_name Pacman = ''pacman''"

fun install_args :: "package_manager \<Rightarrow> string \<Rightarrow> string list" where
  "install_args Apt package = [''install'', ''-y'', package]"
| "install_args Dnf package = [''install'', ''-y'', package]"
| "install_args Pacman package = [''-S'', ''--noconfirm'', package]"

fun refresh_args :: "package_manager \<Rightarrow> string list" where
  "refresh_args Apt = [''update'']"
| "refresh_args Dnf = [''makecache'']"
| "refresh_args Pacman = [''-Sy'']"

fun remove_args :: "package_manager \<Rightarrow> string \<Rightarrow> string list" where
  "remove_args Apt package = [''remove'', ''-y'', package]"
| "remove_args Dnf package = [''remove'', ''-y'', package]"
| "remove_args Pacman package = [''-R'', ''--noconfirm'', package]"

fun check_installed_command :: "package_manager \<Rightarrow> string \<Rightarrow> string \<times> string list" where
  "check_installed_command Apt package = (''dpkg'', [''-l'', package])"
| "check_installed_command Dnf package = (''rpm'', [''-q'', package])"
| "check_installed_command Pacman package = (''pacman'', [''-Qi'', package])"

fun stale_lock_path :: "package_manager \<Rightarrow> string option" where
  "stale_lock_path Pacman = Some ''/var/lib/pacman/db.lck''"
| "stale_lock_path _ = None"

definition package_argv :: "package_manager \<Rightarrow> bool \<Rightarrow> string \<Rightarrow> string list" where
  "package_argv pm install package = binary_name pm # (if install then install_args pm package else remove_args pm package)"

definition DEFAULT_GUEST_PACKAGE_TIMEOUT_SECS :: nat where "DEFAULT_GUEST_PACKAGE_TIMEOUT_SECS = 600"

definition MIN_GUEST_PACKAGE_TIMEOUT_SECS :: nat where "MIN_GUEST_PACKAGE_TIMEOUT_SECS = 30"

text \<open>The argument is the environment variable \<open>ANDLERD_GUEST_PACKAGE_TIMEOUT_SECS\<close>.\<close>

definition guest_package_timeout :: "string option \<Rightarrow> nat" where
  "guest_package_timeout var =
     max MIN_GUEST_PACKAGE_TIMEOUT_SECS
       (case Option.bind var parse_u64 of Some w \<Rightarrow> unat w | None \<Rightarrow> DEFAULT_GUEST_PACKAGE_TIMEOUT_SECS)"

section \<open>The agent\<close>

text \<open>\<open>ag_file\<close> is the file part of the agent (\<open>Mutators\<close>), with its decoding of captured output.\<close>

record 'g agent =
  ag_known :: "backend_handle \<Rightarrow> bool"
  ag_connect :: "'g \<Rightarrow> (qmp_error + unit) \<times> 'g"
  ag_ping :: "'g \<Rightarrow> (qmp_error + unit) \<times> 'g"
  ag_exec :: "string \<Rightarrow> string list \<Rightarrow> 'g \<Rightarrow> (qmp_error + nat) \<times> 'g"
  ag_status :: "nat \<Rightarrow> 'g \<Rightarrow> (qmp_error + exec_status) \<times> 'g"
  ag_sleep :: "nat \<Rightarrow> 'g \<Rightarrow> 'g"
  ag_file :: "'g qga_peer"
  ag_timeout_var :: "string option"

text \<open>Ask, and sleep \<open>pause\<close> milliseconds between two questions; \<open>None\<close> when the time is over.\<close>

fun poll_exec :: "'g agent \<Rightarrow> nat \<Rightarrow> nat \<Rightarrow> nat \<Rightarrow> 'g \<Rightarrow> (qmp_error + exec_status option) \<times> 'g" where
  "poll_exec a pid pause rounds g =
     (case ag_status a pid g of
        (Inl e, g1) \<Rightarrow> (Inl e, g1)
      | (Inr st, g1) \<Rightarrow>
          (if es_exited st then (Inr (Some st), g1)
           else (case rounds of 0 \<Rightarrow> (Inr None, g1) | Suc r \<Rightarrow> poll_exec a pid pause r (ag_sleep a pause g1))))"

declare poll_exec.simps [simp del]

text \<open>The sleeps after which more than \<open>secs\<close> seconds are over, when asking takes no time.\<close>

definition rounds_within :: "nat \<Rightarrow> nat \<Rightarrow> nat" where
  "rounds_within secs pause = secs * 1000 div pause + 1"

definition exec_name :: "nat \<Rightarrow> string" where
  "exec_name pid = ''guest-exec pid='' @ show_nat pid"

definition show_exit :: "int \<Rightarrow> string" where
  "show_exit i = (if i < 0 then ''-'' @ show_nat (nat (- i)) else show_nat (nat i))"

definition code_or :: "int \<Rightarrow> exec_status \<Rightarrow> int" where
  "code_or fallback st = (case es_exitcode st of Some c \<Rightarrow> c | None \<Rightarrow> fallback)"

definition decoded :: "'g agent \<Rightarrow> string option \<Rightarrow> string" where
  "decoded a data = (case decode_guest_exec_data (ag_file a) data of Some t \<Rightarrow> t | None \<Rightarrow> [])"

definition wait_for_guest_exec :: "'g agent \<Rightarrow> nat \<Rightarrow> nat \<Rightarrow> 'g \<Rightarrow> (qmp_error + string option) \<times> 'g" where
  "wait_for_guest_exec a pid secs g =
     (case poll_exec a pid 200 (rounds_within secs 200) g of
        (Inl e, g1) \<Rightarrow> (Inl e, g1)
      | (Inr None, g1) \<Rightarrow>
          (Inl (QmpCommandFailed (exec_name pid) ''Timeout'' (''guest process did not exit within '' @ show_nat secs @ ''s'')), g1)
      | (Inr (Some st), g1) \<Rightarrow>
          (if code_or 0 st \<noteq> 0
           then (Inl (QmpCommandFailed (exec_name pid) ''GuestExecFailed'' (''guest process exited with code ''
             @ show_exit (code_or 0 st) @ '': '' @ trim (decoded a (es_err st)))), g1)
           else (Inr (decode_guest_exec_data (ag_file a) (es_out st)), g1)))"

definition wait_for_detection_exit :: "'g agent \<Rightarrow> nat \<Rightarrow> nat \<Rightarrow> 'g \<Rightarrow> (qmp_error + string) \<times> 'g" where
  "wait_for_detection_exit a pid secs g =
     (case poll_exec a pid 200 (rounds_within secs 200) g of
        (Inl e, g1) \<Rightarrow> (Inl e, g1)
      | (Inr None, g1) \<Rightarrow>
          (Inl (QmpCommandFailed (exec_name pid) ''Timeout''
             (''package manager detection did not finish within '' @ show_nat secs @ ''s'')), g1)
      | (Inr (Some st), g1) \<Rightarrow>
          (let code = code_or 0 st in
           (if code = 0 then Inr ''apt-get'' else if code = 10 then Inr ''dnf'' else if code = 20 then Inr ''pacman''
            else Inl (QmpCommandFailed (exec_name pid) ''GuestExecFailed''
              (''no supported package manager found in guest (exit '' @ show_exit code @ '')'')), g1)))"

section \<open>Package steps\<close>

definition run_package_step :: "'g agent \<Rightarrow> string list \<Rightarrow> string \<Rightarrow> 'g \<Rightarrow> (backend_error + unit) \<times> 'g" where
  "run_package_step a argv step g =
     (case ag_exec a (hd argv) (tl argv) g of
        (Inl e, g1) \<Rightarrow> (Inl (qmp_error_to_backend_error e), g1)
      | (Inr pid, g1) \<Rightarrow>
          (let secs = guest_package_timeout (ag_timeout_var a) in
           case wait_for_guest_exec a pid secs g1 of
             (Inr _, g2) \<Rightarrow> (Inr (), g2)
           | (Inl e, g2) \<Rightarrow>
               (Inl (BackendIo (case e of
                   QmpCommandFailed c k d \<Rightarrow>
                     (if k = ''Timeout''
                      then step @ '' did not finish within '' @ show_nat secs @ ''s: '' @ d
                        @ ''. A first index sync plus a download on a fresh guest routinely takes minutes ''
                        @ map char_of [0xE2 :: nat, 0x80, 0x94]
                        @ '' raise ANDLERD_GUEST_PACKAGE_TIMEOUT_SECS if this guest's mirrors are slow.''
                      else step @ '' failed: '' @ show_qmp_error e)
                 | _ \<Rightarrow> step @ '' failed: '' @ show_qmp_error e)), g2)))"

definition DETECT_SCRIPT :: string where
  "DETECT_SCRIPT = join [CHR 0x0A]
     [''command -v apt-get >/dev/null 2>&1 && exit 0'', ''command -v dnf >/dev/null 2>&1 && exit 10'',
      ''command -v pacman >/dev/null 2>&1 && exit 20'', ''exit 30'']"

definition detected_manager :: "string \<Rightarrow> package_manager" where
  "detected_manager pkg_bin = (if pkg_bin = ''dnf'' then Dnf else if pkg_bin = ''pacman'' then Pacman else Apt)"

definition package_commands :: "'g agent \<Rightarrow> package_manager \<Rightarrow> string \<Rightarrow> bool \<Rightarrow> 'g \<Rightarrow> (backend_error + unit) \<times> 'g" where
  "package_commands a pm package install g =
     (case (if install then run_package_step a (binary_name pm # refresh_args pm) ''refreshing the package index'' g
            else (Inr (), g)) of
        (Inl e, g1) \<Rightarrow> (Inl e, g1)
      | (Inr _, g1) \<Rightarrow> run_package_step a (package_argv pm install package)
          (if install then ''installing the package'' else ''removing the package'') g1)"

definition guest_exec_package ::
    "'g agent \<Rightarrow> backend_handle \<Rightarrow> string \<Rightarrow> bool \<Rightarrow> 'g \<Rightarrow> (backend_error + unit) \<times> 'g" where
  "guest_exec_package a bh package install g =
     (if \<not> ag_known a bh then (Inl (HandleNotFound bh), g)
      else (case ag_connect a g of
        (Inl e, g1) \<Rightarrow> (Inl (qmp_error_to_backend_error e), g1)
      | (Inr _, g1) \<Rightarrow>
          (case ag_exec a ''/bin/sh'' [''-c'', DETECT_SCRIPT] g1 of
             (Inl e, g2) \<Rightarrow> (Inl (qmp_error_to_backend_error e), g2)
           | (Inr pid, g2) \<Rightarrow>
               (case wait_for_detection_exit a pid 10 g2 of
                  (Inl e, g3) \<Rightarrow> (Inl (qmp_error_to_backend_error e), g3)
                | (Inr pkg_bin, g3) \<Rightarrow> package_commands a (detected_manager pkg_bin) package install g3))))"

section \<open>Other commands\<close>

record exec_output =
  eo_exit_code :: int
  eo_stdout :: string
  eo_stderr :: string

text \<open>The exit code is narrowed to 32 bits.\<close>

definition as_i32 :: "int \<Rightarrow> int" where
  "as_i32 i = sint (word_of_int i :: 32 word)"

definition guest_exec_command ::
    "'g agent \<Rightarrow> backend_handle \<Rightarrow> string list \<Rightarrow> nat option \<Rightarrow> 'g \<Rightarrow> (backend_error + exec_output) \<times> 'g" where
  "guest_exec_command a bh argv limit g =
     (if argv = [] then (Inl (BackendIo ''guest exec needs at least a program''), g)
      else if \<not> ag_known a bh then (Inl (HandleNotFound bh), g)
      else (case ag_connect a g of
        (Inl e, g1) \<Rightarrow> (Inl (qmp_error_to_backend_error e), g1)
      | (Inr _, g1) \<Rightarrow>
          (case ag_exec a (hd argv) (tl argv) g1 of
             (Inl e, g2) \<Rightarrow> (Inl (qmp_error_to_backend_error e), g2)
           | (Inr pid, g2) \<Rightarrow>
               (let secs = (case limit of Some n \<Rightarrow> n | None \<Rightarrow> 60) in
                case poll_exec a pid 100 (rounds_within secs 100) g2 of
                  (Inl e, g3) \<Rightarrow> (Inl (qmp_error_to_backend_error e), g3)
                | (Inr None, g3) \<Rightarrow>
                    (Inl (qmp_error_to_backend_error (QmpCommandFailed (exec_name pid) ''Timeout''
                       (''guest command did not finish within '' @ show_nat secs @ ''s''))), g3)
                | (Inr (Some st), g3) \<Rightarrow>
                    (Inr \<lparr>eo_exit_code = as_i32 (code_or (- 1) st), eo_stdout = decoded a (es_out st),
                          eo_stderr = decoded a (es_err st)\<rparr>, g3)))))"

definition guest_check_binary_installed ::
    "'g agent \<Rightarrow> backend_handle \<Rightarrow> string \<Rightarrow> 'g \<Rightarrow> (backend_error + bool) \<times> 'g" where
  "guest_check_binary_installed a bh path g =
     (if \<not> ag_known a bh then (Inl (HandleNotFound bh), g)
      else (case ag_connect a g of
        (Inl e, g1) \<Rightarrow> (Inl (qmp_error_to_backend_error e), g1)
      | (Inr _, g1) \<Rightarrow>
          (case ag_exec a ''/usr/bin/test'' [''-x'', path] g1 of
             (Inl e, g2) \<Rightarrow> (Inl (qmp_error_to_backend_error e), g2)
           | (Inr pid, g2) \<Rightarrow>
               (case poll_exec a pid 200 (rounds_within 5 200) g2 of
                  (Inl e, g3) \<Rightarrow> (Inl (qmp_error_to_backend_error e), g3)
                | (Inr None, g3) \<Rightarrow> (Inr False, g3)
                | (Inr (Some st), g3) \<Rightarrow> (Inr (code_or 0 st = 0), g3)))))"

definition is_guest_agent_available :: "'g agent \<Rightarrow> backend_handle \<Rightarrow> 'g \<Rightarrow> (backend_error + bool) \<times> 'g" where
  "is_guest_agent_available a bh g =
     (if \<not> ag_known a bh then (Inl (HandleNotFound bh), g)
      else (case ag_connect a g of
        (Inl e, g1) \<Rightarrow> (Inl (qmp_error_to_backend_error e), g1)
      | (Inr _, g1) \<Rightarrow> (case ag_ping a g1 of (r, g2) \<Rightarrow> (Inr (r = Inr ()), g2))))"

definition set_guest_display_resolution ::
    "'g agent \<Rightarrow> backend_handle \<Rightarrow> resolution \<Rightarrow> instance_kind \<Rightarrow> 'g \<Rightarrow> (backend_error + unit) \<times> 'g" where
  "set_guest_display_resolution a bh res k g =
     (if \<not> ag_known a bh then (Inl (HandleNotFound bh), g)
      else (case ag_connect a g of
        (Inl e, g1) \<Rightarrow> (Inl (qmp_error_to_backend_error e), g1)
      | (Inr _, g1) \<Rightarrow>
          (case guest_file_write_bytes (ag_file a) ''/etc/andler/display.conf''
                 (''RESOLUTION='' @ show_word (res_width res) @ ''x'' @ show_word (res_height res) @ [CHR 0x0A]) g1 of
             (Inl e, g2) \<Rightarrow> (Inl (BackendIo e), g2)
           | (Inr _, g2) \<Rightarrow>
               (let (cmd, args) = (case k of
                      AndroidVm _ \<Rightarrow> (''systemctl'', [''restart'', ''waydroid-compositor.service''])
                    | LinuxVm _ _ \<Rightarrow> (''/usr/local/bin/andler-apply-resolution'', []))
                in case ag_exec a cmd args g2 of
                  (Inl e, g3) \<Rightarrow> (Inl (qmp_error_to_backend_error e), g3)
                | (Inr pid, g3) \<Rightarrow>
                    (case wait_for_guest_exec a pid 30 g3 of
                       (r, g4) \<Rightarrow> (case r of Inl e \<Rightarrow> Inl (qmp_error_to_backend_error e) | Inr _ \<Rightarrow> Inr (), g4))))))"

section \<open>Killed processes\<close>

text \<open>The agent reports an exit code for a process that ended normally only; a process ended by a
  signal has exited without one.\<close>

definition killed :: "exec_status \<Rightarrow> bool" where
  "killed st \<longleftrightarrow> es_exited st \<and> es_exitcode st = None"

lemma poll_exited: "ag_status a pid g = (Inr st, g1) \<Longrightarrow> es_exited st \<Longrightarrow> poll_exec a pid pause rounds g = (Inr (Some st), g1)"
  by (subst poll_exec.simps) simp

lemma wait_killed:
  "ag_status a pid g = (Inr st, g1) \<Longrightarrow> killed st \<Longrightarrow>
     wait_for_guest_exec a pid secs g = (Inr (decode_guest_exec_data (ag_file a) (es_out st)), g1)"
  by (simp add: wait_for_guest_exec_def poll_exited killed_def code_or_def)

lemma step_killed:
  assumes "ag_exec a (hd argv) (tl argv) g = (Inr pid, g1)" "ag_status a pid g1 = (Inr st, g2)" "killed st"
  shows "run_package_step a argv step g = (Inr (), g2)"
  using assms by (simp add: run_package_step_def wait_killed Let_def)

lemma timeout_at_least: "MIN_GUEST_PACKAGE_TIMEOUT_SECS \<le> guest_package_timeout var"
  by (simp add: guest_package_timeout_def)

text \<open>Every process that is started is killed by a signal.\<close>

definition all_killed :: "'g agent \<Rightarrow> 'g \<Rightarrow> bool" where
  "all_killed a g \<longleftrightarrow> (\<forall>path args. \<exists>pid st. ag_exec a path args g = (Inr pid, g) \<and> ag_status a pid g = (Inr st, g) \<and> killed st)"

lemma all_killedE:
  assumes "all_killed a g"
  obtains pid st where "ag_exec a path args g = (Inr pid, g)" "ag_status a pid g = (Inr st, g)" "killed st"
  using assms unfolding all_killed_def by metis

lemma all_killed_step: "all_killed a g \<Longrightarrow> run_package_step a argv step g = (Inr (), g)"
  by (metis all_killedE step_killed)

text \<open>C11. In a guest that kills every process (out of memory, say) an installation reports success and
  every binary that is asked for is reported as installed, whatever package or path it is; a plain
  command with the same end is reported with exit code \<open>-1\<close>.\<close>

theorem killed_install_reported_done:
  assumes "ag_known a bh" "ag_connect a g = (Inr (), g)" "all_killed a g"
  shows "guest_exec_package a bh package install g = (Inr (), g)
    \<and> guest_check_binary_installed a bh path g = (Inr True, g)
    \<and> (\<exists>out. guest_exec_command a bh (prog # args) limit g = (Inr out, g) \<and> eo_exit_code out = - 1)"
proof (intro conjI)
  obtain pid st where d: "ag_exec a ''/bin/sh'' [''-c'', DETECT_SCRIPT] g = (Inr pid, g)" "ag_status a pid g = (Inr st, g)" "killed st"
    using all_killedE[OF assms(3)] .
  have "wait_for_detection_exit a pid 10 g = (Inr ''apt-get'', g)"
    using d(2,3) by (simp add: wait_for_detection_exit_def poll_exited killed_def code_or_def)
  then show "guest_exec_package a bh package install g = (Inr (), g)"
    using assms d(1) by (simp add: guest_exec_package_def package_commands_def all_killed_step)
  obtain pid2 st2 where c: "ag_exec a ''/usr/bin/test'' [''-x'', path] g = (Inr pid2, g)" "ag_status a pid2 g = (Inr st2, g)" "killed st2"
    using all_killedE[OF assms(3)] .
  then show "guest_check_binary_installed a bh path g = (Inr True, g)"
    using assms by (simp add: guest_check_binary_installed_def poll_exited killed_def code_or_def)
  obtain pid3 st3 where e: "ag_exec a prog args g = (Inr pid3, g)" "ag_status a pid3 g = (Inr st3, g)" "killed st3"
    using all_killedE[OF assms(3)] .
  then show "\<exists>out. guest_exec_command a bh (prog # args) limit g = (Inr out, g) \<and> eo_exit_code out = - 1"
    using assms by (simp add: guest_exec_command_def poll_exited killed_def code_or_def as_i32_def Let_def)
qed

definition killing_agent :: "nat agent" where
  "killing_agent =
     \<lparr>ag_known = (\<lambda>_. True), ag_connect = (\<lambda>g. (Inr (), g)), ag_ping = (\<lambda>g. (Inr (), g)), ag_exec = (\<lambda>p args g. (Inr 1, g)),
      ag_status = (\<lambda>pid g. (Inr \<lparr>es_exitcode = None, es_exited = True, es_out = None, es_err = None\<rparr>, g)),
      ag_sleep = (\<lambda>n g. g),
      ag_file = \<lparr>qa_exec = (\<lambda>p args g. (Inr 1, g)), qa_status = (\<lambda>pid g. (Inl [], g)), qa_open = (\<lambda>p g. (Inl [], g)),
        qa_write = (\<lambda>h s g. (Inl [], g)), qa_close = (\<lambda>h g. (Inl [], g)), qa_sleep = (\<lambda>g. g), qa_encode = (\<lambda>s. s),
        qa_decode = (\<lambda>s. Some s)\<rparr>,
      ag_timeout_var = None\<rparr>"

theorem killed_install_reported_done_witness:
  "guest_exec_package killing_agent ''qemu:1'' ''vim'' True 0 = (Inr (), 0)
   \<and> guest_check_binary_installed killing_agent ''qemu:1'' ''/no/such/file'' 0 = (Inr True, 0)"
proof -
  have "all_killed killing_agent 0" by (simp add: all_killed_def killing_agent_def killed_def)
  moreover have "ag_known killing_agent ''qemu:1''" "ag_connect killing_agent 0 = (Inr (), 0)" by (simp_all add: killing_agent_def)
  ultimately show ?thesis using killed_install_reported_done[of killing_agent "''qemu:1''" 0 "''vim''" True "''/no/such/file''"] by blast
qed

end
