(* ===== verification/QemuLogs.thy ===== *)
theory QemuLogs
  imports Backend Mutators
begin

text \<open>
  The output of QEMU (\<open>drain_to_tracing\<close> of \<open>backends/andler-qemu/src/process.rs\<close>, \<open>read_log_history\<close> of
  \<open>backend.rs\<close>) and the names of its events. Both pipes are drained by a task of their own, each with
  its own handle on \<open>qemu.log\<close>; a task gives its handle up after a write that failed.

  A log that was written without a fault is read back as exactly the lines the subscribers got, in
  any interleaving of the two pipes. A line that is not UTF-8 ends the capture of its pipe.
\<close>

section \<open>Writing\<close>

datatype log_source = LogStdout | LogStderr

record log_line =
  ll_source :: log_source
  ll_line :: string

definition stream_name :: "log_source \<Rightarrow> string" where
  "stream_name src = (case src of LogStdout \<Rightarrow> ''stdout'' | LogStderr \<Rightarrow> ''stderr'')"

definition log_entry :: "log_line \<Rightarrow> string" where
  "log_entry l = ''['' @ stream_name (ll_source l) @ ''] '' @ ll_line l @ [CHR 0x0A]"

text \<open>The lines \<open>next_line\<close> yields before it fails or the pipe ends.\<close>

definition drained_lines :: "string \<Rightarrow> string list" where
  "drained_lines output = takeWhile utf8_valid (lines output)"

record log_state =
  lg_open :: "log_source \<Rightarrow> bool"
  lg_file :: string
  lg_sent :: "log_line list"

text \<open>One line of a pipe; \<open>written\<close> is how many bytes of the entry reached the file.\<close>

definition drain_line :: "log_line \<times> nat \<Rightarrow> log_state \<Rightarrow> log_state" where
  "drain_line = (\<lambda>(l, written) s.
     (if lg_open s (ll_source l)
      then s\<lparr>lg_file := lg_file s @ take written (log_entry l),
             lg_open := (lg_open s)(ll_source l := length (log_entry l) \<le> written)\<rparr>
      else s)\<lparr>lg_sent := lg_sent s @ [l]\<rparr>)"

definition drain_all :: "(log_line \<times> nat) list \<Rightarrow> log_state \<Rightarrow> log_state" where
  "drain_all ls s = fold drain_line ls s"

section \<open>Reading back\<close>

definition parse_log_line :: "string \<Rightarrow> log_line option" where
  "parse_log_line l =
     (case strip_prefix ''[stdout] '' l of
        Some r \<Rightarrow> Some \<lparr>ll_source = LogStdout, ll_line = r\<rparr>
      | None \<Rightarrow> map_option (\<lambda>r. \<lparr>ll_source = LogStderr, ll_line = r\<rparr>) (strip_prefix ''[stderr] '' l))"

text \<open>\<open>None\<close> when the file cannot be read or is not UTF-8.\<close>

definition read_log_history :: "string option \<Rightarrow> log_line list" where
  "read_log_history content =
     (case content of None \<Rightarrow> []
      | Some s \<Rightarrow> if utf8_valid s then List.map_filter parse_log_line (lines s) else [])"

section \<open>Events\<close>

datatype qmp_event =
    VserportChanged | ShutdownEvent | ResetEvent | PowerdownEvent | DeviceDeleted | BlockIoError | BlockJob | GuestPanicked
  | WatchdogEvent | StoppedEvent | ResumedEvent | OtherEvent

definition map_qmp_event :: "string \<Rightarrow> qmp_event" where
  "map_qmp_event nm =
     (case map_of [(''VSERPORT_CHANGED'', VserportChanged), (''SHUTDOWN'', ShutdownEvent), (''RESET'', ResetEvent),
         (''POWERDOWN'', PowerdownEvent), (''DEVICE_DELETED'', DeviceDeleted), (''BLOCK_IO_ERROR'', BlockIoError),
         (''GUEST_PANICKED'', GuestPanicked), (''WATCHDOG'', WatchdogEvent), (''STOP'', StoppedEvent),
         (''RESUME'', ResumedEvent)] nm of
        Some e \<Rightarrow> e
      | None \<Rightarrow> if starts_with ''BLOCK_JOB'' nm then BlockJob else OtherEvent)"

section \<open>What was logged is what is read\<close>

definition plain_line :: "string \<Rightarrow> bool" where
  "plain_line l \<longleftrightarrow> utf8_valid l \<and> CHR 0x0A \<notin> set l \<and> (l \<noteq> [] \<longrightarrow> last l \<noteq> CHR 0x0D)"

lemma utf8_append: "utf8_valid a \<Longrightarrow> utf8_valid (a @ b) = utf8_valid b"
  by (induction a rule: utf8_valid.induct) (auto simp: Let_def split: if_splits list.splits)

lemma lines_entry:
  assumes "CHR 0x0A \<notin> set l" "l \<noteq> [] \<longrightarrow> last l \<noteq> CHR 0x0D"
  shows "lines (l @ CHR 0x0A # rest) = l # lines rest"
  using assms(2) lines_cons[OF assms(1), of rest] by (auto simp: strip_cr_def)

lemma entry_head:
  "log_entry l = (''['' @ stream_name (ll_source l) @ ''] '' @ ll_line l) @ [CHR 0x0A]"
  by (simp add: log_entry_def)

lemma parse_entry: "parse_log_line (''['' @ stream_name (ll_source l) @ ''] '' @ ll_line l) = Some l"
  by (cases "ll_source l") (simp_all add: parse_log_line_def stream_name_def strip_prefix_def starts_with_def)

lemma entry_utf8: "plain_line (ll_line l) \<Longrightarrow> utf8_valid (log_entry l)"
proof -
  assume "plain_line (ll_line l)"
  then have v: "utf8_valid (ll_line l)" by (simp add: plain_line_def)
  have "utf8_valid ''[stdout] ''" by code_simp
  moreover have "utf8_valid ''[stderr] ''" by code_simp
  ultimately have "utf8_valid (''['' @ stream_name (ll_source l) @ ''] '')"
    by (cases "ll_source l") (simp_all add: stream_name_def del: utf8_valid.simps)
  then have "utf8_valid (log_entry l) = utf8_valid (ll_line l @ [CHR 0x0A])"
    unfolding log_entry_def using utf8_append[of "''['' @ stream_name (ll_source l) @ ''] ''"] by simp
  also have "\<dots> = utf8_valid [CHR 0x0A]" by (rule utf8_append[OF v])
  also have "\<dots> = True" by code_simp
  finally show ?thesis by (simp del: utf8_valid.simps)
qed

lemma entry_lines:
  assumes "plain_line (ll_line l)"
  shows "lines (log_entry l @ rest) = (''['' @ stream_name (ll_source l) @ ''] '' @ ll_line l) # lines rest"
proof -
  let ?h = "''['' @ stream_name (ll_source l) @ ''] '' @ ll_line l"
  have "CHR 0x0A \<notin> set ?h" using assms by (cases "ll_source l") (auto simp: plain_line_def stream_name_def)
  moreover have "?h \<noteq> [] \<longrightarrow> last ?h \<noteq> CHR 0x0D" using assms by (cases "ll_source l") (auto simp: plain_line_def stream_name_def)
  ultimately show ?thesis using lines_entry[of ?h rest] by (simp add: entry_head)
qed

lemma history_of_entries:
  assumes "\<forall>l \<in> set ls. plain_line (ll_line l)"
  shows "utf8_valid (concat (map log_entry ls)) \<and> List.map_filter parse_log_line (lines (concat (map log_entry ls))) = ls"
  using assms
proof (induction ls)
  case (Cons l ls)
  then have "plain_line (ll_line l)" by simp
  with Cons show ?case
    by (simp add: utf8_append[OF entry_utf8] entry_lines map_filter_simps(1) parse_entry[simplified] del: utf8_valid.simps)
qed (simp add: map_filter_simps)

lemma drained_file:
  assumes "\<forall>(l, written) \<in> set ls. length (log_entry l) \<le> written" "\<forall>src. lg_open s src"
  shows "lg_file (drain_all ls s) = lg_file s @ concat (map (log_entry \<circ> fst) ls)
    \<and> lg_sent (drain_all ls s) = lg_sent s @ map fst ls"
  using assms
proof (induction ls arbitrary: s)
  case (Cons x ls)
  obtain l k where x: "x = (l, k)" by (cases x)
  let ?t = "drain_line x s"
  have t: "\<forall>src. lg_open ?t src" "lg_file ?t = lg_file s @ log_entry l" "lg_sent ?t = lg_sent s @ [l]"
    using Cons.prems x by (auto simp: drain_line_def)
  from Cons.IH[of ?t] Cons.prems(1) t x show ?case by (simp add: drain_all_def)
qed (simp add: drain_all_def)

text \<open>As long as no write fails, the log file is read back as exactly the lines the subscribers were
  sent, in their order, however the two pipes interleave.\<close>

theorem log_history_is_what_was_sent:
  assumes "lg_file s = []" "lg_sent s = []" "\<forall>src. lg_open s src"
    and "\<forall>(l, written) \<in> set ls. length (log_entry l) \<le> written \<and> plain_line (ll_line l)"
  shows "read_log_history (Some (lg_file (drain_all ls s))) = lg_sent (drain_all ls s)"
proof -
  have "\<forall>(l, written) \<in> set ls. length (log_entry l) \<le> written" using assms(4) by auto
  note d = drained_file[OF this assms(3)]
  have "\<forall>l \<in> set (map fst ls). plain_line (ll_line l)" using assms(4) by auto
  from history_of_entries[OF this] d assms(1,2) show ?thesis
    by (simp add: read_log_history_def comp_def)
qed

definition fresh_log :: log_state where
  "fresh_log = \<lparr>lg_open = (\<lambda>_. True), lg_file = [], lg_sent = []\<rparr>"

theorem log_history_is_what_was_sent_witness:
  "read_log_history (Some (lg_file (drain_all
      [(\<lparr>ll_source = LogStdout, ll_line = ''ready''\<rparr>, 99), (\<lparr>ll_source = LogStderr, ll_line = ''[stdout] no''\<rparr>, 99)] fresh_log)))
    = [\<lparr>ll_source = LogStdout, ll_line = ''ready''\<rparr>, \<lparr>ll_source = LogStderr, ll_line = ''[stdout] no''\<rparr>]"
proof -
  let ?ls = "[(\<lparr>ll_source = LogStdout, ll_line = ''ready''\<rparr>, 99), (\<lparr>ll_source = LogStderr, ll_line = ''[stdout] no''\<rparr>, 99)]"
  have "lg_file fresh_log = []" "lg_sent fresh_log = []" "\<forall>src. lg_open fresh_log src" by (simp_all add: fresh_log_def)
  moreover have "\<forall>(l, written) \<in> set ?ls. length (log_entry l) \<le> written \<and> plain_line (ll_line l)"
    by code_simp
  ultimately have "read_log_history (Some (lg_file (drain_all ?ls fresh_log))) = lg_sent (drain_all ?ls fresh_log)"
    by (rule log_history_is_what_was_sent)
  then show ?thesis by (simp add: drain_all_def drain_line_def fresh_log_def)
qed

text \<open>A line that is not UTF-8 is the last of its pipe: nothing after it is captured.\<close>

lemma invalid_line_ends_capture:
  "lines output = before @ bad # after \<Longrightarrow> \<not> utf8_valid bad \<Longrightarrow> length (drained_lines output) \<le> length before"
  by (simp add: drained_lines_def takeWhile_append length_takeWhile_le)

end
