(* ===== verification/Spec2Isabelle.thy ===== *)
theory Spec2Isabelle
  imports Sizes Config Fsm Readiness Keypath Draft Errors Store Qcow2 DiskChain
    SnapshotCreate SnapshotRestore SnapshotDelete SupervisorRuns Gates Registry RegistryRuns StartGates
    Cmdline Hotplug WireConfig Appliance ImageDownload CreationDemo
    BackendDemo GuestExec QemuLogs
begin

text \<open>
  andler manages virtual machines: a daemon (\<open>apps/daemon\<close>) keeps a registry of instances, runs
  each as a QEMU process (\<open>backends/andler-qemu\<close>), keeps their disks as chains of qcow2 layers
  (\<open>services/andler-disk\<close>), records snapshots in SQLite (\<open>services/andler-store\<close>) and is driven over
  gRPC (\<open>services/andler-rpc\<close>) by a command-line client (\<open>apps/cli\<close>). \<open>core/andler-core\<close> holds the data
  model and the pure rules. This development models the core logic of these parts and proves
  what makes it correct, and shows with examples where the code does not do what it means to.

  \<^bold>\<open>How code becomes a definition.\<close> A struct is a record, an enum a datatype, an integer a word of
  its width. A \<open>Result\<close> is a sum with the error on the left, \<open>rbind\<close> is \<open>?\<close>. An error message is
  a constructor with the interpolated values, unless code branches on its text. Strings and
  paths are byte strings. State is passed explicitly: a daemon operation maps the state it reads
  to a result and the state it leaves, on every branch. The outside world is a parameter: each
  of the kinds below is a record of functions with a predicate that states the documented
  laws, and each has an instance that meets them, used by the examples.

  \<^item> \<open>qemu_tool\<close>, \<open>qemu_laws\<close>, instance \<open>ref_tool\<close> (\<open>Qcow2\<close>), and
    \<open>image_laws\<close> with \<open>clone_tool\<close> (\<open>CreationRuns\<close>, \<open>CreationDemo\<close>) for conversions and resizes: what \<open>qemu-img\<close> does to image files. Images are
    sparse block maps with a backing file.
  \<^item> \<open>qmp_peer\<close>, \<open>qmp_laws\<close>, instance \<open>ref_peer\<close> (\<open>Hotplug\<close>): what a guest does with QMP commands.
  \<^item> \<open>qga_peer\<close>, \<open>qga_laws\<close>, instance \<open>ref_qga\<close>, and \<open>fish_line\<close>, \<open>fish_laws\<close>, instance \<open>ref_fish\<close> (\<open>Mutators\<close>): the guest
    agent and the appliance's command interpreter; \<open>session_env\<close>, \<open>session_laws\<close>, instance \<open>ref_session\<close> (\<open>Appliance\<close>): its
    processes and what a remote call documents.
  \<^item> \<open>host_net\<close>, \<open>ip_laws\<close>, \<open>may_delete\<close>, \<open>may_attach\<close> and \<open>backend_env\<close>, \<open>host_laws\<close>, \<open>netdev_laws\<close>, instances \<open>ref_net\<close> and
    \<open>ref_backend\<close> (\<open>HostNet\<close>, \<open>Backend\<close>, \<open>BackendRuns\<close>, \<open>BackendDemo\<close>): \<open>ip\<close> and what it may do to the taps of an instance, processes, \<open>/proc\<close> and the command monitor;
    \<open>agent\<close> (\<open>GuestExec\<close>): commands in a guest.
  \<^item> \<open>digest_world\<close> (\<open>BaseImages\<close>), \<open>network\<close> and \<open>host\<close> (\<open>ImageDownload\<close>), \<open>create_env\<close> (\<open>Creation\<close>), \<open>snap_env\<close> (\<open>Snapshots\<close>), \<open>sup_env\<close> (\<open>Supervisor\<close>), \<open>daemon_env\<close> and \<open>host_system\<close> (\<open>Gates\<close>): clocks, fresh
    identifiers, the outcome of each database, file-system and process call, the text of
    \<open>/proc/meminfo\<close>. They are unconstrained: a theorem holds for every answer.
  \<^item> Library code (serde, tonic, SQLite, TOML) is used by its documented behaviour only.

  \<^bold>\<open>Theories and the code they model.\<close>

  \<^item> \<open>Prelude\<close>: results, characters, decimal numbers, splitting and joining; the locale \<open>codec\<close>.
  \<^item> \<open>Sizes\<close> (\<open>sizes.rs\<close>): \<open>parse_size\<close> and \<open>format_size\<close>; when the one reads what the other writes.
  \<^item> \<open>Config\<close> (\<open>config/*.rs\<close>, \<open>android_profile.rs\<close>): the configuration records, \<open>validate\<close>, instance ids.
    \<open>validate\<close> accepts exactly the well-formed configurations.
  \<^item> \<open>Keypath\<close> (\<open>config/keypath.rs\<close>): the table of configuration keys with getters and setters: round
    trip, frame and exact errors. \<open>Draft\<close> (\<open>config/draft.rs\<close>): creation drafts and their resolution.
  \<^item> \<open>Fsm\<close> (\<open>fsm.rs\<close>): the lifecycle machine. \<open>Readiness\<close> (\<open>events.rs\<close>): the ladder of probe levels, which
    holds the strongest answer in whatever order the answers come.
  \<^item> \<open>Errors\<close> (\<open>daemon/error.rs\<close>): every error and the category clients see.
  \<^item> \<open>Store\<close> (\<open>store.rs\<close>): the snapshot table; it refines a finite map keyed by instance and tag.
  \<^item> \<open>Qcow2\<close> (\<open>qcow2.rs\<close>, \<open>clone.rs\<close>): the \<open>qemu-img\<close> wrappers and what is stored in and read through a chain of
    layers. \<open>DiskChain\<close> (both \<open>disk_chain.rs\<close>): walking the records, finding the head, reconciling
    the table with the chain at start-up.
  \<^item> \<open>Snapshots\<close> (\<open>snapshot_ops.rs\<close>): create, restore, delete and list with every guard and failure
    branch. \<open>SnapshotCreate\<close>, \<open>SnapshotRestore\<close>, \<open>SnapshotDelete\<close>: what a successful run leaves on
    disk and in the table, what a failed one leaves, and what a guest then reads.
    \<open>SnapshotDemo\<close>: the worked example their witnesses share.
  \<^item> \<open>Supervisor\<close>, \<open>SupervisorRuns\<close> (\<open>supervisor.rs\<close>, \<open>ops.rs\<close>): the task that owns an instance: commands,
    completions, operations, the configuration file. \<open>sup_step\<close> is one received command or
    completion; the invariants hold in every reachable state, and the log refines \<open>Fsm\<close>.
  \<^item> \<open>Gates\<close>, \<open>Registry\<close>, \<open>RegistryRuns\<close>, \<open>StartGates\<close> (\<open>instance_ops.rs\<close>, \<open>query_ops.rs\<close>, \<open>mod.rs\<close>): the registry of
    supervisors, the checks of a start, the operations, the step relation \<open>reg_step\<close> they
    refine, and the exclusivity of disks, ports and processors in every run, up to the instances that
    got theirs past the gates, which \<open>reg_run\<close> records.
  \<^item> \<open>Creation\<close>, \<open>CreationRuns\<close>, \<open>CreationDemo\<close> (\<open>instance_ops.rs\<close>, \<open>clone_ops.rs\<close>, \<open>types.rs\<close>, \<open>overlay.rs\<close>): creating,
    cloning, exporting and removing instances, on images, files and registry at once. A failure leaves
    no trace, what was created can start, a clone reads what its source read, a linked one up to the configured size; and what happens to a
    clone when its source is written or purged, or its caller goes away.
  \<^item> \<open>Cmdline\<close> (\<open>cmdline.rs\<close>): the QEMU arguments of a configuration. \<open>Hotplug\<close> (\<open>hotplug_ops.rs\<close>,
    \<open>backend.rs\<close>, \<open>qmp.rs\<close>): attaching and detaching disks down to the QMP commands.
  \<^item> \<open>HostNet\<close> (\<open>andler-net\<close>): bridges and private namespaces. \<open>Backend\<close> (\<open>backend.rs\<close>, \<open>process.rs\<close>): starting,
    taking over, stopping, status, live snapshots, network cards. \<open>BackendRuns\<close>, \<open>BackendStart\<close>,
    \<open>BackendGuest\<close>, \<open>BackendDemo\<close>: a stop gives the host its interfaces back, a failed start leaves at most taps of the instance, an isolated guest
    was probed, and the ways in which a tap, an instance or a network card is lost.
  \<^item> \<open>GuestExec\<close> (\<open>backend.rs\<close>, \<open>package_manager.rs\<close>): commands and packages in a running guest.
    \<open>QemuLogs\<close> (\<open>process.rs\<close>): the log of a guest is read back as it was sent.
  \<^item> \<open>WireEnums\<close>, \<open>Wire\<close>, \<open>WireConfig\<close> (\<open>andler.proto\<close>, \<open>convert.rs\<close>): the messages and their conversions; a
    configuration survives the wire up to a stated normal form.
  \<^item> \<open>Provision\<close> (\<open>provision.rs\<close>, \<open>guest_mutator.rs\<close>, \<open>provision_convert.rs\<close>): file operations in a guest and
    the manifests that list them. \<open>Mutators\<close> (\<open>mutator.rs\<close>, \<open>andler-guestfs\<close>): their two implementations,
    through the agent of a running guest and through scripts to an appliance on its disk.
    \<open>Appliance\<close>: the session of the appliance, its bounds and a way to lose it, and the agreement of the two.
  \<^item> \<open>BaseImages\<close> (\<open>base_image.rs\<close>, \<open>cache.rs\<close>, \<open>base_image_digest.rs\<close>): the cache of base images, what a
    clean-up removes, the memo of digests and the pin of an instance. \<open>ImageDownload\<close>
    (\<open>base_image_download.rs\<close>, \<open>image_ops.rs\<close>): the published catalog, fetching, verifying and
    installing an image, and what failures leave behind.

  \<^bold>\<open>Interfaces.\<close> \<open>codec\<close>, \<open>lossy_codec\<close>, \<open>wire_enum\<close> and \<open>strict_enum\<close> state what conversions owe;
  \<open>exclusive_gate\<close> what a start gate owes to the invariant of the registry; \<open>world_relation\<close> (\<open>CreationRuns\<close>)
  what makes a relation of worlds composable over the steps of an operation. Each is interpreted on the
  model's definitions where those are defined, and the properties rest on the interpreted facts.

  \<^bold>\<open>Fuel.\<close> Walks along backing files and parent links are loops that do not end on cyclic data. They
  take fuel and answer \<open>None\<close> when it runs out; theorems of \<open>Qcow2\<close> and \<open>DiskChain\<close> show that the length of the chain, or the number of records, is enough whenever there is an answer.
  Poll loops with a time limit take the number of rounds their pauses allow (device release, connecting,
  the namespace probe, commands in a guest).

  \<^bold>\<open>Not modelled.\<close> Rendering, terminal dialogues and argument parsing of the client;
  the gRPC service layer, which only dispatches; the processes of libguestfs; the metrics of a guest;
  guest tools and ARM translators; GPU, audio and firmware detection, which read the host; progress fractions (floating point).
  The list of components says for each part what is modelled and what is not.
\<close>

end
